(* ===== verification/JS_Prelude.thy ===== *)
theory JS_Prelude
  imports Complex_Main "HOL-Library.Char_ord" "HOL-Library.List_Lexorder" "HOL-Library.AList"
    "HOL-Library.Code_Target_Numeral"
begin

text \<open>
  The part of the JavaScript language that the SDK's own code relies on, and the lemmas the
  component theories share: strings and their digits, \<open>BigInt(text)\<close> and \<open>String(n)\<close>,
  plain objects with their property order and their prototype, errors as values.

  A JavaScript string is a \<^typ>\<open>string\<close> whose characters are code units (the model
  therefore covers code units up to 255). A JavaScript \<^verbatim>\<open>Map\<close> is an association
  list changed with \<^const>\<open>AList.update\<close> and \<^const>\<open>AList.delete\<close>, which keep the
  insertion order exactly as \<^verbatim>\<open>Map.prototype.set\<close> does.
\<close>

named_theorems js_simps \<open>when a JavaScript primitive returns, and what\<close>

section \<open>Errors as values\<close>

datatype js_error =
    ValidationError string
  | SyntaxError string
  | RangeError string
  | ResolutionError string
  | SemanticError string
  | ReplaySourceMapError string
  | TestingConfigurationError string
  | PlainError string
  | Unmodelled string

type_synonym 'a result = "js_error + 'a"

text \<open>A text between single quotes, as the error messages print names.\<close>

definition quoted :: "string \<Rightarrow> string" where
  "quoted s = CHR 0x27 # s @ [CHR 0x27]"

definition bind_result :: "'a result \<Rightarrow> ('a \<Rightarrow> 'b result) \<Rightarrow> 'b result" where
  "bind_result r f = (case r of Inl e \<Rightarrow> Inl e | Inr x \<Rightarrow> f x)"

lemma bind_result_simps [simp]:
  "bind_result (Inl e) f = Inl e"
  "bind_result (Inr x) f = f x"
  by (simp_all add: bind_result_def)

lemma bind_result_assoc:
  "bind_result (bind_result r f) g = bind_result r (\<lambda>x. bind_result (f x) g)"
  by (simp add: bind_result_def split: sum.splits)

lemma bind_result_Inr_iff [js_simps]:
  "bind_result r f = Inr y \<longleftrightarrow> (\<exists>x. r = Inr x \<and> f x = Inr y)"
  by (cases r) simp_all

lemma bind_result_cong [fundef_cong]:
  "r = r' \<Longrightarrow> (\<And>x. r' = Inr x \<Longrightarrow> f x = f' x) \<Longrightarrow> bind_result r f = bind_result r' f'"
  by (cases r') simp_all

text \<open>\<open>xs.map(f)\<close> where \<open>f\<close> may throw: the first error wins.\<close>

fun map_result :: "('a \<Rightarrow> 'b result) \<Rightarrow> 'a list \<Rightarrow> 'b list result" where
  "map_result f [] = Inr []"
| "map_result f (x # xs) =
     bind_result (f x) (\<lambda>y. bind_result (map_result f xs) (\<lambda>ys. Inr (y # ys)))"

lemma map_result_Inr:
  "(\<And>x. x \<in> set xs \<Longrightarrow> f x = Inr (g x)) \<Longrightarrow> map_result f xs = Inr (map g xs)"
  by (induction xs) simp_all

lemma map_result_length: "map_result f xs = Inr ys \<Longrightarrow> length ys = length xs"
  by (induction xs arbitrary: ys) (auto simp: bind_result_Inr_iff)

lemma map_result_cong [fundef_cong]:
  "xs = ys \<Longrightarrow> (\<And>x. x \<in> set ys \<Longrightarrow> f x = g x) \<Longrightarrow> map_result f xs = map_result g ys"
proof (induction ys arbitrary: xs)
  case Nil
  then show ?case by simp
next
  case (Cons y ys)
  then show ?case by (auto intro!: bind_result_cong)
qed

text \<open>\<open>for (const x of xs) f(x)\<close> where \<open>f\<close> may throw.\<close>

fun each_result :: "('a \<Rightarrow> unit result) \<Rightarrow> 'a list \<Rightarrow> unit result" where
  "each_result f [] = Inr ()"
| "each_result f (x # xs) = bind_result (f x) (\<lambda>_. each_result f xs)"

lemma each_result_cong [fundef_cong]:
  "xs = ys \<Longrightarrow> (\<And>x. x \<in> set ys \<Longrightarrow> f x = g x) \<Longrightarrow> each_result f xs = each_result g ys"
proof (induction ys arbitrary: xs)
  case Nil
  then show ?case by simp
next
  case (Cons y ys)
  then show ?case by (auto intro!: bind_result_cong)
qed

lemma each_result_Inr_iff [js_simps]: "each_result f xs = Inr () \<longleftrightarrow> (\<forall>x \<in> set xs. f x = Inr ())"
  by (induction xs) (auto simp: bind_result_Inr_iff)

section \<open>Callbacks that may throw\<close>

fun every_result :: "('a \<Rightarrow> bool result) \<Rightarrow> 'a list \<Rightarrow> bool result" where
  "every_result f [] = Inr True"
| "every_result f (x # xs) = bind_result (f x) (\<lambda>b. if b then every_result f xs else Inr False)"

fun some_result :: "('a \<Rightarrow> bool result) \<Rightarrow> 'a list \<Rightarrow> bool result" where
  "some_result f [] = Inr False"
| "some_result f (x # xs) = bind_result (f x) (\<lambda>b. if b then Inr True else some_result f xs)"

fun filter_result :: "('a \<Rightarrow> bool result) \<Rightarrow> 'a list \<Rightarrow> 'a list result" where
  "filter_result f [] = Inr []"
| "filter_result f (x # xs) =
     bind_result (f x) (\<lambda>b. bind_result (filter_result f xs) (\<lambda>ys. Inr (if b then x # ys else ys)))"

lemma every_result_cong [fundef_cong]:
  "xs = ys \<Longrightarrow> (\<And>x. x \<in> set ys \<Longrightarrow> f x = g x) \<Longrightarrow> every_result f xs = every_result g ys"
  by (induction ys arbitrary: xs) (auto intro!: bind_result_cong)

lemma some_result_cong [fundef_cong]:
  "xs = ys \<Longrightarrow> (\<And>x. x \<in> set ys \<Longrightarrow> f x = g x) \<Longrightarrow> some_result f xs = some_result g ys"
  by (induction ys arbitrary: xs) (auto intro!: bind_result_cong)

text \<open>\<open>xs.flatMap(f)\<close>\<close>

definition concat_result :: "('a \<Rightarrow> 'b list result) \<Rightarrow> 'a list \<Rightarrow> 'b list result" where
  "concat_result f xs = bind_result (map_result f xs) (\<lambda>yss. Inr (concat yss))"

lemma concat_result_cong [fundef_cong]:
  "xs = ys \<Longrightarrow> (\<And>x. x \<in> set ys \<Longrightarrow> f x = g x) \<Longrightarrow> concat_result f xs = concat_result g ys"
  unfolding concat_result_def by (metis map_result_cong)

lemma every_result_True [js_simps]: "every_result f xs = Inr True \<longleftrightarrow> (\<forall>x \<in> set xs. f x = Inr True)"
  by (induction xs) (auto simp: bind_result_Inr_iff split: if_splits)

lemma some_result_True: "some_result f xs = Inr True \<Longrightarrow> \<exists>x \<in> set xs. f x = Inr True"
  by (induction xs) (auto simp: bind_result_Inr_iff split: if_splits)

lemma filter_result_Inr [js_simps]:
  "filter_result f xs = Inr ys \<longleftrightarrow> (\<forall>x \<in> set xs. \<exists>b. f x = Inr b) \<and> ys = filter (\<lambda>x. f x = Inr True) xs"
proof (induction xs arbitrary: ys)
  case (Cons x xs)
  show ?case
  proof (cases "f x")
    case (Inr b)
    have all: "(\<forall>y \<in> set (x # xs). \<exists>b. f y = Inr b) \<longleftrightarrow> (\<forall>y \<in> set xs. \<exists>b. f y = Inr b)"
      using Inr by simp
    show ?thesis unfolding all using Inr by (auto simp: bind_result_Inr_iff Cons.IH)
  qed simp
qed auto

lemma filter_result_same:
  assumes "filter_result f xs = Inr ys" "\<And>x b. x \<in> set xs \<Longrightarrow> f x = Inr b \<Longrightarrow> g x = Inr b"
  shows "filter_result g xs = Inr ys"
proof -
  have "\<forall>x \<in> set xs. g x = f x" using assms by (auto simp: filter_result_Inr)
  then have "filter_result g xs = filter_result f xs"
    by (induction xs) (auto intro!: bind_result_cong)
  with assms(1) show ?thesis by simp
qed

lemma map_result_nth: "map_result f xs = Inr ys \<Longrightarrow> i < length xs \<Longrightarrow> f (xs ! i) = Inr (ys ! i)"
  by (induction xs arbitrary: ys i) (auto simp: bind_result_Inr_iff nth_Cons split: nat.splits)

lemma map_result_set: "map_result f xs = Inr ys \<Longrightarrow> y \<in> set ys \<Longrightarrow> \<exists>x \<in> set xs. f x = Inr y"
  by (induction xs arbitrary: ys) (auto simp: bind_result_Inr_iff)

lemma concat_result_member: "concat_result f xs = Inr ys \<Longrightarrow> y \<in> set ys \<Longrightarrow> \<exists>x \<in> set xs. \<exists>zs. f x = Inr zs \<and> y \<in> set zs"
proof -
  assume "concat_result f xs = Inr ys" "y \<in> set ys"
  then obtain yss zs where "map_result f xs = Inr yss" "zs \<in> set yss" "y \<in> set zs"
    by (auto simp: concat_result_def bind_result_Inr_iff)
  then show ?thesis using map_result_set [of f xs yss zs] by blast
qed

lemma map_result_total: "(\<And>x. x \<in> set xs \<Longrightarrow> \<exists>y. f x = Inr y) \<Longrightarrow> \<exists>ys. map_result f xs = Inr ys"
proof (induction xs)
  case (Cons x xs)
  then obtain y ys where "f x = Inr y" "map_result f xs = Inr ys" by fastforce
  then show ?case by simp
qed simp

lemma some_result_total: "(\<And>x. x \<in> set xs \<Longrightarrow> \<exists>b. f x = Inr b) \<Longrightarrow> \<exists>b. some_result f xs = Inr b"
proof (induction xs)
  case Nil
  have "some_result f [] = Inr False" by simp
  then show ?case by blast
next
  case (Cons x xs)
  then obtain b c where "f x = Inr b" "some_result f xs = Inr c" by fastforce
  then have "some_result f (x # xs) = Inr (b \<or> c)" by simp
  then show ?case by blast
qed

lemma every_result_total: "(\<And>x. x \<in> set xs \<Longrightarrow> \<exists>b. f x = Inr b) \<Longrightarrow> \<exists>b. every_result f xs = Inr b"
proof (induction xs)
  case Nil
  have "every_result f [] = Inr True" by simp
  then show ?case by blast
next
  case (Cons x xs)
  then obtain b c where "f x = Inr b" "every_result f xs = Inr c" by fastforce
  then have "every_result f (x # xs) = Inr (b \<and> c)" by simp
  then show ?case by blast
qed

section \<open>Decimal digits\<close>

definition is_digit :: "char \<Rightarrow> bool" where
  "is_digit c \<longleftrightarrow> (48 :: nat) \<le> of_char c \<and> (of_char c :: nat) \<le> 57"

definition digit_char :: "nat \<Rightarrow> char" where
  "digit_char d = char_of (48 + d)"

definition digit_value :: "char \<Rightarrow> nat" where
  "digit_value c = of_char c - 48"

lemma digit_value_char [simp]: "d < 10 \<Longrightarrow> digit_value (digit_char d) = d"
  by (simp add: digit_value_def digit_char_def of_char_of)

lemma is_digit_char [simp]: "d < 10 \<Longrightarrow> is_digit (digit_char d)"
  by (simp add: is_digit_def digit_char_def of_char_of)

lemma digit_char_value [simp]: "is_digit c \<Longrightarrow> digit_char (digit_value c) = c"
  by (simp add: is_digit_def digit_char_def digit_value_def)

lemma digit_value_less [simp]: "is_digit c \<Longrightarrow> digit_value c < 10"
  unfolding is_digit_def digit_value_def by linarith

text \<open>The value of a digit string and the canonical digits of a number.\<close>

definition nat_of_digits :: "string \<Rightarrow> nat" where
  "nat_of_digits s = foldl (\<lambda>n c. 10 * n + digit_value c) 0 s"

fun digits_of_nat :: "nat \<Rightarrow> string" where
  "digits_of_nat n =
     (if n < 10 then [digit_char n] else digits_of_nat (n div 10) @ [digit_char (n mod 10)])"

declare digits_of_nat.simps [simp del]

lemma nat_of_digits_Nil [simp]: "nat_of_digits [] = 0"
  by (simp add: nat_of_digits_def)

lemma nat_of_digits_snoc [simp]: "nat_of_digits (s @ [c]) = 10 * nat_of_digits s + digit_value c"
  by (simp add: nat_of_digits_def)

lemma nat_of_digits_append:
  "nat_of_digits (s @ t) = nat_of_digits s * 10 ^ length t + nat_of_digits t"
proof (induction t rule: rev_induct)
  case Nil
  show ?case by simp
next
  case (snoc c t)
  then show ?case
    by (simp add: algebra_simps flip: append_assoc)
qed

lemma nat_of_digits_Cons:
  "nat_of_digits (c # s) = digit_value c * 10 ^ length s + nat_of_digits s"
  using nat_of_digits_append [of "[c]" s] by (simp add: nat_of_digits_def)

lemma digits_of_nat_small: "n < 10 \<Longrightarrow> digits_of_nat n = [digit_char n]"
  by (simp add: digits_of_nat.simps)

lemma digits_of_nat_big:
  "\<not> n < 10 \<Longrightarrow> digits_of_nat n = digits_of_nat (n div 10) @ [digit_char (n mod 10)]"
  by (subst digits_of_nat.simps) simp

lemma nat_of_digits_of_nat [simp]: "nat_of_digits (digits_of_nat n) = n"
proof (induction n rule: digits_of_nat.induct)
  case (1 n)
  then show ?case
    by (cases "n < 10")
      (simp_all add: digits_of_nat_small digits_of_nat_big nat_of_digits_Cons)
qed

lemma digits_of_nat_digits: "list_all is_digit (digits_of_nat n)"
proof (induction n rule: digits_of_nat.induct)
  case (1 n)
  then show ?case
    by (cases "n < 10") (simp_all add: digits_of_nat_small digits_of_nat_big)
qed

lemma digits_of_nat_nonempty [simp]: "digits_of_nat n \<noteq> []"
  by (cases "n < 10") (simp_all add: digits_of_nat_small digits_of_nat_big)

lemma digits_of_nat_length_pos [simp]: "0 < length (digits_of_nat n)"
  by simp

text \<open>The canonical digits have no leading zero.\<close>

lemma digits_of_nat_hd: "0 < n \<Longrightarrow> hd (digits_of_nat n) \<noteq> digit_char 0"
proof (induction n rule: digits_of_nat.induct)
  case (1 n)
  show ?case
  proof (cases "n < 10")
    case True
    have "digit_value (digit_char n) \<noteq> digit_value (digit_char 0)"
      using True "1.prems" by simp
    then have "digit_char n \<noteq> digit_char 0" by fastforce
    with True show ?thesis by (simp add: digits_of_nat_small)
  next
    case False
    with "1.IH" show ?thesis by (simp add: digits_of_nat_big)
  qed
qed

lemma digits_of_nat_length_iff: "length (digits_of_nat n) \<le> k \<longleftrightarrow> n < 10 ^ k" if "0 < k"
  using that
proof (induction n arbitrary: k rule: digits_of_nat.induct)
  case (1 n)
  show ?case
  proof (cases "n < 10")
    case True
    then have "n < 10 ^ k"
      using power_increasing [of 1 k "10::nat"] "1.prems" by (simp add: less_le_trans)
    with True "1.prems" show ?thesis by (simp add: digits_of_nat_small)
  next
    case False
    obtain j where k: "k = Suc j" using "1.prems" by (cases k) auto
    show ?thesis
    proof (cases "j = 0")
      case True
      with False k show ?thesis by (simp add: digits_of_nat_big)
    next
      case j: False
      from "1.IH" [OF False, of j] j
      have "length (digits_of_nat (n div 10)) \<le> j \<longleftrightarrow> n div 10 < 10 ^ j" by simp
      also have "\<dots> \<longleftrightarrow> n < 10 ^ k"
        using k by (simp add: div_less_iff_less_mult mult.commute)
      finally show ?thesis using False k by (simp add: digits_of_nat_big)
    qed
  qed
qed

text \<open>\<open>String(n)\<close> of a bigint or a safe integer.\<close>

definition string_of_int :: "int \<Rightarrow> string" where
  "string_of_int i = (if i < 0 then ''-'' @ digits_of_nat (nat (- i)) else digits_of_nat (nat i))"


lemma string_of_int_nonempty [simp]: "string_of_int i \<noteq> []"
  by (simp add: string_of_int_def)

section \<open>White space, BigInt and Number parsing\<close>

text \<open>The white space and line terminators that \<open>trim\<close> removes (below code unit 256).\<close>

definition is_space :: "char \<Rightarrow> bool" where
  "is_space c \<longleftrightarrow> (of_char c :: nat) \<in> {9, 10, 11, 12, 13, 32, 160}"

definition trim :: "string \<Rightarrow> string" where
  "trim s = rev (dropWhile is_space (rev (dropWhile is_space s)))"

lemma digit_not_space: "is_digit c \<Longrightarrow> \<not> is_space c"
  by (auto simp: is_digit_def is_space_def)

lemma trim_id: "s \<noteq> [] \<Longrightarrow> \<not> is_space (hd s) \<Longrightarrow> \<not> is_space (last s) \<Longrightarrow> trim s = s"
proof -
  assume s: "s \<noteq> []" "\<not> is_space (hd s)" "\<not> is_space (last s)"
  have keep: "dropWhile is_space t = t" if "t \<noteq> []" "\<not> is_space (hd t)" for t
    using that by (cases t) simp_all
  from s show ?thesis by (simp add: trim_def keep hd_rev)
qed

text \<open>
  \<open>BigInt(text)\<close>: the text is trimmed, the empty text is zero, a \<open>0x\<close>, \<open>0o\<close> or \<open>0b\<close>
  prefix selects the radix (without a sign), otherwise decimal digits with an optional sign;
  anything else throws a \<open>SyntaxError\<close>.
\<close>

definition radix_digit :: "char \<Rightarrow> nat option" where
  "radix_digit c =
     (let n = of_char c :: nat in
      if 48 \<le> n \<and> n \<le> 57 then Some (n - 48)
      else if 97 \<le> n \<and> n \<le> 102 then Some (n - 87)
      else if 65 \<le> n \<and> n \<le> 70 then Some (n - 55)
      else None)"

fun radix_value :: "nat \<Rightarrow> nat \<Rightarrow> string \<Rightarrow> nat option" where
  "radix_value r acc [] = Some acc"
| "radix_value r acc (c # s) =
     (case radix_digit c of
        None \<Rightarrow> None
      | Some d \<Rightarrow> if d < r then radix_value r (r * acc + d) s else None)"

definition radix_prefix :: "string \<Rightarrow> nat option" where
  "radix_prefix s =
     (if take 2 s \<in> {''0x'', ''0X''} then Some 16
      else if take 2 s \<in> {''0o'', ''0O''} then Some 8
      else if take 2 s \<in> {''0b'', ''0B''} then Some 2
      else None)"

definition all_digits :: "string \<Rightarrow> bool" where
  "all_digits s \<longleftrightarrow> s \<noteq> [] \<and> list_all is_digit s"

definition bigint_of_string :: "string \<Rightarrow> int result" where
  "bigint_of_string text =
     (let s = trim text; bad = Inl (SyntaxError (''Cannot convert '' @ text @ '' to a BigInt'')) in
      if s = [] then Inr 0
      else case radix_prefix s of
        Some r \<Rightarrow>
          (if drop 2 s = [] then bad
           else case radix_value r 0 (drop 2 s) of None \<Rightarrow> bad | Some n \<Rightarrow> Inr (int n))
      | None \<Rightarrow>
          (if all_digits s then Inr (int (nat_of_digits s))
           else if hd s = CHR ''-'' \<and> all_digits (tl s) then Inr (- int (nat_of_digits (tl s)))
           else if hd s = CHR ''+'' \<and> all_digits (tl s) then Inr (int (nat_of_digits (tl s)))
           else bad))"

lemma all_digits_digits_of_nat [simp]: "all_digits (digits_of_nat n)"
  by (simp add: all_digits_def digits_of_nat_digits)

lemma minus_not_digit [simp]: "\<not> is_digit (CHR ''-'')" "\<not> is_digit (CHR ''.'')"
  by (simp_all add: is_digit_def)

lemma all_digits_ends:
  "all_digits s \<Longrightarrow> \<not> is_space (hd s)" "all_digits s \<Longrightarrow> \<not> is_space (last s)"
  unfolding all_digits_def list_all_iff by (auto intro!: digit_not_space)

lemma all_digits_trim: "all_digits s \<Longrightarrow> trim s = s"
  by (rule trim_id) (simp_all add: all_digits_ends, simp add: all_digits_def)

lemma all_digits_no_radix:
  assumes "all_digits s" shows "radix_prefix s = None"
proof -
  have "\<not> is_digit (CHR ''x'')" "\<not> is_digit (CHR ''X'')" "\<not> is_digit (CHR ''o'')"
    "\<not> is_digit (CHR ''O'')" "\<not> is_digit (CHR ''b'')" "\<not> is_digit (CHR ''B'')"
    by (simp_all add: is_digit_def)
  moreover have "list_all is_digit (take 2 s)"
    using assms by (auto simp: all_digits_def list_all_iff dest: in_set_takeD)
  ultimately show ?thesis
    unfolding radix_prefix_def by (auto simp: list_all_iff)
qed

lemma bigint_of_digits: "all_digits s \<Longrightarrow> bigint_of_string s = Inr (int (nat_of_digits s))"
  by (auto simp: bigint_of_string_def Let_def all_digits_trim all_digits_no_radix all_digits_def)

lemma trim_minus_digits: "all_digits s \<Longrightarrow> trim (CHR ''-'' # s) = CHR ''-'' # s"
  using all_digits_ends(2) [of s]
  by (intro trim_id) (auto simp: all_digits_def, simp add: is_space_def)

lemma bigint_of_minus_digits:
  assumes "all_digits s"
  shows "bigint_of_string (CHR ''-'' # s) = Inr (- int (nat_of_digits s))"
proof -
  have "radix_prefix (CHR ''-'' # s) = None"
    by (simp add: radix_prefix_def numeral_2_eq_2)
  then show ?thesis
    using assms by (simp add: bigint_of_string_def Let_def trim_minus_digits all_digits_def)
qed

text \<open>\<open>BigInt(String(i))\<close> is \<open>i\<close>.\<close>

lemma bigint_of_string_of_int [simp]: "bigint_of_string (string_of_int i) = Inr i"
  by (simp add: string_of_int_def bigint_of_digits bigint_of_minus_digits)

lemma string_of_int_inj: "string_of_int i = string_of_int j \<Longrightarrow> i = j"
  by (metis bigint_of_string_of_int sum.inject(2))

section \<open>Association lists as JavaScript maps\<close>

lemma map_of_update_apply [simp]:
  "map_of (AList.update k v al) j = (if j = k then Some v else map_of al j)"
  by (simp add: update_conv')

lemma keys_update: "fst ` set (AList.update k v al) = insert k (fst ` set al)"
  by (simp add: dom_update)

lemma length_update:
  "length (AList.update k v al) = (if k \<in> fst ` set al then length al else Suc (length al))"
  by (induction al) (auto split: if_splits)

text \<open>\<^verbatim>\<open>for (const [k, v] of es) m.set(k, v)\<close>\<close>

definition update_all :: "('k \<times> 'v) list \<Rightarrow> ('k \<times> 'v) list \<Rightarrow> ('k \<times> 'v) list" where
  "update_all es m = fold (\<lambda>(k, v). AList.update k v) es m"

lemma update_all_simps [simp]:
  "update_all [] m = m"
  "update_all ((k, v) # es) m = update_all es (AList.update k v m)"
  "update_all (es @ fs) m = update_all fs (update_all es m)"
  by (simp_all add: update_all_def)

lemma map_of_update_all: "map_of (update_all es m) = map_of m ++ map_of (rev es)"
  by (induction es arbitrary: m) (auto simp: update_conv' map_add_def fun_eq_iff split: option.splits)

lemma map_of_rev_distinct: "distinct (map fst es) \<Longrightarrow> map_of (rev es) = map_of es"
  by (rule map_of_eqI) (auto simp: map_of_eq_Some_iff rev_map [symmetric] image_image)

lemma distinct_update_all: "distinct (map fst m) \<Longrightarrow> distinct (map fst (update_all es m))"
  by (induction es arbitrary: m) (auto simp: distinct_update)

end
