(* ===== verification/JS_Value.thy ===== *)
theory JS_Value
  imports JS_Prelude
begin

text \<open>
  The JavaScript values of type \<^verbatim>\<open>unknown\<close> that flow through the interpreter as ledger
  payloads. A plain object is the association list of its own properties in enumeration order:
  canonical array indices first, in ascending order, then the other keys in insertion order.
  Reading a key that is not an own property reaches \<^verbatim>\<open>Object.prototype\<close>, whose members are
  \<open>JProto\<close> values; the \<^verbatim>\<open>in\<close> operator sees them too. A \<open>JNum\<close> is an integral number within the
  safe range and a \<open>JHost\<close> is a runtime value object (a closure or a builtin) stored whole in a
  payload; only its kind is visible.
\<close>

datatype js =
    JUndef
  | JNull
  | JBool bool
  | JNum int
  | JBig int
  | JStr string
  | JArr "js list"
  | JObj "(string \<times> js) list"
  | JProto string
  | JHost string

section \<open>Property lists\<close>

text \<open>The keys that JavaScript enumerates first: \<open>"0"\<close>, \<open>"1"\<close>, \dots below \<open>2 ^ 32 - 1\<close>.\<close>

definition is_index :: "string \<Rightarrow> bool" where
  "is_index k \<longleftrightarrow> all_digits k \<and> (hd k \<noteq> CHR ''0'' \<or> k = ''0'') \<and> nat_of_digits k < 2 ^ 32 - 1"

definition enumerated_before :: "string \<Rightarrow> string \<Rightarrow> bool" where
  "enumerated_before k j \<longleftrightarrow> is_index k \<and> (is_index j \<longrightarrow> nat_of_digits k < nat_of_digits j)"

fun insert_property :: "string \<Rightarrow> 'v \<Rightarrow> (string \<times> 'v) list \<Rightarrow> (string \<times> 'v) list" where
  "insert_property k v [] = [(k, v)]"
| "insert_property k v ((j, w) # o') =
     (if enumerated_before k j then (k, v) # (j, w) # o' else (j, w) # insert_property k v o')"

text \<open>\<open>o[k] = v\<close>: an existing own property keeps its place.\<close>

definition obj_set :: "string \<Rightarrow> 'v \<Rightarrow> (string \<times> 'v) list \<Rightarrow> (string \<times> 'v) list" where
  "obj_set k v ps =
     (if k \<in> fst ` set ps then map (\<lambda>(j, w). (j, if j = k then v else w)) ps
      else insert_property k v ps)"

text \<open>\<open>delete o[k]\<close>, \<^verbatim>\<open>Object.fromEntries\<close> and the spread \<^verbatim>\<open>{...o, ...p}\<close>.\<close>

definition obj_delete :: "string \<Rightarrow> (string \<times> 'v) list \<Rightarrow> (string \<times> 'v) list" where
  "obj_delete k ps = filter (\<lambda>(j, w). j \<noteq> k) ps"

definition obj_spread :: "(string \<times> 'v) list \<Rightarrow> (string \<times> 'v) list \<Rightarrow> (string \<times> 'v) list" where
  "obj_spread ps qs = foldl (\<lambda>acc (k, v). obj_set k v acc) ps qs"

definition obj_from_entries :: "(string \<times> 'v) list \<Rightarrow> (string \<times> 'v) list" where
  "obj_from_entries es = obj_spread [] es"

definition object_prototype :: "string list" where
  "object_prototype =
     [''constructor'', ''__defineGetter__'', ''__defineSetter__'', ''hasOwnProperty'',
      ''__lookupGetter__'', ''__lookupSetter__'', ''isPrototypeOf'', ''propertyIsEnumerable'',
      ''toString'', ''valueOf'', ''__proto__'', ''toLocaleString'']"

text \<open>The \<^verbatim>\<open>in\<close> operator and the property read \<open>o[k]\<close>.\<close>

definition obj_has :: "string \<Rightarrow> (string \<times> 'v) list \<Rightarrow> bool" where
  "obj_has k ps \<longleftrightarrow> k \<in> fst ` set ps \<or> k \<in> set object_prototype"

definition obj_get :: "(string \<times> js) list \<Rightarrow> string \<Rightarrow> js" where
  "obj_get ps k =
     (case map_of ps k of
        Some v \<Rightarrow> v
      | None \<Rightarrow> if k \<in> set object_prototype then JProto k else JUndef)"

lemma map_of_insert_property:
  "k \<notin> fst ` set ps \<Longrightarrow> map_of (insert_property k v ps) = (map_of ps)(k \<mapsto> v)"
  by (induction k v ps rule: insert_property.induct) (auto simp: fun_eq_iff)

lemma map_of_obj_set [simp]: "map_of (obj_set k v ps) = (map_of ps)(k \<mapsto> v)"
proof (cases "k \<in> fst ` set ps")
  case True
  have "map_of (map (\<lambda>(j, w). (j, if j = k then v else w)) ps) i
      = (if i = k then map_option (\<lambda>_. v) (map_of ps i) else map_of ps i)" for i
    by (induction ps) auto
  moreover have "map_of ps k \<noteq> None" using True by (simp add: map_of_eq_None_iff)
  ultimately show ?thesis using True by (auto simp: obj_set_def fun_eq_iff)
next
  case False
  then show ?thesis by (simp add: obj_set_def map_of_insert_property)
qed

lemma map_of_obj_delete [simp]: "map_of (obj_delete k ps) = (map_of ps)(k := None)"
  by (induction ps) (auto simp: obj_delete_def fun_eq_iff)

lemma keys_insert_property: "fst ` set (insert_property k v ps) = insert k (fst ` set ps)"
  by (induction k v ps rule: insert_property.induct) auto

lemma keys_obj_set [simp]: "fst ` set (obj_set k v ps) = insert k (fst ` set ps)"
  by (metis dom_fun_upd dom_map_of_conv_image_fst map_of_obj_set option.distinct(1))

lemma keys_obj_delete [simp]: "fst ` set (obj_delete k ps) = fst ` set ps - {k}"
  by (auto simp: obj_delete_def image_iff)

lemma distinct_insert_property:
  "distinct (map fst ps) \<Longrightarrow> k \<notin> fst ` set ps \<Longrightarrow> distinct (map fst (insert_property k v ps))"
  by (induction k v ps rule: insert_property.induct) (auto simp: keys_insert_property)

lemma map_fst_replace: "map fst (map (\<lambda>(j, w). (j, if j = k then v else w)) ps) = map fst ps"
  by (induction ps) auto

lemma distinct_obj_set: "distinct (map fst ps) \<Longrightarrow> distinct (map fst (obj_set k v ps))"
  by (simp add: obj_set_def distinct_insert_property map_fst_replace del: map_map)

lemma distinct_obj_delete: "distinct (map fst ps) \<Longrightarrow> distinct (map fst (obj_delete k ps))"
  by (simp add: obj_delete_def distinct_map_filter)

lemma length_insert_property: "length (insert_property k v ps) = Suc (length ps)"
  by (induction k v ps rule: insert_property.induct) auto

lemma length_obj_set:
  "length (obj_set k v ps) = (if k \<in> fst ` set ps then length ps else Suc (length ps))"
  by (simp add: obj_set_def length_insert_property)

lemma map_of_obj_spread: "map_of (obj_spread ps qs) = map_of ps ++ map_of (rev qs)"
  by (induction qs arbitrary: ps)
    (auto simp: obj_spread_def map_add_def fun_eq_iff split: option.splits)

lemma obj_get_set [simp]:
  "obj_get (obj_set k v ps) j = (if j = k then v else obj_get ps j)"
  by (simp add: obj_get_def)

lemma obj_get_delete_other: "j \<noteq> k \<Longrightarrow> obj_get (obj_delete k ps) j = obj_get ps j"
  by (simp add: obj_get_def)

section \<open>Type tests\<close>

definition is_array :: "js \<Rightarrow> bool" where
  "is_array v = (case v of JArr _ \<Rightarrow> True | _ \<Rightarrow> False)"

text \<open>\<^verbatim>\<open>value !== null && typeof value === "object"\<close>; the prototype's members are functions,
  but for \<^verbatim>\<open>__proto__\<close>, which reads as \<^verbatim>\<open>Object.prototype\<close> itself.\<close>

definition is_object :: "js \<Rightarrow> bool" where
  "is_object v =
     (case v of JArr _ \<Rightarrow> True | JObj _ \<Rightarrow> True | JHost _ \<Rightarrow> True
      | JProto k \<Rightarrow> k = ''__proto__'' | _ \<Rightarrow> False)"

definition is_nullish :: "js \<Rightarrow> bool" where
  "is_nullish v = (v = JUndef \<or> v = JNull)"

text \<open>Own properties of an object that is not an array; an array or a host object has none of the
  named keys the interpreter asks for.\<close>

definition own_properties :: "js \<Rightarrow> (string \<times> js) list" where
  "own_properties v = (case v of JObj ps \<Rightarrow> ps | JHost k \<Rightarrow> [(''kind'', JStr k)] | _ \<Rightarrow> [])"

definition read_own_string :: "js \<Rightarrow> string \<Rightarrow> string option" where
  "read_own_string v k =
     (case map_of (own_properties v) k of Some (JStr s) \<Rightarrow> Some s | _ \<Rightarrow> None)"

end
