(* ===== verification/Runtime_Model.thy ===== *)
theory Runtime_Model
  imports JS_Value
begin

text \<open>
  The data of the DAML-LF interpreter: types, expressions and definitions of a package
  (\<^verbatim>\<open>src/src/daml-lf/model\<close>), and the runtime values and frames the evaluator builds
  (\<^verbatim>\<open>src/src/daml-lf/interpreter\<close>).

  A \<^verbatim>\<open>DamlLfExpression\<close> is a class of optional fields of which its producer
  (\<^verbatim>\<open>lf-2-model-mapper.ts\<close>) sets exactly one; the evaluator tests them in a fixed order. Here it
  is the datatype with one constructor per field. Source locations, which the evaluator ignores,
  are left out, as are the type variables and diagnostic quantifiers of a type.
\<close>

section \<open>Types and definitions\<close>

datatype builtin_type =
    BtUnit | BtBool | BtInt64 | BtDate | BtTimestamp | BtNumeric | BtParty | BtText
  | BtContractId | BtOptional | BtList | BtTextMap | BtGenMap | BtUnknown

record type_con_ref =
  tcr_packageId :: string
  tcr_moduleName :: string
  tcr_name :: string

datatype dlf_type =
  DlfType (builtinType: builtin_type) (typeConReference: "type_con_ref option")
    (typeArguments: "dlf_type list")

record dlf_field =
  field_name :: string
  field_type :: dlf_type

record template_id =
  ti_packageId :: string
  ti_moduleName :: string
  ti_templateName :: string

definition toTypeConReference :: "template_id \<Rightarrow> type_con_ref" where
  "toTypeConReference t =
     \<lparr>tcr_packageId = ti_packageId t, tcr_moduleName = ti_moduleName t, tcr_name = ti_templateName t\<rparr>"

section \<open>Expressions\<close>

datatype builtin_con = ConUnit | ConFalse | ConTrue

text \<open>A pattern of a case alternative, with the optional names its kind reads.\<close>

datatype pattern =
    PDefault
  | PBuiltinCon "builtin_con option"
  | PVariant "string option" "string option" \<comment> \<open>constructor name, binder\<close>
  | POptionalNone
  | POptionalSome "string option"
  | PEnum "string option"
  | PNil
  | PCons "string option" "string option" \<comment> \<open>head binder, tail binder\<close>

datatype expr =
    ETextLiteral string
  | ENumericLiteral string
  | EInt64Literal string
  | EVariable string
  | EBuiltinCon builtin_con
  | EBuiltinFun string
  | ELambda "string list" expr
  | EApplication expr "expr list"
  | ELet "(string \<times> expr) list" expr
  | ERecordCon "(string \<times> expr) list"
  | ERecordProj string expr
  | ERecordUpd string expr expr \<comment> \<open>field, record, value\<close>
  | EThrow expr
  | EVariantCon string expr
  | EOptionalCon "expr option"
  | EEnumCon string
  | EListCon "expr list" "expr option"
  | EUpdate update
  | ECase expr "(pattern \<times> expr) list"
  | EValueRef string string string
  | EUnsupported "string option"
and update =
    UPure "expr option"
  | UEmbedExpr "expr option"
  | UBlock "(string \<times> expr) list" "expr option"
  | UTryCatch "expr option" "string option" "expr option"
  | UCreate "template_id option" "expr option"
  | UFetch "template_id option" "expr option"
  | UFetchInterface "expr option"
  | UExercise "template_id option" "string option" "expr option" "expr option"
  | UExerciseInterface "string option" "expr option" "expr option"
  | UGetTime
  | ULedgerTimeLt "expr option"
  | UOther string

text \<open>\<^verbatim>\<open>sub ?? new DamlLfExpression({})\<close>: an absent subexpression is the empty expression.\<close>

definition or_empty :: "expr option \<Rightarrow> expr" where
  "or_empty e = (case e of Some x \<Rightarrow> x | None \<Rightarrow> EUnsupported None)"

text \<open>A value definition; \<open>vd_ref\<close> is its object identity, the key of identity maps.\<close>

record value_def =
  vd_ref :: nat
  vd_name :: string
  vd_type :: dlf_type
  vd_expression :: expr

datatype data_type_def =
    DefRecord "dlf_field list"
  | DefVariant "(string \<times> dlf_type) list"
  | DefEnum "string list"

record data_type =
  dt_name :: string
  dt_definition :: data_type_def

definition data_type_fields :: "data_type \<Rightarrow> dlf_field list" where
  "data_type_fields d = (case dt_definition d of DefRecord fs \<Rightarrow> fs | _ \<Rightarrow> [])"

record dlf_choice =
  ch_name :: string
  ch_consuming :: bool
  ch_parameterType :: dlf_type
  ch_returnType :: dlf_type

record dlf_template =
  tp_templateId :: template_id
  tp_name :: string
  tp_fields :: "dlf_field list"
  tp_choices :: "dlf_choice list"

datatype dlf_definition =
    DataTypeDefinition data_type
  | ValueDefinition value_def
  | TemplateDefinition dlf_template

record dlf_module =
  mod_name :: string
  mod_definitions :: "dlf_definition list"

record dlf_package =
  pkg_packageId :: string
  pkg_modules :: "dlf_module list"

section \<open>Frames and runtime values\<close>

text \<open>A frame refers to its lexical scope by the scope's address in the evaluator's store.\<close>

record frame =
  fr_frameId :: string
  fr_packageId :: string
  fr_moduleName :: string
  fr_definition :: value_def
  fr_scope :: nat

text \<open>
  \<open>VProto\<close> is a member of \<^verbatim>\<open>Object.prototype\<close> that a record projection has read as a runtime
  value; its \<open>kind\<close> is undefined.
\<close>

datatype rtval =
    VText string
  | VNumeric string
  | VInt64 string
  | VBoolean bool
  | VUnit
  | VParty string
  | VContractId string
  | VContractIds "string list"
  | VLedger js "string option"
  | VRecord "(string \<times> rtval) list"
  | VClosure "string list" expr frame
  | VBuiltin string "rtval list"
  | VProto string

definition kind_of :: "rtval \<Rightarrow> string" where
  "kind_of v =
     (case v of
        VText _ \<Rightarrow> ''text'' | VNumeric _ \<Rightarrow> ''numeric'' | VInt64 _ \<Rightarrow> ''int64''
      | VBoolean _ \<Rightarrow> ''boolean'' | VUnit \<Rightarrow> ''unit'' | VParty _ \<Rightarrow> ''party''
      | VContractId _ \<Rightarrow> ''contractId'' | VContractIds _ \<Rightarrow> ''contractId[]''
      | VLedger _ _ \<Rightarrow> ''ledgerValue'' | VRecord _ \<Rightarrow> ''record''
      | VClosure _ _ _ \<Rightarrow> ''closure'' | VBuiltin _ _ \<Rightarrow> ''builtin'' | VProto _ \<Rightarrow> ''undefined'')"

abbreviation contract_id_marker :: string where
  "contract_id_marker \<equiv> ''__damlLfContractId''"

abbreviation party_marker :: string where
  "party_marker \<equiv> ''__damlLfParty''"

abbreviation numeric_marker :: string where
  "numeric_marker \<equiv> ''__damlLfNumeric''"

abbreviation int64_marker :: string where
  "int64_marker \<equiv> ''__damlLfInt64''"

abbreviation record_id_marker :: string where
  "record_id_marker \<equiv> ''__damlLfRecordId''"

text \<open>\<^verbatim>\<open>{ [marker]: text }\<close>\<close>

definition marked :: "string \<Rightarrow> string \<Rightarrow> js" where
  "marked marker text = JObj [(marker, JStr text)]"

end
