(* ===== verification/Lexical_Scope.thy ===== *)
theory Lexical_Scope
  imports Runtime_Model
begin

text \<open>
  \<^verbatim>\<open>src/src/daml-lf/interpreter/daml-lf-lexical-scope.ts\<close>. Scopes are shared, mutable
  objects: closures keep the frame, and with it the scope, in which they were made, and a
  \<^verbatim>\<open>let\<close> adds its bindings to a scope that is already in use. The store is the list of all
  scopes created so far; the address of a scope is its position, and \<open>new\<close> appends.

  A read follows parents while it has not met the scope before, as the loop of \<open>getBinding\<close> does.
\<close>

record scope =
  sc_bindings :: "(string \<times> rtval) list"
  sc_parent :: "nat option"

type_synonym store = "scope list"

text \<open>An address outside the store is never made by the evaluator; it reads as an empty scope.\<close>

definition scope_at :: "store \<Rightarrow> nat \<Rightarrow> scope" where
  "scope_at h a = (if a < length h then h ! a else \<lparr>sc_bindings = [], sc_parent = None\<rparr>)"

text \<open>\<^verbatim>\<open>new DamlLfLexicalScope(parent)\<close>\<close>

definition new_scope :: "nat option \<Rightarrow> store \<Rightarrow> nat \<times> store" where
  "new_scope p h = (length h, h @ [\<lparr>sc_bindings = [], sc_parent = p\<rparr>])"

definition createChild :: "nat \<Rightarrow> store \<Rightarrow> nat \<times> store" where
  "createChild a h = new_scope (Some a) h"

definition setBinding :: "nat \<Rightarrow> string \<Rightarrow> rtval \<Rightarrow> store \<Rightarrow> store" where
  "setBinding a name v h =
     h[a := (scope_at h a)\<lparr>sc_bindings := AList.update name v (sc_bindings (scope_at h a))\<rparr>]"

text \<open>The scopes the loops visit, innermost first.\<close>

function scopes_from :: "store \<Rightarrow> nat list \<Rightarrow> nat option \<Rightarrow> nat list" where
  "scopes_from h visited None = []"
| "scopes_from h visited (Some a) =
     (if a \<in> set visited \<or> length h \<le> a then []
      else a # scopes_from h (a # visited) (sc_parent (scope_at h a)))"
  by pat_completeness auto

termination
proof (relation "measure (\<lambda>(h, visited, p). card ({..<length h} - set visited))")
  fix h :: store and visited a
  assume "\<not> (a \<in> set visited \<or> length h \<le> a)"
  then have "a \<in> {..<length h} - set visited" by simp
  then have "card ({..<length h} - set visited - {a}) < card ({..<length h} - set visited)"
    by (intro card_Diff1_less) simp_all
  moreover have "{..<length h} - set (a # visited) = {..<length h} - set visited - {a}" by auto
  ultimately show "((h, a # visited, sc_parent (scope_at h a)), (h, visited, Some a))
      \<in> measure (\<lambda>(h, visited, p). card ({..<length h} - set visited))"
    by simp
qed simp

fun first_binding :: "store \<Rightarrow> string \<Rightarrow> nat list \<Rightarrow> rtval option" where
  "first_binding h name [] = None"
| "first_binding h name (a # as) =
     (case map_of (sc_bindings (scope_at h a)) name of
        Some v \<Rightarrow> Some v
      | None \<Rightarrow> first_binding h name as)"

definition getBinding :: "store \<Rightarrow> nat \<Rightarrow> string \<Rightarrow> rtval option" where
  "getBinding h a name = first_binding h name (scopes_from h [] (Some a))"

definition snapshotBindings :: "store \<Rightarrow> nat \<Rightarrow> (string \<times> rtval) list" where
  "snapshotBindings h a =
     fold (\<lambda>s resolved. update_all (sc_bindings (scope_at h s)) resolved)
       (rev (scopes_from h [] (Some a))) []"

section \<open>Well-formed stores\<close>

text \<open>A scope is created after its parent, so every chain ends: parents have smaller addresses.\<close>

definition store_ok :: "store \<Rightarrow> bool" where
  "store_ok h \<longleftrightarrow>
     (\<forall>a < length h. \<forall>p. sc_parent (h ! a) = Some p \<longrightarrow> p < a)
     \<and> (\<forall>a < length h. distinct (map fst (sc_bindings (h ! a))))"

lemma store_ok_Nil [simp]: "store_ok []"
  by (simp add: store_ok_def)

lemma store_ok_createChild: "store_ok h \<Longrightarrow> a < length h \<Longrightarrow> store_ok (snd (createChild a h))"
  by (auto simp: store_ok_def createChild_def new_scope_def nth_append)

lemma store_ok_new_scope: "store_ok h \<Longrightarrow> store_ok (snd (new_scope None h))"
  by (auto simp: store_ok_def new_scope_def nth_append)

lemma store_ok_setBinding: "store_ok h \<Longrightarrow> store_ok (setBinding a name v h)"
  by (auto simp: store_ok_def setBinding_def scope_at_def nth_list_update distinct_update
      split: if_splits)

lemma length_setBinding [simp]: "length (setBinding a name v h) = length h"
  by (simp add: setBinding_def)

lemma sc_parent_setBinding [simp]:
  "sc_parent (scope_at (setBinding a name v h) b) = sc_parent (scope_at h b)"
  by (auto simp: setBinding_def scope_at_def nth_list_update)

lemma sc_bindings_setBinding:
  "a < length h \<Longrightarrow> map_of (sc_bindings (scope_at (setBinding a name v h) b))
     = (if b = a then (map_of (sc_bindings (scope_at h b)))(name \<mapsto> v)
        else map_of (sc_bindings (scope_at h b)))"
  by (auto simp: setBinding_def scope_at_def nth_list_update update_conv')

section \<open>The chain of a scope\<close>

lemma scopes_from_setBinding [simp]:
  "scopes_from (setBinding a name v h) visited p = scopes_from h visited p"
  by (induction h visited p rule: scopes_from.induct) simp_all

text \<open>In a well-formed store the visited set never stops the walk.\<close>

lemma parent_below: "store_ok h \<Longrightarrow> sc_parent (scope_at h a) = Some p \<Longrightarrow> p < a"
  by (auto simp: store_ok_def scope_at_def split: if_splits)

lemma scopes_from_visited:
  "store_ok h \<Longrightarrow> (\<And>x b. x \<in> set visited \<Longrightarrow> p = Some b \<Longrightarrow> b < x) \<Longrightarrow>
     scopes_from h visited p = scopes_from h [] p"
proof (cases p)
  case None
  then show ?thesis by simp
next
  case (Some a)
  assume ok: "store_ok h" and v: "\<And>x b. x \<in> set visited \<Longrightarrow> p = Some b \<Longrightarrow> b < x"
  have "\<forall>vs ws. (\<forall>x \<in> set vs \<union> set ws. a < x) \<longrightarrow>
      scopes_from h vs (Some a) = scopes_from h ws (Some a)"
  proof (induction a rule: less_induct)
    case (less a)
    show ?case
    proof (intro allI impI)
      fix vs ws :: "nat list"
      assume lt: "\<forall>x \<in> set vs \<union> set ws. a < x"
      then have "a \<notin> set vs" "a \<notin> set ws" by auto
      moreover have "scopes_from h (a # vs) (sc_parent (scope_at h a))
          = scopes_from h (a # ws) (sc_parent (scope_at h a))"
      proof (cases "sc_parent (scope_at h a)")
        case (Some q)
        then have "q < a" using parent_below [OF ok] by simp
        have "q < x" if "x \<in> set (a # vs) \<union> set (a # ws)" for x
          using that lt \<open>q < a\<close> by (metis Un_iff less_trans set_ConsD)
        then have "scopes_from h (a # vs) (Some q) = scopes_from h (a # ws) (Some q)"
          using less.IH [OF \<open>q < a\<close>] by blast
        then show ?thesis by (simp only: Some)
      qed simp
      ultimately show "scopes_from h vs (Some a) = scopes_from h ws (Some a)" by simp
    qed
  qed
  moreover have "\<forall>x \<in> set visited \<union> set []. a < x" using v Some by simp
  ultimately show ?thesis unfolding Some by blast
qed

lemma scopes_from_ok:
  assumes "store_ok h" "a < length h"
  shows "scopes_from h [] (Some a) = a # scopes_from h [] (sc_parent (scope_at h a))"
proof -
  have "scopes_from h [a] (sc_parent (scope_at h a)) = scopes_from h [] (sc_parent (scope_at h a))"
    by (rule scopes_from_visited) (use assms parent_below in auto)
  then show ?thesis using assms by simp
qed

lemma scopes_from_below:
  "store_ok h \<Longrightarrow> b \<in> set (scopes_from h visited p) \<Longrightarrow> p = Some a \<Longrightarrow> b \<le> a \<and> b < length h"
proof (induction h visited p arbitrary: a rule: scopes_from.induct)
  case (2 h visited c)
  show ?case
  proof (cases "c \<in> set visited \<or> length h \<le> c \<or> b = c")
    case True
    then show ?thesis using 2 by (auto split: if_splits)
  next
    case False
    then have "b \<in> set (scopes_from h (c # visited) (sc_parent (scope_at h c)))"
      using 2(3) by simp
    moreover from this obtain q where "sc_parent (scope_at h c) = Some q"
      by (cases "sc_parent (scope_at h c)") auto
    ultimately show ?thesis
      using 2(1) [of q] False 2(2,4) parent_below [OF 2(2), of c q] by fastforce
  qed
qed simp

text \<open>Adding scopes does not change what an existing scope sees.\<close>

lemma scope_at_append [simp]: "a < length h \<Longrightarrow> scope_at (h @ k) a = scope_at h a"
  by (simp add: scope_at_def nth_append)

lemma scopes_from_append:
  "store_ok h \<Longrightarrow> (\<And>a. p = Some a \<Longrightarrow> a < length h) \<Longrightarrow>
     scopes_from (h @ k) visited p = scopes_from h visited p"
proof (induction h visited p rule: scopes_from.induct)
  case (2 h visited a)
  then have a: "a < length h" by simp
  then have "sc_parent (scope_at h a) = Some q \<Longrightarrow> q < length h" for q
    using parent_below [OF 2(2)] by fastforce
  then show ?case using a 2 by simp
qed simp

section \<open>What a read finds\<close>

lemma getBinding_ok:
  assumes "store_ok h" "a < length h"
  shows "getBinding h a name =
    (case map_of (sc_bindings (scope_at h a)) name of
       Some v \<Rightarrow> Some v
     | None \<Rightarrow> (case sc_parent (scope_at h a) of None \<Rightarrow> None | Some p \<Rightarrow> getBinding h p name))"
  unfolding getBinding_def scopes_from_ok [OF assms]
  by (cases "sc_parent (scope_at h a)") (simp_all split: option.splits)

lemma first_binding_set_other:
  "a < length h \<Longrightarrow> a \<notin> set as \<Longrightarrow> first_binding (setBinding a name v h) n as = first_binding h n as"
  by (induction as) (auto simp: sc_bindings_setBinding split: option.splits)

lemma getBinding_set_other:
  assumes "store_ok h" "a < length h" "b < a"
  shows "getBinding (setBinding a name v h) b n = getBinding h b n"
  using scopes_from_below [OF assms(1)] assms(3) unfolding getBinding_def scopes_from_setBinding
  by (intro first_binding_set_other [OF assms(2)]) fastforce

lemma getBinding_set:
  assumes "store_ok h" "a < length h"
  shows "getBinding (setBinding a name v h) a n = (if n = name then Some v else getBinding h a n)"
proof -
  have ok: "store_ok (setBinding a name v h)" using assms by (simp add: store_ok_setBinding)
  have "sc_parent (scope_at h a) = Some p \<Longrightarrow>
      getBinding (setBinding a name v h) p n = getBinding h p n" for p
    using getBinding_set_other assms parent_below by blast
  then show ?thesis
    using assms getBinding_ok [OF ok, of a n] getBinding_ok [OF assms, of n]
    by (auto simp: sc_bindings_setBinding split: option.splits)
qed

lemma first_binding_append:
  "\<forall>b \<in> set as. b < length h \<Longrightarrow> first_binding (h @ k) n as = first_binding h n as"
  by (induction as) (simp_all split: option.splits)

lemma getBinding_append:
  assumes "store_ok h" "a < length h"
  shows "getBinding (h @ k) a n = getBinding h a n"
proof -
  have "scopes_from (h @ k) [] (Some a) = scopes_from h [] (Some a)"
    by (rule scopes_from_append) (use assms in auto)
  then show ?thesis
    using scopes_from_below [OF assms(1)] unfolding getBinding_def
    by (metis first_binding_append)
qed

lemma getBinding_child:
  assumes "store_ok h" "a < length h"
  shows "getBinding (snd (createChild a h)) (fst (createChild a h)) n = getBinding h a n"
proof -
  have ok: "store_ok (snd (createChild a h))" using assms by (rule store_ok_createChild)
  have "fst (createChild a h) < length (snd (createChild a h))"
    by (simp add: createChild_def new_scope_def)
  from getBinding_ok [OF ok this, of n] show ?thesis
    using getBinding_append [OF assms]
    by (simp add: createChild_def new_scope_def scope_at_def)
qed

lemma getBinding_fresh: "getBinding (snd (new_scope None h)) (fst (new_scope None h)) n = None"
  by (simp add: getBinding_def new_scope_def scope_at_def)

section \<open>Snapshots\<close>

lemma distinct_bindings: "store_ok h \<Longrightarrow> distinct (map fst (sc_bindings (scope_at h a)))"
  by (auto simp: store_ok_def scope_at_def)

lemma map_of_snapshot_loop:
  assumes "store_ok h"
  shows "map_of (fold (\<lambda>s r. update_all (sc_bindings (scope_at h s)) r) (rev as) []) n
    = first_binding h n as"
  using distinct_bindings [OF assms]
  by (induction as)
    (auto simp: map_of_update_all map_of_rev_distinct map_add_def split: option.splits)

lemma snapshot_getBinding: "store_ok h \<Longrightarrow> map_of (snapshotBindings h a) n = getBinding h a n"
  by (simp add: snapshotBindings_def getBinding_def map_of_snapshot_loop)

lemma distinct_snapshot: "distinct (map fst (snapshotBindings h a))"
proof -
  have "distinct (map fst r) \<Longrightarrow>
      distinct (map fst (fold (\<lambda>s r. update_all (sc_bindings (scope_at h s)) r) as r))" for as r
    by (induction as arbitrary: r) (simp_all add: distinct_update_all)
  then show ?thesis by (simp add: snapshotBindings_def)
qed

section \<open>The interface the evaluator uses\<close>

text \<open>
  What the evaluator relies on when it opens a scope and binds names in it: a child sees what its
  parent sees, a binding shadows, and nothing that exists is disturbed.
\<close>

locale scope_store =
  fixes ok :: "'h \<Rightarrow> bool"
    and valid :: "'h \<Rightarrow> 'a \<Rightarrow> bool"
    and child :: "'a \<Rightarrow> 'h \<Rightarrow> 'a \<times> 'h"
    and bind :: "'a \<Rightarrow> 'n \<Rightarrow> 'v \<Rightarrow> 'h \<Rightarrow> 'h"
    and get :: "'h \<Rightarrow> 'a \<Rightarrow> 'n \<Rightarrow> 'v option"
  assumes ok_child: "ok h \<Longrightarrow> valid h a \<Longrightarrow> ok (snd (child a h))"
    and valid_child: "valid (snd (child a h)) (fst (child a h))"
    and ok_bind: "ok h \<Longrightarrow> ok (bind a n v h)"
    and valid_bind: "valid (bind a n v h) b = valid h b"
    and get_child: "ok h \<Longrightarrow> valid h a \<Longrightarrow> get (snd (child a h)) (fst (child a h)) n = get h a n"
    and get_bind: "ok h \<Longrightarrow> valid h a \<Longrightarrow> get (bind a n v h) a m = (if m = n then Some v else get h a m)"
    and child_keeps: "ok h \<Longrightarrow> valid h b \<Longrightarrow> valid (snd (child a h)) b \<and> get (snd (child a h)) b n = get h b n"
begin

definition bind_all :: "'a \<Rightarrow> ('n \<times> 'v) list \<Rightarrow> 'h \<Rightarrow> 'h" where
  "bind_all a bs h = fold (\<lambda>(n, v). bind a n v) bs h"

lemma ok_bind_all: "ok h \<Longrightarrow> ok (bind_all a bs h)"
  by (induction bs arbitrary: h) (simp_all add: bind_all_def ok_bind split_beta)

lemma valid_bind_all: "valid (bind_all a bs h) b = valid h b"
  by (induction bs arbitrary: h) (simp_all add: bind_all_def valid_bind split_beta)

lemma get_bind_all:
  "ok h \<Longrightarrow> valid h a \<Longrightarrow> get (bind_all a bs h) a n =
     (case map_of (rev bs) n of Some v \<Rightarrow> Some v | None \<Rightarrow> get h a n)"
proof (induction bs arbitrary: h)
  case Nil
  then show ?case by (simp add: bind_all_def)
next
  case (Cons b bs)
  obtain m v where b: "b = (m, v)" by (cases b)
  have "bind_all a (b # bs) h = bind_all a bs (bind a m v h)" by (simp add: bind_all_def b)
  then show ?case
    using Cons.IH [of "bind a m v h"] Cons.prems
    by (auto simp: b ok_bind valid_bind get_bind map_add_def split: option.splits)
qed

text \<open>Opening a child and binding in it: the innermost binding wins, the rest is the parent's view.\<close>

lemma get_scoped:
  assumes "ok h" "valid h a"
  shows "get (bind_all (fst (child a h)) bs (snd (child a h))) (fst (child a h)) n =
     (case map_of (rev bs) n of Some v \<Rightarrow> Some v | None \<Rightarrow> get h a n)"
  by (simp only: get_bind_all [OF ok_child [OF assms] valid_child] get_child [OF assms])

end

definition in_store :: "store \<Rightarrow> nat \<Rightarrow> bool" where
  "in_store h a \<longleftrightarrow> a < length h"

interpretation scopes: scope_store store_ok in_store createChild setBinding getBinding
proof
  show "store_ok h \<Longrightarrow> in_store h a \<Longrightarrow> store_ok (snd (createChild a h))" for h a
    by (simp add: in_store_def store_ok_createChild)
  show "in_store (snd (createChild a h)) (fst (createChild a h))" for a h
    by (simp add: in_store_def createChild_def new_scope_def)
  show "store_ok h \<Longrightarrow> in_store h b \<Longrightarrow> in_store (snd (createChild a h)) b \<and>
      getBinding (snd (createChild a h)) b n = getBinding h b n" for h b a n
    by (simp add: in_store_def createChild_def new_scope_def getBinding_append)
qed (simp_all add: store_ok_setBinding in_store_def getBinding_child getBinding_set)

end
