(* ===== verification/Builtin_Values.thy ===== *)
theory Builtin_Values
  imports Exact_Decimal Runtime_Model
begin

text \<open>
  The reading, wrapping and comparing of runtime values in the builtin dispatcher
  (\<^verbatim>\<open>src/src/daml-lf/interpreter/daml-lf-builtin-dispatch.ts\<close>, the private methods).
  \<^verbatim>\<open>JSON.stringify\<close> equality is equality of the JSON trees: the printed text determines the tree,
  key order included. The JSON text of a closure (which prints its whole frame) is outside the
  model and comparing one is an \<open>Unmodelled\<close> error.
\<close>

section \<open>Reading\<close>

definition expected :: "string \<Rightarrow> rtval \<Rightarrow> js_error" where
  "expected what v =
     ValidationError (''daml lf builtin expected '' @ what @ '', got '' @ quoted (kind_of v))"

fun readInt64 :: "rtval \<Rightarrow> int result" where
  "readInt64 (VInt64 s) = bigint_of_string s"
| "readInt64 (VText s) = bigint_of_string s"
| "readInt64 (VLedger (JStr s) cid) = bigint_of_string s"
| "readInt64 (VLedger (JNum n) cid) = Inr n"
| "readInt64 (VLedger (JBig n) cid) = Inr n"
| "readInt64 v = Inl (expected ''int64'' v)"

fun readText :: "rtval \<Rightarrow> string result" where
  "readText (VText s) = Inr s"
| "readText v = Inl (expected ''text'' v)"

fun readPartyLike :: "rtval \<Rightarrow> string result" where
  "readPartyLike (VParty s) = Inr s"
| "readPartyLike (VText s) = Inr s"
| "readPartyLike (VLedger (JStr s) cid) = Inr s"
| "readPartyLike v = Inl (expected ''party'' v)"

fun readTextLike :: "rtval \<Rightarrow> string result" where
  "readTextLike (VText s) = Inr s"
| "readTextLike (VNumeric s) = Inr s"
| "readTextLike (VInt64 s) = Inr s"
| "readTextLike (VLedger (JStr s) cid) = Inr s"
| "readTextLike (VLedger (JNum n) cid) = Inr (string_of_int n)"
| "readTextLike (VLedger (JBig n) cid) = Inr (string_of_int n)"
| "readTextLike v = Inl (expected ''a text-compatible value'' v)"

fun readStringLikeOrUndefined :: "rtval \<Rightarrow> string option" where
  "readStringLikeOrUndefined (VText s) = Some s"
| "readStringLikeOrUndefined (VNumeric s) = Some s"
| "readStringLikeOrUndefined (VParty s) = Some s"
| "readStringLikeOrUndefined (VInt64 s) = Some s"
| "readStringLikeOrUndefined (VLedger (JStr s) cid) = Some s"
| "readStringLikeOrUndefined v = None"

fun readContractIdLike :: "rtval \<Rightarrow> string result" where
  "readContractIdLike (VContractId s) = Inr s"
| "readContractIdLike (VText s) = Inr s"
| "readContractIdLike (VLedger w (Some s)) = Inr s"
| "readContractIdLike (VLedger w None) =
     (case read_own_string w contract_id_marker of
        Some s \<Rightarrow> Inr s
      | None \<Rightarrow> Inl (expected ''contract id'' (VLedger w None)))"
| "readContractIdLike v = Inl (expected ''contract id'' v)"

fun readExactDecimal :: "rtval \<Rightarrow> exact_decimal result" where
  "readExactDecimal (VNumeric s) = parseExactDecimal s"
| "readExactDecimal v = bind_result (readTextLike v) parseExactDecimal"

definition tryReadExactDecimal :: "rtval \<Rightarrow> exact_decimal option" where
  "tryReadExactDecimal v = (case readExactDecimal v of Inl _ \<Rightarrow> None | Inr d \<Rightarrow> Some d)"

definition compareValues :: "rtval \<Rightarrow> rtval \<Rightarrow> int result" where
  "compareValues l r =
     (case (tryReadExactDecimal l, tryReadExactDecimal r) of
        (Some ld, Some rd) \<Rightarrow> Inr (compareExactDecimals ld rd)
      | _ \<Rightarrow>
          bind_result (readTextLike l) (\<lambda>ls.
          bind_result (readTextLike r) (\<lambda>rs.
          Inr (if ls < rs then -1 else if ls > rs then 1 else 0))))"

definition readNumericScaleWitnessOrThrow :: "rtval \<Rightarrow> int result" where
  "readNumericScaleWitnessOrThrow v =
     bind_result (readTextLike v) (\<lambda>raw.
       let text = trim raw in
       if is_decimal_text text then Inr (int (length (fractional_part (unsigned_part text))))
       else Inl (ValidationError
              (''daml lf builtin expected a numeric scale witness, got '' @ quoted text)))"

fun isNumericCompatible :: "rtval \<Rightarrow> bool" where
  "isNumericCompatible (VInt64 s) = True"
| "isNumericCompatible (VNumeric s) = True"
| "isNumericCompatible (VText s) = True"
| "isNumericCompatible (VLedger (JStr s) cid) = True"
| "isNumericCompatible (VLedger (JNum n) cid) = True"
| "isNumericCompatible (VLedger (JBig n) cid) = True"
| "isNumericCompatible v = False"

fun read_text_item :: "js \<Rightarrow> string result" where
  "read_text_item (JStr s) = Inr s"
| "read_text_item v = Inl (ValidationError ''daml lf builtin expected a text list'')"

fun readTextList :: "rtval \<Rightarrow> string list result" where
  "readTextList (VLedger (JArr items) cid) = map_result read_text_item items"
| "readTextList v = Inl (expected ''a text-list-compatible value'' v)"

definition readTextMap :: "rtval \<Rightarrow> (string \<times> js) list result" where
  "readTextMap v =
     (case v of
        VBuiltin f args \<Rightarrow>
          (if f = ''TEXTMAP_EMPTY'' \<and> args = [] then Inr []
           else Inl (expected ''a text-map-compatible value'' v))
      | VLedger w cid \<Rightarrow>
          (if is_object w \<and> \<not> is_array w then Inr (own_properties w)
           else Inl (expected ''a text-map-compatible value'' v))
      | _ \<Rightarrow> Inl (expected ''a text-map-compatible value'' v))"

definition check_gen_map_entry :: "js \<Rightarrow> js result" where
  "check_gen_map_entry e =
     (if is_object e \<and> obj_has ''key'' (own_properties e) \<and> obj_has ''value'' (own_properties e)
      then Inr e
      else Inl (ValidationError ''daml lf builtin expected a gen-map entry''))"

definition readGenMap :: "rtval \<Rightarrow> js list result" where
  "readGenMap v =
     (case v of
        VBuiltin f args \<Rightarrow>
          (if f = ''GENMAP_EMPTY'' \<and> args = [] then Inr []
           else Inl (expected ''a gen-map-compatible value'' v))
      | VLedger (JArr entries) cid \<Rightarrow> map_result check_gen_map_entry entries
      | _ \<Rightarrow> Inl (expected ''a gen-map-compatible value'' v))"

definition entry_key :: "js \<Rightarrow> js" where
  "entry_key e = obj_get (own_properties e) ''key''"

definition entry_value :: "js \<Rightarrow> js" where
  "entry_value e = obj_get (own_properties e) ''value''"

section \<open>Wrapping and unwrapping\<close>

fun unwrapValue :: "rtval \<Rightarrow> js" where
  "unwrapValue (VRecord fs) = JObj (obj_from_entries (map (\<lambda>(k, v). (k, unwrapValue v)) fs))"
| "unwrapValue (VContractId s) = marked contract_id_marker s"
| "unwrapValue (VParty s) = marked party_marker s"
| "unwrapValue VUnit = JNull"
| "unwrapValue (VText s) = JStr s"
| "unwrapValue (VNumeric s) = JStr s"
| "unwrapValue (VInt64 s) = JStr s"
| "unwrapValue (VBoolean b) = JBool b"
| "unwrapValue (VContractIds ids) = JArr (map JStr ids)"
| "unwrapValue (VLedger w cid) = w"
| "unwrapValue (VClosure ps b fr) = JHost ''closure''"
| "unwrapValue (VBuiltin f args) = JHost ''builtin''"
| "unwrapValue (VProto k) = JProto k"

definition hydrateValue :: "js \<Rightarrow> rtval" where
  "hydrateValue v =
     (case v of
        JNull \<Rightarrow> VUnit
      | JUndef \<Rightarrow> VUnit
      | JStr s \<Rightarrow> VText s
      | JBool b \<Rightarrow> VBoolean b
      | JNum n \<Rightarrow> VText (string_of_int n)
      | JBig n \<Rightarrow> VText (string_of_int n)
      | _ \<Rightarrow>
          (case read_own_string v contract_id_marker of
             Some s \<Rightarrow> VContractId s
           | None \<Rightarrow>
               (case read_own_string v party_marker of
                  Some s \<Rightarrow> VParty s
                | None \<Rightarrow> VLedger v None)))"

section \<open>Equality through JSON\<close>

datatype json =
    JsonNull
  | JsonBool bool
  | JsonNumber int
  | JsonString string
  | JsonArray "json list"
  | JsonObject "(string \<times> json) list"

text \<open>The tree of \<^verbatim>\<open>JSON.stringify(value)\<close>; \<open>None\<close> is a value it leaves out.\<close>

fun keep_defined :: "(string \<times> json option) list \<Rightarrow> (string \<times> json) list" where
  "keep_defined [] = []"
| "keep_defined ((k, None) # ps) = keep_defined ps"
| "keep_defined ((k, Some j) # ps) = (k, j) # keep_defined ps"

definition or_null :: "json option \<Rightarrow> json" where
  "or_null j = (case j of None \<Rightarrow> JsonNull | Some x \<Rightarrow> x)"

fun json_of_js :: "js \<Rightarrow> json option result" where
  "json_of_js JUndef = Inr None"
| "json_of_js JNull = Inr (Some JsonNull)"
| "json_of_js (JBool b) = Inr (Some (JsonBool b))"
| "json_of_js (JNum n) = Inr (Some (JsonNumber n))"
| "json_of_js (JBig n) = Inl (PlainError ''Do not know how to serialize a BigInt'')"
| "json_of_js (JStr s) = Inr (Some (JsonString s))"
| "json_of_js (JArr vs) =
     bind_result (map_result json_of_js vs) (\<lambda>js. Inr (Some (JsonArray (map or_null js))))"
| "json_of_js (JObj ps) =
     bind_result (map_result (\<lambda>(k, v). bind_result (json_of_js v) (\<lambda>j. Inr (k, j))) ps)
       (\<lambda>js. Inr (Some (JsonObject (keep_defined js))))"
| "json_of_js (JProto k) = Inr (if k = ''__proto__'' then Some (JsonObject []) else None)"
| "json_of_js (JHost k) = Inl (Unmodelled ''JSON text of a runtime value object'')"

definition kind_json :: "string \<Rightarrow> (string \<times> json) list \<Rightarrow> json option" where
  "kind_json k ps = Some (JsonObject ((''kind'', JsonString k) # ps))"

fun json_of_rtval :: "rtval \<Rightarrow> json option result" where
  "json_of_rtval (VText s) = Inr (kind_json ''text'' [(''value'', JsonString s)])"
| "json_of_rtval (VNumeric s) = Inr (kind_json ''numeric'' [(''value'', JsonString s)])"
| "json_of_rtval (VInt64 s) = Inr (kind_json ''int64'' [(''value'', JsonString s)])"
| "json_of_rtval (VBoolean b) = Inr (kind_json ''boolean'' [(''value'', JsonBool b)])"
| "json_of_rtval VUnit = Inr (kind_json ''unit'' [])"
| "json_of_rtval (VParty s) = Inr (kind_json ''party'' [(''value'', JsonString s)])"
| "json_of_rtval (VContractId s) = Inr (kind_json ''contractId'' [(''value'', JsonString s)])"
| "json_of_rtval (VContractIds ids) =
     Inr (kind_json ''contractId[]'' [(''value'', JsonArray (map JsonString ids))])"
| "json_of_rtval (VLedger w cid) =
     bind_result (json_of_js w) (\<lambda>j.
       Inr (kind_json ''ledgerValue''
         (keep_defined [(''value'', j), (''contractId'', map_option JsonString cid)])))"
| "json_of_rtval (VRecord fs) =
     bind_result (map_result (\<lambda>(k, v). bind_result (json_of_rtval v) (\<lambda>j. Inr (k, j))) fs)
       (\<lambda>js. Inr (kind_json ''record'' [(''fields'', JsonObject (keep_defined js))]))"
| "json_of_rtval (VClosure ps b fr) = Inl (Unmodelled ''JSON text of a closure'')"
| "json_of_rtval (VBuiltin f args) =
     bind_result (map_result json_of_rtval args)
       (\<lambda>js. Inr (kind_json ''builtin''
          [(''builtinFunction'', JsonString f), (''appliedArguments'', JsonArray (map or_null js))]))"
| "json_of_rtval (VProto k) = Inr (if k = ''__proto__'' then Some (JsonObject []) else None)"

definition areEqual :: "rtval \<Rightarrow> rtval \<Rightarrow> bool result" where
  "areEqual l r =
     (case (readStringLikeOrUndefined l, readStringLikeOrUndefined r) of
        (Some ls, Some rs) \<Rightarrow> Inr (ls = rs)
      | _ \<Rightarrow>
          bind_result (json_of_rtval l) (\<lambda>lj.
          bind_result (json_of_rtval r) (\<lambda>rj. Inr (lj = rj))))"

section \<open>Gen-map entries\<close>

definition key_matches :: "rtval \<Rightarrow> js \<Rightarrow> bool result" where
  "key_matches key e = areEqual (hydrateValue (entry_key e)) key"

fun retain_entries :: "rtval \<Rightarrow> js list \<Rightarrow> js list result" where
  "retain_entries key [] = Inr []"
| "retain_entries key (e # es) =
     bind_result (key_matches key e) (\<lambda>m.
     bind_result (retain_entries key es) (\<lambda>rest. Inr (if m then rest else e # rest)))"

fun find_entry :: "rtval \<Rightarrow> js list \<Rightarrow> js option result" where
  "find_entry key [] = Inr None"
| "find_entry key (e # es) =
     bind_result (key_matches key e) (\<lambda>m. if m then Inr (Some e) else find_entry key es)"

definition insertGenMapEntry :: "js list \<Rightarrow> rtval \<Rightarrow> rtval \<Rightarrow> js list result" where
  "insertGenMapEntry entries key v =
     (let nextEntry = JObj [(''key'', unwrapValue key), (''value'', unwrapValue v)] in
      bind_result (retain_entries key entries) (\<lambda>retained. Inr (retained @ [nextEntry])))"

end
