(* ===== verification/Compilation.thy ===== *)
theory Compilation
  imports Runtime_Model
begin

text \<open>
  Name resolution: \<^verbatim>\<open>src/src/daml-lf/daml-lf-compilation.ts\<close> and
  \<^verbatim>\<open>src/src/daml-lf/semantics/daml-lf-semantic-model.ts\<close>. The five maps of a
  \<^verbatim>\<open>DamlLfCompilation\<close> are association lists in insertion order; the map from value definition
  objects to their identity is keyed by the object reference \<^const>\<open>vd_ref\<close>.
\<close>

section \<open>State\<close>

record module_symbol =
  ms_name :: string
  ms_module :: dlf_module

record type_symbol =
  ts_name :: string
  ts_definition :: data_type

record value_identity =
  vi_packageId :: string
  vi_moduleName :: string
  vi_definitionName :: string

record compilation =
  workspace :: "dlf_package list"
  moduleSymbols :: "(string \<times> module_symbol) list"
  typeSymbols :: "(string \<times> type_symbol) list"
  templates :: "(string \<times> dlf_template) list"
  valueDefinitions :: "(string \<times> value_def) list"
  valueDefinitionIdentities :: "(nat \<times> value_identity) list"

definition new_compilation :: "dlf_package list \<Rightarrow> compilation" where
  "new_compilation ws =
     \<lparr>workspace = ws, moduleSymbols = [], typeSymbols = [], templates = [],
      valueDefinitions = [], valueDefinitionIdentities = []\<rparr>"

section \<open>Keys\<close>

definition createModuleKey :: "string \<Rightarrow> string \<Rightarrow> string" where
  "createModuleKey packageId moduleName = packageId @ ''::'' @ moduleName"

definition createTypeKey :: "string \<Rightarrow> string \<Rightarrow> string \<Rightarrow> string" where
  "createTypeKey packageId moduleName name = packageId @ ''::'' @ moduleName @ ''::'' @ name"

definition createDefinitionKey :: "string \<Rightarrow> string \<Rightarrow> string \<Rightarrow> string" where
  "createDefinitionKey packageId moduleName definitionName =
     packageId @ ''::'' @ moduleName @ ''::'' @ definitionName"

definition createTemplateKey :: "template_id \<Rightarrow> string" where
  "createTemplateKey t = ti_packageId t @ ''::'' @ ti_moduleName t @ ''::'' @ ti_templateName t"

section \<open>Indexing\<close>

definition index_definition ::
    "string \<Rightarrow> string \<Rightarrow> dlf_definition \<Rightarrow> compilation \<Rightarrow> compilation" where
  "index_definition packageId moduleName d c =
     (case d of
        DataTypeDefinition dt \<Rightarrow>
          c\<lparr>typeSymbols := AList.update (createTypeKey packageId moduleName (dt_name dt))
              \<lparr>ts_name = dt_name dt, ts_definition = dt\<rparr> (typeSymbols c)\<rparr>
      | ValueDefinition vd \<Rightarrow>
          c\<lparr>valueDefinitions :=
              AList.update (createDefinitionKey packageId moduleName (vd_name vd)) vd
                (valueDefinitions c),
            valueDefinitionIdentities :=
              AList.update (vd_ref vd)
                \<lparr>vi_packageId = packageId, vi_moduleName = moduleName,
                 vi_definitionName = vd_name vd\<rparr>
                (valueDefinitionIdentities c)\<rparr>
      | TemplateDefinition tp \<Rightarrow>
          c\<lparr>templates := AList.update (createTemplateKey (tp_templateId tp)) tp (templates c)\<rparr>)"

definition index_module :: "string \<Rightarrow> dlf_module \<Rightarrow> compilation \<Rightarrow> compilation" where
  "index_module packageId m c =
     fold (index_definition packageId (mod_name m)) (mod_definitions m)
       (c\<lparr>moduleSymbols := AList.update (createModuleKey packageId (mod_name m))
            \<lparr>ms_name = mod_name m, ms_module = m\<rparr> (moduleSymbols c)\<rparr>)"

definition index_package :: "dlf_package \<Rightarrow> compilation \<Rightarrow> compilation" where
  "index_package p c = fold (index_module (pkg_packageId p)) (pkg_modules p) c"

definition buildIndexes :: "compilation \<Rightarrow> compilation" where
  "buildIndexes c = fold index_package (workspace c) c"

section \<open>Resolution\<close>

definition getModuleSymbolOrThrow :: "compilation \<Rightarrow> string \<Rightarrow> string \<Rightarrow> module_symbol result" where
  "getModuleSymbolOrThrow c packageId moduleName =
     (case map_of (moduleSymbols c) (createModuleKey packageId moduleName) of
        Some s \<Rightarrow> Inr s
      | None \<Rightarrow> Inl (ResolutionError
          (''could not resolve module '' @ quoted moduleName @ '' in package '' @ quoted packageId)))"

definition getTypeSymbolOrThrow :: "compilation \<Rightarrow> type_con_ref \<Rightarrow> type_symbol result" where
  "getTypeSymbolOrThrow c r =
     (case map_of (typeSymbols c) (createTypeKey (tcr_packageId r) (tcr_moduleName r) (tcr_name r)) of
        Some s \<Rightarrow> Inr s
      | None \<Rightarrow> Inl (ResolutionError
          (''could not resolve type '' @ quoted (tcr_name r) @ '' in module ''
            @ quoted (tcr_moduleName r))))"

definition getValueDefinitionOrThrow ::
    "compilation \<Rightarrow> string \<Rightarrow> string \<Rightarrow> string \<Rightarrow> value_def result" where
  "getValueDefinitionOrThrow c packageId moduleName definitionName =
     (case map_of (valueDefinitions c) (createDefinitionKey packageId moduleName definitionName) of
        Some d \<Rightarrow> Inr d
      | None \<Rightarrow> Inl (ResolutionError
          (''could not resolve value definition '' @ quoted definitionName @ '' in module ''
            @ quoted moduleName)))"

definition getModuleOrThrow :: "compilation \<Rightarrow> string \<Rightarrow> string \<Rightarrow> dlf_module result" where
  "getModuleOrThrow c packageId moduleName =
     bind_result (getModuleSymbolOrThrow c packageId moduleName) (\<lambda>s. Inr (ms_module s))"

definition getValueDefinitionIdentityOrThrow :: "compilation \<Rightarrow> value_def \<Rightarrow> value_identity result" where
  "getValueDefinitionIdentityOrThrow c d =
     (case map_of (valueDefinitionIdentities c) (vd_ref d) of
        Some i \<Rightarrow> Inr i
      | None \<Rightarrow> Inl (ResolutionError
          (''could not resolve identity for value definition '' @ quoted (vd_name d))))"

definition getTemplates :: "compilation \<Rightarrow> dlf_template list" where
  "getTemplates c = map snd (templates c)"

definition getTemplateOrThrow :: "compilation \<Rightarrow> template_id \<Rightarrow> dlf_template result" where
  "getTemplateOrThrow c t =
     (case map_of (templates c) (createTemplateKey t) of
        Some tp \<Rightarrow> Inr tp
      | None \<Rightarrow> Inl (SemanticError
          (''could not resolve template '' @ quoted (ti_templateName t) @ '' in module ''
            @ quoted (ti_moduleName t))))"

definition getTemplateChoicesOrThrow :: "compilation \<Rightarrow> template_id \<Rightarrow> dlf_choice list result" where
  "getTemplateChoicesOrThrow c t = bind_result (getTemplateOrThrow c t) (\<lambda>tp. Inr (tp_choices tp))"

text \<open>The semantic model.\<close>

definition getDataTypeOrThrow :: "compilation \<Rightarrow> type_con_ref \<Rightarrow> data_type result" where
  "getDataTypeOrThrow c r = bind_result (getTypeSymbolOrThrow c r) (\<lambda>s. Inr (ts_definition s))"

definition getRecordFieldsOrThrow :: "compilation \<Rightarrow> type_con_ref \<Rightarrow> dlf_field list result" where
  "getRecordFieldsOrThrow c r = bind_result (getDataTypeOrThrow c r) (\<lambda>d. Inr (data_type_fields d))"

definition module_data_types :: "string \<Rightarrow> dlf_module \<Rightarrow> (type_con_ref \<times> data_type) list" where
  "module_data_types packageId m =
     concat (map
       (\<lambda>d. case d of
          DataTypeDefinition dt \<Rightarrow>
            [(\<lparr>tcr_packageId = packageId, tcr_moduleName = mod_name m, tcr_name = dt_name dt\<rparr>, dt)]
        | _ \<Rightarrow> [])
       (mod_definitions m))"

definition getDataTypes :: "compilation \<Rightarrow> (type_con_ref \<times> data_type) list" where
  "getDataTypes c =
     concat (map (\<lambda>p. concat (map (module_data_types (pkg_packageId p)) (pkg_modules p)))
       (workspace c))"

section \<open>Validation\<close>

fun validateTypeOrThrow :: "compilation \<Rightarrow> dlf_type \<Rightarrow> unit result" where
  "validateTypeOrThrow c (DlfType b r args) =
     (if b = BtContractId then
        (if length args \<noteq> 1
         then Inl (SemanticError (''builtin '' @ quoted ''contractId'' @ '' requires 1 type argument''))
         else Inr ())
      else
        bind_result (each_result (validateTypeOrThrow c) args) (\<lambda>_.
          case r of
            None \<Rightarrow> Inr ()
          | Some ref \<Rightarrow> bind_result (getTypeSymbolOrThrow c ref) (\<lambda>_. Inr ())))"

definition validateDataTypeOrThrow :: "compilation \<Rightarrow> data_type \<Rightarrow> unit result" where
  "validateDataTypeOrThrow c d =
     (case dt_definition d of
        DefRecord fs \<Rightarrow> each_result (\<lambda>f. validateTypeOrThrow c (field_type f)) fs
      | DefVariant cs \<Rightarrow> each_result (\<lambda>(n, t). validateTypeOrThrow c t) cs
      | DefEnum _ \<Rightarrow> Inr ())"

definition validate_template :: "compilation \<Rightarrow> dlf_template \<Rightarrow> unit result" where
  "validate_template c tp =
     bind_result (getTypeSymbolOrThrow c (toTypeConReference (tp_templateId tp))) (\<lambda>_.
     bind_result (each_result (\<lambda>f. validateTypeOrThrow c (field_type f)) (tp_fields tp)) (\<lambda>_.
     each_result (\<lambda>ch.
       bind_result (validateTypeOrThrow c (ch_parameterType ch)) (\<lambda>_.
       validateTypeOrThrow c (ch_returnType ch))) (tp_choices tp)))"

definition validate_definition :: "compilation \<Rightarrow> dlf_definition \<Rightarrow> unit result" where
  "validate_definition c d =
     (case d of
        ValueDefinition vd \<Rightarrow> validateTypeOrThrow c (vd_type vd)
      | DataTypeDefinition dt \<Rightarrow> validateDataTypeOrThrow c dt
      | TemplateDefinition tp \<Rightarrow> validate_template c tp)"

definition validateReferencesOrThrow :: "compilation \<Rightarrow> unit result" where
  "validateReferencesOrThrow c =
     each_result (\<lambda>p. each_result (\<lambda>m. each_result (validate_definition c) (mod_definitions m))
       (pkg_modules p)) (workspace c)"

definition createOrThrow :: "dlf_package list \<Rightarrow> compilation result" where
  "createOrThrow ws =
     (let c = buildIndexes (new_compilation ws) in
      bind_result (validateReferencesOrThrow c) (\<lambda>_. Inr c))"

definition createForTemplateGeneration :: "dlf_package list \<Rightarrow> compilation" where
  "createForTemplateGeneration ws = buildIndexes (new_compilation ws)"

end
