(* ===== verification/Evaluator_Values.thy ===== *)
theory Evaluator_Values
  imports Builtin_Values Compilation
begin

text \<open>
  The pure part of the evaluator (\<^verbatim>\<open>src/src/daml-lf/interpreter/daml-lf-evaluator.ts\<close>): how a
  ledger payload becomes a runtime value and back, how record fields are found by name or by
  position through the semantic model, and how patterns match.
\<close>

section \<open>Embedded markers\<close>

text \<open>\<open>value.sum.oneofKind === kind && typeof value.sum[kind] === "string"\<close>\<close>

definition read_sum :: "js \<Rightarrow> string \<Rightarrow> string option" where
  "read_sum v kind =
     (let s = obj_get (own_properties v) ''sum'' in
      if read_own_string s ''oneofKind'' = Some kind then read_own_string s kind else None)"

definition readEmbeddedContractId :: "js \<Rightarrow> string option" where
  "readEmbeddedContractId v =
     (case read_own_string v contract_id_marker of
        Some s \<Rightarrow> Some s
      | None \<Rightarrow> read_sum v ''contractId'')"

fun all_some :: "'a option list \<Rightarrow> 'a list option" where
  "all_some [] = Some []"
| "all_some (None # xs) = None"
| "all_some (Some x # xs) = map_option (\<lambda>ys. x # ys) (all_some xs)"

definition readEmbeddedContractIdArray :: "js \<Rightarrow> string list option" where
  "readEmbeddedContractIdArray v =
     (case v of
        JArr items \<Rightarrow> (if items = [] then None else all_some (map readEmbeddedContractId items))
      | _ \<Rightarrow> None)"

definition readEmbeddedParty :: "js \<Rightarrow> string option" where
  "readEmbeddedParty v =
     (case read_own_string v party_marker of
        Some s \<Rightarrow> Some s
      | None \<Rightarrow> read_sum v ''party'')"

section \<open>Hydrating and unwrapping\<close>

definition hydrateRuntimeValue :: "js \<Rightarrow> string option \<Rightarrow> rtval" where
  "hydrateRuntimeValue v cid =
     (if is_nullish v then VUnit
      else case readEmbeddedContractId v of Some s \<Rightarrow> VContractId s
      | None \<Rightarrow> (case readEmbeddedContractIdArray v of Some ids \<Rightarrow> VContractIds ids
      | None \<Rightarrow> (case readEmbeddedParty v of Some s \<Rightarrow> VParty s
      | None \<Rightarrow> (case read_own_string v int64_marker of Some s \<Rightarrow> VInt64 s
      | None \<Rightarrow> (case read_own_string v numeric_marker of Some s \<Rightarrow> VNumeric s
      | None \<Rightarrow> (case v of JStr s \<Rightarrow> VText s | JBool b \<Rightarrow> VBoolean b | _ \<Rightarrow> VLedger v cid))))))"

text \<open>A value of any other kind unwraps to its own \<open>value\<close>, or to its kind when it has none.\<close>

fun unwrapRuntimeValue :: "rtval \<Rightarrow> js" where
  "unwrapRuntimeValue (VRecord fs) =
     JObj (obj_from_entries (map (\<lambda>(k, v). (k, unwrapRuntimeValue v)) fs))"
| "unwrapRuntimeValue (VContractIds ids) = JArr (map (marked contract_id_marker) ids)"
| "unwrapRuntimeValue (VContractId s) = marked contract_id_marker s"
| "unwrapRuntimeValue (VParty s) = marked party_marker s"
| "unwrapRuntimeValue (VBuiltin f args) =
     (if f = ''TEXTMAP_EMPTY'' then JObj []
      else if f = ''GENMAP_EMPTY'' then JArr []
      else JStr ''builtin'')"
| "unwrapRuntimeValue (VText s) = JStr s"
| "unwrapRuntimeValue (VNumeric s) = JStr s"
| "unwrapRuntimeValue (VInt64 s) = JStr s"
| "unwrapRuntimeValue (VBoolean b) = JBool b"
| "unwrapRuntimeValue (VLedger w cid) = w"
| "unwrapRuntimeValue VUnit = JNull"
| "unwrapRuntimeValue (VClosure ps body fr) = JStr ''closure''"
| "unwrapRuntimeValue (VProto k) = JUndef"

fun can_project_field :: "rtval \<Rightarrow> bool" where
  "can_project_field (VRecord fs) = list_all (\<lambda>(k, v). can_project_field v) fs"
| "can_project_field (VClosure ps body fr) = False"
| "can_project_field (VBuiltin f args) = False"
| "can_project_field v = True"

definition canProjectRecordAsLedgerValue :: "(string \<times> rtval) list \<Rightarrow> bool" where
  "canProjectRecordAsLedgerValue fs = list_all (\<lambda>(k, v). can_project_field v) fs"

definition createRecordRuntimeValue :: "(string \<times> rtval) list \<Rightarrow> rtval" where
  "createRecordRuntimeValue fs =
     (if canProjectRecordAsLedgerValue fs
      then hydrateRuntimeValue
        (JObj (obj_from_entries (map (\<lambda>(k, v). (k, unwrapRuntimeValue v)) fs))) None
      else VRecord fs)"

section \<open>Record fields through the semantic model\<close>

definition or_empty_string :: "string option \<Rightarrow> string" where
  "or_empty_string s = (case s of Some x \<Rightarrow> x | None \<Rightarrow> [])"

fun find_field :: "string \<Rightarrow> nat \<Rightarrow> dlf_field list \<Rightarrow> (nat \<times> dlf_type) option" where
  "find_field name i [] = None"
| "find_field name i (f # fs) =
     (if field_name f = name then Some (i, field_type f) else find_field name (Suc i) fs)"

definition resolveSemanticRecordField ::
    "compilation \<Rightarrow> (string \<times> js) list \<Rightarrow> string \<Rightarrow> (nat \<times> dlf_type) option" where
  "resolveSemanticRecordField c raw fieldName =
     (let recordId = obj_get raw record_id_marker in
      if \<not> is_object recordId then None
      else
        case getRecordFieldsOrThrow c
          \<lparr>tcr_packageId = or_empty_string (read_own_string recordId ''packageId''),
           tcr_moduleName = or_empty_string (read_own_string recordId ''moduleName''),
           tcr_name = or_empty_string (read_own_string recordId ''entityName'')\<rparr> of
          Inl e \<Rightarrow> None
        | Inr flds \<Rightarrow> find_field fieldName 0 flds)"

definition coerceSemanticFieldValue :: "js \<Rightarrow> dlf_type option \<Rightarrow> js" where
  "coerceSemanticFieldValue v t =
     (case (map_option builtinType t, v) of
        (Some BtInt64, JStr s) \<Rightarrow> marked int64_marker s
      | (Some BtParty, JStr s) \<Rightarrow> marked party_marker s
      | _ \<Rightarrow> v)"

definition record_id :: "type_con_ref \<Rightarrow> js" where
  "record_id r =
     JObj [(''packageId'', JStr (tcr_packageId r)), (''moduleName'', JStr (tcr_moduleName r)),
           (''entityName'', JStr (tcr_name r))]"

definition attachSemanticRecordId :: "js \<Rightarrow> type_con_ref option \<Rightarrow> js" where
  "attachSemanticRecordId v ref =
     (case ref of
        None \<Rightarrow> v
      | Some r \<Rightarrow>
          if \<not> is_object v \<or> is_array v \<or> obj_has record_id_marker (own_properties v) then v
          else JObj (obj_set record_id_marker (record_id r) (own_properties v)))"

definition readLedgerRecordField :: "compilation \<Rightarrow> (string \<times> js) list \<Rightarrow> string \<Rightarrow> js" where
  "readLedgerRecordField c raw fieldName =
     (let semanticField = resolveSemanticRecordField c raw fieldName;
          fieldType = map_option snd semanticField;
          ref = (case fieldType of Some t \<Rightarrow> typeConReference t | None \<Rightarrow> None) in
      if obj_has fieldName raw then
        coerceSemanticFieldValue (attachSemanticRecordId (obj_get raw fieldName) ref) fieldType
      else
        case semanticField of
          None \<Rightarrow> JUndef
        | Some (i, t) \<Rightarrow>
            coerceSemanticFieldValue
              (attachSemanticRecordId (obj_get raw (digits_of_nat i)) (typeConReference t)) (Some t))"

definition createLedgerRecordFieldUpdate ::
    "compilation \<Rightarrow> (string \<times> js) list \<Rightarrow> string \<Rightarrow> js \<Rightarrow> (string \<times> js) list" where
  "createLedgerRecordFieldUpdate c raw fieldName next_value =
     (if obj_has fieldName raw then [(fieldName, next_value)]
      else
        case resolveSemanticRecordField c raw fieldName of
          None \<Rightarrow> [(fieldName, next_value)]
        | Some (i, t) \<Rightarrow> [(digits_of_nat i, next_value)])"

section \<open>Payloads in the field order of their type\<close>

text \<open>
  One pass over the declared fields: a field is read by name, else by position; what was read is
  stored under the field's name, after the recursive call \<open>rec\<close> has put it in order. A member
  inherited from the prototype is no object, so the recursion leaves it as it is.
\<close>

definition normalize_next ::
    "(js \<Rightarrow> type_con_ref option \<Rightarrow> js) \<Rightarrow> (string \<times> js) list \<Rightarrow> js \<Rightarrow> type_con_ref option \<Rightarrow> js" where
  "normalize_next rec raw v ref = (if v \<in> snd ` set raw then rec v ref else v)"

lemma normalize_next_cong [fundef_cong]:
  "raw = raw' \<Longrightarrow> v = v' \<Longrightarrow> ref = ref' \<Longrightarrow>
     (\<And>x. x \<in> snd ` set raw' \<Longrightarrow> rec x ref' = rec' x ref') \<Longrightarrow>
     normalize_next rec raw v ref = normalize_next rec' raw' v' ref'"
  by (simp add: normalize_next_def)

fun normalize_fields ::
    "(js \<Rightarrow> type_con_ref option \<Rightarrow> js) \<Rightarrow> (string \<times> js) list \<Rightarrow> nat \<Rightarrow> dlf_field list \<Rightarrow>
     (string \<times> js) list \<times> string list \<Rightarrow> (string \<times> js) list \<times> string list" where
  "normalize_fields rec raw index [] acc = acc"
| "normalize_fields rec raw index (f # fs) (normal, consumed) =
     (let directValue = obj_get raw (field_name f);
          nextValue = (if directValue \<noteq> JUndef then directValue
                       else obj_get raw (digits_of_nat index)) in
      normalize_fields rec raw (Suc index) fs
        (if nextValue = JUndef then (normal, consumed)
         else
           (obj_set (field_name f)
              (normalize_next rec raw nextValue (typeConReference (field_type f))) normal,
            consumed @ [field_name f, digits_of_nat index])))"

lemma normalize_fields_cong [fundef_cong]:
  "raw = raw' \<Longrightarrow> index = index' \<Longrightarrow> fs = fs' \<Longrightarrow> acc = acc' \<Longrightarrow>
     (\<And>x ref. x \<in> snd ` set raw' \<Longrightarrow> rec x ref = rec' x ref) \<Longrightarrow>
     normalize_fields rec raw index fs acc = normalize_fields rec' raw' index' fs' acc'"
proof (induction fs' arbitrary: index index' acc acc' fs)
  case (Cons f fs')
  then have "normalize_next rec raw v ref = normalize_next rec' raw' v ref" for v ref
    by (intro normalize_next_cong) auto
  then show ?case using Cons by (cases acc') (simp add: Let_def)
qed simp

definition unconsumed :: "string list \<Rightarrow> (string \<times> js) list \<Rightarrow> (string \<times> js) list" where
  "unconsumed consumed raw = filter (\<lambda>(k, v). k \<notin> set consumed) raw"

text \<open>Of an object that is not plain only the kind is visible, and it is a string.\<close>

fun normalizeSemanticRecordValue :: "compilation \<Rightarrow> js \<Rightarrow> type_con_ref option \<Rightarrow> js" where
  "normalizeSemanticRecordValue c (JObj raw) (Some ref) =
     (case getRecordFieldsOrThrow c ref of
        Inl e \<Rightarrow> JObj raw
      | Inr flds \<Rightarrow>
          let (normal, consumed) =
            normalize_fields (normalizeSemanticRecordValue c) raw 0 flds ([], []) in
          JObj (obj_spread normal (unconsumed consumed raw)))"
| "normalizeSemanticRecordValue c v ref = v"

section \<open>Reading runtime values\<close>

fun readContractId :: "rtval \<Rightarrow> string result" where
  "readContractId (VContractId s) = Inr s"
| "readContractId (VText s) = Inr s"
| "readContractId (VLedger w (Some s)) = Inr s"
| "readContractId v = Inl (ValidationError
     (''daml lf expected a contract id-compatible value, got '' @ quoted (kind_of v)))"

fun readRuntimeListOrThrow :: "rtval \<Rightarrow> rtval list result" where
  "readRuntimeListOrThrow (VContractIds ids) = Inr (map VContractId ids)"
| "readRuntimeListOrThrow (VLedger (JArr items) cid) =
     Inr (map (\<lambda>v. hydrateRuntimeValue v None) items)"
| "readRuntimeListOrThrow v = Inl (ValidationError
     (''daml lf expected a list-compatible value, got '' @ quoted (kind_of v)))"

section \<open>Pattern matching\<close>

definition matchesBuiltinConstructor :: "builtin_con option \<Rightarrow> rtval \<Rightarrow> bool" where
  "matchesBuiltinConstructor con v =
     (case con of
        Some ConTrue \<Rightarrow> v = VBoolean True
      | Some ConFalse \<Rightarrow> v = VBoolean False
      | Some ConUnit \<Rightarrow> v = VUnit
      | None \<Rightarrow> False)"

definition matchesCaseAlternative :: "pattern \<Rightarrow> rtval \<Rightarrow> bool" where
  "matchesCaseAlternative p v =
     (case p of
        PDefault \<Rightarrow> True
      | PBuiltinCon con \<Rightarrow> matchesBuiltinConstructor con v
      | POptionalNone \<Rightarrow> kind_of v = ''unit''
      | POptionalSome b \<Rightarrow> kind_of v \<noteq> ''unit''
      | PEnum con \<Rightarrow> (case v of VText s \<Rightarrow> con = Some s | _ \<Rightarrow> False)
      | PNil \<Rightarrow> unwrapRuntimeValue v = JArr []
      | PCons hd_name tl_name \<Rightarrow>
          (case unwrapRuntimeValue v of JArr (item # items) \<Rightarrow> True | _ \<Rightarrow> False)
      | PVariant con b \<Rightarrow>
          is_object (unwrapRuntimeValue v) \<and>
          obj_get (own_properties (unwrapRuntimeValue v)) ''constructor''
            = (case con of Some s \<Rightarrow> JStr s | None \<Rightarrow> JUndef))"

definition pattern_kind :: "pattern \<Rightarrow> string" where
  "pattern_kind p =
     (case p of
        PDefault \<Rightarrow> ''default'' | PBuiltinCon _ \<Rightarrow> ''builtinCon'' | PVariant _ _ \<Rightarrow> ''variant''
      | POptionalNone \<Rightarrow> ''optionalNone'' | POptionalSome _ \<Rightarrow> ''optionalSome''
      | PEnum _ \<Rightarrow> ''enum'' | PNil \<Rightarrow> ''nil'' | PCons _ _ \<Rightarrow> ''cons'')"

fun join :: "string \<Rightarrow> string list \<Rightarrow> string" where
  "join sep [] = []"
| "join sep [s] = s"
| "join sep (s # t # ss) = s @ sep @ join sep (t # ss)"

definition scrutineeDescription :: "rtval \<Rightarrow> string" where
  "scrutineeDescription v =
     (case v of
        VBuiltin f args \<Rightarrow> f @ ''('' @ join '', '' (map kind_of args) @ '')''
      | _ \<Rightarrow> kind_of v)"

fun isUpdateDrivenEntrypointExpression :: "expr \<Rightarrow> bool" where
  "isUpdateDrivenEntrypointExpression (EUpdate u) = True"
| "isUpdateDrivenEntrypointExpression (ELambda ps body) = isUpdateDrivenEntrypointExpression body"
| "isUpdateDrivenEntrypointExpression (ELet bs body) = isUpdateDrivenEntrypointExpression body"
| "isUpdateDrivenEntrypointExpression e = False"

end
