(* ===== verification/Evaluator_State.thy ===== *)
theory Evaluator_State
  imports Lexical_Scope Evaluator_Values
begin

text \<open>
  The state of a \<^verbatim>\<open>DamlLfEvaluator\<close> (\<^verbatim>\<open>src/src/daml-lf/interpreter/daml-lf-evaluator.ts\<close>), the
  steps it reports to a trace sink (\<^verbatim>\<open>daml-lf-trace-sink.interface.ts\<close>), and the state and
  exception passing its methods are written in. A trace sink records what it is given.
\<close>

section \<open>Replay environments and contexts\<close>

record replay_template_id =
  rt_packageId :: "string option"
  rt_moduleName :: "string option"
  rt_entityName :: "string option"

definition toReplayTemplateId :: "template_id option \<Rightarrow> replay_template_id option" where
  "toReplayTemplateId t =
     map_option (\<lambda>x. \<lparr>rt_packageId = Some (ti_packageId x), rt_moduleName = Some (ti_moduleName x),
       rt_entityName = Some (ti_templateName x)\<rparr>) t"

datatype effect_kind = EffCreate | EffExercise | EffArchive | EffFetch | EffLookup

text \<open>Absent payloads and arguments are \<^const>\<open>JUndef\<close>.\<close>

record replay_effect =
  ef_kind :: effect_kind
  ef_contractId :: "string option"
  ef_templateId :: "replay_template_id option"
  ef_choice :: "string option"
  ef_argument :: js
  ef_payload :: js

record contract =
  ct_payload :: js
  ct_templateId :: "replay_template_id option"

datatype entrypoint_kind = EntryCreate | EntryExercise

datatype binding_mode = ModeStandard | ModeCreateWrapper | ModeExerciseWrapper | ModeTemplateChoice

record resolved_definition =
  rd_definition :: value_def
  rd_frameIdentity :: "(string \<times> string) option"
  rd_replayExpression :: expr
  rd_replayBindingMode :: binding_mode

text \<open>The definition resolver is an object of the environment: a parameter of the model.\<close>

record replay_environment =
  env_offset :: string
  env_kind :: entrypoint_kind
  env_templateId :: "replay_template_id option"
  env_contractId :: "string option"
  env_choice :: "string option"
  env_argument :: js
  env_contracts :: "(string \<times> contract) list"
  env_definitionResolver :: "(template_id \<Rightarrow> string \<Rightarrow> resolved_definition result) option"
  env_entrypointExpression :: "expr option"
  env_entrypointBindingMode :: "binding_mode option"
  env_observedCreateContractIds :: "string list option"

record replay_context =
  rc_environment :: replay_environment
  rc_effects :: "replay_effect list"
  rc_createdContracts :: "(string \<times> contract) list"
  rc_observedCreateContractIds :: "string list"
  rc_nextSyntheticContractIdNumber :: nat
  rc_nextObservedCreateIndex :: nat

section \<open>Steps and state\<close>

datatype step_kind = StepStateEffect | StepCall | StepReturn | StepEnterExpression | StepExitExpression

record trace_step =
  ts_kind :: step_kind
  ts_expression :: expr
  ts_frame :: frame
  ts_locals :: "(string \<times> rtval) list"
  ts_value :: "rtval option"
  ts_stateEffect :: "replay_effect option"

text \<open>
  \<open>st_store\<close> holds every lexical scope made so far; \<open>st_trace\<close> is what the sink has received, and
  \<^const>\<open>None\<close> when the caller passed none.
\<close>

record evaluator_state =
  st_store :: store
  st_nextFrameNumber :: nat
  st_activeReplayContext :: "replay_context option"
  st_trace :: "trace_step list option"

section \<open>Results\<close>

text \<open>
  A call returns, throws a DAML exception (\<^verbatim>\<open>DamlLfThrownException\<close>), throws an error of the
  SDK, or does not return within the fuel it was given.
\<close>

datatype 'a outcome = Ok 'a | Thrown rtval | Fail js_error | Diverge

type_synonym 'a m = "evaluator_state \<Rightarrow> 'a outcome \<times> evaluator_state"

definition ret :: "'a \<Rightarrow> 'a m" where
  "ret x s = (Ok x, s)"

definition fail :: "js_error \<Rightarrow> 'a m" where
  "fail e s = (Fail e, s)"

definition throw :: "rtval \<Rightarrow> 'a m" where
  "throw v s = (Thrown v, s)"

definition diverge :: "'a m" where
  "diverge s = (Diverge, s)"

definition and_then :: "'a m \<Rightarrow> ('a \<Rightarrow> 'b m) \<Rightarrow> 'b m" where
  "and_then m f s =
     (case m s of
        (Ok x, s') \<Rightarrow> f x s'
      | (Thrown v, s') \<Rightarrow> (Thrown v, s')
      | (Fail e, s') \<Rightarrow> (Fail e, s')
      | (Diverge, s') \<Rightarrow> (Diverge, s'))"

text \<open>\<^verbatim>\<open>try { m } catch (error) { if (!(error instanceof DamlLfThrownException)) throw error; h }\<close>\<close>

definition catch_thrown :: "'a m \<Rightarrow> (rtval \<Rightarrow> 'a m) \<Rightarrow> 'a m" where
  "catch_thrown m h s =
     (case m s of
        (Thrown v, s') \<Rightarrow> h v s'
      | r \<Rightarrow> r)"

definition lift_result :: "'a result \<Rightarrow> 'a m" where
  "lift_result r = (case r of Inl e \<Rightarrow> fail e | Inr x \<Rightarrow> ret x)"

definition gets :: "(evaluator_state \<Rightarrow> 'a) \<Rightarrow> 'a m" where
  "gets f s = (Ok (f s), s)"

definition modify :: "(evaluator_state \<Rightarrow> evaluator_state) \<Rightarrow> unit m" where
  "modify f s = (Ok (), f s)"

fun map_m :: "('a \<Rightarrow> 'b m) \<Rightarrow> 'a list \<Rightarrow> 'b list m" where
  "map_m f [] = ret []"
| "map_m f (x # xs) = and_then (f x) (\<lambda>y. and_then (map_m f xs) (\<lambda>ys. ret (y # ys)))"

fun fold_m :: "('a \<Rightarrow> 'b \<Rightarrow> 'b m) \<Rightarrow> 'a list \<Rightarrow> 'b \<Rightarrow> 'b m" where
  "fold_m f [] acc = ret acc"
| "fold_m f (x # xs) acc = and_then (f x acc) (fold_m f xs)"

section \<open>Frames, bindings and effects\<close>

definition createFrame :: "compilation \<Rightarrow> value_def \<Rightarrow> (string \<times> string) option \<Rightarrow> frame m" where
  "createFrame c d identityOverride =
     and_then
       (case identityOverride of
          Some i \<Rightarrow> ret i
        | None \<Rightarrow>
            and_then (lift_result (getValueDefinitionIdentityOrThrow c d))
              (\<lambda>i. ret (vi_packageId i, vi_moduleName i)))
       (\<lambda>(packageId, moduleName).
          \<lambda>s. let (a, h) = new_scope None (st_store s) in
            (Ok \<lparr>fr_frameId = ''frame-'' @ digits_of_nat (st_nextFrameNumber s),
                 fr_packageId = packageId, fr_moduleName = moduleName, fr_definition = d,
                 fr_scope = a\<rparr>,
             s\<lparr>st_store := h, st_nextFrameNumber := Suc (st_nextFrameNumber s)\<rparr>))"

definition deriveFrame :: "frame \<Rightarrow> nat \<Rightarrow> frame" where
  "deriveFrame fr a = fr\<lparr>fr_scope := a\<rparr>"

text \<open>\<^verbatim>\<open>this.deriveFrame(frame, frame.scope.createChild())\<close>\<close>

definition child_frame :: "frame \<Rightarrow> frame m" where
  "child_frame fr s =
     (let (a, h) = createChild (fr_scope fr) (st_store s) in
      (Ok (deriveFrame fr a), s\<lparr>st_store := h\<rparr>))"

definition bind_name :: "frame \<Rightarrow> string \<Rightarrow> rtval \<Rightarrow> unit m" where
  "bind_name fr name v = modify (\<lambda>s. s\<lparr>st_store := setBinding (fr_scope fr) name v (st_store s)\<rparr>)"

fun bind_names :: "frame \<Rightarrow> (string \<times> rtval) list \<Rightarrow> unit m" where
  "bind_names fr [] = ret ()"
| "bind_names fr ((name, v) # bs) = and_then (bind_name fr name v) (\<lambda>_. bind_names fr bs)"

text \<open>\<^verbatim>\<open>if (name !== undefined) scope.setBinding(name, value)\<close>\<close>

definition optional_binding :: "string option \<Rightarrow> rtval \<Rightarrow> (string \<times> rtval) list" where
  "optional_binding name v = (case name of Some n \<Rightarrow> [(n, v)] | None \<Rightarrow> [])"

definition onStep ::
    "step_kind \<Rightarrow> expr \<Rightarrow> frame \<Rightarrow> rtval option \<Rightarrow> replay_effect option \<Rightarrow> unit m" where
  "onStep k e fr v eff =
     modify (\<lambda>s. s\<lparr>st_trace := map_option (\<lambda>steps. steps @
       [\<lparr>ts_kind = k, ts_expression = e, ts_frame = fr,
         ts_locals = snapshotBindings (st_store s) (fr_scope fr),
         ts_value = v, ts_stateEffect = eff\<rparr>]) (st_trace s)\<rparr>)"

definition push_effect :: "replay_effect \<Rightarrow> unit m" where
  "push_effect eff =
     modify (\<lambda>s. s\<lparr>st_activeReplayContext :=
       map_option (\<lambda>ctx. ctx\<lparr>rc_effects := rc_effects ctx @ [eff]\<rparr>) (st_activeReplayContext s)\<rparr>)"

definition emitReplayEffect :: "replay_effect \<Rightarrow> expr \<Rightarrow> frame \<Rightarrow> unit m" where
  "emitReplayEffect eff e fr =
     and_then (push_effect eff) (\<lambda>_. onStep StepStateEffect e fr None (Some eff))"

section \<open>Contracts of the active replay\<close>

definition createdContract :: "evaluator_state \<Rightarrow> string \<Rightarrow> contract option" where
  "createdContract s contractId =
     (case st_activeReplayContext s of
        None \<Rightarrow> None
      | Some ctx \<Rightarrow> map_of (rc_createdContracts ctx) contractId)"

definition hydratedContract :: "evaluator_state \<Rightarrow> string \<Rightarrow> contract option" where
  "hydratedContract s contractId =
     (case st_activeReplayContext s of
        None \<Rightarrow> None
      | Some ctx \<Rightarrow> map_of (env_contracts (rc_environment ctx)) contractId)"

definition payload_of :: "contract option \<Rightarrow> js" where
  "payload_of ct = (case ct of Some x \<Rightarrow> ct_payload x | None \<Rightarrow> JUndef)"

definition template_of :: "contract option \<Rightarrow> replay_template_id option" where
  "template_of ct = (case ct of Some x \<Rightarrow> ct_templateId x | None \<Rightarrow> None)"

text \<open>\<open>createdContract?.payload ?? hydratedContract?.payload\<close>, and the same for the template.\<close>

definition resolved_payload :: "evaluator_state \<Rightarrow> string \<Rightarrow> js" where
  "resolved_payload s contractId =
     (let created = payload_of (createdContract s contractId) in
      if is_nullish created then payload_of (hydratedContract s contractId) else created)"

definition resolved_template :: "evaluator_state \<Rightarrow> string \<Rightarrow> replay_template_id option" where
  "resolved_template s contractId =
     (case template_of (createdContract s contractId) of
        Some t \<Rightarrow> Some t
      | None \<Rightarrow> template_of (hydratedContract s contractId))"

text \<open>The contract id of a create: the next observed one, else a synthetic number.\<close>

definition nth_opt :: "'a list \<Rightarrow> nat \<Rightarrow> 'a option" where
  "nth_opt xs i = (if i < length xs then Some (xs ! i) else None)"

definition next_contract_id :: "evaluator_state \<Rightarrow> string" where
  "next_contract_id s =
     (case st_activeReplayContext s of
        None \<Rightarrow> ''created-'' @ digits_of_nat 1
      | Some ctx \<Rightarrow>
          (case nth_opt (rc_observedCreateContractIds ctx) (rc_nextObservedCreateIndex ctx) of
             Some cid \<Rightarrow> cid
           | None \<Rightarrow> ''created-'' @ digits_of_nat (rc_nextSyntheticContractIdNumber ctx)))"

definition record_create :: "string \<Rightarrow> contract \<Rightarrow> unit m" where
  "record_create contractId ct =
     modify (\<lambda>s. s\<lparr>st_activeReplayContext :=
       map_option (\<lambda>ctx. ctx
         \<lparr>rc_nextSyntheticContractIdNumber := Suc (rc_nextSyntheticContractIdNumber ctx),
          rc_nextObservedCreateIndex := Suc (rc_nextObservedCreateIndex ctx),
          rc_createdContracts := AList.update contractId ct (rc_createdContracts ctx)\<rparr>)
         (st_activeReplayContext s)\<rparr>)"

section \<open>Laws of the outcome-passing combinators\<close>

lemma and_then_ret [simp]: "and_then (ret x) f = f x"
  by (simp add: and_then_def ret_def fun_eq_iff)

lemma and_then_fail [simp]: "and_then (fail e) f = fail e"
  by (simp add: and_then_def fail_def fun_eq_iff)

lemma and_then_throw [simp]: "and_then (throw v) f = throw v"
  by (simp add: and_then_def throw_def fun_eq_iff)

lemma and_then_right_ret [simp]: "and_then m ret = m"
  by (simp add: and_then_def ret_def fun_eq_iff split: prod.splits outcome.splits)

lemma and_then_assoc: "and_then (and_then m f) g = and_then m (\<lambda>x. and_then (f x) g)"
  by (simp add: and_then_def fun_eq_iff split: prod.splits outcome.splits)

lemma and_then_Ok:
  "and_then m f s = (Ok y, s') \<longleftrightarrow> (\<exists>x s1. m s = (Ok x, s1) \<and> f x s1 = (Ok y, s'))"
  by (auto simp: and_then_def split: prod.splits outcome.splits)

lemma and_then_run: "m s = (Ok x, s1) \<Longrightarrow> and_then m f s = f x s1"
  by (simp add: and_then_def)

lemma catch_thrown_ret [simp]: "catch_thrown (ret x) h = ret x"
  by (simp add: catch_thrown_def ret_def fun_eq_iff)

lemma catch_thrown_throw [simp]: "catch_thrown (throw v) h = h v"
  by (simp add: catch_thrown_def throw_def fun_eq_iff)

lemma catch_thrown_fail [simp]: "catch_thrown (fail e) h = fail e"
  by (simp add: catch_thrown_def fail_def fun_eq_iff)

lemma lift_result_simps [simp]:
  "lift_result (Inl e) = fail e" "lift_result (Inr x) = ret x"
  by (simp_all add: lift_result_def)

end
