(* ===== verification/Builtin_Dispatch.thy ===== *)
theory Builtin_Dispatch
  imports Builtin_Values
begin

text \<open>
  \<^verbatim>\<open>DamlLfBuiltinDispatch.applyOrThrow\<close>
  (\<^verbatim>\<open>src/src/daml-lf/interpreter/daml-lf-builtin-dispatch.ts\<close>): one definition per \<^verbatim>\<open>case\<close> of
  its switch, over the list of all arguments applied so far, and the switch itself. A builtin
  that still misses arguments returns itself with the arguments gathered.
\<close>

section \<open>Argument views\<close>

definition nonUnitArguments :: "rtval list \<Rightarrow> rtval list" where
  "nonUnitArguments args = filter (\<lambda>a. kind_of a \<noteq> ''unit'') args"

definition numericArguments :: "rtval list \<Rightarrow> rtval list" where
  "numericArguments args = filter isNumericCompatible args"

definition last_two :: "'a list \<Rightarrow> 'a list" where
  "last_two xs = drop (length xs - 2) xs"

definition partial :: "string \<Rightarrow> rtval list \<Rightarrow> rtval result" where
  "partial f args = Inr (VBuiltin f args)"

definition boolean_result :: "bool result \<Rightarrow> rtval result" where
  "boolean_result r = bind_result r (\<lambda>b. Inr (VBoolean b))"

definition text_result :: "string result \<Rightarrow> rtval result" where
  "text_result r = bind_result r (\<lambda>s. Inr (VText s))"

definition int64_result :: "int result \<Rightarrow> rtval result" where
  "int64_result r = bind_result r (\<lambda>n. Inr (VInt64 (string_of_int n)))"

definition numeric_result :: "exact_decimal result \<Rightarrow> rtval result" where
  "numeric_result r = bind_result r (\<lambda>d. Inr (VNumeric (formatExactDecimal d)))"

section \<open>Comparison\<close>

definition apply_equal :: "rtval list \<Rightarrow> rtval result" where
  "apply_equal args =
     (if length args < 2 then partial ''equal'' args
      else boolean_result (areEqual (args ! 0) (args ! 1)))"

definition apply_LESS :: "rtval list \<Rightarrow> rtval result" where
  "apply_LESS args =
     (let nu = nonUnitArguments args in
      if length nu < 2 then partial ''LESS'' args
      else boolean_result (bind_result (compareValues (nu ! 0) (nu ! 1)) (\<lambda>c. Inr (c < 0))))"

definition apply_LESS_EQ :: "rtval list \<Rightarrow> rtval result" where
  "apply_LESS_EQ args =
     (let nu = nonUnitArguments args in
      if length nu < 2 then partial ''LESS_EQ'' args
      else boolean_result (bind_result (compareValues (nu ! 0) (nu ! 1)) (\<lambda>c. Inr (c \<le> 0))))"

definition apply_GREATER_EQ :: "rtval list \<Rightarrow> rtval result" where
  "apply_GREATER_EQ args =
     (let nu = nonUnitArguments args in
      if length nu < 2 then partial ''GREATER_EQ'' args
      else boolean_result (bind_result (compareValues (nu ! 0) (nu ! 1)) (\<lambda>c. Inr (c \<ge> 0))))"

text \<open>The two names of this builtin share the case; a partial application keeps its name.\<close>

definition apply_GREATER :: "string \<Rightarrow> rtval list \<Rightarrow> rtval result" where
  "apply_GREATER name args =
     (let nu = nonUnitArguments args in
      if length nu < 2 then partial name args
      else boolean_result (bind_result (compareValues (nu ! 0) (nu ! 1)) (\<lambda>c. Inr (c > 0))))"

section \<open>Integers\<close>

definition apply_ADD_INT64 :: "rtval list \<Rightarrow> rtval result" where
  "apply_ADD_INT64 args =
     (let nu = nonUnitArguments args in
      if length nu < 2 then partial ''ADD_INT64'' args
      else int64_result
        (bind_result (readInt64 (nu ! 0)) (\<lambda>a.
         bind_result (readInt64 (nu ! 1)) (\<lambda>b. Inr (a + b)))))"

definition apply_SUB_INT64 :: "rtval list \<Rightarrow> rtval result" where
  "apply_SUB_INT64 args =
     (let nu = nonUnitArguments args in
      if length nu < 2 then partial ''SUB_INT64'' args
      else int64_result
        (bind_result (readInt64 (nu ! 0)) (\<lambda>a.
         bind_result (readInt64 (nu ! 1)) (\<lambda>b. Inr (a - b)))))"

section \<open>Numerics\<close>

definition apply_ADD_NUMERIC :: "rtval list \<Rightarrow> rtval result" where
  "apply_ADD_NUMERIC args =
     (let nums = numericArguments args in
      if length nums < 2 then partial ''ADD_NUMERIC'' args
      else
        (let ops = last_two nums in
         numeric_result
           (bind_result (readExactDecimal (ops ! 0)) (\<lambda>a.
            bind_result (readExactDecimal (ops ! 1)) (\<lambda>b. Inr (addExactDecimals a b))))))"

definition apply_SUB_NUMERIC :: "rtval list \<Rightarrow> rtval result" where
  "apply_SUB_NUMERIC args =
     (let nums = numericArguments args in
      if length nums < 2 then partial ''SUB_NUMERIC'' args
      else
        (let ops = last_two nums in
         numeric_result
           (bind_result (readExactDecimal (ops ! 0)) (\<lambda>a.
            bind_result (readExactDecimal (ops ! 1)) (\<lambda>b. Inr (subtractExactDecimals a b))))))"

definition apply_MUL_NUMERIC :: "rtval list \<Rightarrow> rtval result" where
  "apply_MUL_NUMERIC args =
     (let nums = numericArguments args in
      if length nums < 3 then partial ''MUL_NUMERIC'' args
      else
        numeric_result
          (bind_result (readNumericScaleWitnessOrThrow (nums ! 0)) (\<lambda>s.
           bind_result (readExactDecimal (nums ! 1)) (\<lambda>a.
           bind_result (readExactDecimal (nums ! 2)) (\<lambda>b.
           quantizeExactDecimal (multiplyExactDecimals a b) s HalfEven)))))"

definition apply_DIV_NUMERIC :: "rtval list \<Rightarrow> rtval result" where
  "apply_DIV_NUMERIC args =
     (let nums = numericArguments args in
      if length nums < 3 then partial ''DIV_NUMERIC'' args
      else
        numeric_result
          (bind_result (readNumericScaleWitnessOrThrow (nums ! 0)) (\<lambda>s.
           bind_result (readExactDecimal (nums ! 1)) (\<lambda>a.
           bind_result (readExactDecimal (nums ! 2)) (\<lambda>b.
           divideExactDecimals a b s)))))"

definition apply_INT64_TO_NUMERIC :: "rtval list \<Rightarrow> rtval result" where
  "apply_INT64_TO_NUMERIC args =
     (let nums = numericArguments args in
      if length nums < 2 then partial ''INT64_TO_NUMERIC'' args
      else
        numeric_result
          (bind_result (readNumericScaleWitnessOrThrow (nums ! 0)) (\<lambda>s.
           bind_result (readInt64 (nums ! 1)) (\<lambda>n.
           quantizeExactDecimal \<lparr>significand = n, scale = 0\<rparr> s Unnecessary))))"

definition apply_NUMERIC_TO_INT64 :: "rtval list \<Rightarrow> rtval result" where
  "apply_NUMERIC_TO_INT64 args =
     (let nums = numericArguments args in
      if length nums < 1 then partial ''NUMERIC_TO_INT64'' args
      else int64_result
        (bind_result (readExactDecimal (last nums)) (\<lambda>d. Inr (truncateExactDecimalToInt64 d))))"

definition apply_CAST_NUMERIC :: "rtval list \<Rightarrow> rtval result" where
  "apply_CAST_NUMERIC args =
     (let nums = numericArguments args in
      if length nums < 2 then partial ''CAST_NUMERIC'' args
      else
        numeric_result
          (bind_result (readNumericScaleWitnessOrThrow (nums ! 0)) (\<lambda>s.
           bind_result (readExactDecimal (nums ! 1)) (\<lambda>d.
           quantizeExactDecimal d s Unnecessary))))"

definition apply_SHIFT_NUMERIC :: "rtval list \<Rightarrow> rtval result" where
  "apply_SHIFT_NUMERIC args =
     (let nums = numericArguments args in
      if length nums < 2 then partial ''SHIFT_NUMERIC'' args
      else
        numeric_result
          (bind_result (readNumericScaleWitnessOrThrow (nums ! 0)) (\<lambda>s.
           bind_result (readExactDecimal (nums ! 1)) (\<lambda>d.
           shiftExactDecimal d s))))"

definition apply_ROUND_NUMERIC :: "rtval list \<Rightarrow> rtval result" where
  "apply_ROUND_NUMERIC args =
     (if length args < 2 then partial ''ROUND_NUMERIC'' args
      else
        numeric_result
          (bind_result (readInt64 (args ! 0)) (\<lambda>s.
           bind_result (readExactDecimal (args ! 1)) (\<lambda>d.
           quantizeExactDecimal d s HalfEven))))"

section \<open>Text conversions\<close>

definition apply_INT64_TO_TEXT :: "rtval list \<Rightarrow> rtval result" where
  "apply_INT64_TO_TEXT args =
     (let nu = nonUnitArguments args in
      if length nu < 1 then partial ''INT64_TO_TEXT'' args
      else text_result (bind_result (readInt64 (nu ! 0)) (\<lambda>n. Inr (string_of_int n))))"

definition apply_PARTY_TO_TEXT :: "rtval list \<Rightarrow> rtval result" where
  "apply_PARTY_TO_TEXT args =
     (let nu = nonUnitArguments args in
      if length nu < 1 then partial ''PARTY_TO_TEXT'' args
      else text_result (readPartyLike (nu ! 0)))"

definition apply_COERCE_CONTRACT_ID :: "rtval list \<Rightarrow> rtval result" where
  "apply_COERCE_CONTRACT_ID args =
     (let nu = nonUnitArguments args in
      if length nu < 1 then partial ''COERCE_CONTRACT_ID'' args
      else bind_result (readContractIdLike (nu ! 0)) (\<lambda>s. Inr (VContractId s)))"

definition apply_appendText :: "rtval list \<Rightarrow> rtval result" where
  "apply_appendText args =
     (if length args < 2 then partial ''appendText'' args
      else text_result
        (bind_result (readText (args ! 0)) (\<lambda>a.
         bind_result (readText (args ! 1)) (\<lambda>b. Inr (a @ b)))))"

definition apply_EXPLODE_TEXT :: "rtval list \<Rightarrow> rtval result" where
  "apply_EXPLODE_TEXT args =
     (let nu = nonUnitArguments args in
      if length nu < 1 then partial ''EXPLODE_TEXT'' args
      else bind_result (readText (last nu))
        (\<lambda>s. Inr (VLedger (JArr (map (\<lambda>c. JStr [c]) s)) None)))"

definition apply_IMPLODE_TEXT :: "rtval list \<Rightarrow> rtval result" where
  "apply_IMPLODE_TEXT args =
     (let nu = nonUnitArguments args in
      if length nu < 1 then partial ''IMPLODE_TEXT'' args
      else text_result (bind_result (readTextList (last nu)) (\<lambda>ss. Inr (concat ss))))"

definition apply_NUMERIC_TO_TEXT :: "rtval list \<Rightarrow> rtval result" where
  "apply_NUMERIC_TO_TEXT args =
     (let nums = numericArguments args in
      if length args < 1 \<or> nums = [] then partial ''NUMERIC_TO_TEXT'' args
      else text_result (readTextLike (last nums)))"

section \<open>Text maps\<close>

definition apply_TEXTMAP_EMPTY :: "rtval list \<Rightarrow> rtval result" where
  "apply_TEXTMAP_EMPTY args = Inr (VLedger (JObj []) None)"

definition apply_TEXTMAP_INSERT :: "rtval list \<Rightarrow> rtval result" where
  "apply_TEXTMAP_INSERT args =
     (if length args < 3 then partial ''TEXTMAP_INSERT'' args
      else
        bind_result (readTextMap (args ! 2)) (\<lambda>m.
        bind_result (readText (args ! 0)) (\<lambda>k.
        Inr (VLedger (JObj (obj_set k (unwrapValue (args ! 1)) m)) None))))"

definition apply_TEXTMAP_LOOKUP :: "rtval list \<Rightarrow> rtval result" where
  "apply_TEXTMAP_LOOKUP args =
     (if length args < 2 then partial ''TEXTMAP_LOOKUP'' args
      else
        bind_result (readTextMap (args ! 1)) (\<lambda>m.
        bind_result (readText (args ! 0)) (\<lambda>k.
        Inr (if obj_get m k = JUndef then VUnit else hydrateValue (obj_get m k)))))"

definition apply_TEXTMAP_DELETE :: "rtval list \<Rightarrow> rtval result" where
  "apply_TEXTMAP_DELETE args =
     (if length args < 2 then partial ''TEXTMAP_DELETE'' args
      else
        bind_result (readTextMap (args ! 1)) (\<lambda>m.
        bind_result (readText (args ! 0)) (\<lambda>k.
        Inr (VLedger (JObj (obj_delete k m)) None))))"

definition apply_TEXTMAP_TO_LIST :: "rtval list \<Rightarrow> rtval result" where
  "apply_TEXTMAP_TO_LIST args =
     (if length args < 1 then partial ''TEXTMAP_TO_LIST'' args
      else bind_result (readTextMap (args ! 0))
        (\<lambda>m. Inr (VLedger (JArr (map (\<lambda>(k, v). JObj [(''0'', JStr k), (''1'', v)]) m)) None)))"

definition apply_TEXTMAP_SIZE :: "rtval list \<Rightarrow> rtval result" where
  "apply_TEXTMAP_SIZE args =
     (if length args < 1 then partial ''TEXTMAP_SIZE'' args
      else int64_result (bind_result (readTextMap (args ! 0)) (\<lambda>m. Inr (int (length m)))))"

section \<open>Generic maps\<close>

definition apply_GENMAP_EMPTY :: "rtval list \<Rightarrow> rtval result" where
  "apply_GENMAP_EMPTY args = Inr (VLedger (JArr []) None)"

definition apply_GENMAP_INSERT :: "rtval list \<Rightarrow> rtval result" where
  "apply_GENMAP_INSERT args =
     (if length args < 3 then partial ''GENMAP_INSERT'' args
      else
        bind_result (readGenMap (args ! 2)) (\<lambda>m.
        bind_result (insertGenMapEntry m (args ! 0) (args ! 1)) (\<lambda>m'.
        Inr (VLedger (JArr m') None))))"

definition apply_GENMAP_LOOKUP :: "rtval list \<Rightarrow> rtval result" where
  "apply_GENMAP_LOOKUP args =
     (if length args < 2 then partial ''GENMAP_LOOKUP'' args
      else
        bind_result (readGenMap (args ! 1)) (\<lambda>m.
        bind_result (find_entry (args ! 0) m) (\<lambda>e.
        Inr (case e of None \<Rightarrow> VUnit | Some x \<Rightarrow> hydrateValue (entry_value x)))))"

definition apply_GENMAP_DELETE :: "rtval list \<Rightarrow> rtval result" where
  "apply_GENMAP_DELETE args =
     (if length args < 2 then partial ''GENMAP_DELETE'' args
      else
        bind_result (readGenMap (args ! 1)) (\<lambda>m.
        bind_result (retain_entries (args ! 0) m) (\<lambda>m'. Inr (VLedger (JArr m') None))))"

definition apply_GENMAP_KEYS :: "rtval list \<Rightarrow> rtval result" where
  "apply_GENMAP_KEYS args =
     (if length args < 1 then partial ''GENMAP_KEYS'' args
      else bind_result (readGenMap (args ! 0))
        (\<lambda>m. Inr (VLedger (JArr (map entry_key m)) None)))"

definition apply_GENMAP_VALUES :: "rtval list \<Rightarrow> rtval result" where
  "apply_GENMAP_VALUES args =
     (if length args < 1 then partial ''GENMAP_VALUES'' args
      else bind_result (readGenMap (args ! 0))
        (\<lambda>m. Inr (VLedger (JArr (map entry_value m)) None)))"

definition apply_GENMAP_SIZE :: "rtval list \<Rightarrow> rtval result" where
  "apply_GENMAP_SIZE args =
     (if length args < 1 then partial ''GENMAP_SIZE'' args
      else int64_result (bind_result (readGenMap (args ! 0)) (\<lambda>m. Inr (int (length m)))))"

section \<open>The switch\<close>

definition builtin_table :: "(string \<times> (rtval list \<Rightarrow> rtval result)) list" where
  "builtin_table =
     [(''equal'', apply_equal), (''LESS'', apply_LESS), (''LESS_EQ'', apply_LESS_EQ),
      (''ADD_INT64'', apply_ADD_INT64), (''SUB_INT64'', apply_SUB_INT64),
      (''GREATER_EQ'', apply_GREATER_EQ), (''greater'', apply_GREATER ''greater''),
      (''GREATER'', apply_GREATER ''GREATER''), (''ADD_NUMERIC'', apply_ADD_NUMERIC),
      (''SUB_NUMERIC'', apply_SUB_NUMERIC), (''MUL_NUMERIC'', apply_MUL_NUMERIC),
      (''DIV_NUMERIC'', apply_DIV_NUMERIC), (''INT64_TO_NUMERIC'', apply_INT64_TO_NUMERIC),
      (''NUMERIC_TO_INT64'', apply_NUMERIC_TO_INT64), (''CAST_NUMERIC'', apply_CAST_NUMERIC),
      (''SHIFT_NUMERIC'', apply_SHIFT_NUMERIC), (''ROUND_NUMERIC'', apply_ROUND_NUMERIC),
      (''INT64_TO_TEXT'', apply_INT64_TO_TEXT), (''PARTY_TO_TEXT'', apply_PARTY_TO_TEXT),
      (''COERCE_CONTRACT_ID'', apply_COERCE_CONTRACT_ID),
      (''TEXTMAP_EMPTY'', apply_TEXTMAP_EMPTY), (''TEXTMAP_INSERT'', apply_TEXTMAP_INSERT),
      (''TEXTMAP_LOOKUP'', apply_TEXTMAP_LOOKUP), (''TEXTMAP_DELETE'', apply_TEXTMAP_DELETE),
      (''TEXTMAP_TO_LIST'', apply_TEXTMAP_TO_LIST), (''TEXTMAP_SIZE'', apply_TEXTMAP_SIZE),
      (''GENMAP_EMPTY'', apply_GENMAP_EMPTY), (''GENMAP_INSERT'', apply_GENMAP_INSERT),
      (''GENMAP_LOOKUP'', apply_GENMAP_LOOKUP), (''GENMAP_DELETE'', apply_GENMAP_DELETE),
      (''GENMAP_KEYS'', apply_GENMAP_KEYS), (''GENMAP_VALUES'', apply_GENMAP_VALUES),
      (''GENMAP_SIZE'', apply_GENMAP_SIZE), (''appendText'', apply_appendText),
      (''EXPLODE_TEXT'', apply_EXPLODE_TEXT), (''IMPLODE_TEXT'', apply_IMPLODE_TEXT),
      (''NUMERIC_TO_TEXT'', apply_NUMERIC_TO_TEXT)]"

definition applyOrThrow :: "string \<Rightarrow> rtval list \<Rightarrow> rtval list \<Rightarrow> rtval result" where
  "applyOrThrow builtinFunction alreadyApplied argumentValues =
     (let appliedArguments = alreadyApplied @ argumentValues in
      case map_of builtin_table builtinFunction of
        Some body \<Rightarrow> body appliedArguments
      | None \<Rightarrow> Inl (ValidationError
          (''daml lf builtin '' @ quoted builtinFunction @ '' is not supported yet'')))"

end
