(* ===== verification/Evaluator.thy ===== *)
theory Evaluator
  imports Evaluator_State Builtin_Dispatch
begin

text \<open>
  \<^verbatim>\<open>DamlLfEvaluator\<close> (\<^verbatim>\<open>src/src/daml-lf/interpreter/daml-lf-evaluator.ts\<close>). Each case of
  \<open>resolveExpressionValue\<close> and of \<open>evaluateUpdateExpressionOrThrow\<close> is a definition over the two
  mutually recursive methods \<open>ev\<close> (\<open>evaluateExpressionOrThrow\<close>) and \<open>ap\<close>
  (\<open>applyFunctionOrThrow\<close>); \<open>evaluateExpression\<close> and \<open>applyFunction\<close> tie the knot with a bound on
  the depth of nested calls. A program that loops has no sufficient bound.
\<close>

type_synonym eval_fun = "expr \<Rightarrow> frame \<Rightarrow> rtval m"
type_synonym apply_fun = "rtval \<Rightarrow> rtval list \<Rightarrow> rtval m"

section \<open>Scopes: let, block, application\<close>

fun evaluate_bindings :: "eval_fun \<Rightarrow> frame \<Rightarrow> (string \<times> expr) list \<Rightarrow> unit m" where
  "evaluate_bindings ev fr [] = ret ()"
| "evaluate_bindings ev fr ((name, e) # bs) =
     and_then (ev e fr) (\<lambda>v.
     and_then (bind_name fr name v) (\<lambda>_. evaluate_bindings ev fr bs))"

definition evaluate_let :: "eval_fun \<Rightarrow> (string \<times> expr) list \<Rightarrow> expr \<Rightarrow> frame \<Rightarrow> rtval m" where
  "evaluate_let ev bs body fr =
     and_then (child_frame fr) (\<lambda>scopedFrame.
     and_then (evaluate_bindings ev scopedFrame bs) (\<lambda>_. ev body scopedFrame))"

definition evaluate_application ::
    "eval_fun \<Rightarrow> apply_fun \<Rightarrow> expr \<Rightarrow> expr list \<Rightarrow> frame \<Rightarrow> rtval m" where
  "evaluate_application ev ap f args fr =
     and_then (ev f fr) (\<lambda>functionValue.
     and_then (map_m (\<lambda>a. ev a fr) args) (\<lambda>argumentValues. ap functionValue argumentValues))"

section \<open>Records, variants, lists\<close>

definition evaluate_record_construction ::
    "eval_fun \<Rightarrow> (string \<times> expr) list \<Rightarrow> frame \<Rightarrow> rtval m" where
  "evaluate_record_construction ev fs fr =
     and_then (map_m (\<lambda>(name, e). and_then (ev e fr) (\<lambda>v. ret (name, v))) fs)
       (\<lambda>vs. ret (createRecordRuntimeValue (obj_from_entries vs)))"

definition record_field :: "string \<Rightarrow> (string \<times> rtval) list \<Rightarrow> rtval result" where
  "record_field fieldName fs =
     (case map_of fs fieldName of
        Some v \<Rightarrow> Inr v
      | None \<Rightarrow>
          if fieldName \<in> set object_prototype then Inr (VProto fieldName)
          else Inl (ValidationError
            (''daml lf record projection could not find field '' @ quoted fieldName)))"

definition require_object :: "string \<Rightarrow> string \<Rightarrow> js \<Rightarrow> (string \<times> js) list result" where
  "require_object operation fieldName raw =
     (if \<not> is_object raw \<or> is_array raw
      then Inl (ValidationError
        (''daml lf record '' @ operation @ '' requires an object value for field '' @ quoted fieldName))
      else Inr (own_properties raw))"

definition evaluate_record_projection ::
    "compilation \<Rightarrow> eval_fun \<Rightarrow> string \<Rightarrow> expr \<Rightarrow> frame \<Rightarrow> rtval m" where
  "evaluate_record_projection c ev fieldName r fr =
     and_then (ev r fr) (\<lambda>recordValue.
       case recordValue of
         VRecord fs \<Rightarrow> lift_result (record_field fieldName fs)
       | _ \<Rightarrow>
           lift_result
             (bind_result (require_object ''projection'' fieldName (unwrapRuntimeValue recordValue))
               (\<lambda>raw. Inr (hydrateRuntimeValue (readLedgerRecordField c raw fieldName) None))))"

definition evaluate_record_update ::
    "compilation \<Rightarrow> eval_fun \<Rightarrow> string \<Rightarrow> expr \<Rightarrow> expr \<Rightarrow> frame \<Rightarrow> rtval m" where
  "evaluate_record_update c ev fieldName r e fr =
     and_then (ev r fr) (\<lambda>recordValue.
       case recordValue of
         VRecord fs \<Rightarrow>
           and_then (ev e fr) (\<lambda>v. ret (createRecordRuntimeValue (obj_set fieldName v fs)))
       | _ \<Rightarrow>
           and_then (lift_result (require_object ''update'' fieldName (unwrapRuntimeValue recordValue)))
             (\<lambda>raw. and_then (ev e fr) (\<lambda>v.
               ret (hydrateRuntimeValue
                 (JObj (obj_spread raw
                   (createLedgerRecordFieldUpdate c raw fieldName (unwrapRuntimeValue v)))) None))))"

definition evaluate_throw :: "eval_fun \<Rightarrow> expr \<Rightarrow> frame \<Rightarrow> rtval m" where
  "evaluate_throw ev e fr = and_then (ev e fr) throw"

definition evaluate_variant_construction :: "eval_fun \<Rightarrow> string \<Rightarrow> expr \<Rightarrow> frame \<Rightarrow> rtval m" where
  "evaluate_variant_construction ev con e fr =
     and_then (ev e fr) (\<lambda>v.
       ret (hydrateRuntimeValue
         (JObj [(''constructor'', JStr con), (''value'', unwrapRuntimeValue v)]) None))"

definition evaluate_optional_construction :: "eval_fun \<Rightarrow> expr option \<Rightarrow> frame \<Rightarrow> rtval m" where
  "evaluate_optional_construction ev e fr =
     (case e of None \<Rightarrow> ret VUnit | Some x \<Rightarrow> ev x fr)"

definition evaluate_list_construction ::
    "eval_fun \<Rightarrow> expr list \<Rightarrow> expr option \<Rightarrow> frame \<Rightarrow> rtval m" where
  "evaluate_list_construction ev front tail fr =
     and_then (map_m (\<lambda>item. and_then (ev item fr) (\<lambda>v. ret (unwrapRuntimeValue v))) front)
       (\<lambda>frontValues.
     and_then
       (case tail of
          None \<Rightarrow> ret (JArr [])
        | Some t \<Rightarrow> and_then (ev t fr) (\<lambda>v. ret (unwrapRuntimeValue v)))
       (\<lambda>tailValue.
          case tailValue of
            JArr items \<Rightarrow> ret (hydrateRuntimeValue (JArr (frontValues @ items)) None)
          | _ \<Rightarrow> fail (ValidationError ''daml lf list construction requires an array tail'')))"

section \<open>Case\<close>

text \<open>The names a matching alternative binds; \<^const>\<open>None\<close> when it opens no scope.\<close>

definition pattern_bindings :: "pattern \<Rightarrow> rtval \<Rightarrow> (string \<times> rtval) list option" where
  "pattern_bindings p scrutinee =
     (let rawValue = unwrapRuntimeValue scrutinee in
      case p of
        PCons headBinder tailBinder \<Rightarrow>
          (case rawValue of
             JArr (item # items) \<Rightarrow>
               Some (optional_binding headBinder (hydrateRuntimeValue item None)
                 @ optional_binding tailBinder (hydrateRuntimeValue (JArr items) None))
           | _ \<Rightarrow> Some [])
      | POptionalSome binder \<Rightarrow> Some (optional_binding binder (hydrateRuntimeValue rawValue None))
      | PVariant con binder \<Rightarrow>
          (if is_object rawValue \<and> obj_has ''value'' (own_properties rawValue)
           then Some (optional_binding binder
             (hydrateRuntimeValue (obj_get (own_properties rawValue) ''value'') None))
           else None)
      | _ \<Rightarrow> None)"

definition no_alternative :: "frame \<Rightarrow> rtval \<Rightarrow> (pattern \<times> expr) list \<Rightarrow> js_error" where
  "no_alternative fr scrutinee alternatives =
     ValidationError
       (''daml lf case expression in '' @ quoted (vd_name (fr_definition fr))
         @ '' did not match any alternative for '' @ quoted (scrutineeDescription scrutinee)
         @ '' across ['' @ join '', '' (map (\<lambda>(p, e). pattern_kind p) alternatives) @ '']'')"

definition evaluate_case :: "eval_fun \<Rightarrow> expr \<Rightarrow> (pattern \<times> expr) list \<Rightarrow> frame \<Rightarrow> rtval m" where
  "evaluate_case ev scrut alternatives fr =
     and_then (ev scrut fr) (\<lambda>scrutinee.
       case find (\<lambda>(p, body). matchesCaseAlternative p scrutinee) alternatives of
         None \<Rightarrow> fail (no_alternative fr scrutinee alternatives)
       | Some (p, body) \<Rightarrow>
           (case pattern_bindings p scrutinee of
              None \<Rightarrow> ev body fr
            | Some bs \<Rightarrow>
                and_then (child_frame fr) (\<lambda>scopedFrame.
                and_then (bind_names scopedFrame bs) (\<lambda>_. ev body scopedFrame))))"

section \<open>References to values\<close>

definition evaluate_value_reference ::
    "compilation \<Rightarrow> eval_fun \<Rightarrow> string \<Rightarrow> string \<Rightarrow> string \<Rightarrow> rtval m" where
  "evaluate_value_reference c ev packageId moduleName definitionName =
     (let expression = EValueRef packageId moduleName definitionName in
      and_then (lift_result (getValueDefinitionOrThrow c packageId moduleName definitionName))
        (\<lambda>d.
      and_then (createFrame c d None) (\<lambda>fr.
      and_then (onStep StepCall expression fr None None) (\<lambda>_.
      and_then (ev (vd_expression d) fr) (\<lambda>v.
      and_then (onStep StepReturn expression fr (Some v) None) (\<lambda>_. ret v))))))"

section \<open>Replay entry points\<close>

record binding_value =
  bv_value :: js
  bv_contractId :: "string option"

definition resolveEntrypointBindingValues :: "replay_environment \<Rightarrow> binding_value list" where
  "resolveEntrypointBindingValues env =
     (let argumentValue =
        (if env_argument env = JUndef then []
         else [\<lparr>bv_value = env_argument env, bv_contractId = None\<rparr>]) in
      case env_kind env of
        EntryCreate \<Rightarrow> argumentValue
      | EntryExercise \<Rightarrow>
          (let contractPayload =
             (case env_contractId env of
                None \<Rightarrow> JUndef
              | Some cid \<Rightarrow> payload_of (map_of (env_contracts env) cid)) in
           (if contractPayload = JUndef then []
            else [\<lparr>bv_value = contractPayload, bv_contractId = env_contractId env\<rparr>])
           @ argumentValue))"

text \<open>\<open>xs[i]\<close> and \<open>xs.at(-i)\<close>\<close>

definition at_end :: "'a list \<Rightarrow> nat \<Rightarrow> 'a option" where
  "at_end xs i = (if 0 < i \<and> i \<le> length xs then Some (xs ! (length xs - i)) else None)"

definition hydrate_binding :: "binding_value \<Rightarrow> rtval" where
  "hydrate_binding bv = hydrateRuntimeValue (bv_value bv) (bv_contractId bv)"

definition bound_contract_id :: "binding_value list \<Rightarrow> string option" where
  "bound_contract_id bvs = (case nth_opt bvs 0 of Some bv \<Rightarrow> bv_contractId bv | None \<Rightarrow> None)"

text \<open>The binding of parameter \<open>p\<close> to value \<open>v\<close>, when both are there.\<close>

definition both :: "string option \<Rightarrow> rtval option \<Rightarrow> (string \<times> rtval) list" where
  "both p v = (case (p, v) of (Some n, Some x) \<Rightarrow> [(n, x)] | _ \<Rightarrow> [])"

definition replay_bindings ::
    "binding_mode \<Rightarrow> string list \<Rightarrow> binding_value list \<Rightarrow> (string \<times> rtval) list" where
  "replay_bindings mode ps bvs =
     (case mode of
        ModeTemplateChoice \<Rightarrow>
          both (nth_opt ps 0) (map_option VContractId (bound_contract_id bvs))
          @ both (nth_opt ps 1) (map_option hydrate_binding (nth_opt bvs 0))
          @ both (nth_opt ps 2) (map_option hydrate_binding (nth_opt bvs 1))
      | ModeExerciseWrapper \<Rightarrow>
          both (at_end ps 2) (map_option VContractId (bound_contract_id bvs))
          @ both (at_end ps 1) (map_option hydrate_binding (nth_opt bvs 1))
      | ModeCreateWrapper \<Rightarrow>
          both (at_end ps 1) (map_option hydrate_binding (nth_opt bvs 0))
      | ModeStandard \<Rightarrow> zip ps (map hydrate_binding bvs))"

definition evaluateReplayLambdaOrExpressionOrThrow ::
    "eval_fun \<Rightarrow> expr \<Rightarrow> frame \<Rightarrow> binding_value list \<Rightarrow> binding_mode \<Rightarrow> rtval m" where
  "evaluateReplayLambdaOrExpressionOrThrow ev e fr bvs mode =
     (case e of
        ELambda ps body \<Rightarrow>
          and_then (child_frame fr) (\<lambda>scopedFrame.
          and_then (bind_names scopedFrame (replay_bindings mode ps bvs)) (\<lambda>_. ev body scopedFrame))
      | _ \<Rightarrow> ev e fr)"

definition evaluateReplayExpressionOrThrow ::
    "eval_fun \<Rightarrow> expr \<Rightarrow> frame \<Rightarrow> replay_environment \<Rightarrow> rtval m" where
  "evaluateReplayExpressionOrThrow ev e fr env =
     evaluateReplayLambdaOrExpressionOrThrow ev e fr (resolveEntrypointBindingValues env)
       (case env_entrypointBindingMode env of Some mode \<Rightarrow> mode | None \<Rightarrow> ModeStandard)"

section \<open>Updates\<close>

definition evaluate_try_catch ::
    "eval_fun \<Rightarrow> expr option \<Rightarrow> string option \<Rightarrow> expr option \<Rightarrow> frame \<Rightarrow> rtval m" where
  "evaluate_try_catch ev e catchVariableName catchExpression fr =
     catch_thrown (ev (or_empty e) fr) (\<lambda>v.
       and_then (child_frame fr) (\<lambda>scopedFrame.
       and_then (bind_names scopedFrame (optional_binding catchVariableName v)) (\<lambda>_.
       ev (or_empty catchExpression) scopedFrame)))"

definition payload_type :: "template_id option \<Rightarrow> type_con_ref option" where
  "payload_type t = map_option toTypeConReference t"

definition create_effect :: "string \<Rightarrow> template_id option \<Rightarrow> js \<Rightarrow> replay_effect" where
  "create_effect contractId t payload =
     \<lparr>ef_kind = EffCreate, ef_contractId = Some contractId, ef_templateId = toReplayTemplateId t,
      ef_choice = None, ef_argument = JUndef, ef_payload = payload\<rparr>"

definition evaluate_create ::
    "compilation \<Rightarrow> eval_fun \<Rightarrow> template_id option \<Rightarrow> expr option \<Rightarrow> frame \<Rightarrow> rtval m" where
  "evaluate_create c ev t argument fr =
     and_then (ev (or_empty argument) fr) (\<lambda>v.
       let payload = normalizeSemanticRecordValue c (unwrapRuntimeValue v) (payload_type t) in
       and_then (gets next_contract_id) (\<lambda>contractId.
       and_then (record_create contractId
         \<lparr>ct_payload = payload, ct_templateId = toReplayTemplateId t\<rparr>) (\<lambda>_.
       and_then (emitReplayEffect (create_effect contractId t payload)
         (EUpdate (UCreate t argument)) fr) (\<lambda>_.
       ret (VContractId contractId)))))"

definition fetch_effect :: "string \<Rightarrow> replay_template_id option \<Rightarrow> replay_effect" where
  "fetch_effect contractId t =
     \<lparr>ef_kind = EffFetch, ef_contractId = Some contractId, ef_templateId = t,
      ef_choice = None, ef_argument = JUndef, ef_payload = JUndef\<rparr>"

definition evaluate_contract_id :: "eval_fun \<Rightarrow> expr option \<Rightarrow> frame \<Rightarrow> string m" where
  "evaluate_contract_id ev contractId fr =
     and_then (ev (or_empty contractId) fr) (\<lambda>v. lift_result (readContractId v))"

definition evaluate_fetch :: "eval_fun \<Rightarrow> template_id option \<Rightarrow> expr option \<Rightarrow> frame \<Rightarrow> rtval m" where
  "evaluate_fetch ev t contractIdExpr fr =
     and_then (evaluate_contract_id ev contractIdExpr fr) (\<lambda>contractId.
     and_then (gets (\<lambda>s. resolved_payload s contractId)) (\<lambda>payload.
     and_then (emitReplayEffect (fetch_effect contractId (toReplayTemplateId t))
       (EUpdate (UFetch t contractIdExpr)) fr) (\<lambda>_.
     ret (hydrateRuntimeValue payload None))))"

definition could_not_hydrate :: "string \<Rightarrow> string \<Rightarrow> js_error" where
  "could_not_hydrate operation contractId =
     ValidationError
       (''daml lf '' @ operation @ '' update could not hydrate contract '' @ quoted contractId)"

definition evaluate_fetch_interface :: "eval_fun \<Rightarrow> expr option \<Rightarrow> frame \<Rightarrow> rtval m" where
  "evaluate_fetch_interface ev contractIdExpr fr =
     and_then (evaluate_contract_id ev contractIdExpr fr) (\<lambda>contractId.
     and_then (gets (\<lambda>s. (resolved_payload s contractId, resolved_template s contractId)))
       (\<lambda>(payload, resolvedTemplateId).
     if payload = JUndef then fail (could_not_hydrate ''fetch-interface'' contractId)
     else
       and_then (emitReplayEffect (fetch_effect contractId resolvedTemplateId)
         (EUpdate (UFetchInterface contractIdExpr)) fr) (\<lambda>_.
       ret (hydrateRuntimeValue payload None))))"

definition exercise_effect ::
    "string \<Rightarrow> replay_template_id option \<Rightarrow> string \<Rightarrow> js \<Rightarrow> replay_effect" where
  "exercise_effect contractId t choice argument =
     \<lparr>ef_kind = EffExercise, ef_contractId = Some contractId, ef_templateId = t,
      ef_choice = Some choice, ef_argument = argument, ef_payload = JUndef\<rparr>"

text \<open>The result of the resolver of the active replay; \<^const>\<open>None\<close> when there is no resolver.\<close>

definition resolve_choice ::
    "template_id \<Rightarrow> string \<Rightarrow> evaluator_state \<Rightarrow> resolved_definition result option" where
  "resolve_choice t choice s =
     (case st_activeReplayContext s of
        None \<Rightarrow> None
      | Some ctx \<Rightarrow>
          (case env_definitionResolver (rc_environment ctx) of
             None \<Rightarrow> None
           | Some resolver \<Rightarrow> Some (resolver t choice)))"

definition run_choice ::
    "compilation \<Rightarrow> eval_fun \<Rightarrow> resolved_definition \<Rightarrow> js \<Rightarrow> string \<Rightarrow> js \<Rightarrow> rtval m" where
  "run_choice c ev rd payload contractId argument =
     and_then (createFrame c (rd_definition rd) (rd_frameIdentity rd)) (\<lambda>choiceFrame.
     evaluateReplayLambdaOrExpressionOrThrow ev (rd_replayExpression rd) choiceFrame
       [\<lparr>bv_value = payload, bv_contractId = Some contractId\<rparr>,
        \<lparr>bv_value = argument, bv_contractId = None\<rparr>]
       (rd_replayBindingMode rd))"

definition evaluate_argument :: "eval_fun \<Rightarrow> expr option \<Rightarrow> frame \<Rightarrow> js m" where
  "evaluate_argument ev argument fr =
     and_then (ev (or_empty argument) fr) (\<lambda>v. ret (unwrapRuntimeValue v))"

definition evaluate_exercise ::
    "compilation \<Rightarrow> eval_fun \<Rightarrow> template_id option \<Rightarrow> string option \<Rightarrow> expr option \<Rightarrow>
     expr option \<Rightarrow> frame \<Rightarrow> rtval m" where
  "evaluate_exercise c ev templateId choiceName contractIdExpr argumentExpr fr =
     (case (templateId, choiceName) of
        (Some t, Some choice) \<Rightarrow>
          and_then (evaluate_contract_id ev contractIdExpr fr) (\<lambda>contractId.
          and_then (evaluate_argument ev argumentExpr fr) (\<lambda>argument.
          and_then (gets (\<lambda>s. resolved_payload s contractId)) (\<lambda>payload.
          if payload = JUndef then fail (could_not_hydrate ''exercise'' contractId)
          else
            and_then (emitReplayEffect
              (exercise_effect contractId (toReplayTemplateId (Some t)) choice argument)
              (EUpdate (UExercise templateId choiceName contractIdExpr argumentExpr)) fr) (\<lambda>_.
            and_then (gets (resolve_choice t choice)) (\<lambda>resolved.
            case resolved of
              None \<Rightarrow> fail (ValidationError
                ''daml lf exercise update requires a replay definition resolver'')
            | Some r \<Rightarrow>
                and_then (lift_result r) (\<lambda>rd. run_choice c ev rd payload contractId argument))))))
      | _ \<Rightarrow> fail (ValidationError
          ''daml lf exercise update is missing its template or choice''))"

text \<open>\<open>message.includes_text(part)\<close>\<close>

fun includes_text :: "string \<Rightarrow> string \<Rightarrow> bool" where
  "includes_text [] part = (part = [])"
| "includes_text (ch # chs) part = (take (length part) (ch # chs) = part \<or> includes_text chs part)"

definition missing_choice_metadata :: "js_error \<Rightarrow> bool" where
  "missing_choice_metadata e =
     (case e of
        ReplaySourceMapError msg \<Rightarrow> includes_text msg ''missing executable metadata for choice''
      | _ \<Rightarrow> False)"

definition resolved_template_id :: "replay_template_id \<Rightarrow> template_id" where
  "resolved_template_id t =
     \<lparr>ti_packageId = or_empty_string (rt_packageId t),
      ti_moduleName = or_empty_string (rt_moduleName t),
      ti_templateName = or_empty_string (rt_entityName t)\<rparr>"

definition evaluate_exercise_interface ::
    "compilation \<Rightarrow> eval_fun \<Rightarrow> string option \<Rightarrow> expr option \<Rightarrow> expr option \<Rightarrow> frame \<Rightarrow> rtval m" where
  "evaluate_exercise_interface c ev choiceName contractIdExpr argumentExpr fr =
     (case choiceName of
        None \<Rightarrow> fail (ValidationError ''daml lf exercise-interface update is missing its choice'')
      | Some choice \<Rightarrow>
          and_then (evaluate_contract_id ev contractIdExpr fr) (\<lambda>contractId.
          and_then (evaluate_argument ev argumentExpr fr) (\<lambda>argument.
          and_then (gets (\<lambda>s. (resolved_payload s contractId, resolved_template s contractId)))
            (\<lambda>(payload, resolvedTemplateId).
          case resolvedTemplateId of
            None \<Rightarrow> fail (could_not_hydrate ''exercise-interface'' contractId)
          | Some t \<Rightarrow>
              if payload = JUndef then fail (could_not_hydrate ''exercise-interface'' contractId)
              else
                and_then (emitReplayEffect (exercise_effect contractId (Some t) choice argument)
                  (EUpdate (UExerciseInterface choiceName contractIdExpr argumentExpr)) fr) (\<lambda>_.
                and_then (gets (resolve_choice (resolved_template_id t) choice)) (\<lambda>resolved.
                case resolved of
                  None \<Rightarrow> ret (hydrateRuntimeValue (JObj []) None)
                | Some (Inl e) \<Rightarrow>
                    if missing_choice_metadata e then ret (hydrateRuntimeValue (JObj []) None)
                    else fail e
                | Some (Inr rd) \<Rightarrow> run_choice c ev rd payload contractId argument))))))"

definition evaluate_get_time :: "rtval m" where
  "evaluate_get_time =
     gets (\<lambda>s. VText
       (case st_activeReplayContext s of
          Some ctx \<Rightarrow> env_offset (rc_environment ctx)
        | None \<Rightarrow> []))"

definition evaluate_ledger_time_lt :: "eval_fun \<Rightarrow> expr option \<Rightarrow> frame \<Rightarrow> rtval m" where
  "evaluate_ledger_time_lt ev e fr =
     (case e of
        None \<Rightarrow> ret VUnit
      | Some x \<Rightarrow> and_then (ev x fr) (\<lambda>_. ret VUnit))"

definition evaluateUpdateExpressionOrThrow ::
    "compilation \<Rightarrow> eval_fun \<Rightarrow> update \<Rightarrow> frame \<Rightarrow> rtval m" where
  "evaluateUpdateExpressionOrThrow c ev u fr =
     (case u of
        UPure e \<Rightarrow> ev (or_empty e) fr
      | UEmbedExpr e \<Rightarrow> ev (or_empty e) fr
      | UBlock bs body \<Rightarrow> evaluate_let ev bs (or_empty body) fr
      | UTryCatch e catchVariableName catchExpression \<Rightarrow>
          evaluate_try_catch ev e catchVariableName catchExpression fr
      | UCreate t argument \<Rightarrow> evaluate_create c ev t argument fr
      | UFetch t contractId \<Rightarrow> evaluate_fetch ev t contractId fr
      | UFetchInterface contractId \<Rightarrow> evaluate_fetch_interface ev contractId fr
      | UExercise t choice contractId argument \<Rightarrow>
          evaluate_exercise c ev t choice contractId argument fr
      | UExerciseInterface choice contractId argument \<Rightarrow>
          evaluate_exercise_interface c ev choice contractId argument fr
      | UGetTime \<Rightarrow> evaluate_get_time
      | ULedgerTimeLt e \<Rightarrow> evaluate_ledger_time_lt ev e fr
      | UOther kind \<Rightarrow> fail (ValidationError
          (''daml lf update expression '' @ quoted kind @ '' is not supported yet'')))"

section \<open>Expressions\<close>

definition evaluate_variable :: "string \<Rightarrow> frame \<Rightarrow> rtval m" where
  "evaluate_variable name fr s =
     (case getBinding (st_store s) (fr_scope fr) name of
        Some v \<Rightarrow> (Ok v, s)
      | None \<Rightarrow> (Fail (ValidationError (''daml lf variable '' @ quoted name @ '' is not bound'')), s))"

definition builtin_constructor_value :: "builtin_con \<Rightarrow> rtval" where
  "builtin_constructor_value con =
     (case con of ConTrue \<Rightarrow> VBoolean True | ConFalse \<Rightarrow> VBoolean False | ConUnit \<Rightarrow> VUnit)"

definition unsupported_expression :: "string option \<Rightarrow> js_error" where
  "unsupported_expression kind =
     ValidationError
       (case kind of
          None \<Rightarrow> ''daml lf expression is not supported yet''
        | Some k \<Rightarrow> ''daml lf expression '' @ quoted k @ '' is not supported yet'')"

definition resolveExpressionValue ::
    "compilation \<Rightarrow> eval_fun \<Rightarrow> apply_fun \<Rightarrow> expr \<Rightarrow> frame \<Rightarrow> rtval m" where
  "resolveExpressionValue c ev ap e fr =
     (case e of
        ETextLiteral t \<Rightarrow> ret (VText t)
      | ENumericLiteral t \<Rightarrow> ret (VNumeric t)
      | EInt64Literal t \<Rightarrow> ret (VInt64 t)
      | EVariable name \<Rightarrow> evaluate_variable name fr
      | EBuiltinCon con \<Rightarrow> ret (builtin_constructor_value con)
      | EBuiltinFun f \<Rightarrow> ret (VBuiltin f [])
      | ELambda ps body \<Rightarrow> ret (VClosure ps body fr)
      | EApplication f args \<Rightarrow> evaluate_application ev ap f args fr
      | ELet bs body \<Rightarrow> evaluate_let ev bs body fr
      | ERecordCon fs \<Rightarrow> evaluate_record_construction ev fs fr
      | ERecordProj name r \<Rightarrow> evaluate_record_projection c ev name r fr
      | ERecordUpd name r v \<Rightarrow> evaluate_record_update c ev name r v fr
      | EThrow x \<Rightarrow> evaluate_throw ev x fr
      | EVariantCon con x \<Rightarrow> evaluate_variant_construction ev con x fr
      | EOptionalCon x \<Rightarrow> evaluate_optional_construction ev x fr
      | EEnumCon con \<Rightarrow> ret (hydrateRuntimeValue (JStr con) None)
      | EListCon front tail \<Rightarrow> evaluate_list_construction ev front tail fr
      | EUpdate u \<Rightarrow> evaluateUpdateExpressionOrThrow c ev u fr
      | ECase scrut alternatives \<Rightarrow> evaluate_case ev scrut alternatives fr
      | EValueRef p m n \<Rightarrow> evaluate_value_reference c ev p m n
      | EUnsupported kind \<Rightarrow> fail (unsupported_expression kind))"

definition evaluateExpressionOrThrow :: "eval_fun \<Rightarrow> expr \<Rightarrow> frame \<Rightarrow> rtval m" where
  "evaluateExpressionOrThrow resolve e fr =
     and_then (onStep StepEnterExpression e fr None None) (\<lambda>_.
     and_then (resolve e fr) (\<lambda>v.
     and_then (onStep StepExitExpression e fr (Some v) None) (\<lambda>_. ret v)))"

section \<open>Application\<close>

definition applyFoldlBuiltinOrThrow :: "apply_fun \<Rightarrow> rtval list \<Rightarrow> rtval m" where
  "applyFoldlBuiltinOrThrow ap appliedArguments =
     (case appliedArguments of
        foldFunction # initial # items # remainingArguments \<Rightarrow>
          and_then (lift_result (readRuntimeListOrThrow items)) (\<lambda>listItems.
          and_then
            (fold_m (\<lambda>item accumulator.
               and_then (ap foldFunction [accumulator]) (\<lambda>g. ap g [item])) listItems initial)
            (\<lambda>accumulator.
               if remainingArguments = [] then ret accumulator
               else ap accumulator remainingArguments))
      | _ \<Rightarrow> ret (VBuiltin ''FOLDL'' appliedArguments))"

definition applyFoldrBuiltinOrThrow :: "apply_fun \<Rightarrow> rtval list \<Rightarrow> rtval m" where
  "applyFoldrBuiltinOrThrow ap appliedArguments =
     (case appliedArguments of
        foldFunction # initial # items # remainingArguments \<Rightarrow>
          and_then (lift_result (readRuntimeListOrThrow items)) (\<lambda>listItems.
          and_then
            (fold_m (\<lambda>item accumulator.
               and_then (ap foldFunction [item]) (\<lambda>g. ap g [accumulator])) (rev listItems) initial)
            (\<lambda>accumulator.
               if remainingArguments = [] then ret accumulator
               else ap accumulator remainingArguments))
      | _ \<Rightarrow> ret (VBuiltin ''FOLDR'' appliedArguments))"

definition apply_closure ::
    "eval_fun \<Rightarrow> apply_fun \<Rightarrow> string list \<Rightarrow> expr \<Rightarrow> frame \<Rightarrow> rtval list \<Rightarrow> rtval m" where
  "apply_closure ev ap parameters body fr args =
     (let boundParameterCount = min (length parameters) (length args);
          remainingParameters = drop boundParameterCount parameters;
          remainingArguments = drop boundParameterCount args in
      and_then (child_frame fr) (\<lambda>appliedFrame.
      and_then (bind_names appliedFrame (zip parameters args)) (\<lambda>_.
      and_then
        (if remainingParameters = [] then ev body appliedFrame
         else ret (VClosure remainingParameters body appliedFrame))
        (\<lambda>intermediateValue.
           if remainingArguments = [] then ret intermediateValue
           else ap intermediateValue remainingArguments))))"

definition applyFunctionOrThrow :: "eval_fun \<Rightarrow> apply_fun \<Rightarrow> rtval \<Rightarrow> rtval list \<Rightarrow> rtval m" where
  "applyFunctionOrThrow ev ap f args =
     (case f of
        VClosure parameters body fr \<Rightarrow> apply_closure ev ap parameters body fr args
      | VBuiltin name appliedArguments \<Rightarrow>
          if name = ''FOLDL'' then applyFoldlBuiltinOrThrow ap (appliedArguments @ args)
          else if name = ''FOLDR'' then applyFoldrBuiltinOrThrow ap (appliedArguments @ args)
          else lift_result (applyOrThrow name appliedArguments args)
      | _ \<Rightarrow> fail (ValidationError
          (''daml lf expression is not callable ('' @ kind_of f @ '')'')))"

section \<open>The evaluator\<close>

fun evaluateExpression :: "compilation \<Rightarrow> nat \<Rightarrow> expr \<Rightarrow> frame \<Rightarrow> rtval m"
  and applyFunction :: "compilation \<Rightarrow> nat \<Rightarrow> rtval \<Rightarrow> rtval list \<Rightarrow> rtval m" where
  "evaluateExpression c 0 e fr = diverge"
| "evaluateExpression c (Suc n) e fr =
     evaluateExpressionOrThrow
       (resolveExpressionValue c (evaluateExpression c n) (applyFunction c n)) e fr"
| "applyFunction c 0 f args = diverge"
| "applyFunction c (Suc n) f args =
     applyFunctionOrThrow (evaluateExpression c n) (applyFunction c n) f args"

definition evaluateValueDefinitionOrThrow :: "compilation \<Rightarrow> nat \<Rightarrow> value_def \<Rightarrow> rtval m" where
  "evaluateValueDefinitionOrThrow c n d =
     and_then (createFrame c d None) (\<lambda>fr. evaluateExpression c n (vd_expression d) fr)"

definition createReplayEffects :: "replay_environment \<Rightarrow> replay_effect list" where
  "createReplayEffects env =
     (case env_kind env of
        EntryExercise \<Rightarrow>
          [\<lparr>ef_kind = EffExercise, ef_contractId = env_contractId env,
            ef_templateId = env_templateId env, ef_choice = env_choice env,
            ef_argument = env_argument env, ef_payload = JUndef\<rparr>]
      | EntryCreate \<Rightarrow>
          [\<lparr>ef_kind = EffCreate, ef_contractId = None, ef_templateId = env_templateId env,
            ef_choice = None, ef_argument = JUndef, ef_payload = env_argument env\<rparr>])"

definition new_replay_context :: "replay_environment \<Rightarrow> replay_context" where
  "new_replay_context env =
     \<lparr>rc_environment = env, rc_effects = [], rc_createdContracts = [],
      rc_observedCreateContractIds =
        (case env_observedCreateContractIds env of Some ids \<Rightarrow> ids | None \<Rightarrow> []),
      rc_nextSyntheticContractIdNumber = 1, rc_nextObservedCreateIndex = 0\<rparr>"

definition emits_entrypoint_effects :: "replay_environment \<Rightarrow> expr \<Rightarrow> bool" where
  "emits_entrypoint_effects env replayExpression \<longleftrightarrow>
     \<not> isUpdateDrivenEntrypointExpression replayExpression
     \<or> (env_kind env = EntryExercise \<and> env_entrypointBindingMode env = Some ModeTemplateChoice)"

record replay_result =
  rr_value :: rtval
  rr_effects :: "replay_effect list"

text \<open>The body of the \<^verbatim>\<open>try\<close> block, and the method with its \<^verbatim>\<open>finally\<close>.\<close>

definition replay_body :: "eval_fun \<Rightarrow> replay_environment \<Rightarrow> expr \<Rightarrow> frame \<Rightarrow> replay_result m" where
  "replay_body ev env replayExpression fr =
     and_then
       (if emits_entrypoint_effects env replayExpression
        then fold_m (\<lambda>eff _. emitReplayEffect eff replayExpression fr) (createReplayEffects env) ()
        else ret ())
       (\<lambda>_.
     and_then (evaluateReplayExpressionOrThrow ev replayExpression fr env) (\<lambda>v.
     gets (\<lambda>s. \<lparr>rr_value = v,
       rr_effects = (case st_activeReplayContext s of Some ctx \<Rightarrow> rc_effects ctx | None \<Rightarrow> [])\<rparr>)))"

definition evaluateReplayEntrypointOrThrow ::
    "compilation \<Rightarrow> nat \<Rightarrow> value_def \<Rightarrow> replay_environment \<Rightarrow> replay_result m" where
  "evaluateReplayEntrypointOrThrow c n d env =
     and_then (createFrame c d None) (\<lambda>fr s.
       let replayExpression =
             (case env_entrypointExpression env of Some e \<Rightarrow> e | None \<Rightarrow> vd_expression d);
           (r, s') = replay_body (evaluateExpression c n) env replayExpression fr
             (s\<lparr>st_activeReplayContext := Some (new_replay_context env)\<rparr>) in
       (r, s'\<lparr>st_activeReplayContext := None\<rparr>))"

end
