(* ===== verification/Evaluator_Fuel.thy ===== *)
theory Evaluator_Fuel
  imports Evaluator
begin

text \<open>
  The bound on the call depth only decides whether the evaluator answers: an answer found within
  one bound is the answer within every larger one. \<open>approx m m'\<close> says that \<open>m'\<close> answers like \<open>m\<close>
  wherever \<open>m\<close> answers; every case of the evaluator is monotone for it.
\<close>

definition approx :: "'a m \<Rightarrow> 'a m \<Rightarrow> bool" where
  "approx m m' \<longleftrightarrow> (\<forall>s. fst (m s) \<noteq> Diverge \<longrightarrow> m' s = m s)"

named_theorems approx_intros \<open>monotonicity of the combinators and of the evaluator's cases\<close>

lemma approx_refl [approx_intros]: "approx m m"
  by (simp add: approx_def)

lemma approx_diverge: "approx diverge m"
  by (simp add: approx_def diverge_def)

lemma approx_and_then [approx_intros]:
  assumes "approx m m'" "\<And>x. approx (f x) (f' x)"
  shows "approx (and_then m f) (and_then m' f')"
  unfolding approx_def
proof (intro allI impI)
  fix s
  assume nd: "fst (and_then m f s) \<noteq> Diverge"
  then have "fst (m s) \<noteq> Diverge" by (auto simp: and_then_def split: prod.splits outcome.splits)
  then have m: "m' s = m s" using assms(1) by (simp add: approx_def)
  show "and_then m' f' s = and_then m f s"
    using nd assms(2) by (auto simp: and_then_def m approx_def split: prod.splits outcome.splits)
qed

lemma approx_catch [approx_intros]:
  assumes "approx m m'" "\<And>x. approx (h x) (h' x)"
  shows "approx (catch_thrown m h) (catch_thrown m' h')"
  unfolding approx_def
proof (intro allI impI)
  fix s
  assume nd: "fst (catch_thrown m h s) \<noteq> Diverge"
  then have "fst (m s) \<noteq> Diverge"
    by (auto simp: catch_thrown_def split: prod.splits outcome.splits)
  then have m: "m' s = m s" using assms(1) by (simp add: approx_def)
  show "catch_thrown m' h' s = catch_thrown m h s"
    using nd assms(2) by (auto simp: catch_thrown_def m approx_def split: prod.splits outcome.splits)
qed

lemma approx_map_m [approx_intros]:
  "(\<And>x. approx (f x) (f' x)) \<Longrightarrow> approx (map_m f xs) (map_m f' xs)"
  by (induction xs) (auto intro!: approx_intros)

lemma approx_fold_m [approx_intros]:
  "(\<And>x a. approx (f x a) (f' x a)) \<Longrightarrow> approx (fold_m f xs acc) (fold_m f' xs acc)"
  by (induction xs arbitrary: acc) (auto intro!: approx_intros)

lemmas evaluator_splits =
  option.splits prod.splits rtval.splits js.splits sum.splits expr.splits list.splits
  update.splits

section \<open>The cases of the evaluator\<close>

text \<open>Two pairs of recursive calls of which the second answers wherever the first does.\<close>

locale approximation =
  fixes ev ev' :: eval_fun and ap ap' :: apply_fun
  assumes ev: "approx (ev e fr) (ev' e fr)"
    and ap: "approx (ap f args) (ap' f args)"
begin

lemmas recursive_calls = ev ap

lemma approx_bindings: "approx (evaluate_bindings ev fr bs) (evaluate_bindings ev' fr bs)"
  by (induction bs) (auto intro!: approx_intros recursive_calls)

lemma approx_let: "approx (evaluate_let ev bs body fr) (evaluate_let ev' bs body fr)"
  unfolding evaluate_let_def by (intro approx_intros recursive_calls approx_bindings)

lemma approx_application:
  "approx (evaluate_application ev ap f args fr) (evaluate_application ev' ap' f args fr)"
  unfolding evaluate_application_def by (intro approx_intros recursive_calls)

lemma approx_record_construction:
  "approx (evaluate_record_construction ev fs fr) (evaluate_record_construction ev' fs fr)"
  unfolding evaluate_record_construction_def
  by (auto intro!: approx_intros recursive_calls split: prod.splits)

lemma approx_record_projection:
  "approx (evaluate_record_projection c ev name r fr) (evaluate_record_projection c ev' name r fr)"
  unfolding evaluate_record_projection_def by (intro approx_intros recursive_calls)

lemma approx_record_update:
  "approx (evaluate_record_update c ev name r e fr) (evaluate_record_update c ev' name r e fr)"
  unfolding evaluate_record_update_def
  by (auto intro!: approx_intros recursive_calls split: rtval.splits)

lemma approx_throw: "approx (evaluate_throw ev e fr) (evaluate_throw ev' e fr)"
  unfolding evaluate_throw_def by (intro approx_intros recursive_calls)

lemma approx_variant:
  "approx (evaluate_variant_construction ev con e fr) (evaluate_variant_construction ev' con e fr)"
  unfolding evaluate_variant_construction_def by (intro approx_intros recursive_calls)

lemma approx_optional:
  "approx (evaluate_optional_construction ev e fr) (evaluate_optional_construction ev' e fr)"
  unfolding evaluate_optional_construction_def
  by (auto intro!: approx_intros recursive_calls split: option.splits)

lemma approx_list:
  "approx (evaluate_list_construction ev front tail fr)
     (evaluate_list_construction ev' front tail fr)"
  unfolding evaluate_list_construction_def
  by (auto intro!: approx_intros recursive_calls split: option.splits)

lemma approx_case:
  "approx (evaluate_case ev scrut alts fr) (evaluate_case ev' scrut alts fr)"
  unfolding evaluate_case_def
  by (auto intro!: approx_intros recursive_calls split: option.splits prod.splits)

lemma approx_value_reference:
  "approx (evaluate_value_reference c ev p m n) (evaluate_value_reference c ev' p m n)"
  unfolding evaluate_value_reference_def Let_def by (intro approx_intros recursive_calls)

lemma approx_replay_lambda:
  "approx (evaluateReplayLambdaOrExpressionOrThrow ev e fr bvs mode)
     (evaluateReplayLambdaOrExpressionOrThrow ev' e fr bvs mode)"
  unfolding evaluateReplayLambdaOrExpressionOrThrow_def
  by (cases e) (simp_all, (intro approx_intros recursive_calls)+)

lemma approx_replay_body:
  "approx (replay_body ev env e fr) (replay_body ev' env e fr)"
  unfolding replay_body_def evaluateReplayExpressionOrThrow_def
  by (intro approx_intros approx_replay_lambda)

lemma approx_try_catch:
  "approx (evaluate_try_catch ev e name handler fr) (evaluate_try_catch ev' e name handler fr)"
  unfolding evaluate_try_catch_def by (intro approx_intros recursive_calls)

lemma approx_create: "approx (evaluate_create c ev t arg fr) (evaluate_create c ev' t arg fr)"
  unfolding evaluate_create_def Let_def by (intro approx_intros recursive_calls)

lemma approx_contract_id:
  "approx (evaluate_contract_id ev e fr) (evaluate_contract_id ev' e fr)"
  unfolding evaluate_contract_id_def by (intro approx_intros recursive_calls)

lemma approx_argument: "approx (evaluate_argument ev e fr) (evaluate_argument ev' e fr)"
  unfolding evaluate_argument_def by (intro approx_intros recursive_calls)

lemma approx_run_choice:
  "approx (run_choice c ev rd payload cid arg) (run_choice c ev' rd payload cid arg)"
  unfolding run_choice_def by (intro approx_intros approx_replay_lambda)

lemmas approx_parts = approx_contract_id approx_argument approx_run_choice

lemma approx_fetch: "approx (evaluate_fetch ev t e fr) (evaluate_fetch ev' t e fr)"
  unfolding evaluate_fetch_def by (intro approx_intros approx_parts)

lemma approx_fetch_interface:
  "approx (evaluate_fetch_interface ev e fr) (evaluate_fetch_interface ev' e fr)"
  unfolding evaluate_fetch_interface_def
  by (auto intro!: approx_intros approx_parts split: prod.splits)

lemma approx_exercise:
  "approx (evaluate_exercise c ev t ch e a fr) (evaluate_exercise c ev' t ch e a fr)"
  unfolding evaluate_exercise_def
  by (auto intro!: approx_intros approx_parts split: option.splits)

lemma approx_exercise_interface:
  "approx (evaluate_exercise_interface c ev ch e a fr)
     (evaluate_exercise_interface c ev' ch e a fr)"
  unfolding evaluate_exercise_interface_def
  by (auto intro!: approx_intros approx_parts split: option.splits sum.splits prod.splits)

lemma approx_ledger_time:
  "approx (evaluate_ledger_time_lt ev e fr) (evaluate_ledger_time_lt ev' e fr)"
  unfolding evaluate_ledger_time_lt_def
  by (auto intro!: approx_intros recursive_calls split: option.splits)

lemmas approx_updates =
  approx_let approx_try_catch approx_create approx_fetch approx_fetch_interface
  approx_exercise approx_exercise_interface approx_ledger_time

lemma approx_update:
  "approx (evaluateUpdateExpressionOrThrow c ev u fr) (evaluateUpdateExpressionOrThrow c ev' u fr)"
  unfolding evaluateUpdateExpressionOrThrow_def
  by (cases u) (simp_all add: approx_updates recursive_calls approx_refl)

lemmas approx_cases =
  approx_application approx_let approx_record_construction approx_record_projection
  approx_record_update approx_throw approx_variant approx_optional approx_list approx_update
  approx_case approx_value_reference

lemma approx_resolve:
  "approx (resolveExpressionValue c ev ap e fr) (resolveExpressionValue c ev' ap' e fr)"
  unfolding resolveExpressionValue_def
  by (cases e) (simp_all add: approx_cases approx_refl)

lemma approx_expression:
  "approx (evaluateExpressionOrThrow (resolveExpressionValue c ev ap) e fr)
     (evaluateExpressionOrThrow (resolveExpressionValue c ev' ap') e fr)"
  unfolding evaluateExpressionOrThrow_def by (intro approx_intros approx_resolve)

lemma approx_foldl:
  "approx (applyFoldlBuiltinOrThrow ap args) (applyFoldlBuiltinOrThrow ap' args)"
  unfolding applyFoldlBuiltinOrThrow_def
  by (auto intro!: approx_intros recursive_calls split: list.splits)

lemma approx_foldr:
  "approx (applyFoldrBuiltinOrThrow ap args) (applyFoldrBuiltinOrThrow ap' args)"
  unfolding applyFoldrBuiltinOrThrow_def
  by (auto intro!: approx_intros recursive_calls split: list.splits)

lemma approx_closure:
  "approx (apply_closure ev ap ps body fr args) (apply_closure ev' ap' ps body fr args)"
  unfolding apply_closure_def Let_def
  by (auto intro!: approx_intros recursive_calls)

lemma approx_apply:
  "approx (applyFunctionOrThrow ev ap f args) (applyFunctionOrThrow ev' ap' f args)"
  unfolding applyFunctionOrThrow_def
  by (cases f) (simp_all add: approx_foldl approx_foldr approx_closure approx_refl)

end

section \<open>One more level of calls\<close>

lemma approximation_Suc:
  "approximation (evaluateExpression c n) (evaluateExpression c (Suc n))
     (applyFunction c n) (applyFunction c (Suc n))"
proof (induction n)
  case 0
  show ?case
    by (rule approximation.intro)
      (simp_all only: evaluateExpression.simps(1) applyFunction.simps(1) approx_diverge)
next
  case (Suc n)
  have "approx (evaluateExpression c (Suc n) e fr) (evaluateExpression c (Suc (Suc n)) e fr)" for e fr
    by (subst evaluateExpression.simps(2) [of c n], subst evaluateExpression.simps(2) [of c "Suc n"])
      (rule approximation.approx_expression [OF Suc])
  moreover have "approx (applyFunction c (Suc n) f args) (applyFunction c (Suc (Suc n)) f args)" for f args
    by (subst applyFunction.simps(2) [of c n], subst applyFunction.simps(2) [of c "Suc n"])
      (rule approximation.approx_apply [OF Suc])
  ultimately show ?case by (rule approximation.intro)
qed

interpretation depth: approximation "evaluateExpression c n" "evaluateExpression c (Suc n)"
  "applyFunction c n" "applyFunction c (Suc n)" for c n
  by (rule approximation_Suc)

lemma approx_trans: "approx m m' \<Longrightarrow> approx m' m'' \<Longrightarrow> approx m m''"
  by (simp add: approx_def)

lemma approx_more:
  "n \<le> k \<Longrightarrow> approx (evaluateExpression c n e fr) (evaluateExpression c k e fr)"
  "n \<le> k \<Longrightarrow> approx (applyFunction c n f args) (applyFunction c k f args)"
  by (induction k rule: dec_induct)
    (auto intro: approx_refl approx_trans depth.ev depth.ap
      simp del: evaluateExpression.simps(2) applyFunction.simps(2))

lemma approximation_more:
  "n \<le> k \<Longrightarrow> approximation (evaluateExpression c n) (evaluateExpression c k)
     (applyFunction c n) (applyFunction c k)"
  by (intro approximation.intro approx_more)

lemma evaluation_stable:
  "evaluateExpression c n e fr s = (r, s') \<Longrightarrow> r \<noteq> Diverge \<Longrightarrow> n \<le> k \<Longrightarrow>
     evaluateExpression c k e fr s = (r, s')"
  using approx_more(1) [of n k c e fr] by (simp add: approx_def)

lemma application_stable:
  "applyFunction c n f args s = (r, s') \<Longrightarrow> r \<noteq> Diverge \<Longrightarrow> n \<le> k \<Longrightarrow>
     applyFunction c k f args s = (r, s')"
  using approx_more(2) [of n k c f args] by (simp add: approx_def)

lemma replay_stable:
  assumes "evaluateReplayEntrypointOrThrow c n d env s = (r, s')" "r \<noteq> Diverge" "n \<le> k"
  shows "evaluateReplayEntrypointOrThrow c k d env s = (r, s')"
proof -
  have "approx (replay_body (evaluateExpression c n) env e fr)
      (replay_body (evaluateExpression c k) env e fr)" for e fr
    by (rule approximation.approx_replay_body [OF approximation_more [OF assms(3)]])
  then have "approx (evaluateReplayEntrypointOrThrow c n d env)
      (evaluateReplayEntrypointOrThrow c k d env)"
    unfolding evaluateReplayEntrypointOrThrow_def
    by (intro approx_intros) (auto simp: approx_def Let_def split: prod.splits)
  then show ?thesis using assms(1,2) by (simp add: approx_def)
qed

end
