(* ===== verification/Evaluator_Safety.thy ===== *)
theory Evaluator_Safety
  imports Evaluator
begin

text \<open>
  What every evaluation preserves, proved once for the whole evaluator. The store stays well formed:
  scope chains are acyclic and no value refers to a scope that does not exist. Beside that a relation
  \<open>R\<close> between the states before and after is carried along; a locale states what \<open>R\<close> has to
  satisfy for the evaluator's elementary steps.
\<close>

section \<open>Values and stores without dangling scopes\<close>

fun value_in :: "nat \<Rightarrow> rtval \<Rightarrow> bool" where
  "value_in k (VRecord fs) = list_all (\<lambda>(n, v). value_in k v) fs"
| "value_in k (VClosure ps body fr) = (fr_scope fr < k)"
| "value_in k (VBuiltin f args) = list_all (value_in k) args"
| "value_in k v = True"

lemma value_in_mono: "value_in j v \<Longrightarrow> j \<le> k \<Longrightarrow> value_in k v"
  by (induction v) (fastforce simp: list_all_iff)+

definition store_size :: "evaluator_state \<Rightarrow> nat" where
  "store_size s = length (st_store s)"

definition values_in_store :: "store \<Rightarrow> bool" where
  "values_in_store h \<longleftrightarrow>
     (\<forall>a < length h. \<forall>(n, v) \<in> set (sc_bindings (h ! a)). value_in (length h) v)"

definition good :: "evaluator_state \<Rightarrow> bool" where
  "good s \<longleftrightarrow> store_ok (st_store s) \<and> values_in_store (st_store s)"

lemma first_binding_value_in:
  "values_in_store h \<Longrightarrow> first_binding h name as = Some v \<Longrightarrow> value_in (length h) v"
proof (induction as)
  case (Cons a as)
  show ?case
  proof (cases "map_of (sc_bindings (scope_at h a)) name")
    case None
    then show ?thesis using Cons by simp
  next
    case (Some w)
    then have "(name, w) \<in> set (sc_bindings (scope_at h a))" by (rule map_of_SomeD)
    then have "a < length h" "(name, w) \<in> set (sc_bindings (h ! a))"
      by (auto simp: scope_at_def split: if_splits)
    then show ?thesis using Cons Some by (auto simp: values_in_store_def)
  qed
qed simp

lemma getBinding_value_in:
  "good s \<Longrightarrow> getBinding (st_store s) a name = Some v \<Longrightarrow> value_in (store_size s) v"
  by (auto simp: good_def store_size_def getBinding_def dest: first_binding_value_in)

lemma values_in_store_append:
  "values_in_store h \<Longrightarrow> values_in_store (h @ [\<lparr>sc_bindings = [], sc_parent = p\<rparr>])"
  by (fastforce simp: values_in_store_def nth_append intro: value_in_mono)

lemma set_AList_update:
  "(m, w) \<in> set (AList.update n v al) \<Longrightarrow> (m, w) = (n, v) \<or> (m, w) \<in> set al"
  by (induction al) (auto split: if_splits)

lemma values_in_store_setBinding:
  assumes "values_in_store h" "value_in (length h) v"
  shows "values_in_store (setBinding a name v h)"
proof -
  have "value_in (length h) w" if "(m, w) \<in> set (AList.update name v (sc_bindings (scope_at h a)))"
    "a < length h" for m w
  proof -
    have "(m, w) = (name, v) \<or> (m, w) \<in> set (sc_bindings (h ! a))"
      using set_AList_update [OF that(1)] that(2) by (simp add: scope_at_def)
    then show ?thesis using assms that(2) by (auto simp: values_in_store_def)
  qed
  then have "\<forall>(m, w) \<in> set (sc_bindings (setBinding a name v h ! b)). value_in (length h) w"
    if "b < length h" for b
    using assms that by (cases "b = a") (auto simp: values_in_store_def setBinding_def)
  then show ?thesis by (simp add: values_in_store_def)
qed

section \<open>Values without frames\<close>

lemma hydrateRuntimeValue_in [simp]: "value_in k (hydrateRuntimeValue v cid)"
  by (simp add: hydrateRuntimeValue_def split: option.splits js.splits)

lemma hydrateValue_in [simp]: "value_in k (hydrateValue v)"
  by (simp add: hydrateValue_def split: option.splits js.splits)

lemma insert_property_in:
  "value_in k v \<Longrightarrow> list_all (\<lambda>(n, v). value_in k v) ps \<Longrightarrow>
     list_all (\<lambda>(n, v). value_in k v) (insert_property name v ps)"
  by (induction name v ps rule: insert_property.induct) auto

lemma obj_set_in:
  "value_in k v \<Longrightarrow> list_all (\<lambda>(n, v). value_in k v) ps \<Longrightarrow>
     list_all (\<lambda>(n, v). value_in k v) (obj_set name v ps)"
  by (cases "name \<in> fst ` set ps")
    (simp add: obj_set_def list_all_iff split_beta, simp add: obj_set_def insert_property_in)

lemma obj_from_entries_in:
  "list_all (\<lambda>(n, v). value_in k v) es \<Longrightarrow> list_all (\<lambda>(n, v). value_in k v) (obj_from_entries es)"
proof -
  have "list_all (\<lambda>(n, v). value_in k v) ps \<Longrightarrow> list_all (\<lambda>(n, v). value_in k v) es \<Longrightarrow>
      list_all (\<lambda>(n, v). value_in k v) (obj_spread ps es)" for ps
    by (induction es arbitrary: ps) (auto simp: obj_spread_def obj_set_in)
  then show "list_all (\<lambda>(n, v). value_in k v) es \<Longrightarrow> ?thesis" by (simp add: obj_from_entries_def)
qed

lemma createRecordRuntimeValue_in:
  "list_all (\<lambda>(n, v). value_in k v) fs \<Longrightarrow> value_in k (createRecordRuntimeValue fs)"
  by (simp add: createRecordRuntimeValue_def)

lemma readRuntimeListOrThrow_in:
  "readRuntimeListOrThrow v = Inr vs \<Longrightarrow> list_all (value_in k) vs"
  by (induction v rule: readRuntimeListOrThrow.induct) (auto simp: list_all_iff)

lemma record_field_in:
  "list_all (\<lambda>(n, v). value_in k v) fs \<Longrightarrow> record_field name fs = Inr v \<Longrightarrow> value_in k v"
  by (auto simp: record_field_def list_all_iff split: option.splits if_splits dest!: map_of_SomeD)

lemma builtin_results_in:
  "list_all (value_in k) args \<Longrightarrow> partial f args = Inr v \<Longrightarrow> value_in k v"
  "boolean_result b = Inr v \<Longrightarrow> value_in k v"
  "text_result t = Inr v \<Longrightarrow> value_in k v"
  "int64_result i = Inr v \<Longrightarrow> value_in k v"
  "numeric_result d = Inr v \<Longrightarrow> value_in k v"
  by (auto simp: partial_def boolean_result_def text_result_def int64_result_def numeric_result_def
      bind_result_Inr_iff)

lemmas apply_defs =
  apply_equal_def apply_LESS_def apply_LESS_EQ_def apply_GREATER_EQ_def apply_GREATER_def
  apply_ADD_INT64_def apply_SUB_INT64_def apply_ADD_NUMERIC_def apply_SUB_NUMERIC_def
  apply_MUL_NUMERIC_def apply_DIV_NUMERIC_def apply_INT64_TO_NUMERIC_def apply_NUMERIC_TO_INT64_def
  apply_CAST_NUMERIC_def apply_SHIFT_NUMERIC_def apply_ROUND_NUMERIC_def apply_INT64_TO_TEXT_def
  apply_PARTY_TO_TEXT_def apply_COERCE_CONTRACT_ID_def apply_TEXTMAP_EMPTY_def
  apply_TEXTMAP_INSERT_def apply_TEXTMAP_LOOKUP_def apply_TEXTMAP_DELETE_def
  apply_TEXTMAP_TO_LIST_def apply_TEXTMAP_SIZE_def apply_GENMAP_EMPTY_def apply_GENMAP_INSERT_def
  apply_GENMAP_LOOKUP_def apply_GENMAP_DELETE_def apply_GENMAP_KEYS_def apply_GENMAP_VALUES_def
  apply_GENMAP_SIZE_def apply_appendText_def apply_EXPLODE_TEXT_def apply_IMPLODE_TEXT_def
  apply_NUMERIC_TO_TEXT_def

lemma builtin_table_in:
  assumes "list_all (value_in k) args"
  shows "list_all (\<lambda>(name, body). \<forall>v. body args = Inr v \<longrightarrow> value_in k v) builtin_table"
  unfolding builtin_table_def list.pred_inject prod.case
  by (intro conjI allI impI)
    (auto simp: apply_defs Let_def bind_result_Inr_iff dest: builtin_results_in [where k = k]
      builtin_results_in(1) [OF assms] builtin_results_in(1) [where args = "[]", simplified] split: if_splits option.splits)

lemma applyOrThrow_in:
  assumes "list_all (value_in k) xs" "list_all (value_in k) ys" "applyOrThrow f xs ys = Inr v"
  shows "value_in k v"
proof -
  obtain body where "map_of builtin_table f = Some body" and v: "body (xs @ ys) = Inr v"
    using assms(3) by (auto simp: applyOrThrow_def split: option.splits)
  then have "(f, body) \<in> set builtin_table" by (simp add: map_of_SomeD)
  moreover have "list_all (value_in k) (xs @ ys)" using assms by simp
  ultimately have "\<forall>v. body (xs @ ys) = Inr v \<longrightarrow> value_in k v"
    using builtin_table_in [of k "xs @ ys"] unfolding list_all_iff by blast
  then show ?thesis using v by blast
qed

section \<open>Preservation triples\<close>

text \<open>
  From a good state with at least \<open>k\<close> scopes, \<open>m\<close> reaches a good state related by \<open>R\<close>; scopes are
  never removed, what it returns satisfies \<open>V\<close>, and what it throws has no dangling scope.
\<close>

definition outcome_in :: "(nat \<Rightarrow> 'a \<Rightarrow> bool) \<Rightarrow> nat \<Rightarrow> 'a outcome \<Rightarrow> bool" where
  "outcome_in V k r = (case r of Ok x \<Rightarrow> V k x | Thrown v \<Rightarrow> value_in k v | _ \<Rightarrow> True)"

lemma outcome_in_simps [simp]:
  "outcome_in V k (Ok x) = V k x"
  "outcome_in V k (Thrown v) = value_in k v"
  "outcome_in V k (Fail e)"
  "outcome_in V k Diverge"
  by (simp_all add: outcome_in_def)

definition triple ::
    "(evaluator_state \<Rightarrow> evaluator_state \<Rightarrow> bool) \<Rightarrow> nat \<Rightarrow> (nat \<Rightarrow> 'a \<Rightarrow> bool) \<Rightarrow> 'a m \<Rightarrow> bool" where
  "triple R k V m \<longleftrightarrow>
     (\<forall>s r s'. good s \<longrightarrow> k \<le> store_size s \<longrightarrow> m s = (r, s') \<longrightarrow>
        good s' \<and> R s s' \<and> store_size s \<le> store_size s' \<and> outcome_in V (store_size s') r)"

lemma tripleI:
  "(\<And>s r s'. good s \<Longrightarrow> k \<le> store_size s \<Longrightarrow> m s = (r, s') \<Longrightarrow>
      good s' \<and> R s s' \<and> store_size s \<le> store_size s' \<and> outcome_in V (store_size s') r)
     \<Longrightarrow> triple R k V m"
  by (simp add: triple_def)

lemma tripleD:
  assumes "triple R k V m" "good s" "k \<le> store_size s" "m s = (r, s')"
  shows "good s'" "R s s'" "store_size s \<le> store_size s'" "outcome_in V (store_size s') r"
  using assms by (simp_all add: triple_def)

definition frame_in :: "nat \<Rightarrow> frame \<Rightarrow> bool" where
  "frame_in k fr \<longleftrightarrow> fr_scope fr < k"

abbreviation anything :: "nat \<Rightarrow> 'a \<Rightarrow> bool" where
  "anything \<equiv> (\<lambda>_ _. True)"

definition bindings_in :: "nat \<Rightarrow> (string \<times> rtval) list \<Rightarrow> bool" where
  "bindings_in k bs \<longleftrightarrow> list_all (\<lambda>(n, v). value_in k v) bs"

lemma frame_in_mono: "frame_in j fr \<Longrightarrow> j \<le> k \<Longrightarrow> frame_in k fr"
  by (simp add: frame_in_def)

lemma bindings_in_mono: "bindings_in j bs \<Longrightarrow> j \<le> k \<Longrightarrow> bindings_in k bs"
  by (auto simp: bindings_in_def list_all_iff intro: value_in_mono)

lemma values_in_mono: "list_all (value_in j) vs \<Longrightarrow> j \<le> k \<Longrightarrow> list_all (value_in k) vs"
  by (auto simp: list_all_iff intro: value_in_mono)

lemmas in_monos = value_in_mono frame_in_mono bindings_in_mono values_in_mono

lemma outcome_in_conseq:
  "outcome_in V k r \<Longrightarrow> (\<And>x. V k x \<Longrightarrow> W k x) \<Longrightarrow> outcome_in W k r"
  by (cases r) simp_all

lemma triple_conseq:
  assumes "triple R k V m" "\<And>j x. k \<le> j \<Longrightarrow> V j x \<Longrightarrow> W j x"
  shows "triple R k W m"
proof (rule tripleI)
  fix s r s'
  assume s: "good s" "k \<le> store_size s" "m s = (r, s')"
  note * = tripleD [OF assms(1) s]
  then have "k \<le> store_size s'" using s(2) by simp
  then have "outcome_in W (store_size s') r" using *(4) assms(2) by (auto intro: outcome_in_conseq)
  then show "good s' \<and> R s s' \<and> store_size s \<le> store_size s' \<and> outcome_in W (store_size s') r"
    using * by simp
qed

text \<open>The relations an evaluation may be carried along: closed under its elementary steps.\<close>

locale evaluator_relation =
  fixes R :: "evaluator_state \<Rightarrow> evaluator_state \<Rightarrow> bool"
  assumes R_refl: "R s s"
    and R_trans: "R s t \<Longrightarrow> R t u \<Longrightarrow> R s u"
    and R_child: "R s (s\<lparr>st_store := snd (createChild a (st_store s))\<rparr>)"
    and R_frame: "R s (s\<lparr>st_store := snd (new_scope None (st_store s)),
      st_nextFrameNumber := Suc (st_nextFrameNumber s)\<rparr>)"
    and R_bind: "R s (s\<lparr>st_store := setBinding a n v (st_store s)\<rparr>)"
    and R_step: "kd \<noteq> StepStateEffect \<Longrightarrow> R s (snd (onStep kd e fr w None s))"
    and R_effect: "ef_kind eff \<noteq> EffCreate \<or> ef_contractId eff = None \<Longrightarrow> R s (snd (emitReplayEffect eff e fr s))"
    and R_create:
      "R s (snd (and_then (record_create (next_contract_id s) ct)
        (\<lambda>_. emitReplayEffect (create_effect (next_contract_id s) tid payload) e fr) s))"
begin

lemma triple_ret: "(\<And>j. k \<le> j \<Longrightarrow> V j x) \<Longrightarrow> triple R k V (ret x)"
  by (simp add: triple_def ret_def R_refl)

lemma triple_fail: "triple R k V (fail e)"
  by (simp add: triple_def fail_def R_refl)

lemma triple_throw: "value_in k v \<Longrightarrow> triple R k V (throw v)"
  by (auto simp: triple_def throw_def R_refl intro: value_in_mono)

lemma triple_diverge: "triple R k V diverge"
  by (simp add: triple_def diverge_def R_refl)

lemma triple_gets: "(\<And>s. k \<le> store_size s \<Longrightarrow> V (store_size s) (f s)) \<Longrightarrow> triple R k V (gets f)"
  by (auto simp: triple_def gets_def R_refl)

lemma triple_lift:
  "(\<And>x j. r = Inr x \<Longrightarrow> k \<le> j \<Longrightarrow> V j x) \<Longrightarrow> triple R k V (lift_result r)"
  by (cases r) (auto intro: triple_fail triple_ret)

lemma triple_and_then:
  assumes "triple R k V m" "\<And>j x. k \<le> j \<Longrightarrow> V j x \<Longrightarrow> triple R j W (f x)"
  shows "triple R k W (and_then m f)"
proof (rule tripleI)
  fix s r s'
  assume s: "good s" "k \<le> store_size s" and run: "and_then m f s = (r, s')"
  obtain r1 s1 where m: "m s = (r1, s1)" by (cases "m s")
  note s1 = tripleD [OF assms(1) s m]
  show "good s' \<and> R s s' \<and> store_size s \<le> store_size s' \<and> outcome_in W (store_size s') r"
  proof (cases r1)
    case (Ok x)
    then have f: "f x s1 = (r, s')" using run m by (simp add: and_then_def)
    have "triple R (store_size s1) W (f x)" using assms(2) Ok s s1 by simp
    note s2 = tripleD [OF this s1(1) order_refl f]
    then show ?thesis using s1 R_trans [OF s1(2) s2(2)] by simp
  qed (use run m s1 in \<open>auto simp: and_then_def\<close>)
qed

lemma triple_catch:
  assumes "triple R k V m" "\<And>j x. k \<le> j \<Longrightarrow> value_in j x \<Longrightarrow> triple R j V (h x)"
  shows "triple R k V (catch_thrown m h)"
proof (rule tripleI)
  fix s r s'
  assume s: "good s" "k \<le> store_size s" and run: "catch_thrown m h s = (r, s')"
  obtain r1 s1 where m: "m s = (r1, s1)" by (cases "m s")
  note s1 = tripleD [OF assms(1) s m]
  show "good s' \<and> R s s' \<and> store_size s \<le> store_size s' \<and> outcome_in V (store_size s') r"
  proof (cases r1)
    case (Thrown v)
    then have f: "h v s1 = (r, s')" using run m by (simp add: catch_thrown_def)
    have "triple R (store_size s1) V (h v)" using assms(2) Thrown s s1 by simp
    note s2 = tripleD [OF this s1(1) order_refl f]
    then show ?thesis using s1 R_trans [OF s1(2) s2(2)] by simp
  qed (use run m s1 in \<open>auto simp: catch_thrown_def\<close>)
qed

lemma triple_map_m:
  assumes "\<And>j x. k \<le> j \<Longrightarrow> x \<in> set xs \<Longrightarrow> triple R j V (f x)"
    and mono: "\<And>i j y. V i y \<Longrightarrow> i \<le> j \<Longrightarrow> V j y"
  shows "triple R k (\<lambda>j. list_all (V j)) (map_m f xs)"
  using assms(1)
proof (induction xs arbitrary: k)
  case Nil
  then show ?case by (simp add: triple_ret)
next
  case (Cons x xs)
  have "triple R k V (f x)" using Cons.prems by simp
  moreover have "triple R j (\<lambda>j. list_all (V j)) (and_then (map_m f xs) (\<lambda>ys. ret (y # ys)))"
    if "k \<le> j" "V j y" for j y
  proof (rule triple_and_then [OF Cons.IH])
    show "triple R i V (f z)" if "j \<le> i" "z \<in> set xs" for i z
      using Cons.prems that \<open>k \<le> j\<close> by simp
    show "triple R i (\<lambda>j. list_all (V j)) (ret (y # ys))" if "j \<le> i" "list_all (V i) ys" for i ys
    proof (rule triple_ret)
      fix l assume "i \<le> l"
      then have "V l y" using mono [OF \<open>V j y\<close>] that(1) by simp
      then show "list_all (V l) (y # ys)" using mono \<open>i \<le> l\<close> that(2) by (auto simp: list_all_iff)
    qed
  qed
  ultimately show ?case by (simp add: triple_and_then)
qed

lemma triple_fold_m:
  assumes "\<And>j x a. k \<le> j \<Longrightarrow> x \<in> set xs \<Longrightarrow> V j a \<Longrightarrow> triple R j V (f x a)"
    and mono: "\<And>i j y. V i y \<Longrightarrow> i \<le> j \<Longrightarrow> V j y" and "V k acc"
  shows "triple R k V (fold_m f xs acc)"
  using assms(1,3)
proof (induction xs arbitrary: k acc)
  case Nil
  then show ?case by (auto intro: triple_ret mono)
next
  case (Cons x xs)
  have "triple R k V (f x acc)" using Cons.prems by simp
  moreover have "triple R j V (fold_m f xs a)" if "k \<le> j" "V j a" for j a
    by (rule Cons.IH) (use Cons.prems that in auto)
  ultimately show ?case by (simp add: triple_and_then)
qed

section \<open>The elementary steps\<close>

lemma triple_evaluate_variable:
  "triple R k value_in (evaluate_variable name fr)"
  by (rule tripleI)
    (auto simp: evaluate_variable_def R_refl split: option.splits dest: getBinding_value_in)

lemma triple_child_frame: "frame_in k fr \<Longrightarrow> triple R k frame_in (child_frame fr)"
  by (rule tripleI)
    (use R_child in \<open>auto simp: child_frame_def good_def store_size_def frame_in_def createChild_def
      new_scope_def deriveFrame_def values_in_store_append
      store_ok_createChild [unfolded createChild_def new_scope_def snd_conv]\<close>)

lemma triple_bind_name: "value_in k v \<Longrightarrow> triple R k anything (bind_name fr name v)"
  by (rule tripleI)
    (auto simp: bind_name_def modify_def good_def store_size_def R_bind store_ok_setBinding
      intro!: values_in_store_setBinding intro: value_in_mono)

lemma triple_bind_names: "bindings_in k bs \<Longrightarrow> triple R k anything (bind_names fr bs)"
proof (induction bs arbitrary: k)
  case Nil
  then show ?case by (simp add: triple_ret)
next
  case (Cons b bs)
  obtain name v where b: "b = (name, v)" by (cases b)
  then have "value_in k v" "bindings_in k bs" using Cons.prems by (simp_all add: bindings_in_def)
  then show ?case
    unfolding b bind_names.simps
    by (intro triple_and_then [OF triple_bind_name] Cons.IH) (auto intro: bindings_in_mono)
qed

lemma triple_onStep: "kd \<noteq> StepStateEffect \<Longrightarrow> triple R k anything (onStep kd e fr v None)"
  by (rule tripleI)
    (use R_step in \<open>auto simp: onStep_def modify_def good_def store_size_def\<close>)

lemma triple_emit:
  "ef_kind eff \<noteq> EffCreate \<or> ef_contractId eff = None \<Longrightarrow> triple R k anything (emitReplayEffect eff e fr)"
proof (rule tripleI)
  fix s r s'
  assume kd: "ef_kind eff \<noteq> EffCreate \<or> ef_contractId eff = None" and s: "good s" and run: "emitReplayEffect eff e fr s = (r, s')"
  have "R s s'" using R_effect [OF kd, of s e fr] run by simp
  moreover have "st_store s' = st_store s" "r = Ok ()"
    using run by (auto simp: emitReplayEffect_def push_effect_def onStep_def modify_def and_then_def)
  ultimately show "good s' \<and> R s s' \<and> store_size s \<le> store_size s' \<and>
      outcome_in anything (store_size s') r"
    using s by (simp add: good_def store_size_def)
qed

lemma triple_record_create:
  "(\<And>j cid. V j (f cid)) \<Longrightarrow> triple R k V (and_then (gets next_contract_id) (\<lambda>cid.
     and_then (record_create cid ct) (\<lambda>_.
     and_then (emitReplayEffect (create_effect cid tid payload) e fr) (\<lambda>_. ret (f cid)))))"
proof (rule tripleI)
  fix s r s'
  assume V: "\<And>j cid. V j (f cid)" and s: "good s" and run: "and_then (gets next_contract_id) (\<lambda>cid.
     and_then (record_create cid ct) (\<lambda>_.
     and_then (emitReplayEffect (create_effect cid tid payload) e fr) (\<lambda>_. ret (f cid)))) s = (r, s')"
  have "R s s'" using R_create [of s ct tid payload e fr] run
    by (simp add: emitReplayEffect_def push_effect_def onStep_def modify_def and_then_def gets_def
        record_create_def ret_def)
  moreover have "st_store s' = st_store s" "r = Ok (f (next_contract_id s))"
    using run by (auto simp: emitReplayEffect_def push_effect_def onStep_def modify_def
        and_then_def gets_def record_create_def ret_def)
  ultimately show "good s' \<and> R s s' \<and> store_size s \<le> store_size s' \<and>
      outcome_in V (store_size s') r"
    using s V by (simp add: good_def store_size_def)
qed

lemma triple_createFrame: "triple R k frame_in (createFrame c d i)"
  unfolding createFrame_def
proof (rule triple_and_then)
  show "triple R k anything (case i of Some i \<Rightarrow> ret i
      | None \<Rightarrow> and_then (lift_result (getValueDefinitionIdentityOrThrow c d))
          (\<lambda>i. ret (vi_packageId i, vi_moduleName i)))"
    by (auto split: option.splits intro!: triple_ret triple_and_then triple_lift)
next
  fix j :: nat and x :: "string \<times> string"
  show "triple R j frame_in (case x of (packageId, moduleName) \<Rightarrow>
      \<lambda>s. let (a, h) = new_scope None (st_store s) in
            (Ok \<lparr>fr_frameId = ''frame-'' @ digits_of_nat (st_nextFrameNumber s),
                 fr_packageId = packageId, fr_moduleName = moduleName, fr_definition = d,
                 fr_scope = a\<rparr>,
             s\<lparr>st_store := h, st_nextFrameNumber := Suc (st_nextFrameNumber s)\<rparr>))"
    by (rule tripleI)
      (use R_frame in \<open>auto simp: good_def store_size_def frame_in_def new_scope_def
        values_in_store_append dest: store_ok_new_scope [unfolded new_scope_def snd_conv]
        split: prod.splits\<close>)
qed

end

section \<open>The cases of the evaluator\<close>

locale evaluator_step = evaluator_relation +
  fixes ev :: eval_fun and ap :: apply_fun
  assumes ev: "frame_in k fr \<Longrightarrow> triple R k value_in (ev e fr)"
    and ap: "value_in k f \<Longrightarrow> list_all (value_in k) args \<Longrightarrow> triple R k value_in (ap f args)"
begin

lemma triple_bindings: "frame_in k fr \<Longrightarrow> triple R k anything (evaluate_bindings ev fr bs)"
proof (induction bs arbitrary: k)
  case Nil
  then show ?case by (simp add: triple_ret)
next
  case (Cons b bs)
  obtain name e where b: "b = (name, e)" by (cases b)
  show ?case
    unfolding b evaluate_bindings.simps
    by (intro triple_and_then [OF ev] triple_and_then [OF triple_bind_name] Cons.IH)
      (use Cons.prems in \<open>auto intro: frame_in_mono order_trans\<close>)
qed

lemma triple_let: "frame_in k fr \<Longrightarrow> triple R k value_in (evaluate_let ev bs body fr)"
  unfolding evaluate_let_def
  by (intro triple_and_then [OF triple_child_frame] triple_and_then [OF triple_bindings] ev)
    (auto intro: frame_in_mono)

lemma triple_args:
  "frame_in k fr \<Longrightarrow> triple R k (\<lambda>j. list_all (value_in j)) (map_m (\<lambda>a. ev a fr) args)"
  by (rule triple_map_m) (auto intro: ev frame_in_mono value_in_mono)

lemma triple_application:
  "frame_in k fr \<Longrightarrow> triple R k value_in (evaluate_application ev ap f args fr)"
  unfolding evaluate_application_def
  by (intro triple_and_then [OF ev] triple_and_then [OF triple_args] ap)
    (auto intro: frame_in_mono value_in_mono)

lemma triple_record_construction:
  assumes "frame_in k fr"
  shows "triple R k value_in (evaluate_record_construction ev fs fr)"
  unfolding evaluate_record_construction_def
proof (rule triple_and_then)
  show "triple R k (\<lambda>j. list_all (\<lambda>(n, v). value_in j v))
      (map_m (\<lambda>(name, e). and_then (ev e fr) (\<lambda>v. ret (name, v))) fs)"
    by (rule triple_map_m)
      (use assms in \<open>auto intro!: triple_and_then [OF ev] triple_ret intro: frame_in_mono value_in_mono
        split: prod.splits\<close>)
next
  fix j and vs :: "(string \<times> rtval) list"
  assume "k \<le> j" and vs: "list_all (\<lambda>(n, v). value_in j v) vs"
  have "value_in l (createRecordRuntimeValue (obj_from_entries vs))" if "j \<le> l" for l
    using bindings_in_mono [OF vs [folded bindings_in_def] that]
    by (simp add: bindings_in_def createRecordRuntimeValue_in obj_from_entries_in)
  then show "triple R j value_in (ret (createRecordRuntimeValue (obj_from_entries vs)))"
    by (rule triple_ret)
qed

lemma triple_record_projection:
  "frame_in k fr \<Longrightarrow> triple R k value_in (evaluate_record_projection c ev name r fr)"
  unfolding evaluate_record_projection_def
  by (intro triple_and_then [OF ev])
    (auto intro!: triple_lift split: rtval.splits simp: bind_result_Inr_iff
      intro: value_in_mono [OF record_field_in])

lemma triple_record_update:
  assumes "frame_in k fr"
  shows "triple R k value_in (evaluate_record_update c ev name r e fr)"
  unfolding evaluate_record_update_def
proof (rule triple_and_then [OF ev [OF assms]])
  fix j v
  assume j: "k \<le> j" "value_in j v"
  have fr: "frame_in j fr" using assms j frame_in_mono by blast
  have rec: "triple R j value_in
      (and_then (ev e fr) (\<lambda>w. ret (createRecordRuntimeValue (obj_set name w fs))))"
    if fs: "v = VRecord fs" for fs
  proof (rule triple_and_then [OF ev [OF fr]])
    fix l w
    assume w: "j \<le> l" "value_in l w"
    have "value_in i (createRecordRuntimeValue (obj_set name w fs))" if "l \<le> i" for i
    proof (rule createRecordRuntimeValue_in [OF obj_set_in])
      show "value_in i w" using w that value_in_mono by blast
      have "bindings_in j fs" using j fs by (simp add: bindings_in_def)
      then show "list_all (\<lambda>(n, v). value_in i v) fs"
        using w that bindings_in_mono unfolding bindings_in_def by (meson order_trans)
    qed
    then show "triple R l value_in (ret (createRecordRuntimeValue (obj_set name w fs)))"
      by (rule triple_ret)
  qed
  show "triple R j value_in
    (case v of
       VRecord fs \<Rightarrow> and_then (ev e fr) (\<lambda>v. ret (createRecordRuntimeValue (obj_set name v fs)))
     | _ \<Rightarrow>
         and_then (lift_result (require_object ''update'' name (unwrapRuntimeValue v)))
           (\<lambda>raw. and_then (ev e fr) (\<lambda>v.
             ret (hydrateRuntimeValue
               (JObj (obj_spread raw
                 (createLedgerRecordFieldUpdate c raw name (unwrapRuntimeValue v)))) None))))"
    using rec fr
    by (auto split: rtval.splits intro!: triple_and_then [OF triple_lift [where V = anything]]
        triple_and_then [OF ev] triple_ret intro: frame_in_mono)
qed

lemma triple_throw_expr: "frame_in k fr \<Longrightarrow> triple R k value_in (evaluate_throw ev e fr)"
  unfolding evaluate_throw_def by (intro triple_and_then [OF ev] triple_throw)

lemma triple_variant:
  "frame_in k fr \<Longrightarrow> triple R k value_in (evaluate_variant_construction ev con e fr)"
  unfolding evaluate_variant_construction_def by (intro triple_and_then [OF ev] triple_ret) simp_all

lemma triple_optional:
  "frame_in k fr \<Longrightarrow> triple R k value_in (evaluate_optional_construction ev e fr)"
  unfolding evaluate_optional_construction_def
  by (auto intro: triple_ret ev split: option.splits)

lemma triple_unwrapped:
  "frame_in k fr \<Longrightarrow> triple R k anything (and_then (ev e fr) (\<lambda>v. ret (unwrapRuntimeValue v)))"
  by (intro triple_and_then [OF ev] triple_ret) simp_all

lemma triple_list:
  assumes "frame_in k fr"
  shows "triple R k value_in (evaluate_list_construction ev front tail fr)"
  unfolding evaluate_list_construction_def
proof (rule triple_and_then)
  show "triple R k (\<lambda>j. list_all (anything j))
      (map_m (\<lambda>item. and_then (ev item fr) (\<lambda>v. ret (unwrapRuntimeValue v))) front)"
    by (rule triple_map_m) (auto intro: triple_unwrapped frame_in_mono [OF assms])
next
  fix j and vs :: "js list"
  assume j: "k \<le> j"
  show "triple R j value_in
      (and_then (case tail of None \<Rightarrow> ret (JArr [])
        | Some t \<Rightarrow> and_then (ev t fr) (\<lambda>v. ret (unwrapRuntimeValue v)))
       (\<lambda>tailValue. case tailValue of
          JArr items \<Rightarrow> ret (hydrateRuntimeValue (JArr (vs @ items)) None)
        | _ \<Rightarrow> fail (ValidationError ''daml lf list construction requires an array tail'')))"
  proof (rule triple_and_then)
    show "triple R j anything (case tail of None \<Rightarrow> ret (JArr [])
        | Some t \<Rightarrow> and_then (ev t fr) (\<lambda>v. ret (unwrapRuntimeValue v)))"
      by (auto split: option.splits intro!: triple_ret triple_unwrapped frame_in_mono [OF assms j])
  qed (auto split: js.splits intro!: triple_ret triple_fail)
qed

lemma triple_scoped:
  assumes "frame_in k fr" "bindings_in k bs"
  shows "triple R k value_in (and_then (child_frame fr) (\<lambda>scopedFrame.
    and_then (bind_names scopedFrame bs) (\<lambda>_. ev body scopedFrame)))"
  by (rule triple_and_then [OF triple_child_frame [OF assms(1)]],
      rule triple_and_then [OF triple_bind_names])
    (use assms in \<open>auto intro: ev frame_in_mono bindings_in_mono\<close>)

lemma pattern_bindings_in: "pattern_bindings p v = Some bs \<Longrightarrow> bindings_in k bs"
  by (auto simp: pattern_bindings_def bindings_in_def optional_binding_def Let_def
      split: pattern.splits js.splits list.splits if_splits option.splits)

lemma triple_case:
  assumes "frame_in k fr"
  shows "triple R k value_in (evaluate_case ev scrut alternatives fr)"
  unfolding evaluate_case_def
  by (rule triple_and_then [OF ev [OF assms]])
    (auto split: option.splits intro!: triple_fail ev triple_scoped frame_in_mono [OF assms]
      intro: pattern_bindings_in)

lemma triple_value_reference: "triple R k value_in (evaluate_value_reference c ev p m n)"
  unfolding evaluate_value_reference_def Let_def
  by (rule triple_and_then [OF triple_lift [where V = anything] triple_and_then
        [OF triple_createFrame triple_and_then [OF triple_onStep triple_and_then
        [OF ev triple_and_then [OF triple_onStep triple_ret]]]]])
    (auto intro: frame_in_mono value_in_mono)

lemma triple_replay_lambda:
  assumes "frame_in k fr"
  shows "triple R k value_in (evaluateReplayLambdaOrExpressionOrThrow ev e fr bvs mode)"
proof -
  have "bindings_in k (zip ps (map hydrate_binding bvs))" for k ps
    by (auto simp: bindings_in_def list_all_iff hydrate_binding_def dest!: set_zip_rightD)
  then have "bindings_in k (replay_bindings mode ps bvs)" for k ps
    by (auto simp: replay_bindings_def both_def bindings_in_def hydrate_binding_def
        split: binding_mode.splits option.splits)
  then show ?thesis
    using assms unfolding evaluateReplayLambdaOrExpressionOrThrow_def
    by (cases e) (auto intro: ev triple_scoped)
qed

lemma triple_try_catch:
  "frame_in k fr \<Longrightarrow> triple R k value_in (evaluate_try_catch ev e name handler fr)"
  unfolding evaluate_try_catch_def
  by (intro triple_catch ev triple_scoped)
    (auto intro: frame_in_mono simp: bindings_in_def optional_binding_def split: option.splits)

lemma triple_create: "frame_in k fr \<Longrightarrow> triple R k value_in (evaluate_create c ev t arg fr)"
  unfolding evaluate_create_def Let_def
  by (rule triple_and_then [OF ev triple_record_create]) simp_all

lemma triple_contract_id: "frame_in k fr \<Longrightarrow> triple R k anything (evaluate_contract_id ev e fr)"
  unfolding evaluate_contract_id_def by (intro triple_and_then [OF ev] triple_lift) simp_all

lemma triple_argument: "frame_in k fr \<Longrightarrow> triple R k anything (evaluate_argument ev e fr)"
  unfolding evaluate_argument_def by (rule triple_unwrapped)

lemma triple_run_choice: "triple R k value_in (run_choice c ev rd payload cid arg)"
  unfolding run_choice_def by (intro triple_and_then [OF triple_createFrame] triple_replay_lambda)

lemma triple_get: "triple R k anything (gets f)"
  by (rule triple_gets) simp

lemma fetch_effect_kind [simp]: "ef_kind (fetch_effect cid t) \<noteq> EffCreate"
  by (simp add: fetch_effect_def)

lemma exercise_effect_kind [simp]: "ef_kind (exercise_effect cid t ch arg) \<noteq> EffCreate"
  by (simp add: exercise_effect_def)

lemma triple_fetch: "frame_in k fr \<Longrightarrow> triple R k value_in (evaluate_fetch ev t e fr)"
  unfolding evaluate_fetch_def
  by (intro triple_and_then [OF triple_contract_id] triple_and_then [OF triple_get]
      triple_and_then [OF triple_emit] triple_ret) simp_all

lemma triple_fetch_interface:
  "frame_in k fr \<Longrightarrow> triple R k value_in (evaluate_fetch_interface ev e fr)"
  unfolding evaluate_fetch_interface_def
  by (rule triple_and_then [OF triple_contract_id triple_and_then [OF triple_get]])
    (auto intro!: triple_fail triple_and_then [OF triple_emit] triple_ret)

lemma triple_exercise:
  "frame_in k fr \<Longrightarrow> triple R k value_in (evaluate_exercise c ev t ch e a fr)"
  unfolding evaluate_exercise_def
  by (auto split: option.splits intro!: triple_fail triple_and_then [OF triple_contract_id]
      triple_and_then [OF triple_argument] triple_and_then [OF triple_get]
      triple_and_then [OF triple_emit] triple_and_then [OF triple_lift [where V = anything]]
      triple_run_choice intro: frame_in_mono)

lemma triple_exercise_interface:
  "frame_in k fr \<Longrightarrow> triple R k value_in (evaluate_exercise_interface c ev ch e a fr)"
  unfolding evaluate_exercise_interface_def
  by (auto split: option.splits sum.splits intro!: triple_fail triple_and_then [OF triple_contract_id]
      triple_and_then [OF triple_argument] triple_and_then [OF triple_get]
      triple_and_then [OF triple_emit] triple_ret triple_run_choice intro: frame_in_mono)

lemma triple_get_time: "triple R k value_in evaluate_get_time"
  unfolding evaluate_get_time_def by (rule triple_gets) simp

lemma triple_ledger_time:
  "frame_in k fr \<Longrightarrow> triple R k value_in (evaluate_ledger_time_lt ev e fr)"
  unfolding evaluate_ledger_time_lt_def
  by (auto split: option.splits intro!: triple_ret triple_and_then [OF ev])

lemma triple_update:
  "frame_in k fr \<Longrightarrow> triple R k value_in (evaluateUpdateExpressionOrThrow c ev u fr)"
  unfolding evaluateUpdateExpressionOrThrow_def
  by (cases u) (simp_all add: ev triple_let triple_try_catch triple_create triple_fetch
      triple_fetch_interface triple_exercise triple_exercise_interface triple_get_time
      triple_ledger_time triple_fail)

lemma triple_resolve:
  "frame_in k fr \<Longrightarrow> triple R k value_in (resolveExpressionValue c ev ap e fr)"
  unfolding resolveExpressionValue_def
  by (cases e) (simp_all add: triple_ret triple_evaluate_variable triple_application triple_let
      triple_record_construction triple_record_projection triple_record_update triple_throw_expr
      triple_variant triple_optional triple_list triple_update triple_case triple_value_reference
      triple_fail builtin_constructor_value_def frame_in_def split: builtin_con.splits)

lemma triple_expression:
  "frame_in k fr \<Longrightarrow>
     triple R k value_in (evaluateExpressionOrThrow (resolveExpressionValue c ev ap) e fr)"
  unfolding evaluateExpressionOrThrow_def
  by (intro triple_and_then [OF triple_onStep] triple_and_then [OF triple_resolve] triple_ret)
    (auto intro: frame_in_mono value_in_mono)

lemma triple_fold_apply:
  assumes "value_in k f" "list_all (value_in k) items" "value_in k initial"
    and step: "\<And>x a. g x a = and_then (ap f (xs x a)) (\<lambda>h. ap h (ys x a))"
    and args: "\<And>j x a. value_in j x \<Longrightarrow> value_in j a \<Longrightarrow>
      list_all (value_in j) (xs x a) \<and> list_all (value_in j) (ys x a)"
  shows "triple R k value_in (fold_m g items initial)"
proof (rule triple_fold_m)
  fix j x a
  assume j: "k \<le> j" "x \<in> set items" "value_in j a"
  then have "value_in j x" using assms(2) by (auto simp: list_all_iff intro: value_in_mono)
  note args = args [OF this j(3)]
  have "triple R j value_in (and_then (ap f (xs x a)) (\<lambda>h. ap h (ys x a)))"
    by (intro triple_and_then [OF ap] ap)
      (use args j assms(1) in \<open>auto intro: value_in_mono values_in_mono\<close>)
  then show "triple R j value_in (g x a)" by (simp add: step)
qed (auto intro: value_in_mono assms)

lemma triple_finish:
  assumes "value_in k v" "list_all (value_in k) rest"
  shows "triple R k value_in (if rest = [] then ret v else ap v rest)"
  using assms by (auto intro!: triple_ret ap intro: value_in_mono)

lemma createReplayEffects_kind:
  "eff \<in> set (createReplayEffects env) \<Longrightarrow> ef_kind eff \<noteq> EffCreate \<or> ef_contractId eff = None"
  by (auto simp: createReplayEffects_def split: entrypoint_kind.splits)

lemma triple_replay_body:
  assumes "frame_in k fr"
  shows "triple R k (\<lambda>j res. value_in j (rr_value res)) (replay_body ev env e fr)"
  unfolding replay_body_def
proof (rule triple_and_then)
  show "triple R k anything
      (if emits_entrypoint_effects env e
       then fold_m (\<lambda>eff _. emitReplayEffect eff e fr) (createReplayEffects env) () else ret ())"
    by (auto intro!: triple_ret triple_fold_m triple_emit dest: createReplayEffects_kind)
next
  fix j
  assume "k \<le> j"
  then have "triple R j value_in (evaluateReplayExpressionOrThrow ev e fr env)"
    unfolding evaluateReplayExpressionOrThrow_def
    by (intro triple_replay_lambda frame_in_mono [OF assms])
  then show "triple R j (\<lambda>j res. value_in j (rr_value res))
      (and_then (evaluateReplayExpressionOrThrow ev e fr env) (\<lambda>v. gets (\<lambda>s. \<lparr>rr_value = v,
         rr_effects = (case st_activeReplayContext s of Some ctx \<Rightarrow> rc_effects ctx | None \<Rightarrow> [])\<rparr>)))"
    by (rule triple_and_then) (auto intro!: triple_gets intro: value_in_mono)
qed

lemma triple_foldl:
  assumes "list_all (value_in k) args"
  shows "triple R k value_in (applyFoldlBuiltinOrThrow ap args)"
proof (cases "\<exists>f i l rest. args = f # i # l # rest")
  case True
  then obtain f i l rest where a: "args = f # i # l # rest" by blast
  then have "value_in k f" "value_in k i" "list_all (value_in k) rest" using assms by simp_all
  then show ?thesis
    unfolding applyFoldlBuiltinOrThrow_def a list.case
    by (intro triple_and_then [OF triple_lift [where V = "\<lambda>j. list_all (value_in j)"]]
        triple_and_then [OF triple_fold_apply] triple_finish)
      (auto intro: readRuntimeListOrThrow_in value_in_mono values_in_mono)
next
  case False
  then have "applyFoldlBuiltinOrThrow ap args = ret (VBuiltin ''FOLDL'' args)"
    by (auto simp: applyFoldlBuiltinOrThrow_def split: list.splits)
  then show ?thesis using assms by (auto intro!: triple_ret intro: values_in_mono)
qed

lemma triple_foldr:
  assumes "list_all (value_in k) args"
  shows "triple R k value_in (applyFoldrBuiltinOrThrow ap args)"
proof (cases "\<exists>f i l rest. args = f # i # l # rest")
  case True
  then obtain f i l rest where a: "args = f # i # l # rest" by blast
  then have "value_in k f" "value_in k i" "list_all (value_in k) rest" using assms by simp_all
  then show ?thesis
    unfolding applyFoldrBuiltinOrThrow_def a list.case
    by (intro triple_and_then [OF triple_lift [where V = "\<lambda>j. list_all (value_in j)"]]
        triple_and_then [OF triple_fold_apply] triple_finish)
      (auto intro: readRuntimeListOrThrow_in value_in_mono values_in_mono)
next
  case False
  then have "applyFoldrBuiltinOrThrow ap args = ret (VBuiltin ''FOLDR'' args)"
    by (auto simp: applyFoldrBuiltinOrThrow_def split: list.splits)
  then show ?thesis using assms by (auto intro!: triple_ret intro: values_in_mono)
qed

lemma triple_closure:
  assumes "frame_in k fr" "list_all (value_in k) args"
  shows "triple R k value_in (apply_closure ev ap ps body fr args)"
proof -
  have "bindings_in k (zip ps args)"
    using assms(2) by (auto simp: bindings_in_def list_all_iff dest!: set_zip_rightD)
  moreover have "list_all (value_in l) (drop n args)" if "k \<le> l" for n l
    using values_in_mono [OF assms(2) that] by (auto simp: list_all_iff dest: in_set_dropD)
  moreover have mid: "triple R j value_in (if ps' = [] then ev body fr' else ret (VClosure ps' body fr'))"
    if "frame_in j fr'" for j ps' fr'
    using that by (auto intro!: ev triple_ret simp: frame_in_def)
  ultimately show ?thesis
    unfolding apply_closure_def Let_def
    by (intro triple_and_then [OF triple_child_frame [OF assms(1)]]
        triple_and_then [OF triple_bind_names] triple_and_then [OF mid] triple_finish)
      (auto intro: frame_in_mono bindings_in_mono values_in_mono)
qed

lemma triple_apply:
  assumes "value_in k f" "list_all (value_in k) args"
  shows "triple R k value_in (applyFunctionOrThrow ev ap f args)"
  using assms unfolding applyFunctionOrThrow_def
  by (cases f) (auto simp: frame_in_def intro!: triple_fail triple_foldl triple_foldr triple_closure
      triple_lift intro: value_in_mono [OF applyOrThrow_in])

end

section \<open>The whole evaluator\<close>

context evaluator_relation
begin

lemma step_all: "evaluator_step R (evaluateExpression c n) (applyFunction c n)"
proof (induction n)
  case 0
  show ?case
    by (intro evaluator_step.intro evaluator_relation_axioms evaluator_step_axioms.intro)
      (simp_all add: triple_diverge)
next
  case (Suc n)
  show ?case
    by (intro evaluator_step.intro evaluator_relation_axioms evaluator_step_axioms.intro)
      (simp_all add: evaluator_step.triple_expression [OF Suc] evaluator_step.triple_apply [OF Suc])
qed

lemma evaluation_related:
  assumes "evaluateExpression c n e fr s = (r, s')" "good s" "fr_scope fr < store_size s"
  shows "good s'" "R s s'" "store_size s \<le> store_size s'" "outcome_in value_in (store_size s') r"
proof -
  have "frame_in (store_size s) fr" using assms(3) by (simp add: frame_in_def)
  note t = evaluator_step.ev [OF step_all this]
  show "good s'" "R s s'" "store_size s \<le> store_size s'" "outcome_in value_in (store_size s') r"
    using tripleD [OF t assms(2) order_refl assms(1)] .
qed

end

end
