(* ===== verification/Evaluator_Laws.thy ===== *)
theory Evaluator_Laws
  imports Evaluator_Safety
begin

text \<open>
  Three relations that every evaluation preserves: the store only grows; the effects of a replay are
  logged in order and reported one by one to the trace sink; contract ids are handed out in the
  order of the creates. Then the replay entry point, which starts and ends a replay context.
\<close>

section \<open>The store only grows\<close>

definition store_extends :: "evaluator_state \<Rightarrow> evaluator_state \<Rightarrow> bool" where
  "store_extends s s' \<longleftrightarrow>
     store_size s \<le> store_size s' \<and> st_nextFrameNumber s \<le> st_nextFrameNumber s' \<and>
     (\<forall>a < store_size s.
        sc_parent (scope_at (st_store s') a) = sc_parent (scope_at (st_store s) a) \<and>
        fst ` set (sc_bindings (scope_at (st_store s) a))
          \<subseteq> fst ` set (sc_bindings (scope_at (st_store s') a)))"

lemma store_extends_refl: "store_extends s s"
  by (simp add: store_extends_def)

lemma store_extendsD:
  assumes "store_extends s s'"
  shows "store_size s \<le> store_size s'" "st_nextFrameNumber s \<le> st_nextFrameNumber s'"
    "a < store_size s \<Longrightarrow> sc_parent (scope_at (st_store s') a) = sc_parent (scope_at (st_store s) a)"
    "a < store_size s \<Longrightarrow> fst ` set (sc_bindings (scope_at (st_store s) a))
       \<subseteq> fst ` set (sc_bindings (scope_at (st_store s') a))"
  using assms by (simp_all add: store_extends_def)

lemma store_extends_trans:
  assumes "store_extends s t" "store_extends t u"
  shows "store_extends s u"
  unfolding store_extends_def
proof (intro conjI allI impI)
  fix a
  assume a: "a < store_size s"
  then have b: "a < store_size t" using store_extendsD(1) [OF assms(1)] by simp
  show "sc_parent (scope_at (st_store u) a) = sc_parent (scope_at (st_store s) a)"
    using store_extendsD(3) [OF assms(1) a] store_extendsD(3) [OF assms(2) b] by simp
  show "fst ` set (sc_bindings (scope_at (st_store s) a))
      \<subseteq> fst ` set (sc_bindings (scope_at (st_store u) a))"
    using store_extendsD(4) [OF assms(1) a] store_extendsD(4) [OF assms(2) b]
    by (rule subset_trans)
qed (use store_extendsD(1,2) [OF assms(1)] store_extendsD(1,2) [OF assms(2)] in auto)

lemma store_extends_same: "st_store s' = st_store s \<Longrightarrow>
    st_nextFrameNumber s \<le> st_nextFrameNumber s' \<Longrightarrow> store_extends s s'"
  by (simp add: store_extends_def store_size_def)

lemma store_extends_append: "st_store s' = st_store s @ h \<Longrightarrow>
    st_nextFrameNumber s \<le> st_nextFrameNumber s' \<Longrightarrow> store_extends s s'"
  by (simp add: store_extends_def store_size_def)

lemma keys_setBinding:
  "fst ` set (sc_bindings (scope_at h b)) \<subseteq> fst ` set (sc_bindings (scope_at (setBinding a n v h) b))"
  by (auto simp: setBinding_def scope_at_def nth_list_update keys_update)

lemma store_extends_bind:
  "store_extends s (s\<lparr>st_store := setBinding a n v (st_store s)\<rparr>)"
  using keys_setBinding by (simp add: store_extends_def store_size_def)

lemma step_keeps:
  "st_store (snd (onStep kd e fr w eff s)) = st_store s"
  "st_nextFrameNumber (snd (onStep kd e fr w eff s)) = st_nextFrameNumber s"
  "st_store (snd (emitReplayEffect eff' e fr s)) = st_store s"
  "st_nextFrameNumber (snd (emitReplayEffect eff' e fr s)) = st_nextFrameNumber s"
  "st_store (snd (and_then (record_create cid ct) (\<lambda>_. emitReplayEffect eff' e fr) s)) = st_store s"
  "st_nextFrameNumber (snd (and_then (record_create cid ct) (\<lambda>_. emitReplayEffect eff' e fr) s))
     = st_nextFrameNumber s"
  by (simp_all add: onStep_def modify_def emitReplayEffect_def push_effect_def record_create_def
      and_then_def)

interpretation growth: evaluator_relation store_extends
proof
  show "store_extends s t \<Longrightarrow> store_extends t u \<Longrightarrow> store_extends s u" for s t u
    by (rule store_extends_trans)
  show "store_extends s (s\<lparr>st_store := setBinding a n v (st_store s)\<rparr>)" for s a n v
    by (rule store_extends_bind)
qed (auto simp: store_extends_refl step_keeps createChild_def new_scope_def
      intro!: store_extends_same store_extends_append)

interpretation growth_steps: evaluator_step store_extends "evaluateExpression c n" "applyFunction c n"
  for c n
  by (rule growth.step_all)

section \<open>Effects are logged and reported\<close>

definition effects_of :: "evaluator_state \<Rightarrow> replay_effect list" where
  "effects_of s =
     (case st_activeReplayContext s of Some ctx \<Rightarrow> rc_effects ctx | None \<Rightarrow> [])"

definition reported :: "trace_step list \<Rightarrow> replay_effect option list" where
  "reported steps = map ts_stateEffect (filter (\<lambda>t. ts_kind t = StepStateEffect) steps)"

definition same_replay :: "evaluator_state \<Rightarrow> evaluator_state \<Rightarrow> bool" where
  "same_replay s s' \<longleftrightarrow>
     map_option rc_environment (st_activeReplayContext s')
       = map_option rc_environment (st_activeReplayContext s) \<and>
     map_option rc_observedCreateContractIds (st_activeReplayContext s')
       = map_option rc_observedCreateContractIds (st_activeReplayContext s) \<and>
     (st_trace s' = None \<longleftrightarrow> st_trace s = None)"

text \<open>One list of new effects: appended to the log, and reported as steps when a sink listens.\<close>

definition logs :: "evaluator_state \<Rightarrow> evaluator_state \<Rightarrow> bool" where
  "logs s s' \<longleftrightarrow>
     same_replay s s' \<and>
     (\<exists>new.
        (st_activeReplayContext s \<noteq> None \<longrightarrow> effects_of s' = effects_of s @ new) \<and>
        (\<forall>t. st_trace s = Some t \<longrightarrow>
           (\<exists>steps. st_trace s' = Some (t @ steps) \<and> reported steps = map Some new)))"

lemma reported_append [simp]: "reported (xs @ ys) = reported xs @ reported ys"
  by (simp add: reported_def)

lemma logsI:
  assumes "same_replay s s'"
    "st_activeReplayContext s \<noteq> None \<Longrightarrow> effects_of s' = effects_of s @ new"
    "\<And>t. st_trace s = Some t \<Longrightarrow>
      \<exists>steps. st_trace s' = Some (t @ steps) \<and> reported steps = map Some new"
  shows "logs s s'"
  using assms unfolding logs_def by blast

lemma logs_quiet:
  assumes "same_replay s s'" "effects_of s' = effects_of s"
    "\<And>t. st_trace s = Some t \<Longrightarrow> \<exists>steps. st_trace s' = Some (t @ steps) \<and> reported steps = []"
  shows "logs s s'"
  by (rule logsI [where new = "[]"]) (use assms in auto)

lemma logs_trans:
  assumes "logs s t" "logs t u"
  shows "logs s u"
proof -
  obtain xs where xs: "st_activeReplayContext s \<noteq> None \<longrightarrow> effects_of t = effects_of s @ xs"
    "\<forall>tr. st_trace s = Some tr \<longrightarrow>
      (\<exists>steps. st_trace t = Some (tr @ steps) \<and> reported steps = map Some xs)"
    using assms(1) unfolding logs_def by blast
  obtain ys where ys: "st_activeReplayContext t \<noteq> None \<longrightarrow> effects_of u = effects_of t @ ys"
    "\<forall>tr. st_trace t = Some tr \<longrightarrow>
      (\<exists>steps. st_trace u = Some (tr @ steps) \<and> reported steps = map Some ys)"
    using assms(2) unfolding logs_def by blast
  have same: "same_replay s t" "same_replay t u" using assms by (simp_all add: logs_def)
  then have "st_activeReplayContext s \<noteq> None \<longleftrightarrow> st_activeReplayContext t \<noteq> None"
    by (cases "st_activeReplayContext s"; cases "st_activeReplayContext t")
      (simp_all add: same_replay_def)
  then show ?thesis
    using xs(1) ys(1) same
  proof (intro logsI [where new = "xs @ ys"])
    fix tr
    assume "st_trace s = Some tr"
    then obtain steps1 where "st_trace t = Some (tr @ steps1)" "reported steps1 = map Some xs"
      using xs(2) by blast
    moreover from this obtain steps2
      where "st_trace u = Some ((tr @ steps1) @ steps2)" "reported steps2 = map Some ys"
      using ys(2) by blast
    ultimately have "st_trace u = Some (tr @ steps1 @ steps2)"
      "reported (steps1 @ steps2) = map Some (xs @ ys)" by simp_all
    then show "\<exists>steps. st_trace u = Some (tr @ steps) \<and> reported steps = map Some (xs @ ys)"
      by blast
  qed (simp_all add: same_replay_def)
qed

interpretation log: evaluator_relation logs
proof
  show "logs s t \<Longrightarrow> logs t u \<Longrightarrow> logs s u" for s t u by (rule logs_trans)
  show "logs s s" for s by (rule logs_quiet) (auto simp: same_replay_def reported_def)
  show "logs s (s\<lparr>st_store := snd (createChild a (st_store s))\<rparr>)" for s a
    by (rule logs_quiet) (auto simp: same_replay_def effects_of_def reported_def)
  show "logs s (s\<lparr>st_store := snd (new_scope None (st_store s)),
      st_nextFrameNumber := Suc (st_nextFrameNumber s)\<rparr>)" for s
    by (rule logs_quiet) (auto simp: same_replay_def effects_of_def reported_def)
  show "logs s (s\<lparr>st_store := setBinding a n v (st_store s)\<rparr>)" for s a n v
    by (rule logs_quiet) (auto simp: same_replay_def effects_of_def reported_def)
  show "logs s (snd (onStep kd e fr w None s))" if "kd \<noteq> StepStateEffect" for s kd e fr w
    using that by (intro logs_quiet)
      (auto simp: same_replay_def effects_of_def reported_def onStep_def modify_def)
  show "logs s (snd (emitReplayEffect eff e fr s))" for s eff e fr
    by (rule logsI [where new = "[eff]"])
      (auto simp: same_replay_def effects_of_def reported_def onStep_def modify_def
        emitReplayEffect_def push_effect_def and_then_def option.map_comp comp_def)
  show "logs s (snd (and_then (record_create (next_contract_id s) ct)
      (\<lambda>_. emitReplayEffect (create_effect (next_contract_id s) tid payload) e fr) s))"
    for s ct tid payload e fr
    by (rule logsI [where new = "[create_effect (next_contract_id s) tid payload]"])
      (auto simp: same_replay_def effects_of_def reported_def onStep_def modify_def
        emitReplayEffect_def push_effect_def and_then_def record_create_def option.map_comp comp_def)
qed

interpretation log_steps: evaluator_step logs "evaluateExpression c n" "applyFunction c n" for c n
  by (rule log.step_all)

section \<open>Contract ids follow the order of the creates\<close>

text \<open>The id of the \<open>i\<close>-th create (from 0) of a replay with the given observed ids.\<close>

definition contract_number :: "string list \<Rightarrow> nat \<Rightarrow> string" where
  "contract_number observed i =
     (if i < length observed then observed ! i else ''created-'' @ digits_of_nat (Suc i))"

definition creates :: "replay_effect list \<Rightarrow> replay_effect list" where
  "creates effs = filter (\<lambda>e. ef_kind e = EffCreate \<and> ef_contractId e \<noteq> None) effs"

definition numbered :: "replay_context \<Rightarrow> bool" where
  "numbered ctx \<longleftrightarrow>
     rc_nextSyntheticContractIdNumber ctx = Suc (rc_nextObservedCreateIndex ctx) \<and>
     map ef_contractId (creates (rc_effects ctx))
       = map (\<lambda>i. Some (contract_number (rc_observedCreateContractIds ctx) i))
           [0..<rc_nextObservedCreateIndex ctx]"

definition keeps_numbers :: "evaluator_state \<Rightarrow> evaluator_state \<Rightarrow> bool" where
  "keeps_numbers s s' \<longleftrightarrow>
     (\<forall>ctx. st_activeReplayContext s = Some ctx \<and> numbered ctx \<longrightarrow>
        (\<exists>ctx'. st_activeReplayContext s' = Some ctx' \<and> numbered ctx' \<and>
           rc_observedCreateContractIds ctx' = rc_observedCreateContractIds ctx))"

lemma creates_append [simp]: "creates (xs @ ys) = creates xs @ creates ys"
  by (simp add: creates_def)

lemma keeps_numbers_same:
  "st_activeReplayContext s' = st_activeReplayContext s \<Longrightarrow> keeps_numbers s s'"
  by (simp add: keeps_numbers_def)

lemma next_contract_id_number:
  "st_activeReplayContext s = Some ctx \<Longrightarrow> numbered ctx \<Longrightarrow>
     next_contract_id s
       = contract_number (rc_observedCreateContractIds ctx) (rc_nextObservedCreateIndex ctx)"
  by (simp add: next_contract_id_def contract_number_def nth_opt_def numbered_def)

interpretation numbering: evaluator_relation keeps_numbers
proof
  show "keeps_numbers s t \<Longrightarrow> keeps_numbers t u \<Longrightarrow> keeps_numbers s u" for s t u
    unfolding keeps_numbers_def by metis
  show "keeps_numbers s (snd (emitReplayEffect eff e fr s))" if "ef_kind eff \<noteq> EffCreate \<or> ef_contractId eff = None" for s eff e fr
    using that
    by (auto simp: keeps_numbers_def emitReplayEffect_def push_effect_def onStep_def modify_def
        and_then_def numbered_def creates_def)
  show "keeps_numbers s (snd (and_then (record_create (next_contract_id s) ct)
      (\<lambda>_. emitReplayEffect (create_effect (next_contract_id s) tid payload) e fr) s))"
    for s ct tid payload e fr
    by (auto simp: keeps_numbers_def next_contract_id_number)
      (auto simp: numbered_def onStep_def modify_def emitReplayEffect_def push_effect_def
        and_then_def record_create_def creates_def create_effect_def)
qed (auto intro!: keeps_numbers_same simp: onStep_def modify_def)

interpretation numbering_steps:
  evaluator_step keeps_numbers "evaluateExpression c n" "applyFunction c n" for c n
  by (rule numbering.step_all)

section \<open>The replay entry point\<close>

abbreviation with_context :: "evaluator_state \<Rightarrow> replay_environment \<Rightarrow> evaluator_state" where
  "with_context s env \<equiv> s\<lparr>st_activeReplayContext := Some (new_replay_context env)\<rparr>"

abbreviation without_context :: "evaluator_state \<Rightarrow> evaluator_state" where
  "without_context s \<equiv> s\<lparr>st_activeReplayContext := None\<rparr>"

definition entry_expression :: "value_def \<Rightarrow> replay_environment \<Rightarrow> expr" where
  "entry_expression d env =
     (case env_entrypointExpression env of Some e \<Rightarrow> e | None \<Rightarrow> vd_expression d)"

lemma createFrame_run:
  "createFrame c d None s =
     (case getValueDefinitionIdentityOrThrow c d of
        Inl e \<Rightarrow> (Fail e, s)
      | Inr i \<Rightarrow>
          (Ok \<lparr>fr_frameId = ''frame-'' @ digits_of_nat (st_nextFrameNumber s),
               fr_packageId = vi_packageId i, fr_moduleName = vi_moduleName i,
               fr_definition = d, fr_scope = store_size s\<rparr>,
           s\<lparr>st_store := snd (new_scope None (st_store s)),
             st_nextFrameNumber := Suc (st_nextFrameNumber s)\<rparr>))"
  by (simp add: createFrame_def and_then_def lift_result_def fail_def ret_def new_scope_def
      store_size_def split: sum.splits)

lemma replay_run:
  "evaluateReplayEntrypointOrThrow c n d env s =
     (case createFrame c d None s of
        (Ok fr, s1) \<Rightarrow>
          (let (r, s2) = replay_body (evaluateExpression c n) env (entry_expression d env) fr
             (with_context s1 env) in (r, without_context s2))
      | (Thrown v, s1) \<Rightarrow> (Thrown v, s1)
      | (Fail e, s1) \<Rightarrow> (Fail e, s1)
      | (Diverge, s1) \<Rightarrow> (Diverge, s1))"
  by (simp add: evaluateReplayEntrypointOrThrow_def and_then_def entry_expression_def Let_def
      split: prod.splits outcome.splits)

lemma replay_cases:
  assumes "evaluateReplayEntrypointOrThrow c n d env s = (r, s')"
  obtains (no_identity) e where "getValueDefinitionIdentityOrThrow c d = Inl e" "r = Fail e" "s' = s"
  | (run) fr s1 s2 where "createFrame c d None s = (Ok fr, s1)"
      "replay_body (evaluateExpression c n) env (entry_expression d env) fr (with_context s1 env)
        = (r, s2)"
      "s' = without_context s2"
  using assms
  by (auto simp: replay_run createFrame_run Let_def split: sum.splits prod.splits)

lemma createFrame_good:
  assumes "createFrame c d None s = (Ok fr, s1)" "good s"
  shows "good (with_context s1 env)" "frame_in (store_size (with_context s1 env)) fr"
    "st_trace s1 = st_trace s" "store_extends s s1"
proof -
  have t: "triple store_extends 0 frame_in (createFrame c d None)" by (rule growth.triple_createFrame)
  note * = tripleD [OF t assms(2) _ assms(1)]
  show "good (with_context s1 env)" "frame_in (store_size (with_context s1 env)) fr" "store_extends s s1"
    using * by (simp_all add: good_def store_size_def)
  show "st_trace s1 = st_trace s"
    using assms(1) by (auto simp: createFrame_run split: sum.splits)
qed

lemma replay_body_result:
  "replay_body ev env e fr s = (Ok res, s') \<Longrightarrow> rr_effects res = effects_of s'"
  by (auto simp: replay_body_def and_then_Ok gets_def effects_of_def)

lemma new_context_numbered: "numbered (new_replay_context env)"
  by (simp add: numbered_def new_replay_context_def creates_def)

lemma replay_good:
  assumes "evaluateReplayEntrypointOrThrow c n d env s = (r, s')" "good s"
  shows "good s' \<and> store_size s \<le> store_size s'"
  using assms(1)
proof (cases rule: replay_cases)
  case (run fr s1 s2)
  note g = createFrame_good [OF run(1) assms(2)]
  note * = tripleD [OF growth_steps.triple_replay_body [OF g(2)] g(1) order_refl run(2)]
  show ?thesis
    using *(1,3) store_extendsD(1) [OF g(4)] by (simp add: run(3) good_def store_size_def)
qed (use assms in simp)

lemma replay_reports:
  assumes run: "evaluateReplayEntrypointOrThrow c n d env s = (Ok res, s')"
    and "good s" "st_trace s = Some t"
  shows "\<exists>steps. st_trace s' = Some (t @ steps) \<and> reported steps = map Some (rr_effects res)"
  using run
proof (cases rule: replay_cases)
  case (run fr s1 s2)
  note g = createFrame_good [OF run(1) assms(2)]
  have "logs (with_context s1 env) s2"
    by (rule tripleD [OF log_steps.triple_replay_body [OF g(2)] g(1) order_refl run(2)])
  then obtain new where "effects_of s2 = effects_of (with_context s1 env) @ new"
    "\<And>t. st_trace s1 = Some t \<Longrightarrow>
      \<exists>steps. st_trace s2 = Some (t @ steps) \<and> reported steps = map Some new"
    by (auto simp: logs_def)
  then show ?thesis
    using replay_body_result [OF run(2)] g(3) assms(3) run(3)
    by (simp add: effects_of_def new_replay_context_def)
qed simp

lemma replay_contract_ids:
  assumes run: "evaluateReplayEntrypointOrThrow c n d env s = (Ok res, s')" and "good s"
  shows "map ef_contractId (creates (rr_effects res))
    = map (\<lambda>i. Some (contract_number
        (case env_observedCreateContractIds env of Some ids \<Rightarrow> ids | None \<Rightarrow> []) i))
        [0..<length (creates (rr_effects res))]"
  using run
proof (cases rule: replay_cases)
  case (run fr s1 s2)
  note g = createFrame_good [OF run(1) assms(2)]
  have "keeps_numbers (with_context s1 env) s2"
    by (rule tripleD [OF numbering_steps.triple_replay_body [OF g(2)] g(1) order_refl run(2)])
  then obtain ctx where ctx: "st_activeReplayContext s2 = Some ctx" "numbered ctx"
    "rc_observedCreateContractIds ctx = rc_observedCreateContractIds (new_replay_context env)"
    using new_context_numbered by (auto simp: keeps_numbers_def)
  have "rr_effects res = rc_effects ctx"
    using replay_body_result [OF run(2)] ctx(1) by (simp add: effects_of_def)
  moreover have "length (creates (rc_effects ctx)) = rc_nextObservedCreateIndex ctx"
    using ctx(2) by (metis length_map length_upt minus_nat.diff_0 numbered_def)
  ultimately show ?thesis
    using ctx(2,3) by (simp add: numbered_def new_replay_context_def)
qed simp

lemma replay_clears_context:
  assumes "evaluateReplayEntrypointOrThrow c n d env s = (r, s')" "st_activeReplayContext s = None"
  shows "st_activeReplayContext s' = None"
  using assms(1) by (cases rule: replay_cases) (use assms(2) in auto)

end
