(* ===== verification/Evaluator_Trace.thy ===== *)
theory Evaluator_Trace
  imports Evaluator_Fuel Evaluator_Laws
begin

text \<open>
  A trace sink only listens. \<open>quiet m\<close> says that running \<open>m\<close> with no sink gives the outcome and the
  state it gives with one, the trace apart; every case of the evaluator is quiet.
\<close>

abbreviation without_trace :: "evaluator_state \<Rightarrow> evaluator_state" where
  "without_trace s \<equiv> s\<lparr>st_trace := None\<rparr>"

definition quiet :: "'a m \<Rightarrow> bool" where
  "quiet m \<longleftrightarrow> (\<forall>s. m (without_trace s) = (fst (m s), without_trace (snd (m s))))"

named_theorems quiet_intros \<open>combinators and elementary steps that do not depend on the trace\<close>

lemma quietD: "quiet m \<Longrightarrow> m s = (r, s') \<Longrightarrow> m (without_trace s) = (r, without_trace s')"
  by (simp add: quiet_def)

lemma quietI:
  "(\<And>s r s'. m s = (r, s') \<Longrightarrow> m (without_trace s) = (r, without_trace s')) \<Longrightarrow> quiet m"
  by (metis quiet_def prod.collapse)

lemma quiet_basic [quiet_intros]:
  "quiet (ret x)" "quiet (fail e)" "quiet (throw v)" "quiet diverge" "quiet (lift_result r)"
  by (simp_all add: quiet_def ret_def fail_def throw_def diverge_def lift_result_def split: sum.splits)

lemma quiet_and_then [quiet_intros]:
  assumes "quiet m" "\<And>x. quiet (f x)"
  shows "quiet (and_then m f)"
proof (rule quietI)
  fix s r s'
  assume run: "and_then m f s = (r, s')"
  obtain r1 s1 where m: "m s = (r1, s1)" by (cases "m s")
  note m' = quietD [OF assms(1) m]
  show "and_then m f (without_trace s) = (r, without_trace s')"
  proof (cases r1)
    case (Ok x)
    then show ?thesis using run m m' quietD [OF assms(2)] by (simp add: and_then_def)
  qed (use run m m' in \<open>auto simp: and_then_def\<close>)
qed

lemma quiet_catch [quiet_intros]:
  assumes "quiet m" "\<And>v. quiet (h v)"
  shows "quiet (catch_thrown m h)"
proof (rule quietI)
  fix s r s'
  assume run: "catch_thrown m h s = (r, s')"
  obtain r1 s1 where m: "m s = (r1, s1)" by (cases "m s")
  note m' = quietD [OF assms(1) m]
  show "catch_thrown m h (without_trace s) = (r, without_trace s')"
  proof (cases r1)
    case (Thrown v)
    then show ?thesis using run m m' quietD [OF assms(2)] by (simp add: catch_thrown_def)
  qed (use run m m' in \<open>auto simp: catch_thrown_def\<close>)
qed

lemma quiet_map_m [quiet_intros]: "(\<And>x. quiet (f x)) \<Longrightarrow> quiet (map_m f xs)"
  by (induction xs) (auto intro!: quiet_intros)

lemma quiet_fold_m [quiet_intros]: "(\<And>x a. quiet (f x a)) \<Longrightarrow> quiet (fold_m f xs acc)"
  by (induction xs arbitrary: acc) (auto intro!: quiet_intros)

lemma quiet_gets: "(\<And>s. f (without_trace s) = f s) \<Longrightarrow> quiet (gets f)"
  by (simp add: quiet_def gets_def)

lemma found_contracts_without_trace [simp]:
  "createdContract (without_trace s) cid = createdContract s cid"
  "hydratedContract (without_trace s) cid = hydratedContract s cid"
  by (simp_all add: createdContract_def hydratedContract_def)

lemma contract_reads_without_trace [simp]:
  "resolved_payload (without_trace s) cid = resolved_payload s cid"
  "resolved_template (without_trace s) cid = resolved_template s cid"
  "next_contract_id (without_trace s) = next_contract_id s"
  by (simp_all add: resolved_payload_def resolved_template_def next_contract_id_def Let_def
      cong: if_cong option.case_cong)

lemma quiet_reads [quiet_intros]:
  "quiet (gets next_contract_id)" "quiet (gets (\<lambda>s. resolved_payload s cid))"
  "quiet (gets (\<lambda>s. (resolved_payload s cid, resolved_template s cid)))"
  "quiet (gets (resolve_choice t choice))"
  "quiet evaluate_get_time" "quiet (evaluate_variable name fr)"
  "quiet (gets (\<lambda>s. \<lparr>rr_value = v,
     rr_effects = (case st_activeReplayContext s of Some ctx \<Rightarrow> rc_effects ctx | None \<Rightarrow> [])\<rparr>))"
  by (simp_all add: quiet_def gets_def resolve_choice_def evaluate_get_time_def
      evaluate_variable_def split: option.splits)

lemma quiet_steps [quiet_intros]:
  "quiet (child_frame fr)" "quiet (bind_name fr name v)" "quiet (onStep kd e fr w eff)"
  "quiet (push_effect eff2)" "quiet (record_create cid ct)"
  by (simp_all add: quiet_def child_frame_def bind_name_def onStep_def push_effect_def
      record_create_def modify_def createChild_def new_scope_def)

lemma quiet_bind_names [quiet_intros]: "quiet (bind_names fr bs)"
  by (induction bs) (auto intro!: quiet_intros)

lemma quiet_emit [quiet_intros]: "quiet (emitReplayEffect eff e fr)"
  unfolding emitReplayEffect_def by (intro quiet_intros)

lemma quiet_createFrame [quiet_intros]: "quiet (createFrame c d i)"
  unfolding createFrame_def
  by (auto intro!: quiet_intros simp: new_scope_def quiet_def split: option.splits)
    (auto simp: and_then_def lift_result_def ret_def fail_def split: sum.splits)

locale quiet_calls =
  fixes ev :: eval_fun and ap :: apply_fun
  assumes ev: "quiet (ev e fr)" and ap: "quiet (ap f args)"
begin

lemmas recursive_calls = ev ap

lemma quiet_bindings: "quiet (evaluate_bindings ev fr bs)"
  by (induction bs) (auto intro!: quiet_intros recursive_calls)

lemma quiet_let: "quiet (evaluate_let ev bs body fr)"
  unfolding evaluate_let_def by (intro quiet_intros recursive_calls quiet_bindings)

lemma quiet_application: "quiet (evaluate_application ev ap f args fr)"
  unfolding evaluate_application_def by (intro quiet_intros recursive_calls)

lemma quiet_record_construction: "quiet (evaluate_record_construction ev fs fr)"
  unfolding evaluate_record_construction_def
  by (auto intro!: quiet_intros recursive_calls split: prod.splits)

lemma quiet_record_projection: "quiet (evaluate_record_projection c ev name r fr)"
  unfolding evaluate_record_projection_def
  by (auto intro!: quiet_intros recursive_calls split: rtval.splits)

lemma quiet_record_update: "quiet (evaluate_record_update c ev name r e fr)"
  unfolding evaluate_record_update_def
  by (auto intro!: quiet_intros recursive_calls split: rtval.splits)

lemma quiet_throw: "quiet (evaluate_throw ev e fr)"
  unfolding evaluate_throw_def by (intro quiet_intros recursive_calls)

lemma quiet_variant: "quiet (evaluate_variant_construction ev con e fr)"
  unfolding evaluate_variant_construction_def by (intro quiet_intros recursive_calls)

lemma quiet_optional: "quiet (evaluate_optional_construction ev e fr)"
  unfolding evaluate_optional_construction_def
  by (auto intro!: quiet_intros recursive_calls split: option.splits)

lemma quiet_list: "quiet (evaluate_list_construction ev front tail fr)"
  unfolding evaluate_list_construction_def
  by (auto intro!: quiet_intros recursive_calls split: option.splits js.splits)

lemma quiet_case: "quiet (evaluate_case ev scrut alts fr)"
  unfolding evaluate_case_def
  by (auto intro!: quiet_intros recursive_calls split: option.splits prod.splits)

lemma quiet_value_reference: "quiet (evaluate_value_reference c ev p m n)"
  unfolding evaluate_value_reference_def Let_def by (intro quiet_intros recursive_calls)

lemma quiet_replay_lambda: "quiet (evaluateReplayLambdaOrExpressionOrThrow ev e fr bvs mode)"
  unfolding evaluateReplayLambdaOrExpressionOrThrow_def
  by (cases e) (simp_all, (intro quiet_intros recursive_calls)+)

lemma quiet_replay_body: "quiet (replay_body ev env e fr)"
  unfolding replay_body_def evaluateReplayExpressionOrThrow_def
  by (auto intro!: quiet_intros quiet_replay_lambda)

lemma quiet_try_catch: "quiet (evaluate_try_catch ev e name handler fr)"
  unfolding evaluate_try_catch_def by (intro quiet_intros recursive_calls)

lemma quiet_create: "quiet (evaluate_create c ev t arg fr)"
  unfolding evaluate_create_def Let_def by (intro quiet_intros recursive_calls)

lemma quiet_contract_id: "quiet (evaluate_contract_id ev e fr)"
  unfolding evaluate_contract_id_def by (intro quiet_intros recursive_calls)

lemma quiet_argument: "quiet (evaluate_argument ev e fr)"
  unfolding evaluate_argument_def by (intro quiet_intros recursive_calls)

lemma quiet_run_choice: "quiet (run_choice c ev rd payload cid arg)"
  unfolding run_choice_def by (intro quiet_intros quiet_replay_lambda)

lemmas quiet_parts = quiet_contract_id quiet_argument quiet_run_choice

lemma quiet_fetch: "quiet (evaluate_fetch ev t e fr)"
  unfolding evaluate_fetch_def by (intro quiet_intros quiet_parts)

lemma quiet_fetch_interface: "quiet (evaluate_fetch_interface ev e fr)"
  unfolding evaluate_fetch_interface_def
  by (auto intro!: quiet_intros quiet_parts split: prod.splits)

lemma quiet_exercise: "quiet (evaluate_exercise c ev t ch e a fr)"
  unfolding evaluate_exercise_def
  by (auto intro!: quiet_intros quiet_parts split: option.splits)

lemma quiet_exercise_interface: "quiet (evaluate_exercise_interface c ev ch e a fr)"
  unfolding evaluate_exercise_interface_def
  by (auto intro!: quiet_intros quiet_parts split: option.splits sum.splits prod.splits)

lemma quiet_ledger_time: "quiet (evaluate_ledger_time_lt ev e fr)"
  unfolding evaluate_ledger_time_lt_def
  by (auto intro!: quiet_intros recursive_calls split: option.splits)

lemmas quiet_updates =
  quiet_let quiet_try_catch quiet_create quiet_fetch quiet_fetch_interface
  quiet_exercise quiet_exercise_interface quiet_ledger_time

lemma quiet_update: "quiet (evaluateUpdateExpressionOrThrow c ev u fr)"
  unfolding evaluateUpdateExpressionOrThrow_def
  by (cases u) (simp_all add: quiet_updates recursive_calls quiet_basic quiet_reads)

lemmas quiet_cases =
  quiet_application quiet_let quiet_record_construction quiet_record_projection
  quiet_record_update quiet_throw quiet_variant quiet_optional quiet_list quiet_update
  quiet_case quiet_value_reference

lemma quiet_resolve: "quiet (resolveExpressionValue c ev ap e fr)"
  unfolding resolveExpressionValue_def
  by (cases e) (simp_all add: quiet_cases quiet_basic quiet_reads)

lemma quiet_expression: "quiet (evaluateExpressionOrThrow (resolveExpressionValue c ev ap) e fr)"
  unfolding evaluateExpressionOrThrow_def by (intro quiet_intros quiet_resolve)

lemma quiet_foldl: "quiet (applyFoldlBuiltinOrThrow ap args)"
  unfolding applyFoldlBuiltinOrThrow_def
  by (auto intro!: quiet_intros recursive_calls split: list.splits)

lemma quiet_foldr: "quiet (applyFoldrBuiltinOrThrow ap args)"
  unfolding applyFoldrBuiltinOrThrow_def
  by (auto intro!: quiet_intros recursive_calls split: list.splits)

lemma quiet_closure: "quiet (apply_closure ev ap ps body fr args)"
  unfolding apply_closure_def Let_def
  by (auto intro!: quiet_intros recursive_calls)

lemma quiet_apply: "quiet (applyFunctionOrThrow ev ap f args)"
  unfolding applyFunctionOrThrow_def
  by (cases f) (simp_all add: quiet_foldl quiet_foldr quiet_closure quiet_basic quiet_reads)



end

lemma quiet_evaluator: "quiet_calls (evaluateExpression c n) (applyFunction c n)"
proof (induction n)
  case 0
  show ?case by (rule quiet_calls.intro) (simp_all add: quiet_basic)
next
  case (Suc n)
  show ?case
    by (rule quiet_calls.intro)
      (simp_all add: quiet_calls.quiet_expression [OF Suc] quiet_calls.quiet_apply [OF Suc])
qed

interpretation quiet_depth: quiet_calls "evaluateExpression c n" "applyFunction c n" for c n
  by (rule quiet_evaluator)

lemma quiet_replay: "quiet (evaluateReplayEntrypointOrThrow c n d env)"
proof -
  have "quiet (\<lambda>s. let (r, s') = replay_body (evaluateExpression c n) env e fr
      (with_context s env) in (r, without_context s'))" for e fr
  proof (rule quietI)
    fix s r s'
    assume "(let (r, s') = replay_body (evaluateExpression c n) env e fr (with_context s env)
      in (r, without_context s')) = (r, s')"
    then obtain s2 where "replay_body (evaluateExpression c n) env e fr (with_context s env) = (r, s2)"
      "s' = without_context s2"
      by (auto split: prod.splits)
    moreover have "with_context (without_trace s) env = without_trace (with_context s env)"
      "without_context (without_trace s2) = without_trace (without_context s2)" by simp_all
    ultimately show "(let (r, s') = replay_body (evaluateExpression c n) env e fr
        (with_context (without_trace s) env) in (r, without_context s')) = (r, without_trace s')"
      using quietD [OF quiet_depth.quiet_replay_body, of c n env e fr "with_context s env" r s2]
      by (simp only: Let_def prod.case)
  qed
  then show ?thesis
    unfolding evaluateReplayEntrypointOrThrow_def Let_def by (intro quiet_intros)
qed

end
