(* ===== verification/Decimal_Laws.thy ===== *)
theory Decimal_Laws
  imports Exact_Decimal
begin

text \<open>
  What the decimal arithmetic computes, stated over the rational value of a decimal:
  normal forms are unique, printing and parsing are inverse, sums, differences, products and
  comparison are exact, rounding is half-even, and every bounded result has at most 38 digits.
\<close>

section \<open>The rational value and the normal form\<close>

definition dec_val :: "exact_decimal \<Rightarrow> rat" where
  "dec_val d = of_int (significand d) / 10 ^ scale d"

definition is_normal :: "exact_decimal \<Rightarrow> bool" where
  "is_normal d \<longleftrightarrow> scale d = 0 \<or> \<not> 10 dvd significand d"

lemma smod_zero_iff: "a smod b = 0 \<longleftrightarrow> b dvd a" for a b :: int
  by (auto simp: signed_modulo_int_def sgn_eq_0_iff simp flip: dvd_eq_mod_eq_0)

lemma sdiv_times: "b dvd a \<Longrightarrow> a sdiv b * b = a" for a b :: int
  by (metis add.right_neutral sdiv_mult_smod_eq smod_zero_iff)

lemma dec_val_normalize_loop:
  "dec_val (normalize_loop sig n) = of_int sig / 10 ^ n"
proof (induction sig n rule: normalize_loop.induct)
  case (1 sig)
  show ?case by (simp add: dec_val_def)
next
  case (2 sig n)
  show ?case
  proof (cases "10 dvd sig")
    case True
    have "of_int sig = (of_int (sig sdiv 10 * 10) :: rat)"
      using sdiv_times [OF True] by simp
    with 2 True show ?thesis by (simp add: smod_zero_iff)
  next
    case False
    then show ?thesis by (simp add: smod_zero_iff dec_val_def)
  qed
qed

lemma dec_val_normalize [simp]: "dec_val (normalizeExactDecimal d) = dec_val d"
  by (simp add: normalizeExactDecimal_def dec_val_normalize_loop) (simp add: dec_val_def)

lemma normalize_loop_normal: "is_normal (normalize_loop sig n)"
  by (induction sig n rule: normalize_loop.induct) (simp_all add: is_normal_def smod_zero_iff)

lemma normalize_normal [simp]: "is_normal (normalizeExactDecimal d)"
  by (simp add: normalizeExactDecimal_def normalize_loop_normal)

lemma normal_normalize: "is_normal d \<Longrightarrow> normalizeExactDecimal d = d"
  by (cases "scale d")
    (auto simp: is_normal_def normalizeExactDecimal_def smod_zero_iff)

lemma normalize_idem [simp]:
  "normalizeExactDecimal (normalizeExactDecimal d) = normalizeExactDecimal d"
  by (simp add: normal_normalize)

lemma normalize_scale_le: "scale (normalizeExactDecimal d) \<le> scale d"
proof -
  have "scale (normalize_loop sig n) \<le> n" for sig n
    by (induction sig n rule: normalize_loop.induct) (simp_all add: le_SucI)
  then show ?thesis by (simp add: normalizeExactDecimal_def)
qed

lemma same_val_same_scale_significand:
  assumes "dec_val d = dec_val e" and "scale d = scale e"
  shows "d = e"
  using assms by (cases d; cases e) (simp add: dec_val_def)

lemma normal_scale_le:
  assumes "is_normal d" and "dec_val d = dec_val e"
  shows "scale d \<le> scale e"
proof (rule ccontr)
  assume "\<not> scale d \<le> scale e"
  then obtain k where k: "scale d = scale e + Suc k"
    using less_imp_Suc_add [of "scale e" "scale d"] by auto
  with assms(2) have "(of_int (significand d) :: rat) = of_int (significand e * 10 ^ Suc k)"
    by (simp add: dec_val_def power_add field_simps)
  then have "significand d = significand e * 10 ^ Suc k"
    by (simp only: of_int_eq_iff)
  with assms(1) k show False by (simp add: is_normal_def)
qed

lemma normal_unique:
  "is_normal d \<Longrightarrow> is_normal e \<Longrightarrow> dec_val d = dec_val e \<Longrightarrow> d = e"
  by (rule same_val_same_scale_significand)
    (simp_all add: order_antisym normal_scale_le)

lemma normalize_eq_iff:
  "normalizeExactDecimal d = normalizeExactDecimal e \<longleftrightarrow> dec_val d = dec_val e"
  by (metis dec_val_normalize normal_unique normalize_normal)

section \<open>Exact operations\<close>

lemma dec_val_scaled:
  "scale d \<le> s \<Longrightarrow> of_int (significand d * pow10 (s - scale d)) / 10 ^ s = dec_val d"
  by (auto simp: dec_val_def pow10_def power_add dest!: le_Suc_ex)

lemma dec_val_add: "dec_val (addExactDecimals l r) = dec_val l + dec_val r"
  using dec_val_scaled [of l "max (scale l) (scale r)"]
    dec_val_scaled [of r "max (scale l) (scale r)"]
  by (simp add: addExactDecimals_def Let_def dec_val_def [of "\<lparr>significand = _, scale = _\<rparr>"]
      add_divide_distrib)

lemma dec_val_subtract: "dec_val (subtractExactDecimals l r) = dec_val l - dec_val r"
  using dec_val_scaled [of l "max (scale l) (scale r)"]
    dec_val_scaled [of r "max (scale l) (scale r)"]
  by (simp add: subtractExactDecimals_def Let_def
      dec_val_def [of "\<lparr>significand = _, scale = _\<rparr>"] diff_divide_distrib)

lemma dec_val_multiply: "dec_val (multiplyExactDecimals l r) = dec_val l * dec_val r"
  unfolding multiplyExactDecimals_def dec_val_normalize by (simp add: dec_val_def power_add)

lemma exact_operations_normal [simp]:
  "is_normal (addExactDecimals l r)"
  "is_normal (subtractExactDecimals l r)"
  "is_normal (multiplyExactDecimals l r)"
  by (simp_all add: addExactDecimals_def subtractExactDecimals_def multiplyExactDecimals_def Let_def)

lemma compare_exact:
  "compareExactDecimals l r =
     (if dec_val l < dec_val r then -1 else if dec_val l > dec_val r then 1 else 0)"
proof -
  let ?s = "max (scale l) (scale r)"
  let ?l = "significand l * pow10 (?s - scale l)" and ?r = "significand r * pow10 (?s - scale r)"
  have "dec_val l = of_int ?l / 10 ^ ?s" "dec_val r = of_int ?r / 10 ^ ?s"
    by (simp_all only: dec_val_scaled max.cobounded1 max.cobounded2)
  then have "dec_val l < dec_val r \<longleftrightarrow> ?l < ?r" "dec_val r < dec_val l \<longleftrightarrow> ?r < ?l"
    by (simp_all only: divide_less_cancel of_int_less_iff) simp_all
  then show ?thesis by (simp add: compareExactDecimals_def Let_def)
qed

section \<open>Half-even rounding\<close>

definition half_even :: "int \<Rightarrow> int \<Rightarrow> int \<Rightarrow> bool" where
  "half_even n d r \<longleftrightarrow> 2 * \<bar>n - r * d\<bar> \<le> \<bar>d\<bar> \<and> (2 * \<bar>n - r * d\<bar> = \<bar>d\<bar> \<longrightarrow> even r)"

lemma smod_abs_less: "d \<noteq> 0 \<Longrightarrow> \<bar>n smod d\<bar> < \<bar>d\<bar>" for n d :: int
  by (simp add: signed_modulo_int_def abs_mult sgn_if)

lemma smod_two_zero_iff: "q smod 2 = 0 \<longleftrightarrow> even q" for q :: int
  by (simp add: smod_zero_iff)

text \<open>The direction of rounding away from zero is the sign of the exact quotient.\<close>

lemma away_from_zero:
  fixes n d :: int
  assumes d: "d \<noteq> 0" and m: "n smod d \<noteq> 0"
  shows "(if n sdiv d \<noteq> 0 then (if n sdiv d < 0 then -1 else 1)
          else if (n smod d < 0) \<noteq> (d < 0) then -1 else 1) * d = sgn (n smod d) * \<bar>d\<bar>"
    (is "?dir * d = _")
proof -
  have n: "n \<noteq> 0" using m by auto
  have sm: "sgn (n smod d) = sgn n"
  proof -
    have "0 \<le> \<bar>n\<bar> mod \<bar>d\<bar>" using d by simp
    with m have "sgn (\<bar>n\<bar> mod \<bar>d\<bar>) = 1"
      by (simp add: signed_modulo_int_def sgn_if)
    then show ?thesis by (simp add: signed_modulo_int_def sgn_mult)
  qed
  have "?dir = sgn n * sgn d"
  proof (cases "n sdiv d = 0")
    case True
    have "(n smod d < 0) = (n < 0)"
      using sm n by (auto simp: sgn_if split: if_splits)
    with True d n show ?thesis by (auto simp: sgn_if)
  next
    case False
    then have "sgn (n sdiv d) = sgn n * sgn d"
      by (simp add: sgn_sdiv_eq_sgn_mult sgn_mult)
    with False show ?thesis by (auto simp: sgn_if split: if_splits)
  qed
  then have "?dir * d = sgn n * (sgn d * d)" by (simp only: mult.assoc)
  also have "sgn d * d = \<bar>d\<bar>" by (simp add: abs_sgn mult.commute)
  finally show ?thesis by (simp add: sm)
qed

lemma abs_minus_sgn: "\<bar>m - sgn m * \<bar>d\<bar>\<bar> = \<bar>\<bar>m\<bar> - \<bar>d\<bar>\<bar>" if "m \<noteq> 0" for m d :: int
  using that by (auto simp: sgn_if abs_if)

lemma round_half_even:
  assumes d: "d \<noteq> 0" and m: "n smod d \<noteq> 0"
  shows "half_even n d (roundHalfEvenQuotient (n sdiv d) (n smod d) d)"
proof -
  define q and m' where "q = n sdiv d" and "m' = n smod d"
  define dir :: int where
    "dir = (if q \<noteq> 0 then (if q < 0 then -1 else 1) else if (m' < 0) \<noteq> (d < 0) then -1 else 1)"
  have n: "n = q * d + m'" by (simp add: q_def m'_def sdiv_mult_smod_eq)
  have lt: "\<bar>m'\<bar> < \<bar>d\<bar>" using d by (simp add: m'_def smod_abs_less)
  have dd: "dir * d = sgn m' * \<bar>d\<bar>"
    using away_from_zero [OF d m] by (simp only: dir_def q_def m'_def)
  have "n - (q + dir) * d = m' - dir * d" by (simp add: n algebra_simps)
  then have away: "\<bar>n - (q + dir) * d\<bar> = \<bar>d\<bar> - \<bar>m'\<bar>"
    using m lt by (simp add: dd abs_minus_sgn m'_def)
  have stay: "\<bar>n - q * d\<bar> = \<bar>m'\<bar>" by (simp add: n)
  have "odd (q + dir) \<longleftrightarrow> even q" by (simp add: dir_def)
  with away stay lt show ?thesis
    by (auto simp: half_even_def roundHalfEvenQuotient_def Let_def smod_two_zero_iff dir_def
        simp flip: q_def m'_def)
qed

lemma exact_half_even: "n smod d = 0 \<Longrightarrow> d \<noteq> 0 \<Longrightarrow> half_even n d (n sdiv d)"
  using sdiv_mult_smod_eq [of n d] by (simp add: half_even_def)

lemma half_even_unique:
  assumes "d \<noteq> 0" "half_even n d r" "half_even n d s"
  shows "r = s"
proof -
  have "\<bar>(r - s) * d\<bar> \<le> \<bar>n - r * d\<bar> + \<bar>n - s * d\<bar>" by (simp add: algebra_simps)
  then have le: "\<bar>(r - s) * d\<bar> \<le> \<bar>d\<bar>"
    using assms(2,3) by (simp add: half_even_def)
  have "\<bar>r - s\<bar> \<le> 1"
    using le assms(1) by (simp add: abs_mult)
  moreover have "\<bar>r - s\<bar> \<noteq> 1"
  proof
    assume one: "\<bar>r - s\<bar> = 1"
    then have "\<bar>d\<bar> \<le> \<bar>n - r * d\<bar> + \<bar>n - s * d\<bar>"
      using \<open>\<bar>(r - s) * d\<bar> \<le> \<bar>n - r * d\<bar> + \<bar>n - s * d\<bar>\<close> by (simp add: abs_mult)
    with assms(2,3) have "even r" "even s" by (auto simp: half_even_def)
    with one show False by presburger
  qed
  ultimately show ?thesis by linarith
qed


section \<open>Printing and parsing\<close>

lemma zero_digit [simp]: "digit_value (CHR ''0'') = 0" "is_digit (CHR ''0'')"
  by (simp_all add: digit_value_def is_digit_def)

lemma nat_of_drop_leading_zeros [simp]: "nat_of_digits (drop_leading_zeros s) = nat_of_digits s"
  by (induction s rule: drop_leading_zeros.induct) (simp_all add: nat_of_digits_Cons)

lemma drop_leading_zeros_suffix: "\<exists>j. s = replicate j (CHR ''0'') @ drop_leading_zeros s"
proof (induction s rule: drop_leading_zeros.induct)
  case (1 c d s)
  show ?case
  proof (cases "c = CHR ''0'' \<and> is_digit d")
    case True
    with 1 obtain j where "d # s = replicate j (CHR ''0'') @ drop_leading_zeros (d # s)" by auto
    with True have "c # d # s = replicate (Suc j) (CHR ''0'') @ drop_leading_zeros (c # d # s)"
      by simp
    then show ?thesis by blast
  next
    case False
    then show ?thesis by (auto intro: exI [of _ 0])
  qed
qed (auto intro: exI [of _ 0])

lemma drop_leading_zeros_digits: "list_all is_digit s \<Longrightarrow> list_all is_digit (drop_leading_zeros s)"
  by (metis drop_leading_zeros_suffix list_all_append)

lemma nat_of_or_zero [simp]: "nat_of_digits (or_zero s) = nat_of_digits s"
  by (simp add: or_zero_def nat_of_digits_Cons)

lemma all_digits_or_zero: "list_all is_digit s \<Longrightarrow> all_digits (or_zero s)"
  by (simp add: or_zero_def all_digits_def)

lemma drop_trailing_zeros_prefix:
  "\<exists>j. s = drop_trailing_zeros s @ replicate j (CHR ''0'')"
proof -
  have "takeWhile (\<lambda>c. c = CHR ''0'') (rev s)
      = replicate (length (takeWhile (\<lambda>c. c = CHR ''0'') (rev s))) (CHR ''0'')"
    by (rule replicate_length_same [symmetric]) (auto dest: set_takeWhileD)
  then have "s = rev (dropWhile (\<lambda>c. c = CHR ''0'') (rev s))
      @ replicate (length (takeWhile (\<lambda>c. c = CHR ''0'') (rev s))) (CHR ''0'')"
    by (metis rev_append rev_replicate rev_rev_ident takeWhile_dropWhile_id)
  then show ?thesis unfolding drop_trailing_zeros_def by blast
qed

lemma drop_trailing_zeros_id: "s = [] \<or> last s \<noteq> CHR ''0'' \<Longrightarrow> drop_trailing_zeros s = s"
  by (cases s rule: rev_cases) (auto simp: drop_trailing_zeros_def)

lemma drop_trailing_zeros_last:
  "drop_trailing_zeros s \<noteq> [] \<Longrightarrow> last (drop_trailing_zeros s) \<noteq> CHR ''0''"
  using hd_dropWhile [of "\<lambda>c. c = CHR ''0''" "rev s"]
  by (simp add: drop_trailing_zeros_def last_rev)

lemma drop_trailing_zeros_digits: "list_all is_digit s \<Longrightarrow> list_all is_digit (drop_trailing_zeros s)"
  by (metis drop_trailing_zeros_prefix list_all_append)

text \<open>The value a decimal text denotes.\<close>

definition text_sign :: "string \<Rightarrow> int" where
  "text_sign t = (if t \<noteq> [] \<and> hd t = CHR ''-'' then -1 else 1)"

definition decimal_text_value :: "string \<Rightarrow> rat" where
  "decimal_text_value t =
     (let u = unsigned_part t in
      of_int (text_sign t) * of_nat (nat_of_digits (integer_part u @ fractional_part u))
        / 10 ^ length (fractional_part u))"

lemma decimal_text_digits:
  assumes "is_decimal_text t"
  shows "list_all is_digit (integer_part (unsigned_part t))"
    and "list_all is_digit (fractional_part (unsigned_part t))"
    and "t \<noteq> []"
proof -
  let ?u = "unsigned_part t"
  show "list_all is_digit (integer_part ?u)"
    using assms by (simp add: is_decimal_text_def Let_def all_digits_def)
  show "list_all is_digit (fractional_part ?u)"
  proof (cases "CHR ''.'' \<in> set ?u")
    case True
    with assms show ?thesis by (simp add: is_decimal_text_def Let_def all_digits_def)
  next
    case False
    then have none: "dropWhile (\<lambda>c. c \<noteq> CHR ''.'') ?u = []"
      by (intro dropWhile_eq_Nil_conv [THEN iffD2]) auto
    show ?thesis unfolding fractional_part_def none by simp
  qed
  show "t \<noteq> []"
    using assms by (auto simp: is_decimal_text_def Let_def unsigned_part_def integer_part_def all_digits_def)
qed

lemma parse_decimal_text:
  assumes t: "is_decimal_text t" and trim: "trim text = t"
  shows "parseExactDecimal text =
    Inr \<lparr>significand = text_sign t * int (nat_of_digits
            (integer_part (unsigned_part t) @ drop_trailing_zeros (fractional_part (unsigned_part t)))),
         scale = length (drop_trailing_zeros (fractional_part (unsigned_part t)))\<rparr>"
proof -
  let ?i = "integer_part (unsigned_part t)"
  let ?f = "drop_trailing_zeros (fractional_part (unsigned_part t))"
  let ?d = "or_zero (drop_leading_zeros (or_zero (drop_leading_zeros ?i) @ ?f))"
  note digits = decimal_text_digits [OF t]
  have "list_all is_digit (or_zero (drop_leading_zeros ?i) @ ?f)"
    using all_digits_or_zero [OF drop_leading_zeros_digits [OF digits(1)]]
      drop_trailing_zeros_digits [OF digits(2)] by (simp add: all_digits_def)
  then have d: "all_digits ?d"
    by (intro all_digits_or_zero drop_leading_zeros_digits)
  have v: "nat_of_digits ?d = nat_of_digits (?i @ ?f)"
    by (simp add: nat_of_digits_append)
  show ?thesis
    using d v t digits(3) trim bigint_of_digits [OF d] bigint_of_minus_digits [OF d]
    by (simp add: parseExactDecimal_def Let_def text_sign_def)
qed

lemma parse_decimal_val:
  assumes "is_decimal_text (trim text)"
  shows "\<exists>d. parseExactDecimal text = Inr d \<and> is_normal d
           \<and> dec_val d = decimal_text_value (trim text)"
proof -
  let ?t = "trim text"
  let ?u = "unsigned_part ?t"
  let ?i = "integer_part ?u" and ?f = "fractional_part ?u"
  let ?g = "drop_trailing_zeros ?f"
  obtain j where f: "?f = ?g @ replicate j (CHR ''0'')" using drop_trailing_zeros_prefix by blast
  have zeros: "nat_of_digits (replicate j (CHR ''0'')) = 0"
    by (induction j) (simp_all add: nat_of_digits_Cons)
  have "nat_of_digits (?i @ ?f) = nat_of_digits (?i @ ?g) * 10 ^ j"
    by (subst f) (simp add: nat_of_digits_append [of "?i @ ?g" "replicate j _", simplified] zeros)
  moreover have "length ?f = length ?g + j"
    by (subst f) simp
  ultimately have val: "dec_val \<lparr>significand = text_sign ?t * int (nat_of_digits (?i @ ?g)),
      scale = length ?g\<rparr> = decimal_text_value ?t"
    by (simp add: dec_val_def decimal_text_value_def Let_def power_add)
  have "is_normal \<lparr>significand = text_sign ?t * int (nat_of_digits (?i @ ?g)), scale = length ?g\<rparr>"
  proof (cases "?g = []")
    case True
    then show ?thesis by (simp add: is_normal_def)
  next
    case False
    then obtain h c where g: "?g = h @ [c]" by (metis rev_exhaust)
    have c: "is_digit c" "c \<noteq> CHR ''0''"
      using drop_trailing_zeros_digits [OF decimal_text_digits(2) [OF assms]]
        drop_trailing_zeros_last [OF False] by (simp_all add: g)
    then have c': "0 < digit_value c" "digit_value c < 10"
      using digit_char_value [of c] digit_char_value [of "CHR ''0''"]
      by (metis digit_char_value gr0I zero_digit, simp)
    have "\<not> 10 dvd nat_of_digits (?i @ h @ [c])"
      using c' nat_of_digits_snoc [of "?i @ h" c] by (simp add: dvd_eq_mod_eq_0 mod_mult_self4)
    then show ?thesis
      by (simp add: is_normal_def g text_sign_def int_dvd_int_iff [of 10, simplified])
  qed
  with val parse_decimal_text [OF assms refl] show ?thesis by blast
qed


text \<open>A printed decimal: a sign, integer digits and, with a scale, a point and that many digits.\<close>

definition decimal_shape :: "bool \<Rightarrow> string \<Rightarrow> string \<Rightarrow> string" where
  "decimal_shape negative ip fp =
     (if negative then ''-'' else []) @ ip @ (if fp = [] then [] else CHR ''.'' # fp)"

lemma digits_no_point: "list_all is_digit s \<Longrightarrow> CHR ''.'' \<notin> set s"
  by (auto simp: list_all_iff)

lemma digits_no_minus: "all_digits s \<Longrightarrow> hd s \<noteq> CHR ''-''"
  by (auto simp: all_digits_def list_all_iff dest!: hd_in_set)

lemma shape_parts:
  assumes ip: "all_digits ip" and fp: "list_all is_digit fp"
  shows "unsigned_part (decimal_shape neg ip fp) = ip @ (if fp = [] then [] else CHR ''.'' # fp)"
    and "integer_part (ip @ (if fp = [] then [] else CHR ''.'' # fp)) = ip"
    and "fractional_part (ip @ (if fp = [] then [] else CHR ''.'' # fp)) = fp"
    and "text_sign (decimal_shape neg ip fp) = (if neg then -1 else 1)"
    and "is_decimal_text (decimal_shape neg ip fp)"
    and "trim (decimal_shape neg ip fp) = decimal_shape neg ip fp"
proof -
  have ne: "ip \<noteq> []" and di: "list_all is_digit ip" using ip by (simp_all add: all_digits_def)
  have pt: "CHR ''.'' \<notin> set ip" "CHR ''.'' \<notin> set fp"
    using di fp by (simp_all add: digits_no_point)
  have tw: "takeWhile (\<lambda>c. c \<noteq> CHR ''.'') ip = ip" "dropWhile (\<lambda>c. c \<noteq> CHR ''.'') ip = []"
    using pt(1) by (simp_all add: takeWhile_eq_all_conv dropWhile_eq_Nil_conv) (metis+)
  show u: "unsigned_part (decimal_shape neg ip fp) = ip @ (if fp = [] then [] else CHR ''.'' # fp)"
    using ne digits_no_minus [OF ip] by (simp add: unsigned_part_def decimal_shape_def)
  show i: "integer_part (ip @ (if fp = [] then [] else CHR ''.'' # fp)) = ip"
    using tw pt by (auto simp: integer_part_def takeWhile_append2)
  show f: "fractional_part (ip @ (if fp = [] then [] else CHR ''.'' # fp)) = fp"
    unfolding fractional_part_def using pt by (subst dropWhile_append) (auto simp: tw)
  show "text_sign (decimal_shape neg ip fp) = (if neg then -1 else 1)"
    using ne digits_no_minus [OF ip] by (simp add: text_sign_def decimal_shape_def)
  show "is_decimal_text (decimal_shape neg ip fp)"
    unfolding is_decimal_text_def Let_def u i f
    using ip fp pt(1) by (simp add: all_digits_def)
  have "\<not> is_space (CHR ''-'')" by (simp add: is_space_def)
  moreover have "fp \<noteq> [] \<Longrightarrow> \<not> is_space (last fp)"
    using fp by (auto simp: list_all_iff intro!: digit_not_space)
  ultimately show "trim (decimal_shape neg ip fp) = decimal_shape neg ip fp"
    using ne all_digits_ends [OF ip] by (intro trim_id) (auto simp: decimal_shape_def)
qed

lemma nat_of_padStart [simp]: "nat_of_digits (padStart_zeros n s) = nat_of_digits s"
proof -
  have "nat_of_digits (replicate j (CHR ''0'')) = 0" for j
    by (induction j) (simp_all add: nat_of_digits_Cons)
  then show ?thesis by (simp add: padStart_zeros_def nat_of_digits_append)
qed

lemma padStart_digits: "list_all is_digit s \<Longrightarrow> list_all is_digit (padStart_zeros n s)"
  by (auto simp: padStart_zeros_def list_all_iff)

lemma padStart_length: "length (padStart_zeros n s) = max n (length s)"
  by (simp add: padStart_zeros_def)

lemma format_shape:
  assumes n: "n = normalizeExactDecimal d"
  obtains ip fp where
    "formatExactDecimal d = decimal_shape (significand n < 0) ip fp"
    "all_digits ip" "list_all is_digit fp" "length fp = scale n"
    "nat_of_digits (ip @ fp) = nat \<bar>significand n\<bar>"
    "drop_trailing_zeros fp = fp"
proof (cases "scale n = 0")
  case True
  show ?thesis
  proof (rule that)
    show "formatExactDecimal d
        = decimal_shape (significand n < 0) (digits_of_nat (nat \<bar>significand n\<bar>)) []"
      using True by (simp add: formatExactDecimal_def Let_def decimal_shape_def flip: n)
  qed (simp_all add: True drop_trailing_zeros_def)
next
  case False
  let ?D = "digits_of_nat (nat \<bar>significand n\<bar>)"
  let ?P = "padStart_zeros (scale n + 1) ?D"
  let ?i = "take (length ?P - scale n) ?P" and ?f = "drop (length ?P - scale n) ?P"
  have len: "scale n < length ?P" by (simp add: padStart_length)
  have P: "list_all is_digit ?P" by (intro padStart_digits digits_of_nat_digits)
  have lf: "length ?f = scale n" using len by simp
  have ne: "?f \<noteq> []" using lf False by force
  have "?P = butlast ?P @ [last ?P]" using len by (intro append_butlast_last_id [symmetric]) auto
  then have last_digit:
    "nat \<bar>significand n\<bar> = 10 * nat_of_digits (butlast ?P) + digit_value (last ?P)"
    by (metis nat_of_digits_of_nat nat_of_digits_snoc nat_of_padStart)
  have "\<not> 10 dvd nat \<bar>significand n\<bar>"
    using False normalize_normal [of d] by (simp add: is_normal_def nat_dvd_iff flip: n)
  moreover have "10 dvd nat \<bar>significand n\<bar>" if "digit_value (last ?P) = 0"
    using last_digit that by (metis add.right_neutral dvd_triv_left)
  ultimately have "digit_value (last ?P) \<noteq> 0" by blast
  moreover have "last ?f = last ?P" using len False by (simp add: last_drop)
  ultimately have lst: "last ?f \<noteq> CHR ''0''" by (metis zero_digit(1))
  show ?thesis
  proof (rule that)
    show "formatExactDecimal d = decimal_shape (significand n < 0) ?i ?f"
      using False ne by (simp add: formatExactDecimal_def Let_def decimal_shape_def flip: n)
    show "all_digits ?i"
      using P len by (auto simp: all_digits_def list_all_iff dest: in_set_takeD)
    show "list_all is_digit ?f"
      using P by (auto simp: list_all_iff dest: in_set_dropD)
    show "length ?f = scale n" by (rule lf)
    show "nat_of_digits (?i @ ?f) = nat \<bar>significand n\<bar>"
      by (simp only: append_take_drop_id nat_of_padStart nat_of_digits_of_nat)
    show "drop_trailing_zeros ?f = ?f" using lst by (simp add: drop_trailing_zeros_id)
  qed
qed

lemma parse_format: "parseExactDecimal (formatExactDecimal d) = Inr (normalizeExactDecimal d)"
proof -
  let ?n = "normalizeExactDecimal d"
  obtain ip fp where f: "formatExactDecimal d = decimal_shape (significand ?n < 0) ip fp"
    and ip: "all_digits ip" and fp: "list_all is_digit fp" and len: "length fp = scale ?n"
    and val: "nat_of_digits (ip @ fp) = nat \<bar>significand ?n\<bar>"
    and dtz: "drop_trailing_zeros fp = fp"
    using format_shape [OF refl] by blast
  note parts = shape_parts [OF ip fp]
  have "parseExactDecimal (formatExactDecimal d)
      = Inr \<lparr>significand = (if significand ?n < 0 then -1 else 1) * int (nat \<bar>significand ?n\<bar>),
             scale = scale ?n\<rparr>"
    unfolding f parse_decimal_text [OF parts(5,6)] parts(1-4) dtz len [symmetric] val ..
  then show ?thesis by (cases ?n) (simp split: if_splits)
qed

lemma format_eq_iff: "formatExactDecimal d = formatExactDecimal e \<longleftrightarrow> dec_val d = dec_val e"
proof
  assume "formatExactDecimal d = formatExactDecimal e"
  then have "normalizeExactDecimal d = normalizeExactDecimal e"
    by (metis parse_format sum.inject(2))
  then show "dec_val d = dec_val e" by (simp add: normalize_eq_iff)
next
  assume "dec_val d = dec_val e"
  then have "normalizeExactDecimal d = normalizeExactDecimal e" by (simp add: normalize_eq_iff)
  then show "formatExactDecimal d = formatExactDecimal e"
    by (simp add: formatExactDecimal_def)
qed


section \<open>Bounds, quantisation, division\<close>

abbreviation numeric_overflow :: js_error where
  "numeric_overflow \<equiv> ValidationError ''daml lf numeric overflow''"

text \<open>\<open>r\<close> is the integer nearest to \<open>x\<close>, the even one of two at the same distance.\<close>

definition nearest_even :: "rat \<Rightarrow> int \<Rightarrow> bool" where
  "nearest_even x r \<longleftrightarrow>
     \<bar>x - of_int r\<bar> \<le> 1 / 2 \<and> (\<bar>x - of_int r\<bar> = 1 / 2 \<longrightarrow> even r)"

lemma nearest_even_quotient:
  assumes "d \<noteq> 0" "half_even n d r"
  shows "nearest_even (of_int n / of_int d) r"
proof -
  define A D where "A = \<bar>n - r * d\<bar>" and "D = \<bar>d\<bar>"
  have pos: "(0 :: rat) < of_int D" using assms(1) by (simp add: D_def)
  have "of_int n / of_int d - of_int r = (of_int (n - r * d) / of_int d :: rat)"
    using assms(1) by (simp add: field_simps)
  then have e: "\<bar>of_int n / of_int d - of_int r :: rat\<bar> = of_int A / of_int D"
    by (simp add: abs_divide A_def D_def)
  have "of_int A / of_int D \<le> (1 / 2 :: rat) \<longleftrightarrow> of_int (2 * A) \<le> (of_int D :: rat)"
    using pos by (simp add: pos_divide_le_eq mult.commute)
  then have le: "of_int A / of_int D \<le> (1 / 2 :: rat) \<longleftrightarrow> 2 * A \<le> D"
    by (simp only: of_int_le_iff)
  have "of_int A / of_int D = (1 / 2 :: rat) \<longleftrightarrow> of_int (2 * A) = (of_int D :: rat)"
    using pos by (simp add: divide_eq_eq mult.commute)
  then have eq: "of_int A / of_int D = (1 / 2 :: rat) \<longleftrightarrow> 2 * A = D"
    by (simp only: of_int_eq_iff)
  have "2 * A \<le> D \<and> (2 * A = D \<longrightarrow> even r)"
    using assms(2) by (simp add: half_even_def A_def D_def)
  then show ?thesis unfolding nearest_even_def e le eq .
qed

lemma nearest_even_int [simp]: "nearest_even (of_int n) n"
  by (simp add: nearest_even_def)

lemma nearest_even_unique:
  assumes "nearest_even x r" "nearest_even x s" shows "r = s"
proof -
  have "\<bar>of_int r - of_int s :: rat\<bar> \<le> \<bar>x - of_int r\<bar> + \<bar>x - of_int s\<bar>" by linarith
  with assms have "\<bar>of_int r - of_int s :: rat\<bar> \<le> 1"
    and half: "\<bar>of_int r - of_int s :: rat\<bar> = 1 \<Longrightarrow> \<bar>x - of_int r\<bar> = 1 / 2 \<and> \<bar>x - of_int s\<bar> = 1 / 2"
    unfolding nearest_even_def by linarith+
  then have le: "\<bar>r - s\<bar> \<le> 1" by linarith
  have "\<bar>r - s\<bar> \<noteq> 1"
  proof
    assume one: "\<bar>r - s\<bar> = 1"
    then have "\<bar>of_int r - of_int s :: rat\<bar> = 1" by linarith
    with half assms have "even r" "even s" by (auto simp: nearest_even_def)
    with one show False by presburger
  qed
  with le show ?thesis by linarith
qed

lemma dec_val_create:
  "0 \<le> t \<Longrightarrow> createExactDecimalFromScaledSignificand r t
    = normalizeExactDecimal \<lparr>significand = r, scale = nat t\<rparr>"
  by (simp add: createExactDecimalFromScaledSignificand_def)

lemma normalized_significand:
  "significand (normalizeExactDecimal \<lparr>significand = r, scale = k\<rparr>)
     * 10 ^ (k - scale (normalizeExactDecimal \<lparr>significand = r, scale = k\<rparr>)) = r"
proof -
  let ?n = "normalizeExactDecimal \<lparr>significand = r, scale = k\<rparr>"
  have le: "scale ?n \<le> k" using normalize_scale_le [of "\<lparr>significand = r, scale = k\<rparr>"] by simp
  have "dec_val ?n = dec_val \<lparr>significand = r, scale = k\<rparr>" by simp
  then have "of_int (significand ?n) * 10 ^ (k - scale ?n) = (of_int r :: rat)"
    using le by (simp only: dec_val_def) (simp add: field_simps power_diff)
  then have "of_int (significand ?n * 10 ^ (k - scale ?n)) = (of_int r :: rat)" by simp
  then show ?thesis by (simp only: of_int_eq_iff)
qed

lemma digits_38: "length (digits_of_nat (nat \<bar>r\<bar>)) > 38 \<longleftrightarrow> \<not> \<bar>r\<bar> < 10 ^ 38"
proof -
  have "nat \<bar>r\<bar> < 10 ^ 38 \<longleftrightarrow> \<bar>r\<bar> < 10 ^ 38" by (simp add: nat_less_iff)
  then show ?thesis using digits_of_nat_length_iff [of 38 "nat \<bar>r\<bar>"] by linarith
qed

lemma assert_bounds_at_scale:
  assumes "0 \<le> t"
  shows "assertNumericBoundsOrThrow (normalizeExactDecimal \<lparr>significand = r, scale = nat t\<rparr>) t
    = (if \<bar>r\<bar> < 10 ^ 38 then Inr (normalizeExactDecimal \<lparr>significand = r, scale = nat t\<rparr>)
       else Inl numeric_overflow)"
proof -
  let ?n = "normalizeExactDecimal \<lparr>significand = r, scale = nat t\<rparr>"
  have "scale ?n \<le> nat t"
    using normalize_scale_le [of "\<lparr>significand = r, scale = nat t\<rparr>"] by simp
  then have "int (scale ?n) \<le> t" using assms by simp
  then show ?thesis
    using assms by (simp add: assertNumericBoundsOrThrow_def Let_def pow10_def
        normalized_significand digits_38)
qed

lemma quantize_below_scale:
  assumes "t < int (scale d)" "0 \<le> t"
  shows "dec_val d * 10 ^ nat t = of_int (significand d) / of_int (pow10 (nat (int (scale d) - t)))"
proof -
  have "scale d = nat t + nat (int (scale d) - t)" using assms by simp
  then have "(10 :: rat) ^ scale d = 10 ^ nat t * 10 ^ nat (int (scale d) - t)"
    by (metis power_add)
  then show ?thesis by (simp add: dec_val_def pow10_def)
qed

lemma quantize_above_scale:
  assumes "int (scale d) \<le> t"
  shows "dec_val d * 10 ^ nat t = of_int (significand d * pow10 (nat (t - int (scale d))))"
proof -
  have "nat t = scale d + nat (t - int (scale d))" using assms by simp
  then have "(10 :: rat) ^ nat t = 10 ^ scale d * 10 ^ nat (t - int (scale d))"
    by (metis power_add)
  then show ?thesis by (simp add: dec_val_def pow10_def)
qed

lemma quantize_half_even:
  assumes t: "0 \<le> t"
  shows "\<exists>r. nearest_even (dec_val d * 10 ^ nat t) r \<and>
    quantizeExactDecimal d t HalfEven =
      (if \<bar>r\<bar> < 10 ^ 38 then Inr (normalizeExactDecimal \<lparr>significand = r, scale = nat t\<rparr>)
       else Inl numeric_overflow)"
proof (cases "int (scale d) \<le> t")
  case True
  have "nearest_even (dec_val d * 10 ^ nat t) (significand d * pow10 (nat (t - int (scale d))))"
    unfolding quantize_above_scale [OF True] by (rule nearest_even_int)
  with True t show ?thesis
    by (intro exI [of _ "significand d * pow10 (nat (t - int (scale d)))"])
      (simp add: quantizeExactDecimal_def assert_bounds_at_scale)
next
  case False
  define p where "p = pow10 (nat (int (scale d) - t))"
  have p: "p \<noteq> 0" by (simp add: p_def pow10_def)
  define r where "r = (if significand d smod p = 0 then significand d sdiv p
    else roundHalfEvenQuotient (significand d sdiv p) (significand d smod p) p)"
  have "half_even (significand d) p r"
    using p by (simp add: r_def round_half_even exact_half_even)
  then have "nearest_even (dec_val d * 10 ^ nat t) r"
    using quantize_below_scale [of t d] False t nearest_even_quotient [OF p] by (simp add: p_def)
  moreover have "quantizeExactDecimal d t HalfEven =
    assertNumericBoundsOrThrow (normalizeExactDecimal \<lparr>significand = r, scale = nat t\<rparr>) t"
    using False t by (simp add: quantizeExactDecimal_def Let_def dec_val_create r_def flip: p_def)
  ultimately show ?thesis using t by (auto simp: assert_bounds_at_scale)
qed

lemma quantize_unnecessary:
  assumes t: "0 \<le> t"
  shows "quantizeExactDecimal d t Unnecessary =
    (if \<exists>r. dec_val d * 10 ^ nat t = of_int r then quantizeExactDecimal d t HalfEven
     else Inl (ValidationError ''daml lf builtin CAST_NUMERIC requires an exact representation''))"
proof (cases "int (scale d) \<le> t")
  case True
  have "\<exists>r. dec_val d * 10 ^ nat t = of_int r" using quantize_above_scale [OF True] by blast
  with True show ?thesis by (simp add: quantizeExactDecimal_def)
next
  case False
  define p where "p = pow10 (nat (int (scale d) - t))"
  have p: "p \<noteq> 0" by (simp add: p_def pow10_def)
  have "(\<exists>r. dec_val d * 10 ^ nat t = of_int r) \<longleftrightarrow> p dvd significand d"
  proof
    assume "\<exists>r. dec_val d * 10 ^ nat t = of_int r"
    then obtain r where "of_int (significand d) / of_int p = (of_int r :: rat)"
      using quantize_below_scale [of t d] False t by (auto simp: p_def)
    then have "of_int (significand d) = (of_int (r * p) :: rat)" using p by (simp add: field_simps)
    then show "p dvd significand d" by (simp only: of_int_eq_iff) simp
  next
    assume "p dvd significand d"
    then obtain r where "significand d = p * r" by blast
    then show "\<exists>r. dec_val d * 10 ^ nat t = of_int r"
      using quantize_below_scale [of t d] False t p by (auto simp: p_def)
  qed
  then show ?thesis
    using False by (auto simp: quantizeExactDecimal_def Let_def smod_zero_iff simp flip: p_def)
qed

lemma divide_half_even:
  assumes t: "0 \<le> t" and r0: "significand r \<noteq> 0"
  shows "\<exists>q. nearest_even (dec_val l / dec_val r * 10 ^ nat t) q \<and>
    divideExactDecimals l r t =
      (if \<bar>q\<bar> < 10 ^ 38 then Inr (normalizeExactDecimal \<lparr>significand = q, scale = nat t\<rparr>)
       else Inl numeric_overflow)"
proof -
  define e where "e = t + int (scale r) - int (scale l)"
  define n where "n = (if e \<ge> 0 then significand l * pow10 (nat (max e 0)) else significand l)"
  define d where "d = (if e \<ge> 0 then significand r else significand r * pow10 (nat (- e)))"
  have d: "d \<noteq> 0" using r0 by (simp add: d_def pow10_def)
  define q where "q = (if n smod d = 0 then n sdiv d
    else roundHalfEvenQuotient (n sdiv d) (n smod d) d)"
  have "(of_int n / of_int d :: rat) = dec_val l / dec_val r * 10 ^ nat t"
  proof (cases "e \<ge> 0")
    case True
    then have "nat t + scale r = scale l + nat e" using t by (simp add: e_def)
    then have "(10 :: rat) ^ nat t * 10 ^ scale r = 10 ^ scale l * 10 ^ nat e"
      by (metis power_add)
    with True r0 show ?thesis
      by (simp add: n_def d_def dec_val_def pow10_def field_simps)
  next
    case False
    then have "nat t + scale r + nat (- e) = scale l" using t by (simp add: e_def)
    then have "(10 :: rat) ^ nat t * 10 ^ scale r * 10 ^ nat (- e) = 10 ^ scale l"
      by (metis power_add)
    with False r0 show ?thesis
      by (simp add: n_def d_def dec_val_def pow10_def field_simps)
  qed
  moreover have "half_even n d q" using d by (simp add: q_def round_half_even exact_half_even)
  ultimately have near: "nearest_even (dec_val l / dec_val r * 10 ^ nat t) q"
    using nearest_even_quotient [OF d] by metis
  have "quantizeQuotientToScale n d t HalfEven
      = Inr (normalizeExactDecimal \<lparr>significand = q, scale = nat t\<rparr>)"
    using t by (simp add: quantizeQuotientToScale_def Let_def q_def dec_val_create)
  then have "divideExactDecimals l r t
      = assertNumericBoundsOrThrow (normalizeExactDecimal \<lparr>significand = q, scale = nat t\<rparr>) t"
    by (simp only: divideExactDecimals_def Let_def n_def d_def e_def r0 if_False bind_result_simps)
  with near t show ?thesis by (auto simp: assert_bounds_at_scale)
qed

end
