(* ===== verification/Builtin_Laws.thy ===== *)
theory Builtin_Laws
  imports Builtin_Dispatch Decimal_Laws
begin

text \<open>
  Laws of the builtins: partial application, text maps and generic maps against one contract for
  finite maps, and the numeric builtins against rational arithmetic.
\<close>

section \<open>Partial application\<close>

lemma hydrateValue_no_builtin: "hydrateValue v \<noteq> VBuiltin f args"
  by (simp add: hydrateValue_def split: js.splits option.splits)

lemma builtin_results:
  "partial f args = Inr v \<longleftrightarrow> v = VBuiltin f args"
  "boolean_result b \<noteq> Inr (VBuiltin g ys)"
  "text_result t \<noteq> Inr (VBuiltin g ys)"
  "int64_result i \<noteq> Inr (VBuiltin g ys)"
  "numeric_result d \<noteq> Inr (VBuiltin g ys)"
  by (auto simp: partial_def boolean_result_def text_result_def int64_result_def numeric_result_def
      bind_result_Inr_iff)

lemmas builtin_bodies =
  apply_equal_def apply_LESS_def apply_LESS_EQ_def apply_GREATER_EQ_def apply_GREATER_def
  apply_ADD_INT64_def apply_SUB_INT64_def apply_ADD_NUMERIC_def apply_SUB_NUMERIC_def
  apply_MUL_NUMERIC_def apply_DIV_NUMERIC_def apply_INT64_TO_NUMERIC_def apply_NUMERIC_TO_INT64_def
  apply_CAST_NUMERIC_def apply_SHIFT_NUMERIC_def apply_ROUND_NUMERIC_def apply_INT64_TO_TEXT_def
  apply_PARTY_TO_TEXT_def apply_COERCE_CONTRACT_ID_def apply_TEXTMAP_EMPTY_def
  apply_TEXTMAP_INSERT_def apply_TEXTMAP_LOOKUP_def apply_TEXTMAP_DELETE_def
  apply_TEXTMAP_TO_LIST_def apply_TEXTMAP_SIZE_def apply_GENMAP_EMPTY_def apply_GENMAP_INSERT_def
  apply_GENMAP_LOOKUP_def apply_GENMAP_DELETE_def apply_GENMAP_KEYS_def apply_GENMAP_VALUES_def
  apply_GENMAP_SIZE_def apply_appendText_def apply_EXPLODE_TEXT_def apply_IMPLODE_TEXT_def
  apply_NUMERIC_TO_TEXT_def

definition keeps_arguments :: "string \<Rightarrow> (rtval list \<Rightarrow> rtval result) \<Rightarrow> bool" where
  "keeps_arguments name body \<longleftrightarrow>
     (\<forall>args g ys. body args = Inr (VBuiltin g ys) \<longrightarrow> g = name \<and> ys = args)"

lemma keeps_arguments_comparison:
  "keeps_arguments name (apply_GREATER name)"
  "keeps_arguments ''equal'' apply_equal"
  "keeps_arguments ''LESS'' apply_LESS"
  "keeps_arguments ''LESS_EQ'' apply_LESS_EQ"
  "keeps_arguments ''GREATER_EQ'' apply_GREATER_EQ"
  "keeps_arguments ''ADD_INT64'' apply_ADD_INT64"
  "keeps_arguments ''SUB_INT64'' apply_SUB_INT64"
  by (simp_all add: keeps_arguments_def builtin_bodies Let_def bind_result_Inr_iff builtin_results
      hydrateValue_no_builtin split: if_splits option.splits)

lemma keeps_arguments_numeric:
  "keeps_arguments ''ADD_NUMERIC'' apply_ADD_NUMERIC"
  "keeps_arguments ''SUB_NUMERIC'' apply_SUB_NUMERIC"
  "keeps_arguments ''MUL_NUMERIC'' apply_MUL_NUMERIC"
  "keeps_arguments ''DIV_NUMERIC'' apply_DIV_NUMERIC"
  "keeps_arguments ''INT64_TO_NUMERIC'' apply_INT64_TO_NUMERIC"
  "keeps_arguments ''NUMERIC_TO_INT64'' apply_NUMERIC_TO_INT64"
  "keeps_arguments ''CAST_NUMERIC'' apply_CAST_NUMERIC"
  "keeps_arguments ''SHIFT_NUMERIC'' apply_SHIFT_NUMERIC"
  "keeps_arguments ''ROUND_NUMERIC'' apply_ROUND_NUMERIC"
  by (simp_all add: keeps_arguments_def builtin_bodies Let_def bind_result_Inr_iff builtin_results
      hydrateValue_no_builtin split: if_splits option.splits)

lemma keeps_arguments_text:
  "keeps_arguments ''INT64_TO_TEXT'' apply_INT64_TO_TEXT"
  "keeps_arguments ''PARTY_TO_TEXT'' apply_PARTY_TO_TEXT"
  "keeps_arguments ''COERCE_CONTRACT_ID'' apply_COERCE_CONTRACT_ID"
  "keeps_arguments ''appendText'' apply_appendText"
  "keeps_arguments ''EXPLODE_TEXT'' apply_EXPLODE_TEXT"
  "keeps_arguments ''IMPLODE_TEXT'' apply_IMPLODE_TEXT"
  "keeps_arguments ''NUMERIC_TO_TEXT'' apply_NUMERIC_TO_TEXT"
  by (simp_all add: keeps_arguments_def builtin_bodies Let_def bind_result_Inr_iff builtin_results
      hydrateValue_no_builtin split: if_splits option.splits)

lemma keeps_arguments_map:
  "keeps_arguments ''TEXTMAP_EMPTY'' apply_TEXTMAP_EMPTY"
  "keeps_arguments ''TEXTMAP_INSERT'' apply_TEXTMAP_INSERT"
  "keeps_arguments ''TEXTMAP_LOOKUP'' apply_TEXTMAP_LOOKUP"
  "keeps_arguments ''TEXTMAP_DELETE'' apply_TEXTMAP_DELETE"
  "keeps_arguments ''TEXTMAP_TO_LIST'' apply_TEXTMAP_TO_LIST"
  "keeps_arguments ''TEXTMAP_SIZE'' apply_TEXTMAP_SIZE"
  "keeps_arguments ''GENMAP_EMPTY'' apply_GENMAP_EMPTY"
  "keeps_arguments ''GENMAP_INSERT'' apply_GENMAP_INSERT"
  "keeps_arguments ''GENMAP_LOOKUP'' apply_GENMAP_LOOKUP"
  "keeps_arguments ''GENMAP_DELETE'' apply_GENMAP_DELETE"
  "keeps_arguments ''GENMAP_KEYS'' apply_GENMAP_KEYS"
  "keeps_arguments ''GENMAP_VALUES'' apply_GENMAP_VALUES"
  "keeps_arguments ''GENMAP_SIZE'' apply_GENMAP_SIZE"
  by (simp_all add: keeps_arguments_def builtin_bodies Let_def bind_result_Inr_iff builtin_results
      hydrateValue_no_builtin split: if_splits option.splits)

lemma builtin_table_partial: "list_all (\<lambda>(name, body). keeps_arguments name body) builtin_table"
  by (simp add: builtin_table_def keeps_arguments_comparison keeps_arguments_numeric
      keeps_arguments_text keeps_arguments_map)

lemma partial_application:
  assumes "applyOrThrow f as xs = Inr (VBuiltin g ys)"
  shows "g = f" "ys = as @ xs"
proof -
  obtain body where "map_of builtin_table f = Some body" and b: "body (as @ xs) = Inr (VBuiltin g ys)"
    using assms by (auto simp: applyOrThrow_def split: option.splits)
  then have "(f, body) \<in> set builtin_table" by (simp add: map_of_SomeD)
  then have "g = f \<and> ys = as @ xs"
    using builtin_table_partial b unfolding list_all_iff keeps_arguments_def by fast
  then show "g = f" "ys = as @ xs" by simp_all
qed

section \<open>A contract for finite maps\<close>

locale map_contract =
  fixes inv :: "'m \<Rightarrow> bool"
    and empty :: 'm
    and put :: "'k \<Rightarrow> 'v \<Rightarrow> 'm \<Rightarrow> 'm"
    and remove :: "'k \<Rightarrow> 'm \<Rightarrow> 'm"
    and look :: "'m \<Rightarrow> 'k \<Rightarrow> 'v option"
    and count :: "'m \<Rightarrow> nat"
  assumes inv_empty: "inv empty"
    and inv_put: "inv m \<Longrightarrow> inv (put k v m)"
    and inv_remove: "inv m \<Longrightarrow> inv (remove k m)"
    and look_empty: "look empty k = None"
    and look_put: "inv m \<Longrightarrow> look (put k v m) j = (if j = k then Some v else look m j)"
    and look_remove: "inv m \<Longrightarrow> look (remove k m) j = (if j = k then None else look m j)"
    and count_look: "inv m \<Longrightarrow> finite {k. look m k \<noteq> None} \<and> count m = card {k. look m k \<noteq> None}"
begin

definition put_all :: "('k \<times> 'v) list \<Rightarrow> 'm \<Rightarrow> 'm" where
  "put_all es m = fold (\<lambda>(k, v). put k v) es m"

lemma put_all_simps: "put_all [] m = m" "put_all ((k, v) # es) m = put_all es (put k v m)"
  by (simp_all add: put_all_def)

lemma inv_put_all: "inv m \<Longrightarrow> inv (put_all es m)"
proof (induction es arbitrary: m)
  case (Cons e es)
  then show ?case by (cases e) (simp add: put_all_simps inv_put)
qed (simp add: put_all_simps)

lemma look_put_all: "inv m \<Longrightarrow> look (put_all es m) = look m ++ map_of (rev es)"
proof (induction es arbitrary: m)
  case Nil
  then show ?case by (simp add: put_all_simps)
next
  case (Cons e es)
  obtain k v where e: "e = (k, v)" by (cases e)
  have "look (put k v m) = (look m)(k \<mapsto> v)" using look_put [OF Cons.prems] by (simp add: fun_eq_iff)
  moreover have "look (put_all (e # es) m) = look (put k v m) ++ map_of (rev es)"
    unfolding e put_all_simps by (rule Cons.IH [OF inv_put [OF Cons.prems]])
  ultimately show ?case by (simp add: e)
qed

lemma count_put: "inv m \<Longrightarrow> count (put k v m) = (if look m k = None then Suc (count m) else count m)"
proof -
  assume m: "inv m"
  have "{j. look (put k v m) j \<noteq> None} = insert k {j. look m j \<noteq> None}"
    using look_put [OF m] by auto
  then show ?thesis using count_look [OF m] count_look [OF inv_put [OF m]] by (simp add: card_insert_if)
qed

lemma count_remove: "inv m \<Longrightarrow> count (remove k m) = (if look m k = None then count m else count m - 1)"
proof -
  assume m: "inv m"
  have "{j. look (remove k m) j \<noteq> None} = {j. look m j \<noteq> None} - {k}"
    using look_remove [OF m] by auto
  then show ?thesis using count_look [OF m] count_look [OF inv_remove [OF m]] by simp
qed

end

subsection \<open>Text maps are plain objects\<close>

definition distinct_properties :: "(string \<times> js) list \<Rightarrow> bool" where
  "distinct_properties ps \<longleftrightarrow> distinct (map fst ps)"

lemma count_map_of: "distinct (map fst ps) \<Longrightarrow>
    finite {k. map_of ps k \<noteq> None} \<and> length ps = card {k. map_of ps k \<noteq> None}"
  by (metis distinct_card dom_def dom_map_of_conv_image_fst finite_dom_map_of length_map list.set_map)

lemma count_properties: "distinct_properties ps \<Longrightarrow>
    finite {k. map_of ps k \<noteq> None} \<and> length ps = card {k. map_of ps k \<noteq> None}"
  unfolding distinct_properties_def by (rule count_map_of)

interpretation text_map: map_contract distinct_properties "[]" obj_set obj_delete map_of length
proof
  show "finite {k. map_of ps k \<noteq> None} \<and> length ps = card {k. map_of ps k \<noteq> None}"
    if "distinct_properties ps" for ps :: "(string \<times> js) list"
    using that by (rule count_properties)
qed (auto simp: distinct_properties_def distinct_obj_set distinct_obj_delete)

subsection \<open>Generic maps with text keys are entry lists\<close>

definition text_entry :: "string \<times> js \<Rightarrow> js" where
  "text_entry kv = JObj [(''key'', JStr (fst kv)), (''value'', snd kv)]"

lemma entry_parts [simp]: "entry_key (text_entry kv) = JStr (fst kv)" "entry_value (text_entry kv) = snd kv"
  by (simp_all add: entry_key_def entry_value_def text_entry_def own_properties_def obj_get_def)

lemma key_matches_text [simp]: "key_matches (VText k) (text_entry kv) = Inr (fst kv = k)"
  by (simp add: key_matches_def areEqual_def hydrateValue_def)

lemma retain_text: "retain_entries (VText k) (map text_entry ps)
    = Inr (map text_entry (filter (\<lambda>kv. fst kv \<noteq> k) ps))"
  by (induction ps) simp_all

lemma find_text: "find_entry (VText k) (map text_entry ps)
    = Inr (map_option (\<lambda>v. text_entry (k, v)) (map_of ps k))"
  by (induction ps) auto

lemma insert_text: "insertGenMapEntry (map text_entry ps) (VText k) v
    = Inr (map text_entry (filter (\<lambda>kv. fst kv \<noteq> k) ps @ [(k, unwrapValue v)]))"
  by (simp add: insertGenMapEntry_def retain_text text_entry_def)

definition gen_put :: "string \<Rightarrow> js \<Rightarrow> (string \<times> js) list \<Rightarrow> (string \<times> js) list" where
  "gen_put k v ps = filter (\<lambda>kv. fst kv \<noteq> k) ps @ [(k, v)]"

definition gen_remove :: "string \<Rightarrow> (string \<times> js) list \<Rightarrow> (string \<times> js) list" where
  "gen_remove k ps = filter (\<lambda>kv. fst kv \<noteq> k) ps"

lemma map_of_remove: "map_of (gen_remove k ps) = (map_of ps)(k := None)"
  by (induction ps) (auto simp: gen_remove_def fun_eq_iff)

lemma map_of_put: "map_of (gen_put k v ps) = (map_of ps)(k \<mapsto> v)"
  using map_of_remove [of k ps]
  by (auto simp: gen_put_def gen_remove_def map_add_def fun_eq_iff split: option.splits)

interpretation gen_map: map_contract distinct_properties "[]" gen_put gen_remove map_of length
proof
  show "finite {k. map_of ps k \<noteq> None} \<and> length ps = card {k. map_of ps k \<noteq> None}"
    if "distinct_properties ps" for ps :: "(string \<times> js) list"
    using that by (rule count_properties)
  show "distinct_properties (gen_put k v ps)" "distinct_properties (gen_remove k ps)"
    if "distinct_properties ps" for k v and ps :: "(string \<times> js) list"
    using that by (auto simp: distinct_properties_def gen_put_def gen_remove_def distinct_map_filter)
qed (simp_all add: map_of_put map_of_remove distinct_properties_def)

section \<open>Map builtins\<close>

abbreviation text_map_value :: "(string \<times> js) list \<Rightarrow> rtval" where
  "text_map_value ps \<equiv> VLedger (JObj ps) None"

abbreviation gen_map_value :: "(string \<times> js) list \<Rightarrow> rtval" where
  "gen_map_value ps \<equiv> VLedger (JArr (map text_entry ps)) None"

lemma readTextMap_object [simp]: "readTextMap (text_map_value ps) = Inr ps"
  by (simp add: readTextMap_def is_object_def is_array_def own_properties_def)

lemma readGenMap_entries [simp]: "readGenMap (gen_map_value ps) = Inr (map text_entry ps)"
proof -
  have "map_result check_gen_map_entry (map text_entry ps) = Inr (map (\<lambda>e. e) (map text_entry ps))"
    by (rule map_result_Inr)
      (auto simp: check_gen_map_entry_def text_entry_def is_object_def own_properties_def obj_has_def)
  then show ?thesis by (simp add: readGenMap_def)
qed

lemma builtin_case: "map_of builtin_table f = Some body \<Longrightarrow> applyOrThrow f [] args = body args"
  by (simp add: applyOrThrow_def)

lemma text_map_builtins:
  "applyOrThrow ''TEXTMAP_EMPTY'' [] [] = Inr (text_map_value [])"
  "applyOrThrow ''TEXTMAP_INSERT'' [] [VText k, v, text_map_value ps]
     = Inr (text_map_value (obj_set k (unwrapValue v) ps))"
  "applyOrThrow ''TEXTMAP_LOOKUP'' [] [VText k, text_map_value ps] = Inr (hydrateValue (obj_get ps k))"
  "applyOrThrow ''TEXTMAP_DELETE'' [] [VText k, text_map_value ps] = Inr (text_map_value (obj_delete k ps))"
  "applyOrThrow ''TEXTMAP_SIZE'' [] [text_map_value ps] = Inr (VInt64 (string_of_int (int (length ps))))"
  by (simp_all add: applyOrThrow_def builtin_table_def apply_TEXTMAP_EMPTY_def apply_TEXTMAP_INSERT_def
      apply_TEXTMAP_LOOKUP_def apply_TEXTMAP_DELETE_def apply_TEXTMAP_SIZE_def int64_result_def
      hydrateValue_def)

lemma gen_map_builtins:
  "applyOrThrow ''GENMAP_EMPTY'' [] [] = Inr (gen_map_value [])"
  "applyOrThrow ''GENMAP_INSERT'' [] [VText k, v, gen_map_value ps]
     = Inr (gen_map_value (gen_put k (unwrapValue v) ps))"
  "applyOrThrow ''GENMAP_LOOKUP'' [] [VText k, gen_map_value ps]
     = Inr (case map_of ps k of None \<Rightarrow> VUnit | Some v \<Rightarrow> hydrateValue v)"
  "applyOrThrow ''GENMAP_DELETE'' [] [VText k, gen_map_value ps] = Inr (gen_map_value (gen_remove k ps))"
  "applyOrThrow ''GENMAP_SIZE'' [] [gen_map_value ps] = Inr (VInt64 (string_of_int (int (length ps))))"
  by (simp_all add: applyOrThrow_def builtin_table_def apply_GENMAP_EMPTY_def apply_GENMAP_INSERT_def
      apply_GENMAP_LOOKUP_def apply_GENMAP_DELETE_def apply_GENMAP_SIZE_def int64_result_def
      insert_text find_text retain_text gen_put_def gen_remove_def split: option.splits)

text \<open>An absent key that every object inherits from its prototype seems to be in the map.\<close>

lemma text_map_absent:
  "applyOrThrow ''TEXTMAP_LOOKUP'' [] [VText k, text_map_value []] =
     Inr (if k \<in> set object_prototype then hydrateValue (JProto k) else VUnit)"
  by (simp add: text_map_builtins obj_get_def hydrateValue_def)

end
