(* ===== verification/Compilation_Laws.thy ===== *)
theory Compilation_Laws
  imports Compilation
begin

text \<open>
  What the indexes of a compilation contain, and when a workspace compiles. The specification is
  the flat list of the workspace's definitions with the package and module they stand in.
\<close>

section \<open>The definitions of a workspace\<close>

definition definitions_of :: "dlf_package list \<Rightarrow> (string \<times> string \<times> dlf_definition) list" where
  "definitions_of ws =
     concat (map (\<lambda>p. concat (map (\<lambda>m. map (\<lambda>d. (pkg_packageId p, mod_name m, d)) (mod_definitions m))
       (pkg_modules p))) ws)"

fun type_entries :: "(string \<times> string \<times> dlf_definition) list \<Rightarrow> (string \<times> type_symbol) list" where
  "type_entries [] = []"
| "type_entries ((p, m, DataTypeDefinition dt) # ds) =
     (createTypeKey p m (dt_name dt), \<lparr>ts_name = dt_name dt, ts_definition = dt\<rparr>) # type_entries ds"
| "type_entries ((p, m, d) # ds) = type_entries ds"

fun value_entries :: "(string \<times> string \<times> dlf_definition) list \<Rightarrow> (string \<times> value_def) list" where
  "value_entries [] = []"
| "value_entries ((p, m, ValueDefinition vd) # ds) =
     (createDefinitionKey p m (vd_name vd), vd) # value_entries ds"
| "value_entries ((p, m, d) # ds) = value_entries ds"

fun identity_entries :: "(string \<times> string \<times> dlf_definition) list \<Rightarrow> (nat \<times> value_identity) list" where
  "identity_entries [] = []"
| "identity_entries ((p, m, ValueDefinition vd) # ds) =
     (vd_ref vd, \<lparr>vi_packageId = p, vi_moduleName = m, vi_definitionName = vd_name vd\<rparr>)
       # identity_entries ds"
| "identity_entries ((p, m, d) # ds) = identity_entries ds"

lemma entries_append [simp]:
  "type_entries (xs @ ys) = type_entries xs @ type_entries ys"
  "value_entries (xs @ ys) = value_entries xs @ value_entries ys"
  "identity_entries (xs @ ys) = identity_entries xs @ identity_entries ys"
  by (induction xs rule: type_entries.induct; simp)+

section \<open>Indexing adds the entries of every definition\<close>

lemma index_definitions:
  "typeSymbols (fold (index_definition p m) ds c)
     = update_all (type_entries (map (\<lambda>d. (p, m, d)) ds)) (typeSymbols c)"
  "valueDefinitions (fold (index_definition p m) ds c)
     = update_all (value_entries (map (\<lambda>d. (p, m, d)) ds)) (valueDefinitions c)"
  "valueDefinitionIdentities (fold (index_definition p m) ds c)
     = update_all (identity_entries (map (\<lambda>d. (p, m, d)) ds)) (valueDefinitionIdentities c)"
  "workspace (fold (index_definition p m) ds c) = workspace c"
  by (induction ds arbitrary: c)
    (auto simp: index_definition_def split: dlf_definition.splits)

definition module_definitions :: "string \<Rightarrow> dlf_module \<Rightarrow> (string \<times> string \<times> dlf_definition) list" where
  "module_definitions p m = map (\<lambda>d. (p, mod_name m, d)) (mod_definitions m)"

definition package_definitions :: "dlf_package \<Rightarrow> (string \<times> string \<times> dlf_definition) list" where
  "package_definitions p = concat (map (module_definitions (pkg_packageId p)) (pkg_modules p))"

lemma definitions_of_packages: "definitions_of ws = concat (map package_definitions ws)"
  by (simp add: definitions_of_def package_definitions_def [abs_def] module_definitions_def [abs_def])

lemma index_modules:
  "typeSymbols (fold (index_module p) ms c)
     = update_all (type_entries (concat (map (module_definitions p) ms))) (typeSymbols c)"
  "valueDefinitions (fold (index_module p) ms c)
     = update_all (value_entries (concat (map (module_definitions p) ms))) (valueDefinitions c)"
  "valueDefinitionIdentities (fold (index_module p) ms c)
     = update_all (identity_entries (concat (map (module_definitions p) ms)))
         (valueDefinitionIdentities c)"
  "workspace (fold (index_module p) ms c) = workspace c"
  by (induction ms arbitrary: c)
    (simp_all add: index_module_def module_definitions_def index_definitions)

lemma index_packages:
  "typeSymbols (fold index_package ps c)
     = update_all (type_entries (concat (map package_definitions ps))) (typeSymbols c)"
  "valueDefinitions (fold index_package ps c)
     = update_all (value_entries (concat (map package_definitions ps))) (valueDefinitions c)"
  "valueDefinitionIdentities (fold index_package ps c)
     = update_all (identity_entries (concat (map package_definitions ps)))
         (valueDefinitionIdentities c)"
  "workspace (fold index_package ps c) = workspace c"
  by (induction ps arbitrary: c)
    (simp_all add: index_package_def package_definitions_def index_modules)

abbreviation indexed :: "dlf_package list \<Rightarrow> compilation" where
  "indexed ws \<equiv> buildIndexes (new_compilation ws)"

lemma indexed_maps:
  "typeSymbols (indexed ws) = update_all (type_entries (definitions_of ws)) []"
  "valueDefinitions (indexed ws) = update_all (value_entries (definitions_of ws)) []"
  "valueDefinitionIdentities (indexed ws) = update_all (identity_entries (definitions_of ws)) []"
  "workspace (indexed ws) = ws"
  by (simp_all add: buildIndexes_def new_compilation_def index_packages definitions_of_packages)

lemma indexed_lookup:
  "map_of (typeSymbols (indexed ws)) k = map_of (rev (type_entries (definitions_of ws))) k"
  "map_of (valueDefinitions (indexed ws)) k = map_of (rev (value_entries (definitions_of ws))) k"
  "map_of (valueDefinitionIdentities (indexed ws)) r
     = map_of (rev (identity_entries (definitions_of ws))) r"
  by (simp_all add: indexed_maps map_of_update_all)

lemma type_entries_in:
  "(k, s) \<in> set (type_entries ds) \<longleftrightarrow>
     (\<exists>p m dt. (p, m, DataTypeDefinition dt) \<in> set ds \<and> k = createTypeKey p m (dt_name dt)
       \<and> s = \<lparr>ts_name = dt_name dt, ts_definition = dt\<rparr>)"
  by (induction ds rule: type_entries.induct) auto

lemma value_entries_in:
  "(k, vd) \<in> set (value_entries ds) \<longleftrightarrow>
     (\<exists>p m. (p, m, ValueDefinition vd) \<in> set ds \<and> k = createDefinitionKey p m (vd_name vd))"
  by (induction ds rule: value_entries.induct) auto

lemma identity_entries_in:
  "(r, i) \<in> set (identity_entries ds) \<longleftrightarrow>
     (\<exists>p m vd. (p, m, ValueDefinition vd) \<in> set ds \<and> r = vd_ref vd
       \<and> i = \<lparr>vi_packageId = p, vi_moduleName = m, vi_definitionName = vd_name vd\<rparr>)"
  by (induction ds rule: identity_entries.induct) auto

section \<open>Keys\<close>

text \<open>A key determines its parts when no name contains a colon.\<close>

definition colon_free :: "string \<Rightarrow> bool" where
  "colon_free s \<longleftrightarrow> CHR '':'' \<notin> set s"

lemma split_at_colon:
  "colon_free a \<Longrightarrow> colon_free b \<Longrightarrow> a @ CHR '':'' # x = b @ CHR '':'' # y \<Longrightarrow> a = b \<and> x = y"
proof (induction a arbitrary: b)
  case Nil
  then show ?case by (cases b) (auto simp: colon_free_def)
next
  case (Cons c a)
  then show ?case by (cases b) (auto simp: colon_free_def)
qed

lemma createTypeKey_inject:
  assumes "colon_free p" "colon_free m" "colon_free p'" "colon_free m'"
  shows "createTypeKey p m n = createTypeKey p' m' n' \<longleftrightarrow> p = p' \<and> m = m' \<and> n = n'"
proof
  assume "createTypeKey p m n = createTypeKey p' m' n'"
  then have "p @ CHR '':'' # CHR '':'' # m @ ''::'' @ n = p' @ CHR '':'' # CHR '':'' # m' @ ''::'' @ n'"
    by (simp add: createTypeKey_def)
  then have "p = p'" and r: "CHR '':'' # m @ ''::'' @ n = CHR '':'' # m' @ ''::'' @ n'"
    using split_at_colon [OF assms(1,3)] by blast+
  from r have "m @ CHR '':'' # CHR '':'' # n = m' @ CHR '':'' # CHR '':'' # n'" by simp
  then have "m = m'" and "CHR '':'' # n = CHR '':'' # n'"
    using split_at_colon [OF assms(2,4)] by blast+
  then show "p = p' \<and> m = m' \<and> n = n'" using \<open>p = p'\<close> by simp
qed simp

lemma createDefinitionKey_inject:
  assumes "colon_free p" "colon_free m" "colon_free p'" "colon_free m'"
  shows "createDefinitionKey p m n = createDefinitionKey p' m' n' \<longleftrightarrow> p = p' \<and> m = m' \<and> n = n'"
  using createTypeKey_inject [OF assms] by (simp add: createTypeKey_def createDefinitionKey_def)

section \<open>Which workspaces compile\<close>

text \<open>A constructor a type refers to: the compiler does not look below a contract id.\<close>

inductive refers_to :: "dlf_type \<Rightarrow> type_con_ref \<Rightarrow> bool" where
  head: "b \<noteq> BtContractId \<Longrightarrow> refers_to (DlfType b (Some r) args) r"
| argument: "b \<noteq> BtContractId \<Longrightarrow> t \<in> set args \<Longrightarrow> refers_to t r
    \<Longrightarrow> refers_to (DlfType b c args) r"

inductive_simps refers_to_simps: "refers_to (DlfType b c args) r"

inductive contract_id_part :: "dlf_type \<Rightarrow> dlf_type list \<Rightarrow> bool" where
  here: "contract_id_part (DlfType BtContractId c args) args"
| below: "b \<noteq> BtContractId \<Longrightarrow> t \<in> set args \<Longrightarrow> contract_id_part t as
    \<Longrightarrow> contract_id_part (DlfType b c args) as"

inductive_simps contract_id_part_simps: "contract_id_part (DlfType b c args) as"

definition resolves :: "compilation \<Rightarrow> type_con_ref \<Rightarrow> bool" where
  "resolves c r \<longleftrightarrow> (\<exists>s. getTypeSymbolOrThrow c r = Inr s)"

definition well_formed_type :: "compilation \<Rightarrow> dlf_type \<Rightarrow> bool" where
  "well_formed_type c t \<longleftrightarrow>
     (\<forall>r. refers_to t r \<longrightarrow> resolves c r) \<and> (\<forall>as. contract_id_part t as \<longrightarrow> length as = 1)"

lemma validateTypeOrThrow_iff: "validateTypeOrThrow c t = Inr () \<longleftrightarrow> well_formed_type c t"
proof (induction t)
  case (DlfType b r args)
  have ref: "(case r of None \<Rightarrow> Inr ()
      | Some ref \<Rightarrow> bind_result (getTypeSymbolOrThrow c ref) (\<lambda>_. Inr ())) = Inr ()
      \<longleftrightarrow> (\<forall>x. r = Some x \<longrightarrow> resolves c x)"
    by (auto simp: resolves_def bind_result_Inr_iff split: option.splits)
  show ?case
  proof (cases "b = BtContractId")
    case True
    then show ?thesis by (auto simp: well_formed_type_def refers_to_simps contract_id_part_simps)
  next
    case False
    have "validateTypeOrThrow c (DlfType b r args) = Inr () \<longleftrightarrow>
        (\<forall>t \<in> set args. well_formed_type c t) \<and> (\<forall>x. r = Some x \<longrightarrow> resolves c x)"
      using False DlfType.IH by (auto simp: bind_result_Inr_iff each_result_Inr_iff ref)
    then show ?thesis
      using False by (auto simp: well_formed_type_def refers_to_simps contract_id_part_simps)
  qed
qed

fun definition_types :: "dlf_definition \<Rightarrow> dlf_type list" where
  "definition_types (ValueDefinition vd) = [vd_type vd]"
| "definition_types (DataTypeDefinition dt) =
     (case dt_definition dt of
        DefRecord fs \<Rightarrow> map field_type fs | DefVariant cs \<Rightarrow> map snd cs | DefEnum _ \<Rightarrow> [])"
| "definition_types (TemplateDefinition tp) =
     map field_type (tp_fields tp)
       @ concat (map (\<lambda>ch. [ch_parameterType ch, ch_returnType ch]) (tp_choices tp))"

definition well_formed_definition :: "compilation \<Rightarrow> dlf_definition \<Rightarrow> bool" where
  "well_formed_definition c d \<longleftrightarrow>
     (\<forall>t \<in> set (definition_types d). well_formed_type c t) \<and>
     (\<forall>tp. d = TemplateDefinition tp \<longrightarrow> resolves c (toTypeConReference (tp_templateId tp)))"

lemma validate_definition_iff:
  "validate_definition c d = Inr () \<longleftrightarrow> well_formed_definition c d"
proof (cases d)
  case (TemplateDefinition tp)
  then show ?thesis
    by (auto simp: validate_definition_def validate_template_def well_formed_definition_def
        bind_result_Inr_iff each_result_Inr_iff validateTypeOrThrow_iff resolves_def)
qed (auto simp: validate_definition_def validateDataTypeOrThrow_def well_formed_definition_def
      each_result_Inr_iff validateTypeOrThrow_iff split: data_type_def.splits)

lemma validateReferencesOrThrow_iff:
  "validateReferencesOrThrow c = Inr () \<longleftrightarrow>
     (\<forall>(p, m, d) \<in> set (definitions_of (workspace c)). well_formed_definition c d)"
  by (auto simp: validateReferencesOrThrow_def each_result_Inr_iff validate_definition_iff
      definitions_of_def)

lemma createOrThrow_iff:
  "createOrThrow ws = Inr c \<longleftrightarrow>
     c = indexed ws \<and> (\<forall>(p, m, d) \<in> set (definitions_of ws). well_formed_definition c d)"
  by (auto simp: createOrThrow_def Let_def bind_result_Inr_iff validateReferencesOrThrow_iff
      indexed_maps)

lemma resolves_indexed:
  "resolves (indexed ws) r \<longleftrightarrow>
     (\<exists>p m dt. (p, m, DataTypeDefinition dt) \<in> set (definitions_of ws) \<and>
        createTypeKey p m (dt_name dt)
          = createTypeKey (tcr_packageId r) (tcr_moduleName r) (tcr_name r))"
proof -
  let ?k = "createTypeKey (tcr_packageId r) (tcr_moduleName r) (tcr_name r)"
  have "resolves (indexed ws) r \<longleftrightarrow> map_of (rev (type_entries (definitions_of ws))) ?k \<noteq> None"
    by (auto simp: resolves_def getTypeSymbolOrThrow_def indexed_lookup split: option.splits)
  also have "\<dots> \<longleftrightarrow> (\<exists>s. (?k, s) \<in> set (type_entries (definitions_of ws)))"
    by (force simp: map_of_eq_None_iff)
  also have "\<dots> \<longleftrightarrow> (\<exists>p m dt. (p, m, DataTypeDefinition dt) \<in> set (definitions_of ws) \<and>
      createTypeKey p m (dt_name dt) = ?k)"
    by (simp add: type_entries_in) metis
  finally show ?thesis .
qed

section \<open>Value definitions and their identity\<close>

definition distinct_refs :: "dlf_package list \<Rightarrow> bool" where
  "distinct_refs ws \<longleftrightarrow> distinct (map fst (identity_entries (definitions_of ws)))"

definition colon_free_names :: "dlf_package list \<Rightarrow> bool" where
  "colon_free_names ws \<longleftrightarrow> (\<forall>(p, m, d) \<in> set (definitions_of ws). colon_free p \<and> colon_free m)"

lemma found_value_definition:
  "getValueDefinitionOrThrow (indexed ws) p m n = Inr d \<Longrightarrow>
     \<exists>p' m'. (p', m', ValueDefinition d) \<in> set (definitions_of ws)
       \<and> createDefinitionKey p' m' (vd_name d) = createDefinitionKey p m n"
  by (simp add: getValueDefinitionOrThrow_def indexed_lookup split: option.splits)
    (metis map_of_SomeD set_rev value_entries_in)

lemma identity_of_definition:
  assumes "distinct_refs ws" "(p, m, ValueDefinition d) \<in> set (definitions_of ws)"
  shows "getValueDefinitionIdentityOrThrow (indexed ws) d
    = Inr \<lparr>vi_packageId = p, vi_moduleName = m, vi_definitionName = vd_name d\<rparr>"
proof -
  have "(vd_ref d, \<lparr>vi_packageId = p, vi_moduleName = m, vi_definitionName = vd_name d\<rparr>)
      \<in> set (rev (identity_entries (definitions_of ws)))"
    using assms(2) by (auto simp: identity_entries_in)
  moreover have "distinct (map fst (rev (identity_entries (definitions_of ws))))"
    using assms(1) by (simp add: distinct_refs_def rev_map [symmetric])
  ultimately show ?thesis
    by (simp add: getValueDefinitionIdentityOrThrow_def indexed_lookup map_of_is_SomeI)
qed

lemma identity_of_found:
  assumes "getValueDefinitionOrThrow (indexed ws) p m n = Inr d" "distinct_refs ws"
    "colon_free_names ws" "colon_free p" "colon_free m"
  shows "getValueDefinitionIdentityOrThrow (indexed ws) d
    = Inr \<lparr>vi_packageId = p, vi_moduleName = m, vi_definitionName = n\<rparr>"
proof -
  obtain p' m' where d: "(p', m', ValueDefinition d) \<in> set (definitions_of ws)"
    and k: "createDefinitionKey p' m' (vd_name d) = createDefinitionKey p m n"
    using found_value_definition [OF assms(1)] by blast
  have "colon_free p'" "colon_free m'" using d assms(3) by (auto simp: colon_free_names_def)
  then have "p' = p \<and> m' = m \<and> vd_name d = n"
    using k assms(4,5) by (simp add: createDefinitionKey_inject)
  then show ?thesis using identity_of_definition [OF assms(2) d] by simp
qed

end
