(* ===== verification/Evaluator_Behaviour.thy ===== *)
theory Evaluator_Behaviour
  imports Evaluator_Trace Builtin_Laws Compilation_Laws
begin

text \<open>
  What the evaluator computes: application of closures under lexical scoping, catching of thrown
  values, folds, contracts created and fetched in one replay, the frame of a referenced value, and
  payloads in the field order of their type.
\<close>

section \<open>Evaluation without a sink\<close>

lemma onStep_untraced: "st_trace s = None \<Longrightarrow> onStep kd e fr v eff s = (Ok (), s)"
  by (simp add: onStep_def modify_def)

lemma untraced_stays:
  assumes "quiet m" "m s = (r, s')" "st_trace s = None"
  shows "st_trace s' = None"
proof -
  have "without_trace s = s" using assms(3) by simp
  then have "without_trace s' = s'" using quietD [OF assms(1,2)] assms(2) by simp
  then show ?thesis by (metis evaluator_state.select_convs(4) evaluator_state.surjective evaluator_state.update_convs(4))
qed

lemma quiet_resolved:
  "quiet (resolveExpressionValue c (evaluateExpression c n) (applyFunction c n) e fr)"
  by (rule quiet_depth.quiet_resolve)

lemma evaluate_untraced:
  assumes "st_trace s = None"
  shows "evaluateExpression c (Suc n) e fr s
    = resolveExpressionValue c (evaluateExpression c n) (applyFunction c n) e fr s"
proof -
  obtain r s' where m: "resolveExpressionValue c (evaluateExpression c n) (applyFunction c n) e fr s = (r, s')"
    by (cases "resolveExpressionValue c (evaluateExpression c n) (applyFunction c n) e fr s")
  then have "st_trace s' = None" using untraced_stays [OF quiet_resolved] assms by blast
  then show ?thesis
    using assms m by (cases r) (simp_all add: evaluateExpressionOrThrow_def and_then_def onStep_untraced ret_def)
qed

section \<open>Lexical scoping\<close>

lemma bind_names_run:
  "bind_names fr bs s
     = (Ok (), s\<lparr>st_store := scopes.bind_all (fr_scope fr) bs (st_store s)\<rparr>)"
proof (induction bs arbitrary: s)
  case Nil
  then show ?case by (simp add: ret_def scopes.bind_all_def)
next
  case (Cons b bs)
  then show ?case
    by (cases b) (simp add: and_then_def bind_name_def modify_def scopes.bind_all_def)
qed

lemma child_frame_run:
  "child_frame fr s = (Ok (deriveFrame fr (fst (createChild (fr_scope fr) (st_store s)))),
     s\<lparr>st_store := snd (createChild (fr_scope fr) (st_store s))\<rparr>)"
  by (simp add: child_frame_def split_beta)

definition scoped_state :: "frame \<Rightarrow> (string \<times> rtval) list \<Rightarrow> evaluator_state \<Rightarrow> evaluator_state" where
  "scoped_state fr bs s =
     (let (a, h) = createChild (fr_scope fr) (st_store s) in
      s\<lparr>st_store := scopes.bind_all a bs h\<rparr>)"

definition scoped_frame :: "frame \<Rightarrow> evaluator_state \<Rightarrow> frame" where
  "scoped_frame fr s = deriveFrame fr (fst (createChild (fr_scope fr) (st_store s)))"

lemma open_scope:
  "and_then (child_frame fr) (\<lambda>f. and_then (bind_names f bs) (\<lambda>_. m f)) s
     = m (scoped_frame fr s) (scoped_state fr bs s)"
  by (simp add: and_then_def child_frame_run bind_names_run scoped_frame_def scoped_state_def
      split_beta deriveFrame_def)

text \<open>In the new scope the bound names are found first, then what the outer frame sees.\<close>

lemma scoped_lookup:
  assumes "good s" "fr_scope fr < store_size s"
  shows "getBinding (st_store (scoped_state fr bs s)) (fr_scope (scoped_frame fr s)) name
    = (case map_of (rev bs) name of
         Some v \<Rightarrow> Some v
       | None \<Rightarrow> getBinding (st_store s) (fr_scope fr) name)"
  using scopes.get_scoped [of "st_store s" "fr_scope fr" bs name] assms
  by (simp add: scoped_state_def scoped_frame_def deriveFrame_def split_beta good_def store_size_def
      in_store_def)

lemma closure_application:
  assumes "length args = length ps"
  shows "applyFunction c (Suc n) (VClosure ps body fr) args s
    = evaluateExpression c n body (scoped_frame fr s) (scoped_state fr (zip ps args) s)"
  using assms
  by (simp add: applyFunctionOrThrow_def apply_closure_def open_scope)

lemma closure_partial_application:
  assumes "length args < length ps"
  shows "applyFunction c (Suc n) (VClosure ps body fr) args s
    = (Ok (VClosure (drop (length args) ps) body (scoped_frame fr s)),
       scoped_state fr (zip ps args) s)"
  using assms
  by (simp add: applyFunctionOrThrow_def apply_closure_def open_scope) (simp add: ret_def)

section \<open>Thrown values\<close>

lemma try_catch_run:
  assumes "st_trace s = None"
    and body: "evaluateExpression c n b fr s = (r, s1)"
  shows "evaluateExpression c (Suc n) (EUpdate (UTryCatch (Some b) name (Some handler))) fr s =
    (case r of
       Thrown v \<Rightarrow>
         evaluateExpression c n handler (scoped_frame fr s1)
           (scoped_state fr (optional_binding name v) s1)
     | _ \<Rightarrow> (r, s1))"
proof -
  have "evaluateExpression c (Suc n) (EUpdate (UTryCatch (Some b) name (Some handler))) fr s
      = evaluate_try_catch (evaluateExpression c n) (Some b) name (Some handler) fr s"
    unfolding evaluate_untraced [OF assms(1)]
    by (simp add: resolveExpressionValue_def evaluateUpdateExpressionOrThrow_def)
  then show ?thesis
    using body by (cases r) (simp_all add: evaluate_try_catch_def catch_thrown_def or_empty_def open_scope)
qed

lemma throw_run:
  assumes "st_trace s = None" and "evaluateExpression c n e fr s = (Ok v, s1)"
  shows "evaluateExpression c (Suc n) (EThrow e) fr s = (Thrown v, s1)"
  unfolding evaluate_untraced [OF assms(1)]
  using assms(2) by (simp add: resolveExpressionValue_def evaluate_throw_def and_then_def throw_def)

section \<open>Folds\<close>

text \<open>
  The folds over a list of integers, with a function that is not commutative: \<open>FOLDL\<close> subtracts the
  items from the left, \<open>FOLDR\<close> nests them to the right.
\<close>

abbreviation int64_list :: "int list \<Rightarrow> rtval" where
  "int64_list xs \<equiv> VLedger (JArr (map (\<lambda>i. JStr (string_of_int i)) xs)) None"

lemma readRuntimeList_int64:
  "readRuntimeListOrThrow (int64_list xs) = Inr (map (\<lambda>i. VText (string_of_int i)) xs)"
proof -
  have "hydrateRuntimeValue (JStr s) None = VText s" for s
    by (simp add: hydrateRuntimeValue_def is_nullish_def readEmbeddedContractId_def read_own_string_def
        own_properties_def read_sum_def obj_get_def readEmbeddedContractIdArray_def readEmbeddedParty_def
        object_prototype_def)
  then show ?thesis by (simp add: comp_def)
qed

lemma sub_int64_step:
  assumes "readInt64 v = Inr a" "kind_of v \<noteq> ''unit''" "readInt64 w = Inr b" "kind_of w \<noteq> ''unit''"
  shows "and_then (applyFunction c (Suc n) (VBuiltin ''SUB_INT64'' []) [v])
      (\<lambda>h. applyFunction c (Suc n) h [w]) = ret (VInt64 (string_of_int (a - b)))"
  using assms
  by (simp add: applyFunctionOrThrow_def applyOrThrow_def builtin_table_def apply_SUB_INT64_def
      nonUnitArguments_def partial_def int64_result_def)

lemma foldl_sub_int64:
  "applyFunction c (Suc (Suc n)) (VBuiltin ''FOLDL'' [])
      [VBuiltin ''SUB_INT64'' [], VInt64 (string_of_int z), int64_list xs]
    = ret (VInt64 (string_of_int (foldl (-) z xs)))"
proof -
  let ?step = "\<lambda>x a. and_then (applyFunction c (Suc n) (VBuiltin ''SUB_INT64'' []) [a])
    (\<lambda>h. applyFunction c (Suc n) h [x])"
  have "fold_m ?step (map (\<lambda>i. VText (string_of_int i)) xs) (VInt64 (string_of_int z))
      = ret (VInt64 (string_of_int (foldl (-) z xs)))"
  proof (induction xs arbitrary: z)
    case (Cons x xs)
    then show ?case by (simp add: sub_int64_step kind_of_def del: applyFunction.simps)
  qed simp
  then show ?thesis
    by (simp add: applyFunctionOrThrow_def applyFoldlBuiltinOrThrow_def readRuntimeList_int64
        del: readRuntimeListOrThrow.simps)
qed

lemma foldr_sub_int64:
  "applyFunction c (Suc (Suc n)) (VBuiltin ''FOLDR'' [])
      [VBuiltin ''SUB_INT64'' [], VInt64 (string_of_int z), int64_list xs]
    = ret (VInt64 (string_of_int (foldr (-) xs z)))"
proof -
  let ?step = "\<lambda>x a. and_then (applyFunction c (Suc n) (VBuiltin ''SUB_INT64'' []) [x])
    (\<lambda>h. applyFunction c (Suc n) h [a])"
  have "fold_m ?step (map (\<lambda>i. VText (string_of_int i)) ys) (VInt64 (string_of_int z))
      = ret (VInt64 (string_of_int (fold (-) ys z)))" for ys
  proof (induction ys arbitrary: z)
    case (Cons x ys)
    then show ?case by (simp add: sub_int64_step kind_of_def del: applyFunction.simps)
  qed simp
  from this [of "rev xs"] show ?thesis
    by (simp add: applyFunctionOrThrow_def applyFoldrBuiltinOrThrow_def readRuntimeList_int64
        foldr_conv_fold rev_map del: readRuntimeListOrThrow.simps)
qed

section \<open>Contracts\<close>

lemma and_then_Ok_obtain:
  assumes "and_then m f s = (Ok y, s')"
  obtains x s1 where "m s = (Ok x, s1)" "f x s1 = (Ok y, s')"
  using assms by (auto simp: and_then_Ok)

definition created_payload :: "compilation \<Rightarrow> template_id option \<Rightarrow> rtval \<Rightarrow> js" where
  "created_payload c t v = normalizeSemanticRecordValue c (unwrapRuntimeValue v) (payload_type t)"

text \<open>A create in a replay: its id, its effect, and the contract it leaves behind.\<close>

lemma create_run:
  assumes s: "st_trace s = None"
    and arg: "evaluateExpression c n arg fr s = (Ok v, s1)"
    and ctx: "st_activeReplayContext s1 = Some ctx"
  shows "evaluateExpression c (Suc n) (EUpdate (UCreate t (Some arg))) fr s =
    (Ok (VContractId (next_contract_id s1)),
     s1\<lparr>st_activeReplayContext := Some (ctx
       \<lparr>rc_nextSyntheticContractIdNumber := Suc (rc_nextSyntheticContractIdNumber ctx),
        rc_nextObservedCreateIndex := Suc (rc_nextObservedCreateIndex ctx),
        rc_createdContracts := AList.update (next_contract_id s1)
          \<lparr>ct_payload = created_payload c t v, ct_templateId = toReplayTemplateId t\<rparr>
          (rc_createdContracts ctx),
        rc_effects := rc_effects ctx
          @ [create_effect (next_contract_id s1) t (created_payload c t v)]\<rparr>)\<rparr>)"
proof -
  have q: "quiet (evaluateExpression c n arg fr)" by (rule quiet_depth.ev)
  have s1: "st_trace s1 = None" using untraced_stays [OF q arg s] .
  show ?thesis
    unfolding evaluate_untraced [OF s]
    using arg ctx s1
    by (simp add: resolveExpressionValue_def evaluateUpdateExpressionOrThrow_def evaluate_create_def
        or_empty_def and_then_def gets_def record_create_def modify_def emitReplayEffect_def
        push_effect_def onStep_def ret_def created_payload_def Let_def)
qed

lemma fetch_run:
  assumes s: "st_trace s = None" and ctx: "st_activeReplayContext s = Some ctx"
    and id: "evaluateExpression c n e fr s = (Ok (VContractId cid), s)"
  shows "evaluateExpression c (Suc n) (EUpdate (UFetch t (Some e))) fr s =
    (Ok (hydrateRuntimeValue (resolved_payload s cid) None),
     s\<lparr>st_activeReplayContext := Some (ctx
       \<lparr>rc_effects := rc_effects ctx @ [fetch_effect cid (toReplayTemplateId t)]\<rparr>)\<rparr>)"
  unfolding evaluate_untraced [OF s]
  using id ctx s
  by (simp add: resolveExpressionValue_def evaluateUpdateExpressionOrThrow_def evaluate_fetch_def
      evaluate_contract_id_def or_empty_def and_then_def gets_def modify_def emitReplayEffect_def
      push_effect_def onStep_def ret_def)

lemma variable_run:
  "st_trace s = None \<Longrightarrow> getBinding (st_store s) (fr_scope fr) x = Some v \<Longrightarrow>
     evaluateExpression c (Suc n) (EVariable x) fr s = (Ok v, s)"
  by (simp only: evaluate_untraced) (simp add: resolveExpressionValue_def evaluate_variable_def)

lemma create_then_fetch:
  assumes s: "st_trace s = None"
    and arg: "evaluateExpression c n arg fr s = (Ok v, s1)"
    and ctx: "st_activeReplayContext s1 = Some ctx"
    and payload: "\<not> is_nullish (created_payload c t v)"
    and create: "evaluateExpression c (Suc n) (EUpdate (UCreate t (Some arg))) fr s = (Ok w, s2)"
    and bound: "getBinding (st_store s2) (fr_scope fr2) x = Some w"
  shows "\<exists>s3. evaluateExpression c (Suc (Suc k)) (EUpdate (UFetch t2 (Some (EVariable x)))) fr2 s2 =
      (Ok (hydrateRuntimeValue (created_payload c t v) None), s3)
    \<and> effects_of s3 = effects_of s1
        @ [create_effect (next_contract_id s1) t (created_payload c t v),
           fetch_effect (next_contract_id s1) (toReplayTemplateId t2)]"
proof -
  note run = create_run [OF s arg ctx, of t]
  have w: "w = VContractId (next_contract_id s1)" and s2: "s2 = s1\<lparr>st_activeReplayContext := Some (ctx
       \<lparr>rc_nextSyntheticContractIdNumber := Suc (rc_nextSyntheticContractIdNumber ctx),
        rc_nextObservedCreateIndex := Suc (rc_nextObservedCreateIndex ctx),
        rc_createdContracts := AList.update (next_contract_id s1)
          \<lparr>ct_payload = created_payload c t v, ct_templateId = toReplayTemplateId t\<rparr>
          (rc_createdContracts ctx),
        rc_effects := rc_effects ctx
          @ [create_effect (next_contract_id s1) t (created_payload c t v)]\<rparr>)\<rparr>"
    using run create by simp_all
  have q: "quiet (evaluateExpression c n arg fr)" by (rule quiet_depth.ev)
  have tr: "st_trace s2 = None" using untraced_stays [OF q arg s] by (simp add: s2)
  have pay: "resolved_payload s2 (next_contract_id s1) = created_payload c t v"
    using payload by (simp add: s2 resolved_payload_def createdContract_def payload_of_def
        update_conv' Let_def)
  obtain ctx2 where ctx2: "st_activeReplayContext s2 = Some ctx2"
    "rc_effects ctx2 = rc_effects ctx
       @ [create_effect (next_contract_id s1) t (created_payload c t v)]"
    by (simp add: s2)
  have var: "evaluateExpression c (Suc k) (EVariable x) fr2 s2 = (Ok (VContractId (next_contract_id s1)), s2)"
    using variable_run [OF tr] bound w by simp
  note fetched = fetch_run [OF tr ctx2(1) var, of t2]
  show ?thesis
    using fetched ctx ctx2(2) by (simp add: pay effects_of_def)
qed

section \<open>References\<close>

text \<open>In a compiled workspace a call of a value runs in a frame of the module it was found in.\<close>

lemma reference_frame:
  assumes "createOrThrow ws = Inr c" "distinct_refs ws" "colon_free_names ws"
    "colon_free p" "colon_free m" "getValueDefinitionOrThrow c p m name = Inr d"
  shows "createFrame c d None s =
    (Ok \<lparr>fr_frameId = ''frame-'' @ digits_of_nat (st_nextFrameNumber s), fr_packageId = p,
         fr_moduleName = m, fr_definition = d, fr_scope = store_size s\<rparr>,
     s\<lparr>st_store := snd (new_scope None (st_store s)),
       st_nextFrameNumber := Suc (st_nextFrameNumber s)\<rparr>)"
proof -
  have c: "c = indexed ws" using assms(1) by (simp add: createOrThrow_iff)
  show ?thesis using identity_of_found [of ws p m name d] assms by (simp add: c createFrame_run)
qed

end
