(* ===== verification/Payload_Laws.thy ===== *)
theory Payload_Laws
  imports Evaluator_Values Decimal_Laws
begin

text \<open>
  Ledger payloads and runtime values: what survives a round trip, how the semantic model restores
  the type of a field, and that the two encodings of a record, by field name and by field position,
  are stored as the same payload.
\<close>

section \<open>Round trips\<close>

lemma hydrate_marked [simp]:
  "hydrateRuntimeValue (marked contract_id_marker s) cid = VContractId s"
  "hydrateRuntimeValue (marked party_marker s) cid = VParty s"
  "hydrateRuntimeValue (marked int64_marker s) cid = VInt64 s"
  by (simp_all add: hydrateRuntimeValue_def is_nullish_def marked_def readEmbeddedContractId_def
      readEmbeddedParty_def readEmbeddedContractIdArray_def read_own_string_def own_properties_def
      read_sum_def obj_get_def object_prototype_def)

lemma hydrate_text [simp]: "hydrateRuntimeValue (JStr s) cid = VText s"
  by (simp add: hydrateRuntimeValue_def is_nullish_def readEmbeddedContractId_def read_own_string_def
      own_properties_def read_sum_def obj_get_def readEmbeddedContractIdArray_def readEmbeddedParty_def
      object_prototype_def)

lemma hydrate_bool [simp]: "hydrateRuntimeValue (JBool b) cid = VBoolean b"
  by (simp add: hydrateRuntimeValue_def is_nullish_def readEmbeddedContractId_def read_own_string_def
      own_properties_def read_sum_def obj_get_def readEmbeddedContractIdArray_def readEmbeddedParty_def
      object_prototype_def)

lemma hydrate_null [simp]: "hydrateRuntimeValue JNull cid = VUnit" "hydrateRuntimeValue JUndef cid = VUnit"
  by (simp_all add: hydrateRuntimeValue_def is_nullish_def)

lemma contract_ids_array:
  "all_some (map (\<lambda>s. readEmbeddedContractId (marked contract_id_marker s)) ids) = Some ids"
  by (induction ids)
    (simp_all add: readEmbeddedContractId_def marked_def read_own_string_def own_properties_def)

lemma hydrate_contract_ids:
  "ids \<noteq> [] \<Longrightarrow> hydrateRuntimeValue (JArr (map (marked contract_id_marker) ids)) cid = VContractIds ids"
  using contract_ids_array [of ids]
  by (simp add: hydrateRuntimeValue_def is_nullish_def readEmbeddedContractId_def [of "JArr _"]
      readEmbeddedContractIdArray_def read_own_string_def own_properties_def read_sum_def obj_get_def
      object_prototype_def comp_def)

text \<open>The values with a payload form of their own; the list of no contract ids reads as a list.\<close>

fun scalar :: "rtval \<Rightarrow> bool" where
  "scalar (VContractIds ids) = (ids \<noteq> [])"
| "scalar (VLedger w cid) = False"
| "scalar (VRecord fs) = False"
| "scalar (VClosure ps b fr) = False"
| "scalar (VBuiltin f args) = False"
| "scalar (VProto k) = False"
| "scalar v = True"

definition untyped_number :: "rtval \<Rightarrow> rtval" where
  "untyped_number v = (case v of VInt64 s \<Rightarrow> VText s | VNumeric s \<Rightarrow> VText s | _ \<Rightarrow> v)"

lemma scalar_round_trip:
  "scalar v \<Longrightarrow> hydrateRuntimeValue (unwrapRuntimeValue v) cid = untyped_number v"
  by (cases v) (simp_all add: untyped_number_def hydrate_contract_ids)

section \<open>Typed fields\<close>

lemma record_id_reference:
  assumes "map_of raw record_id_marker = Some (record_id ref)"
  shows "resolveSemanticRecordField c raw name =
    (case getRecordFieldsOrThrow c ref of Inl e \<Rightarrow> None | Inr flds \<Rightarrow> find_field name 0 flds)"
  using assms
  by (cases ref) (simp add: resolveSemanticRecordField_def obj_get_def record_id_def is_object_def
      read_own_string_def own_properties_def or_empty_string_def)

text \<open>The text of an int64 or party field, stored by name or by position, has its type again.\<close>

lemma typed_field:
  assumes id: "map_of raw record_id_marker = Some (record_id ref)"
    and flds: "getRecordFieldsOrThrow c ref = Inr flds"
    and found: "find_field name 0 flds = Some (i, t)"
    and stored: "map_of raw name = Some (JStr s) \<or>
      (map_of raw name = None \<and> name \<notin> set object_prototype \<and> map_of raw (digits_of_nat i) = Some (JStr s))"
  shows "hydrateRuntimeValue (readLedgerRecordField c raw name) None =
    (if builtinType t = BtInt64 then VInt64 s
     else if builtinType t = BtParty then VParty s else VText s)"
proof -
  have att: "attachSemanticRecordId (JStr s) r = JStr s" for r
    by (simp add: attachSemanticRecordId_def is_object_def split: option.splits)
  have "readLedgerRecordField c raw name = coerceSemanticFieldValue (JStr s) (Some t)"
    using stored
  proof (elim disjE conjE)
    assume n: "map_of raw name = Some (JStr s)"
    then have "obj_has name raw"
      by (metis map_of_eq_None_iff obj_has_def option.distinct(1))
    then show ?thesis
      using n by (simp add: readLedgerRecordField_def record_id_reference [OF id] flds found Let_def
          obj_get_def att)
  next
    assume n: "map_of raw name = None" "name \<notin> set object_prototype"
      "map_of raw (digits_of_nat i) = Some (JStr s)"
    then have "\<not> obj_has name raw" by (simp add: obj_has_def map_of_eq_None_iff)
    then show ?thesis
      using n by (simp add: readLedgerRecordField_def record_id_reference [OF id] flds found Let_def
          obj_get_def att)
  qed
  then show ?thesis
    by (cases "builtinType t") (simp_all add: coerceSemanticFieldValue_def)
qed

section \<open>Records by name and by position\<close>

definition next_value :: "(string \<times> js) list \<Rightarrow> string \<Rightarrow> nat \<Rightarrow> js" where
  "next_value raw name i =
     (if obj_get raw name \<noteq> JUndef then obj_get raw name else obj_get raw (digits_of_nat i))"

lemma normalize_fields_values:
  assumes "length vs = length fs"
    and "\<And>j. j < length fs \<Longrightarrow> next_value raw (field_name (fs ! j)) (i + j) = vs ! j
      \<and> vs ! j \<noteq> JUndef \<and> vs ! j \<in> snd ` set raw"
  shows "normalize_fields rec raw i fs (nrm, cons) =
    (fold (\<lambda>(f, v). obj_set (field_name f) (rec v (typeConReference (field_type f)))) (zip fs vs) nrm,
     cons @ concat (map (\<lambda>j. [field_name (fs ! j), digits_of_nat (i + j)]) [0..<length fs]))"
  using assms
proof (induction vs fs arbitrary: i nrm cons rule: list_induct2)
  case Nil
  then show ?case by simp
next
  case (Cons v vs f fs)
  have head: "next_value raw (field_name f) i = v" "v \<noteq> JUndef" "v \<in> snd ` set raw"
    using Cons.prems [of 0] by simp_all
  have "next_value raw (field_name (fs ! j)) (Suc i + j) = vs ! j
      \<and> vs ! j \<noteq> JUndef \<and> vs ! j \<in> snd ` set raw" if "j < length fs" for j
    using Cons.prems [of "Suc j"] that by simp
  note IH = Cons.IH [OF this]
  have upt: "[0..<Suc (length fs)] = 0 # map Suc [0..<length fs]"
    by (metis map_Suc_upt upt_conv_Cons zero_less_Suc)
  have "normalize_fields rec raw i (f # fs) (nrm, cons) =
      normalize_fields rec raw (Suc i) fs
        (obj_set (field_name f) (rec v (typeConReference (field_type f))) nrm,
         cons @ [field_name f, digits_of_nat i])"
    using head by (simp add: next_value_def Let_def normalize_next_def)
  then show ?case by (simp add: IH upt comp_def del: upt_Suc)
qed

definition named_record :: "dlf_field list \<Rightarrow> js list \<Rightarrow> js" where
  "named_record fs vs = JObj (zip (map field_name fs) vs)"

definition positional_record :: "dlf_field list \<Rightarrow> js list \<Rightarrow> js" where
  "positional_record fs vs = JObj (zip (map digits_of_nat [0..<length fs]) vs)"

text \<open>Field names are distinct, are no positions, and are not members of the prototype.\<close>

definition field_names_ok :: "dlf_field list \<Rightarrow> bool" where
  "field_names_ok fs \<longleftrightarrow>
     distinct (map field_name fs) \<and>
     (\<forall>f \<in> set fs. field_name f \<notin> set object_prototype \<and> \<not> all_digits (field_name f))"

definition normalized_record ::
    "compilation \<Rightarrow> dlf_field list \<Rightarrow> js list \<Rightarrow> js" where
  "normalized_record c fs vs =
     JObj (fold (\<lambda>(f, v). obj_set (field_name f)
       (normalizeSemanticRecordValue c v (typeConReference (field_type f)))) (zip fs vs) [])"

lemma distinct_positions: "distinct (map digits_of_nat [0..<n])"
  by (simp add: distinct_map inj_on_def) (metis nat_of_digits_of_nat)

lemma normalize_consumed:
  assumes raw: "v = JObj raw" and flds: "getRecordFieldsOrThrow c ref = Inr fs"
    and len: "length vs = length fs" and undef: "JUndef \<notin> set vs"
    and vals: "\<And>j. j < length fs \<Longrightarrow> next_value raw (field_name (fs ! j)) j = vs ! j \<and> vs ! j \<in> snd ` set raw"
    and keys: "fst ` set raw \<subseteq> field_name ` set fs \<union> digits_of_nat ` {..<length fs}"
  shows "normalizeSemanticRecordValue c v (Some ref) = normalized_record c fs vs"
proof -
  let ?consumed = "concat (map (\<lambda>j. [field_name (fs ! j), digits_of_nat (0 + j)]) [0..<length fs])"
  have "normalize_fields (normalizeSemanticRecordValue c) raw 0 fs ([], []) =
      (fold (\<lambda>(f, v). obj_set (field_name f)
        (normalizeSemanticRecordValue c v (typeConReference (field_type f)))) (zip fs vs) [],
       [] @ ?consumed)"
    using vals undef len by (intro normalize_fields_values) (auto simp: in_set_conv_nth)
  moreover have "unconsumed ?consumed raw = []"
  proof -
    have "k \<in> set ?consumed" if "(k, w) \<in> set raw" for k w
    proof -
      have "k \<in> field_name ` set fs \<union> digits_of_nat ` {..<length fs}" using keys that by force
      then obtain j where "j < length fs" "k = field_name (fs ! j) \<or> k = digits_of_nat j"
        by (auto simp: in_set_conv_nth)
      then show ?thesis by force
    qed
    then show ?thesis by (auto simp: unconsumed_def filter_empty_conv)
  qed
  ultimately show ?thesis
    by (simp add: raw flds normalized_record_def obj_spread_def del: normalize_fields.simps)
qed

lemma map_of_zip_nth:
  "distinct ks \<Longrightarrow> length ks = length vs \<Longrightarrow> j < length ks \<Longrightarrow> map_of (zip ks vs) (ks ! j) = Some (vs ! j)"
  by (simp add: map_of_zip_nth)

lemma normalize_named:
  assumes "getRecordFieldsOrThrow c ref = Inr fs" "field_names_ok fs"
    "length vs = length fs" "JUndef \<notin> set vs"
  shows "normalizeSemanticRecordValue c (named_record fs vs) (Some ref) = normalized_record c fs vs"
proof (rule normalize_consumed [OF named_record_def assms(1,3,4)])
  fix j
  assume j: "j < length fs"
  let ?raw = "zip (map field_name fs) vs"
  have "map_of ?raw (field_name (fs ! j)) = Some (vs ! j)"
    using map_of_zip_nth [of "map field_name fs" vs j] assms(2,3) j by (simp add: field_names_ok_def)
  moreover have "vs ! j \<noteq> JUndef" using assms(3,4) j by (metis nth_mem)
  ultimately show "next_value ?raw (field_name (fs ! j)) j = vs ! j \<and> vs ! j \<in> snd ` set ?raw"
    by (metis (no_types, lifting) image_eqI map_of_SomeD next_value_def obj_get_def option.simps(5) snd_conv)
next
  show "fst ` set (zip (map field_name fs) vs) \<subseteq> field_name ` set fs \<union> digits_of_nat ` {..<length fs}"
    by (auto dest: set_zip_leftD)
qed

lemma normalize_positional:
  assumes "getRecordFieldsOrThrow c ref = Inr fs" "field_names_ok fs"
    "length vs = length fs" "JUndef \<notin> set vs"
  shows "normalizeSemanticRecordValue c (positional_record fs vs) (Some ref) = normalized_record c fs vs"
proof (rule normalize_consumed [OF positional_record_def assms(1,3,4)])
  fix j
  assume j: "j < length fs"
  let ?ks = "map digits_of_nat [0..<length fs]"
  let ?raw = "zip ?ks vs"
  have "map_of ?raw (?ks ! j) = Some (vs ! j)"
    using map_of_zip_nth [OF distinct_positions [of "length fs"], of vs j] assms(3) j by simp
  then have pos: "map_of ?raw (digits_of_nat j) = Some (vs ! j)" using j by simp
  have name: "field_name (fs ! j) \<notin> set object_prototype" "\<not> all_digits (field_name (fs ! j))"
    using assms(2) j by (simp_all add: field_names_ok_def)
  have "all_digits (digits_of_nat k)" for k
    by (simp add: all_digits_def digits_of_nat_digits)
  then have "field_name (fs ! j) \<notin> fst ` set ?raw"
    using name(2) by (auto dest!: set_zip_leftD)
  then have "obj_get ?raw (field_name (fs ! j)) = JUndef"
    using name(1) by (simp add: obj_get_def map_of_eq_None_iff [THEN iffD2])
  then show "next_value ?raw (field_name (fs ! j)) j = vs ! j \<and> vs ! j \<in> snd ` set ?raw"
    using pos by (metis (no_types, lifting) image_eqI map_of_SomeD next_value_def obj_get_def option.simps(5) snd_conv)
next
  show "fst ` set (zip (map digits_of_nat [0..<length fs]) vs)
      \<subseteq> field_name ` set fs \<union> digits_of_nat ` {..<length fs}"
    by (auto dest!: set_zip_leftD)
qed

end
