(* ===== verification/Numeric_Builtins.thy ===== *)
theory Numeric_Builtins
  imports Builtin_Laws
begin

text \<open>
  The numeric builtins on numeric arguments, against rational arithmetic: what a decimal text
  denotes, exact sums and comparisons, and products, quotients and casts at the scale of their
  witness.
\<close>

definition numeric_text :: "string \<Rightarrow> bool" where
  "numeric_text t \<longleftrightarrow> is_decimal_text (trim t)"

definition num_value :: "string \<Rightarrow> rat" where
  "num_value t = decimal_text_value (trim t)"

text \<open>The scale a witness stands for: the number of its fractional digits.\<close>

definition witness_scale :: "string \<Rightarrow> nat" where
  "witness_scale t = length (fractional_part (unsigned_part (trim t)))"

lemma numeric_parse:
  assumes "numeric_text t"
  obtains d where "parseExactDecimal t = Inr d" "dec_val d = num_value t" "is_normal d"
  using parse_decimal_val [of t] assms by (auto simp: numeric_text_def num_value_def)

lemma numericArguments_texts [simp]: "numericArguments (map VNumeric ts) = map VNumeric ts"
  by (induction ts) (simp_all add: numericArguments_def)

lemma numericArguments_two [simp]: "numericArguments [VNumeric a, VNumeric b] = [VNumeric a, VNumeric b]"
  and numericArguments_three [simp]:
    "numericArguments [VNumeric a, VNumeric b, VNumeric c] = [VNumeric a, VNumeric b, VNumeric c]"
  by (simp_all add: numericArguments_def)

lemma scale_witness [simp]:
  "numeric_text w \<Longrightarrow> readNumericScaleWitnessOrThrow (VNumeric w) = Inr (int (witness_scale w))"
  by (simp add: readNumericScaleWitnessOrThrow_def numeric_text_def witness_scale_def)

lemma format_normalize [simp]: "formatExactDecimal (normalizeExactDecimal d) = formatExactDecimal d"
  by (simp add: format_eq_iff)

text \<open>The text of \<open>r\<close> units of the last of \<open>k\<close> decimal places, or the overflow error.\<close>

definition scaled_result :: "int \<Rightarrow> nat \<Rightarrow> rtval result" where
  "scaled_result r k =
     (if \<bar>r\<bar> < 10 ^ 38 then Inr (VNumeric (formatExactDecimal \<lparr>significand = r, scale = k\<rparr>))
      else Inl numeric_overflow)"

lemma numeric_result_scaled:
  "numeric_result (if \<bar>r\<bar> < 10 ^ 38 then Inr (normalizeExactDecimal \<lparr>significand = r, scale = k\<rparr>)
     else Inl numeric_overflow) = scaled_result r k"
  by (simp add: numeric_result_def scaled_result_def)

lemma mul_numeric:
  assumes "numeric_text w" "numeric_text a" "numeric_text b"
  shows "\<exists>r. nearest_even (num_value a * num_value b * 10 ^ witness_scale w) r \<and>
    applyOrThrow ''MUL_NUMERIC'' [] [VNumeric w, VNumeric a, VNumeric b]
      = scaled_result r (witness_scale w)"
proof -
  obtain x where x: "parseExactDecimal a = Inr x" "dec_val x = num_value a"
    using numeric_parse [OF assms(2)] by blast
  obtain y where y: "parseExactDecimal b = Inr y" "dec_val y = num_value b"
    using numeric_parse [OF assms(3)] by blast
  obtain r where r: "nearest_even (dec_val (multiplyExactDecimals x y) * 10 ^ witness_scale w) r"
    and q: "quantizeExactDecimal (multiplyExactDecimals x y) (int (witness_scale w)) HalfEven =
      (if \<bar>r\<bar> < 10 ^ 38 then Inr (normalizeExactDecimal \<lparr>significand = r, scale = witness_scale w\<rparr>)
       else Inl numeric_overflow)"
    using quantize_half_even [of "int (witness_scale w)" "multiplyExactDecimals x y"] by auto
  have "applyOrThrow ''MUL_NUMERIC'' [] [VNumeric w, VNumeric a, VNumeric b]
      = numeric_result (quantizeExactDecimal (multiplyExactDecimals x y) (int (witness_scale w)) HalfEven)"
    using assms(1) by (simp add: applyOrThrow_def builtin_table_def apply_MUL_NUMERIC_def x y)
  also have "\<dots> = scaled_result r (witness_scale w)" unfolding q by (rule numeric_result_scaled)
  finally show ?thesis using r x(2) y(2) by (auto simp: dec_val_multiply)
qed

lemma div_numeric:
  assumes "numeric_text w" "numeric_text a" "numeric_text b" "num_value b \<noteq> 0"
  shows "\<exists>r. nearest_even (num_value a / num_value b * 10 ^ witness_scale w) r \<and>
    applyOrThrow ''DIV_NUMERIC'' [] [VNumeric w, VNumeric a, VNumeric b]
      = scaled_result r (witness_scale w)"
proof -
  obtain x where x: "parseExactDecimal a = Inr x" "dec_val x = num_value a"
    using numeric_parse [OF assms(2)] by blast
  obtain y where y: "parseExactDecimal b = Inr y" "dec_val y = num_value b"
    using numeric_parse [OF assms(3)] by blast
  have "significand y \<noteq> 0" using assms(4) y(2) by (auto simp: dec_val_def)
  then obtain r where r: "nearest_even (dec_val x / dec_val y * 10 ^ witness_scale w) r"
    and q: "divideExactDecimals x y (int (witness_scale w)) =
      (if \<bar>r\<bar> < 10 ^ 38 then Inr (normalizeExactDecimal \<lparr>significand = r, scale = witness_scale w\<rparr>)
       else Inl numeric_overflow)"
    using divide_half_even [of "int (witness_scale w)" y x] by auto
  have "applyOrThrow ''DIV_NUMERIC'' [] [VNumeric w, VNumeric a, VNumeric b]
      = numeric_result (divideExactDecimals x y (int (witness_scale w)))"
    using assms(1) by (simp add: applyOrThrow_def builtin_table_def apply_DIV_NUMERIC_def x y)
  also have "\<dots> = scaled_result r (witness_scale w)" unfolding q by (rule numeric_result_scaled)
  finally show ?thesis using r x(2) y(2) by auto
qed

lemma div_numeric_zero:
  assumes "numeric_text w" "numeric_text a" "numeric_text b" "num_value b = 0"
  shows "applyOrThrow ''DIV_NUMERIC'' [] [VNumeric w, VNumeric a, VNumeric b]
    = Inl (ValidationError ''daml lf builtin DIV_NUMERIC cannot divide by zero'')"
proof -
  obtain x where x: "parseExactDecimal a = Inr x"
    using numeric_parse [OF assms(2)] by blast
  obtain y where y: "parseExactDecimal b = Inr y" "dec_val y = num_value b"
    using numeric_parse [OF assms(3)] by blast
  then have "significand y = 0" using assms(4) by (simp add: dec_val_def)
  then show ?thesis
    using assms(1) by (simp add: applyOrThrow_def builtin_table_def apply_DIV_NUMERIC_def x y
        numeric_result_def divideExactDecimals_def)
qed

lemma cast_numeric:
  assumes "numeric_text w" "numeric_text a"
  shows "applyOrThrow ''CAST_NUMERIC'' [] [VNumeric w, VNumeric a] =
    (if num_value a * 10 ^ witness_scale w \<in> \<int>
     then scaled_result \<lfloor>num_value a * 10 ^ witness_scale w\<rfloor> (witness_scale w)
     else Inl (ValidationError ''daml lf builtin CAST_NUMERIC requires an exact representation''))"
proof -
  obtain x where x: "parseExactDecimal a = Inr x" "dec_val x = num_value a"
    using numeric_parse [OF assms(2)] by blast
  let ?t = "int (witness_scale w)"
  obtain r where r: "nearest_even (dec_val x * 10 ^ witness_scale w) r"
    and q: "quantizeExactDecimal x ?t HalfEven =
      (if \<bar>r\<bar> < 10 ^ 38 then Inr (normalizeExactDecimal \<lparr>significand = r, scale = witness_scale w\<rparr>)
       else Inl numeric_overflow)"
    using quantize_half_even [of ?t x] by auto
  have app: "applyOrThrow ''CAST_NUMERIC'' [] [VNumeric w, VNumeric a]
      = numeric_result (quantizeExactDecimal x ?t Unnecessary)"
    using assms(1) by (simp add: applyOrThrow_def builtin_table_def apply_CAST_NUMERIC_def x)
  show ?thesis
  proof (cases "num_value a * 10 ^ witness_scale w \<in> \<int>")
    case True
    then obtain i where i: "num_value a * 10 ^ witness_scale w = of_int i" by (auto elim: Ints_cases)
    then have "r = i" using r x(2) nearest_even_unique [OF _ nearest_even_int] by metis
    have "quantizeExactDecimal x ?t Unnecessary = quantizeExactDecimal x ?t HalfEven"
      using i x(2) quantize_unnecessary [of ?t x] by auto
    then have "applyOrThrow ''CAST_NUMERIC'' [] [VNumeric w, VNumeric a] = scaled_result r (witness_scale w)"
      unfolding app by (simp only: q numeric_result_scaled)
    then show ?thesis using True i \<open>r = i\<close> by simp
  next
    case False
    then have "\<nexists>i. dec_val x * 10 ^ witness_scale w = of_int i"
      using x(2) by (metis Ints_of_int)
    then show ?thesis
      using False quantize_unnecessary [of ?t x] by (simp add: app numeric_result_def)
  qed
qed

lemma add_sub_numeric:
  assumes "numeric_text a" "numeric_text b"
  shows "\<exists>d. applyOrThrow ''ADD_NUMERIC'' [] [VNumeric a, VNumeric b] = Inr (VNumeric (formatExactDecimal d))
      \<and> dec_val d = num_value a + num_value b"
    "\<exists>d. applyOrThrow ''SUB_NUMERIC'' [] [VNumeric a, VNumeric b] = Inr (VNumeric (formatExactDecimal d))
      \<and> dec_val d = num_value a - num_value b"
proof -
  obtain x where x: "parseExactDecimal a = Inr x" "dec_val x = num_value a"
    using numeric_parse [OF assms(1)] by blast
  obtain y where y: "parseExactDecimal b = Inr y" "dec_val y = num_value b"
    using numeric_parse [OF assms(2)] by blast
  show "\<exists>d. applyOrThrow ''ADD_NUMERIC'' [] [VNumeric a, VNumeric b] = Inr (VNumeric (formatExactDecimal d))
      \<and> dec_val d = num_value a + num_value b"
    by (intro exI [of _ "addExactDecimals x y"])
      (simp add: applyOrThrow_def builtin_table_def apply_ADD_NUMERIC_def last_two_def x y
        numeric_result_def dec_val_add)
  show "\<exists>d. applyOrThrow ''SUB_NUMERIC'' [] [VNumeric a, VNumeric b] = Inr (VNumeric (formatExactDecimal d))
      \<and> dec_val d = num_value a - num_value b"
    by (intro exI [of _ "subtractExactDecimals x y"])
      (simp add: applyOrThrow_def builtin_table_def apply_SUB_NUMERIC_def last_two_def x y
        numeric_result_def dec_val_subtract)
qed

lemma compare_numeric:
  assumes "numeric_text a" "numeric_text b"
  shows "applyOrThrow ''LESS'' [] [VNumeric a, VNumeric b] = Inr (VBoolean (num_value a < num_value b))"
    "applyOrThrow ''LESS_EQ'' [] [VNumeric a, VNumeric b] = Inr (VBoolean (num_value a \<le> num_value b))"
    "applyOrThrow ''GREATER'' [] [VNumeric a, VNumeric b] = Inr (VBoolean (num_value a > num_value b))"
    "applyOrThrow ''GREATER_EQ'' [] [VNumeric a, VNumeric b] = Inr (VBoolean (num_value a \<ge> num_value b))"
proof -
  obtain x where x: "parseExactDecimal a = Inr x" "dec_val x = num_value a"
    using numeric_parse [OF assms(1)] by blast
  obtain y where y: "parseExactDecimal b = Inr y" "dec_val y = num_value b"
    using numeric_parse [OF assms(2)] by blast
  have c: "compareValues (VNumeric a) (VNumeric b)
      = Inr (if num_value a < num_value b then -1 else if num_value a > num_value b then 1 else 0)"
    by (simp add: compareValues_def tryReadExactDecimal_def x y compare_exact)
  note defs = applyOrThrow_def builtin_table_def nonUnitArguments_def kind_of_def boolean_result_def c
  show "applyOrThrow ''LESS'' [] [VNumeric a, VNumeric b] = Inr (VBoolean (num_value a < num_value b))"
    by (simp add: apply_LESS_def defs)
  show "applyOrThrow ''LESS_EQ'' [] [VNumeric a, VNumeric b] = Inr (VBoolean (num_value a \<le> num_value b))"
    by (simp add: apply_LESS_EQ_def defs)
  show "applyOrThrow ''GREATER'' [] [VNumeric a, VNumeric b] = Inr (VBoolean (num_value a > num_value b))"
    by (simp add: apply_GREATER_def defs)
  show "applyOrThrow ''GREATER_EQ'' [] [VNumeric a, VNumeric b] = Inr (VBoolean (num_value a \<ge> num_value b))"
    by (simp add: apply_GREATER_EQ_def defs)
qed

end
