(* ===== verification/Campaign_Schedule.thy ===== *)
theory Campaign_Schedule
  imports JS_Value
begin

text \<open>
  Scheduling of an invariant campaign: \<^verbatim>\<open>src/src/testing/campaign/campaign-scheduler.ts\<close>, with
  \<open>bound\<close> of \<^verbatim>\<open>src/src/testing/handlers/handler.ts\<close>. A JavaScript number is an integer or one of
  the numbers that are not (fractions, infinities, NaN), which \<^verbatim>\<open>Number.isSafeInteger\<close> rejects.
  Weights are integers. The fast-check arbitraries that supply the rolls are not part of the model:
  the rolls are arguments.
\<close>

datatype js_number = Int_Number int | Other_Number

definition max_safe :: int where
  "max_safe = 2 ^ 53 - 1"

definition safe_int :: "int \<Rightarrow> bool" where
  "safe_int n \<longleftrightarrow> \<bar>n\<bar> \<le> max_safe"

definition isSafeInteger :: "js_number \<Rightarrow> bool" where
  "isSafeInteger x = (case x of Int_Number n \<Rightarrow> safe_int n | Other_Number \<Rightarrow> False)"

record scheduling_target =
  st_actors :: "string list"
  st_key :: string
  st_requiresActiveContract :: bool
  st_weight :: int

datatype scheduled_slot = ProbeSlot | TargetSlot string string \<comment> \<open>actor, target key\<close>

definition eligible :: "bool \<Rightarrow> scheduling_target \<Rightarrow> bool" where
  "eligible hasActiveContract t \<longleftrightarrow>
     st_weight t > 0 \<and> st_actors t \<noteq> [] \<and> (hasActiveContract \<or> \<not> st_requiresActiveContract t)"

definition rollAt :: "js_number list \<Rightarrow> nat \<Rightarrow> int" where
  "rollAt rolls index =
     (if rolls = [] then 0
      else
        case rolls ! (index mod length rolls) of
          Int_Number roll \<Rightarrow> (if safe_int roll \<and> roll \<ge> 0 then roll else 0)
        | Other_Number \<Rightarrow> 0)"

fun select_remaining :: "scheduling_target list \<Rightarrow> int \<Rightarrow> scheduling_target result" where
  "select_remaining [] remaining =
     Inl (PlainError ''Campaign scheduler could not select an eligible target.'')"
| "select_remaining (t # ts) remaining =
     (if remaining < st_weight t then Inr t else select_remaining ts (remaining - st_weight t))"

definition selectByWeight :: "scheduling_target list \<Rightarrow> int \<Rightarrow> int \<Rightarrow> scheduling_target result" where
  "selectByWeight targets roll totalWeight = select_remaining targets (roll mod totalWeight)"

definition total_weight :: "scheduling_target list \<Rightarrow> int" where
  "total_weight ts = foldl (\<lambda>s t. s + st_weight t) 0 ts"

definition schedule_slot ::
    "scheduling_target list \<Rightarrow> js_number list \<Rightarrow> js_number list \<Rightarrow> nat \<Rightarrow> scheduled_slot result" where
  "schedule_slot targets targetRolls actorRolls index =
     (let totalWeight = total_weight targets in
      if totalWeight = 0 then Inr ProbeSlot
      else
        bind_result (selectByWeight targets (rollAt targetRolls index) totalWeight) (\<lambda>target.
          Inr (TargetSlot
            (st_actors target ! nat (rollAt actorRolls index mod int (length (st_actors target))))
            (st_key target))))"

definition scheduleCampaignSlots ::
    "js_number list \<Rightarrow> js_number \<Rightarrow> bool \<Rightarrow> js_number list \<Rightarrow> scheduling_target list \<Rightarrow>
     scheduled_slot list result" where
  "scheduleCampaignSlots actorRolls depth hasActiveContract targetRolls targets =
     (case depth of
        Int_Number n \<Rightarrow>
          if \<not> safe_int n \<or> n < 1
          then Inl (PlainError ''Campaign schedule depth must be a positive safe integer.'')
          else
            (let eligibleTargets = filter (eligible hasActiveContract) targets in
             if \<not> safe_int (total_weight eligibleTargets)
             then Inl (PlainError ''Campaign target weights must sum to a safe integer.'')
             else if n > 2 ^ 32 - 1 then Inl (RangeError ''Invalid array length'')
             else map_result (schedule_slot eligibleTargets targetRolls actorRolls) [0..<nat n])
      | Other_Number \<Rightarrow>
          Inl (PlainError ''Campaign schedule depth must be a positive safe integer.''))"

section \<open>Bounds\<close>

definition bound :: "int \<Rightarrow> int \<Rightarrow> int \<Rightarrow> int result" where
  "bound v minimum maximum =
     (if minimum > maximum
      then Inl (PlainError ''Invariant campaign bounds require minimum <= maximum.'')
      else if v < minimum then Inr minimum
      else if v > maximum then Inr maximum
      else Inr v)"

section \<open>Selection by weight\<close>

lemma total_weight_Cons: "total_weight (t # ts) = st_weight t + total_weight ts"
proof -
  have "foldl (\<lambda>s t. s + st_weight t) a ts = a + total_weight ts" for a
  proof (induction ts arbitrary: a)
    case (Cons u us)
    show ?case
      using Cons [of "a + st_weight u"] Cons [of "st_weight u"] by (simp add: total_weight_def)
  qed (simp add: total_weight_def)
  from this [of "st_weight t"] show ?thesis by (simp add: total_weight_def)
qed

lemma total_weight_Nil [simp]: "total_weight [] = 0"
  by (simp add: total_weight_def)

lemma total_weight_positive: "\<forall>t \<in> set ts. 0 < st_weight t \<Longrightarrow> 0 \<le> total_weight ts"
  by (induction ts) (auto simp: total_weight_Cons)

lemma total_weight_zero: "\<forall>t \<in> set ts. 0 < st_weight t \<Longrightarrow> total_weight ts = 0 \<longleftrightarrow> ts = []"
proof (cases ts)
  case (Cons t us)
  assume "\<forall>t \<in> set ts. 0 < st_weight t"
  then have "0 < st_weight t" "0 \<le> total_weight us"
    using Cons by (simp_all add: total_weight_positive)
  then show ?thesis using Cons by (simp add: total_weight_Cons)
qed simp

text \<open>The target at position \<open>i\<close> is chosen by exactly the remainders of its own weight interval.\<close>

lemma select_interval:
  assumes "\<forall>t \<in> set ts. 0 < st_weight t" "i < length ts"
    "total_weight (take i ts) \<le> r" "r < total_weight (take (Suc i) ts)"
  shows "select_remaining ts r = Inr (ts ! i)"
  using assms
proof (induction ts arbitrary: i r)
  case (Cons t ts)
  show ?case
  proof (cases i)
    case 0
    then show ?thesis using Cons.prems by (simp add: total_weight_Cons)
  next
    case (Suc j)
    have "0 \<le> total_weight (take j ts)"
      using Cons.prems(1) by (intro total_weight_positive) (auto dest: in_set_takeD)
    then have "\<not> r < st_weight t" using Cons.prems(3) Suc by (simp add: total_weight_Cons)
    moreover have "select_remaining ts (r - st_weight t) = Inr (ts ! j)"
      using Cons.prems Suc by (intro Cons.IH) (auto simp: total_weight_Cons)
    ultimately show ?thesis using Suc by simp
  qed
qed simp

lemma select_total:
  assumes "\<forall>t \<in> set ts. 0 < st_weight t" "0 \<le> r" "r < total_weight ts"
  shows "\<exists>i < length ts. total_weight (take i ts) \<le> r \<and> r < total_weight (take (Suc i) ts)"
  using assms
proof (induction ts arbitrary: r)
  case (Cons t ts)
  show ?case
  proof (cases "r < st_weight t")
    case True
    then show ?thesis using Cons.prems by (intro exI [of _ 0]) (simp add: total_weight_Cons)
  next
    case False
    then obtain i where "i < length ts" "total_weight (take i ts) \<le> r - st_weight t"
      "r - st_weight t < total_weight (take (Suc i) ts)"
      using Cons.IH [of "r - st_weight t"] Cons.prems by (auto simp: total_weight_Cons)
    then show ?thesis by (intro exI [of _ "Suc i"]) (auto simp: total_weight_Cons)
  qed
qed simp

lemma select_in:
  assumes "\<forall>t \<in> set ts. 0 < st_weight t" "ts \<noteq> []"
  shows "\<exists>t \<in> set ts. selectByWeight ts roll (total_weight ts) = Inr t"
proof -
  have pos: "0 < total_weight ts"
    using total_weight_positive [OF assms(1)] total_weight_zero [OF assms(1)] assms(2) by force
  then obtain i where i: "i < length ts" "total_weight (take i ts) \<le> roll mod total_weight ts"
    "roll mod total_weight ts < total_weight (take (Suc i) ts)"
    using select_total [OF assms(1), of "roll mod total_weight ts"] by auto
  then show ?thesis
    using select_interval [OF assms(1) i] nth_mem [OF i(1)] by (auto simp: selectByWeight_def)
qed

text \<open>Hence, over one period of the rolls, every target is chosen as often as its weight.\<close>

lemma select_share:
  assumes "\<forall>t \<in> set ts. 0 < st_weight t" "distinct ts" "i < length ts"
  shows "int (card {r \<in> {0..<total_weight ts}. selectByWeight ts r (total_weight ts) = Inr (ts ! i)})
    = st_weight (ts ! i)"
proof -
  let ?lo = "total_weight (take i ts)" and ?hi = "total_weight (take (Suc i) ts)"
  have append: "total_weight (xs @ ys) = total_weight xs + total_weight ys" for xs ys
    by (induction xs) (simp_all add: total_weight_Cons)
  have hi: "?hi = ?lo + st_weight (ts ! i)"
    using assms(3) by (simp add: take_Suc_conv_app_nth append total_weight_Cons)
  have "total_weight ts = ?hi + total_weight (drop (Suc i) ts)"
    by (metis append append_take_drop_id)
  moreover have "0 \<le> total_weight (drop (Suc i) ts)" "0 \<le> ?lo"
    using assms(1) by (auto intro!: total_weight_positive dest: in_set_dropD in_set_takeD)
  ultimately have range: "0 \<le> ?lo" "?hi \<le> total_weight ts" by auto
  have "{r \<in> {0..<total_weight ts}. selectByWeight ts r (total_weight ts) = Inr (ts ! i)} = {?lo..<?hi}"
  proof (intro set_eqI iffI)
    fix r
    assume r: "r \<in> {r \<in> {0..<total_weight ts}. selectByWeight ts r (total_weight ts) = Inr (ts ! i)}"
    then obtain j where j: "j < length ts" "total_weight (take j ts) \<le> r"
      "r < total_weight (take (Suc j) ts)"
      using select_total [OF assms(1), of r] by auto
    then have "selectByWeight ts r (total_weight ts) = Inr (ts ! j)"
      using r select_interval [OF assms(1) j] by (simp add: selectByWeight_def)
    then have "j = i" using r assms(2,3) j(1) by (simp add: nth_eq_iff_index_eq)
    then show "r \<in> {?lo..<?hi}" using j by simp
  next
    fix r
    assume "r \<in> {?lo..<?hi}"
    then show "r \<in> {r \<in> {0..<total_weight ts}. selectByWeight ts r (total_weight ts) = Inr (ts ! i)}"
      using range select_interval [OF assms(1,3), of r] by (simp add: selectByWeight_def)
  qed
  moreover have "0 < st_weight (ts ! i)" using assms(1,3) by simp
  ultimately show ?thesis using hi by simp
qed

section \<open>Schedules\<close>

definition valid_slot :: "bool \<Rightarrow> scheduling_target list \<Rightarrow> scheduled_slot \<Rightarrow> bool" where
  "valid_slot hasActiveContract targets slot =
     (case slot of
        ProbeSlot \<Rightarrow> \<not> (\<exists>t \<in> set targets. eligible hasActiveContract t)
      | TargetSlot actor key \<Rightarrow>
          \<exists>t \<in> set targets. eligible hasActiveContract t \<and> st_key t = key \<and> actor \<in> set (st_actors t))"

lemma schedule_slot_valid:
  "\<exists>slot. schedule_slot (filter (eligible h) targets) targetRolls actorRolls index = Inr slot
     \<and> valid_slot h targets slot"
proof -
  let ?ts = "filter (eligible h) targets"
  have pos: "\<forall>t \<in> set ?ts. 0 < st_weight t" by (simp add: eligible_def)
  show ?thesis
  proof (cases "?ts = []")
    case True
    then show ?thesis by (simp add: schedule_slot_def valid_slot_def filter_empty_conv)
  next
    case False
    then obtain t where t: "t \<in> set ?ts"
      "selectByWeight ?ts (rollAt targetRolls index) (total_weight ?ts) = Inr t"
      using select_in [OF pos False] by blast
    have "st_actors t \<noteq> []" using t(1) by (simp add: eligible_def)
    then have "nat (rollAt actorRolls index mod int (length (st_actors t))) < length (st_actors t)"
      by (simp add: nat_less_iff)
    then have "st_actors t ! nat (rollAt actorRolls index mod int (length (st_actors t)))
        \<in> set (st_actors t)" by simp
    then show ?thesis
      using t total_weight_zero [OF pos] False by (auto simp: schedule_slot_def valid_slot_def)
  qed
qed

lemma map_result_all:
  assumes "\<And>x. x \<in> set xs \<Longrightarrow> \<exists>y. f x = Inr y \<and> P y"
  shows "\<exists>ys. map_result f xs = Inr ys \<and> length ys = length xs \<and> (\<forall>y \<in> set ys. P y)"
  using assms
proof (induction xs)
  case (Cons x xs)
  then obtain y ys where "f x = Inr y" "P y" "map_result f xs = Inr ys" "length ys = length xs"
    "\<forall>y \<in> set ys. P y" by (metis list.set_intros)
  then show ?case by simp
qed simp

lemma schedule_complete:
  assumes "1 \<le> n" "n < 2 ^ 32" "safe_int (total_weight (filter (eligible h) targets))"
  shows "\<exists>slots. scheduleCampaignSlots actorRolls (Int_Number n) h targetRolls targets = Inr slots
    \<and> int (length slots) = n \<and> (\<forall>slot \<in> set slots. valid_slot h targets slot)"
proof -
  have "\<exists>slots. map_result (schedule_slot (filter (eligible h) targets) targetRolls actorRolls) [0..<nat n]
      = Inr slots \<and> length slots = length [0..<nat n] \<and> (\<forall>slot \<in> set slots. valid_slot h targets slot)"
    by (rule map_result_all) (rule schedule_slot_valid)
  moreover have "safe_int n" using assms(1,2) by (simp add: safe_int_def max_safe_def)
  ultimately show ?thesis using assms by (auto simp: scheduleCampaignSlots_def Let_def)
qed

end
