(* ===== verification/JS_Ordering.thy ===== *)
theory JS_Ordering
  imports JS_Value "HOL-Library.Multiset"
begin

text \<open>
  Sorting with \<^verbatim>\<open>localeCompare\<close>. The order of the locale is a parameter: \<open>le a b\<close> stands for
  \<^verbatim>\<open>a.localeCompare(b) <= 0\<close>. \<^verbatim>\<open>Array.prototype.sort\<close> is stable; with a comparison that is
  a total preorder the sorted array does not depend on the algorithm.
\<close>

text \<open>\<^verbatim>\<open>entries.sort(([l], [r]) => l.localeCompare(r))\<close>, which is stable.\<close>

fun insert_entry :: "(string \<Rightarrow> string \<Rightarrow> bool) \<Rightarrow> string \<times> 'v \<Rightarrow> (string \<times> 'v) list \<Rightarrow> (string \<times> 'v) list" where
  "insert_entry le e [] = [e]"
| "insert_entry le e (f # fs) =
     (if le (fst e) (fst f) then e # f # fs else f # insert_entry le e fs)"

definition sort_entries :: "(string \<Rightarrow> string \<Rightarrow> bool) \<Rightarrow> (string \<times> 'v) list \<Rightarrow> (string \<times> 'v) list" where
  "sort_entries le es = foldr (insert_entry le) es []"

lemma mset_insert_entry: "mset (insert_entry le e fs) = add_mset e (mset fs)"
  by (induction fs) auto

lemma mset_sort_entries [simp]: "mset (sort_entries le es) = mset es"
  by (induction es) (simp_all add: sort_entries_def mset_insert_entry)

lemma sort_entries_distinct: "distinct (map fst es) \<Longrightarrow> distinct (map fst (sort_entries le es))"
proof -
  assume "distinct (map fst es)"
  moreover have "mset (map fst (sort_entries le es)) = mset (map fst es)" by simp
  ultimately show ?thesis using mset_eq_imp_distinct_iff by blast
qed

lemma sort_entries_set [simp]: "set (sort_entries le es) = set es"
  by (metis mset_sort_entries set_mset_mset)

lemma sort_entries_map_of: "distinct (map fst es) \<Longrightarrow> map_of (sort_entries le es) = map_of es"
proof
  fix k
  assume d: "distinct (map fst es)"
  show "map_of (sort_entries le es) k = map_of es k"
  proof (cases "map_of es k")
    case (Some v)
    then have "(k, v) \<in> set (sort_entries le es)" by (simp add: map_of_SomeD)
    then show ?thesis using Some d by (simp add: sort_entries_distinct)
  next
    case None
    then have "k \<notin> fst ` set (sort_entries le es)" by (simp add: map_of_eq_None_iff)
    then show ?thesis using None by (metis map_of_eq_None_iff)
  qed
qed

text \<open>\<^verbatim>\<open>xs.sort(compare)\<close> with \<open>earlier x y\<close> for \<^verbatim>\<open>compare(x, y) <= 0\<close>.\<close>

fun insert_by :: "('a \<Rightarrow> 'a \<Rightarrow> bool) \<Rightarrow> 'a \<Rightarrow> 'a list \<Rightarrow> 'a list" where
  "insert_by earlier x [] = [x]"
| "insert_by earlier x (y # ys) = (if earlier x y then x # y # ys else y # insert_by earlier x ys)"

definition sort_by :: "('a \<Rightarrow> 'a \<Rightarrow> bool) \<Rightarrow> 'a list \<Rightarrow> 'a list" where
  "sort_by earlier xs = foldr (insert_by earlier) xs []"

lemma mset_insert_by: "mset (insert_by earlier x ys) = add_mset x (mset ys)"
  by (induction ys) auto

lemma mset_sort_by [simp]: "mset (sort_by earlier xs) = mset xs"
  by (induction xs) (simp_all add: sort_by_def mset_insert_by)

lemma set_sort_by [simp]: "set (sort_by earlier xs) = set xs"
  by (metis mset_sort_by set_mset_mset)

lemma length_sort_by [simp]: "length (sort_by earlier xs) = length xs"
  by (metis mset_sort_by size_mset)

lemma sort_by_Nil [simp]: "sort_by earlier [] = []"
  by (simp add: sort_by_def)

lemma distinct_map_sort_by [simp]: "distinct (map f (sort_by earlier xs)) = distinct (map f xs)"
  by (metis mset_map mset_sort_by mset_eq_imp_distinct_iff)

text \<open>A total and transitive comparison sorts; if it separates the elements, the result does not
  depend on the order in which they came.\<close>

definition total_preorder :: "('a \<Rightarrow> 'a \<Rightarrow> bool) \<Rightarrow> bool" where
  "total_preorder earlier \<longleftrightarrow>
     (\<forall>x y. earlier x y \<or> earlier y x) \<and> (\<forall>x y z. earlier x y \<longrightarrow> earlier y z \<longrightarrow> earlier x z)"

lemma sorted_insert_by:
  assumes "total_preorder earlier" "sorted_wrt earlier ys"
  shows "sorted_wrt earlier (insert_by earlier x ys)"
  using assms(2)
proof (induction ys)
  case (Cons y ys)
  have set: "set (insert_by earlier x ys) = insert x (set ys)"
    using mset_insert_by [of earlier x ys] by (metis set_mset_mset set_mset_add_mset_insert)
  show ?case
  proof (cases "earlier x y")
    case True
    then show ?thesis using Cons.prems assms(1) by (auto simp: total_preorder_def)
  next
    case False
    then have "earlier y x" using assms(1) by (auto simp: total_preorder_def)
    then show ?thesis using Cons False by (auto simp: set)
  qed
qed simp

lemma sorted_sort_by: "total_preorder earlier \<Longrightarrow> sorted_wrt earlier (sort_by earlier xs)"
  by (induction xs) (simp_all add: sort_by_def sorted_insert_by)

lemma sorted_wrt_unique:
  assumes "sorted_wrt earlier xs" "sorted_wrt earlier ys" "mset xs = mset ys"
    and "\<And>x y. x \<in> set xs \<Longrightarrow> y \<in> set xs \<Longrightarrow> earlier x y \<Longrightarrow> earlier y x \<Longrightarrow> x = y"
  shows "xs = ys"
  using assms
proof (induction xs arbitrary: ys)
  case (Cons x xs)
  then obtain y ys' where ys: "ys = y # ys'" by (cases ys) auto
  have "x \<in> set ys" "y \<in> set (x # xs)"
    using Cons.prems(3) ys by (metis list.set_intros(1) mset_eq_setD)+
  then have "x = y" using Cons.prems(1,2,4) ys by auto
  moreover have "xs = ys'"
    using Cons.prems ys \<open>x = y\<close> by (intro Cons.IH) auto
  ultimately show ?case using ys by simp
qed simp

lemma sort_by_perm:
  assumes "total_preorder earlier" "mset xs = mset ys"
    and "\<And>x y. x \<in> set xs \<Longrightarrow> y \<in> set xs \<Longrightarrow> earlier x y \<Longrightarrow> earlier y x \<Longrightarrow> x = y"
  shows "sort_by earlier xs = sort_by earlier ys"
  using assms by (intro sorted_wrt_unique [of earlier]) (simp_all add: sorted_sort_by)

lemma sort_by_sorted:
  assumes "sorted_wrt earlier xs"
  shows "sort_by earlier xs = xs"
  using assms
proof (induction xs)
  case (Cons x xs)
  then have "insert_by earlier x xs = x # xs" by (cases xs) auto
  with Cons show ?case by (simp add: sort_by_def)
qed simp

text \<open>The same for a comparison that is only known to be a preorder on the elements that are sorted.\<close>

definition preorder_among :: "'a set \<Rightarrow> ('a \<Rightarrow> 'a \<Rightarrow> bool) \<Rightarrow> bool" where
  "preorder_among S earlier \<longleftrightarrow>
     (\<forall>x \<in> S. \<forall>y \<in> S. earlier x y \<or> earlier y x) \<and>
     (\<forall>x \<in> S. \<forall>y \<in> S. \<forall>z \<in> S. earlier x y \<longrightarrow> earlier y z \<longrightarrow> earlier x z)"

lemma set_insert_by [simp]: "set (insert_by earlier x ys) = insert x (set ys)"
  by (metis mset_insert_by set_mset_add_mset_insert set_mset_mset)

lemma sorted_insert_among:
  assumes "preorder_among S earlier" "x \<in> S" "set ys \<subseteq> S" "sorted_wrt earlier ys"
  shows "sorted_wrt earlier (insert_by earlier x ys)"
  using assms(3,4)
proof (induction ys)
  case (Cons y ys)
  show ?case
  proof (cases "earlier x y")
    case True
    have "earlier x z" if "z \<in> set ys" for z
    proof -
      have "z \<in> S" "y \<in> S" "earlier y z" using Cons.prems that by auto
      with assms(1,2) True show ?thesis unfolding preorder_among_def by blast
    qed
    with True Cons.prems show ?thesis by auto
  next
    case False
    with assms(1,2) Cons.prems have "earlier y x" by (auto simp: preorder_among_def)
    with Cons False show ?thesis by auto
  qed
qed simp

lemma sorted_sort_among:
  assumes "preorder_among S earlier" "set xs \<subseteq> S"
  shows "sorted_wrt earlier (sort_by earlier xs)"
  using assms(2)
proof (induction xs)
  case (Cons x xs)
  then have "sorted_wrt earlier (insert_by earlier x (sort_by earlier xs))"
    by (intro sorted_insert_among [OF assms(1)]) auto
  then show ?case by (simp add: sort_by_def)
qed simp

end
