(* ===== verification/Campaign_Definition.thy ===== *)
theory Campaign_Definition
  imports Campaign_Schedule JS_Ordering
begin

text \<open>
  What a campaign is made of: \<^verbatim>\<open>src/src/testing/campaign/campaign-definition.ts\<close>,
  \<^verbatim>\<open>campaign-types.ts\<close>, \<^verbatim>\<open>campaign-model.ts\<close> and \<^verbatim>\<open>campaign-metrics.ts\<close>, with
  \<^verbatim>\<open>src/src/testing/handlers/handler.ts\<close>. \<^verbatim>\<open>localeCompare\<close> depends on the host's locale: the
  order it gives is the argument \<open>le\<close>.
\<close>

section \<open>Configuration\<close>

record campaign_config =
  cc_runs :: js_number
  cc_depth :: js_number
  cc_failOnRevert :: "bool option"
  cc_path :: "string option"
  cc_seed :: "js_number option"
  cc_timeoutMs :: "js_number option"

record resolved_config =
  rcf_runs :: js_number
  rcf_depth :: js_number
  rcf_failOnRevert :: bool
  rcf_path :: "string option"
  rcf_seed :: "js_number option"
  rcf_timeoutMs :: "js_number option"

definition less_than_one :: "js_number \<Rightarrow> bool" where
  "less_than_one x = (case x of Int_Number n \<Rightarrow> n < 1 | Other_Number \<Rightarrow> False)"

definition resolveConfig :: "campaign_config \<Rightarrow> resolved_config result" where
  "resolveConfig c =
     (if \<not> isSafeInteger (cc_runs c) \<or> less_than_one (cc_runs c)
      then Inl (TestingConfigurationError ''Invariant campaign runs must be a positive safe integer.'')
      else if \<not> isSafeInteger (cc_depth c) \<or> less_than_one (cc_depth c)
      then Inl (TestingConfigurationError ''Invariant campaign depth must be a positive safe integer.'')
      else if (case cc_seed c of Some x \<Rightarrow> \<not> isSafeInteger x | None \<Rightarrow> False)
      then Inl (TestingConfigurationError ''Invariant campaign seed must be a safe integer.'')
      else if (case cc_timeoutMs c of
                 Some x \<Rightarrow> \<not> isSafeInteger x \<or> less_than_one x | None \<Rightarrow> False)
      then Inl (TestingConfigurationError ''Invariant campaign timeout must be a positive safe integer.'')
      else
        Inr \<lparr>rcf_runs = cc_runs c, rcf_depth = cc_depth c,
             rcf_failOnRevert = (case cc_failOnRevert c of Some b \<Rightarrow> b | None \<Rightarrow> False),
             rcf_path = cc_path c, rcf_seed = cc_seed c, rcf_timeoutMs = cc_timeoutMs c\<rparr>)"

section \<open>Targets, handlers, campaigns\<close>

record test_actor =
  ta_party :: string
  ta_participant :: string
  ta_actAs :: "string list option"
  ta_readAs :: "string list option"

datatype isolation_kind = IsolationCleanup | IsolationExternal | IsolationSnapshot

record campaign_runtime =
  cr_actors :: "(string \<times> test_actor) list"
  cr_isolation :: isolation_kind

record campaign_target =
  ct_key :: string
  ct_actors :: "string list option"

record campaign_handler =
  hd_name :: string
  hd_cleanup_none :: bool

record campaign =
  ca_runtime :: campaign_runtime
  ca_config :: resolved_config
  ca_targets :: "campaign_target list"
  ca_handlers :: "campaign_handler list"

text \<open>\<^verbatim>\<open>runtime.actors[actor] === undefined\<close>: members of the prototype are not undefined.\<close>

definition unknown_actor :: "campaign_runtime \<Rightarrow> string \<Rightarrow> bool" where
  "unknown_actor rt actor \<longleftrightarrow> \<not> obj_has actor (cr_actors rt)"

definition validateTarget :: "campaign_target \<Rightarrow> campaign_runtime \<Rightarrow> unit result" where
  "validateTarget t rt =
     (if ct_key t = []
      then Inl (TestingConfigurationError ''Invariant campaign target keys must not be empty.'')
      else if ct_actors t = Some []
      then Inl (TestingConfigurationError
        (''Invariant campaign target '' @ quoted (ct_key t) @ '' requires at least one actor.''))
      else
        each_result (\<lambda>actor.
          if unknown_actor rt actor
          then Inl (TestingConfigurationError
            (''Invariant campaign target '' @ quoted (ct_key t) @ '' references unknown actor ''
              @ quoted actor @ ''.''))
          else Inr ())
        (case ct_actors t of Some as \<Rightarrow> as | None \<Rightarrow> []))"

fun define_targets ::
    "campaign_runtime \<Rightarrow> string list \<Rightarrow> campaign_target list \<Rightarrow> campaign_target list result" where
  "define_targets rt targetKeys [] = Inr []"
| "define_targets rt targetKeys (t # ts) =
     bind_result (validateTarget t rt) (\<lambda>_.
       if ct_key t \<in> set targetKeys
       then Inl (TestingConfigurationError
         (''Invariant campaign target '' @ quoted (ct_key t) @ '' is duplicated.''))
       else
         bind_result (define_targets rt (ct_key t # targetKeys) ts) (\<lambda>rest. Inr (t # rest)))"

fun validateHandlers :: "string list \<Rightarrow> campaign_handler list \<Rightarrow> campaign_runtime \<Rightarrow> unit result" where
  "validateHandlers names [] rt = Inr ()"
| "validateHandlers names (h # hs) rt =
     (if hd_name h \<in> set names
      then Inl (TestingConfigurationError
        (''Invariant campaign handler '' @ quoted (hd_name h) @ '' is duplicated.''))
      else if cr_isolation rt = IsolationCleanup \<and> hd_cleanup_none h
      then Inl (TestingConfigurationError
        (''Invariant campaign handler '' @ quoted (hd_name h)
          @ '' requires discovery cleanup under cleanup isolation.''))
      else validateHandlers (hd_name h # names) hs rt)"

definition defineInvariantCampaign ::
    "campaign_runtime \<Rightarrow> campaign_config \<Rightarrow> campaign_handler list option \<Rightarrow> campaign_target list \<Rightarrow>
     campaign result" where
  "defineInvariantCampaign rt config handlers targets =
     bind_result (resolveConfig config) (\<lambda>cfg.
     bind_result (define_targets rt [] targets) (\<lambda>ts.
       if ts = []
       then Inl (TestingConfigurationError ''Invariant campaigns require at least one target.'')
       else
         (let hs = (case handlers of Some hs \<Rightarrow> hs | None \<Rightarrow> []) in
          bind_result (validateHandlers [] hs rt) (\<lambda>_.
            Inr \<lparr>ca_runtime = rt, ca_config = cfg, ca_targets = ts, ca_handlers = hs\<rparr>))))"

definition handler :: "string \<Rightarrow> bool \<Rightarrow> campaign_handler result" where
  "handler name cleanup_none =
     (if name = []
      then Inl (PlainError ''Invariant campaign handler names must not be empty.'')
      else Inr \<lparr>hd_name = name, hd_cleanup_none = cleanup_none\<rparr>)"

section \<open>Outcomes, models and metrics\<close>

datatype metric_outcome =
    Accepted string
  | Discarded string
  | MalformedResponse string
  | ProtocolRevert string
  | Timeout string
  | TransportError string
  | UnknownCommitOutcome string

fun outcome_kind :: "metric_outcome \<Rightarrow> string" where
  "outcome_kind (Accepted u) = ''accepted''"
| "outcome_kind (Discarded r) = ''discarded''"
| "outcome_kind (MalformedResponse r) = ''malformed-response''"
| "outcome_kind (ProtocolRevert r) = ''protocol-revert''"
| "outcome_kind (Timeout r) = ''timeout''"
| "outcome_kind (TransportError r) = ''transport-error''"
| "outcome_kind (UnknownCommitOutcome r) = ''unknown-commit-outcome''"

record ('ledger, 'ghost) campaign_model =
  cm_ledger :: 'ledger
  cm_ghost :: 'ghost

definition reconcileCampaignModel ::
    "('l, 'g) campaign_model \<Rightarrow> 'l \<Rightarrow> ('l, 'g) campaign_model" where
  "reconcileCampaignModel m l = \<lparr>cm_ledger = l, cm_ghost = cm_ghost m\<rparr>"

definition applyAcceptedGhostTransition ::
    "('l, 'g) campaign_model \<Rightarrow> metric_outcome \<Rightarrow> ('g \<Rightarrow> 'g) \<Rightarrow> ('l, 'g) campaign_model" where
  "applyAcceptedGhostTransition m outcome transition =
     (if outcome_kind outcome \<noteq> ''accepted'' then m
      else \<lparr>cm_ledger = cm_ledger m, cm_ghost = transition (cm_ghost m)\<rparr>)"

type_synonym metric_group = "(string \<times> (string \<times> nat) list) list"

record campaign_metrics =
  byActor :: metric_group
  byTarget :: metric_group

definition createCampaignMetrics :: campaign_metrics where
  "createCampaignMetrics = \<lparr>byActor = [], byTarget = []\<rparr>"

text \<open>\<^verbatim>\<open>metric[key]?.[outcome] ?? 0\<close>, and \<^verbatim>\<open>{ ...metric[key] }\<close>.\<close>

definition metric_row :: "metric_group \<Rightarrow> string \<Rightarrow> (string \<times> nat) list" where
  "metric_row metric key = (case map_of metric key of Some row \<Rightarrow> row | None \<Rightarrow> [])"

definition row_count :: "(string \<times> nat) list \<Rightarrow> string \<Rightarrow> nat" where
  "row_count row outcome = (case map_of row outcome of Some n \<Rightarrow> n | None \<Rightarrow> 0)"

definition incrementMetric ::
    "(string \<Rightarrow> string \<Rightarrow> bool) \<Rightarrow> metric_group \<Rightarrow> string \<Rightarrow> string \<Rightarrow> metric_group" where
  "incrementMetric le metric key outcome =
     (let row = metric_row metric key;
          updated = obj_set key (obj_set outcome (row_count row outcome + 1) row) metric in
      obj_from_entries (map (\<lambda>(k, outcomes). (k, obj_from_entries (sort_entries le outcomes)))
        (sort_entries le updated)))"

definition recordCampaignAction ::
    "(string \<Rightarrow> string \<Rightarrow> bool) \<Rightarrow> campaign_metrics \<Rightarrow> string \<Rightarrow> metric_outcome \<Rightarrow> string \<Rightarrow>
     campaign_metrics" where
  "recordCampaignAction le metrics actor outcome targetKey =
     metrics
       \<lparr>byActor := incrementMetric le (byActor metrics) actor (outcome_kind outcome),
        byTarget := incrementMetric le (byTarget metrics) targetKey (outcome_kind outcome)\<rparr>"

section \<open>Which definitions are accepted\<close>

definition positive_safe :: "js_number \<Rightarrow> bool" where
  "positive_safe x \<longleftrightarrow> (\<exists>n. x = Int_Number n \<and> 1 \<le> n \<and> n \<le> max_safe)"

definition config_ok :: "campaign_config \<Rightarrow> bool" where
  "config_ok c \<longleftrightarrow>
     positive_safe (cc_runs c) \<and> positive_safe (cc_depth c) \<and>
     (\<forall>x. cc_seed c = Some x \<longrightarrow> isSafeInteger x) \<and>
     (\<forall>x. cc_timeoutMs c = Some x \<longrightarrow> positive_safe x)"

lemma positive_safe_iff: "positive_safe x \<longleftrightarrow> isSafeInteger x \<and> \<not> less_than_one x"
  by (cases x) (auto simp: positive_safe_def isSafeInteger_def less_than_one_def safe_int_def)

lemma resolveConfig_ok: "(\<exists>cfg. resolveConfig c = Inr cfg) \<longleftrightarrow> config_ok c"
  by (auto simp: resolveConfig_def config_ok_def positive_safe_iff split: option.splits)

definition target_ok :: "campaign_runtime \<Rightarrow> campaign_target \<Rightarrow> bool" where
  "target_ok rt t \<longleftrightarrow>
     ct_key t \<noteq> [] \<and> ct_actors t \<noteq> Some [] \<and>
     (\<forall>as. ct_actors t = Some as \<longrightarrow> (\<forall>a \<in> set as. obj_has a (cr_actors rt)))"

lemma validateTarget_ok: "validateTarget t rt = Inr () \<longleftrightarrow> target_ok rt t"
proof (cases "ct_actors t")
  case (Some as)
  then show ?thesis
    by (auto simp: validateTarget_def target_ok_def each_result_Inr_iff unknown_actor_def)
qed (auto simp: validateTarget_def target_ok_def)

lemma define_targets_ok:
  "define_targets rt seen ts = Inr ts' \<longleftrightarrow>
     ts' = ts \<and> (\<forall>t \<in> set ts. target_ok rt t) \<and> distinct (map ct_key ts)
     \<and> ct_key ` set ts \<inter> set seen = {}"
proof (induction ts arbitrary: seen ts')
  case (Cons t ts)
  have "define_targets rt seen (t # ts) = Inr ts' \<longleftrightarrow>
      target_ok rt t \<and> ct_key t \<notin> set seen \<and>
      (\<exists>rest. define_targets rt (ct_key t # seen) ts = Inr rest \<and> ts' = t # rest)"
    by (auto simp: bind_result_Inr_iff validateTarget_ok)
  then show ?case by (auto simp: Cons)
qed auto

lemma validateHandlers_ok:
  "validateHandlers names hs rt = Inr () \<longleftrightarrow>
     distinct (map hd_name hs) \<and> hd_name ` set hs \<inter> set names = {} \<and>
     (cr_isolation rt = IsolationCleanup \<longrightarrow> (\<forall>h \<in> set hs. \<not> hd_cleanup_none h))"
  by (induction hs arbitrary: names) auto

lemma defineInvariantCampaign_ok:
  "(\<exists>c. defineInvariantCampaign rt config handlers targets = Inr c) \<longleftrightarrow>
     config_ok config \<and> targets \<noteq> [] \<and> (\<forall>t \<in> set targets. target_ok rt t) \<and>
     distinct (map ct_key targets) \<and>
     (\<forall>hs. handlers = Some hs \<longrightarrow>
        distinct (map hd_name hs) \<and>
        (cr_isolation rt = IsolationCleanup \<longrightarrow> (\<forall>h \<in> set hs. \<not> hd_cleanup_none h)))"
proof -
  have "(\<exists>c. defineInvariantCampaign rt config handlers targets = Inr c) \<longleftrightarrow>
      (\<exists>cfg. resolveConfig config = Inr cfg) \<and>
      (\<exists>ts. define_targets rt [] targets = Inr ts \<and> ts \<noteq> []) \<and>
      validateHandlers [] (case handlers of Some hs \<Rightarrow> hs | None \<Rightarrow> []) rt = Inr ()"
    by (auto simp: defineInvariantCampaign_def bind_result_Inr_iff Let_def)
  then show ?thesis
    by (auto simp: resolveConfig_ok define_targets_ok validateHandlers_ok split: option.splits)
qed

section \<open>Metrics count\<close>

definition count_at :: "metric_group \<Rightarrow> string \<Rightarrow> string \<Rightarrow> nat" where
  "count_at metric key outcome = row_count (metric_row metric key) outcome"

definition distinct_group :: "metric_group \<Rightarrow> bool" where
  "distinct_group metric \<longleftrightarrow>
     distinct (map fst metric) \<and> (\<forall>(k, row) \<in> set metric. distinct (map fst row))"

lemma from_entries_map_of: "map_of (obj_from_entries es) = map_of (rev es)"
  by (simp add: obj_from_entries_def map_of_obj_spread)

lemma from_entries_distinct: "distinct (map fst (obj_from_entries es))"
proof -
  have "distinct (map fst ps) \<Longrightarrow> distinct (map fst (obj_spread ps es))" for ps
    by (induction es arbitrary: ps) (auto simp: obj_spread_def distinct_obj_set)
  then show ?thesis by (simp add: obj_from_entries_def)
qed

lemma sorted_entries_map_of:
  "distinct (map fst es) \<Longrightarrow> map_of (obj_from_entries (sort_entries le es)) = map_of es"
  by (simp add: from_entries_map_of map_of_rev_distinct sort_entries_distinct sort_entries_map_of)

lemma map_of_sorted_rows:
  "distinct (map fst es) \<Longrightarrow>
   map_of (map (\<lambda>(k, row). (k, f row)) es) k = map_option f (map_of es k)"
  by (induction es) auto

lemma incrementMetric_rows:
  assumes "distinct_group metric"
  shows "distinct_group (incrementMetric le metric key outcome)"
    and "count_at (incrementMetric le metric key outcome) k o' =
           count_at metric k o' + (if k = key \<and> o' = outcome then 1 else 0)"
proof -
  let ?row = "metric_row metric key"
  let ?new = "obj_set outcome (row_count ?row outcome + 1) ?row"
  let ?group = "obj_set key ?new metric"
  let ?f = "\<lambda>row. obj_from_entries (sort_entries le row)"
  have row: "distinct (map fst ?row)"
    using assms by (auto simp: metric_row_def distinct_group_def dest: map_of_SomeD split: option.split)
  have group: "distinct (map fst ?group)"
    using assms by (simp add: distinct_group_def distinct_obj_set)
  have rows: "distinct (map fst r)" if "(j, r) \<in> set ?group" for j r
  proof -
    have "map_of ?group j = Some r" by (rule map_of_is_SomeI [OF group that])
    then have "r = ?new \<or> map_of metric j = Some r" by (auto simp: map_of_obj_set split: if_splits)
    then show ?thesis
      using assms row by (auto simp: distinct_group_def distinct_obj_set dest: map_of_SomeD)
  qed
  let ?entries = "map (\<lambda>(j, r). (j, ?f r)) (sort_entries le ?group)"
  have keys: "map fst ?entries = map fst (sort_entries le ?group)" by (simp add: case_prod_unfold comp_def)
  have inc: "incrementMetric le metric key outcome = obj_from_entries ?entries"
    by (simp add: incrementMetric_def Let_def)
  have look: "map_of (obj_from_entries ?entries) j = map_option ?f (map_of ?group j)" for j
  proof -
    have "distinct (map fst ?entries)" unfolding keys by (rule sort_entries_distinct [OF group])
    then have "map_of (obj_from_entries ?entries) j = map_of ?entries j"
      by (simp add: from_entries_map_of map_of_rev_distinct)
    also have "\<dots> = map_option ?f (map_of ?group j)"
      using group by (simp add: map_of_sorted_rows sort_entries_distinct sort_entries_map_of)
    finally show ?thesis .
  qed
  show "distinct_group (incrementMetric le metric key outcome)"
    unfolding inc distinct_group_def
  proof (intro conjI ballI, goal_cases)
    case 1 show ?case by (rule from_entries_distinct)
  next
    case (2 p)
    obtain j r where p: "p = (j, r)" by (cases p)
    have "map_of (obj_from_entries ?entries) j = Some r"
      using 2 from_entries_distinct [of ?entries] p by simp
    then have "map_option ?f (map_of ?group j) = Some r" unfolding look .
    then obtain r' where "r = ?f r'" by blast
    then show ?case using p by (simp add: from_entries_distinct)
  qed
  show "count_at (incrementMetric le metric key outcome) k o' =
           count_at metric k o' + (if k = key \<and> o' = outcome then 1 else 0)"
  proof (cases "map_of ?group k")
    case None
    have "metric_row (incrementMetric le metric key outcome) k = []"
      unfolding inc by (subst metric_row_def, simp only: look None) simp
    moreover have "k \<noteq> key" "map_of metric k = None"
      using None by (simp_all add: map_of_obj_set split: if_splits)
    ultimately show ?thesis
      unfolding count_at_def by (simp add: row_count_def metric_row_def)
  next
    case (Some r)
    have "map_of (?f r) = map_of r"
      by (intro sorted_entries_map_of rows [OF map_of_SomeD [OF Some]])
    then have "count_at (incrementMetric le metric key outcome) k o' = row_count r o'"
      unfolding inc count_at_def by (subst (2) metric_row_def, simp only: look Some) (simp add: row_count_def)
    moreover have "row_count r o' = count_at metric k o' + (if k = key \<and> o' = outcome then 1 else 0)"
      using Some by (auto simp: map_of_obj_set count_at_def row_count_def metric_row_def split: if_splits option.split)
    ultimately show ?thesis by simp
  qed
qed

definition record_all ::
    "(string \<Rightarrow> string \<Rightarrow> bool) \<Rightarrow> (string \<times> metric_outcome \<times> string) list \<Rightarrow> campaign_metrics \<Rightarrow>
     campaign_metrics" where
  "record_all le actions metrics =
     fold (\<lambda>(actor, outcome, target) m. recordCampaignAction le m actor outcome target) actions metrics"

lemma record_all_counts:
  assumes "distinct_group (byActor m)" "distinct_group (byTarget m)"
  shows "count_at (byActor (record_all le actions m)) a k =
           count_at (byActor m) a k
           + length (filter (\<lambda>(actor, outcome, target). actor = a \<and> outcome_kind outcome = k) actions)"
    and "count_at (byTarget (record_all le actions m)) t k =
           count_at (byTarget m) t k
           + length (filter (\<lambda>(actor, outcome, target). target = t \<and> outcome_kind outcome = k) actions)"
proof -
  have "count_at (byActor (record_all le actions m)) a k =
           count_at (byActor m) a k
           + length (filter (\<lambda>(actor, outcome, target). actor = a \<and> outcome_kind outcome = k) actions)
       \<and> count_at (byTarget (record_all le actions m)) t k =
           count_at (byTarget m) t k
           + length (filter (\<lambda>(actor, outcome, target). target = t \<and> outcome_kind outcome = k) actions)"
    using assms
  proof (induction actions arbitrary: m)
    case (Cons x xs)
    obtain a' oc t' where x: "x = (a', oc, t')" by (cases x)
    let ?m = "recordCampaignAction le m a' oc t'"
    have d: "distinct_group (byActor ?m)" "distinct_group (byTarget ?m)"
      using Cons.prems by (simp_all add: recordCampaignAction_def incrementMetric_rows)
    have "record_all le (x # xs) m = record_all le xs ?m" by (simp add: record_all_def x)
    moreover have "count_at (byActor ?m) a k = count_at (byActor m) a k
        + (if a = a' \<and> k = outcome_kind oc then 1 else 0)"
      using Cons.prems by (simp add: recordCampaignAction_def incrementMetric_rows)
    moreover have "count_at (byTarget ?m) t k = count_at (byTarget m) t k
        + (if t = t' \<and> k = outcome_kind oc then 1 else 0)"
      using Cons.prems by (simp add: recordCampaignAction_def incrementMetric_rows)
    ultimately show ?case using Cons.IH [OF d] x by auto
  qed (simp add: record_all_def)
  then show "count_at (byActor (record_all le actions m)) a k =
           count_at (byActor m) a k
           + length (filter (\<lambda>(actor, outcome, target). actor = a \<and> outcome_kind outcome = k) actions)"
    "count_at (byTarget (record_all le actions m)) t k =
           count_at (byTarget m) t k
           + length (filter (\<lambda>(actor, outcome, target). target = t \<and> outcome_kind outcome = k) actions)"
    by simp_all
qed

end
