(* ===== verification/JS_Async.thy ===== *)
theory JS_Async
  imports JS_Value
begin

text \<open>
  Asynchronous functions of JavaScript over an explicit state: a promise that is awaited at once
  returns a value or throws, and leaves a new state. The second section is a Hoare logic for them.
\<close>

section \<open>Asynchronous functions\<close>

datatype thrown =
    Thrown_Error string   \<comment> \<open>an \<open>Error\<close>, with its message\<close>
  | Thrown_Value string   \<comment> \<open>any other value, by its \<open>String(error)\<close>\<close>

type_synonym ('s, 'x) async = "'s \<Rightarrow> (thrown + 'x) \<times> 's"

definition async_return :: "'x \<Rightarrow> ('s, 'x) async" where
  "async_return x = (\<lambda>s. (Inr x, s))"

definition async_bind :: "('s, 'x) async \<Rightarrow> ('x \<Rightarrow> ('s, 'y) async) \<Rightarrow> ('s, 'y) async" where
  "async_bind m f = (\<lambda>s. case m s of (Inl e, s') \<Rightarrow> (Inl e, s') | (Inr x, s') \<Rightarrow> f x s')"

definition async_catch :: "('s, 'x) async \<Rightarrow> (thrown \<Rightarrow> ('s, 'x) async) \<Rightarrow> ('s, 'x) async" where
  "async_catch m h = (\<lambda>s. case m s of (Inl e, s') \<Rightarrow> h e s' | (Inr x, s') \<Rightarrow> (Inr x, s'))"

text \<open>\<^verbatim>\<open>try { m } finally { f }\<close>: an error of \<open>f\<close> replaces that of \<open>m\<close>.\<close>

definition async_finally :: "('s, 'x) async \<Rightarrow> ('s, unit) async \<Rightarrow> ('s, 'x) async" where
  "async_finally m f = (\<lambda>s.
     case m s of (r, s') \<Rightarrow> (case f s' of (Inl e, s'') \<Rightarrow> (Inl e, s'') | (Inr u, s'') \<Rightarrow> (r, s'')))"

definition async_modify :: "('s \<Rightarrow> 's) \<Rightarrow> ('s, unit) async" where
  "async_modify f = (\<lambda>s. (Inr (), f s))"

lemmas async_defs = async_return_def async_bind_def async_catch_def async_finally_def async_modify_def

section \<open>Normal and exceptional postconditions\<close>

definition ensures ::
    "('s \<Rightarrow> bool) \<Rightarrow> ('s, 'x) async \<Rightarrow> ('x \<Rightarrow> 's \<Rightarrow> bool) \<Rightarrow> ('s \<Rightarrow> bool) \<Rightarrow> bool" where
  "ensures P m Q E \<longleftrightarrow>
     (\<forall>s. P s \<longrightarrow> (case m s of (Inr x, s') \<Rightarrow> Q x s' | (Inl e, s') \<Rightarrow> E s'))"

lemma ensures_return [intro]: "(\<And>s. P s \<Longrightarrow> Q x s) \<Longrightarrow> ensures P (async_return x) Q E"
  by (simp add: ensures_def async_return_def)

lemma ensures_modify [intro]: "(\<And>s. P s \<Longrightarrow> Q () (f s)) \<Longrightarrow> ensures P (async_modify f) Q E"
  by (simp add: ensures_def async_modify_def)

lemma ensures_bind:
  assumes "ensures P m R E" "\<And>x. ensures (R x) (f x) Q E"
  shows "ensures P (async_bind m f) Q E"
  using assms by (fastforce simp: ensures_def async_bind_def split: prod.splits sum.splits)

lemma ensures_catch:
  assumes "ensures P m Q R" "\<And>e. ensures R (h e) Q E"
  shows "ensures P (async_catch m h) Q E"
  using assms by (fastforce simp: ensures_def async_catch_def split: prod.splits sum.splits)

lemma ensures_weaken:
  assumes "ensures P m Q E" "\<And>s. P' s \<Longrightarrow> P s" "\<And>x s. Q x s \<Longrightarrow> Q' x s" "\<And>s. E s \<Longrightarrow> E' s"
  shows "ensures P' m Q' E'"
  using assms by (fastforce simp: ensures_def split: prod.splits sum.splits)

lemma ensures_if: "ensures P m Q E \<Longrightarrow> ensures P m' Q E \<Longrightarrow> ensures P (if b then m else m') Q E"
  by simp

lemma bind_modify [simp]: "async_bind (async_modify f) g s = g () (f s)"
  by (simp add: async_bind_def async_modify_def)

lemma ensures_if_state:
  assumes "ensures (\<lambda>s. P s \<and> b s) m Q E" "\<And>s. P s \<Longrightarrow> \<not> b s \<Longrightarrow> Q () s"
  shows "ensures P (\<lambda>s. if b s then m s else (Inr (), s)) Q E"
  using assms by (auto simp: ensures_def)

lemma ensures_unless_state:
  assumes "ensures (\<lambda>s. P s \<and> b s) m Q E" "\<And>s. P s \<Longrightarrow> \<not> b s \<Longrightarrow> Q () s"
  shows "ensures P (\<lambda>s. if \<not> b s then (Inr (), s) else m s) Q E"
  using assms by (auto simp: ensures_def)

lemma ensures_option_state:
  assumes "\<And>x. ensures P (m x) Q E" "\<And>s. P s \<Longrightarrow> Q () s"
  shows "ensures P (\<lambda>s. case f s of None \<Rightarrow> (Inr (), s) | Some x \<Rightarrow> m x s) Q E"
  using assms by (simp add: ensures_def split: option.split)

lemma ensures_result:
  assumes "ensures P m Q (\<lambda>_. False)" "P s"
  obtains x s' where "m s = (Inr x, s')" "Q x s'"
proof (cases "m s")
  case (Pair r s')
  then show ?thesis using assms that by (cases r) (auto simp: ensures_def)
qed

end
