(* ===== verification/Campaign_Runner.thy ===== *)
theory Campaign_Runner
  imports Campaign_Definition JS_Async
begin

text \<open>
  Running a campaign: \<^verbatim>\<open>src/src/testing/campaign/campaign-runner.ts\<close> and
  \<^verbatim>\<open>src/src/testing/runtime/campaign-isolation.ts\<close>. A hook is an asynchronous function of the
  caller: it reads and changes a world of any type \<open>'w\<close>, and returns a value or throws. The hooks
  are awaited one after the other, so the world is threaded through them. The generation of inputs
  by fast-check is not part of the model.
\<close>

section \<open>Invariant checks\<close>

record invariant_failure =
  if_code :: string
  if_invariant :: string
  if_message :: string

record 'w invariant_check =
  ic_name :: string
  ic_check :: "('w, (string \<times> string) option) async"   \<comment> \<open>code and message\<close>

definition error_message :: "thrown \<Rightarrow> string" where
  "error_message e = (case e of Thrown_Error m \<Rightarrow> m | Thrown_Value m \<Rightarrow> m)"

fun evaluateCampaignInvariantsAsync ::
    "'w invariant_check list \<Rightarrow> ('w, invariant_failure list) async" where
  "evaluateCampaignInvariantsAsync [] = async_return []"
| "evaluateCampaignInvariantsAsync (i # is) =
     async_bind
       (async_catch
         (async_bind (ic_check i) (\<lambda>failure. async_return
           (case failure of
              Some (code, message) \<Rightarrow>
                [\<lparr>if_code = code, if_invariant = ic_name i, if_message = message\<rparr>]
            | None \<Rightarrow> [])))
         (\<lambda>e. async_return
           [\<lparr>if_code = ''thrown'', if_invariant = ic_name i, if_message = error_message e\<rparr>]))
       (\<lambda>pushed. async_bind (evaluateCampaignInvariantsAsync is) (\<lambda>rest. async_return (pushed @ rest)))"

section \<open>Lifecycle\<close>

record executable_action =
  ac_actor :: string
  ac_targetKey :: string

datatype 'a lifecycle_phase = BeforeRun | AfterAction 'a | AfterRun | PostCleanup

datatype failure_kind = ExecutionError | InvalidDepth

text \<open>An undefined context is \<open>None\<close>: \<^verbatim>\<open>setupAsync\<close> may return one.\<close>

record ('w, 'c, 'z) lifecycle_init =
  li_checkInvariants ::
    "('c option \<Rightarrow> 'z executable_action_scheme lifecycle_phase \<Rightarrow> ('w, invariant_failure list) async) option"
  li_cleanup :: "('c option \<Rightarrow> ('w, unit) async) option"
  li_depth :: js_number
  li_execute :: "'c option \<Rightarrow> 'z executable_action_scheme \<Rightarrow> ('w, metric_outcome) async"
  li_failOnRevert :: bool
  li_reconcile ::
    "('c option \<Rightarrow> 'z executable_action_scheme lifecycle_phase \<Rightarrow> ('w, unit) async) option"
  li_setup :: "'z executable_action_scheme list \<Rightarrow> ('w, 'c option) async"

record 'z lifecycle_trace =
  lt_actions :: "('z executable_action_scheme \<times> metric_outcome) list"
  lt_failures :: "invariant_failure list"
  lt_metrics :: campaign_metrics
  lt_failureKind :: "failure_kind option"

text \<open>The local variables of \<^verbatim>\<open>runCampaignCandidateAsync\<close>, with the world.\<close>

record ('w, 'c, 'z) run_state =
  rs_world :: 'w
  rs_context :: "'c option"
  rs_metrics :: campaign_metrics
  rs_executed :: "('z executable_action_scheme \<times> metric_outcome) list"
  rs_failures :: "invariant_failure list"
  rs_failureKind :: "failure_kind option"
  rs_passed :: bool

definition on_world :: "('w, 'x) async \<Rightarrow> (('w, 'c, 'z) run_state, 'x) async" where
  "on_world h = (\<lambda>s. case h (rs_world s) of (r, w) \<Rightarrow> (r, s\<lparr>rs_world := w\<rparr>))"

definition check_phase ::
    "('w, 'c, 'z) lifecycle_init \<Rightarrow> 'z executable_action_scheme lifecycle_phase \<Rightarrow>
     (('w, 'c, 'z) run_state, unit) async" where
  "check_phase init phase = (\<lambda>s.
     case (rs_context s, li_checkInvariants init) of
       (Some c, Some check) \<Rightarrow>
         async_bind (on_world (check (Some c) phase)) (\<lambda>phaseFailures.
           async_modify (\<lambda>s. s\<lparr>rs_failures := rs_failures s @ phaseFailures,
             rs_passed := (rs_passed s \<and> phaseFailures = [])\<rparr>)) s
     | _ \<Rightarrow> (Inr (), s))"

definition reconcile_phase ::
    "('w, 'c, 'z) lifecycle_init \<Rightarrow> 'z executable_action_scheme lifecycle_phase \<Rightarrow>
     (('w, 'c, 'z) run_state, unit) async" where
  "reconcile_phase init phase = (\<lambda>s.
     case li_reconcile init of
       Some reconcile \<Rightarrow> on_world (reconcile (rs_context s) phase) s
     | None \<Rightarrow> (Inr (), s))"

definition acceptable :: "bool \<Rightarrow> metric_outcome \<Rightarrow> bool" where
  "acceptable failOnRevert outcome \<longleftrightarrow>
     \<not> (outcome_kind outcome \<noteq> ''accepted''
        \<and> (outcome_kind outcome \<noteq> ''protocol-revert'' \<or> failOnRevert))"

text \<open>One iteration of the loop over the actions; \<open>le\<close> is the order of \<^verbatim>\<open>localeCompare\<close>.\<close>

definition run_action ::
    "(string \<Rightarrow> string \<Rightarrow> bool) \<Rightarrow> ('w, 'c, 'z) lifecycle_init \<Rightarrow> 'z executable_action_scheme \<Rightarrow>
     (('w, 'c, 'z) run_state, unit) async" where
  "run_action le init action =
     async_bind
       (async_catch (\<lambda>s. on_world (li_execute init (rs_context s) action) s)
         (\<lambda>_. async_return (TransportError ''Campaign action execution threw an error.'')))
       (\<lambda>outcome.
     async_bind
       (async_modify (\<lambda>s. s
         \<lparr>rs_executed := rs_executed s @ [(action, outcome)],
          rs_metrics := recordCampaignAction le (rs_metrics s) (ac_actor action) outcome
            (ac_targetKey action)\<rparr>))
       (\<lambda>_.
     async_bind
       (if outcome_kind outcome = ''accepted'' then reconcile_phase init (AfterAction action)
        else async_return ())
       (\<lambda>_.
     async_bind (check_phase init (AfterAction action)) (\<lambda>_.
       if \<not> acceptable (li_failOnRevert init) outcome
       then async_modify (\<lambda>s. s\<lparr>rs_passed := False\<rparr>)
       else async_return ()))))"

fun run_actions ::
    "(string \<Rightarrow> string \<Rightarrow> bool) \<Rightarrow> ('w, 'c, 'z) lifecycle_init \<Rightarrow> 'z executable_action_scheme list \<Rightarrow>
     (('w, 'c, 'z) run_state, unit) async" where
  "run_actions le init [] = async_return ()"
| "run_actions le init (action # actions) = (\<lambda>s.
     if \<not> rs_passed s then (Inr (), s)
     else async_bind (run_action le init action) (\<lambda>_. run_actions le init actions) s)"

definition run_body ::
    "(string \<Rightarrow> string \<Rightarrow> bool) \<Rightarrow> ('w, 'c, 'z) lifecycle_init \<Rightarrow> 'z executable_action_scheme list \<Rightarrow>
     (('w, 'c, 'z) run_state, unit) async" where
  "run_body le init actions =
     async_bind (on_world (li_setup init actions)) (\<lambda>context.
     async_bind (async_modify (\<lambda>s. s\<lparr>rs_context := context\<rparr>)) (\<lambda>_.
     async_bind (reconcile_phase init BeforeRun) (\<lambda>_.
     async_bind (check_phase init BeforeRun) (\<lambda>_.
     async_bind (run_actions le init actions) (\<lambda>_. \<lambda>s.
       if rs_passed s then check_phase init AfterRun s else (Inr (), s))))))"

definition execution_error :: "('w, 'c, 'z) run_state \<Rightarrow> ('w, 'c, 'z) run_state" where
  "execution_error s = s\<lparr>rs_passed := False, rs_failureKind := Some ExecutionError\<rparr>"

definition late_error :: "('w, 'c, 'z) run_state \<Rightarrow> ('w, 'c, 'z) run_state" where
  "late_error s = s\<lparr>rs_passed := False,
     rs_failureKind := (case rs_failureKind s of Some k \<Rightarrow> Some k | None \<Rightarrow> Some ExecutionError)\<rparr>"

definition run_finally ::
    "('w, 'c, 'z) lifecycle_init \<Rightarrow> (('w, 'c, 'z) run_state, unit) async" where
  "run_finally init = (\<lambda>s.
     case rs_context s of
       None \<Rightarrow> (Inr (), s)
     | Some c \<Rightarrow>
         async_bind
           (async_catch
             (case li_cleanup init of
                Some cleanup \<Rightarrow> on_world (cleanup (Some c))
              | None \<Rightarrow> async_return ())
             (\<lambda>_. async_modify late_error))
           (\<lambda>_. async_catch (check_phase init PostCleanup) (\<lambda>_. async_modify late_error)) s)"

definition initial_run :: "'w \<Rightarrow> ('w, 'c, 'z) run_state" where
  "initial_run w =
     \<lparr>rs_world = w, rs_context = None, rs_metrics = createCampaignMetrics, rs_executed = [],
      rs_failures = [], rs_failureKind = None, rs_passed = True\<rparr>"

definition candidate_state ::
    "(string \<Rightarrow> string \<Rightarrow> bool) \<Rightarrow> ('w, 'c, 'z) lifecycle_init \<Rightarrow> 'z executable_action_scheme list \<Rightarrow>
     'w \<Rightarrow> ('w, 'c, 'z) run_state" where
  "candidate_state le init actions w =
     snd (async_bind
       (async_catch (run_body le init actions) (\<lambda>_. async_modify execution_error))
       (\<lambda>_. run_finally init) (initial_run w))"

definition runCampaignCandidateAsync ::
    "(string \<Rightarrow> string \<Rightarrow> bool) \<Rightarrow> ('w, 'c, 'z) lifecycle_init \<Rightarrow> 'z executable_action_scheme list \<Rightarrow>
     'w \<Rightarrow> (bool \<times> 'z lifecycle_trace) \<times> 'w" where
  "runCampaignCandidateAsync le init actions w =
     (if Int_Number (int (length actions)) \<noteq> li_depth init
      then ((False, \<lparr>lt_actions = [], lt_failures = [], lt_metrics = createCampaignMetrics,
                     lt_failureKind = Some InvalidDepth\<rparr>), w)
      else
        (let s = candidate_state le init actions w in
         ((rs_passed s, \<lparr>lt_actions = rs_executed s, lt_failures = rs_failures s,
            lt_metrics = rs_metrics s, lt_failureKind = rs_failureKind s\<rparr>), rs_world s)))"

section \<open>Campaigns with declared invariants\<close>

record ('w, 'c) campaign_invariant =
  ci_label :: "string option"
  ci_name :: string
  ci_check :: "'c option \<Rightarrow> ('w, unit) async"   \<comment> \<open>called with the model and the ghost of the context\<close>

definition invariant_name :: "nat \<Rightarrow> ('w, 'c) campaign_invariant \<Rightarrow> string" where
  "invariant_name index i =
     (case ci_label i of
        Some l \<Rightarrow> l
      | None \<Rightarrow> if ci_name i \<noteq> [] then ci_name i else ''invariant-'' @ digits_of_nat (index + 1))"

definition declared_checks ::
    "'c option \<Rightarrow> ('w, 'c) campaign_invariant list \<Rightarrow> 'w invariant_check list" where
  "declared_checks context invariants =
     map (\<lambda>(index, i).
       \<lparr>ic_name = invariant_name index i,
        ic_check = async_bind (ci_check i context) (\<lambda>_. async_return None)\<rparr>)
     (zip [0..<length invariants] invariants)"

definition invariant_campaign_check ::
    "('w, 'c) campaign_invariant list \<Rightarrow>
     ('c option \<Rightarrow> 'p \<Rightarrow> ('w, invariant_failure list) async) option \<Rightarrow>
     'c option \<Rightarrow> 'p \<Rightarrow> ('w, invariant_failure list) async" where
  "invariant_campaign_check invariants additional context phase =
     async_bind (evaluateCampaignInvariantsAsync (declared_checks context invariants))
       (\<lambda>declaredFailures.
     async_bind
       (case additional of Some check \<Rightarrow> check context phase | None \<Rightarrow> async_return [])
       (\<lambda>additionalFailures. async_return (declaredFailures @ additionalFailures)))"

section \<open>Isolation\<close>

datatype isolation_phase = Before_Run | After_Run

datatype 'w run_isolation =
    Cleanup_Isolation
  | External_Isolation "isolation_phase \<Rightarrow> ('w, unit) async"
  | Snapshot_Isolation "('w, string) async" "string \<Rightarrow> ('w, unit) async"

definition runWithCampaignIsolationAsync ::
    "'w run_isolation \<Rightarrow> ('w, unit) async \<Rightarrow> ('w, unit) async" where
  "runWithCampaignIsolationAsync isolation run =
     (case isolation of
        External_Isolation reset \<Rightarrow>
          async_bind (reset Before_Run) (\<lambda>_. async_finally run (reset After_Run))
      | Snapshot_Isolation create restore \<Rightarrow>
          async_bind create (\<lambda>snapshot. async_finally run (restore snapshot))
      | Cleanup_Isolation \<Rightarrow> run)"

end
