(* ===== verification/Campaign_Laws.thy ===== *)
theory Campaign_Laws
  imports Campaign_Runner
begin

text \<open>
  What a campaign run guarantees, whatever its hooks do: what a hook leaves unchanged, the invariant of the local variables of \<^verbatim>\<open>runCampaignCandidateAsync\<close>
  (\<open>run_inv\<close>), and its consequences for the trace, the metrics and the cleanup.
\<close>

section \<open>Hooks\<close>

text \<open>A hook changes only the world.\<close>

definition world_free :: "(('w, 'c, 'z) run_state \<Rightarrow> bool) \<Rightarrow> bool" where
  "world_free P \<longleftrightarrow> (\<forall>s w. P s \<longrightarrow> P (s\<lparr>rs_world := w\<rparr>))"

lemma ensures_on_world:
  "world_free P \<Longrightarrow> ensures P (on_world h) (\<lambda>_. P) P"
  by (auto simp: ensures_def on_world_def world_free_def split: prod.splits sum.splits)

lemma ensures_reconcile: "world_free P \<Longrightarrow> ensures P (reconcile_phase init phase) (\<lambda>_. P) P"
  by (auto simp: ensures_def reconcile_phase_def on_world_def world_free_def
      split: option.split prod.splits sum.splits)

lemma ensures_check:
  assumes "world_free P"
    and "\<And>s fs. P s \<Longrightarrow> P (s\<lparr>rs_failures := rs_failures s @ fs, rs_passed := (rs_passed s \<and> fs = [])\<rparr>)"
  shows "ensures P (check_phase init phase) (\<lambda>_. P) P"
proof -
  have "ensures P (async_bind (on_world h) (\<lambda>phaseFailures.
      async_modify (\<lambda>s. s\<lparr>rs_failures := rs_failures s @ phaseFailures,
        rs_passed := (rs_passed s \<and> phaseFailures = [])\<rparr>))) (\<lambda>_. P) P" for h
    by (rule ensures_bind [OF ensures_on_world [OF assms(1)]]) (rule ensures_modify, erule assms(2))
  then show ?thesis by (simp add: ensures_def check_phase_def split: option.split)
qed

section \<open>The invariant of a run\<close>

definition recorded :: "('z executable_action_scheme \<times> metric_outcome) list \<Rightarrow>
    (string \<times> metric_outcome \<times> string) list" where
  "recorded executed = map (\<lambda>(a, outcome). (ac_actor a, outcome, ac_targetKey a)) executed"

definition run_inv ::
    "(string \<Rightarrow> string \<Rightarrow> bool) \<Rightarrow> ('w, 'c, 'z) lifecycle_init \<Rightarrow> 'z executable_action_scheme list \<Rightarrow>
     ('w, 'c, 'z) run_state \<Rightarrow> bool" where
  "run_inv le init acts s \<longleftrightarrow>
     map fst (rs_executed s) = acts
     \<and> rs_metrics s = record_all le (recorded (rs_executed s)) createCampaignMetrics
     \<and> rs_failureKind s = None
     \<and> (rs_passed s \<longleftrightarrow>
          rs_failures s = [] \<and> (\<forall>(a, outcome) \<in> set (rs_executed s).
            acceptable (li_failOnRevert init) outcome))
     \<and> (\<forall>(a, outcome) \<in> set (butlast (rs_executed s)). acceptable (li_failOnRevert init) outcome)"

text \<open>What holds when a hook has thrown inside the \<^verbatim>\<open>try\<close>.\<close>

definition run_partial ::
    "(string \<Rightarrow> string \<Rightarrow> bool) \<Rightarrow> ('w, 'c, 'z) lifecycle_init \<Rightarrow> 'z executable_action_scheme list \<Rightarrow>
     ('w, 'c, 'z) run_state \<Rightarrow> bool" where
  "run_partial le init actions s \<longleftrightarrow>
     (\<exists>rest. map fst (rs_executed s) @ rest = actions)
     \<and> rs_metrics s = record_all le (recorded (rs_executed s)) createCampaignMetrics
     \<and> (\<forall>(a, outcome) \<in> set (butlast (rs_executed s)). acceptable (li_failOnRevert init) outcome)"

definition run_done ::
    "(string \<Rightarrow> string \<Rightarrow> bool) \<Rightarrow> ('w, 'c, 'z) lifecycle_init \<Rightarrow> 'z executable_action_scheme list \<Rightarrow>
     ('w, 'c, 'z) run_state \<Rightarrow> bool" where
  "run_done le init actions s \<longleftrightarrow>
     run_partial le init actions s
     \<and> (rs_passed s \<longleftrightarrow>
          rs_failures s = [] \<and> rs_failureKind s = None \<and> map fst (rs_executed s) = actions
          \<and> (\<forall>(a, outcome) \<in> set (rs_executed s). acceptable (li_failOnRevert init) outcome))"

lemmas run_props = run_inv_def run_partial_def run_done_def

lemma world_free_run [simp]:
  "world_free (run_inv le init acts)" "world_free (run_partial le init actions)"
  "world_free (run_done le init actions)"
  by (auto simp: world_free_def run_props)

lemma check_keeps:
  "ensures (run_inv le init acts) (check_phase init phase) (\<lambda>_. run_inv le init acts) (run_inv le init acts)"
  "ensures (run_done le init actions) (check_phase init phase) (\<lambda>_. run_done le init actions)
     (run_done le init actions)"
  by (rule ensures_check; auto simp: run_props)+

lemma run_inv_partial: "run_inv le init acts s \<Longrightarrow> run_partial le init (acts @ rest) s"
  by (auto simp: run_props)

lemma record_all_append:
  "record_all le (xs @ [(actor, outcome, target)]) m =
     recordCampaignAction le (record_all le xs m) actor outcome target"
  by (simp add: record_all_def)

text \<open>After an action, before its checks, \<open>passed\<close> does not yet account for its outcome.\<close>

definition run_mid ::
    "(string \<Rightarrow> string \<Rightarrow> bool) \<Rightarrow> ('w, 'c, 'z) lifecycle_init \<Rightarrow> 'z executable_action_scheme list \<Rightarrow>
     metric_outcome \<Rightarrow> ('w, 'c, 'z) run_state \<Rightarrow> bool" where
  "run_mid le init acts outcome s \<longleftrightarrow>
     map fst (rs_executed s) = acts
     \<and> rs_metrics s = record_all le (recorded (rs_executed s)) createCampaignMetrics
     \<and> rs_failureKind s = None
     \<and> rs_executed s \<noteq> [] \<and> snd (last (rs_executed s)) = outcome
     \<and> (rs_passed s \<longleftrightarrow> rs_failures s = [])
     \<and> (\<forall>(a, outcome) \<in> set (butlast (rs_executed s)). acceptable (li_failOnRevert init) outcome)"

lemma world_free_mid [simp]: "world_free (run_mid le init acts outcome)"
  by (auto simp: world_free_def run_mid_def)

lemma check_mid:
  "ensures (run_mid le init acts oc) (check_phase init phase) (\<lambda>_. run_mid le init acts oc)
     (run_mid le init acts oc)"
  by (rule ensures_check; auto simp: run_mid_def)

lemma run_mid_partial: "run_mid le init acts oc s \<Longrightarrow> run_partial le init (acts @ rest) s"
  by (auto simp: run_mid_def run_partial_def)

lemma run_mid_inv:
  assumes "run_mid le init acts oc s"
  shows "run_inv le init acts
     (if acceptable (li_failOnRevert init) oc then s else s\<lparr>rs_passed := False\<rparr>)"
proof -
  have "rs_executed s \<noteq> []" "(fst (last (rs_executed s)), oc) = last (rs_executed s)"
    using assms by (auto simp: run_mid_def)
  then have "rs_executed s = butlast (rs_executed s) @ [(fst (last (rs_executed s)), oc)]" by simp
  then have "(\<forall>(a, outcome) \<in> set (rs_executed s). acceptable (li_failOnRevert init) outcome) \<longleftrightarrow>
      (\<forall>(a, outcome) \<in> set (butlast (rs_executed s)). acceptable (li_failOnRevert init) outcome)
      \<and> acceptable (li_failOnRevert init) oc"
    by (metis (mono_tags, lifting) Un_iff case_prod_conv in_set_conv_decomp_first list.set(1,2)
        insert_iff set_append singletonD)
  then show ?thesis using assms by (simp add: run_mid_def run_inv_def)
qed

section \<open>The steps of a run\<close>

lemma execute_keeps:
  assumes "world_free P"
  shows "ensures P
     (async_catch (\<lambda>s. on_world (li_execute init (rs_context s) action) s)
       (\<lambda>_. async_return (TransportError ''Campaign action execution threw an error.'')))
     (\<lambda>_. P) E"
proof (rule ensures_catch)
  show "ensures P (\<lambda>s. on_world (li_execute init (rs_context s) action) s) (\<lambda>_. P) P"
    using assms by (auto simp: ensures_def on_world_def world_free_def split: prod.splits sum.splits)
qed (rule ensures_return)

lemma run_action_keeps:
  "ensures (\<lambda>s. run_inv le init acts s \<and> rs_passed s) (run_action le init action)
     (\<lambda>_. run_inv le init (acts @ [action])) (run_partial le init (acts @ action # rest))"
  unfolding run_action_def
proof (rule ensures_bind [OF execute_keeps], goal_cases)
  case (2 outcome)
  let ?mid = "run_mid le init (acts @ [action]) outcome"
  let ?part = "run_partial le init (acts @ action # rest)"
  have part: "?part s" if "?mid s" for s
    using run_mid_partial [OF that, of rest] by simp
  show ?case
  proof (rule ensures_bind [where R = "\<lambda>_. ?mid"], goal_cases)
    case 1
    show ?case
      by (rule ensures_modify) (auto simp: run_inv_def run_mid_def recorded_def record_all_append)
  next
    case (2 u)
    show ?case
    proof (rule ensures_bind [where R = "\<lambda>_. ?mid"], goal_cases)
      case 1
      show ?case
        using ensures_weaken [OF ensures_reconcile [of ?mid init "AfterAction action"], of ?mid _ ?part] part
        by auto
    next
      case (2 u)
      show ?case
      proof (rule ensures_bind [where R = "\<lambda>_. ?mid"], goal_cases)
        case 1
        show ?case by (rule ensures_weaken [OF check_mid]) (auto intro: part)
      next
        case (2 u)
        have "run_inv le init (acts @ [action])
            (if acceptable (li_failOnRevert init) outcome then s else s\<lparr>rs_passed := False\<rparr>)"
          if "?mid s" for s using that by (rule run_mid_inv)
        then show ?case by (auto simp: ensures_def async_modify_def async_return_def)
      qed
    qed
  qed
qed (auto simp: world_free_def run_inv_def)

lemma run_actions_keep:
  "ensures (run_inv le init acts) (run_actions le init rest)
     (\<lambda>_ s. \<exists>more. run_inv le init (acts @ more) s \<and> (\<exists>left. rest = more @ left)
        \<and> (rs_passed s \<longrightarrow> more = rest))
     (run_partial le init (acts @ rest))"
proof (induction rest arbitrary: acts)
  case Nil
  show ?case by (auto simp: ensures_def async_return_def)
next
  case (Cons action rest)
  let ?Q = "\<lambda>_ s. \<exists>more. run_inv le init (acts @ more) s \<and> (\<exists>left. action # rest = more @ left)
        \<and> (rs_passed s \<longrightarrow> more = action # rest)"
  have "ensures (\<lambda>s. run_inv le init acts s \<and> rs_passed s)
      (async_bind (run_action le init action) (\<lambda>_. run_actions le init rest)) ?Q
      (run_partial le init (acts @ action # rest))"
  proof (rule ensures_bind [OF run_action_keeps], goal_cases)
    case (1 u)
    show ?case
    proof (rule ensures_weaken [OF Cons.IH [of "acts @ [action]"]], goal_cases)
      case (2 x s)
      then obtain more left where "run_inv le init ((acts @ [action]) @ more) s" "rest = more @ left"
        "rs_passed s \<longrightarrow> more = rest" by blast
      then show ?case by (intro exI [of _ "action # more"]) auto
    qed auto
  qed
  moreover have "?Q () s" if "run_inv le init acts s" "\<not> rs_passed s" for s
    using that by (intro exI [of _ "[]"]) simp
  ultimately show ?case unfolding run_actions.simps by (rule ensures_unless_state)
qed

lemma run_body_keeps:
  "ensures (run_inv le init []) (run_body le init actions)
     (\<lambda>_. run_done le init actions) (run_partial le init actions)"
proof -
  let ?start = "run_inv le init []"
  let ?part = "run_partial le init actions"
  let ?loop = "\<lambda>s. \<exists>more. run_inv le init more s \<and> (\<exists>left. actions = more @ left)
        \<and> (rs_passed s \<longrightarrow> more = actions)"
  have part: "?part s" if "?start s" for s using run_inv_partial [OF that, of actions] by simp
  have finish: "run_done le init actions s" if "?loop s" for s
    using that by (auto simp: run_props)
  have "ensures ?loop (\<lambda>s. if rs_passed s then check_phase init AfterRun s else (Inr (), s))
      (\<lambda>_. run_done le init actions) ?part"
  proof (rule ensures_if_state)
    show "ensures (\<lambda>s. ?loop s \<and> rs_passed s) (check_phase init AfterRun)
        (\<lambda>_. run_done le init actions) ?part"
    proof (rule ensures_weaken [OF check_keeps(2)])
      show "run_done le init actions s" if "?loop s \<and> rs_passed s" for s
        using that by (intro finish) (elim conjE)
    qed (simp_all add: run_done_def)
  qed (rule finish)
  moreover have "ensures ?start (run_actions le init actions) (\<lambda>_. ?loop) ?part"
    using run_actions_keep [of le init "[]" actions] by simp
  moreover have "ensures ?start (check_phase init BeforeRun) (\<lambda>_. ?start) ?part"
    "ensures ?start (reconcile_phase init BeforeRun) (\<lambda>_. ?start) ?part"
    "ensures ?start (on_world (li_setup init actions)) (\<lambda>_. ?start) ?part"
  proof -
    show "ensures ?start (check_phase init BeforeRun) (\<lambda>_. ?start) ?part"
      by (rule ensures_weaken [OF check_keeps(1)]) (assumption, assumption, rule part)
    show "ensures ?start (reconcile_phase init BeforeRun) (\<lambda>_. ?start) ?part"
      by (rule ensures_weaken [OF ensures_reconcile [OF world_free_run(1)]]) (assumption, assumption, rule part)
    show "ensures ?start (on_world (li_setup init actions)) (\<lambda>_. ?start) ?part"
      by (rule ensures_weaken [OF ensures_on_world [OF world_free_run(1)]]) (assumption, assumption, rule part)
  qed
  moreover have "ensures ?start (async_modify (\<lambda>s. s\<lparr>rs_context := ctx\<rparr>)) (\<lambda>_. ?start) ?part" for ctx
    by (rule ensures_modify) (simp add: run_inv_def)
  ultimately show ?thesis
    unfolding run_body_def by (intro ensures_bind)
qed

lemma run_finally_keeps:
  "ensures (run_done le init actions) (run_finally init) (\<lambda>_. run_done le init actions) E"
proof -
  let ?done = "run_done le init actions"
  have late: "?done (late_error s)" if "?done s" for s
    using that by (auto simp: run_props late_error_def split: option.split)
  have "ensures ?done (async_catch (check_phase init PostCleanup) (\<lambda>_. async_modify late_error)) (\<lambda>_. ?done) E"
    by (rule ensures_catch [OF check_keeps(2)]) (auto intro: late)
  moreover have "ensures ?done (async_catch
      (case li_cleanup init of Some cleanup \<Rightarrow> on_world (cleanup (Some c)) | None \<Rightarrow> async_return ())
      (\<lambda>_. async_modify late_error)) (\<lambda>_. ?done) E" for c
    by (rule ensures_catch [where R = ?done]) (auto intro: late ensures_on_world split: option.split)
  ultimately show ?thesis
    unfolding run_finally_def by (intro ensures_option_state ensures_bind)
qed

lemma candidate_done: "run_done le init actions (candidate_state le init actions w)"
proof -
  have "ensures (run_inv le init []) (async_bind
       (async_catch (run_body le init actions) (\<lambda>_. async_modify execution_error))
       (\<lambda>_. run_finally init)) (\<lambda>_. run_done le init actions) (\<lambda>_. False)"
  proof (rule ensures_bind [OF ensures_catch [OF run_body_keeps]])
    show "ensures (run_partial le init actions) (async_modify execution_error)
        (\<lambda>_. run_done le init actions) (\<lambda>_. False)"
      by (rule ensures_modify) (auto simp: run_props execution_error_def)
  qed (rule run_finally_keeps)
  moreover have "run_inv le init [] (initial_run w)"
    by (simp add: run_inv_def initial_run_def recorded_def record_all_def)
  ultimately obtain u s where "async_bind
       (async_catch (run_body le init actions) (\<lambda>_. async_modify execution_error))
       (\<lambda>_. run_finally init) (initial_run w) = (Inr u, s)" "run_done le init actions s"
    by (rule ensures_result)
  then show ?thesis unfolding candidate_state_def by (simp only: snd_conv)
qed

section \<open>Traces and metrics\<close>

definition right_depth ::
    "('w, 'c, 'z) lifecycle_init \<Rightarrow> 'z executable_action_scheme list \<Rightarrow> bool" where
  "right_depth init actions \<longleftrightarrow> li_depth init = Int_Number (int (length actions))"

lemma candidate_trace:
  assumes "runCampaignCandidateAsync le init actions w = ((passed, t), w')" "right_depth init actions"
  shows "\<exists>rest. map fst (lt_actions t) @ rest = actions"
    and "lt_metrics t = record_all le (recorded (lt_actions t)) createCampaignMetrics"
    and "\<forall>(a, outcome) \<in> set (butlast (lt_actions t)). acceptable (li_failOnRevert init) outcome"
    and "passed \<longleftrightarrow> lt_failures t = [] \<and> lt_failureKind t = None \<and> map fst (lt_actions t) = actions
          \<and> (\<forall>(a, outcome) \<in> set (lt_actions t). acceptable (li_failOnRevert init) outcome)"
  using assms candidate_done [of le init actions w]
  by (auto simp: runCampaignCandidateAsync_def right_depth_def Let_def run_done_def run_partial_def)

lemma wrong_depth:
  "\<not> right_depth init actions \<Longrightarrow>
   runCampaignCandidateAsync le init actions w =
     ((False, \<lparr>lt_actions = [], lt_failures = [], lt_metrics = createCampaignMetrics,
               lt_failureKind = Some InvalidDepth\<rparr>), w)"
  by (auto simp: runCampaignCandidateAsync_def right_depth_def)

lemma distinct_createCampaignMetrics [simp]:
  "distinct_group (byActor createCampaignMetrics)" "distinct_group (byTarget createCampaignMetrics)"
  by (simp_all add: createCampaignMetrics_def distinct_group_def)

lemma trace_metrics:
  assumes "runCampaignCandidateAsync le init actions w = ((passed, t), w')"
  shows "count_at (byActor (lt_metrics t)) actor k =
           length (filter (\<lambda>(a, outcome). ac_actor a = actor \<and> outcome_kind outcome = k) (lt_actions t))"
    and "count_at (byTarget (lt_metrics t)) target k =
           length (filter (\<lambda>(a, outcome). ac_targetKey a = target \<and> outcome_kind outcome = k)
             (lt_actions t))"
proof -
  have m: "lt_metrics t = record_all le (recorded (lt_actions t)) createCampaignMetrics"
    using assms candidate_trace(2) [OF assms] wrong_depth [of init actions le w]
    by (cases "right_depth init actions") (auto simp: record_all_def recorded_def)
  have zero: "count_at (byActor createCampaignMetrics) x k = 0"
    "count_at (byTarget createCampaignMetrics) x k = 0" for x
    by (simp_all add: createCampaignMetrics_def count_at_def metric_row_def row_count_def)
  have len: "length (filter p (recorded es)) =
      length (filter (\<lambda>(a, outcome). p (ac_actor a, outcome, ac_targetKey a)) es)" for p es
    by (induction es) (auto simp: recorded_def)
  show "count_at (byActor (lt_metrics t)) actor k =
      length (filter (\<lambda>(a, outcome). ac_actor a = actor \<and> outcome_kind outcome = k) (lt_actions t))"
    "count_at (byTarget (lt_metrics t)) target k =
      length (filter (\<lambda>(a, outcome). ac_targetKey a = target \<and> outcome_kind outcome = k) (lt_actions t))"
    unfolding m by (simp_all add: record_all_counts zero len)
qed

section \<open>Cleanup\<close>

lemma context_keeps:
  fixes c :: "'c option"
  defines "P \<equiv> \<lambda>s :: ('w, 'c, 'z) run_state. rs_context s = c"
  shows "ensures P (check_phase init phase) (\<lambda>_. P) P"
    and "ensures P (reconcile_phase init phase) (\<lambda>_. P) P"
    and "ensures P (run_action le init action) (\<lambda>_. P) P"
    and "ensures P (run_actions le init actions) (\<lambda>_. P) P"
proof -
  have free: "world_free P" by (simp add: world_free_def P_def)
  show check: "ensures P (check_phase init phase) (\<lambda>_. P) P" for phase
    by (rule ensures_check [OF free]) (simp add: P_def)
  show reconcile: "ensures P (reconcile_phase init phase) (\<lambda>_. P) P" for phase
    by (rule ensures_reconcile [OF free])
  show step: "ensures P (run_action le init action) (\<lambda>_. P) P" for action
    unfolding run_action_def
    by (intro ensures_bind [where R = "\<lambda>_. P"] execute_keeps free check reconcile ensures_if
        ensures_return ensures_modify) (simp_all add: P_def)
  show "ensures P (run_actions le init actions) (\<lambda>_. P) P"
  proof (induction actions)
    case (Cons a actions)
    show ?case
      unfolding run_actions.simps
      by (rule ensures_unless_state)
        (auto intro: ensures_weaken [OF ensures_bind [OF step Cons.IH]])
  qed (auto simp: ensures_def async_return_def)
qed

definition cleanup_world :: "('w, 'c, 'z) lifecycle_init \<Rightarrow> 'c \<Rightarrow> 'w \<Rightarrow> 'w" where
  "cleanup_world init c w =
     (case li_cleanup init of Some cleanup \<Rightarrow> snd (cleanup (Some c) w) | None \<Rightarrow> w)"

definition checked_world ::
    "('w, 'c, 'z) lifecycle_init \<Rightarrow> 'c \<Rightarrow> 'z executable_action_scheme lifecycle_phase \<Rightarrow> 'w \<Rightarrow> 'w" where
  "checked_world init c phase w =
     (case li_checkInvariants init of Some check \<Rightarrow> snd (check (Some c) phase w) | None \<Rightarrow> w)"

lemma check_phase_world:
  "rs_context s = Some c \<Longrightarrow>
   rs_world (snd (check_phase init phase s)) = checked_world init c phase (rs_world s)"
  by (auto simp: check_phase_def checked_world_def async_bind_def on_world_def async_modify_def
      split: option.split prod.splits sum.splits)

lemma caught_world:
  "\<exists>s'. async_catch (on_world h) (\<lambda>_. async_modify late_error) s = (Inr (), s')
     \<and> rs_context s' = rs_context s \<and> rs_world s' = snd (h (rs_world s))"
proof (cases "h (rs_world s)")
  case (Pair r w)
  then show ?thesis
    by (cases r) (auto simp: async_catch_def on_world_def async_modify_def late_error_def)
qed

lemma finally_world:
  assumes "rs_context s = Some c"
  shows "rs_world (snd (run_finally init s)) =
    checked_world init c PostCleanup (cleanup_world init c (rs_world s))"
proof -
  let ?cleanup = "async_catch
      (case li_cleanup init of Some cleanup \<Rightarrow> on_world (cleanup (Some c)) | None \<Rightarrow> async_return ())
      (\<lambda>_. async_modify late_error)"
  let ?check = "async_catch (check_phase init PostCleanup) (\<lambda>_. async_modify late_error)"
  obtain s' where s': "?cleanup s = (Inr (), s')" "rs_context s' = Some c"
      "rs_world s' = cleanup_world init c (rs_world s)"
  proof (cases "li_cleanup init")
    case None
    then show ?thesis using that assms by (simp add: async_catch_def async_return_def cleanup_world_def)
  next
    case (Some cleanup)
    then show ?thesis
      using that caught_world [of "cleanup (Some c)" s] assms by (auto simp: cleanup_world_def)
  qed
  have "rs_world (snd (?check s')) = rs_world (snd (check_phase init PostCleanup s'))"
    by (auto simp: async_catch_def async_modify_def late_error_def split: prod.split sum.split)
  then show ?thesis
    using assms s' by (simp add: run_finally_def async_bind_def check_phase_world)
qed

lemma body_context:
  assumes "li_setup init actions w = (Inr ctx, w1)"
  shows "rs_context (snd (async_catch (run_body le init actions)
    (\<lambda>_. async_modify execution_error) (initial_run w))) = ctx"
proof -
  let ?P = "\<lambda>s. rs_context s = ctx"
  let ?rest = "async_bind (reconcile_phase init BeforeRun) (\<lambda>_.
     async_bind (check_phase init BeforeRun) (\<lambda>_.
     async_bind (run_actions le init actions) (\<lambda>_. \<lambda>s.
       if rs_passed s then check_phase init AfterRun s else (Inr (), s))))"
  have rest: "ensures ?P ?rest (\<lambda>_. ?P) ?P"
    by (intro ensures_bind [where R = "\<lambda>_. ?P"] context_keeps ensures_if_state
        ensures_weaken [OF context_keeps(1)]) auto
  have body: "run_body le init actions (initial_run w) =
      ?rest (initial_run w\<lparr>rs_world := w1, rs_context := ctx\<rparr>)"
    unfolding run_body_def
    by (subst async_bind_def) (simp add: on_world_def initial_run_def assms)
  have "ensures ?P (async_catch ?rest (\<lambda>_. async_modify execution_error)) (\<lambda>_. ?P) (\<lambda>_. False)"
    by (rule ensures_catch [OF rest]) (rule ensures_modify, simp add: execution_error_def)
  moreover have "?P (initial_run w\<lparr>rs_world := w1, rs_context := ctx\<rparr>)" by simp
  ultimately obtain u s where "async_catch ?rest (\<lambda>_. async_modify execution_error)
      (initial_run w\<lparr>rs_world := w1, rs_context := ctx\<rparr>) = (Inr u, s)" "?P s"
    by (rule ensures_result)
  then show ?thesis by (simp add: async_catch_def body)
qed

text \<open>Once the setup has given a context, its cleanup and then the last check end every run.\<close>

lemma candidate_cleanup:
  assumes "right_depth init actions" "li_setup init actions w = (Inr (Some c), w1)"
  shows "\<exists>w2. snd (runCampaignCandidateAsync le init actions w)
           = checked_world init c PostCleanup (cleanup_world init c w2)"
proof -
  let ?caught = "async_catch (run_body le init actions) (\<lambda>_. async_modify execution_error)"
  have ctx: "rs_context (snd (?caught (initial_run w))) = Some c"
    by (rule body_context [OF assms(2)])
  have "\<exists>s. ?caught (initial_run w) = (Inr (), s)"
    by (auto simp: async_catch_def async_modify_def split: prod.split sum.split)
  then obtain s where s: "?caught (initial_run w) = (Inr (), s)" by blast
  then have "rs_world (candidate_state le init actions w) =
      checked_world init c PostCleanup (cleanup_world init c (rs_world s))"
    using ctx finally_world [of s c init] by (simp add: candidate_state_def async_bind_def)
  then show ?thesis
    using assms(1) by (auto simp: runCampaignCandidateAsync_def right_depth_def Let_def)
qed

section \<open>Declared invariants\<close>

text \<open>The failures an invariant that leaves the world as it is contributes.\<close>

definition check_failures :: "'w invariant_check \<Rightarrow> 'w \<Rightarrow> invariant_failure list" where
  "check_failures i w =
     (case fst (ic_check i w) of
        Inl e \<Rightarrow> [\<lparr>if_code = ''thrown'', if_invariant = ic_name i, if_message = error_message e\<rparr>]
      | Inr (Some (code, message)) \<Rightarrow>
          [\<lparr>if_code = code, if_invariant = ic_name i, if_message = message\<rparr>]
      | Inr None \<Rightarrow> [])"

lemma evaluate_observers:
  "\<forall>i \<in> set is. snd (ic_check i w) = w \<Longrightarrow>
   evaluateCampaignInvariantsAsync is w = (Inr (concat (map (\<lambda>i. check_failures i w) is)), w)"
proof (induction "is")
  case (Cons i "is")
  then have IH: "evaluateCampaignInvariantsAsync is w =
      (Inr (concat (map (\<lambda>i. check_failures i w) is)), w)" by simp
  obtain r where r: "ic_check i w = (r, w)" using Cons.prems by (metis list.set_intros(1) prod.collapse)
  show ?case
    by (cases r) (auto simp: async_defs r IH check_failures_def split: option.split)
qed (simp add: async_return_def)

definition invariant_failures ::
    "'c option \<Rightarrow> nat \<Rightarrow> ('w, 'c) campaign_invariant list \<Rightarrow> 'w \<Rightarrow> invariant_failure list" where
  "invariant_failures ctx k invariants w =
     concat (map (\<lambda>(index, i).
       case fst (ci_check i ctx w) of
         Inl e \<Rightarrow> [\<lparr>if_code = ''thrown'', if_invariant = invariant_name index i,
                  if_message = error_message e\<rparr>]
       | Inr _ \<Rightarrow> []) (zip [k..<k + length invariants] invariants))"

lemma declared_failures:
  assumes "\<forall>i \<in> set invariants. snd (ci_check i ctx w) = w"
  shows "invariant_campaign_check invariants None ctx phase w
    = (Inr (invariant_failures ctx 0 invariants w), w)"
proof -
  have observe: "snd (ic_check c w) = w" if "c \<in> set (declared_checks ctx invariants)" for c
    using that assms
    by (fastforce simp: declared_checks_def async_defs dest: set_zip_rightD split: prod.split sum.split)
  have "concat (map (\<lambda>i. check_failures i w) (declared_checks ctx invariants)) =
      invariant_failures ctx 0 invariants w"
    unfolding declared_checks_def invariant_failures_def map_map comp_def
    by (intro arg_cong [where f = concat] map_cong refl)
      (auto simp: check_failures_def async_defs split: prod.split sum.split)
  then show ?thesis
    using evaluate_observers [of "declared_checks ctx invariants" w] observe
    by (simp add: invariant_campaign_check_def async_bind_def async_return_def)
qed

section \<open>Isolation\<close>

lemma external_isolation:
  "runWithCampaignIsolationAsync (External_Isolation reset) run w =
     (case reset Before_Run w of
        (Inl e, w1) \<Rightarrow> (Inl e, w1)
      | (Inr _, w1) \<Rightarrow>
          (case run w1 of (r, w2) \<Rightarrow>
             (case reset After_Run w2 of (Inl e, w3) \<Rightarrow> (Inl e, w3) | (Inr _, w3) \<Rightarrow> (r, w3))))"
  by (simp add: runWithCampaignIsolationAsync_def async_defs split: prod.split sum.split)

lemma snapshot_isolation:
  assumes "create w = (Inr snapshot, w1)" "\<And>w'. restore snapshot w' = (Inr (), w)"
  shows "runWithCampaignIsolationAsync (Snapshot_Isolation create restore) run w = (fst (run w1), w)"
  using assms by (simp add: runWithCampaignIsolationAsync_def async_defs split: prod.split)

end
