(* ===== verification/Calendar.thy ===== *)
theory Calendar
  imports JS_Prelude
begin

text \<open>
  The proleptic Gregorian calendar behind \<^verbatim>\<open>Date.prototype.toISOString\<close>: the year, month and
  day of a day number counted from 1970-01-01, as the ECMAScript standard computes them, and the
  texts \<^verbatim>\<open>toISOString\<close> prints for the years 0 to 9999. \<open>civil_day\<close> counts the days of a date
  independently, from the rule for leap years; the lemmas show that the two are inverse.
\<close>

section \<open>Years and months\<close>

definition leap_year :: "int \<Rightarrow> bool" where
  "leap_year y \<longleftrightarrow> y mod 4 = 0 \<and> (y mod 100 \<noteq> 0 \<or> y mod 400 = 0)"

definition year_start :: "int \<Rightarrow> int" where
  "year_start y = 365 * (y - 1970) + (y - 1969) div 4 - (y - 1901) div 100 + (y - 1601) div 400"

definition month_lengths :: "int \<Rightarrow> int list" where
  "month_lengths y = [31, if leap_year y then 29 else 28, 31, 30, 31, 30, 31, 31, 30, 31, 30, 31]"

text \<open>\<open>YearFromTime\<close>: the year whose days contain the day.\<close>

definition year_of_day :: "int \<Rightarrow> int" where
  "year_of_day n =
     (let y = 1970 + (400 * n) div 146097 in
      if n < year_start y then y - 1 else if year_start (y + 1) \<le> n then y + 1 else y)"

fun month_and_day :: "int list \<Rightarrow> int \<Rightarrow> int \<Rightarrow> int \<times> int" where
  "month_and_day [] m d = (m, d + 1)"
| "month_and_day (l # ls) m d = (if d < l then (m, d + 1) else month_and_day ls (m + 1) (d - l))"

definition civil_date :: "int \<Rightarrow> int \<times> int \<times> int" where
  "civil_date n =
     (let y = year_of_day n; (m, d) = month_and_day (month_lengths y) 1 (n - year_start y) in (y, m, d))"

section \<open>Texts\<close>

definition pad_digits :: "nat \<Rightarrow> int \<Rightarrow> string" where
  "pad_digits w n =
     (let s = digits_of_nat (nat n) in replicate (w - length s) (CHR ''0'') @ s)"

definition iso_date :: "int \<Rightarrow> string" where
  "iso_date n =
     (case civil_date n of (y, m, d) \<Rightarrow>
        pad_digits 4 y @ ''-'' @ pad_digits 2 m @ ''-'' @ pad_digits 2 d)"

text \<open>\<^verbatim>\<open>toISOString().slice(0, 19)\<close> of a number of seconds.\<close>

definition iso_seconds :: "int \<Rightarrow> string" where
  "iso_seconds s =
     (let t = s mod 86400 in
      iso_date (s div 86400) @ ''T'' @ pad_digits 2 (t div 3600) @ '':'' @ pad_digits 2 (t mod 3600 div 60)
        @ '':'' @ pad_digits 2 (t mod 60))"

definition iso_milliseconds :: "int \<Rightarrow> string" where
  "iso_milliseconds ms = iso_seconds (ms div 1000) @ ''.'' @ pad_digits 3 (ms mod 1000) @ ''Z''"

section \<open>The calendar is right\<close>

definition valid_civil :: "int \<Rightarrow> int \<Rightarrow> int \<Rightarrow> bool" where
  "valid_civil y m d \<longleftrightarrow> 1 \<le> m \<and> m \<le> 12 \<and> 1 \<le> d \<and> d \<le> month_lengths y ! nat (m - 1)"

definition civil_day :: "int \<Rightarrow> int \<Rightarrow> int \<Rightarrow> int" where
  "civil_day y m d = year_start y + sum_list (take (nat (m - 1)) (month_lengths y)) + (d - 1)"

lemma year_start_1970: "year_start 1970 = 0"
  by (simp add: year_start_def)

lemma div_step:
  fixes y k :: int
  assumes "1 < k"
  shows "(y + 1) div k = y div k + (if (y + 1) mod k = 0 then 1 else 0)"
proof -
  define q r where "q = (y + 1) div k" and "r = (y + 1) mod k"
  have y: "y = k * q + r - 1" and r: "0 \<le> r" "r < k"
    using assms div_mult_mod_eq [of "y + 1" k] by (simp_all add: q_def r_def mult.commute)
  show ?thesis
  proof (cases "r = 0")
    case True
    then have "y = k * (q - 1) + (k - 1)" using y by (simp add: algebra_simps)
    then have "y div k = q - 1" by (rule int_div_pos_eq) (use assms in simp_all)
    with True show ?thesis by (simp add: q_def r_def)
  next
    case False
    have "y div k = q" by (rule int_div_pos_eq [of _ _ _ "r - 1"]) (use y r False in simp_all)
    with False show ?thesis by (simp add: q_def r_def)
  qed
qed

lemma div_step_at:
  "x = z + 1 \<Longrightarrow> 1 < k \<Longrightarrow> x mod k = w \<Longrightarrow> x div k = z div k + (if w = 0 then 1 else 0)"
  for x z k w :: int
  using div_step [of k z] by blast

lemma year_start_Suc: "year_start (y + 1) = year_start y + (if leap_year y then 366 else 365)"
proof -
  have 4: "(y + 1 - 1969) div 4 = (y - 1969) div 4 + (if y mod 4 = 0 then 1 else 0)"
  proof (rule div_step_at)
    have "(y - 1968) mod 4 = (y - 1968 mod 4) mod 4" by (rule mod_diff_right_eq [symmetric])
    then show "(y + 1 - 1969) mod 4 = y mod 4" by simp
  qed simp_all
  have 100: "(y + 1 - 1901) div 100 = (y - 1901) div 100 + (if y mod 100 = 0 then 1 else 0)"
  proof (rule div_step_at)
    have "(y - 1900) mod 100 = (y - 1900 mod 100) mod 100" by (rule mod_diff_right_eq [symmetric])
    then show "(y + 1 - 1901) mod 100 = y mod 100" by simp
  qed simp_all
  have 400: "(y + 1 - 1601) div 400 = (y - 1601) div 400 + (if y mod 400 = 0 then 1 else 0)"
  proof (rule div_step_at)
    have "(y - 1600) mod 400 = (y - 1600 mod 400) mod 400" by (rule mod_diff_right_eq [symmetric])
    then show "(y + 1 - 1601) mod 400 = y mod 400" by simp
  qed simp_all
  have "y mod 100 = 0 \<Longrightarrow> y mod 4 = 0" "y mod 400 = 0 \<Longrightarrow> y mod 100 = 0"
    using mod_mod_cancel [of 4 100 y] mod_mod_cancel [of 100 400 y] by simp_all
  then show ?thesis
    unfolding year_start_def leap_year_def 4 100 400
    by (cases "y mod 4 = 0"; cases "y mod 100 = 0"; cases "y mod 400 = 0") simp_all
qed

lemma length_month_lengths [simp]: "length (month_lengths y) = 12"
  by (simp add: month_lengths_def)

lemma sum_month_lengths: "sum_list (month_lengths y) = (if leap_year y then 366 else 365)"
  by (simp add: month_lengths_def)

lemma div_bounds: "k * (y div k) \<le> y \<and> y < k * (y div k) + k" if "0 < k" for y k :: int
proof -
  have "y = k * (y div k) + y mod k" by simp
  with pos_mod_bound [OF that, of y] pos_mod_sign [OF that, of y] show ?thesis by linarith
qed

lemma year_start_bounds:
  "146097 * (y - 1970) - 508 \<le> 400 * year_start y" "400 * year_start y \<le> 146097 * (y - 1970) + 592"
  using div_bounds [of 4 "y - 1969"] div_bounds [of 100 "y - 1901"] div_bounds [of 400 "y - 1601"]
  unfolding year_start_def by simp_all

lemma year_of_day_bounds:
  "year_start (year_of_day n) \<le> n \<and> n < year_start (year_of_day n + 1)"
proof -
  define q where "q = (400 * n) div 146097"
  have q: "146097 * q \<le> 400 * n" "400 * n < 146097 * q + 146097"
    using div_bounds [of 146097 "400 * n"] by (simp_all add: q_def)
  have "year_start (1970 + q - 1) \<le> n" "n < year_start (1970 + q + 2)"
    using q year_start_bounds(2) [of "1970 + q - 1"] year_start_bounds(1) [of "1970 + q + 2"] by simp_all
  then show ?thesis by (auto simp: year_of_day_def Let_def simp flip: q_def)
qed

lemma month_and_day_spec:
  "0 \<le> d \<Longrightarrow> d < sum_list ls \<Longrightarrow>
   \<exists>k < length ls. \<exists>e. month_and_day ls m d = (m + int k, e + 1) \<and> 0 \<le> e \<and> e < ls ! k
     \<and> d = sum_list (take k ls) + e"
proof (induction ls m d rule: month_and_day.induct)
  case (2 l ls m d)
  show ?case
  proof (cases "d < l")
    case False
    with 2 obtain k e where "k < length ls" "month_and_day ls (m + 1) (d - l) = (m + 1 + int k, e + 1)"
      "0 \<le> e" "e < ls ! k" "d - l = sum_list (take k ls) + e" by auto
    with False show ?thesis by (intro exI [of _ "Suc k"]) auto
  qed (use 2 in auto)
qed simp

text \<open>Every day has exactly one date, and it is the one \<open>civil_date\<close> computes.\<close>

lemma civil_date_spec:
  obtains y m d where "civil_date n = (y, m, d)" "valid_civil y m d" "civil_day y m d = n"
    "y = year_of_day n"
proof -
  define y where "y = year_of_day n"
  have d: "0 \<le> n - year_start y" "n - year_start y < sum_list (month_lengths y)"
    using year_of_day_bounds [of n] by (auto simp: y_def sum_month_lengths year_start_Suc split: if_splits)
  obtain k e where k: "k < 12" "month_and_day (month_lengths y) 1 (n - year_start y) = (1 + int k, e + 1)"
    "0 \<le> e" "e < month_lengths y ! k" "n - year_start y = sum_list (take k (month_lengths y)) + e"
    using month_and_day_spec [OF d, of 1] by auto
  show ?thesis
    by (rule that [of y "1 + int k" "e + 1"])
      (use k in \<open>simp_all add: civil_date_def valid_civil_def civil_day_def Let_def y_def [symmetric]\<close>)
qed

lemma year_start_mono: "y < z \<Longrightarrow> year_start y + 365 \<le> year_start z"
proof (induction "nat (z - y - 1)" arbitrary: z)
  case 0
  then have "z = y + 1" by simp
  then show ?case by (simp add: year_start_Suc)
next
  case (Suc k)
  then have "year_start y + 365 \<le> year_start (z - 1)" by simp
  then show ?case using year_start_Suc [of "z - 1"] by (simp split: if_splits)
qed

lemma months_within:
  "k < 12 \<Longrightarrow> 0 \<le> sum_list (take k (month_lengths y)) \<and>
     sum_list (take k (month_lengths y)) + month_lengths y ! k \<le> sum_list (month_lengths y)"
  by (auto simp: month_lengths_def less_Suc_eq numeral_eq_Suc)

lemma civil_day_year:
  assumes "valid_civil y m d"
  shows "year_start y \<le> civil_day y m d \<and> civil_day y m d < year_start (y + 1)"
proof -
  have "nat (m - 1) < 12" using assms by (auto simp: valid_civil_def)
  with months_within [of "nat (m - 1)" y] assms show ?thesis
    by (auto simp: civil_day_def valid_civil_def year_start_Suc sum_month_lengths split: if_splits)
qed

lemma year_of_day_unique:
  assumes "year_start y \<le> n" "n < year_start (y + 1)"
  shows "year_of_day n = y"
proof -
  have "\<not> y < year_of_day n" "\<not> year_of_day n < y"
    using year_of_day_bounds [of n] assms year_start_mono [of "y + 1" "year_of_day n"]
      year_start_mono [of "year_of_day n + 1" y]
    by (cases "y + 1 = year_of_day n"; cases "year_of_day n + 1 = y"; fastforce)+
  then show ?thesis by simp
qed

lemma month_and_day_take:
  "k < length ls \<Longrightarrow> 0 \<le> e \<Longrightarrow> e < ls ! k \<Longrightarrow> (\<forall>l \<in> set ls. 0 < l) \<Longrightarrow>
   month_and_day ls m (sum_list (take k ls) + e) = (m + int k, e + 1)"
proof (induction ls arbitrary: k m)
  case (Cons l ls)
  show ?case
  proof (cases k)
    case (Suc j)
    have "0 \<le> sum_list (take j ls)" using Cons.prems by (intro sum_list_nonneg) (auto dest!: in_set_takeD intro: less_imp_le)
    then show ?thesis using Cons Suc by (simp add: algebra_simps)
  qed (use Cons in simp)
qed simp

lemma civil_date_day:
  assumes "valid_civil y m d"
  shows "civil_date (civil_day y m d) = (y, m, d)"
proof -
  have y: "year_of_day (civil_day y m d) = y"
    using civil_day_year [OF assms] by (intro year_of_day_unique) auto
  have "\<forall>l \<in> set (month_lengths y). 0 < l" by (simp add: month_lengths_def)
  moreover have "nat (m - 1) < 12" "0 \<le> d - 1" "d - 1 < month_lengths y ! nat (m - 1)"
    using assms by (auto simp: valid_civil_def)
  moreover have "civil_day y m d - year_start y
      = sum_list (take (nat (m - 1)) (month_lengths y)) + (d - 1)" by (simp add: civil_day_def)
  ultimately show ?thesis
    using assms month_and_day_take [of "nat (m - 1)" "month_lengths y" "d - 1" 1]
    by (simp add: civil_date_def y Let_def valid_civil_def)
qed

end
