(* ===== verification/Query_Values.thy ===== *)
theory Query_Values
  imports JS_Value Calendar
begin

text \<open>
  The JavaScript values of the query layer: what the mapper makes of ledger values, what the dataset
  holds and what a cache store gives back (\<^verbatim>\<open>immutableQueryValue\<close> of
  \<^verbatim>\<open>src/src/query/canonical/query-dataset.ts\<close>; \<^verbatim>\<open>copyValue\<close> of
  \<^verbatim>\<open>src/src/query/grpc/grpc-contract-cache.ts\<close>). Values are finite trees. A number or an instant is
  a whole number, or not finite; fractions do not occur in the modelled data. A date is its time
  value, and a date that is not finite is the invalid date.
\<close>

datatype js_num = Whole int | Not_Finite

datatype host_kind = Function | Shared_Memory | Proxied

datatype qvalue =
    Q_Undef
  | Q_Null
  | Q_Bool bool
  | Q_Num js_num
  | Q_Str string
  | Q_Date js_num
  | Q_Bytes "nat list"
  | Q_Arr "qvalue list"
  | Q_Obj "(string \<times> qvalue) list"
  | Q_Map "(qvalue \<times> qvalue) list"
  | Q_Set "qvalue list"
  | Q_Host host_kind

text \<open>Property reads: an absent property is undefined. The keys that are read never name a member
  of \<^verbatim>\<open>Object.prototype\<close>.\<close>

definition q_get :: "(string \<times> qvalue) list \<Rightarrow> string \<Rightarrow> qvalue" where
  "q_get ps k = (case map_of ps k of Some v \<Rightarrow> v | None \<Rightarrow> Q_Undef)"

text \<open>\<^verbatim>\<open>value !== null && typeof value === "object"\<close>, and the properties such a value has.\<close>

definition q_is_object :: "qvalue \<Rightarrow> bool" where
  "q_is_object v =
     (case v of Q_Date _ \<Rightarrow> True | Q_Bytes _ \<Rightarrow> True | Q_Arr _ \<Rightarrow> True | Q_Obj _ \<Rightarrow> True
      | Q_Map _ \<Rightarrow> True | Q_Set _ \<Rightarrow> True | Q_Host k \<Rightarrow> k \<noteq> Function | _ \<Rightarrow> False)"

definition q_properties :: "qvalue \<Rightarrow> (string \<times> qvalue) list" where
  "q_properties v = (case v of Q_Obj ps \<Rightarrow> ps | _ \<Rightarrow> [])"

section \<open>Freezing and copying\<close>

text \<open>
  \<^verbatim>\<open>immutableQueryValue\<close>: dates, bytes and arrays are copied, any other object becomes the plain
  object of its own enumerable properties; the freezing itself is not visible in a value.
\<close>

fun immutableQueryValue :: "qvalue \<Rightarrow> qvalue" where
  "immutableQueryValue (Q_Arr vs) = Q_Arr (map immutableQueryValue vs)"
| "immutableQueryValue (Q_Obj ps) = Q_Obj (map (\<lambda>(k, v). (k, immutableQueryValue v)) ps)"
| "immutableQueryValue (Q_Map ps) = Q_Obj []"
| "immutableQueryValue (Q_Set vs) = Q_Obj []"
| "immutableQueryValue (Q_Host k) = (if k = Function then Q_Host k else Q_Obj [])"
| "immutableQueryValue v = v"

text \<open>The host objects of the given kind that a value holds, keys of maps included.\<close>

fun holds_host :: "host_kind \<Rightarrow> qvalue \<Rightarrow> bool" where
  "holds_host k (Q_Host j) = (j = k)"
| "holds_host k (Q_Arr vs) = (\<exists>v \<in> set vs. holds_host k v)"
| "holds_host k (Q_Obj ps) = (\<exists>p \<in> set ps. holds_host k (snd p))"
| "holds_host k (Q_Map ps) = (\<exists>p \<in> set ps. holds_host k (fst p) \<or> holds_host k (snd p))"
| "holds_host k (Q_Set vs) = (\<exists>v \<in> set vs. holds_host k v)"
| "holds_host k v = False"

definition containsSharedMemory :: "qvalue \<Rightarrow> bool" where
  "containsSharedMemory v = holds_host Shared_Memory v"

text \<open>
  \<^verbatim>\<open>copyValue\<close>: \<^verbatim>\<open>structuredClone\<close> throws on functions and proxies and otherwise gives an equal
  value; a copy that shares memory is refused.
\<close>

definition copyValue :: "qvalue \<Rightarrow> qvalue result" where
  "copyValue v =
     (if \<not> q_is_object v then Inr v
      else if holds_host Function v \<or> holds_host Proxied v then
        Inl (PlainError ''DataCloneError'')
      else if containsSharedMemory v then
        Inl (PlainError ''Contract payload must not contain shared memory.'')
      else Inr v)"

text \<open>Plain data: no host object, map or set, as the ledger mapper builds it.\<close>

fun plain_data :: "qvalue \<Rightarrow> bool" where
  "plain_data (Q_Arr vs) = (\<forall>v \<in> set vs. plain_data v)"
| "plain_data (Q_Obj ps) = (\<forall>p \<in> set ps. plain_data (snd p))"
| "plain_data (Q_Map ps) = False"
| "plain_data (Q_Set vs) = False"
| "plain_data (Q_Host k) = False"
| "plain_data v = True"

lemma immutable_plain: "plain_data v \<Longrightarrow> immutableQueryValue v = v"
proof (induction v rule: immutableQueryValue.induct)
  case (2 ps)
  have "(case p of (k, v) \<Rightarrow> (k, immutableQueryValue v)) = p" if "p \<in> set ps" for p
    using 2 that by (cases p) fastforce
  then show ?case by (simp add: map_idI)
qed (simp_all add: map_idI)

lemma plain_no_host: "plain_data v \<Longrightarrow> \<not> holds_host k v"
  by (induction k v rule: holds_host.induct) auto

lemma copy_plain: "plain_data v \<Longrightarrow> copyValue v = Inr v"
  by (simp add: copyValue_def containsSharedMemory_def plain_no_host)

lemma copy_value_same: "copyValue v = Inr w \<Longrightarrow> w = v"
  by (simp add: copyValue_def split: if_splits)

text \<open>The texts that dates and \<^verbatim>\<open>JSON.stringify\<close> give.\<close>

definition json_char :: "char \<Rightarrow> string" where
  "json_char c =
     (let n = of_char c :: nat; hex = (\<lambda>d. if d < 10 then char_of (48 + d) else char_of (87 + d)) in
      if c = CHR 0x22 then [CHR 0x5C, CHR 0x22]
      else if c = CHR 0x5C then [CHR 0x5C, CHR 0x5C]
      else if n = 8 then [CHR 0x5C, CHR ''b'']
      else if n = 9 then [CHR 0x5C, CHR ''t'']
      else if n = 10 then [CHR 0x5C, CHR ''n'']
      else if n = 12 then [CHR 0x5C, CHR ''f'']
      else if n = 13 then [CHR 0x5C, CHR ''r'']
      else if n < 32 then CHR 0x5C # ''u00'' @ [hex (n div 16), hex (n mod 16)]
      else [c])"

definition json_string :: "string \<Rightarrow> string" where
  "json_string s = CHR 0x22 # concat (map json_char s) @ [CHR 0x22]"

end
