(* ===== verification/Ledger_Values.thy ===== *)
theory Ledger_Values
  imports Query_Values JS_Ordering Decimal_Laws
begin

text \<open>
  Mapping the values of the Ledger API to JSON-like query values:
  \<^verbatim>\<open>src/src/query/grpc/grpc-query-value-mapper.ts\<close>. A \<^verbatim>\<open>Value\<close> message is a \<open>ledger_value\<close>:
  one constructor per active case of its sum, and one for no case; an unset message field is
  \<open>None\<close>. Integers of 64 bits arrive as texts, a date is the 32-bit integer protobuf decodes.
\<close>

datatype ledger_value =
    LV_Unit
  | LV_Bool bool
  | LV_Int64 string
  | LV_Date int
  | LV_Timestamp string
  | LV_Numeric string
  | LV_Party string
  | LV_Text string
  | LV_ContractId string
  | LV_Optional "ledger_value option"
  | LV_List "ledger_value list"
  | LV_TextMap "(string \<times> ledger_value option) list"
  | LV_GenMap "(ledger_value option \<times> ledger_value option) list"
  | LV_Record "(string \<times> ledger_value option) list"
  | LV_Variant string "ledger_value option"
  | LV_Enum string
  | LV_None

definition validation :: "string \<Rightarrow> 'a result" where
  "validation message = Inl (ValidationError message)"

section \<open>Names and identifiers\<close>

definition is_letter :: "char \<Rightarrow> bool" where
  "is_letter c \<longleftrightarrow>
     (let n = of_char c :: nat in (65 \<le> n \<and> n \<le> 90) \<or> (97 \<le> n \<and> n \<le> 122))"

definition text_of :: "string \<Rightarrow> nat \<Rightarrow> string \<Rightarrow> bool" where
  "text_of extra most s \<longleftrightarrow>
     s \<noteq> [] \<and> length s \<le> most \<and> list_all (\<lambda>c. is_letter c \<or> is_digit c \<or> c \<in> set extra) s"

definition validPartyId :: "string \<Rightarrow> string result" where
  "validPartyId s =
     (if text_of '':-_ '' 255 s then Inr s else validation ''gRPC query party is invalid'')"

definition validLedgerString :: "string \<Rightarrow> string \<Rightarrow> string result" where
  "validLedgerString s name =
     (if text_of ''#:-_/ '' 255 s then Inr s
      else validation (''gRPC query '' @ name @ '' is invalid''))"

definition is_name :: "string \<Rightarrow> bool" where
  "is_name s \<longleftrightarrow> text_of ''$_'' 1000 s \<and> \<not> is_digit (hd s)"

definition validNameString :: "string \<Rightarrow> string \<Rightarrow> string result" where
  "validNameString s name =
     (if is_name s then Inr s else validation (''gRPC query '' @ name @ '' is invalid''))"

text \<open>\<open>s.split(c)\<close>\<close>

fun split_on :: "char \<Rightarrow> string \<Rightarrow> string list" where
  "split_on c [] = [[]]"
| "split_on c (d # s) =
     (if d = c then [] # split_on c s
      else case split_on c s of [] \<Rightarrow> [[d]] | t # ts \<Rightarrow> (d # t) # ts)"

definition validDottedNameString :: "string \<Rightarrow> string \<Rightarrow> string result" where
  "validDottedNameString s name =
     bind_result (each_result (\<lambda>segment. bind_result (validNameString segment name) (\<lambda>_. Inr ()))
         (split_on (CHR ''.'') s))
       (\<lambda>_. Inr s)"

definition validPackageIdString :: "string \<Rightarrow> string \<Rightarrow> string result" where
  "validPackageIdString s name =
     (if text_of ''-_ '' 64 s then Inr s
      else validation (''gRPC query '' @ name @ '' is invalid''))"

section \<open>Numbers, dates and times\<close>

text \<open>\<^verbatim>\<open>/^-?(?:0|[1-9]\d*)$/\<close>\<close>

definition canonical_natural :: "string \<Rightarrow> bool" where
  "canonical_natural s \<longleftrightarrow> all_digits s \<and> (hd s \<noteq> CHR ''0'' \<or> s = ''0'')"

definition integer_text :: "string \<Rightarrow> bool" where
  "integer_text s \<longleftrightarrow> canonical_natural (unsigned_part s)"

text \<open>\<open>BigInt(s)\<close> of such a text.\<close>

definition big_integer :: "string \<Rightarrow> int" where
  "big_integer s =
     (if s \<noteq> [] \<and> hd s = CHR ''-'' then - int (nat_of_digits (tl s)) else int (nat_of_digits s))"

definition int64 :: "string \<Rightarrow> string \<Rightarrow> string result" where
  "int64 s name =
     (if \<not> integer_text s then validation (''gRPC query '' @ name @ '' is not an integer'')
      else if big_integer s < - (2 ^ 63) \<or> big_integer s > 2 ^ 63 - 1 then
        validation (''gRPC query '' @ name @ '' is outside the int64 range'')
      else Inr s)"

text \<open>Truncating division of big integers, as the code corrects it for negative times.\<close>

definition timestamp_text :: "string \<Rightarrow> string result" where
  "timestamp_text s =
     bind_result (int64 s ''timestamp'') (\<lambda>_.
       let micros = big_integer s in
       if micros < -62135596800000000 \<or> micros > 253402300799999999 then
         validation ''gRPC query timestamp is outside the Ledger API range''
       else
         let seconds = (if micros \<ge> 0 \<or> micros smod 1000000 = 0 then micros sdiv 1000000
                        else micros sdiv 1000000 - 1);
             fraction = micros - seconds * 1000000;
             subSecond = (if fraction = 0 then []
                          else if fraction smod 1000 = 0 then ''.'' @ pad_digits 3 (fraction sdiv 1000)
                          else ''.'' @ pad_digits 6 fraction) in
         Inr (iso_seconds seconds @ subSecond @ ''Z''))"

definition date_text :: "int \<Rightarrow> string result" where
  "date_text n =
     (if n < -719162 \<or> n > 2932896 then validation ''gRPC query date is outside the Ledger API range''
      else Inr (iso_date n))"

definition strip_sign :: "string \<Rightarrow> string" where
  "strip_sign s = (if s \<noteq> [] \<and> hd s \<in> {CHR ''+'', CHR ''-''} then tl s else s)"

text \<open>\<^verbatim>\<open>/^[+-]?\d{1,38}(?:\.\d{0,37})?$/\<close>\<close>

definition numeric_pattern :: "string \<Rightarrow> bool" where
  "numeric_pattern s \<longleftrightarrow>
     (let u = strip_sign s; whole = integer_part u; rest = drop (length whole) u in
      all_digits whole \<and> length whole \<le> 38 \<and>
      (rest = [] \<or> (list_all is_digit (tl rest) \<and> length (tl rest) \<le> 37)))"

definition checked_numeric :: "string \<Rightarrow> string result" where
  "checked_numeric s =
     (if \<not> numeric_pattern s then validation ''gRPC query numeric is invalid''
      else
        let u = strip_sign s; whole = integer_part u; fractional = fractional_part u;
            significant = length (dropWhile (\<lambda>c. c = CHR ''0'') (whole @ fractional)) in
        if length fractional > 37 \<or> significant > 38 then
          validation ''gRPC query numeric exceeds DAML Numeric precision''
        else Inr s)"

definition canonicalNumeric :: "string \<Rightarrow> string" where
  "canonicalNumeric s =
     (let sign = (if s \<noteq> [] \<and> hd s = CHR ''-'' then ''-'' else []);
          u = strip_sign s;
          normalizedWhole = drop_leading_zeros (integer_part u);
          normalizedFraction = drop_trailing_zeros (fractional_part u);
          normalized = normalizedWhole @ (if normalizedFraction = [] then [] else ''.'' @ normalizedFraction) in
      if normalized = ''0'' then ''0'' else sign @ normalized)"

section \<open>Values\<close>

definition max_depth :: nat where
  "max_depth = 256"

text \<open>
  \<^verbatim>\<open>mapValue\<close> and its three loops, which carry what the code accumulates: the index, the
  properties defined so far, the canonical keys seen. \<open>Object.defineProperty\<close> adds a property
  under the enumeration order of JavaScript. \<open>key\<close> is \<open>canonicalLedgerKey\<close>, of which the keys of
  a generic map are compared.
\<close>

function (sequential) mapValue :: "(ledger_value \<Rightarrow> string result) \<Rightarrow> nat \<Rightarrow> ledger_value \<Rightarrow> qvalue result"
  and mapList :: "(ledger_value \<Rightarrow> string result) \<Rightarrow> nat \<Rightarrow> ledger_value list \<Rightarrow> qvalue list result"
  and mapTextMap :: "(ledger_value \<Rightarrow> string result) \<Rightarrow> nat \<Rightarrow> nat \<Rightarrow> (string \<times> qvalue) list \<Rightarrow>
    (string \<times> ledger_value option) list \<Rightarrow> qvalue result"
  and mapGenMap :: "(ledger_value \<Rightarrow> string result) \<Rightarrow> nat \<Rightarrow> nat \<Rightarrow> string list \<Rightarrow>
    (ledger_value option \<times> ledger_value option) list \<Rightarrow> qvalue list result"
  and mapRecord :: "(ledger_value \<Rightarrow> string result) \<Rightarrow> nat \<Rightarrow> nat \<Rightarrow> (string \<times> qvalue) list \<Rightarrow>
    (string \<times> ledger_value option) list \<Rightarrow> qvalue result"
where
  "mapValue key depth v =
     (if depth > max_depth then
        validation (''gRPC query value exceeds maximum nesting depth '' @ string_of_int (int max_depth))
      else case v of
        LV_Unit \<Rightarrow> Inr (Q_Obj [])
      | LV_Bool b \<Rightarrow> Inr (Q_Bool b)
      | LV_Int64 s \<Rightarrow> bind_result (int64 s ''int64'') (\<lambda>s. Inr (Q_Str s))
      | LV_Date n \<Rightarrow> bind_result (date_text n) (\<lambda>s. Inr (Q_Str s))
      | LV_Timestamp s \<Rightarrow> bind_result (timestamp_text s) (\<lambda>s. Inr (Q_Str s))
      | LV_Numeric s \<Rightarrow> bind_result (checked_numeric s) (\<lambda>s. Inr (Q_Str s))
      | LV_Party s \<Rightarrow> bind_result (validPartyId s) (\<lambda>s. Inr (Q_Str s))
      | LV_Text s \<Rightarrow> Inr (Q_Str s)
      | LV_ContractId s \<Rightarrow> bind_result (validLedgerString s ''contract id'') (\<lambda>s. Inr (Q_Str s))
      | LV_Optional None \<Rightarrow> Inr Q_Null
      | LV_Optional (Some w) \<Rightarrow> mapValue key (depth + 1) w
      | LV_List vs \<Rightarrow> bind_result (mapList key (depth + 1) vs) (\<lambda>ws. Inr (Q_Arr ws))
      | LV_TextMap es \<Rightarrow> mapTextMap key (depth + 1) 0 [] es
      | LV_GenMap es \<Rightarrow> bind_result (mapGenMap key (depth + 1) 0 [] es) (\<lambda>ws. Inr (Q_Arr ws))
      | LV_Record fs \<Rightarrow> mapRecord key (depth + 1) 0 [] fs
      | LV_Variant c None \<Rightarrow> validation ''gRPC query variant is incomplete''
      | LV_Variant c (Some w) \<Rightarrow>
          bind_result (validNameString c ''variant constructor'') (\<lambda>tag.
            bind_result (mapValue key (depth + 1) w) (\<lambda>u.
              Inr (Q_Obj [(''tag'', Q_Str tag), (''value'', u)])))
      | LV_Enum c \<Rightarrow> bind_result (validNameString c ''enum constructor'') (\<lambda>s. Inr (Q_Str s))
      | LV_None \<Rightarrow> validation ''gRPC query value has no active sum'')"
| "mapList key depth [] = Inr []"
| "mapList key depth (v # vs) =
     bind_result (mapValue key depth v) (\<lambda>w. bind_result (mapList key depth vs) (\<lambda>ws. Inr (w # ws)))"
| "mapTextMap key depth index out [] = Inr (Q_Obj out)"
| "mapTextMap key depth index out ((k, v) # es) =
     (if k \<in> fst ` set out then validation (''gRPC query text-map has duplicate key '' @ k)
      else case v of
        None \<Rightarrow> validation (''gRPC query text-map entry '' @ string_of_int (int index) @ '' has no value'')
      | Some w \<Rightarrow> bind_result (mapValue key depth w) (\<lambda>u.
          mapTextMap key depth (index + 1) (obj_set k u out) es))"
| "mapGenMap key depth index seen [] = Inr []"
| "mapGenMap key depth index seen ((Some k, Some v) # es) =
     bind_result (mapValue key depth k) (\<lambda>k'. bind_result (key k) (\<lambda>canonicalKey.
       if canonicalKey \<in> set seen then
         validation (''gRPC query gen-map has duplicate key at entry '' @ string_of_int (int index))
       else bind_result (mapValue key depth v) (\<lambda>v'.
         bind_result (mapGenMap key depth (index + 1) (canonicalKey # seen) es) (\<lambda>ws.
           Inr (Q_Arr [k', v'] # ws)))))"
| "mapGenMap key depth index seen (_ # es) =
     validation (''gRPC query gen-map entry '' @ string_of_int (int index) @ '' is incomplete'')"
| "mapRecord key depth index out [] = Inr (Q_Obj out)"
| "mapRecord key depth index out ((label, v) # fs) =
     (if label = [] then
        validation (''gRPC query record field '' @ string_of_int (int index)
          @ '' is unlabeled; verbose values are required'')
      else if label \<in> fst ` set out then validation (''gRPC query record has duplicate label '' @ label)
      else case v of
        None \<Rightarrow> validation (''gRPC query record field '' @ label @ '' has no value'')
      | Some w \<Rightarrow>
          bind_result (validNameString label (''record field '' @ string_of_int (int index) @ '' label''))
            (\<lambda>label. bind_result (mapValue key depth w) (\<lambda>u.
              mapRecord key depth (index + 1) (obj_set label u out) fs)))"
  by pat_completeness auto

termination
proof (relation "measure (\<lambda>x. case x of
      Inl (Inl (key, d, v)) \<Rightarrow> 2 * size v
    | Inl (Inr (key, d, vs)) \<Rightarrow> 2 * size_list size vs + 1
    | Inr (Inl (key, d, i, out, es)) \<Rightarrow> 2 * size_list (\<lambda>p. size_option size (snd p)) es + 1
    | Inr (Inr (Inl (key, d, i, seen, es))) \<Rightarrow>
        2 * size_list (\<lambda>p. size_option size (fst p) + size_option size (snd p)) es + 1
    | Inr (Inr (Inr (key, d, i, out, fs))) \<Rightarrow> 2 * size_list (\<lambda>p. size_option size (snd p)) fs + 1)",
    goal_cases)
  case (6 key depth v es)
  have "size_list (\<lambda>p. size_option size (snd p)) es
      \<le> size_list (size_prod (\<lambda>x. 0) (size_option size)) es"
    by (rule size_list_pointwise) (auto simp: size_prod_simp)
  with 6 show ?case by simp
next
  case (5 key depth v es)
  have "size_list (\<lambda>p. size_option size (fst p) + size_option size (snd p)) es
      \<le> size_list (size_prod (size_option size) (size_option size)) es"
    by (rule size_list_pointwise) (auto simp: size_prod_simp)
  with 5 show ?case by simp
next
  case (4 key depth v es)
  have "size_list (\<lambda>p. size_option size (snd p)) es
      \<le> size_list (size_prod (\<lambda>x. 0) (size_option size)) es"
    by (rule size_list_pointwise) (auto simp: size_prod_simp)
  with 4 show ?case by simp
qed simp_all

declare mapValue.simps [simp del]

text \<open>An unset field read as a message throws a \<open>TypeError\<close>.\<close>

definition required :: "'a option \<Rightarrow> 'a result" where
  "required v = (case v of Some w \<Rightarrow> Inr w | None \<Rightarrow> Inl (PlainError ''TypeError''))"

definition joined :: "string \<Rightarrow> string list \<Rightarrow> string" where
  "joined sep ss = (case ss of [] \<Rightarrow> [] | s # ss' \<Rightarrow> s @ concat (map (\<lambda>t. sep @ t) ss'))"

lemma entry_size:
  "(k, Some w) \<in> set es \<Longrightarrow> size w \<le> size_list (size_prod (\<lambda>x. 0) (size_option size)) es"
  using size_list_estimation' [of "(k, Some w)" es "size w" "size_prod (\<lambda>x. 0) (size_option size)"]
  by simp

lemma pair_size:
  "(Some k, Some w) \<in> set es \<Longrightarrow>
     size k \<le> size_list (size_prod (size_option size) (size_option size)) es
     \<and> size w \<le> size_list (size_prod (size_option size) (size_option size)) es"
  using size_list_estimation' [of "(Some k, Some w)" es "size k" "size_prod (size_option size) (size_option size)"]
    size_list_estimation' [of "(Some k, Some w)" es "size w" "size_prod (size_option size) (size_option size)"]
  by simp

function canonicalLedgerKey :: "(string \<Rightarrow> string \<Rightarrow> bool) \<Rightarrow> ledger_value \<Rightarrow> string result" where
  "canonicalLedgerKey le v =
     (case v of
        LV_Unit \<Rightarrow> Inr ''unit''
      | LV_Bool b \<Rightarrow> Inr (''bool:'' @ (if b then ''true'' else ''false''))
      | LV_Int64 s \<Rightarrow> Inr (''int64:'' @ json_string s)
      | LV_Date n \<Rightarrow> Inr (''date:'' @ string_of_int n)
      | LV_Timestamp s \<Rightarrow> Inr (''timestamp:'' @ json_string s)
      | LV_Numeric s \<Rightarrow> Inr (''numeric:'' @ canonicalNumeric s)
      | LV_Party s \<Rightarrow> Inr (''party:'' @ json_string s)
      | LV_Text s \<Rightarrow> Inr (''text:'' @ json_string s)
      | LV_ContractId s \<Rightarrow> Inr (''contractId:'' @ json_string s)
      | LV_Optional None \<Rightarrow> Inr ''optional:none''
      | LV_Optional (Some w) \<Rightarrow>
          bind_result (canonicalLedgerKey le w) (\<lambda>s. Inr (''optional:some('' @ s @ '')''))
      | LV_List vs \<Rightarrow>
          bind_result (map_result (canonicalLedgerKey le) vs) (\<lambda>ss.
            Inr (''list:['' @ joined '','' ss @ '']''))
      | LV_TextMap es \<Rightarrow>
          bind_result
            (map_result (\<lambda>(k, w). case w of
                 None \<Rightarrow> Inl (PlainError ''TypeError'')
               | Some u \<Rightarrow> bind_result (canonicalLedgerKey le u) (\<lambda>s. Inr (json_string k @ '':'' @ s)))
               (sort_entries le es))
            (\<lambda>ss. Inr (''textMap:{'' @ joined '','' ss @ ''}''))
      | LV_GenMap es \<Rightarrow>
          bind_result
            (map_result (\<lambda>(k, w). case (k, w) of
                 (Some k', Some w') \<Rightarrow>
                   bind_result (canonicalLedgerKey le k') (\<lambda>s. bind_result (canonicalLedgerKey le w') (\<lambda>t.
                     Inr (s @ '':'' @ t)))
               | _ \<Rightarrow> Inl (PlainError ''TypeError'')) es)
            (\<lambda>ss. Inr (''genMap:{'' @ joined '','' (sort ss) @ ''}''))
      | LV_Record fs \<Rightarrow>
          bind_result
            (map_result (\<lambda>(k, w). case w of
                 None \<Rightarrow> Inl (PlainError ''TypeError'')
               | Some u \<Rightarrow> bind_result (canonicalLedgerKey le u) (\<lambda>s. Inr (json_string k @ '':'' @ s)))
               (sort_entries le fs))
            (\<lambda>ss. Inr (''record:{'' @ joined '','' ss @ ''}''))
      | LV_Variant c None \<Rightarrow> Inl (PlainError ''TypeError'')
      | LV_Variant c (Some w) \<Rightarrow>
          bind_result (canonicalLedgerKey le w) (\<lambda>s. Inr (''variant:'' @ json_string c @ '':'' @ s))
      | LV_Enum c \<Rightarrow> Inr (''enum:'' @ json_string c)
      | LV_None \<Rightarrow> validation ''gRPC query gen-map key cannot be represented as ledger JSON'')"
  by pat_completeness auto

termination
  by (relation "measure (\<lambda>(le, v). size v)")
    (auto simp: less_Suc_eq_le entry_size pair_size size_list_estimation')

declare canonicalLedgerKey.simps [simp del]

definition mapGrpcQueryValue :: "(string \<Rightarrow> string \<Rightarrow> bool) \<Rightarrow> ledger_value \<Rightarrow> qvalue result" where
  "mapGrpcQueryValue le v =
     bind_result (mapValue (canonicalLedgerKey le) 0 v) (\<lambda>mapped. Inr (immutableQueryValue mapped))"

section \<open>What a mapped value is\<close>

text \<open>A mapped value is plain JSON data, so freezing it changes nothing.\<close>

lemma plain_obj_set:
  "plain_data (Q_Obj out) \<Longrightarrow> plain_data u \<Longrightarrow> plain_data (Q_Obj (obj_set k u out))"
proof -
  assume out: "plain_data (Q_Obj out)" and u: "plain_data u"
  have "plain_data (Q_Obj (insert_property k u ps))" if "plain_data (Q_Obj ps)" for ps
    using that u by (induction k u ps rule: insert_property.induct) auto
  with out u show ?thesis by (auto simp: obj_set_def split: if_splits)
qed

lemma mapped_plain:
  "mapValue key d v = Inr u \<Longrightarrow> plain_data u"
  "mapList key d vs = Inr us \<Longrightarrow> list_all plain_data us"
  "mapTextMap key d i out es = Inr u \<Longrightarrow> plain_data (Q_Obj out) \<Longrightarrow> plain_data u"
  "mapGenMap key d i seen gs = Inr us \<Longrightarrow> list_all plain_data us"
  "mapRecord key d i out es = Inr u \<Longrightarrow> plain_data (Q_Obj out) \<Longrightarrow> plain_data u"
proof (induction key d v and key d vs and key d i out es and key d i seen gs and key d i out es
    arbitrary: u and us and u and us and u
    rule: mapValue_mapList_mapTextMap_mapGenMap_mapRecord.induct)
  case (1 key depth v)
  then show ?case
    by (subst (asm) (3) mapValue.simps)
      (auto simp: bind_result_Inr_iff validation_def list_all_iff
        split: if_splits ledger_value.splits option.splits)
next
  case (5 key depth index out k v es)
  then obtain w x where "v = Some w" "mapValue key depth w = Inr x" "k \<notin> fst ` set out"
    "mapTextMap key depth (index + 1) (obj_set k x out) es = Inr u"
    by (auto simp: bind_result_Inr_iff validation_def validNameString_def split: if_splits option.splits)
  with 5 plain_obj_set [of out x k] show ?case
    by (auto simp: validation_def validNameString_def simp del: plain_data.simps split: if_splits)
next
  case (10 key depth index out k v es)
  then obtain w x where "v = Some w" "mapValue key depth w = Inr x" "k \<notin> fst ` set out"
    "mapRecord key depth (index + 1) (obj_set k x out) es = Inr u"
    by (auto simp: bind_result_Inr_iff validation_def validNameString_def split: if_splits option.splits)
  with 10 plain_obj_set [of out x k] show ?case
    by (auto simp: validation_def validNameString_def simp del: plain_data.simps split: if_splits)
qed (auto simp: bind_result_Inr_iff validation_def split: if_splits)

lemma mapGrpcQueryValue_mapValue:
  "mapGrpcQueryValue le v = mapValue (canonicalLedgerKey le) 0 v"
  using mapped_plain(1) [of "canonicalLedgerKey le" 0 v]
  by (cases "mapValue (canonicalLedgerKey le) 0 v") (simp_all add: mapGrpcQueryValue_def immutable_plain)

end
