(* ===== verification/Ledger_Messages.thy ===== *)
theory Ledger_Messages
  imports Ledger_Values
begin

text \<open>
  The messages of the Ledger API that the query layer reads, and the checks it makes on them:
  the helpers of \<^verbatim>\<open>src/src/query/grpc/grpc-relation-mapper.ts\<close>. Fields hold what protobuf decodes:
  integers of 64 bits are texts, other integers are numbers, and a message or text field that may
  be unset is an option.
\<close>

section \<open>Messages\<close>

record q_identifier =
  qi_packageId :: string
  qi_moduleName :: string
  qi_entityName :: string

type_synonym proto_time = "string \<times> int"  \<comment> \<open>seconds, nanos\<close>

record created_event =
  ce_offset :: string
  ce_nodeId :: int
  ce_contractId :: string
  ce_templateId :: "q_identifier option"
  ce_packageName :: string
  ce_representativePackageId :: string
  ce_createArguments :: "(string \<times> ledger_value option) list option"
  ce_createdAt :: "proto_time option"
  ce_witnessParties :: "string list"
  ce_signatories :: "string list"
  ce_observers :: "string list"

record exercised_event =
  xe_offset :: string
  xe_nodeId :: int
  xe_contractId :: string
  xe_templateId :: "q_identifier option"
  xe_interfaceId :: "q_identifier option"
  xe_packageName :: string
  xe_choice :: string
  xe_choiceArgument :: "ledger_value option"
  xe_exerciseResult :: "ledger_value option"
  xe_consuming :: bool
  xe_actingParties :: "string list"
  xe_witnessParties :: "string list"
  xe_lastDescendantNodeId :: int

datatype ledger_event =
    Created created_event
  | Archived string            \<comment> \<open>contract id\<close>
  | Exercised exercised_event
  | No_Event

record ledger_transaction =
  tx_offset :: string
  tx_updateId :: string
  tx_workflowId :: string
  tx_effectiveAt :: "proto_time option"
  tx_recordTime :: "proto_time option"
  tx_synchronizerId :: string
  tx_events :: "ledger_event list"
  tx_traceContext :: "qvalue option"
  tx_transactionHash :: "nat list option"
  tx_externalTransactionHash :: "nat list option"
  tx_paidTrafficCost :: "string option"

text \<open>An update of the update stream; all but a transaction are read for their offset only.\<close>

datatype ledger_update =
    Transaction_Update ledger_transaction
  | Reassignment_Update string
  | Checkpoint_Update string
  | Topology_Update string
  | No_Update

text \<open>An entry of the active contract set: event, synchronizer, reassignment counter.\<close>

datatype acs_entry =
    Active_Contract "created_event option" string string
  | Incomplete_Entry

section \<open>Checks\<close>

definition max_int64 :: int where
  "max_int64 = 2 ^ 63 - 1"

text \<open>\<^verbatim>\<open>/^[1-9]\d*$/\<close> and \<^verbatim>\<open>/^(?:0|[1-9]\d*)$/\<close>\<close>

definition positive_natural :: "string \<Rightarrow> bool" where
  "positive_natural s \<longleftrightarrow> all_digits s \<and> hd s \<noteq> CHR ''0''"

definition validOffset :: "string \<Rightarrow> string \<Rightarrow> string result" where
  "validOffset s name =
     (if \<not> positive_natural s then validation (''gRPC query '' @ name @ '' is invalid'')
      else if int (nat_of_digits s) > max_int64 then
        validation (''gRPC query '' @ name @ '' is outside the int64 range'')
      else Inr s)"

definition signedInt64 :: "string \<Rightarrow> string \<Rightarrow> string result" where
  "signedInt64 s name =
     (if \<not> integer_text s then validation (''gRPC query '' @ name @ '' is invalid'')
      else if big_integer s < - max_int64 - 1 \<or> big_integer s > max_int64 then
        validation (''gRPC query '' @ name @ '' is outside the int64 range'')
      else Inr s)"

definition uint64 :: "string \<Rightarrow> string \<Rightarrow> string result" where
  "uint64 s name =
     (if \<not> canonical_natural s then validation (''gRPC query '' @ name @ '' is invalid'')
      else if int (nat_of_digits s) > 2 ^ 64 - 1 then
        validation (''gRPC query '' @ name @ '' is outside the uint64 range'')
      else Inr s)"

definition validNodeId :: "int \<Rightarrow> string \<Rightarrow> int result" where
  "validNodeId n name =
     (if n > 2 ^ 53 - 1 \<or> n < 0 then validation (''gRPC query '' @ name @ '' is invalid'') else Inr n)"

text \<open>\<^verbatim>\<open>timestamp(value, name, true)\<close>, in milliseconds.\<close>

definition requiredTimestamp :: "proto_time option \<Rightarrow> string \<Rightarrow> int result" where
  "requiredTimestamp value name =
     (case value of
        None \<Rightarrow> validation (''gRPC query '' @ name @ '' is missing'')
      | Some (seconds, nanos) \<Rightarrow>
          if \<not> integer_text seconds \<or> nanos < 0 \<or> nanos > 999999999 then
            validation (''gRPC query '' @ name @ '' is invalid'')
          else
            let milliseconds = big_integer seconds * 1000 + nanos div 1000000 in
            if milliseconds < -62135596800000 \<or> milliseconds > 253402300799999 then
              validation (''gRPC query '' @ name @ '' is outside the Ledger API range'')
            else Inr milliseconds)"

definition requiredTemplate :: "q_identifier option \<Rightarrow> string \<Rightarrow> q_identifier result" where
  "requiredTemplate template name =
     (case template of
        None \<Rightarrow> validation (''gRPC query '' @ name @ '' is missing'')
      | Some t \<Rightarrow>
          bind_result (validPackageIdString (qi_packageId t) (name @ '' package id'')) (\<lambda>_.
          bind_result (validDottedNameString (qi_moduleName t) (name @ '' module name'')) (\<lambda>_.
          bind_result (validDottedNameString (qi_entityName t) (name @ '' entity name'')) (\<lambda>_.
            Inr t))))"

text \<open>\<^verbatim>\<open>[...new Set(value.map(validPartyId))].sort()\<close>, by code units.\<close>

definition immutableStrings :: "string list \<Rightarrow> string \<Rightarrow> bool \<Rightarrow> string list result" where
  "immutableStrings value name must =
     (if must \<and> value = [] then validation (''gRPC query '' @ name @ '' is missing'')
      else bind_result (map_result validPartyId value) (\<lambda>parties. Inr (sort (remdups parties))))"

definition nullableString :: "string \<Rightarrow> string option" where
  "nullableString s = (if s = [] then None else Some s)"

text \<open>\<^verbatim>\<open>compareOffset\<close> orders valid offsets by their value; it throws on any other text.\<close>

definition offset_value :: "string \<Rightarrow> int" where
  "offset_value s = int (nat_of_digits s)"

lemma immutable_strings_ok:
  "immutableStrings value name must = Inr ps \<Longrightarrow>
     set ps = set value \<and> sorted ps \<and> distinct ps \<and> list_all (text_of '':-_ '' 255) ps"
proof -
  assume ok: "immutableStrings value name must = Inr ps"
  then obtain qs where qs: "map_result validPartyId value = Inr qs" "ps = sort (remdups qs)"
    by (auto simp: immutableStrings_def bind_result_Inr_iff validation_def split: if_splits)
  have "map_result validPartyId vs = Inr rs \<Longrightarrow> rs = vs \<and> list_all (text_of '':-_ '' 255) vs" for vs rs
    by (induction vs arbitrary: rs)
      (auto simp: bind_result_Inr_iff validPartyId_def validation_def split: if_splits)
  from this [OF qs(1)] qs(2) show ?thesis by (auto simp: list_all_iff)
qed

end
