(* ===== verification/Public_Identity.thy ===== *)
theory Public_Identity
  imports JS_Value Calendar
begin

text \<open>
  Public numeric identities: \<^verbatim>\<open>src/src/query/canonical/public-identity.ts\<close>. A text is encoded as
  the decimal digits of its UTF-8 bytes after a leading one; parts are framed by their length. The
  lemmas show that both encodings are injective. Texts hold code units up to 255, which UTF-8
  encodes in one or two bytes.
\<close>

definition utf8_char :: "char \<Rightarrow> nat list" where
  "utf8_char c = (let n = of_char c in if n < 128 then [n] else [192 + n div 64, 128 + n mod 64])"

definition utf8 :: "string \<Rightarrow> nat list" where
  "utf8 s = concat (map utf8_char s)"

definition max_identity_bytes :: nat where
  "max_identity_bytes = 43690"

definition canonicalPublicNumericIdentity :: "string \<Rightarrow> string result" where
  "canonicalPublicNumericIdentity identity =
     (let bytes = utf8 identity in
      if length bytes > max_identity_bytes then
        Inl (RangeError (''Canonical public identity exceeds '' @ string_of_int (int max_identity_bytes)
          @ '' UTF-8 bytes''))
      else Inr (''1'' @ concat (map (\<lambda>b. pad_digits 3 (int b)) bytes)))"

definition canonicalPublicNumericIdentityParts :: "string list \<Rightarrow> string result" where
  "canonicalPublicNumericIdentityParts parts =
     canonicalPublicNumericIdentity
       (concat (map (\<lambda>part. string_of_int (int (length (utf8 part))) @ '':'' @ part) parts))"

section \<open>The encodings are injective\<close>

lemma of_char_less_256: "(of_char c :: nat) < 256"
  by simp

lemma utf8_char_bytes: "b \<in> set (utf8_char c) \<Longrightarrow> b < 256"
proof -
  assume b: "b \<in> set (utf8_char c)"
  have "(of_char c :: nat) div 64 < 4" using of_char_less_256 [of c] by (simp add: less_mult_imp_div_less)
  with b show ?thesis by (auto simp: utf8_char_def Let_def split: if_splits)
qed

lemma utf8_bytes: "b \<in> set (utf8 s) \<Longrightarrow> b < 256"
  by (auto simp: utf8_def dest: utf8_char_bytes)

lemma utf8_char_prefix:
  "utf8_char c @ bs = utf8_char d @ bs' \<Longrightarrow> c = d \<and> bs = bs'"
proof -
  assume eq: "utf8_char c @ bs = utf8_char d @ bs'"
  have m: "m div 64 = n div 64 \<Longrightarrow> m mod 64 = n mod 64 \<Longrightarrow> m = n" for m n :: nat
    by (metis div_mult_mod_eq)
  have "(of_char c :: nat) = of_char d \<and> bs = bs'"
    using eq m [of "of_char c" "of_char d"]
    by (simp add: utf8_char_def Let_def split: if_splits)
  then show ?thesis by simp
qed

lemma utf8_inj: "utf8 s = utf8 t \<Longrightarrow> s = t"
proof (induction s arbitrary: t)
  case Nil
  then show ?case by (cases t) (auto simp: utf8_def utf8_char_def Let_def split: if_splits)
next
  case (Cons c s)
  then obtain d t' where t: "t = d # t'"
    by (cases t) (auto simp: utf8_def utf8_char_def Let_def split: if_splits)
  with Cons.prems have "utf8_char c @ utf8 s = utf8_char d @ utf8 t'" by (simp add: utf8_def)
  from utf8_char_prefix [OF this] Cons.IH t show ?case by blast
qed

lemma length_pad_digits: "0 \<le> n \<Longrightarrow> n < 10 ^ w \<Longrightarrow> 0 < w \<Longrightarrow> length (pad_digits w n) = w"
proof -
  assume n: "0 \<le> n" "n < 10 ^ w" "0 < w"
  then have "nat n < 10 ^ w" by (simp add: nat_less_iff)
  then have "length (digits_of_nat (nat n)) \<le> w" using digits_of_nat_length_iff n(3) by blast
  then show ?thesis by (simp add: pad_digits_def Let_def)
qed

lemma value_pad_digits [simp]: "nat_of_digits (pad_digits w n) = nat n"
proof -
  have "nat_of_digits (replicate k (CHR ''0'')) = 0" for k
    by (induction k) (simp_all add: nat_of_digits_Cons digit_value_def)
  then show ?thesis by (simp add: pad_digits_def Let_def nat_of_digits_append)
qed

lemma pad_digits_nonempty [simp]: "pad_digits w n \<noteq> []"
  by (simp add: pad_digits_def Let_def)

lemma three_digits: "b < 256 \<Longrightarrow> length (pad_digits 3 (int b)) = 3"
  by (rule length_pad_digits) simp_all

lemma three_digits_inj:
  "(\<forall>b \<in> set bs. b < 256) \<Longrightarrow> (\<forall>b \<in> set bs'. b < 256) \<Longrightarrow>
   concat (map (\<lambda>b. pad_digits 3 (int b)) bs) = concat (map (\<lambda>b. pad_digits 3 (int b)) bs') \<Longrightarrow>
   bs = bs'"
proof (induction bs arbitrary: bs')
  case Nil
  then show ?case by (cases bs') simp_all
next
  case (Cons b bs)
  from Cons.prems(3) obtain c cs where bs': "bs' = c # cs" by (cases bs') simp_all
  have app: "pad_digits 3 (int b) @ concat (map (\<lambda>b. pad_digits 3 (int b)) bs)
      = pad_digits 3 (int c) @ concat (map (\<lambda>b. pad_digits 3 (int b)) cs)"
    using Cons.prems(3) unfolding bs' by (simp only: list.map concat.simps)
  have "b < 256" "c < 256" using Cons.prems(1,2) bs' by auto
  then have len: "length (pad_digits 3 (int b)) = length (pad_digits 3 (int c))"
    by (simp only: three_digits)
  note eq = app [unfolded append_eq_append_conv [OF disjI1 [OF len]]]
  have "nat (int b) = nat (int c)"
    using arg_cong [OF conjunct1 [OF eq], of nat_of_digits] by (simp only: value_pad_digits)
  moreover have "bs = cs" using Cons.prems(1,2) conjunct2 [OF eq] unfolding bs' by (intro Cons.IH) (blast intro: list.set_intros(2))+
  ultimately show ?case using bs' by simp
qed

lemma identity_inj:
  assumes "canonicalPublicNumericIdentity s = Inr k" "canonicalPublicNumericIdentity t = Inr k"
  shows "s = t"
proof -
  have "concat (map (\<lambda>b. pad_digits 3 (int b)) (utf8 s)) = concat (map (\<lambda>b. pad_digits 3 (int b)) (utf8 t))"
    using assms by (auto simp: canonicalPublicNumericIdentity_def Let_def split: if_splits)
  then have "utf8 s = utf8 t" by (intro three_digits_inj) (auto dest: utf8_bytes)
  then show ?thesis by (rule utf8_inj)
qed

text \<open>A decimal length, a colon and that many bytes can be read back from the front of a text.\<close>

lemma take_digits:
  assumes "digits_of_nat m @ CHR '':'' # r = digits_of_nat n @ CHR '':'' # r'"
  shows "m = n \<and> r = r'"
proof -
  have tw: "takeWhile is_digit (digits_of_nat k @ CHR '':'' # x) = digits_of_nat k"
    "dropWhile is_digit (digits_of_nat k @ CHR '':'' # x) = CHR '':'' # x" for k x
    using digits_of_nat_digits [of k]
    by (simp_all add: list_all_iff takeWhile_append2 dropWhile_append2 is_digit_def)
  have "digits_of_nat m = digits_of_nat n" "CHR '':'' # r = CHR '':'' # r'"
    by (metis assms tw(1), metis assms tw(2))
  then show ?thesis by (metis list.inject nat_of_digits_of_nat)
qed

lemma utf8_append: "utf8 (s @ t) = utf8 s @ utf8 t"
  by (simp add: utf8_def)

lemma prefix_of_equal_bytes:
  "p @ r = q @ r' \<Longrightarrow> length (utf8 p) = length (utf8 q) \<Longrightarrow> p = q \<and> r = r'"
proof -
  assume eq: "p @ r = q @ r'" and len: "length (utf8 p) = length (utf8 q)"
  have "utf8 p @ utf8 r = utf8 q @ utf8 r'" using eq by (metis utf8_append)
  with len have "utf8 p = utf8 q" by simp
  then have "p = q" by (rule utf8_inj)
  with eq show ?thesis by simp
qed

lemma framing_inj:
  "concat (map (\<lambda>part. string_of_int (int (length (utf8 part))) @ '':'' @ part) ps)
   = concat (map (\<lambda>part. string_of_int (int (length (utf8 part))) @ '':'' @ part) qs) \<Longrightarrow> ps = qs"
proof (induction ps arbitrary: qs)
  case Nil
  then show ?case by (cases qs) (auto simp: string_of_int_def)
next
  case (Cons p ps)
  then obtain q qs' where qs: "qs = q # qs'" by (cases qs) (auto simp: string_of_int_def)
  let ?f = "\<lambda>ps. concat (map (\<lambda>part. string_of_int (int (length (utf8 part))) @ '':'' @ part) ps)"
  have "digits_of_nat (length (utf8 p)) @ CHR '':'' # p @ ?f ps
      = digits_of_nat (length (utf8 q)) @ CHR '':'' # q @ ?f qs'"
    using Cons.prems qs by (simp add: string_of_int_def)
  from take_digits [OF this] have "length (utf8 p) = length (utf8 q)" "p @ ?f ps = q @ ?f qs'" by auto
  with prefix_of_equal_bytes have "p = q" "?f ps = ?f qs'" by blast+
  with Cons.IH qs show ?case by simp
qed

lemma identity_parts_inj:
  "canonicalPublicNumericIdentityParts ps = Inr k \<Longrightarrow>
   canonicalPublicNumericIdentityParts qs = Inr k \<Longrightarrow> ps = qs"
  unfolding canonicalPublicNumericIdentityParts_def by (rule framing_inj) (rule identity_inj)

lemma identity_defined_iff:
  "(\<exists>k. canonicalPublicNumericIdentity s = Inr k) \<longleftrightarrow> length (utf8 s) \<le> max_identity_bytes"
  by (auto simp: canonicalPublicNumericIdentity_def Let_def)

end
