(* ===== verification/Relation_Mapping.thy ===== *)
theory Relation_Mapping
  imports Ledger_Messages Public_Identity "HOL-Library.Product_Lexorder"
begin

text \<open>
  Materializing ledger transactions and active contracts into rows:
  \<^verbatim>\<open>mapGrpcQueryRelationFragment\<close> of \<^verbatim>\<open>src/src/query/grpc/grpc-relation-mapper.ts\<close> and what it
  calls. A JavaScript \<open>Map\<close> is an association list in insertion order. \<open>le\<close> is the order of
  \<^verbatim>\<open>localeCompare\<close>.
\<close>

section \<open>Rows\<close>

record contract_row =
  cr_contractId :: string
  cr_templateId :: q_identifier
  cr_packageId :: "string option"
  cr_payload :: qvalue
  cr_witnesses :: "string list"
  cr_createdEventOffset :: string
  cr_createdAt :: "int option"
  cr_archivedEventOffset :: "string option"
  cr_archivedAt :: "int option"
  cr_active :: bool

record creation_identity =
  ci_contractId :: string
  ci_offset :: string
  ci_templateId :: q_identifier
  ci_creationPackageId :: string
  ci_representativePackageId :: "string option"
  ci_packageName :: string
  ci_payload :: qvalue
  ci_witnesses :: "string list"
  ci_createdAt :: int

record transaction_row =
  tr_ix :: string
  tr_offset :: string
  tr_transactionId :: string
  tr_effectiveAt :: int
  tr_workflowId :: "string option"
  tr_traceContext :: qvalue
  tr_externalTransactionHash :: "nat list option"
  tr_paidTrafficCost :: "string option"

record event_row =
  er_pk :: string
  er_txIx :: string
  er_eventId :: string
  er_type :: string

text \<open>The columns that are always null (\<^verbatim>\<open>redactionId\<close>, \<^verbatim>\<open>domainId\<close>) are left out.\<close>

record exercise_row =
  xr_tpePk :: string
  xr_contractTpePk :: string
  xr_exerciseEventPk :: string
  xr_exercisedAtIx :: string
  xr_contractId :: string
  xr_argument :: qvalue
  xr_result :: qvalue
  xr_packagePk :: string
  xr_controllers :: "string list"
  xr_lastDescendantNodeId :: string
  xr_witnesses :: "string list"

record type_identity =
  ty_pk :: string
  ty_templateId :: q_identifier
  ty_packageName :: "string option"
  ty_choice :: "(string \<times> bool) option"  \<comment> \<open>choice, consuming\<close>

record active_identity =
  ai_contractId :: string
  ai_synchronizerId :: string
  ai_reassignmentCounter :: string
  ai_activationOffset :: string
  ai_activationNodeId :: int

record relation_fragment =
  rf_contracts :: "contract_row list"
  rf_transactions :: "transaction_row list"
  rf_events :: "event_row list"
  rf_exercises :: "exercise_row list"
  rf_typeIdentities :: "type_identity list"
  rf_packageIdentities :: "(string \<times> string) list"  \<comment> \<open>key, id\<close>
  rf_creationIdentities :: "creation_identity list"
  rf_activeContractIdentities :: "active_identity list"

section \<open>Creations\<close>

definition creationDescriptor ::
    "(string \<Rightarrow> string \<Rightarrow> bool) \<Rightarrow> created_event \<Rightarrow> string \<Rightarrow> creation_identity result" where
  "creationDescriptor le event offset =
     bind_result (validOffset offset ''created event offset'') (\<lambda>_.
     bind_result (validNodeId (ce_nodeId event) ''created node id'') (\<lambda>_.
     bind_result (validLedgerString (ce_contractId event) ''created event contract id'') (\<lambda>_.
     if ce_packageName event = [] then validation ''gRPC query created event package name is missing''
     else
     bind_result (validPackageIdString (ce_representativePackageId event)
       ''created event representative package id'') (\<lambda>_.
     bind_result (requiredTemplate (ce_templateId event) ''created event template'') (\<lambda>template.
     case ce_createArguments event of
       None \<Rightarrow> validation ''gRPC query created event has no create arguments''
     | Some createArguments \<Rightarrow>
     bind_result (requiredTimestamp (ce_createdAt event) ''created event time'') (\<lambda>createdAt.
     bind_result (immutableStrings (ce_signatories event) ''created event signatories'' True) (\<lambda>_.
     bind_result (immutableStrings (ce_observers event) ''created event observers'' False) (\<lambda>_.
     bind_result (mapGrpcQueryValue le (LV_Record createArguments)) (\<lambda>payload.
     bind_result (immutableStrings (ce_witnessParties event) ''created event witnesses'' True) (\<lambda>witnesses.
       Inr \<lparr>ci_contractId = ce_contractId event, ci_offset = offset, ci_templateId = template,
            ci_creationPackageId = qi_packageId template,
            ci_representativePackageId = nullableString (ce_representativePackageId event),
            ci_packageName = ce_packageName event, ci_payload = payload, ci_witnesses = witnesses,
            ci_createdAt = createdAt\<rparr>))))))))))"

definition row_of_creation :: "creation_identity \<Rightarrow> contract_row" where
  "row_of_creation c =
     \<lparr>cr_contractId = ci_contractId c, cr_templateId = ci_templateId c,
      cr_packageId = Some (ci_creationPackageId c), cr_payload = ci_payload c,
      cr_witnesses = ci_witnesses c, cr_createdEventOffset = ci_offset c,
      cr_createdAt = Some (ci_createdAt c), cr_archivedEventOffset = None, cr_archivedAt = None,
      cr_active = True\<rparr>"

text \<open>The two maps by contract id that the materialization fills.\<close>

type_synonym contract_maps = "(string \<times> contract_row) list \<times> (string \<times> creation_identity) list"

definition addCreatedContract ::
    "(string \<Rightarrow> string \<Rightarrow> bool) \<Rightarrow> contract_maps \<Rightarrow> created_event \<Rightarrow> string \<Rightarrow> contract_maps result" where
  "addCreatedContract le maps event offset =
     bind_result (creationDescriptor le event offset) (\<lambda>creation.
       case maps of (contracts, creations) \<Rightarrow>
       if map_of contracts (ce_contractId event) \<noteq> None then
         validation (''gRPC query has duplicate contract creation '' @ ce_contractId event)
       else Inr (AList.update (ce_contractId event) (row_of_creation creation) contracts,
                 AList.update (ce_contractId event) creation creations))"

section \<open>Active contracts\<close>

record active_entry =
  ae_event :: created_event
  ae_synchronizerId :: string
  ae_reassignmentCounter :: string

definition active_entry_of :: "(string \<Rightarrow> string \<Rightarrow> bool) \<Rightarrow> acs_entry \<Rightarrow> active_entry result" where
  "active_entry_of le response =
     (case response of
        Incomplete_Entry \<Rightarrow>
          validation ''gRPC query ACS contains incomplete assigned or unassigned contract data''
      | Active_Contract None synchronizerId counter \<Rightarrow>
          validation ''gRPC query ACS contains incomplete assigned or unassigned contract data''
      | Active_Contract (Some event) synchronizerId counter \<Rightarrow>
          if synchronizerId = [] then
            validation ''gRPC query ACS active contract synchronizer id is missing''
          else
            bind_result (creationDescriptor le event (ce_offset event)) (\<lambda>_.
            bind_result (uint64 counter ''ACS active contract reassignment counter'') (\<lambda>counter.
              Inr \<lparr>ae_event = event, ae_synchronizerId = synchronizerId,
                   ae_reassignmentCounter = counter\<rparr>)))"

text \<open>The key of an activation joins contract id and synchronizer id with a NUL character.\<close>

definition activation_key :: "active_entry \<Rightarrow> string" where
  "activation_key entry = ce_contractId (ae_event entry) @ [CHR 0x00] @ ae_synchronizerId entry"

fun check_activations :: "string list \<Rightarrow> active_entry list \<Rightarrow> unit result" where
  "check_activations seen [] = Inr ()"
| "check_activations seen (entry # entries) =
     (if activation_key entry \<in> set seen then
        validation (''gRPC query has duplicate ACS activation for '' @ ce_contractId (ae_event entry)
          @ '' on '' @ ae_synchronizerId entry)
      else check_activations (activation_key entry # seen) entries)"

definition activeContractEntries ::
    "(string \<Rightarrow> string \<Rightarrow> bool) \<Rightarrow> acs_entry list \<Rightarrow> active_entry list result" where
  "activeContractEntries le responses =
     bind_result (map_result (active_entry_of le) responses) (\<lambda>entries.
       bind_result (check_activations [] entries) (\<lambda>_. Inr entries))"

text \<open>
  \<^verbatim>\<open>canonicalCreationFacts\<close> compares the JSON texts of an object of these facts, whose payload has
  its keys sorted. Two such texts are equal exactly when the facts are, so the facts stand for them.
\<close>

fun canonicalJson :: "qvalue \<Rightarrow> qvalue" where
  "canonicalJson (Q_Arr vs) = Q_Arr (map canonicalJson vs)"
| "canonicalJson (Q_Obj ps) =
     Q_Obj (obj_from_entries (sort_key fst (map (\<lambda>(k, v). (k, canonicalJson v)) ps)))"
| "canonicalJson v = v"

definition canonicalCreationFacts ::
    "creation_identity \<Rightarrow> string \<times> q_identifier \<times> string \<times> string option \<times> int \<times> qvalue" where
  "canonicalCreationFacts c =
     (ci_contractId c, ci_templateId c, ci_creationPackageId c, ci_representativePackageId c,
      ci_createdAt c, canonicalJson (ci_payload c))"

definition activation_before ::
    "(string \<Rightarrow> string \<Rightarrow> bool) \<Rightarrow> active_entry \<Rightarrow> active_entry \<Rightarrow> bool" where
  "activation_before le l r =
     (let lc = offset_value (ae_reassignmentCounter l); rc = offset_value (ae_reassignmentCounter r);
          lo = offset_value (ce_offset (ae_event l)); ro = offset_value (ce_offset (ae_event r)) in
      if lc \<noteq> rc then lc < rc else if lo \<noteq> ro then lo < ro
      else le (ae_synchronizerId l) (ae_synchronizerId r))"

text \<open>Grouping by contract id, in the order of first appearance.\<close>

definition group_entries :: "active_entry list \<Rightarrow> (string \<times> active_entry list) list" where
  "group_entries entries =
     fold (\<lambda>entry grouped.
         let k = ce_contractId (ae_event entry) in
         AList.update k ((case map_of grouped k of Some b \<Rightarrow> b | None \<Rightarrow> []) @ [entry]) grouped)
       entries []"

definition reconcile_group ::
    "(string \<Rightarrow> string \<Rightarrow> bool) \<Rightarrow> contract_maps \<Rightarrow> string \<times> active_entry list \<Rightarrow> contract_maps result" where
  "reconcile_group le maps g =
     (case (maps, g) of ((contracts, creations), (contractId, entries)) \<Rightarrow>
     bind_result (map_result (\<lambda>entry. creationDescriptor le (ae_event entry) (ce_offset (ae_event entry)))
       entries) (\<lambda>descriptors.
     let facts = canonicalCreationFacts (hd descriptors) in
     if \<exists>d \<in> set descriptors. canonicalCreationFacts d \<noteq> facts then
       validation (''gRPC query ACS conflicts within activations for contract '' @ contractId)
     else
     let existing = map_of contracts contractId; historical = map_of creations contractId in
     if (case existing of Some row \<Rightarrow> \<not> cr_active row | None \<Rightarrow> False) then
       validation (''gRPC query ACS contains archived contract '' @ contractId)
     else if (case historical of Some h \<Rightarrow> canonicalCreationFacts h \<noteq> facts | None \<Rightarrow> False) then
       validation (''gRPC query ACS conflicts with history for contract '' @ contractId)
     else
     bind_result (immutableStrings
         ((case historical of Some h \<Rightarrow> ci_witnesses h | None \<Rightarrow> [])
          @ concat (map ci_witnesses descriptors)) ''created event witnesses'' True) (\<lambda>witnesses.
     bind_result
       (if existing = None then
          let representative = hd (sort_by (activation_before le) entries) in
          addCreatedContract le maps (ae_event representative) (ce_offset (ae_event representative))
        else Inr maps) (\<lambda>(contracts, creations).
     bind_result (required (map_of creations contractId)) (\<lambda>creation.
     bind_result (required (map_of contracts contractId)) (\<lambda>row.
       Inr (AList.update contractId (row\<lparr>cr_witnesses := witnesses\<rparr>) contracts,
            AList.update contractId (creation\<lparr>ci_witnesses := witnesses\<rparr>) creations)))))))"

fun reconcile_groups ::
    "(string \<Rightarrow> string \<Rightarrow> bool) \<Rightarrow> contract_maps \<Rightarrow> (string \<times> active_entry list) list \<Rightarrow>
     contract_maps result" where
  "reconcile_groups le maps [] = Inr maps"
| "reconcile_groups le maps (g # gs) =
     bind_result (reconcile_group le maps g) (\<lambda>maps. reconcile_groups le maps gs)"

definition reconcileActiveContracts ::
    "(string \<Rightarrow> string \<Rightarrow> bool) \<Rightarrow> contract_maps \<Rightarrow> active_entry list \<Rightarrow> contract_maps result" where
  "reconcileActiveContracts le maps entries = reconcile_groups le maps (group_entries entries)"

section \<open>Transactions\<close>

definition validateTransaction :: "ledger_transaction \<Rightarrow> unit result" where
  "validateTransaction t =
     (if tx_events t = [] then validation ''gRPC query transaction has no events''
      else if tx_synchronizerId t = [] then
        validation ''gRPC query transaction synchronizer id is missing''
      else
        bind_result (validLedgerString (tx_updateId t) ''transaction update id'') (\<lambda>_.
        bind_result
          (if tx_workflowId t = [] then Inr []
           else validLedgerString (tx_workflowId t) ''transaction workflow id'') (\<lambda>_.
        bind_result (requiredTimestamp (tx_effectiveAt t) ''transaction effective time'') (\<lambda>_.
        bind_result (requiredTimestamp (tx_recordTime t) ''transaction record time'') (\<lambda>_.
          Inr ())))))"

text \<open>A pending event: its transaction, and the event itself.\<close>

datatype pending_body = Pending_Created created_event | Pending_Exercised exercised_event

record pending_event =
  pe_transaction :: ledger_transaction
  pe_body :: pending_body

definition body_offset :: "pending_body \<Rightarrow> string" where
  "body_offset b = (case b of Pending_Created e \<Rightarrow> ce_offset e | Pending_Exercised e \<Rightarrow> xe_offset e)"

definition body_node :: "pending_body \<Rightarrow> int" where
  "body_node b = (case b of Pending_Created e \<Rightarrow> ce_nodeId e | Pending_Exercised e \<Rightarrow> xe_nodeId e)"

definition body_template :: "pending_body \<Rightarrow> q_identifier option" where
  "body_template b =
     (case b of Pending_Created e \<Rightarrow> ce_templateId e | Pending_Exercised e \<Rightarrow> xe_templateId e)"

definition eventId :: "pending_body \<Rightarrow> string" where
  "eventId b = body_offset b @ '':'' @ string_of_int (body_node b)"

definition eventIdentity :: "pending_body \<Rightarrow> string" where
  "eventIdentity b =
     ''event'' @ [CHR 0x00] @ body_offset b @ [CHR 0x00] @ string_of_int (body_node b)"

definition exerciseOwner :: "exercised_event \<Rightarrow> q_identifier result" where
  "exerciseOwner e =
     (case xe_interfaceId e of
        None \<Rightarrow> requiredTemplate (xe_templateId e) ''exercise template''
      | Some i \<Rightarrow> requiredTemplate (Some i) ''exercise interface'')"

definition validatePending ::
    "(string \<Rightarrow> string \<Rightarrow> bool) \<Rightarrow> ledger_transaction \<Rightarrow> pending_body \<Rightarrow> unit result" where
  "validatePending le t b =
     (let kind = (case b of Pending_Created _ \<Rightarrow> ''created'' | Pending_Exercised _ \<Rightarrow> ''exercised'') in
      bind_result (validOffset (body_offset b) (kind @ '' event offset'')) (\<lambda>_.
      bind_result (validNodeId (body_node b) (kind @ '' node id'')) (\<lambda>_.
      if body_offset b \<noteq> tx_offset t then
        validation (''gRPC query '' @ kind @ '' event offset differs from its transaction'')
      else
      bind_result (validLedgerString
        (case b of Pending_Created e \<Rightarrow> ce_contractId e | Pending_Exercised e \<Rightarrow> xe_contractId e)
        (kind @ '' event contract id'')) (\<lambda>_.
      bind_result (requiredTemplate (body_template b) (kind @ '' event template'')) (\<lambda>_.
      case b of
        Pending_Created e \<Rightarrow> bind_result (creationDescriptor le e (ce_offset e)) (\<lambda>_. Inr ())
      | Pending_Exercised e \<Rightarrow>
          bind_result (exerciseOwner e) (\<lambda>_.
          if xe_packageName e = [] then validation ''gRPC query exercise package name is missing''
          else if xe_choiceArgument e = None then validation ''gRPC query exercise argument is missing''
          else
          bind_result (validNameString (xe_choice e) ''exercise choice'') (\<lambda>_.
          bind_result (immutableStrings (xe_actingParties e) ''exercise acting parties'' True) (\<lambda>_.
          bind_result (immutableStrings (xe_witnessParties e) ''exercise witnesses'' True) (\<lambda>_.
          bind_result (validNodeId (xe_lastDescendantNodeId e) ''last descendant node id'') (\<lambda>_.
          if xe_lastDescendantNodeId e < xe_nodeId e then
            validation ''gRPC query exercise last descendant node id precedes its node id''
          else Inr ()))))))))))"

definition pendingEvent ::
    "(string \<Rightarrow> string \<Rightarrow> bool) \<Rightarrow> ledger_transaction \<Rightarrow> ledger_event \<Rightarrow> pending_event result" where
  "pendingEvent le t e =
     (let pend = (\<lambda>b. bind_result (validatePending le t b) (\<lambda>_.
            Inr \<lparr>pe_transaction = t, pe_body = b\<rparr>)) in
      case e of
        Created c \<Rightarrow> pend (Pending_Created c)
      | Exercised x \<Rightarrow> pend (Pending_Exercised x)
      | _ \<Rightarrow> validation ''gRPC query history contains a non-ledger-effects event'')"

text \<open>The loop over the transactions: \<open>seen\<close> are the offsets met so far.\<close>

fun pending_events ::
    "(string \<Rightarrow> string \<Rightarrow> bool) \<Rightarrow> string list \<Rightarrow> ledger_transaction list \<Rightarrow> pending_event list result" where
  "pending_events le seen [] = Inr []"
| "pending_events le seen (t # ts) =
     bind_result (validOffset (tx_offset t) ''transaction offset'') (\<lambda>_.
     bind_result (validateTransaction t) (\<lambda>_.
     if tx_offset t \<in> set seen then
       validation (''gRPC query has duplicate transaction offset '' @ tx_offset t)
     else
     bind_result (map_result (pendingEvent le t) (tx_events t)) (\<lambda>ps.
     bind_result (pending_events le (tx_offset t # seen) ts) (\<lambda>rest. Inr (ps @ rest)))))"

fun check_events :: "string list \<Rightarrow> pending_event list \<Rightarrow> unit result" where
  "check_events seen [] = Inr ()"
| "check_events seen (p # ps) =
     (if eventIdentity (pe_body p) \<in> set seen then
        validation (''gRPC query has duplicate event '' @ eventId (pe_body p))
      else check_events (eventIdentity (pe_body p) # seen) ps)"

definition pending_before :: "pending_event \<Rightarrow> int \<times> int" where
  "pending_before p = (offset_value (tx_offset (pe_transaction p)), body_node (pe_body p))"

text \<open>\<^verbatim>\<open>[...source].sort(compareOffset)\<close>: with two or more transactions the comparison throws on an
  invalid offset, before anything else is checked.\<close>

definition sort_transactions :: "ledger_transaction list \<Rightarrow> ledger_transaction list result" where
  "sort_transactions source =
     (if length source < 2 then Inr source
      else bind_result (each_result (\<lambda>t.
          bind_result (validOffset (tx_offset t) ''transaction offset'') (\<lambda>_. Inr ())) source)
        (\<lambda>_. Inr (sort_key (\<lambda>t. offset_value (tx_offset t)) source)))"

section \<open>Keys\<close>

definition contractIdentity :: "q_identifier \<Rightarrow> string" where
  "contractIdentity t =
     ''contract-type'' @ [CHR 0x00] @ qi_packageId t @ [CHR 0x00] @ qi_moduleName t
       @ [CHR 0x00] @ qi_entityName t"

definition packageIdentity :: "string \<Rightarrow> string" where
  "packageIdentity package = ''package'' @ [CHR 0x00] @ package"

definition exerciseIdentity :: "q_identifier \<Rightarrow> string \<Rightarrow> bool \<Rightarrow> string" where
  "exerciseIdentity t choice consuming =
     ''exercise-type'' @ [CHR 0x00] @ qi_packageId t @ [CHR 0x00] @ qi_moduleName t @ [CHR 0x00]
       @ qi_entityName t @ [CHR 0x00] @ choice @ [CHR 0x00] @ (if consuming then ''true'' else ''false'')"

definition packageIdsFor :: "pending_body \<Rightarrow> string list result" where
  "packageIdsFor b =
     bind_result (requiredTemplate (body_template b) ''event template'') (\<lambda>template.
       case b of
         Pending_Created e \<Rightarrow>
           Inr (qi_packageId template
             # (if ce_representativePackageId e = [] then [] else [ce_representativePackageId e]))
       | Pending_Exercised e \<Rightarrow>
           bind_result (exerciseOwner e) (\<lambda>owner.
             Inr (if qi_packageId owner = qi_packageId template then [qi_packageId template]
                  else [qi_packageId template, qi_packageId owner])))"

definition identitiesFor :: "pending_body \<Rightarrow> string list result" where
  "identitiesFor b =
     bind_result (requiredTemplate (body_template b) ''event template'') (\<lambda>template.
     bind_result (packageIdsFor b) (\<lambda>packages.
       let common = eventIdentity b # contractIdentity template # map packageIdentity packages in
       case b of
         Pending_Created e \<Rightarrow> Inr common
       | Pending_Exercised e \<Rightarrow> bind_result (exerciseOwner e) (\<lambda>owner.
           Inr (common @ [exerciseIdentity owner (xe_choice e) (xe_consuming e)]))))"

text \<open>\<^verbatim>\<open>keyRegistry\<close>; a set keeps the first of equal texts.\<close>

fun first_of_each :: "'a list \<Rightarrow> 'a list" where
  "first_of_each [] = []"
| "first_of_each (x # xs) = x # filter (\<lambda>y. y \<noteq> x) (first_of_each xs)"

definition keyRegistry :: "string list \<Rightarrow> (string \<times> string) list result" where
  "keyRegistry identities =
     map_result (\<lambda>identity. bind_result (canonicalPublicNumericIdentity identity) (\<lambda>key.
       Inr (identity, key))) (first_of_each identities)"

text \<open>A key the code asserts to be present (\<^verbatim>\<open>registry.get(identity)!\<close>); it always is.\<close>

definition typeIdentityRows ::
    "pending_body \<Rightarrow> (string \<times> string) list \<Rightarrow> type_identity list result" where
  "typeIdentityRows b registry =
     bind_result (requiredTemplate (body_template b) ''event template'') (\<lambda>template.
     bind_result (required (map_of registry (contractIdentity template))) (\<lambda>pk.
       let packageName = (case b of Pending_Created e \<Rightarrow> ce_packageName e
                          | Pending_Exercised e \<Rightarrow> xe_packageName e);
           contract = \<lparr>ty_pk = pk, ty_templateId = template, ty_packageName = Some packageName,
                       ty_choice = None\<rparr> in
       case b of
         Pending_Created e \<Rightarrow> Inr [contract]
       | Pending_Exercised e \<Rightarrow>
           bind_result (exerciseOwner e) (\<lambda>owner.
           bind_result (required (map_of registry
             (exerciseIdentity owner (xe_choice e) (xe_consuming e)))) (\<lambda>pk.
             Inr [contract,
               \<lparr>ty_pk = pk, ty_templateId = owner,
                ty_packageName = (if xe_interfaceId e = None then Some packageName else None),
                ty_choice = Some (xe_choice e, xe_consuming e)\<rparr>]))))"

section \<open>Rows of transactions and exercises\<close>

definition mapTransaction :: "ledger_transaction \<Rightarrow> transaction_row result" where
  "mapTransaction t =
     bind_result (requiredTimestamp (tx_effectiveAt t) ''transaction effective time'') (\<lambda>effectiveAt.
     bind_result
       (case tx_paidTrafficCost t of None \<Rightarrow> Inr None
        | Some c \<Rightarrow> bind_result (signedInt64 c ''paid traffic cost'') (\<lambda>c. Inr (Some c))) (\<lambda>cost.
       Inr \<lparr>tr_ix = tx_offset t, tr_offset = tx_offset t, tr_transactionId = tx_updateId t,
            tr_effectiveAt = effectiveAt, tr_workflowId = nullableString (tx_workflowId t),
            tr_traceContext = (case tx_traceContext t of None \<Rightarrow> Q_Null | Some c \<Rightarrow> c),
            tr_externalTransactionHash =
              (case tx_transactionHash t of Some h \<Rightarrow> Some h | None \<Rightarrow> tx_externalTransactionHash t),
            tr_paidTrafficCost = cost\<rparr>))"

definition event_row_of :: "pending_event \<Rightarrow> event_row result" where
  "event_row_of p =
     bind_result (canonicalPublicNumericIdentity (eventId (pe_body p))) (\<lambda>pk.
       Inr \<lparr>er_pk = pk, er_txIx = tx_offset (pe_transaction p), er_eventId = eventId (pe_body p),
            er_type = (case pe_body p of Pending_Created _ \<Rightarrow> ''created'' | _ \<Rightarrow> ''exercised'')\<rparr>)"

text \<open>The row of an exercise; \<open>target\<close> is the row of the contract it is exercised on, if known.\<close>

definition exercise_row_of ::
    "(string \<Rightarrow> string \<Rightarrow> bool) \<Rightarrow> (string \<times> string) list \<Rightarrow> (string \<times> string) list \<Rightarrow>
     ledger_transaction \<Rightarrow> exercised_event \<Rightarrow> contract_row option \<Rightarrow> exercise_row result" where
  "exercise_row_of le registry eventPks t e target =
     bind_result (requiredTemplate (xe_templateId e) ''exercise template'') (\<lambda>template.
     bind_result (exerciseOwner e) (\<lambda>owner.
     bind_result (required (map_of registry (exerciseIdentity owner (xe_choice e) (xe_consuming e)))) (\<lambda>tpePk.
     bind_result (required (map_of registry (contractIdentity
       (case target of Some row \<Rightarrow> cr_templateId row | None \<Rightarrow> template)))) (\<lambda>contractTpePk.
     bind_result (required (map_of eventPks (eventIdentity (Pending_Exercised e)))) (\<lambda>eventPk.
     bind_result
       (case xe_choiceArgument e of None \<Rightarrow> validation ''gRPC query exercise argument is missing''
        | Some v \<Rightarrow> mapGrpcQueryValue le v) (\<lambda>argument.
     bind_result
       (case xe_exerciseResult e of None \<Rightarrow> Inr Q_Null | Some v \<Rightarrow> mapGrpcQueryValue le v) (\<lambda>res.
     bind_result (canonicalPublicNumericIdentity (qi_packageId template)) (\<lambda>packagePk.
     bind_result (immutableStrings (xe_actingParties e) ''exercise acting parties'' True) (\<lambda>controllers.
     bind_result (validNodeId (xe_lastDescendantNodeId e) ''last descendant node id'') (\<lambda>node.
     bind_result (immutableStrings (xe_witnessParties e) ''exercise witnesses'' True) (\<lambda>witnesses.
       Inr \<lparr>xr_tpePk = tpePk, xr_contractTpePk = contractTpePk, xr_exerciseEventPk = eventPk,
            xr_exercisedAtIx = tx_offset t, xr_contractId = xe_contractId e, xr_argument = argument,
            xr_result = res, xr_packagePk = packagePk, xr_controllers = controllers,
            xr_lastDescendantNodeId = string_of_int node, xr_witnesses = witnesses\<rparr>)))))))))))"

text \<open>One event of the history: a creation adds its rows, a consuming exercise archives its target.\<close>

definition apply_event ::
    "(string \<Rightarrow> string \<Rightarrow> bool) \<Rightarrow> (string \<times> string) list \<Rightarrow> (string \<times> string) list \<Rightarrow>
     contract_maps \<times> exercise_row list \<Rightarrow> pending_event \<Rightarrow> (contract_maps \<times> exercise_row list) result"
where
  "apply_event le registry eventPks st p =
     (case st of (maps, rows) \<Rightarrow> case pe_body p of
        Pending_Created e \<Rightarrow>
          bind_result (addCreatedContract le maps e (tx_offset (pe_transaction p))) (\<lambda>maps.
            Inr (maps, rows))
      | Pending_Exercised e \<Rightarrow>
          let target = map_of (fst maps) (xe_contractId e) in
          if (case target of Some row \<Rightarrow> \<not> cr_active row | None \<Rightarrow> False) then
            validation (''gRPC query exercise archives already archived contract '' @ xe_contractId e)
          else
            bind_result (exercise_row_of le registry eventPks (pe_transaction p) e target) (\<lambda>row.
            case (xe_consuming e, target) of
              (True, Some c) \<Rightarrow>
                bind_result (requiredTimestamp (tx_effectiveAt (pe_transaction p))
                  ''transaction effective time'') (\<lambda>archivedAt.
                  Inr ((AList.update (cr_contractId c)
                      (c\<lparr>cr_archivedEventOffset := Some (tx_offset (pe_transaction p)),
                         cr_archivedAt := Some archivedAt, cr_active := False\<rparr>) (fst maps),
                    snd maps), rows @ [row]))
            | _ \<Rightarrow> Inr (maps, rows @ [row])))"

fun apply_events ::
    "(string \<Rightarrow> string \<Rightarrow> bool) \<Rightarrow> (string \<times> string) list \<Rightarrow> (string \<times> string) list \<Rightarrow>
     contract_maps \<times> exercise_row list \<Rightarrow> pending_event list \<Rightarrow>
     (contract_maps \<times> exercise_row list) result" where
  "apply_events le registry eventPks st [] = Inr st"
| "apply_events le registry eventPks st (p # ps) =
     bind_result (apply_event le registry eventPks st p) (\<lambda>st.
       apply_events le registry eventPks st ps)"

definition exercise_before ::
    "(string \<Rightarrow> string \<Rightarrow> bool) \<Rightarrow> exercise_row \<Rightarrow> exercise_row \<Rightarrow> bool" where
  "exercise_before le l r =
     (let lo = offset_value (xr_exercisedAtIx l); ro = offset_value (xr_exercisedAtIx r) in
      if lo \<noteq> ro then lo < ro
      else if \<not> le (xr_exerciseEventPk l) (xr_exerciseEventPk r) then False
      else if \<not> le (xr_exerciseEventPk r) (xr_exerciseEventPk l) then True
      else le (xr_contractId l) (xr_contractId r))"

definition active_before ::
    "(string \<Rightarrow> string \<Rightarrow> bool) \<Rightarrow> active_identity \<Rightarrow> active_identity \<Rightarrow> bool" where
  "active_before le l r =
     (if \<not> le (ai_contractId l) (ai_contractId r) then False
      else if \<not> le (ai_contractId r) (ai_contractId l) then True
      else le (ai_synchronizerId l) (ai_synchronizerId r))"

definition active_identity_of :: "active_entry \<Rightarrow> active_identity" where
  "active_identity_of entry =
     \<lparr>ai_contractId = ce_contractId (ae_event entry), ai_synchronizerId = ae_synchronizerId entry,
      ai_reassignmentCounter = ae_reassignmentCounter entry,
      ai_activationOffset = ce_offset (ae_event entry), ai_activationNodeId = ce_nodeId (ae_event entry)\<rparr>"

section \<open>The fragment\<close>

definition mapGrpcQueryRelationFragment ::
    "(string \<Rightarrow> string \<Rightarrow> bool) \<Rightarrow> ledger_transaction list \<Rightarrow> acs_entry list \<Rightarrow>
     relation_fragment result" where
  "mapGrpcQueryRelationFragment le source activeContracts =
     bind_result (sort_transactions source) (\<lambda>transactions.
     bind_result (activeContractEntries le activeContracts) (\<lambda>activeEntries.
     bind_result (pending_events le [] transactions) (\<lambda>pending.
     bind_result (check_events [] pending) (\<lambda>_.
     let bodies = map pe_body pending;
         actives = map (\<lambda>entry. Pending_Created (ae_event entry)) activeEntries in
     bind_result (concat_result identitiesFor (bodies @ actives)) (\<lambda>identities.
     bind_result (keyRegistry (map eventIdentity bodies @ identities)) (\<lambda>registry.
     bind_result (map_result mapTransaction transactions) (\<lambda>transactionRows.
     let sorted = sort_key pending_before pending in
     bind_result (map_result event_row_of sorted) (\<lambda>eventRows.
     bind_result (map_result (\<lambda>b. bind_result (canonicalPublicNumericIdentity (eventId b)) (\<lambda>pk.
       Inr (eventIdentity b, pk))) bodies) (\<lambda>eventPks.
     bind_result (apply_events le registry eventPks (([], []), []) sorted) (\<lambda>(maps, exerciseRows).
     bind_result (reconcileActiveContracts le maps activeEntries) (\<lambda>(contracts, creations).
     bind_result (concat_result (\<lambda>b. typeIdentityRows b registry) (bodies @ actives)) (\<lambda>types.
     bind_result (concat_result packageIdsFor (bodies @ actives)) (\<lambda>packages.
     bind_result (map_result (\<lambda>i. bind_result (canonicalPublicNumericIdentity i) (\<lambda>pk. Inr (pk, i)))
       (sort (remdups packages))) (\<lambda>packageRows.
       Inr \<lparr>rf_contracts = sort_by (\<lambda>l r. le (cr_contractId l) (cr_contractId r)) (map snd contracts),
            rf_transactions = transactionRows,
            rf_events = eventRows,
            rf_exercises = sort_by (exercise_before le) exerciseRows,
            rf_typeIdentities = sort_by (\<lambda>l r. le (ty_pk l) (ty_pk r))
              (map snd (update_all (map (\<lambda>t. (ty_pk t, t)) types) [])),
            rf_packageIdentities = packageRows,
            rf_creationIdentities =
              sort_by (\<lambda>l r. le (ci_contractId l) (ci_contractId r)) (map snd creations),
            rf_activeContractIdentities =
              sort_by (active_before le) (map active_identity_of activeEntries)\<rparr>))))))))))))))"

end
