(* ===== verification/Cached_Snapshot.thy ===== *)
theory Cached_Snapshot
  imports Relation_Mapping
begin

text \<open>
  The cached snapshot and its checks: the functions of
  \<^verbatim>\<open>src/src/query/grpc/grpc-contract-cache.ts\<close> that read values of type \<^verbatim>\<open>unknown\<close>. A cache store
  may give back any value; \<open>asCompatibleSnapshot\<close> accepts exactly the snapshots of version 3 for
  the same endpoint and parties that are complete, coherent and (unless ignored) not expired.
  \<open>snapshot_value\<close> is the object the cache writes.
\<close>

section \<open>Offsets and instants\<close>

text \<open>\<^verbatim>\<open>parseOffset\<close> of \<^verbatim>\<open>grpc-query-snapshot-reader.ts\<close>: \<^verbatim>\<open>/^(?:0|[1-9]\d{0,18})$/\<close> within int64.\<close>

definition parseOffset :: "qvalue \<Rightarrow> int option" where
  "parseOffset value =
     (case value of
        Q_Str s \<Rightarrow>
          if canonical_natural s \<and> length s \<le> 19 \<and> offset_value s \<le> max_int64 then Some (offset_value s)
          else None
      | _ \<Rightarrow> None)"

definition isCanonicalGrpcOffset :: "qvalue \<Rightarrow> bool" where
  "isCanonicalGrpcOffset value \<longleftrightarrow> parseOffset value \<noteq> None"

definition parseCacheOffset :: "qvalue \<Rightarrow> int option" where
  "parseCacheOffset value = (if isCanonicalGrpcOffset value then parseOffset value else None)"

text \<open>\<^verbatim>\<open>Number.isFinite(x) && Number.isFinite(new Date(x).getTime())\<close>\<close>

definition valid_instant :: "js_num \<Rightarrow> bool" where
  "valid_instant x = (case x of Whole n \<Rightarrow> \<bar>n\<bar> \<le> 8640000000000000 | Not_Finite \<Rightarrow> False)"

section \<open>Parties and keys\<close>

definition parties_message :: string where
  "parties_message = ''Contract cache parties must contain non-empty strings.''"

text \<open>\<^verbatim>\<open>materializeIndexedValues\<close>: only an array that is not a proxy has values.\<close>

definition materializeIndexedArray :: "qvalue \<Rightarrow> qvalue list option" where
  "materializeIndexedArray value = (case value of Q_Arr vs \<Rightarrow> Some vs | _ \<Rightarrow> None)"

definition string_of_value :: "qvalue \<Rightarrow> string option" where
  "string_of_value v = (case v of Q_Str s \<Rightarrow> Some s | _ \<Rightarrow> None)"

definition number_of_value :: "qvalue \<Rightarrow> js_num option" where
  "number_of_value v = (case v of Q_Num n \<Rightarrow> Some n | _ \<Rightarrow> None)"

text \<open>\<^verbatim>\<open>values.every(...) ? values : undefined\<close> for a list of options.\<close>

fun all_values :: "'a option list \<Rightarrow> 'a list option" where
  "all_values [] = Some []"
| "all_values (x # xs) =
     (case x of None \<Rightarrow> None
      | Some y \<Rightarrow> (case all_values xs of None \<Rightarrow> None | Some ys \<Rightarrow> Some (y # ys)))"

definition materializeStringArray :: "qvalue \<Rightarrow> string list option" where
  "materializeStringArray value =
     (case materializeIndexedArray value of
        None \<Rightarrow> None
      | Some vs \<Rightarrow> all_values (map string_of_value vs))"

text \<open>The argument is \<^verbatim>\<open>args?.parties\<close>. Sorting is by code units.\<close>

definition normalizeParties :: "qvalue \<Rightarrow> string list option result" where
  "normalizeParties candidate =
     (if candidate = Q_Undef then Inr None
      else case materializeIndexedArray candidate of
        None \<Rightarrow> validation parties_message
      | Some vs \<Rightarrow>
          if vs = [] then validation parties_message
          else case all_values (map string_of_value vs) of
            None \<Rightarrow> validation parties_message
          | Some ss \<Rightarrow>
              if \<exists>s \<in> set ss. trim s = [] then validation parties_message
              else Inr (Some (sort (remdups ss))))"

definition json_strings :: "string list \<Rightarrow> string" where
  "json_strings ss = ''['' @ joined '','' (map json_string ss) @ '']''"

definition cacheKey :: "string \<Rightarrow> string list option \<Rightarrow> string" where
  "cacheKey endpointScope parties =
     ''grpc-contract-cache:v1:['' @ json_string endpointScope @ '',''
       @ (case parties of None \<Rightarrow> ''null'' | Some ps \<Rightarrow> json_strings ps) @ '']''"

section \<open>Snapshots\<close>

record creation_metadata =
  cm_contractId :: string
  cm_packageName :: string
  cm_representativePackageId :: "string option"

record cached_snapshot =
  cs_endpointScope :: string
  cs_parties :: "string list option"
  cs_activeAtOffset :: string
  cs_expiresAtEpochMs :: js_num
  cs_contracts :: "contract_row list"
  cs_creationMetadata :: "creation_metadata list"

definition metadata_of :: "creation_identity \<Rightarrow> creation_metadata" where
  "metadata_of c =
     \<lparr>cm_contractId = ci_contractId c, cm_packageName = ci_packageName c,
      cm_representativePackageId = ci_representativePackageId c\<rparr>"

text \<open>The objects that stand for rows, metadata and the snapshot.\<close>

definition nullable_value :: "('a \<Rightarrow> qvalue) \<Rightarrow> 'a option \<Rightarrow> qvalue" where
  "nullable_value f x = (case x of None \<Rightarrow> Q_Null | Some y \<Rightarrow> f y)"

definition template_value :: "q_identifier \<Rightarrow> qvalue" where
  "template_value t =
     Q_Obj [(''packageId'', Q_Str (qi_packageId t)), (''moduleName'', Q_Str (qi_moduleName t)),
            (''entityName'', Q_Str (qi_entityName t))]"

definition row_value :: "contract_row \<Rightarrow> qvalue" where
  "row_value r =
     Q_Obj [(''contractId'', Q_Str (cr_contractId r)), (''templateId'', template_value (cr_templateId r)),
            (''packageId'', nullable_value Q_Str (cr_packageId r)), (''payload'', cr_payload r),
            (''witnesses'', Q_Arr (map Q_Str (cr_witnesses r))),
            (''createdEventOffset'', Q_Str (cr_createdEventOffset r)),
            (''createdAt'', nullable_value (\<lambda>n. Q_Date (Whole n)) (cr_createdAt r)),
            (''archivedEventOffset'', nullable_value Q_Str (cr_archivedEventOffset r)),
            (''archivedAt'', nullable_value (\<lambda>n. Q_Date (Whole n)) (cr_archivedAt r)),
            (''active'', Q_Bool (cr_active r))]"

definition metadata_value :: "creation_metadata \<Rightarrow> qvalue" where
  "metadata_value m =
     Q_Obj [(''contractId'', Q_Str (cm_contractId m)), (''packageName'', Q_Str (cm_packageName m)),
            (''representativePackageId'', nullable_value Q_Str (cm_representativePackageId m))]"

definition snapshot_value :: "cached_snapshot \<Rightarrow> qvalue" where
  "snapshot_value s =
     Q_Obj [(''version'', Q_Num (Whole 3)), (''endpointScope'', Q_Str (cs_endpointScope s)),
            (''parties'', (case cs_parties s of None \<Rightarrow> Q_Undef | Some ps \<Rightarrow> Q_Arr (map Q_Str ps))),
            (''activeAtOffset'', Q_Str (cs_activeAtOffset s)),
            (''expiresAtEpochMs'', Q_Num (cs_expiresAtEpochMs s)),
            (''contracts'', Q_Arr (map row_value (cs_contracts s))),
            (''creationMetadata'', Q_Arr (map metadata_value (cs_creationMetadata s)))]"

section \<open>Reading a stored value\<close>

definition materializeTemplateId :: "qvalue \<Rightarrow> q_identifier option" where
  "materializeTemplateId value =
     (let field = q_get (q_properties value) in
      Option.bind (string_of_value (field ''packageId'')) (\<lambda>packageId.
      Option.bind (string_of_value (field ''moduleName'')) (\<lambda>moduleName.
      Option.bind (string_of_value (field ''entityName'')) (\<lambda>entityName.
        Some \<lparr>qi_packageId = packageId, qi_moduleName = moduleName, qi_entityName = entityName\<rparr>))))"

text \<open>A nullable text or date: \<open>None\<close> stands for a value of another type.\<close>

definition nullable_text :: "qvalue \<Rightarrow> string option option" where
  "nullable_text v = (case v of Q_Null \<Rightarrow> Some None | Q_Str s \<Rightarrow> Some (Some s) | _ \<Rightarrow> None)"

definition materializeOptionalDate :: "qvalue \<Rightarrow> int option option" where
  "materializeOptionalDate v =
     (case v of Q_Null \<Rightarrow> Some None | Q_Date (Whole n) \<Rightarrow> Some (Some n) | _ \<Rightarrow> None)"

definition materializeContractRow :: "qvalue \<Rightarrow> contract_row option result" where
  "materializeContractRow value =
     (if \<not> q_is_object value then Inr None
      else
        let field = q_get (q_properties value) in
        bind_result (copyValue (field ''payload'')) (\<lambda>payload.
          Inr (
            Option.bind (string_of_value (field ''contractId'')) (\<lambda>contractId.
            Option.bind (materializeTemplateId (field ''templateId'')) (\<lambda>templateId.
            Option.bind (nullable_text (field ''packageId'')) (\<lambda>packageId.
            Option.bind (materializeStringArray (field ''witnesses'')) (\<lambda>witnesses.
            Option.bind (string_of_value (field ''createdEventOffset'')) (\<lambda>createdEventOffset.
            Option.bind (materializeOptionalDate (field ''createdAt'')) (\<lambda>createdAt.
              if field ''archivedEventOffset'' = Q_Null \<and> field ''archivedAt'' = Q_Null
                 \<and> field ''active'' = Q_Bool True
              then Some \<lparr>cr_contractId = contractId, cr_templateId = templateId,
                     cr_packageId = packageId, cr_payload = payload, cr_witnesses = witnesses,
                     cr_createdEventOffset = createdEventOffset, cr_createdAt = createdAt,
                     cr_archivedEventOffset = None, cr_archivedAt = None, cr_active = True\<rparr>
              else None)))))))))"

definition materializeContractRows :: "qvalue \<Rightarrow> contract_row list option result" where
  "materializeContractRows value =
     (case materializeIndexedArray value of
        None \<Rightarrow> Inr None
      | Some vs \<Rightarrow> bind_result (map_result materializeContractRow vs) (\<lambda>rows. Inr (all_values rows)))"

definition materializeCreationMetadataEntry :: "qvalue \<Rightarrow> creation_metadata option" where
  "materializeCreationMetadataEntry value =
     (if \<not> q_is_object value then None
      else
        let field = q_get (q_properties value) in
        Option.bind (string_of_value (field ''contractId'')) (\<lambda>contractId.
        Option.bind (string_of_value (field ''packageName'')) (\<lambda>packageName.
        Option.bind (nullable_text (field ''representativePackageId'')) (\<lambda>representative.
          if packageName = [] then None
          else Some \<lparr>cm_contractId = contractId, cm_packageName = packageName,
                     cm_representativePackageId = representative\<rparr>))))"

text \<open>Exactly one metadata entry per contract row.\<close>

definition coherent :: "creation_metadata list \<Rightarrow> contract_row list \<Rightarrow> bool" where
  "coherent metadata contracts \<longleftrightarrow>
     card (set (map cm_contractId metadata)) = length metadata
     \<and> length metadata = length contracts
     \<and> (\<forall>row \<in> set contracts. cr_contractId row \<in> set (map cm_contractId metadata))"

definition materializeCreationMetadata ::
    "qvalue \<Rightarrow> contract_row list option \<Rightarrow> creation_metadata list option" where
  "materializeCreationMetadata value contracts =
     (case (contracts, materializeIndexedArray value) of
        (Some rows, Some vs) \<Rightarrow>
          (case all_values (map materializeCreationMetadataEntry vs) of
             None \<Rightarrow> None
           | Some metadata \<Rightarrow> if coherent metadata rows then Some metadata else None)
      | _ \<Rightarrow> None)"

definition sameParties :: "string list option \<Rightarrow> string list option \<Rightarrow> bool" where
  "sameParties left right \<longleftrightarrow> left = right"

text \<open>\<^verbatim>\<open>expiresAtEpochMs <= nowEpochMs\<close>\<close>

definition expired :: "js_num \<Rightarrow> js_num \<Rightarrow> bool" where
  "expired expiresAt n = (case (expiresAt, n) of (Whole e, Whole t) \<Rightarrow> e \<le> t | _ \<Rightarrow> False)"

text \<open>Whatever throws while the candidate is read makes it incompatible.\<close>

definition asCompatibleSnapshot ::
    "qvalue \<Rightarrow> string \<Rightarrow> string list option \<Rightarrow> js_num \<Rightarrow> bool \<Rightarrow> cached_snapshot option" where
  "asCompatibleSnapshot value endpointScope parties nowEpochMs ignoreExpiry =
     (if \<not> q_is_object value then None
      else
        let field = q_get (q_properties value);
            rawParties = field ''parties'';
            storedParties = (if rawParties = Q_Undef then None else materializeStringArray rawParties) in
        case materializeContractRows (field ''contracts'') of
          Inl e \<Rightarrow> None
        | Inr contracts \<Rightarrow>
            Option.bind contracts (\<lambda>rows.
            Option.bind (materializeCreationMetadata (field ''creationMetadata'') contracts) (\<lambda>metadata.
            Option.bind (string_of_value (field ''activeAtOffset'')) (\<lambda>activeAtOffset.
            Option.bind (number_of_value (field ''expiresAtEpochMs'')) (\<lambda>expiresAt.
              if field ''version'' \<noteq> Q_Num (Whole 3)
                 \<or> field ''endpointScope'' \<noteq> Q_Str endpointScope
                 \<or> (rawParties \<noteq> Q_Undef \<and> storedParties = None)
                 \<or> \<not> sameParties storedParties parties
                 \<or> \<not> valid_instant nowEpochMs
                 \<or> \<not> isCanonicalGrpcOffset (Q_Str activeAtOffset)
                 \<or> \<not> valid_instant expiresAt
                 \<or> (\<not> ignoreExpiry \<and> expired expiresAt nowEpochMs)
              then None
              else Some \<lparr>cs_endpointScope = endpointScope, cs_parties = storedParties,
                     cs_activeAtOffset = activeAtOffset, cs_expiresAtEpochMs = expiresAt,
                     cs_contracts = rows, cs_creationMetadata = metadata\<rparr>)))))"

text \<open>\<^verbatim>\<open>copyRows\<close>: the payload is copied; an invalid date cannot occur in a row.\<close>

definition copyRows :: "contract_row list \<Rightarrow> contract_row list result" where
  "copyRows rows =
     map_result (\<lambda>row. bind_result (copyValue (cr_payload row)) (\<lambda>payload.
       Inr (row\<lparr>cr_payload := payload\<rparr>))) rows"

end
