(* ===== verification/Contract_Cache.thy ===== *)
theory Contract_Cache
  imports Cached_Snapshot JS_Async
begin

text \<open>
  The operations of \<^verbatim>\<open>GrpcContractCache\<close>
  (\<^verbatim>\<open>src/src/query/grpc/grpc-contract-cache.ts\<close>). The ledger services, the store and the clock are
  asynchronous functions over a world of any type. The map of calls in flight, which only matters
  when calls overlap, is the subject of \<open>Single_Flight\<close>.

  The loop that downloads the active contracts has no bound in the code: it is a partial function,
  and a download that never ends is \<open>None\<close>. The loop over the update pages is bounded by the code.
\<close>

section \<open>Services\<close>

record acs_request =
  ar_parties :: "string list option"   \<comment> \<open>no parties: all of them\<close>
  ar_maxPageSize :: "js_num option"
  ar_pageToken :: "nat list option"

text \<open>A page as the service gives it: \<open>None\<close> is a value that is not an object, and so for entries.\<close>

record acs_page =
  ap_activeAtOffset :: qvalue
  ap_activeContracts :: "acs_entry option list option"
  ap_nextPageToken :: qvalue

record updates_request =
  ur_beginOffsetExclusive :: string
  ur_endOffsetInclusive :: string
  ur_parties :: "string list option"
  ur_pageToken :: "nat list option"

record updates_page =
  up_lowestPageOffsetExclusive :: qvalue
  up_highestPageOffsetInclusive :: qvalue
  up_updates :: "ledger_update list"
  up_nextPageToken :: "nat list option"

record 'w cache_services =
  sv_activeContractsPage :: "acs_request \<Rightarrow> ('w, acs_page option) async"
  sv_ledgerEnd :: "('w, qvalue) async option"
  sv_latestPruned :: "('w, qvalue) async option"
  sv_updatesPage :: "(updates_request \<Rightarrow> ('w, updates_page) async) option"
  sv_get :: "string \<Rightarrow> ('w, qvalue) async"
  sv_set :: "string \<Rightarrow> qvalue \<Rightarrow> js_num \<Rightarrow> ('w, unit) async"
  sv_delete :: "string \<Rightarrow> ('w, unit) async"
  sv_now :: "('w, js_num) async"

record cache_config =
  gc_ttlMs :: js_num
  gc_endpointScope :: string
  gc_maxPageSize :: "js_num option"
  gc_deltaEnabled :: bool
  gc_maxOffsetGap :: "js_num option"
  gc_maxUpdates :: "js_num option"

section \<open>The constructor\<close>

definition at_least :: "int \<Rightarrow> js_num \<Rightarrow> bool" where
  "at_least k x = (case x of Whole n \<Rightarrow> k \<le> n | Not_Finite \<Rightarrow> False)"

definition checkCacheConfig :: "cache_config \<Rightarrow> unit result" where
  "checkCacheConfig c =
     (if \<not> at_least 1 (gc_ttlMs c) then
        validation ''Contract cache ttlMs must be a positive finite number.''
      else if (case gc_maxPageSize c of Some n \<Rightarrow> \<not> at_least 1 n | None \<Rightarrow> False) then
        validation ''Contract cache maxPageSize must be a positive integer.''
      else if (case gc_maxOffsetGap c of Some n \<Rightarrow> \<not> at_least 0 n | None \<Rightarrow> False) then
        validation ''Contract cache delta maxOffsetGap must be a non-negative integer.''
      else if (case gc_maxUpdates c of Some n \<Rightarrow> \<not> at_least 0 n | None \<Rightarrow> False) then
        validation ''Contract cache delta maxUpdates must be a non-negative integer.''
      else Inr ())"

section \<open>Results as asynchronous functions\<close>

definition thrown_of :: "js_error \<Rightarrow> thrown" where
  "thrown_of e =
     Thrown_Error
       (case e of ValidationError m \<Rightarrow> m | SyntaxError m \<Rightarrow> m | RangeError m \<Rightarrow> m | ResolutionError m \<Rightarrow> m
        | SemanticError m \<Rightarrow> m | ReplaySourceMapError m \<Rightarrow> m | TestingConfigurationError m \<Rightarrow> m
        | PlainError m \<Rightarrow> m | Unmodelled m \<Rightarrow> m)"

definition async_result :: "'x result \<Rightarrow> ('w, 'x) async" where
  "async_result r = (\<lambda>w. (case r of Inl e \<Rightarrow> Inl (thrown_of e) | Inr x \<Rightarrow> Inr x, w))"

definition currentEpochMs :: "'w cache_services \<Rightarrow> ('w, js_num) async" where
  "currentEpochMs sv =
     async_catch
       (async_bind (sv_now sv) (\<lambda>n.
          if valid_instant n then async_return n
          else async_result (validation ''Contract cache clock must return a finite valid date.'')))
       (\<lambda>e. async_result (validation ''Contract cache clock must return a finite valid date.''))"

definition js_plus :: "js_num \<Rightarrow> js_num \<Rightarrow> js_num" where
  "js_plus x y = (case (x, y) of (Whole m, Whole n) \<Rightarrow> Whole (m + n) | _ \<Rightarrow> Not_Finite)"

definition effectiveExpiryEpochMs :: "'w cache_services \<Rightarrow> js_num \<Rightarrow> ('w, js_num) async" where
  "effectiveExpiryEpochMs sv ttlMs =
     async_bind (currentEpochMs sv) (\<lambda>n.
       if valid_instant (js_plus n ttlMs) then async_return (js_plus n ttlMs)
       else async_result (validation ''Contract cache expiry must be a finite valid date.''))"

section \<open>Changes of a window of updates\<close>

datatype delta_entry = Delta_Created created_event string | Delta_Archived string

fun collect_events :: "string \<Rightarrow> ledger_event list \<Rightarrow> delta_entry list option" where
  "collect_events synchronizerId [] = Some []"
| "collect_events synchronizerId (e # es) =
     (case (e, collect_events synchronizerId es) of
        (Created c, Some rest) \<Rightarrow> Some (Delta_Created c synchronizerId # rest)
      | (Archived contractId, Some rest) \<Rightarrow>
          if contractId = [] then None else Some (Delta_Archived contractId # rest)
      | _ \<Rightarrow> None)"

text \<open>The entries one update pushes; \<open>None\<close> when the window cannot be patched.\<close>

definition collectDeltaEntries :: "ledger_update \<Rightarrow> delta_entry list option" where
  "collectDeltaEntries u =
     (case u of
        Checkpoint_Update _ \<Rightarrow> Some []
      | Transaction_Update t \<Rightarrow>
          if tx_synchronizerId t = [] then None else collect_events (tx_synchronizerId t) (tx_events t)
      | _ \<Rightarrow> None)"

fun collect_updates :: "ledger_update list \<Rightarrow> delta_entry list option" where
  "collect_updates [] = Some []"
| "collect_updates (u # us) =
     (case collectDeltaEntries u of
        None \<Rightarrow> None
      | Some es \<Rightarrow> (case collect_updates us of None \<Rightarrow> None | Some rest \<Rightarrow> Some (es @ rest)))"

definition token_key :: "nat list \<Rightarrow> string" where
  "token_key token = joined '','' (map (\<lambda>b. string_of_int (int b)) token)"

definition exceeds :: "nat \<Rightarrow> js_num \<Rightarrow> bool" where
  "exceeds n limit = (case limit of Whole m \<Rightarrow> m < int n | Not_Finite \<Rightarrow> False)"

definition max_updates :: "cache_config \<Rightarrow> cached_snapshot \<Rightarrow> js_num" where
  "max_updates c base =
     (case gc_maxUpdates c of
        Some n \<Rightarrow> n
      | None \<Rightarrow> Whole (max 1000 (2 * int (length (cs_contracts base)))))"

definition delta_max_pages :: nat where
  "delta_max_pages = 10000"

text \<open>
  The loop of \<^verbatim>\<open>readDeltaWindowAsync\<close>: pages left, entries so far, page tokens seen, expected lower
  bound, page token, updates seen. \<open>None\<close> abandons the window.
\<close>

fun read_pages ::
    "(updates_request \<Rightarrow> ('w, updates_page) async) \<Rightarrow> updates_request \<Rightarrow> js_num \<Rightarrow> int \<Rightarrow> nat \<Rightarrow>
     delta_entry list \<Rightarrow> string list \<Rightarrow> int \<Rightarrow> nat \<Rightarrow> ('w, delta_entry list option) async" where
  "read_pages svc req maxUpdates end' 0 entries seen lower updatesSeen = async_return None"
| "read_pages svc req maxUpdates end' (Suc n) entries seen lower updatesSeen =
     async_bind (svc req) (\<lambda>page.
       case (parseCacheOffset (up_lowestPageOffsetExclusive page),
             parseCacheOffset (up_highestPageOffsetInclusive page)) of
         (Some lowest, Some highest) \<Rightarrow>
           if lowest \<noteq> lower \<or> highest < lowest \<or> highest > end' then async_return None
           else if exceeds (updatesSeen + length (up_updates page)) maxUpdates then async_return None
           else (case collect_updates (up_updates page) of
             None \<Rightarrow> async_return None
           | Some es \<Rightarrow>
               (case up_nextPageToken page of
                  None \<Rightarrow> async_return (if highest = end' then Some (entries @ es) else None)
                | Some token \<Rightarrow>
                    if token = [] then async_return (if highest = end' then Some (entries @ es) else None)
                    else if highest \<ge> end' \<or> highest \<le> lowest then async_return None
                    else if token_key token \<in> set seen then async_return None
                    else read_pages svc (req\<lparr>ur_pageToken := Some token\<rparr>) maxUpdates end' n (entries @ es)
                      (token_key token # seen) highest (updatesSeen + length (up_updates page))))
       | _ \<Rightarrow> async_return None)"

definition readDeltaWindowAsync ::
    "cache_config \<Rightarrow> (updates_request \<Rightarrow> ('w, updates_page) async) \<Rightarrow> string list option \<Rightarrow>
     cached_snapshot \<Rightarrow> int \<Rightarrow> int \<Rightarrow> ('w, delta_entry list option) async" where
  "readDeltaWindowAsync c svc parties base baseOffset end' =
     read_pages svc
       \<lparr>ur_beginOffsetExclusive = cs_activeAtOffset base, ur_endOffsetInclusive = string_of_int end',
        ur_parties = parties, ur_pageToken = None\<rparr>
       (max_updates c base) end' delta_max_pages [] [] baseOffset 0"

text \<open>
  Folding the entries into the contracts to add, in the order they were created, and the ids to
  remove; \<open>None\<close> on an inconsistency with the base.
\<close>

type_synonym delta_state = "(string \<times> created_event \<times> string) list \<times> string list"

definition apply_entry :: "string set \<Rightarrow> delta_state \<Rightarrow> delta_entry \<Rightarrow> delta_state option" where
  "apply_entry baseIds st entry =
     (case (st, entry) of
        ((adds, removes), Delta_Created e synchronizerId) \<Rightarrow>
          if ce_contractId e \<in> baseIds \<or> map_of adds (ce_contractId e) \<noteq> None then None
          else Some (AList.update (ce_contractId e) (e, synchronizerId) adds, removes)
      | ((adds, removes), Delta_Archived contractId) \<Rightarrow>
          if map_of adds contractId \<noteq> None then Some (AList.delete contractId adds, removes)
          else if contractId \<in> baseIds then Some (adds, List.insert contractId removes)
          else None)"

fun apply_entries :: "string set \<Rightarrow> delta_state \<Rightarrow> delta_entry list \<Rightarrow> delta_state option" where
  "apply_entries baseIds st [] = Some st"
| "apply_entries baseIds st (e # es) =
     (case apply_entry baseIds st e of None \<Rightarrow> None | Some st' \<Rightarrow> apply_entries baseIds st' es)"

definition survivor :: "string \<times> created_event \<times> string \<Rightarrow> acs_entry" where
  "survivor a = (case a of (_, e, synchronizerId) \<Rightarrow> Active_Contract (Some e) synchronizerId ''0'')"

text \<open>The patched rows and metadata, sorted by contract id.\<close>

definition patch_snapshot ::
    "(string \<Rightarrow> string \<Rightarrow> bool) \<Rightarrow> cached_snapshot \<Rightarrow> delta_state \<Rightarrow>
     (contract_row list \<times> creation_metadata list) result" where
  "patch_snapshot le base st =
     (case st of (adds, removes) \<Rightarrow>
     bind_result (mapGrpcQueryRelationFragment le [] (map survivor adds)) (\<lambda>fragment.
       Inr (sort_by (\<lambda>l r. le (cr_contractId l) (cr_contractId r))
              (filter (\<lambda>row. cr_contractId row \<notin> set removes) (cs_contracts base) @ rf_contracts fragment),
            sort_by (\<lambda>l r. le (cm_contractId l) (cm_contractId r))
              (filter (\<lambda>m. cm_contractId m \<notin> set removes) (cs_creationMetadata base)
               @ map metadata_of (rf_creationIdentities fragment)))))"

section \<open>Writing a snapshot\<close>

datatype refresh_kind = Full_Refresh | Delta_Refresh | Noop_Refresh

record cache_result =
  re_activeAtOffset :: string
  re_contractCount :: nat
  re_expiresAt :: js_num
  re_refresh :: refresh_kind
  re_offsetGap :: "string option"
  re_deltaUpdateCount :: "nat option"

definition writeSnapshotAsync ::
    "'w cache_services \<Rightarrow> cache_config \<Rightarrow> string list option \<Rightarrow> string \<Rightarrow> string \<Rightarrow> contract_row list \<Rightarrow>
     creation_metadata list \<Rightarrow> refresh_kind \<Rightarrow> string option \<Rightarrow> nat option \<Rightarrow> ('w, cache_result) async"
where
  "writeSnapshotAsync sv c parties key activeAtOffset contracts metadata refresh gap updates =
     async_bind (effectiveExpiryEpochMs sv (gc_ttlMs c)) (\<lambda>expiresAt.
     async_bind (async_result (copyRows contracts)) (\<lambda>rows.
     async_bind (sv_set sv key (snapshot_value
         \<lparr>cs_endpointScope = gc_endpointScope c, cs_parties = parties,
          cs_activeAtOffset = activeAtOffset, cs_expiresAtEpochMs = expiresAt, cs_contracts = rows,
          cs_creationMetadata = metadata\<rparr>) (gc_ttlMs c)) (\<lambda>_.
       async_return \<lparr>re_activeAtOffset = activeAtOffset, re_contractCount = length contracts,
         re_expiresAt = expiresAt, re_refresh = refresh, re_offsetGap = gap,
         re_deltaUpdateCount = updates\<rparr>)))"

section \<open>Delta refresh\<close>

definition default_max_offset_gap :: js_num where
  "default_max_offset_gap = Whole 1000000"

text \<open>
  \<^verbatim>\<open>tryDeltaRefreshAsync\<close>. What happens inside its \<^verbatim>\<open>try\<close> ends with a fall back, a patched and
  written snapshot, or an unchanged ledger; the write of the last is returned without being awaited,
  so its errors are not caught.
\<close>

datatype delta_outcome = Fall_Back | Patched cache_result | Unchanged

definition apply_window ::
    "(string \<Rightarrow> string \<Rightarrow> bool) \<Rightarrow> 'w cache_services \<Rightarrow> cache_config \<Rightarrow> string list option \<Rightarrow> string \<Rightarrow>
     cached_snapshot \<Rightarrow> int \<Rightarrow> int \<Rightarrow> delta_entry list option \<Rightarrow> ('w, delta_outcome) async" where
  "apply_window le sv c parties key base baseOffset end' window =
     (case window of
        None \<Rightarrow> async_return Fall_Back
      | Some entries \<Rightarrow>
          (case apply_entries (set (map cr_contractId (cs_contracts base))) ([], []) entries of
             None \<Rightarrow> async_return Fall_Back
           | Some st \<Rightarrow>
               async_bind (async_result (patch_snapshot le base st)) (\<lambda>(contracts, metadata).
               async_bind (writeSnapshotAsync sv c parties key (string_of_int end') contracts
                   metadata Delta_Refresh (Some (string_of_int (end' - baseOffset)))
                   (Some (length entries)))
                 (\<lambda>r. async_return (Patched r)))))"

definition delta_between ::
    "(string \<Rightarrow> string \<Rightarrow> bool) \<Rightarrow> 'w cache_services \<Rightarrow> cache_config \<Rightarrow> string list option \<Rightarrow> string \<Rightarrow>
     cached_snapshot \<Rightarrow> (updates_request \<Rightarrow> ('w, updates_page) async) \<Rightarrow> int \<Rightarrow> int \<Rightarrow>
     ('w, delta_outcome) async" where
  "delta_between le sv c parties key base updatesPage baseOffset end' =
     (if end' - baseOffset = 0 then async_return Unchanged
      else if exceeds (nat (end' - baseOffset))
          (case gc_maxOffsetGap c of Some n \<Rightarrow> n | None \<Rightarrow> default_max_offset_gap)
        then async_return Fall_Back
      else
        async_bind (readDeltaWindowAsync c updatesPage parties base baseOffset end')
          (apply_window le sv c parties key base baseOffset end'))"

definition delta_body ::
    "(string \<Rightarrow> string \<Rightarrow> bool) \<Rightarrow> 'w cache_services \<Rightarrow> cache_config \<Rightarrow> string list option \<Rightarrow> string \<Rightarrow>
     cached_snapshot \<Rightarrow> ('w, qvalue) async \<Rightarrow> ('w, qvalue) async \<Rightarrow>
     (updates_request \<Rightarrow> ('w, updates_page) async) \<Rightarrow> ('w, delta_outcome) async" where
  "delta_body le sv c parties key base latestPruned ledgerEnd updatesPage =
     async_bind latestPruned (\<lambda>prunedValue.
     async_bind ledgerEnd (\<lambda>endValue.
       case (parseCacheOffset (Q_Str (cs_activeAtOffset base)), parseCacheOffset prunedValue,
             parseCacheOffset endValue) of
         (Some baseOffset, Some pruned, Some end') \<Rightarrow>
           if pruned > baseOffset \<or> end' < baseOffset then async_return Fall_Back
           else delta_between le sv c parties key base updatesPage baseOffset end'
       | _ \<Rightarrow> async_return Fall_Back))"

definition tryDeltaRefreshAsync ::
    "(string \<Rightarrow> string \<Rightarrow> bool) \<Rightarrow> 'w cache_services \<Rightarrow> cache_config \<Rightarrow> string list option \<Rightarrow> string \<Rightarrow>
     cached_snapshot \<Rightarrow> ('w, cache_result option) async" where
  "tryDeltaRefreshAsync le sv c parties key base =
     (case (sv_ledgerEnd sv, sv_latestPruned sv, sv_updatesPage sv) of
        (Some ledgerEnd, Some latestPruned, Some updatesPage) \<Rightarrow>
          async_bind
            (async_catch (delta_body le sv c parties key base latestPruned ledgerEnd updatesPage)
              (\<lambda>e. async_return Fall_Back))
            (\<lambda>outcome. case outcome of
               Fall_Back \<Rightarrow> async_return None
             | Patched r \<Rightarrow> async_return (Some r)
             | Unchanged \<Rightarrow>
                 async_bind (writeSnapshotAsync sv c parties key (cs_activeAtOffset base)
                     (cs_contracts base) (cs_creationMetadata base) Noop_Refresh (Some ''0'') None)
                   (\<lambda>r. async_return (Some r)))
      | _ \<Rightarrow> async_return None)"

section \<open>Full download\<close>

record materialized_page =
  mp_activeAtOffset :: string
  mp_activeContracts :: "acs_entry list"
  mp_nextPageToken :: "nat list option"

definition materializePageToken :: "qvalue \<Rightarrow> nat list option result" where
  "materializePageToken value =
     (case value of
        Q_Undef \<Rightarrow> Inr None
      | Q_Bytes bs \<Rightarrow> Inr (Some bs)
      | _ \<Rightarrow> Inl (PlainError ''Active-contracts response nextPageToken is invalid.''))"

definition materializeActiveContractResponse :: "acs_entry option \<Rightarrow> acs_entry result" where
  "materializeActiveContractResponse value =
     (case value of
        None \<Rightarrow> Inl (PlainError ''Active-contracts response contains an invalid contract entry.'')
      | Some entry \<Rightarrow> Inr entry)"

definition materializeActiveContractsPage :: "acs_page option \<Rightarrow> materialized_page result" where
  "materializeActiveContractsPage value =
     (case value of
        None \<Rightarrow> Inl (PlainError ''Active-contracts response is invalid.'')
      | Some page \<Rightarrow>
          (case (isCanonicalGrpcOffset (ap_activeAtOffset page), ap_activeAtOffset page) of
             (True, Q_Str activeAtOffset) \<Rightarrow>
               (case ap_activeContracts page of
                  None \<Rightarrow> Inl (PlainError ''Active-contracts response activeContracts is invalid.'')
                | Some entries \<Rightarrow>
                    bind_result (map_result materializeActiveContractResponse entries) (\<lambda>contracts.
                    bind_result (materializePageToken (ap_nextPageToken page)) (\<lambda>token.
                      Inr \<lparr>mp_activeAtOffset = activeAtOffset, mp_activeContracts = contracts,
                           mp_nextPageToken = token\<rparr>)))
           | _ \<Rightarrow> Inl (PlainError ''Active-contracts response is missing activeAtOffset.'')))"

text \<open>
  The loop of \<^verbatim>\<open>fullRefreshAsync\<close>: the offset all pages must echo, the contracts so far, the page
  tokens seen and the page token. The result is \<open>None\<close> when the pages never end.
\<close>

partial_function (option) download_pages ::
    "(acs_request \<Rightarrow> ('w, acs_page option) async) \<Rightarrow> acs_request \<Rightarrow> string option \<Rightarrow> acs_entry list \<Rightarrow>
     string list \<Rightarrow> 'w \<Rightarrow> ((thrown + string \<times> acs_entry list) \<times> 'w) option" where
  [code]: "download_pages svc req activeAtOffset contracts seen w =
     (case svc req w of
        (Inl e, w') \<Rightarrow> Some (Inl e, w')
      | (Inr value, w') \<Rightarrow>
          (case materializeActiveContractsPage value of
             Inl e \<Rightarrow> Some (Inl (thrown_of e), w')
           | Inr page \<Rightarrow>
               if activeAtOffset \<noteq> None \<and> activeAtOffset \<noteq> Some (mp_activeAtOffset page) then
                 Some (Inl (Thrown_Error
                   ''Active-contracts response activeAtOffset changed during traversal.''), w')
               else (case mp_nextPageToken page of
                 None \<Rightarrow> Some (Inr (mp_activeAtOffset page, contracts @ mp_activeContracts page), w')
               | Some token \<Rightarrow>
                   if token = [] then
                     Some (Inr (mp_activeAtOffset page, contracts @ mp_activeContracts page), w')
                   else if token_key token \<in> set seen then
                     Some (Inl (Thrown_Error ''Active-contracts response repeated a page token.''), w')
                   else download_pages svc (req\<lparr>ar_pageToken := Some token\<rparr>)
                     (Some (mp_activeAtOffset page)) (contracts @ mp_activeContracts page)
                     (token_key token # seen) w')))"

text \<open>What follows the download, over the downloaded contracts.\<close>

definition store_download ::
    "(string \<Rightarrow> string \<Rightarrow> bool) \<Rightarrow> 'w cache_services \<Rightarrow> cache_config \<Rightarrow> string list option \<Rightarrow> string \<Rightarrow>
     cached_snapshot option \<Rightarrow> string \<Rightarrow> acs_entry list \<Rightarrow> ('w, cache_result) async" where
  "store_download le sv c parties key base activeAtOffset activeContracts =
     async_bind (async_result (mapGrpcQueryRelationFragment le [] activeContracts)) (\<lambda>fragment.
     async_bind (effectiveExpiryEpochMs sv (gc_ttlMs c)) (\<lambda>expiresAt.
     let contracts = rf_contracts fragment;
         baseOffset = (case base of None \<Rightarrow> None | Some b \<Rightarrow> parseCacheOffset (Q_Str (cs_activeAtOffset b)));
         newOffset = parseCacheOffset (Q_Str activeAtOffset) in
     async_bind (async_result (copyRows contracts)) (\<lambda>rows.
     async_bind (sv_set sv key (snapshot_value
         \<lparr>cs_endpointScope = gc_endpointScope c, cs_parties = parties,
          cs_activeAtOffset = activeAtOffset, cs_expiresAtEpochMs = expiresAt, cs_contracts = rows,
          cs_creationMetadata = map metadata_of (rf_creationIdentities fragment)\<rparr>) (gc_ttlMs c)) (\<lambda>_.
       async_return \<lparr>re_activeAtOffset = activeAtOffset, re_contractCount = length contracts,
         re_expiresAt = expiresAt, re_refresh = Full_Refresh,
         re_offsetGap =
           (case (baseOffset, newOffset) of
              (Some b, Some n) \<Rightarrow> if n \<ge> b then Some (string_of_int (n - b)) else None
            | _ \<Rightarrow> None),
         re_deltaUpdateCount = None\<rparr>))))"

definition fullRefreshAsync ::
    "(string \<Rightarrow> string \<Rightarrow> bool) \<Rightarrow> 'w cache_services \<Rightarrow> cache_config \<Rightarrow> string list option \<Rightarrow> string \<Rightarrow>
     cached_snapshot option \<Rightarrow> 'w \<Rightarrow> ((thrown + cache_result) \<times> 'w) option" where
  "fullRefreshAsync le sv c parties key base w =
     (case download_pages (sv_activeContractsPage sv)
        \<lparr>ar_parties = parties, ar_maxPageSize = gc_maxPageSize c, ar_pageToken = None\<rparr> None [] [] w of
        None \<Rightarrow> None
      | Some (Inl e, w') \<Rightarrow> Some (Inl e, w')
      | Some (Inr (activeAtOffset, contracts), w') \<Rightarrow>
          Some (store_download le sv c parties key base activeAtOffset contracts w'))"

section \<open>The operations of the cache\<close>

text \<open>\<^verbatim>\<open>populateAsync\<close>: the base may be expired. A download that does not end is \<open>None\<close>.\<close>

definition readBase ::
    "'w cache_services \<Rightarrow> cache_config \<Rightarrow> string list option \<Rightarrow> string \<Rightarrow> bool \<Rightarrow>
     ('w, cached_snapshot option) async" where
  "readBase sv c parties key ignoreExpiry =
     async_bind (sv_get sv key) (\<lambda>cached.
     async_bind (currentEpochMs sv) (\<lambda>n.
       async_return (asCompatibleSnapshot cached (gc_endpointScope c) parties n ignoreExpiry)))"

definition populateAsync ::
    "(string \<Rightarrow> string \<Rightarrow> bool) \<Rightarrow> 'w cache_services \<Rightarrow> cache_config \<Rightarrow> string list option \<Rightarrow> string \<Rightarrow>
     'w \<Rightarrow> ((thrown + cache_result) \<times> 'w) option" where
  "populateAsync le sv c parties key w =
     (case readBase sv c parties key True w of
        (Inl e, w') \<Rightarrow> Some (Inl e, w')
      | (Inr base, w') \<Rightarrow>
          (case (base, sv_updatesPage sv, gc_deltaEnabled c) of
             (Some b, Some _, True) \<Rightarrow>
               (case tryDeltaRefreshAsync le sv c parties key b w' of
                  (Inl e, w'') \<Rightarrow> Some (Inl e, w'')
                | (Inr (Some r), w'') \<Rightarrow> Some (Inr r, w'')
                | (Inr None, w'') \<Rightarrow> fullRefreshAsync le sv c parties key base w'')
           | _ \<Rightarrow> fullRefreshAsync le sv c parties key base w'))"

definition cacheContracts ::
    "(string \<Rightarrow> string \<Rightarrow> bool) \<Rightarrow> 'w cache_services \<Rightarrow> cache_config \<Rightarrow> qvalue \<Rightarrow> 'w \<Rightarrow>
     ((thrown + cache_result) \<times> 'w) option" where
  "cacheContracts le sv c args w =
     (case normalizeParties args of
        Inl e \<Rightarrow> Some (Inl (thrown_of e), w)
      | Inr parties \<Rightarrow> populateAsync le sv c parties (cacheKey (gc_endpointScope c) parties) w)"

definition readSnapshotAsync ::
    "'w cache_services \<Rightarrow> cache_config \<Rightarrow> qvalue \<Rightarrow> ('w, cached_snapshot option) async" where
  "readSnapshotAsync sv c args =
     async_bind (async_result (normalizeParties args)) (\<lambda>parties.
       readBase sv c parties (cacheKey (gc_endpointScope c) parties) False)"

definition readContractsAsync ::
    "'w cache_services \<Rightarrow> cache_config \<Rightarrow> qvalue \<Rightarrow> ('w, contract_row list option) async" where
  "readContractsAsync sv c args =
     async_bind (readSnapshotAsync sv c args) (\<lambda>s. async_return (map_option cs_contracts s))"

definition invalidateContractsCache ::
    "'w cache_services \<Rightarrow> cache_config \<Rightarrow> qvalue \<Rightarrow> ('w, unit) async" where
  "invalidateContractsCache sv c args =
     async_bind (async_result (normalizeParties args)) (\<lambda>parties.
       sv_delete sv (cacheKey (gc_endpointScope c) parties))"

record cache_inspection =
  in_activeAtOffset :: string
  in_ledgerEndOffset :: string
  in_offsetGap :: string
  in_contractCount :: nat
  in_expiresAt :: js_num

definition inspectContractsCacheAsync ::
    "'w cache_services \<Rightarrow> cache_config \<Rightarrow> qvalue \<Rightarrow> ('w, cache_inspection option) async" where
  "inspectContractsCacheAsync sv c args =
     async_bind (async_result (normalizeParties args)) (\<lambda>parties.
     async_bind (readBase sv c parties (cacheKey (gc_endpointScope c) parties) True) (\<lambda>base.
       case (base, sv_ledgerEnd sv) of
         (Some b, Some ledgerEnd) \<Rightarrow>
           async_bind ledgerEnd (\<lambda>endValue.
             case (parseCacheOffset endValue, parseCacheOffset (Q_Str (cs_activeAtOffset b))) of
               (Some end', Some activeAt) \<Rightarrow>
                 if end' < activeAt then async_return None
                 else async_return (Some \<lparr>in_activeAtOffset = cs_activeAtOffset b,
                   in_ledgerEndOffset = string_of_int end', in_offsetGap = string_of_int (end' - activeAt),
                   in_contractCount = length (cs_contracts b), in_expiresAt = cs_expiresAtEpochMs b\<rparr>)
             | _ \<Rightarrow> async_return None)
       | _ \<Rightarrow> async_return None))"

end
