(* ===== verification/Relation_Laws.thy ===== *)
theory Relation_Laws
  imports Relation_Mapping
begin

text \<open>
  What the materialization makes of an active contract set alone: one row per contract, which does
  not depend on the order of the entries, and one creation identity per row.
\<close>

section \<open>Results of lists\<close>

lemma map_result_Inr_iff:
  "map_result f xs = Inr ys \<longleftrightarrow> list_all2 (\<lambda>x y. f x = Inr y) xs ys"
proof (induction xs arbitrary: ys)
  case (Cons x xs)
  then show ?case by (cases ys) (auto simp: bind_result_Inr_iff)
qed auto

lemma map_result_ex_iff: "(\<exists>ys. map_result f xs = Inr ys) \<longleftrightarrow> (\<forall>x \<in> set xs. \<exists>y. f x = Inr y)"
proof (induction xs)
  case (Cons x xs)
  have "(\<exists>ys. map_result f (x # xs) = Inr ys)
      \<longleftrightarrow> (\<exists>y. f x = Inr y) \<and> (\<exists>ys. map_result f xs = Inr ys)"
    by (auto simp: bind_result_Inr_iff)
  with Cons show ?case by auto
qed simp

lemma map_result_map: "map_result f (map g xs) = map_result (\<lambda>x. f (g x)) xs"
  by (induction xs) simp_all

lemma concat_result_ex_iff:
  "(\<exists>ys. concat_result f xs = Inr ys) \<longleftrightarrow> (\<forall>x \<in> set xs. \<exists>y. f x = Inr y)"
  by (auto simp: concat_result_def bind_result_Inr_iff simp flip: map_result_ex_iff)

text \<open>The successful value of a result.\<close>

definition ok_value :: "'a result \<Rightarrow> 'a" where
  "ok_value r = (case r of Inr x \<Rightarrow> x | Inl _ \<Rightarrow> undefined)"

lemma ok_value_Inr [simp]: "ok_value (Inr x) = x"
  by (simp add: ok_value_def)

lemma map_result_ok_value: "map_result f xs = Inr ys \<Longrightarrow> ys = map (\<lambda>x. ok_value (f x)) xs"
  by (induction xs arbitrary: ys) (auto simp: bind_result_Inr_iff)

lemma concat_result_set:
  "concat_result f xs = Inr ys \<Longrightarrow> set ys = (\<Union>x \<in> set xs. set (ok_value (f x)))"
  by (auto simp: concat_result_def bind_result_Inr_iff dest!: map_result_ok_value)

lemma set_first_of_each [simp]: "set (first_of_each xs) = set xs"
  by (induction xs) auto

section \<open>Grouping\<close>

definition entry_contract :: "active_entry \<Rightarrow> string" where
  "entry_contract e = ce_contractId (ae_event e)"

definition entries_of :: "string \<Rightarrow> active_entry list \<Rightarrow> active_entry list" where
  "entries_of k es = filter (\<lambda>e. entry_contract e = k) es"

lemma group_entries_snoc:
  "group_entries (es @ [e]) =
     AList.update (entry_contract e)
       ((case map_of (group_entries es) (entry_contract e) of Some b \<Rightarrow> b | None \<Rightarrow> []) @ [e])
       (group_entries es)"
  by (simp add: group_entries_def entry_contract_def Let_def)

lemma group_entries_Nil [simp]: "group_entries [] = []"
  by (simp add: group_entries_def)

lemma group_entries_spec:
  "distinct (map fst (group_entries es)) \<and> fst ` set (group_entries es) = entry_contract ` set es \<and>
   map_of (group_entries es) k = (if entries_of k es = [] then None else Some (entries_of k es))"
proof (induction es arbitrary: k rule: rev_induct)
  case (snoc e es)
  let ?g = "group_entries es"
  have spec: "distinct (map fst ?g)" "fst ` set ?g = entry_contract ` set es"
    "\<And>k. map_of ?g k = (if entries_of k es = [] then None else Some (entries_of k es))"
    using snoc by blast+
  have "map_of (group_entries (es @ [e])) k
      = (if entries_of k (es @ [e]) = [] then None else Some (entries_of k (es @ [e])))"
    by (auto simp: group_entries_snoc spec(3)) (auto simp: entries_of_def)
  then show ?case
    using spec(1,2) by (auto simp: group_entries_snoc distinct_update keys_update)
qed (simp add: entries_of_def)

lemma group_entries_mem:
  assumes "(k, b) \<in> set (group_entries es)"
  shows "b = entries_of k es" "b \<noteq> []" "k \<in> entry_contract ` set es"
proof -
  have "map_of (group_entries es) k = Some b"
    using conjunct1 [OF group_entries_spec] assms by (rule map_of_is_SomeI)
  then show "b = entries_of k es" "b \<noteq> []"
    using group_entries_spec [of es k] by (auto split: if_splits)
  show "k \<in> entry_contract ` set es" using assms group_entries_spec [of es] by force
qed

lemma group_entries_wf:
  "(k, b) \<in> set (group_entries es) \<Longrightarrow> b \<noteq> [] \<and> (\<forall>e \<in> set b. entry_contract e = k)"
  using group_entries_mem [of k b es] by (auto simp: entries_of_def)

section \<open>One contract\<close>

definition entry_creation :: "(string \<Rightarrow> string \<Rightarrow> bool) \<Rightarrow> active_entry \<Rightarrow> creation_identity result" where
  "entry_creation le e = creationDescriptor le (ae_event e) (ce_offset (ae_event e))"

text \<open>The creation identity of a contract, from its activations.\<close>

definition group_creation ::
    "(string \<Rightarrow> string \<Rightarrow> bool) \<Rightarrow> string \<Rightarrow> active_entry list \<Rightarrow> creation_identity result" where
  "group_creation le k es =
     bind_result (map_result (entry_creation le) es) (\<lambda>descriptors.
     if \<exists>d \<in> set descriptors. canonicalCreationFacts d \<noteq> canonicalCreationFacts (hd descriptors) then
       validation (''gRPC query ACS conflicts within activations for contract '' @ k)
     else bind_result (immutableStrings (concat (map ci_witnesses descriptors))
         ''created event witnesses'' True) (\<lambda>witnesses.
       bind_result (entry_creation le (hd (sort_by (activation_before le) es))) (\<lambda>c.
         Inr (c\<lparr>ci_witnesses := witnesses\<rparr>))))"

lemma creation_contract: "creationDescriptor le e off = Inr c \<Longrightarrow> ci_contractId c = ce_contractId e"
  by (auto simp: creationDescriptor_def bind_result_Inr_iff validation_def
      split: if_splits option.splits)

lemma update_fresh: "k \<notin> fst ` set al \<Longrightarrow> AList.update k v al = al @ [(k, v)]"
  by (induction al) auto

lemma update_last: "k \<notin> fst ` set al \<Longrightarrow> AList.update k v (al @ [(k, u)]) = al @ [(k, v)]"
  by (induction al) auto

lemma hd_sort_by_mem: "es \<noteq> [] \<Longrightarrow> hd (sort_by before es) \<in> set es"
  by (metis hd_in_set length_0_conv length_sort_by set_sort_by)

lemma reconcile_fresh_group:
  assumes es: "es \<noteq> []" "\<And>e. e \<in> set es \<Longrightarrow> entry_contract e = k"
    and fresh: "k \<notin> fst ` set contracts" "k \<notin> fst ` set creations"
  shows "reconcile_group le (contracts, creations) (k, es) =
    bind_result (group_creation le k es) (\<lambda>c.
      Inr (contracts @ [(k, row_of_creation c)], creations @ [(k, c)]))"
proof -
  let ?rep = "hd (sort_by (activation_before le) es)"
  have rep: "ce_contractId (ae_event ?rep) = k"
    using es hd_sort_by_mem [OF es(1)] by (auto simp: entry_contract_def)
  have none: "map_of contracts k = None" "map_of creations k = None"
    using fresh by (simp_all add: map_of_eq_None_iff)
  have row: "row_of_creation c\<lparr>cr_witnesses := ws\<rparr> = row_of_creation (c\<lparr>ci_witnesses := ws\<rparr>)" for c ws
    by (simp add: row_of_creation_def)
  have f: "(\<lambda>entry. creationDescriptor le (ae_event entry) (ce_offset (ae_event entry)))
      = entry_creation le" by (simp add: entry_creation_def fun_eq_iff)
  have add: "addCreatedContract le (contracts, creations) (ae_event ?rep) (ce_offset (ae_event ?rep))
      = bind_result (entry_creation le ?rep) (\<lambda>c.
          Inr (contracts @ [(k, row_of_creation c)], creations @ [(k, c)]))"
    using rep none fresh by (simp add: addCreatedContract_def entry_creation_def update_fresh)
  show ?thesis
  proof (cases "map_result (entry_creation le) es")
    case (Inr ds)
    let ?bad = "\<exists>d \<in> set ds. canonicalCreationFacts d \<noteq> canonicalCreationFacts (hd ds)"
    let ?ws = "immutableStrings (concat (map ci_witnesses ds)) ''created event witnesses'' True"
    show ?thesis
    proof (cases ?bad)
      case False
      have "reconcile_group le (contracts, creations) (k, es) =
          bind_result ?ws (\<lambda>ws. bind_result (entry_creation le ?rep) (\<lambda>c.
            Inr (contracts @ [(k, row_of_creation (c\<lparr>ci_witnesses := ws\<rparr>))],
                 creations @ [(k, c\<lparr>ci_witnesses := ws\<rparr>)])))"
        unfolding reconcile_group_def f prod.case Inr bind_result_simps Let_def none option.case
          append_Nil if_not_P [OF False] if_False
        by (simp add: add bind_result_assoc required_def map_add_def none fresh update_last row)
      then show ?thesis
        unfolding group_creation_def Inr bind_result_simps if_not_P [OF False]
        by (simp add: bind_result_assoc)
    qed (simp add: reconcile_group_def f Inr group_creation_def Let_def validation_def)
  qed (simp add: reconcile_group_def f group_creation_def)
qed

lemma group_creation_contract:
  assumes "group_creation le k es = Inr c" "es \<noteq> []" "\<And>e. e \<in> set es \<Longrightarrow> entry_contract e = k"
  shows "ci_contractId c = k"
proof -
  let ?rep = "hd (sort_by (activation_before le) es)"
  from assms(1) obtain d where "entry_creation le ?rep = Inr d" "ci_contractId c = ci_contractId d"
    by (auto simp: group_creation_def bind_result_Inr_iff Let_def validation_def split: if_splits)
  moreover have "entry_contract ?rep = k" using assms hd_sort_by_mem [OF assms(2)] by blast
  ultimately show ?thesis using creation_contract by (auto simp: entry_creation_def entry_contract_def)
qed

lemma reconcile_fresh_groups:
  assumes "distinct (map fst gs)" "\<And>k es. (k, es) \<in> set gs \<Longrightarrow> es \<noteq> [] \<and> (\<forall>e \<in> set es. entry_contract e = k)"
    and "fst ` set gs \<inter> fst ` set contracts = {}" "fst ` set gs \<inter> fst ` set creations = {}"
  shows "reconcile_groups le (contracts, creations) gs =
    bind_result (map_result (\<lambda>(k, es). group_creation le k es) gs) (\<lambda>cs.
      Inr (contracts @ map (\<lambda>c. (ci_contractId c, row_of_creation c)) cs,
           creations @ map (\<lambda>c. (ci_contractId c, c)) cs))"
  using assms
proof (induction gs arbitrary: contracts creations)
  case (Cons g gs)
  obtain k es where g: "g = (k, es)" by (cases g)
  have es: "es \<noteq> []" "\<And>e. e \<in> set es \<Longrightarrow> entry_contract e = k" using Cons.prems(2) [of k es] g by auto
  have fresh: "k \<notin> fst ` set contracts" "k \<notin> fst ` set creations" using Cons.prems g by auto
  show ?case
  proof (cases "group_creation le k es")
    case (Inr c)
    have id: "ci_contractId c = k" by (rule group_creation_contract [OF Inr es])
    have "reconcile_groups le (contracts @ [(k, row_of_creation c)], creations @ [(k, c)]) gs =
        bind_result (map_result (\<lambda>(k, es). group_creation le k es) gs) (\<lambda>cs.
          Inr ((contracts @ [(k, row_of_creation c)]) @ map (\<lambda>c. (ci_contractId c, row_of_creation c)) cs,
               (creations @ [(k, c)]) @ map (\<lambda>c. (ci_contractId c, c)) cs))"
      using Cons.prems g by (intro Cons.IH) auto
    then show ?thesis
      using reconcile_fresh_group [OF es fresh, of le] Inr by (simp add: g id bind_result_assoc)
  qed (use reconcile_fresh_group [OF es fresh, of le] in \<open>simp add: g\<close>)
qed simp

text \<open>The creation identities of a set of active entries.\<close>

definition active_creations ::
    "(string \<Rightarrow> string \<Rightarrow> bool) \<Rightarrow> active_entry list \<Rightarrow> creation_identity list result" where
  "active_creations le es = map_result (\<lambda>(k, g). group_creation le k g) (group_entries es)"

lemma reconcile_active:
  "reconcileActiveContracts le ([], []) es =
     bind_result (active_creations le es) (\<lambda>cs.
       Inr (map (\<lambda>c. (ci_contractId c, row_of_creation c)) cs, map (\<lambda>c. (ci_contractId c, c)) cs))"
proof -
  have "reconcile_groups le ([], []) (group_entries es) =
      bind_result (map_result (\<lambda>(k, es). group_creation le k es) (group_entries es)) (\<lambda>cs.
        Inr ([] @ map (\<lambda>c. (ci_contractId c, row_of_creation c)) cs,
             [] @ map (\<lambda>c. (ci_contractId c, c)) cs))"
    using group_entries_spec [of es] by (intro reconcile_fresh_groups group_entries_wf) simp_all
  then show ?thesis by (simp add: reconcileActiveContracts_def active_creations_def)
qed

section \<open>The whole fragment\<close>

definition creation_before ::
    "(string \<Rightarrow> string \<Rightarrow> bool) \<Rightarrow> creation_identity \<Rightarrow> creation_identity \<Rightarrow> bool" where
  "creation_before le l r = le (ci_contractId l) (ci_contractId r)"

text \<open>What the keys of an entry need: its identities and its packages have public keys.\<close>

definition has_key :: "string \<Rightarrow> bool" where
  "has_key s \<longleftrightarrow> length (utf8 s) \<le> max_identity_bytes"

definition entry_body :: "active_entry \<Rightarrow> pending_body" where
  "entry_body e = Pending_Created (ae_event e)"

definition entry_keys_ok :: "active_entry \<Rightarrow> bool" where
  "entry_keys_ok e \<longleftrightarrow>
     (\<exists>ids. identitiesFor (entry_body e) = Inr ids \<and> (\<forall>i \<in> set ids. has_key i))
     \<and> (\<exists>ps. packageIdsFor (entry_body e) = Inr ps \<and> (\<forall>p \<in> set ps. has_key p))"

lemma sort_by_map: "sort_by before (map f xs) = map f (sort_by (\<lambda>l r. before (f l) (f r)) xs)"
proof -
  have "insert_by before (f x) (map f ys) = map f (insert_by (\<lambda>l r. before (f l) (f r)) x ys)" for x ys
    by (induction ys) auto
  then show ?thesis by (induction xs) (simp_all add: sort_by_def)
qed

lemma key_registry_total:
  assumes "keyRegistry ids = Inr registry" "i \<in> set ids"
  shows "\<exists>k. map_of registry i = Some k"
proof -
  have "\<exists>k. map_of reg i = Some k"
    if "map_result (\<lambda>identity. bind_result (canonicalPublicNumericIdentity identity) (\<lambda>key.
          Inr (identity, key))) xs = Inr reg" "i \<in> set xs" for xs reg
    using that by (induction xs arbitrary: reg) (auto simp: bind_result_Inr_iff)
  then show ?thesis using assms by (simp add: keyRegistry_def)
qed

lemma key_registry_iff: "(\<exists>reg. keyRegistry ids = Inr reg) \<longleftrightarrow> (\<forall>i \<in> set ids. has_key i)"
  unfolding keyRegistry_def
  by (simp add: map_result_ex_iff bind_result_Inr_iff has_key_def flip: identity_defined_iff)

lemma identities_created:
  "identitiesFor (Pending_Created e) = Inr ids \<Longrightarrow>
     \<exists>t. requiredTemplate (ce_templateId e) ''event template'' = Inr t \<and> contractIdentity t \<in> set ids"
  by (auto simp: identitiesFor_def bind_result_Inr_iff Let_def body_template_def)

lemma types_created:
  assumes "identitiesFor (Pending_Created e) = Inr ids" "keyRegistry js = Inr registry" "set ids \<subseteq> set js"
  shows "\<exists>ts. typeIdentityRows (Pending_Created e) registry = Inr ts"
proof -
  obtain t where t: "requiredTemplate (ce_templateId e) ''event template'' = Inr t"
    "contractIdentity t \<in> set ids" using identities_created [OF assms(1)] by blast
  with assms obtain k where "map_of registry (contractIdentity t) = Some k"
    using key_registry_total by blast
  with t show ?thesis by (simp add: typeIdentityRows_def body_template_def required_def Let_def)
qed

text \<open>The fragment of an active contract set alone.\<close>

lemma active_fragment_bind:
  "mapGrpcQueryRelationFragment le [] acs =
     bind_result (activeContractEntries le acs) (\<lambda>es.
     bind_result (concat_result identitiesFor (map entry_body es)) (\<lambda>ids.
     bind_result (keyRegistry ids) (\<lambda>registry.
     bind_result (active_creations le es) (\<lambda>cs.
     bind_result (concat_result (\<lambda>b. typeIdentityRows b registry) (map entry_body es)) (\<lambda>types.
     bind_result (concat_result packageIdsFor (map entry_body es)) (\<lambda>packages.
     bind_result (map_result (\<lambda>i. bind_result (canonicalPublicNumericIdentity i) (\<lambda>pk. Inr (pk, i)))
       (sort (remdups packages))) (\<lambda>packageRows.
       Inr \<lparr>rf_contracts = map row_of_creation (sort_by (creation_before le) cs),
            rf_transactions = [], rf_events = [], rf_exercises = [],
            rf_typeIdentities = sort_by (\<lambda>l r. le (ty_pk l) (ty_pk r))
              (map snd (update_all (map (\<lambda>t. (ty_pk t, t)) types) [])),
            rf_packageIdentities = packageRows,
            rf_creationIdentities = sort_by (creation_before le) cs,
            rf_activeContractIdentities =
              sort_by (active_before le) (map active_identity_of es)\<rparr>)))))))"
proof -
  have actives: "map (\<lambda>entry. Pending_Created (ae_event entry)) es = map entry_body es" for es
    by (simp add: entry_body_def)
  have rows: "sort_by (\<lambda>l r. le (cr_contractId l) (cr_contractId r))
        (map snd (map (\<lambda>c. (ci_contractId c, row_of_creation c)) cs))
      = map row_of_creation (sort_by (creation_before le) cs)" for cs
    by (simp add: comp_def sort_by_map row_of_creation_def creation_before_def [abs_def])
  have creations: "sort_by (\<lambda>l r. le (ci_contractId l) (ci_contractId r))
        (map snd (map (\<lambda>c. (ci_contractId c, c)) cs)) = sort_by (creation_before le) cs" for cs
    by (simp add: comp_def creation_before_def [abs_def])
  show ?thesis
    unfolding mapGrpcQueryRelationFragment_def Let_def
    by (simp add: sort_transactions_def actives reconcile_active bind_result_assoc rows creations
        del: map_map)
qed

lemma active_fragment:
  assumes "mapGrpcQueryRelationFragment le [] acs = Inr f"
  obtains es cs where "activeContractEntries le acs = Inr es" "active_creations le es = Inr cs"
    "\<forall>e \<in> set es. entry_keys_ok e"
    "rf_creationIdentities f = sort_by (creation_before le) cs"
    "rf_contracts f = map row_of_creation (sort_by (creation_before le) cs)"
proof -
  from assms obtain es ids reg cs ps prs where *:
    "activeContractEntries le acs = Inr es" "active_creations le es = Inr cs"
    "concat_result identitiesFor (map entry_body es) = Inr ids" "keyRegistry ids = Inr reg"
    "concat_result packageIdsFor (map entry_body es) = Inr ps"
    "map_result (\<lambda>i. bind_result (canonicalPublicNumericIdentity i) (\<lambda>pk. Inr (pk, i)))
       (sort (remdups ps)) = Inr prs"
    "rf_creationIdentities f = sort_by (creation_before le) cs"
    "rf_contracts f = map row_of_creation (sort_by (creation_before le) cs)"
    unfolding active_fragment_bind bind_result_Inr_iff by auto
  have ids: "\<forall>i \<in> set ids. has_key i" using *(4) key_registry_iff by blast
  have "\<forall>i \<in> set ps. \<exists>r. bind_result (canonicalPublicNumericIdentity i) (\<lambda>pk. Inr (pk, i)) = Inr r"
    using *(6) map_result_ex_iff [THEN iffD1, OF exI] by fastforce
  then have ps: "\<forall>i \<in> set ps. has_key i"
    by (simp add: bind_result_Inr_iff has_key_def flip: identity_defined_iff)
  have "entry_keys_ok e" if e: "e \<in> set es" for e
  proof -
    obtain i p where ip: "identitiesFor (entry_body e) = Inr i" "packageIdsFor (entry_body e) = Inr p"
      using *(3,5) e concat_result_ex_iff [THEN iffD1, OF exI] by (metis (no_types) imageI list.set_map)
    have "set i \<subseteq> set ids" "set p \<subseteq> set ps"
      using concat_result_set [OF *(3)] concat_result_set [OF *(5)] ip e by fastforce+
    with ip ids ps show ?thesis by (auto simp: entry_keys_ok_def)
  qed
  with * that show ?thesis by blast
qed

lemma active_fragment_exists:
  assumes es: "activeContractEntries le acs = Inr es" and cs: "active_creations le es = Inr cs"
    and ok: "\<forall>e \<in> set es. entry_keys_ok e"
  shows "\<exists>f. mapGrpcQueryRelationFragment le [] acs = Inr f"
proof -
  obtain ids where ids: "concat_result identitiesFor (map entry_body es) = Inr ids"
    using concat_result_ex_iff [of identitiesFor "map entry_body es"] ok
    by (auto simp: entry_keys_ok_def)
  have "\<forall>i \<in> set ids. has_key i"
    using concat_result_set [OF ids] ok by (fastforce simp: entry_keys_ok_def)
  then obtain reg where reg: "keyRegistry ids = Inr reg" using key_registry_iff by blast
  have "\<exists>ts. typeIdentityRows (entry_body e) reg = Inr ts" if e: "e \<in> set es" for e
  proof -
    obtain i where i: "identitiesFor (Pending_Created (ae_event e)) = Inr i"
      using ok e by (auto simp: entry_keys_ok_def entry_body_def)
    have "set i \<subseteq> set ids" using concat_result_set [OF ids] i e by (fastforce simp: entry_body_def)
    with types_created [OF i reg] show ?thesis by (simp add: entry_body_def)
  qed
  then obtain ts where ts: "concat_result (\<lambda>b. typeIdentityRows b reg) (map entry_body es) = Inr ts"
    using concat_result_ex_iff [of "\<lambda>b. typeIdentityRows b reg" "map entry_body es"] by auto
  obtain ps where ps: "concat_result packageIdsFor (map entry_body es) = Inr ps"
    using concat_result_ex_iff [of packageIdsFor "map entry_body es"] ok
    by (auto simp: entry_keys_ok_def)
  have "\<forall>i \<in> set ps. has_key i"
    using concat_result_set [OF ps] ok by (fastforce simp: entry_keys_ok_def)
  then have "\<exists>prs. map_result (\<lambda>i. bind_result (canonicalPublicNumericIdentity i) (\<lambda>pk. Inr (pk, i)))
       (sort (remdups ps)) = Inr prs"
    by (simp add: map_result_ex_iff bind_result_Inr_iff has_key_def flip: identity_defined_iff)
  with es cs ids reg ts ps show ?thesis by (auto simp: active_fragment_bind)
qed

end
