(* ===== verification/Active_Set_Laws.thy ===== *)
theory Active_Set_Laws
  imports Relation_Laws
begin

text \<open>
  How the creation identities of an active contract set depend on its entries: each contract
  depends on its own activations only, and not on their order.
\<close>

text \<open>The order separates the texts of a set: different texts never compare as equal.\<close>

definition separates :: "(string \<Rightarrow> string \<Rightarrow> bool) \<Rightarrow> string set \<Rightarrow> bool" where
  "separates le S \<longleftrightarrow> (\<forall>a \<in> S. \<forall>b \<in> S. le a b \<longrightarrow> le b a \<longrightarrow> a = b)"

lemma separates_subset: "separates le S \<Longrightarrow> T \<subseteq> S \<Longrightarrow> separates le T"
  by (auto simp: separates_def)

section \<open>One contract\<close>

lemma valid_parties: "map_result validPartyId vs = Inr ps \<Longrightarrow> ps = vs"
  by (induction vs arbitrary: ps)
    (auto simp: bind_result_Inr_iff validPartyId_def validation_def split: if_splits)

lemma immutable_strings_iff:
  "immutableStrings vs name True = Inr ps \<longleftrightarrow>
     vs \<noteq> [] \<and> (\<forall>v \<in> set vs. \<exists>p. validPartyId v = Inr p) \<and> ps = sort (remdups vs)"
  by (auto simp: immutableStrings_def bind_result_Inr_iff validation_def simp flip: map_result_ex_iff
      dest: valid_parties)

lemma sort_remdups_cong: "set xs = set ys \<Longrightarrow> sort (remdups xs) = sort (remdups ys)"
  for xs ys :: "'a :: linorder list"
  by (metis sorted_list_of_set_sort_remdups)

lemma total_activation:
  assumes "total_preorder le" shows "total_preorder (activation_before le)"
proof -
  have le: "le x y \<or> le y x" "le x y \<Longrightarrow> le y z \<Longrightarrow> le x z" for x y z
    using assms by (auto simp: total_preorder_def)
  show ?thesis
    unfolding total_preorder_def activation_before_def Let_def
    by (auto split: if_splits intro: le) (use le in blast)+
qed

lemma activation_separates:
  assumes "separates le (ae_synchronizerId ` set es)" "inj_on ae_synchronizerId (set es)"
    and "x \<in> set es" "y \<in> set es" "activation_before le x y" "activation_before le y x"
  shows "x = y"
proof -
  have "le (ae_synchronizerId x) (ae_synchronizerId y)" "le (ae_synchronizerId y) (ae_synchronizerId x)"
    using assms(5,6) by (auto simp: activation_before_def Let_def split: if_splits)
  then have "ae_synchronizerId x = ae_synchronizerId y"
    using assms(1,3,4) by (auto simp: separates_def)
  with assms show ?thesis by (auto dest: inj_onD)
qed

lemma group_creation_perm:
  assumes perm: "mset g = mset g'" and g: "group_creation le k g = Inr c"
    and le: "total_preorder le" "separates le (ae_synchronizerId ` set g)" "inj_on ae_synchronizerId (set g)"
  shows "group_creation le k g' = Inr c"
proof -
  have set: "set g' = set g" using perm by (metis set_mset_mset)
  from g obtain ds ws d where *: "map_result (entry_creation le) g = Inr ds"
    "\<forall>d \<in> set ds. canonicalCreationFacts d = canonicalCreationFacts (hd ds)"
    "immutableStrings (concat (map ci_witnesses ds)) ''created event witnesses'' True = Inr ws"
    "entry_creation le (hd (sort_by (activation_before le) g)) = Inr d" "c = d\<lparr>ci_witnesses := ws\<rparr>"
    by (auto simp: group_creation_def bind_result_Inr_iff validation_def split: if_splits)
  obtain ds' where ds': "map_result (entry_creation le) g' = Inr ds'"
    using *(1) map_result_ex_iff [of "entry_creation le"] set by metis
  have sets: "set ds' = set ds"
    using map_result_ok_value [OF *(1)] map_result_ok_value [OF ds'] set by simp
  have "ds \<noteq> []" using *(3) by (auto simp: immutable_strings_iff)
  then have "hd ds' \<in> set ds" using sets by (metis hd_in_set set_empty)
  with *(2) have facts: "\<forall>d \<in> set ds'. canonicalCreationFacts d = canonicalCreationFacts (hd ds')"
    using sets by metis
  have "set (concat (map ci_witnesses ds')) = set (concat (map ci_witnesses ds))" using sets by simp
  then have ws: "immutableStrings (concat (map ci_witnesses ds')) ''created event witnesses'' True = Inr ws"
    using *(3) sort_remdups_cong [of "concat (map ci_witnesses ds')" "concat (map ci_witnesses ds)"]
    unfolding immutable_strings_iff by (metis set_empty)
  have "sort_by (activation_before le) g = sort_by (activation_before le) g'"
    using perm total_activation [OF le(1)] activation_separates [OF le(2,3)] by (intro sort_by_perm) auto
  with * ds' facts ws show ?thesis by (auto simp: group_creation_def)
qed

section \<open>All contracts\<close>

text \<open>\<open>group_creates le es k c\<close>: the entries materialize contract \<open>k\<close> as \<open>c\<close>.\<close>

definition group_creates ::
    "(string \<Rightarrow> string \<Rightarrow> bool) \<Rightarrow> active_entry list \<Rightarrow> string \<Rightarrow> creation_identity \<Rightarrow> bool" where
  "group_creates le es k c \<longleftrightarrow>
     k \<in> entry_contract ` set es \<and> group_creation le k (entries_of k es) = Inr c"

lemma creates_contract: "group_creates le es k c \<Longrightarrow> ci_contractId c = k"
proof -
  assume c: "group_creates le es k c"
  have "entries_of k es \<noteq> []" using c by (auto simp: group_creates_def entries_of_def filter_empty_conv)
  moreover have "entry_contract e = k" if "e \<in> set (entries_of k es)" for e
    using that by (simp add: entries_of_def)
  ultimately show ?thesis using c group_creation_contract unfolding group_creates_def by blast
qed

lemma creates_unique: "group_creates le es k c \<Longrightarrow> group_creates le es k d \<Longrightarrow> c = d"
  by (simp add: group_creates_def)

lemma active_creations_iff:
  "(\<exists>cs. active_creations le es = Inr cs) \<longleftrightarrow> (\<forall>k \<in> entry_contract ` set es. \<exists>c. group_creates le es k c)"
proof -
  have "(\<exists>cs. active_creations le es = Inr cs) \<longleftrightarrow>
      (\<forall>(k, g) \<in> set (group_entries es). \<exists>c. group_creation le k g = Inr c)"
    unfolding active_creations_def map_result_ex_iff by auto
  also have "\<dots> \<longleftrightarrow> (\<forall>k \<in> fst ` set (group_entries es). \<exists>c. group_creation le k (entries_of k es) = Inr c)"
    using group_entries_mem(1) by fastforce
  also have "fst ` set (group_entries es) = entry_contract ` set es" using group_entries_spec [of es] by blast
  finally show ?thesis by (simp add: group_creates_def)
qed

lemma group_entries_set:
  "set (group_entries es) = (\<lambda>k. (k, entries_of k es)) ` entry_contract ` set es"
proof -
  have "p \<in> (\<lambda>k. (k, entries_of k es)) ` entry_contract ` set es" if "p \<in> set (group_entries es)" for p
  proof -
    obtain k g where p: "p = (k, g)" by (cases p)
    with that group_entries_mem [of k g es] show ?thesis by blast
  qed
  moreover have "(k, entries_of k es) \<in> set (group_entries es)" if k: "k \<in> entry_contract ` set es" for k
  proof -
    obtain g where "(k, g) \<in> set (group_entries es)" using k group_entries_spec [of es k] by force
    with group_entries_mem(1) [OF this] show ?thesis by simp
  qed
  ultimately show ?thesis by blast
qed

lemma active_creations_set:
  assumes "active_creations le es = Inr cs"
  shows "distinct (map ci_contractId cs)" and "c \<in> set cs \<longleftrightarrow> (\<exists>k. group_creates le es k c)"
proof -
  let ?f = "\<lambda>(k, g). group_creation le k g"
  have cs: "cs = map (\<lambda>p. ok_value (?f p)) (group_entries es)"
    using assms unfolding active_creations_def by (rule map_result_ok_value)
  have ok: "\<exists>c. ?f p = Inr c \<and> ci_contractId c = fst p" if p: "p \<in> set (group_entries es)" for p
  proof -
    obtain k g where kg: "p = (k, g)" by (cases p)
    obtain c where c: "?f p = Inr c"
      using map_result_ex_iff [THEN iffD1, OF exI, OF assms [unfolded active_creations_def]] p by blast
    moreover have "ci_contractId c = k"
      using c group_entries_wf [OF p [unfolded kg]] unfolding kg prod.case
      by (intro group_creation_contract [of le k g]) auto
    ultimately show ?thesis by (simp add: kg)
  qed
  have "ci_contractId (ok_value (?f p)) = fst p" if "p \<in> set (group_entries es)" for p
    using ok [OF that] by auto
  then have "map ci_contractId cs = map fst (group_entries es)" by (simp add: cs)
  then show "distinct (map ci_contractId cs)" using group_entries_spec [of es] by simp
  have total: "\<exists>d. group_creation le k (entries_of k es) = Inr d" if "k \<in> entry_contract ` set es" for k
  proof -
    have "(k, entries_of k es) \<in> set (group_entries es)" using that unfolding group_entries_set by blast
    from ok [OF this] show ?thesis by auto
  qed
  have "c \<in> set cs \<longleftrightarrow>
      (\<exists>k \<in> entry_contract ` set es. c = ok_value (group_creation le k (entries_of k es)))"
    unfolding cs set_map group_entries_set image_image prod.case by blast
  also have "\<dots> \<longleftrightarrow> (\<exists>k. group_creates le es k c)"
  proof -
    have "c = ok_value (group_creation le k (entries_of k es)) \<longleftrightarrow> group_creates le es k c"
      if k: "k \<in> entry_contract ` set es" for k
    proof -
      obtain d where "group_creation le k (entries_of k es) = Inr d" using total [OF k] by blast
      with k show ?thesis by (auto simp: group_creates_def)
    qed
    then show ?thesis by (auto simp: group_creates_def)
  qed
  finally show "c \<in> set cs \<longleftrightarrow> (\<exists>k. group_creates le es k c)" .
qed

section \<open>Patching an active set\<close>

text \<open>Entries on different contracts do not influence each other.\<close>

lemma entries_of_append: "entries_of k (xs @ ys) = entries_of k xs @ entries_of k ys"
  by (simp add: entries_of_def)

lemma entries_of_none: "k \<notin> entry_contract ` set es \<Longrightarrow> entries_of k es = []"
  by (auto simp: entries_of_def filter_empty_conv)

lemma entries_of_filter:
  "entries_of k (filter (\<lambda>e. entry_contract e \<notin> R) es) = (if k \<in> R then [] else entries_of k es)"
  by (auto simp: entries_of_def filter_empty_conv intro: filter_cong)

definition synchronizers :: "active_entry list \<Rightarrow> string set" where
  "synchronizers es = ae_synchronizerId ` set es"

definition one_activation_each :: "active_entry list \<Rightarrow> bool" where
  "one_activation_each es \<longleftrightarrow> inj_on (\<lambda>e. (entry_contract e, ae_synchronizerId e)) (set es)"

lemma creates_perm:
  assumes perm: "mset es = mset fs" and c: "group_creates le fs k c"
    and le: "total_preorder le" "separates le (synchronizers es)" and one: "one_activation_each es"
  shows "group_creates le es k c"
proof -
  have set: "set es = set fs" using perm by (metis set_mset_mset)
  have group: "mset (entries_of k fs) = mset (entries_of k es)"
    unfolding entries_of_def mset_filter perm ..
  have sub: "set (entries_of k fs) \<subseteq> set es" unfolding set by (auto simp: entries_of_def)
  have "inj_on ae_synchronizerId (set (entries_of k fs))"
  proof (rule inj_onI)
    fix x y
    assume "x \<in> set (entries_of k fs)" "y \<in> set (entries_of k fs)" "ae_synchronizerId x = ae_synchronizerId y"
    then show "x = y"
      using one sub unfolding one_activation_each_def
      by (intro inj_onD [of "\<lambda>e. (entry_contract e, ae_synchronizerId e)" "set es"]) (auto simp: entries_of_def)
  qed
  moreover have "separates le (ae_synchronizerId ` set (entries_of k fs))"
    using le(2) sub by (auto simp: synchronizers_def separates_def)
  ultimately have "group_creation le k (entries_of k es) = Inr c"
    using group_creation_perm [OF group _ le(1)] c by (simp add: group_creates_def)
  with c set show ?thesis by (simp add: group_creates_def)
qed

lemma creates_patch:
  assumes "entry_contract ` set esS \<inter> entry_contract ` set es0 = {}"
  shows "group_creates le (filter (\<lambda>e. entry_contract e \<notin> R) es0 @ esS) k c \<longleftrightarrow>
    (group_creates le es0 k c \<and> k \<notin> R) \<or> group_creates le esS k c"
proof (cases "k \<in> entry_contract ` set esS")
  case True
  with assms have "k \<notin> entry_contract ` set es0" by blast
  with True show ?thesis
    by (auto simp: group_creates_def entries_of_append entries_of_filter entries_of_none)
next
  case False
  then show ?thesis
    by (auto simp: group_creates_def entries_of_append entries_of_filter entries_of_none)
qed

lemma active_creations_patch:
  assumes cs0: "active_creations le es0 = Inr cs0" and csS: "active_creations le esS = Inr csS"
    and disjoint: "entry_contract ` set esS \<inter> entry_contract ` set es0 = {}"
    and perm: "mset es = mset (filter (\<lambda>e. entry_contract e \<notin> R) es0 @ esS)"
    and le: "total_preorder le" "separates le (synchronizers es)" and one: "one_activation_each es"
  obtains cs where "active_creations le es = Inr cs"
    "mset cs = mset (filter (\<lambda>c. ci_contractId c \<notin> R) cs0 @ csS)"
proof -
  have group_creates: "(group_creates le es0 k c \<and> k \<notin> R) \<or> group_creates le esS k c \<Longrightarrow> group_creates le es k c" for k c
    using creates_perm [OF perm _ le one] creates_patch [OF disjoint] by simp
  have ids: "entry_contract ` set es \<subseteq> (entry_contract ` set es0 - R) \<union> entry_contract ` set esS"
  proof -
    have "set es = set (filter (\<lambda>e. entry_contract e \<notin> R) es0 @ esS)" using perm by (metis set_mset_mset)
    then show ?thesis by auto
  qed
  have total: "\<exists>c. (group_creates le es0 k c \<and> k \<notin> R) \<or> group_creates le esS k c" if "k \<in> entry_contract ` set es" for k
  proof (cases "k \<in> entry_contract ` set esS")
    case True
    then show ?thesis using csS active_creations_iff [of le esS] by blast
  next
    case False
    then have "k \<in> entry_contract ` set es0" "k \<notin> R" using that ids by auto
    then show ?thesis using cs0 active_creations_iff [of le es0] by blast
  qed
  then obtain cs where cs: "active_creations le es = Inr cs"
    using group_creates active_creations_iff [of le es] by meson
  have eq: "group_creates le es k c \<longleftrightarrow> (group_creates le es0 k c \<and> k \<notin> R) \<or> group_creates le esS k c" for k c
  proof
    assume c: "group_creates le es k c"
    then have "k \<in> entry_contract ` set es" by (simp add: group_creates_def)
    then obtain d where d: "(group_creates le es0 k d \<and> k \<notin> R) \<or> group_creates le esS k d" using total by blast
    with group_creates have "d = c" using c creates_unique by blast
    with d show "(group_creates le es0 k c \<and> k \<notin> R) \<or> group_creates le esS k c" by simp
  qed (rule group_creates)
  have "set cs = set (filter (\<lambda>c. ci_contractId c \<notin> R) cs0 @ csS)"
  proof (rule set_eqI)
    fix c
    have "ci_contractId c = k" if "group_creates le es0 k c" for k using that by (rule creates_contract)
    then show "c \<in> set cs \<longleftrightarrow> c \<in> set (filter (\<lambda>c. ci_contractId c \<notin> R) cs0 @ csS)"
      unfolding set_append set_filter Un_iff mem_Collect_eq active_creations_set(2) [OF cs]
        active_creations_set(2) [OF cs0] active_creations_set(2) [OF csS] eq by blast
  qed
  moreover have "ci_contractId c \<in> entry_contract ` set es0" if "c \<in> set cs0" for c
    using that active_creations_set(2) [OF cs0] creates_contract unfolding group_creates_def by blast
  moreover have "ci_contractId c \<in> entry_contract ` set esS" if "c \<in> set csS" for c
    using that active_creations_set(2) [OF csS] creates_contract unfolding group_creates_def by blast
  moreover have "distinct cs0" "distinct csS" "distinct cs"
    using active_creations_set(1) [OF cs0] active_creations_set(1) [OF csS] active_creations_set(1) [OF cs]
    by (simp_all add: distinct_map)
  moreover have "set cs0 \<inter> set csS = {}" using calculation(2,3) disjoint by blast
  ultimately have "set_mset (mset cs) = set_mset (mset (filter (\<lambda>c. ci_contractId c \<notin> R) cs0 @ csS))"
    "distinct cs" "distinct (filter (\<lambda>c. ci_contractId c \<notin> R) cs0 @ csS)"
    by (simp_all only: set_mset_mset) (auto simp: Int_commute)
  then have "mset cs = mset (filter (\<lambda>c. ci_contractId c \<notin> R) cs0 @ csS)"
    by (metis set_eq_iff_mset_eq_distinct set_mset_mset)
  with cs show ?thesis by (rule that)
qed

end
