(* ===== verification/Delta_Laws.thy ===== *)
theory Delta_Laws
  imports Contract_Cache Active_Set_Laws
begin

text \<open>
  Patching a snapshot is downloading it again: if the base snapshot is the materialization of an
  active contract set, then the patched snapshot is the materialization of that set after the
  entries of the window, in whatever order the ledger would send it.
\<close>

section \<open>The active set after a window\<close>

definition acs_contract :: "acs_entry \<Rightarrow> string option" where
  "acs_contract a = (case a of Active_Contract (Some e) _ _ \<Rightarrow> Some (ce_contractId e) | _ \<Rightarrow> None)"

fun acs_step :: "acs_entry list \<Rightarrow> delta_entry \<Rightarrow> acs_entry list" where
  "acs_step acs (Delta_Created e synchronizerId) = acs @ [Active_Contract (Some e) synchronizerId ''0'']"
| "acs_step acs (Delta_Archived k) = filter (\<lambda>a. acs_contract a \<noteq> Some k) acs"

definition acs_after :: "acs_entry list \<Rightarrow> delta_entry list \<Rightarrow> acs_entry list" where
  "acs_after acs es = foldl acs_step acs es"

definition keep_acs :: "string list \<Rightarrow> acs_entry \<Rightarrow> bool" where
  "keep_acs removes a \<longleftrightarrow> (\<forall>k. acs_contract a = Some k \<longrightarrow> k \<notin> set removes)"

text \<open>Additions are keyed by their contract, and none is in the base.\<close>

definition adds_ok :: "string set \<Rightarrow> (string \<times> created_event \<times> string) list \<Rightarrow> bool" where
  "adds_ok ids adds \<longleftrightarrow>
     distinct (map fst adds) \<and> (\<forall>(k, e, s) \<in> set adds. ce_contractId e = k \<and> k \<notin> ids)"

lemma survivor_contract: "acs_contract (survivor (k, e, s)) = Some (ce_contractId e)"
  by (simp add: survivor_def acs_contract_def)

lemma filter_survivors:
  "adds_ok ids adds \<Longrightarrow>
   filter (\<lambda>a. acs_contract a \<noteq> Some k) (map survivor adds) = map survivor (AList.delete k adds)"
  by (induction adds) (auto simp: adds_ok_def survivor_contract AList.delete_eq)

lemma adds_ok_delete: "adds_ok ids adds \<Longrightarrow> adds_ok ids (AList.delete k adds)"
  using distinct_delete [of adds k] by (auto simp: adds_ok_def AList.delete_eq)

lemma apply_entry_acs:
  assumes "apply_entry ids (adds, removes) entry = Some (adds', removes')" "adds_ok ids adds"
    and "\<And>a k. a \<in> set acs \<Longrightarrow> acs_contract a = Some k \<Longrightarrow> k \<in> ids" "set removes \<subseteq> ids"
  shows "acs_step (filter (keep_acs removes) acs @ map survivor adds) entry
      = filter (keep_acs removes') acs @ map survivor adds'"
    and "adds_ok ids adds'" "set removes' \<subseteq> ids"
proof -
  have "acs_step (filter (keep_acs removes) acs @ map survivor adds) entry
      = filter (keep_acs removes') acs @ map survivor adds' \<and> adds_ok ids adds' \<and> set removes' \<subseteq> ids"
  proof (cases entry)
    case (Delta_Created e s)
    then have new: "ce_contractId e \<notin> ids" "ce_contractId e \<notin> fst ` set adds"
      and adds': "adds' = AList.update (ce_contractId e) (e, s) adds" "removes' = removes"
      using assms(1) by (auto simp: apply_entry_def map_of_eq_None_iff split: if_splits)
    then have "adds' = adds @ [(ce_contractId e, e, s)]" by (simp add: update_fresh)
    with adds'(2) new assms(2,4) Delta_Created show ?thesis
      by (auto simp: adds_ok_def survivor_def)
  next
    case (Delta_Archived k)
    show ?thesis
    proof (cases "map_of adds k")
      case (Some x)
      then have "k \<notin> ids" using assms(2) by (auto simp: adds_ok_def dest: map_of_SomeD)
      then have "filter (\<lambda>a. acs_contract a \<noteq> Some k) (filter (keep_acs removes) acs)
          = filter (keep_acs removes) acs"
        using assms(3) unfolding filter_filter by (intro filter_cong) auto
      with Some Delta_Archived assms filter_survivors [OF assms(2)] show ?thesis
        by (auto simp: apply_entry_def adds_ok_delete)
    next
      case None
      then have k: "k \<in> ids" "adds' = adds" "removes' = List.insert k removes"
        using assms(1) Delta_Archived by (auto simp: apply_entry_def split: if_splits)
      have "keep_acs removes' = (\<lambda>a. keep_acs removes a \<and> acs_contract a \<noteq> Some k)"
        by (auto simp: k keep_acs_def fun_eq_iff)
      moreover have "filter (\<lambda>a. acs_contract a \<noteq> Some k) (map survivor adds) = map survivor adds"
        using assms(2) k(1) by (auto simp: filter_id_conv adds_ok_def survivor_contract)
      ultimately show ?thesis
        using assms k Delta_Archived by (auto simp: conj_commute)
    qed
  qed
  then show "acs_step (filter (keep_acs removes) acs @ map survivor adds) entry
      = filter (keep_acs removes') acs @ map survivor adds'"
    and "adds_ok ids adds'" "set removes' \<subseteq> ids" by blast+
qed

lemma apply_entries_acs:
  assumes "apply_entries ids (adds, removes) entries = Some (adds', removes')" "adds_ok ids adds"
    and "\<And>a k. a \<in> set acs \<Longrightarrow> acs_contract a = Some k \<Longrightarrow> k \<in> ids" "set removes \<subseteq> ids"
  shows "acs_after (filter (keep_acs removes) acs @ map survivor adds) entries
      = filter (keep_acs removes') acs @ map survivor adds' \<and> adds_ok ids adds'"
  using assms
proof (induction entries arbitrary: adds removes)
  case (Cons e es)
  then obtain adds1 removes1 where step: "apply_entry ids (adds, removes) e = Some (adds1, removes1)"
    "apply_entries ids (adds1, removes1) es = Some (adds', removes')"
    by (auto split: option.splits)
  note s = apply_entry_acs [OF step(1) Cons.prems(2) Cons.prems(3,4)]
  from Cons.IH [OF step(2) s(2) Cons.prems(3) s(3)] show ?case
    by (simp add: acs_after_def s(1))
qed (simp add: acs_after_def)

section \<open>Entries of a patched set\<close>

lemma active_entry_contract:
  "active_entry_of le a = Inr e \<Longrightarrow> acs_contract a = Some (entry_contract e)"
  by (auto simp: active_entry_of_def acs_contract_def entry_contract_def bind_result_Inr_iff validation_def
      split: acs_entry.splits option.splits if_splits)

lemma entry_contract_valid:
  assumes "active_entry_of le a = Inr e"
  shows "CHR 0x00 \<notin> set (entry_contract e)"
proof -
  have "\<exists>c. validLedgerString (entry_contract e) c = Inr (entry_contract e)"
    using assms by (auto simp: active_entry_of_def entry_contract_def creationDescriptor_def
        bind_result_Inr_iff validation_def validLedgerString_def
        split: acs_entry.splits option.splits if_splits)
  then have "list_all (\<lambda>c. is_letter c \<or> is_digit c \<or> c \<in> set ''#:-_/ '') (entry_contract e)"
    by (auto simp: validLedgerString_def validation_def text_of_def split: if_splits)
  moreover have "\<not> (is_letter (CHR 0x00) \<or> is_digit (CHR 0x00) \<or> CHR 0x00 \<in> set ''#:-_/ '')"
    by (simp add: is_letter_def is_digit_def)
  ultimately show ?thesis by (auto simp: list_all_iff)
qed

lemma activation_key_inj:
  assumes "activation_key x = activation_key y" "CHR 0x00 \<notin> set (entry_contract x)"
    "CHR 0x00 \<notin> set (entry_contract y)"
  shows "entry_contract x = entry_contract y" "ae_synchronizerId x = ae_synchronizerId y"
proof -
  have eq: "entry_contract x @ [CHR 0x00] @ ae_synchronizerId x = entry_contract y @ [CHR 0x00] @ ae_synchronizerId y"
    using assms(1) by (simp add: activation_key_def entry_contract_def)
  have cut: "takeWhile (\<lambda>c. c \<noteq> CHR 0x00) (k @ [CHR 0x00] @ r) = k" if "CHR 0x00 \<notin> set k" for k r
    using that by (subst takeWhile_append2) auto
  show "entry_contract x = entry_contract y" using eq cut assms(2,3) by metis
  with eq show "ae_synchronizerId x = ae_synchronizerId y" by simp
qed

lemma check_activations_iff:
  "check_activations seen es = Inr () \<longleftrightarrow>
     distinct (map activation_key es) \<and> activation_key ` set es \<inter> set seen = {}"
  by (induction es arbitrary: seen) (auto simp: validation_def)

lemma active_entries_iff:
  "activeContractEntries le acs = Inr es \<longleftrightarrow>
     map_result (active_entry_of le) acs = Inr es \<and> distinct (map activation_key es)"
  by (auto simp: activeContractEntries_def bind_result_Inr_iff check_activations_iff)

lemma entry_origin:
  assumes "activeContractEntries le acs = Inr es" "e \<in> set es"
  obtains a where "a \<in> set acs" "active_entry_of le a = Inr e"
proof -
  have "list_all2 (\<lambda>a e. active_entry_of le a = Inr e) acs es"
    using assms(1) by (simp add: active_entries_iff map_result_Inr_iff)
  then have "\<exists>a \<in> set acs. active_entry_of le a = Inr e"
    using assms(2) by (induction rule: list_all2_induct) auto
  with that show ?thesis by blast
qed

definition acs_value :: "(string \<Rightarrow> string \<Rightarrow> bool) \<Rightarrow> acs_entry \<Rightarrow> active_entry" where
  "acs_value le a = ok_value (active_entry_of le a)"

lemma entries_patch:
  assumes es0: "activeContractEntries le acs0 = Inr es0" and esS: "activeContractEntries le acsS = Inr esS"
    and perm: "mset acs = mset (filter (keep_acs removes) acs0 @ acsS)"
    and disjoint: "entry_contract ` set esS \<inter> entry_contract ` set es0 = {}"
  obtains es where "activeContractEntries le acs = Inr es"
    "mset es = mset (filter (\<lambda>e. entry_contract e \<notin> set removes) es0 @ esS)" "one_activation_each es"
proof -
  note e0 = es0 [unfolded active_entries_iff] and eS = esS [unfolded active_entries_iff]
  let ?f = "acs_value le"
  have maps: "es0 = map ?f acs0" "esS = map ?f acsS"
    using e0 eS map_result_ok_value unfolding acs_value_def by blast+
  have ok: "active_entry_of le a = Inr (?f a)" if "a \<in> set acs0 \<union> set acsS" for a
    using that e0 eS map_result_ex_iff [of "active_entry_of le" acs0] map_result_ex_iff [of "active_entry_of le" acsS]
    unfolding acs_value_def by fastforce
  have set: "set acs \<subseteq> set acs0 \<union> set acsS"
    using arg_cong [OF perm, of set_mset] by auto
  have es: "map_result (active_entry_of le) acs = Inr (map ?f acs)"
    using ok set by (intro map_result_Inr) blast
  have kept: "filter (\<lambda>e. entry_contract e \<notin> set removes) es0 = map ?f (filter (keep_acs removes) acs0)"
    unfolding maps(1) filter_map comp_def
    by (intro arg_cong [of _ _ "map ?f"] filter_cong) (auto simp: keep_acs_def active_entry_contract [OF ok])
  have mset: "mset (map ?f acs) = mset (filter (\<lambda>e. entry_contract e \<notin> set removes) es0 @ esS)"
    unfolding kept maps(2) by (simp only: map_append [symmetric] mset_map perm)
  have nul: "CHR 0x00 \<notin> set (entry_contract e)" if "e \<in> set es0 \<union> set esS" for e
    using that ok entry_contract_valid by (auto simp: maps)
  have inj: "activation_key x = activation_key y \<Longrightarrow> entry_contract x = entry_contract y"
    if "x \<in> set es0 \<union> set esS" "y \<in> set es0 \<union> set esS" for x y
    using that activation_key_inj(1) nul by blast
  have apart: "activation_key ` set (filter (\<lambda>e. entry_contract e \<notin> set removes) es0)
      \<inter> activation_key ` set esS = {}"
  proof -
    have "activation_key x \<noteq> activation_key y" if "x \<in> set es0" "y \<in> set esS" for x y
      using that inj [of x y] disjoint by blast
    then show ?thesis by auto
  qed
  have "distinct (map activation_key (filter (\<lambda>e. entry_contract e \<notin> set removes) es0 @ esS))"
    unfolding map_append distinct_append set_map
    using e0 eS apart distinct_map_filter by blast
  then have distinct: "distinct (map activation_key (map ?f acs))"
    using mset by (metis mset_eq_imp_distinct_iff mset_map)
  have "one_activation_each (map ?f acs)"
    unfolding one_activation_each_def
  proof (rule inj_onI)
    fix x y
    assume xy: "x \<in> set (map ?f acs)" "y \<in> set (map ?f acs)"
      "(entry_contract x, ae_synchronizerId x) = (entry_contract y, ae_synchronizerId y)"
    then have "activation_key x = activation_key y" by (simp add: activation_key_def entry_contract_def)
    with xy(1,2) distinct show "x = y" unfolding distinct_map by (blast dest: inj_onD)
  qed
  moreover have "activeContractEntries le acs = Inr (map ?f acs)"
    using es distinct by (simp add: active_entries_iff)
  ultimately show ?thesis using mset that by blast
qed

section \<open>The patched snapshot\<close>

lemma total_creation: "total_preorder le \<Longrightarrow> total_preorder (creation_before le)"
  unfolding total_preorder_def creation_before_def by blast

lemma sort_creations:
  assumes "total_preorder le" "separates le (ci_contractId ` set cs)" "distinct (map ci_contractId cs)"
    and "mset xs = mset cs"
  shows "sort_by (creation_before le) xs = sort_by (creation_before le) cs"
proof (rule sort_by_perm [OF total_creation [OF assms(1)] assms(4)])
  fix c d
  assume "c \<in> set xs" "d \<in> set xs" "creation_before le c d" "creation_before le d c"
  moreover have "set xs = set cs" using assms(4) by (metis set_mset_mset)
  ultimately have cd: "c \<in> set cs" "d \<in> set cs" "le (ci_contractId c) (ci_contractId d)"
    "le (ci_contractId d) (ci_contractId c)" by (simp_all only: creation_before_def)
  then have "ci_contractId c = ci_contractId d" using assms(2) by (auto simp: separates_def)
  then show "c = d" using cd assms(3) by (auto simp: distinct_map dest: inj_onD)
qed

lemma map_row_keys:
  "sort_by (\<lambda>l r. le (cr_contractId l) (cr_contractId r)) (map row_of_creation cs)
     = map row_of_creation (sort_by (creation_before le) cs)"
  "sort_by (\<lambda>l r. le (cm_contractId l) (cm_contractId r)) (map metadata_of cs)
     = map metadata_of (sort_by (creation_before le) cs)"
  by (simp_all add: sort_by_map row_of_creation_def metadata_of_def creation_before_def [abs_def])

lemma filter_row_keys:
  "filter (\<lambda>row. cr_contractId row \<notin> R) (map row_of_creation cs)
     = map row_of_creation (filter (\<lambda>c. ci_contractId c \<notin> R) cs)"
  "filter (\<lambda>m. cm_contractId m \<notin> R) (map metadata_of cs)
     = map metadata_of (filter (\<lambda>c. ci_contractId c \<notin> R) cs)"
  by (simp_all add: filter_map comp_def row_of_creation_def metadata_of_def)

text \<open>The texts of an active set on which the order of the locale must be able to decide.\<close>

definition acs_texts :: "acs_entry list \<Rightarrow> string set" where
  "acs_texts acs = {t. \<exists>e s c. Active_Contract (Some e) s c \<in> set acs \<and> (t = ce_contractId e \<or> t = s)}"

lemma acs_texts_entries:
  assumes "activeContractEntries le acs = Inr es"
  shows "entry_contract ` set es \<subseteq> acs_texts acs" "synchronizers es \<subseteq> acs_texts acs"
proof -
  have "Active_Contract (Some (ae_event e)) (ae_synchronizerId e) (ae_reassignmentCounter e) \<in> set acs"
    if e: "e \<in> set es" for e
  proof -
    obtain a where "a \<in> set acs" "active_entry_of le a = Inr e"
      using entry_origin [OF assms e] .
    then show ?thesis
      by (auto simp: active_entry_of_def uint64_def bind_result_Inr_iff validation_def
          split: acs_entry.splits option.splits if_splits)
  qed
  then show "entry_contract ` set es \<subseteq> acs_texts acs" "synchronizers es \<subseteq> acs_texts acs"
    by (auto simp: acs_texts_def entry_contract_def synchronizers_def)
qed

lemma patch_is_download:
  assumes base: "mapGrpcQueryRelationFragment le [] acs0 = Inr f0"
      "cs_contracts b = rf_contracts f0" "cs_creationMetadata b = map metadata_of (rf_creationIdentities f0)"
    and survivors: "mapGrpcQueryRelationFragment le [] acsS = Inr fS"
    and perm: "mset acs = mset (filter (keep_acs removes) acs0 @ acsS)"
    and disjoint: "\<And>a a0 k. a \<in> set acsS \<Longrightarrow> a0 \<in> set acs0 \<Longrightarrow> acs_contract a = Some k \<Longrightarrow> acs_contract a0 \<noteq> Some k"
    and le: "total_preorder le" "separates le (acs_texts acs)"
  obtains f where "mapGrpcQueryRelationFragment le [] acs = Inr f"
    "sort_by (\<lambda>l r. le (cr_contractId l) (cr_contractId r))
       (filter (\<lambda>row. cr_contractId row \<notin> set removes) (cs_contracts b) @ rf_contracts fS) = rf_contracts f"
    "sort_by (\<lambda>l r. le (cm_contractId l) (cm_contractId r))
       (filter (\<lambda>m. cm_contractId m \<notin> set removes) (cs_creationMetadata b)
        @ map metadata_of (rf_creationIdentities fS)) = map metadata_of (rf_creationIdentities f)"
proof -
  from active_fragment [OF base(1)] obtain es0 cs0 where 0: "activeContractEntries le acs0 = Inr es0"
    "active_creations le es0 = Inr cs0" "\<forall>e \<in> set es0. entry_keys_ok e"
    "rf_creationIdentities f0 = sort_by (creation_before le) cs0"
    "rf_contracts f0 = map row_of_creation (sort_by (creation_before le) cs0)" by metis
  from active_fragment [OF survivors] obtain esS csS where S: "activeContractEntries le acsS = Inr esS"
    "active_creations le esS = Inr csS" "\<forall>e \<in> set esS. entry_keys_ok e"
    "rf_creationIdentities fS = sort_by (creation_before le) csS"
    "rf_contracts fS = map row_of_creation (sort_by (creation_before le) csS)" by metis
  have acs_of: "\<exists>a \<in> set xs. acs_contract a = Some (entry_contract e)"
    if xs: "activeContractEntries le xs = Inr es" "e \<in> set es" for xs es e
  proof -
    obtain a where "a \<in> set xs" "active_entry_of le a = Inr e" using entry_origin [OF xs] .
    then show ?thesis using active_entry_contract by blast
  qed
  have disj: "entry_contract ` set esS \<inter> entry_contract ` set es0 = {}"
    using disjoint acs_of [OF S(1)] acs_of [OF 0(1)] by fastforce
  obtain es where es: "activeContractEntries le acs = Inr es"
    "mset es = mset (filter (\<lambda>e. entry_contract e \<notin> set removes) es0 @ esS)" "one_activation_each es"
    using entries_patch [OF 0(1) S(1) perm disj] .
  have sep: "separates le (synchronizers es)" "separates le (entry_contract ` set es)"
    using le(2) acs_texts_entries [OF es(1)] separates_subset by blast+
  obtain cs where cs: "active_creations le es = Inr cs"
    "mset cs = mset (filter (\<lambda>c. ci_contractId c \<notin> set removes) cs0 @ csS)"
    using active_creations_patch [OF 0(2) S(2) disj es(2) le(1) sep(1) es(3)] .
  have "\<forall>e \<in> set es. entry_keys_ok e"
    using 0(3) S(3) arg_cong [OF es(2), of set_mset] by auto
  then obtain f where f: "mapGrpcQueryRelationFragment le [] acs = Inr f"
    using active_fragment_exists [OF es(1) cs(1)] by blast
  have f_rows: "rf_creationIdentities f = sort_by (creation_before le) cs"
    "rf_contracts f = map row_of_creation (sort_by (creation_before le) cs)"
    using active_fragment [OF f] es(1) cs(1) by (metis sum.inject(2))+
  let ?X = "filter (\<lambda>c. ci_contractId c \<notin> set removes) (sort_by (creation_before le) cs0)
      @ sort_by (creation_before le) csS"
  have "ci_contractId ` set cs \<subseteq> entry_contract ` set es"
    using active_creations_set(2) [OF cs(1)] creates_contract by (fastforce simp: group_creates_def)
  then have "sort_by (creation_before le) ?X = sort_by (creation_before le) cs"
    using active_creations_set(1) [OF cs(1)] sep(2)
    by (intro sort_creations le(1)) (auto simp: cs(2) intro: separates_subset)
  then show ?thesis
    using f f_rows by (intro that [of f])
      (simp_all only: base(2,3) 0(4,5) S(4,5) filter_row_keys map_append [symmetric] map_row_keys)
qed

end
