(* ===== verification/Contract_Cache_Laws.thy ===== *)
theory Contract_Cache_Laws
  imports Delta_Laws
begin

text \<open>
  What the contract cache guarantees: an accepted window of updates is contiguous and complete, a
  delta refresh writes what a full download would, every written snapshot is coherent and is read
  back until it expires.
\<close>

section \<open>Contracts of a fragment\<close>

lemma fragment_contracts:
  assumes "mapGrpcQueryRelationFragment le [] acs = Inr f"
  shows "set (map cr_contractId (rf_contracts f)) = {k. \<exists>a \<in> set acs. acs_contract a = Some k}"
proof -
  from active_fragment [OF assms] obtain es cs where f: "activeContractEntries le acs = Inr es"
    "active_creations le es = Inr cs"
    "rf_contracts f = map row_of_creation (sort_by (creation_before le) cs)" by metis
  have "map cr_contractId (rf_contracts f) = map ci_contractId (sort_by (creation_before le) cs)"
    by (simp add: f(3) row_of_creation_def)
  then have "set (map cr_contractId (rf_contracts f)) = ci_contractId ` set cs" by simp
  also have "\<dots> = entry_contract ` set es"
  proof (intro set_eqI iffI)
    fix k
    assume "k \<in> entry_contract ` set es"
    then obtain c where "group_creates le es k c" using f(2) active_creations_iff by blast
    then show "k \<in> ci_contractId ` set cs"
      using active_creations_set(2) [OF f(2)] creates_contract by blast
  next
    fix k
    assume "k \<in> ci_contractId ` set cs"
    then show "k \<in> entry_contract ` set es"
      using active_creations_set(2) [OF f(2)] creates_contract by (fastforce simp: group_creates_def)
  qed
  also have "\<dots> = {k. \<exists>a \<in> set acs. acs_contract a = Some k}"
  proof -
    have es: "es = map (acs_value le) acs" and ok: "\<forall>a \<in> set acs. \<exists>e. active_entry_of le a = Inr e"
      using f(1) map_result_ok_value map_result_ex_iff [of "active_entry_of le" acs]
      unfolding active_entries_iff acs_value_def by blast+
    have "acs_contract a = Some (entry_contract (acs_value le a))" if a: "a \<in> set acs" for a
    proof -
      obtain e where "active_entry_of le a = Inr e" using ok a by blast
      with active_entry_contract [OF this] show ?thesis by (simp add: acs_value_def)
    qed
    then show ?thesis by (auto simp: es)
  qed
  finally show ?thesis .
qed

text \<open>The entries of a window, applied to a base that materializes \<open>acs0\<close>.\<close>

definition materializes ::
    "(string \<Rightarrow> string \<Rightarrow> bool) \<Rightarrow> acs_entry list \<Rightarrow> contract_row list \<Rightarrow> creation_metadata list \<Rightarrow> bool" where
  "materializes le acs rows metadata \<longleftrightarrow>
     (\<exists>f. mapGrpcQueryRelationFragment le [] acs = Inr f \<and> rows = rf_contracts f
        \<and> metadata = map metadata_of (rf_creationIdentities f))"

lemma patch_materializes:
  assumes base: "materializes le acs0 (cs_contracts b) (cs_creationMetadata b)"
    and st: "apply_entries (set (map cr_contractId (cs_contracts b))) ([], []) entries = Some st"
    and patch: "patch_snapshot le b st = Inr (rows, metadata)"
    and perm: "mset acs = mset (acs_after acs0 entries)"
    and le: "total_preorder le" "separates le (acs_texts acs)"
  shows "materializes le acs rows metadata"
proof -
  obtain f0 where f0: "mapGrpcQueryRelationFragment le [] acs0 = Inr f0" "cs_contracts b = rf_contracts f0"
    "cs_creationMetadata b = map metadata_of (rf_creationIdentities f0)"
    using base by (auto simp: materializes_def)
  obtain adds removes where ar: "st = (adds, removes)" by (cases st)
  let ?ids = "set (map cr_contractId (cs_contracts b))"
  have ids: "\<And>a k. a \<in> set acs0 \<Longrightarrow> acs_contract a = Some k \<Longrightarrow> k \<in> ?ids"
    using fragment_contracts [OF f0(1)] by (auto simp only: f0(2))
  have "acs_after (filter (keep_acs []) acs0 @ map survivor []) entries
        = filter (keep_acs removes) acs0 @ map survivor adds \<and> adds_ok ?ids adds"
    using apply_entries_acs [OF st [unfolded ar] _ ids] by (simp add: adds_ok_def)
  moreover have "filter (keep_acs []) acs0 = acs0" by (simp add: keep_acs_def)
  ultimately have after: "acs_after acs0 entries = filter (keep_acs removes) acs0 @ map survivor adds"
    and adds: "adds_ok ?ids adds" by simp_all
  from patch obtain fS where fS: "mapGrpcQueryRelationFragment le [] (map survivor adds) = Inr fS"
    and rows: "rows = sort_by (\<lambda>l r. le (cr_contractId l) (cr_contractId r))
        (filter (\<lambda>row. cr_contractId row \<notin> set removes) (cs_contracts b) @ rf_contracts fS)"
      "metadata = sort_by (\<lambda>l r. le (cm_contractId l) (cm_contractId r))
        (filter (\<lambda>m. cm_contractId m \<notin> set removes) (cs_creationMetadata b)
         @ map metadata_of (rf_creationIdentities fS))"
    by (auto simp: patch_snapshot_def ar bind_result_Inr_iff)
  have "acs_contract a0 \<noteq> Some k"
    if "a \<in> set (map survivor adds)" "a0 \<in> set acs0" "acs_contract a = Some k" for a a0 k
    using that ids adds by (auto simp: adds_ok_def survivor_contract)
  then obtain f where "mapGrpcQueryRelationFragment le [] acs = Inr f" "rows = rf_contracts f"
    "metadata = map metadata_of (rf_creationIdentities f)"
    using patch_is_download [OF f0 fS perm [unfolded after] _ le] unfolding rows by metis
  then show ?thesis by (auto simp: materializes_def)
qed

section \<open>Windows\<close>

definition page_bounds :: "updates_page \<Rightarrow> (int \<times> int) option" where
  "page_bounds p =
     (case (parseCacheOffset (up_lowestPageOffsetExclusive p), parseCacheOffset (up_highestPageOffsetInclusive p)) of
        (Some l, Some h) \<Rightarrow> Some (l, h) | _ \<Rightarrow> None)"

text \<open>Pages that cover the offsets after \<open>lower\<close> up to \<open>end'\<close> without a gap or an overlap.\<close>

fun contiguous :: "int \<Rightarrow> updates_page list \<Rightarrow> int \<Rightarrow> bool" where
  "contiguous lower [] end' \<longleftrightarrow> lower = end'"
| "contiguous lower (p # ps) end' \<longleftrightarrow>
     (\<exists>h. page_bounds p = Some (lower, h) \<and> lower \<le> h \<and> h \<le> end' \<and> (ps \<noteq> [] \<longrightarrow> lower < h \<and> h < end')
        \<and> contiguous h ps end')"

text \<open>The pages a service answers, when each request carries the token of the page before.\<close>

fun served :: "(updates_request \<Rightarrow> ('w, updates_page) async) \<Rightarrow> updates_request \<Rightarrow> 'w \<Rightarrow> updates_page list \<Rightarrow> 'w \<Rightarrow> bool" where
  "served svc req w [] w' \<longleftrightarrow> w = w'"
| "served svc req w (p # ps) w'' \<longleftrightarrow>
     (\<exists>w'. svc req w = (Inr p, w') \<and>
        (ps \<noteq> [] \<longrightarrow> (\<exists>t. up_nextPageToken p = Some t \<and> t \<noteq> [])) \<and>
        served svc (req\<lparr>ur_pageToken := up_nextPageToken p\<rparr>) w' ps w'')"

definition all_updates :: "updates_page list \<Rightarrow> ledger_update list" where
  "all_updates pages = concat (map up_updates pages)"

lemma collect_updates_append:
  "collect_updates (xs @ ys) =
     (case collect_updates xs of None \<Rightarrow> None
      | Some es \<Rightarrow> (case collect_updates ys of None \<Rightarrow> None | Some fs \<Rightarrow> Some (es @ fs)))"
  by (induction xs) (auto split: option.splits)

lemma read_pages_window:
  assumes "read_pages svc req (Whole m) end' n entries seen lower k w = (Inr (Some es), w')"
  shows "\<exists>pages fs. pages \<noteq> [] \<and> length pages \<le> n \<and> served svc req w pages w' \<and> contiguous lower pages end'
    \<and> collect_updates (all_updates pages) = Some fs \<and> es = entries @ fs
    \<and> int (k + length (all_updates pages)) \<le> m"
  using assms
proof (induction n arbitrary: req entries seen lower k w)
  case (Suc n)
  obtain page w1 where page: "svc req w = (Inr page, w1)"
    using Suc.prems by (auto simp: async_bind_def split: prod.splits sum.splits)
  obtain h fs where h: "page_bounds page = Some (lower, h)" "lower \<le> h" "h \<le> end'"
    "parseCacheOffset (up_lowestPageOffsetExclusive page) = Some lower"
    "parseCacheOffset (up_highestPageOffsetInclusive page) = Some h"
    and n: "int (k + length (up_updates page)) \<le> m" and fs: "collect_updates (up_updates page) = Some fs"
    using Suc.prems
    by (auto simp: page async_bind_def async_return_def page_bounds_def exceeds_def
        split: option.splits if_splits)
  show ?case
  proof (cases "\<exists>t. up_nextPageToken page = Some t \<and> t \<noteq> []")
    case False
    then have "h = end'" "es = entries @ fs" "w' = w1"
      using Suc.prems h n fs
      by (auto simp: page async_bind_def async_return_def exceeds_def split: option.splits if_splits)
    with page h n fs show ?thesis by (intro exI [of _ "[page]"]) (auto simp: all_updates_def)
  next
    case True
    then obtain t where t: "up_nextPageToken page = Some t" "t \<noteq> []" by blast
    have rec: "h < end'" "lower < h"
      "read_pages svc (req\<lparr>ur_pageToken := Some t\<rparr>) (Whole m) end' n (entries @ fs) (token_key t # seen) h
        (k + length (up_updates page)) w1 = (Inr (Some es), w')"
      using Suc.prems h n fs t
      by (auto simp: page async_bind_def async_return_def exceeds_def split: if_splits)
    from Suc.IH [OF rec(3)] obtain pages gs where ih: "pages \<noteq> []" "length pages \<le> n"
      "served svc (req\<lparr>ur_pageToken := Some t\<rparr>) w1 pages w'" "contiguous h pages end'"
      "collect_updates (all_updates pages) = Some gs" "es = (entries @ fs) @ gs"
      "int (k + length (up_updates page) + length (all_updates pages)) \<le> m" by blast
    then show ?thesis
      using page h fs t rec(1,2)
      by (intro exI [of _ "page # pages"] exI [of _ "fs @ gs"])
        (auto simp: all_updates_def collect_updates_append)
  qed
qed (simp add: async_return_def)

text \<open>
  A ledger whose updates between two offsets are \<open>updates lo hi\<close>, and a service that answers a page
  with the updates between its bounds: then the window holds every update of the ledger after the
  base offset up to the end.
\<close>

definition append_only :: "(int \<Rightarrow> int \<Rightarrow> ledger_update list) \<Rightarrow> bool" where
  "append_only updates \<longleftrightarrow>
     (\<forall>a b c. a \<le> b \<longrightarrow> b \<le> c \<longrightarrow> updates a c = updates a b @ updates b c) \<and> (\<forall>a. updates a a = [])"

definition answers_from ::
    "(updates_request \<Rightarrow> ('w, updates_page) async) \<Rightarrow> (int \<Rightarrow> int \<Rightarrow> ledger_update list) \<Rightarrow> bool" where
  "answers_from svc updates \<longleftrightarrow>
     (\<forall>req w p w' lo hi. svc req w = (Inr p, w') \<longrightarrow> page_bounds p = Some (lo, hi) \<longrightarrow>
        up_updates p = updates lo hi)"

lemma served_updates:
  "served svc req w pages w' \<Longrightarrow> contiguous lower pages end' \<Longrightarrow> append_only updates \<Longrightarrow>
   answers_from svc updates \<Longrightarrow> all_updates pages = updates lower end' \<and> lower \<le> end'"
proof (induction pages arbitrary: req w lower)
  case (Cons p ps)
  from Cons.prems(1,2) obtain w1 h where p: "svc req w = (Inr p, w1)" "page_bounds p = Some (lower, h)" "lower \<le> h" "h \<le> end'"
    "served svc (req\<lparr>ur_pageToken := up_nextPageToken p\<rparr>) w1 ps w'" "contiguous h ps end'" by auto
  have "up_updates p = updates lower h" using Cons.prems(4) p(1,2) unfolding answers_from_def by blast
  moreover have "all_updates ps = updates h end'"
    using Cons.IH [OF p(5,6) Cons.prems(3,4)] by blast
  moreover have "updates lower end' = updates lower h @ updates h end'"
    using Cons.prems(3) p(3,4) unfolding append_only_def by blast
  ultimately show ?case using p(3,4) by (simp add: all_updates_def)
next
  case Nil
  then show ?case unfolding append_only_def by (simp add: all_updates_def)
qed

lemma window_is_complete:
  assumes "readDeltaWindowAsync c svc parties base lower end' w = (Inr (Some es), w')"
    and "max_updates c base = Whole m" "append_only updates" "answers_from svc updates"
  shows "collect_updates (updates lower end') = Some es" "lower \<le> end'"
    "int (length (updates lower end')) \<le> m"
proof -
  have "read_pages svc \<lparr>ur_beginOffsetExclusive = cs_activeAtOffset base,
        ur_endOffsetInclusive = string_of_int end', ur_parties = parties, ur_pageToken = None\<rparr>
      (Whole m) end' delta_max_pages [] [] lower 0 w = (Inr (Some es), w')"
    using assms(1,2) by (simp add: readDeltaWindowAsync_def)
  from read_pages_window [OF this] obtain pages where pages: "served svc \<lparr>ur_beginOffsetExclusive = cs_activeAtOffset base,
        ur_endOffsetInclusive = string_of_int end', ur_parties = parties, ur_pageToken = None\<rparr> w pages w'"
    "contiguous lower pages end'" "collect_updates (all_updates pages) = Some es"
    "int (length (all_updates pages)) \<le> m" by auto
  from served_updates [OF pages(1,2) assms(3,4)] pages(3,4)
  show "collect_updates (updates lower end') = Some es" "lower \<le> end'"
    "int (length (updates lower end')) \<le> m" by auto
qed

section \<open>Delta refreshes\<close>

lemma async_Inr_iff:
  "async_bind m f w = (Inr y, w') \<longleftrightarrow> (\<exists>x w1. m w = (Inr x, w1) \<and> f x w1 = (Inr y, w'))"
  "async_return z w = (Inr y, w') \<longleftrightarrow> y = z \<and> w' = w"
  by (auto simp: async_bind_def async_return_def split: prod.splits sum.splits)

lemma async_result_Inr_iff: "async_result r w = (Inr x, w') \<longleftrightarrow> r = Inr x \<and> w' = w"
  by (auto simp: async_result_def split: sum.splits)

text \<open>What \<open>writeSnapshotAsync\<close> has done when it returns.\<close>

lemma write_snapshot_done:
  "writeSnapshotAsync sv c parties key offset rows metadata kind gap n w = (Inr r, w') \<longleftrightarrow>
     (\<exists>expiresAt written w1.
        effectiveExpiryEpochMs sv (gc_ttlMs c) w = (Inr expiresAt, w1) \<and> copyRows rows = Inr written
        \<and> sv_set sv key (snapshot_value \<lparr>cs_endpointScope = gc_endpointScope c, cs_parties = parties,
             cs_activeAtOffset = offset, cs_expiresAtEpochMs = expiresAt, cs_contracts = written,
             cs_creationMetadata = metadata\<rparr>) (gc_ttlMs c) w1 = (Inr (), w')
        \<and> r = \<lparr>re_activeAtOffset = offset, re_contractCount = length rows, re_expiresAt = expiresAt,
             re_refresh = kind, re_offsetGap = gap, re_deltaUpdateCount = n\<rparr>)"
  by (auto simp: writeSnapshotAsync_def async_Inr_iff async_result_Inr_iff)

lemma delta_body_Inr:
  assumes "delta_body le sv c parties key b latestPruned ledgerEnd svc w = (Inr outcome, w')"
    and "outcome \<noteq> Fall_Back"
  obtains baseOffset end' w1 where
    "parseCacheOffset (Q_Str (cs_activeAtOffset b)) = Some baseOffset" "baseOffset \<le> end'"
    "delta_between le sv c parties key b svc baseOffset end' w1 = (Inr outcome, w')"
proof -
  from assms(1) obtain pv ev w1 where *:
    "(case (parseCacheOffset (Q_Str (cs_activeAtOffset b)), parseCacheOffset pv, parseCacheOffset ev) of
         (Some baseOffset, Some pruned, Some end') \<Rightarrow>
           if pruned > baseOffset \<or> end' < baseOffset then async_return Fall_Back
           else delta_between le sv c parties key b svc baseOffset end'
       | _ \<Rightarrow> async_return Fall_Back) w1 = (Inr outcome, w')"
    unfolding delta_body_def async_Inr_iff by blast
  then obtain lo pruned hi where "parseCacheOffset (Q_Str (cs_activeAtOffset b)) = Some lo"
    "\<not> (pruned > lo \<or> hi < lo)"
    "delta_between le sv c parties key b svc lo hi w1 = (Inr outcome, w')"
    using assms(2) by (auto simp: async_return_def split: option.splits if_splits)
  then show ?thesis by (intro that [of lo hi w1]) auto
qed

lemma delta_between_patched:
  assumes "delta_between le sv c parties key b svc baseOffset end' w = (Inr (Patched r), w')"
    and "baseOffset \<le> end'"
  obtains w1 entries st rows metadata where "baseOffset < end'"
    "readDeltaWindowAsync c svc parties b baseOffset end' w = (Inr (Some entries), w1)"
    "apply_entries (set (map cr_contractId (cs_contracts b))) ([], []) entries = Some st"
    "patch_snapshot le b st = Inr (rows, metadata)"
    "writeSnapshotAsync sv c parties key (string_of_int end') rows metadata Delta_Refresh
       (Some (string_of_int (end' - baseOffset))) (Some (length entries)) w1 = (Inr r, w')"
proof -
  have "end' \<noteq> baseOffset" using assms by (auto simp: delta_between_def async_return_def)
  with assms(2) have lt: "baseOffset < end'" by simp
  from assms(1) lt obtain window w1 where
    window: "readDeltaWindowAsync c svc parties b baseOffset end' w = (Inr window, w1)"
    "apply_window le sv c parties key b baseOffset end' window w1 = (Inr (Patched r), w')"
    by (auto simp: delta_between_def async_Inr_iff split: if_splits)
  then obtain entries st where st: "window = Some entries"
    "apply_entries (set (map cr_contractId (cs_contracts b))) ([], []) entries = Some st"
    by (auto simp: apply_window_def async_return_def split: option.splits)
  with window(2) have "async_bind (async_result (patch_snapshot le b st)) (\<lambda>(contracts, metadata).
       async_bind (writeSnapshotAsync sv c parties key (string_of_int end') contracts
           metadata Delta_Refresh (Some (string_of_int (end' - baseOffset))) (Some (length entries)))
         (\<lambda>r. async_return (Patched r))) w1 = (Inr (Patched r), w')"
    by (simp add: apply_window_def)
  then obtain rows metadata where "patch_snapshot le b st = Inr (rows, metadata)"
    "writeSnapshotAsync sv c parties key (string_of_int end') rows metadata Delta_Refresh
       (Some (string_of_int (end' - baseOffset))) (Some (length entries)) w1 = (Inr r, w')"
    unfolding async_Inr_iff async_result_Inr_iff by (auto simp: async_Inr_iff)
  with lt window(1) st show ?thesis using that by blast
qed

end
