(* ===== verification/Snapshot_Laws.thy ===== *)
theory Snapshot_Laws
  imports Contract_Cache_Laws
begin

text \<open>
  Reading back what the cache wrote: a snapshot object decodes to the snapshot it was made from,
  and only complete and coherent snapshots are ever accepted.
\<close>

section \<open>Well-formed snapshots\<close>

definition row_ok :: "contract_row \<Rightarrow> bool" where
  "row_ok r \<longleftrightarrow>
     copyValue (cr_payload r) = Inr (cr_payload r) \<and> cr_archivedEventOffset r = None
     \<and> cr_archivedAt r = None \<and> cr_active r"

definition snapshot_ok :: "cached_snapshot \<Rightarrow> bool" where
  "snapshot_ok s \<longleftrightarrow>
     isCanonicalGrpcOffset (Q_Str (cs_activeAtOffset s)) \<and> valid_instant (cs_expiresAtEpochMs s)
     \<and> (\<forall>r \<in> set (cs_contracts s). row_ok r)
     \<and> coherent (cs_creationMetadata s) (cs_contracts s)
     \<and> (\<forall>m \<in> set (cs_creationMetadata s). cm_packageName m \<noteq> [])"

section \<open>Encoding and decoding\<close>

lemma q_get_simps [simp]:
  "q_get ((k, v) # ps) j = (if j = k then v else q_get ps j)"
  "q_get [] j = Q_Undef"
  by (simp_all add: q_get_def)

lemma nullable_decode [simp]:
  "nullable_text (nullable_value Q_Str x) = Some x"
  "materializeOptionalDate (nullable_value (\<lambda>n. Q_Date (Whole n)) d) = Some d"
  by (cases x; cases d; simp add: nullable_value_def nullable_text_def materializeOptionalDate_def)+

lemma all_values_map [simp]: "all_values (map (\<lambda>x. Some (f x)) xs) = Some (map f xs)"
  by (induction xs) simp_all

lemma strings_decode [simp]: "materializeStringArray (Q_Arr (map Q_Str ss)) = Some ss"
  using all_values_map [of "\<lambda>s. s" ss]
  by (simp add: materializeStringArray_def materializeIndexedArray_def string_of_value_def comp_def)

lemma value_decode [simp]:
  "string_of_value (Q_Str t) = Some t" "number_of_value (Q_Num n) = Some n"
  by (simp_all add: string_of_value_def number_of_value_def)

lemma template_decode [simp]: "materializeTemplateId (template_value t) = Some t"
  by (simp add: materializeTemplateId_def template_value_def q_properties_def)

lemma row_decode:
  assumes "row_ok r" shows "materializeContractRow (row_value r) = Inr (Some r)"
proof -
  have "copyValue (cr_payload r) = Inr (cr_payload r)" "nullable_value Q_Str (cr_archivedEventOffset r) = Q_Null"
    "nullable_value (\<lambda>n. Q_Date (Whole n)) (cr_archivedAt r) = Q_Null" "cr_active r"
    using assms by (simp_all add: row_ok_def nullable_value_def)
  with assms show ?thesis
    by (simp add: materializeContractRow_def row_value_def q_is_object_def q_properties_def Let_def row_ok_def)
qed

lemma metadata_decode:
  "cm_packageName m \<noteq> [] \<Longrightarrow> materializeCreationMetadataEntry (metadata_value m) = Some m"
  by (simp add: materializeCreationMetadataEntry_def metadata_value_def q_is_object_def q_properties_def Let_def)

lemma rows_decode:
  assumes "\<forall>r \<in> set rows. row_ok r"
  shows "materializeContractRows (Q_Arr (map row_value rows)) = Inr (Some rows)"
proof -
  have "map_result materializeContractRow (map row_value rows) = Inr (map Some rows)"
    using assms by (induction rows) (simp_all add: row_decode)
  moreover have "all_values (map Some rows) = Some rows" by (induction rows) simp_all
  ultimately show ?thesis by (simp add: materializeContractRows_def materializeIndexedArray_def)
qed

lemma metadata_list_decode:
  assumes "\<forall>m \<in> set ms. cm_packageName m \<noteq> []" "coherent ms rows"
  shows "materializeCreationMetadata (Q_Arr (map metadata_value ms)) (Some rows) = Some ms"
proof -
  have "all_values (map materializeCreationMetadataEntry (map metadata_value ms)) = Some ms"
    using assms(1) by (induction ms) (simp_all add: metadata_decode)
  with assms(2) show ?thesis
    by (simp add: materializeCreationMetadata_def materializeIndexedArray_def)
qed

lemma snapshot_decode:
  assumes "snapshot_ok s"
  shows "asCompatibleSnapshot (snapshot_value s) (cs_endpointScope s) (cs_parties s) n ignoreExpiry =
    (if valid_instant n \<and> (ignoreExpiry \<or> \<not> expired (cs_expiresAtEpochMs s) n) then Some s else None)"
proof -
  let ?field = "q_get (q_properties (snapshot_value s))"
  have fields: "?field ''version'' = Q_Num (Whole 3)" "?field ''endpointScope'' = Q_Str (cs_endpointScope s)"
    "?field ''parties'' = (case cs_parties s of None \<Rightarrow> Q_Undef | Some ps \<Rightarrow> Q_Arr (map Q_Str ps))"
    "?field ''activeAtOffset'' = Q_Str (cs_activeAtOffset s)"
    "?field ''expiresAtEpochMs'' = Q_Num (cs_expiresAtEpochMs s)"
    "?field ''contracts'' = Q_Arr (map row_value (cs_contracts s))"
    "?field ''creationMetadata'' = Q_Arr (map metadata_value (cs_creationMetadata s))"
    by (simp_all add: snapshot_value_def q_properties_def)
  have decoded: "materializeContractRows (?field ''contracts'') = Inr (Some (cs_contracts s))"
    "materializeCreationMetadata (?field ''creationMetadata'') (Some (cs_contracts s)) = Some (cs_creationMetadata s)"
    using assms unfolding fields snapshot_ok_def by (simp_all add: rows_decode metadata_list_decode)
  have object: "q_is_object (snapshot_value s)" by (simp add: snapshot_value_def q_is_object_def)
  have parties: "(if ?field ''parties'' = Q_Undef then None else materializeStringArray (?field ''parties''))
      = cs_parties s" unfolding fields by (cases "cs_parties s") simp_all
  have defined: "\<not> (?field ''parties'' \<noteq> Q_Undef \<and> cs_parties s = None)"
    unfolding fields by (cases "cs_parties s") simp_all
  show ?thesis
    unfolding asCompatibleSnapshot_def Let_def decoded parties
    using assms object defined
    by (auto simp: fields(1,2,4,5) decoded(2) snapshot_ok_def sameParties_def)
qed

text \<open>Conversely, only such snapshots are accepted.\<close>

lemma copy_value_idem: "copyValue v = Inr w \<Longrightarrow> copyValue w = Inr w"
  using copy_value_same [of v w] by simp

lemma row_decode_ok: "materializeContractRow v = Inr (Some r) \<Longrightarrow> row_ok r"
  by (auto simp: materializeContractRow_def row_ok_def bind_result_Inr_iff Let_def bind_eq_Some_conv
      split: if_splits intro: copy_value_idem)

lemma all_values_set: "all_values xs = Some ys \<Longrightarrow> y \<in> set ys \<longleftrightarrow> Some y \<in> set xs"
  by (induction xs arbitrary: ys) (auto split: option.splits)

lemma rows_decode_ok:
  assumes "materializeContractRows v = Inr (Some rows)" "r \<in> set rows"
  shows "row_ok r"
proof -
  obtain vs os where vs: "map_result materializeContractRow vs = Inr os" "all_values os = Some rows"
    using assms(1) by (auto simp: materializeContractRows_def bind_result_Inr_iff split: option.splits)
  then have "Some r \<in> set os" using assms(2) all_values_set by metis
  moreover have "os = map (\<lambda>v. ok_value (materializeContractRow v)) vs" by (rule map_result_ok_value [OF vs(1)])
  ultimately obtain v where "v \<in> set vs" "ok_value (materializeContractRow v) = Some r" by auto
  moreover obtain o' where "materializeContractRow v = Inr o'"
    using vs(1) map_result_ex_iff [of materializeContractRow vs] calculation(1) by blast
  ultimately show ?thesis using row_decode_ok by simp
qed

lemma metadata_decode_ok:
  assumes "materializeCreationMetadata v (Some rows) = Some ms"
  shows "coherent ms rows" "m \<in> set ms \<Longrightarrow> cm_packageName m \<noteq> []"
proof -
  obtain vs where vs: "all_values (map materializeCreationMetadataEntry vs) = Some ms" "coherent ms rows"
    using assms by (auto simp: materializeCreationMetadata_def split: option.splits if_splits)
  then show "coherent ms rows" by simp
  assume "m \<in> set ms"
  then have "Some m \<in> materializeCreationMetadataEntry ` set vs" using all_values_set [OF vs(1), of m] by simp
  then show "cm_packageName m \<noteq> []"
    by (auto simp: materializeCreationMetadataEntry_def Let_def bind_eq_Some_conv eq_commute [of "Some m"]
        split: if_splits)
qed

lemma compatible_ok:
  assumes "asCompatibleSnapshot v scope parties n ignoreExpiry = Some s"
  shows "snapshot_ok s \<and> cs_endpointScope s = scope \<and> cs_parties s = parties
    \<and> valid_instant n \<and> (ignoreExpiry \<or> \<not> expired (cs_expiresAtEpochMs s) n)"
proof -
  let ?field = "q_get (q_properties v)"
  obtain rows where rows: "materializeContractRows (?field ''contracts'') = Inr (Some rows)"
    "cs_contracts s = rows"
    and ms: "materializeCreationMetadata (?field ''creationMetadata'') (Some rows) = Some (cs_creationMetadata s)"
    and rest: "isCanonicalGrpcOffset (Q_Str (cs_activeAtOffset s))" "valid_instant (cs_expiresAtEpochMs s)"
    "cs_endpointScope s = scope" "cs_parties s = parties" "valid_instant n"
    "ignoreExpiry \<or> \<not> expired (cs_expiresAtEpochMs s) n"
    using assms
    by (auto simp: asCompatibleSnapshot_def Let_def sameParties_def bind_eq_Some_conv
        split: if_splits sum.splits)
  with metadata_decode_ok [OF ms] rows_decode_ok [OF rows(1)] show ?thesis
    by (auto simp: snapshot_ok_def)
qed

end
