(* ===== verification/Memory_Cache.thy ===== *)
theory Memory_Cache
  imports Snapshot_Laws
begin

text \<open>
  The stores behind the contract cache: the contract of
  \<^verbatim>\<open>src/src/query/cache/query-cache-store.ts\<close> as a locale, what the cache does over any store
  that honours it, and \<^verbatim>\<open>src/src/query/cache/memory-query-cache.ts\<close>, which honours it.
\<close>

section \<open>The memory cache\<close>

record memory_entry =
  me_expiresAt :: js_num
  me_value :: qvalue

text \<open>The world of a memory cache: its entries and the time its clock tells.\<close>

record memory_world =
  mw_entries :: "string \<rightharpoonup> memory_entry"
  mw_now :: js_num

definition memory_get :: "string \<Rightarrow> (memory_world, qvalue) async" where
  "memory_get key w =
     (case mw_entries w key of
        None \<Rightarrow> (Inr Q_Undef, w)
      | Some entry \<Rightarrow>
          if expired (me_expiresAt entry) (mw_now w) then
            (Inr Q_Undef, w\<lparr>mw_entries := (mw_entries w)(key := None)\<rparr>)
          else (Inr (me_value entry), w))"

definition memory_set :: "string \<Rightarrow> qvalue \<Rightarrow> js_num \<Rightarrow> (memory_world, unit) async" where
  "memory_set key value ttlMs w =
     (Inr (), w\<lparr>mw_entries := (mw_entries w)
        (key \<mapsto> \<lparr>me_expiresAt = js_plus (mw_now w) ttlMs, me_value = value\<rparr>)\<rparr>)"

definition memory_delete :: "string \<Rightarrow> (memory_world, unit) async" where
  "memory_delete key w = (Inr (), w\<lparr>mw_entries := (mw_entries w)(key := None)\<rparr>)"

definition memory_clock :: "(memory_world, js_num) async" where
  "memory_clock w = (Inr (mw_now w), w)"

text \<open>What a reader finds at the time of the world.\<close>

definition memory_holds :: "memory_world \<Rightarrow> string \<rightharpoonup> qvalue" where
  "memory_holds w key =
     (case mw_entries w key of
        None \<Rightarrow> None
      | Some entry \<Rightarrow> if expired (me_expiresAt entry) (mw_now w) then None else Some (me_value entry))"

definition memory_elapse :: "int \<Rightarrow> memory_world \<Rightarrow> memory_world" where
  "memory_elapse t w = w\<lparr>mw_now := Whole t\<rparr>"

section \<open>Stores\<close>

lemma undefined_incompatible: "asCompatibleSnapshot Q_Undef scope parties n ignoreExpiry = None"
  by (simp add: asCompatibleSnapshot_def q_is_object_def)

text \<open>
  A store with expiry. \<open>holds\<close> is its content at the time of the world, \<open>elapse t\<close> sets the time.
\<close>

locale cache_store =
  fixes getAsync :: "string \<Rightarrow> ('w, qvalue) async"
    and setAsync :: "string \<Rightarrow> qvalue \<Rightarrow> js_num \<Rightarrow> ('w, unit) async"
    and deleteAsync :: "string \<Rightarrow> ('w, unit) async"
    and clock :: "('w, js_num) async"
    and holds :: "'w \<Rightarrow> string \<rightharpoonup> qvalue"
    and time :: "'w \<Rightarrow> js_num"
    and elapse :: "int \<Rightarrow> 'w \<Rightarrow> 'w"
  assumes clock_reads: "clock w = (Inr (time w), w)"
    and get_reads: "\<exists>w'. getAsync key w = (Inr (case holds w key of None \<Rightarrow> Q_Undef | Some v \<Rightarrow> v), w')
          \<and> holds w' = holds w \<and> time w' = time w"
    and set_writes: "time w = Whole t \<Longrightarrow> 0 < ttl \<Longrightarrow>
        \<exists>w'. setAsync key v (Whole ttl) w = (Inr (), w') \<and> holds w' = (holds w)(key \<mapsto> v)
          \<and> time w' = time w
          \<and> (\<forall>t' \<ge> t. holds (elapse t' w') key = (if t' < t + ttl then Some v else None))"
    and delete_removes: "\<exists>w'. deleteAsync key w = (Inr (), w') \<and> holds w' = (holds w)(key := None)
          \<and> time w' = time w"
    and elapse_time: "time (elapse t w) = Whole t"
begin

lemma get_then:
  obtains w' where "getAsync key w = (Inr (case holds w key of None \<Rightarrow> Q_Undef | Some v \<Rightarrow> v), w')"
    "holds w' = holds w" "time w' = time w"
  using get_reads by blast

lemma get_twice:
  assumes "getAsync key w = (r, w')" shows "fst (getAsync key w') = r"
proof -
  obtain w1 where "getAsync key w = (Inr (case holds w key of None \<Rightarrow> Q_Undef | Some v \<Rightarrow> v), w1)"
    "holds w1 = holds w" using get_then by metis
  moreover obtain w2 where "getAsync key w1 = (Inr (case holds w1 key of None \<Rightarrow> Q_Undef | Some v \<Rightarrow> v), w2)"
    using get_then by metis
  ultimately show ?thesis using assms by auto
qed

text \<open>A snapshot written at time \<open>t\<close> is read back, whole, until it expires, and then never again.\<close>

lemma set_then_read:
  assumes sv: "sv_get sv = getAsync" "sv_now sv = clock"
    and set: "setAsync key (snapshot_value s) (Whole ttl) w = (Inr (), w')"
    and t: "time w = Whole t" "0 < ttl" "cs_expiresAtEpochMs s = Whole (t + ttl)"
    and s: "snapshot_ok s" "cs_endpointScope s = gc_endpointScope c" "cs_parties s = parties"
    and t': "t \<le> t'" "valid_instant (Whole t')"
  shows "fst (readBase sv c parties key ignoreExpiry (elapse t' w')) = Inr (if t' < t + ttl then Some s else None)"
proof -
  have held: "holds (elapse t' w') key = (if t' < t + ttl then Some (snapshot_value s) else None)"
    using set_writes [OF t(1,2), of key "snapshot_value s"] set t'(1) by auto
  obtain w2 where get: "getAsync key (elapse t' w')
      = (Inr (if t' < t + ttl then snapshot_value s else Q_Undef), w2)" "time w2 = Whole t'"
    by (rule get_then [of key "elapse t' w'"]) (auto simp: held elapse_time)
  have "currentEpochMs sv w2 = (Inr (Whole t'), w2)"
    using get(2) t'(2) clock_reads [of w2]
    by (simp add: currentEpochMs_def sv async_bind_def async_catch_def async_return_def)
  then have "fst (readBase sv c parties key ignoreExpiry (elapse t' w'))
      = Inr (asCompatibleSnapshot (if t' < t + ttl then snapshot_value s else Q_Undef)
          (cs_endpointScope s) (cs_parties s) (Whole t') ignoreExpiry)"
    by (simp add: readBase_def sv get(1) async_bind_def async_return_def s)
  also have "\<dots> = Inr (if t' < t + ttl then Some s else None)"
    using t' t(3) by (simp add: snapshot_decode [OF s(1)] expired_def undefined_incompatible)
  finally show ?thesis .
qed

end

interpretation memory: cache_store memory_get memory_set memory_delete memory_clock memory_holds
    mw_now memory_elapse
proof
  fix w :: memory_world and key :: string and v :: qvalue and t ttl :: int
  show "memory_clock w = (Inr (mw_now w), w)" by (simp add: memory_clock_def)
  show "\<exists>w'. memory_get key w = (Inr (case memory_holds w key of None \<Rightarrow> Q_Undef | Some v \<Rightarrow> v), w')
      \<and> memory_holds w' = memory_holds w \<and> mw_now w' = mw_now w"
    by (auto simp: memory_get_def memory_holds_def fun_eq_iff split: option.splits)
  show "\<exists>w'. memory_delete key w = (Inr (), w') \<and> memory_holds w' = (memory_holds w)(key := None)
      \<and> mw_now w' = mw_now w"
    by (auto simp: memory_delete_def memory_holds_def fun_eq_iff split: option.split)
  show "mw_now (memory_elapse t w) = Whole t" by (simp add: memory_elapse_def)
  assume "mw_now w = Whole t" "0 < ttl"
  then show "\<exists>w'. memory_set key v (Whole ttl) w = (Inr (), w')
      \<and> memory_holds w' = (memory_holds w)(key \<mapsto> v) \<and> mw_now w' = mw_now w
      \<and> (\<forall>t' \<ge> t. memory_holds (memory_elapse t' w') key = (if t' < t + ttl then Some v else None))"
    by (auto simp: memory_set_def memory_holds_def memory_elapse_def fun_eq_iff js_plus_def expired_def
        split: option.split)
qed

end
