(* ===== verification/Cache_Invariant.thy ===== *)
theory Cache_Invariant
  imports Memory_Cache
begin

text \<open>
  The invariant of stored snapshots: one metadata entry and one row per contract, plain payloads and
  package names. Downloads establish it, patches keep it, and so every snapshot the contract cache
  writes is one it accepts when it reads it back.
\<close>

section \<open>Rows and metadata that belong together\<close>

definition rows_wf :: "contract_row list \<Rightarrow> creation_metadata list \<Rightarrow> bool" where
  "rows_wf rows metadata \<longleftrightarrow>
     (\<forall>r \<in> set rows. row_ok r) \<and> (\<forall>m \<in> set metadata. cm_packageName m \<noteq> [])
     \<and> distinct (map cr_contractId rows) \<and> distinct (map cm_contractId metadata)
     \<and> set (map cr_contractId rows) = set (map cm_contractId metadata)"

lemma wf_coherent: "rows_wf rows metadata \<Longrightarrow> coherent metadata rows"
proof -
  assume wf: "rows_wf rows metadata"
  then have "length rows = card (set (map cr_contractId rows))"
    unfolding rows_wf_def by (metis distinct_card length_map)
  moreover have "card (set (map cm_contractId metadata)) = length metadata"
    using wf unfolding rows_wf_def by (metis distinct_card length_map)
  ultimately show ?thesis using wf by (auto simp: coherent_def rows_wf_def)
qed

lemma coherent_wf:
  assumes "coherent metadata rows" "distinct (map cr_contractId rows)"
    and "\<forall>r \<in> set rows. row_ok r" "\<forall>m \<in> set metadata. cm_packageName m \<noteq> []"
  shows "rows_wf rows metadata"
proof -
  let ?rs = "set (map cr_contractId rows)" and ?ms = "set (map cm_contractId metadata)"
  have sub: "?rs \<subseteq> ?ms" and card: "card ?ms = length metadata" "length metadata = length rows"
    using assms(1) by (auto simp: coherent_def)
  have "card ?rs = length rows" using assms(2) distinct_card by fastforce
  with sub card have "?rs = ?ms" by (intro card_subset_eq) simp_all
  moreover have "distinct (map cm_contractId metadata)" using card(1) by (intro card_distinct) simp
  ultimately show ?thesis using assms by (simp add: rows_wf_def)
qed

lemma wf_snapshot_ok:
  assumes "rows_wf (cs_contracts s) (cs_creationMetadata s)"
    and "isCanonicalGrpcOffset (Q_Str (cs_activeAtOffset s))" "valid_instant (cs_expiresAtEpochMs s)"
  shows "snapshot_ok s"
  using assms wf_coherent by (simp add: snapshot_ok_def rows_wf_def)

section \<open>Downloads and patches\<close>

lemma creation_fields:
  assumes "creationDescriptor le e off = Inr c"
  shows "ci_packageName c \<noteq> []" "plain_data (ci_payload c)"
proof -
  obtain a where "mapGrpcQueryValue le (LV_Record a) = Inr (ci_payload c)" "ci_packageName c \<noteq> []"
    using assms by (auto simp: creationDescriptor_def bind_result_Inr_iff validation_def
        split: if_splits option.splits)
  then show "ci_packageName c \<noteq> []" "plain_data (ci_payload c)"
    using mapped_plain(1) unfolding mapGrpcQueryValue_mapValue by blast+
qed

lemma group_creation_fields:
  assumes "group_creation le k es = Inr c"
  shows "ci_packageName c \<noteq> [] \<and> row_ok (row_of_creation c)"
proof -
  obtain d where "entry_creation le (hd (sort_by (activation_before le) es)) = Inr d"
    "ci_packageName c = ci_packageName d" "ci_payload c = ci_payload d"
    using assms by (auto simp: group_creation_def bind_result_Inr_iff validation_def split: if_splits)
  moreover from this(1) have "ci_packageName d \<noteq> []" "plain_data (ci_payload d)"
    using creation_fields unfolding entry_creation_def by blast+
  ultimately show ?thesis by (simp add: row_ok_def row_of_creation_def copy_plain)
qed

lemma fragment_wf:
  assumes "mapGrpcQueryRelationFragment le [] acs = Inr f"
  shows "rows_wf (rf_contracts f) (map metadata_of (rf_creationIdentities f))"
proof -
  from active_fragment [OF assms] obtain es cs where cs: "active_creations le es = Inr cs"
    "rf_creationIdentities f = sort_by (creation_before le) cs"
    "rf_contracts f = map row_of_creation (sort_by (creation_before le) cs)" by metis
  have fields: "ci_packageName c \<noteq> [] \<and> row_ok (row_of_creation c)" if c: "c \<in> set cs" for c
  proof -
    obtain k where "group_creates le es k c" using active_creations_set(2) [OF cs(1)] c by blast
    then show ?thesis using group_creation_fields unfolding group_creates_def by blast
  qed
  have ids: "cr_contractId \<circ> row_of_creation = ci_contractId" "cm_contractId \<circ> metadata_of = ci_contractId"
    by (simp_all add: fun_eq_iff row_of_creation_def metadata_of_def)
  show ?thesis
    using fields active_creations_set(1) [OF cs(1)]
    by (auto simp: rows_wf_def cs(2,3) ids metadata_of_def image_image row_of_creation_def)
qed

lemma filter_keys:
  "set (map f (filter (\<lambda>x. f x \<notin> R) xs)) = set (map f xs) - R"
  "distinct (map f xs) \<Longrightarrow> distinct (map f (filter (\<lambda>x. f x \<notin> R) xs))"
  by (auto simp: distinct_map_filter)

lemma rows_wf_patch:
  assumes "rows_wf rows ms" "rows_wf rows' ms'" "set (map cr_contractId rows') \<inter> set (map cr_contractId rows) = {}"
  shows "rows_wf (sort_by before (filter (\<lambda>r. cr_contractId r \<notin> R) rows @ rows'))
    (sort_by before' (filter (\<lambda>m. cm_contractId m \<notin> R) ms @ ms'))"
proof -
  let ?rs = "filter (\<lambda>r. cr_contractId r \<notin> R) rows" and ?ms = "filter (\<lambda>m. cm_contractId m \<notin> R) ms"
  have ids: "set (map cr_contractId ?rs) = set (map cr_contractId rows) - R"
    "set (map cm_contractId ?ms) = set (map cr_contractId rows) - R"
    "set (map cm_contractId ms') = set (map cr_contractId rows')"
    using assms(1,2) unfolding filter_keys(1) by (simp_all add: rows_wf_def)
  have "distinct (map cr_contractId ?rs)" "distinct (map cm_contractId ?ms)"
    using assms(1) filter_keys(2) unfolding rows_wf_def by blast+
  with assms ids have "distinct (map cr_contractId (?rs @ rows'))" "distinct (map cm_contractId (?ms @ ms'))"
    "set (map cr_contractId (?rs @ rows')) = set (map cm_contractId (?ms @ ms'))"
    unfolding map_append distinct_append set_append rows_wf_def by blast+
  moreover have "\<forall>r \<in> set (?rs @ rows'). row_ok r" "\<forall>m \<in> set (?ms @ ms'). cm_packageName m \<noteq> []"
    using assms(1,2) by (auto simp: rows_wf_def)
  ultimately show ?thesis
    unfolding rows_wf_def distinct_map_sort_by set_map set_sort_by by blast
qed

lemma patch_wf:
  assumes base: "rows_wf (cs_contracts b) (cs_creationMetadata b)"
    and st: "apply_entries (set (map cr_contractId (cs_contracts b))) ([], []) entries = Some st"
    and patch: "patch_snapshot le b st = Inr (rows, metadata)"
  shows "rows_wf rows metadata"
proof -
  obtain adds removes where ar: "st = (adds, removes)" by (cases st)
  let ?ids = "set (map cr_contractId (cs_contracts b))"
  have adds: "adds_ok ?ids adds"
    using apply_entries_acs [OF st [unfolded ar], of "[]"] by (simp add: adds_ok_def)
  from patch obtain f where f: "mapGrpcQueryRelationFragment le [] (map survivor adds) = Inr f"
    and rows: "rows = sort_by (\<lambda>l r. le (cr_contractId l) (cr_contractId r))
        (filter (\<lambda>row. cr_contractId row \<notin> set removes) (cs_contracts b) @ rf_contracts f)"
      "metadata = sort_by (\<lambda>l r. le (cm_contractId l) (cm_contractId r))
        (filter (\<lambda>m. cm_contractId m \<notin> set removes) (cs_creationMetadata b)
         @ map metadata_of (rf_creationIdentities f))"
    by (auto simp: patch_snapshot_def ar bind_result_Inr_iff)
  have "set (map cr_contractId (rf_contracts f)) \<inter> ?ids = {}"
    using adds unfolding fragment_contracts [OF f]
    by (fastforce simp: adds_ok_def survivor_contract)
  with base fragment_wf [OF f] show ?thesis unfolding rows by (intro rows_wf_patch)
qed

end
