(* ===== verification/Cache_Refresh.thy ===== *)
theory Cache_Refresh
  imports Cache_Invariant
begin

text \<open>
  What a refresh of the contract cache leaves in its store, whichever of its three ways it took, and
  what the readers of the cache then see.
\<close>

section \<open>Canonical offsets\<close>

lemma canonical_natural_digits:
  "canonical_natural s \<Longrightarrow> digits_of_nat (nat_of_digits s) = s"
proof (induction s rule: rev_induct)
  case Nil
  then show ?case by (simp add: canonical_natural_def all_digits_def)
next
  case (snoc c t)
  from snoc.prems have c: "is_digit c" "list_all is_digit t"
    by (auto simp: canonical_natural_def all_digits_def)
  show ?case
  proof (cases "t = []")
    case True
    with c nat_of_digits_snoc [of "[]" c] show ?thesis by (simp add: digits_of_nat_small)
  next
    case False
    with snoc.prems c have hd: "hd t \<noteq> CHR ''0''"
      by (auto simp: canonical_natural_def append_eq_Cons_conv)
    then have "canonical_natural t" using c False by (simp add: canonical_natural_def all_digits_def)
    then have t: "digits_of_nat (nat_of_digits t) = t" by (rule snoc.IH)
    have "nat_of_digits t \<noteq> 0"
    proof
      assume "nat_of_digits t = 0"
      with t have "t = [digit_char 0]" by (simp add: digits_of_nat_small)
      moreover have "digit_char 0 = CHR ''0''"
        using digit_char_value [of "CHR ''0''"] by (simp add: is_digit_def digit_value_def)
      ultimately show False using hd by simp
    qed
    then have "\<not> nat_of_digits (t @ [c]) < 10" by simp
    from digits_of_nat_big [OF this] show ?thesis using t c by simp
  qed
qed

lemma parse_offset_text:
  "parseCacheOffset v = Some n \<Longrightarrow> v = Q_Str (string_of_int n)"
proof -
  assume *: "parseCacheOffset v = Some n"
  then obtain s where s: "v = Q_Str s" "canonical_natural s" "n = offset_value s"
    by (auto simp: parseCacheOffset_def parseOffset_def split: qvalue.splits if_splits)
  then have "string_of_int n = s"
    by (simp add: offset_value_def string_of_int_def canonical_natural_digits)
  with s(1) show ?thesis by simp
qed

lemma parsed_canonical: "parseCacheOffset v = Some n \<Longrightarrow> isCanonicalGrpcOffset (Q_Str (string_of_int n))"
  using parse_offset_text [of v n] by (auto simp: parseCacheOffset_def split: if_splits)

section \<open>Downloads\<close>

lemma page_offset:
  "materializeActiveContractsPage p = Inr page \<Longrightarrow> isCanonicalGrpcOffset (Q_Str (mp_activeAtOffset page))"
  by (auto simp: materializeActiveContractsPage_def bind_result_Inr_iff
      split: option.splits bool.splits qvalue.splits)

text \<open>
  The pages a download reads: every page but the last names the next with a token that is new.
\<close>

fun acs_pages ::
    "(acs_request \<Rightarrow> ('w, acs_page option) async) \<Rightarrow> acs_request \<Rightarrow> string list \<Rightarrow> 'w \<Rightarrow>
     materialized_page list \<Rightarrow> 'w \<Rightarrow> bool" where
  "acs_pages svc req seen w [] w'' \<longleftrightarrow> False"
| "acs_pages svc req seen w (page # pages) w'' \<longleftrightarrow>
     (\<exists>value w'. svc req w = (Inr value, w') \<and> materializeActiveContractsPage value = Inr page \<and>
       (case mp_nextPageToken page of
          None \<Rightarrow> pages = [] \<and> w'' = w'
        | Some token \<Rightarrow>
            if token = [] then pages = [] \<and> w'' = w'
            else token_key token \<notin> set seen
              \<and> acs_pages svc (req\<lparr>ar_pageToken := Some token\<rparr>) (token_key token # seen) w' pages w''))"

lemma download_pages_read:
  assumes "download_pages svc req offset contracts seen w = Some res"
  shows "\<forall>o' acs w''. res = (Inr (o', acs), w'') \<longrightarrow>
    (\<exists>pages. acs_pages svc req seen w pages w'' \<and> acs = contracts @ concat (map mp_activeContracts pages)
      \<and> (\<forall>p \<in> set pages. mp_activeAtOffset p = o') \<and> (offset = None \<or> offset = Some o'))"
proof (rule download_pages.raw_induct [where P = "\<lambda>svc req offset contracts seen w res.
      \<forall>o' acs w''. res = (Inr (o', acs), w'') \<longrightarrow>
        (\<exists>pages. acs_pages svc req seen w pages w'' \<and> acs = contracts @ concat (map mp_activeContracts pages)
          \<and> (\<forall>p \<in> set pages. mp_activeAtOffset p = o') \<and> (offset = None \<or> offset = Some o'))", OF _ assms],
    goal_cases)
  case (1 download svc req offset contracts seen w res)
  show ?case
  proof (intro allI impI)
  fix o' acs w''
  assume res: "res = (Inr (o', acs), w'')"
  note body = 1(2) [unfolded res]
  from body obtain v w1 page where page: "svc req w = (Inr v, w1)"
    "materializeActiveContractsPage v = Inr page" "offset = None \<or> offset = Some (mp_activeAtOffset page)"
    by (auto split: prod.splits sum.splits if_splits)
  show "\<exists>pages. acs_pages svc req seen w pages w'' \<and> acs = contracts @ concat (map mp_activeContracts pages)
      \<and> (\<forall>p \<in> set pages. mp_activeAtOffset p = o') \<and> (offset = None \<or> offset = Some o')"
  proof (cases "\<exists>token. mp_nextPageToken page = Some token \<and> token \<noteq> []")
    case False
    then have "o' = mp_activeAtOffset page" "acs = contracts @ mp_activeContracts page" "w'' = w1"
      using body page by (auto split: option.splits if_splits)
    with page False show ?thesis
      by (intro exI [of _ "[page]"]) (auto split: option.splits)
  next
    case True
    then obtain token where token: "mp_nextPageToken page = Some token" "token \<noteq> []" by blast
    with body page have fresh: "token_key token \<notin> set seen"
      and rec: "download svc (req\<lparr>ar_pageToken := Some token\<rparr>) (Some (mp_activeAtOffset page))
        (contracts @ mp_activeContracts page) (token_key token # seen) w1 = Some (Inr (o', acs), w'')"
      by (auto split: if_splits)
    from 1(1) [OF rec] obtain pages where
      "acs_pages svc (req\<lparr>ar_pageToken := Some token\<rparr>) (token_key token # seen) w1 pages w''"
      "acs = (contracts @ mp_activeContracts page) @ concat (map mp_activeContracts pages)"
      "\<forall>p \<in> set pages. mp_activeAtOffset p = o'" "o' = mp_activeAtOffset page" by auto
    with page token fresh show ?thesis
      by (intro exI [of _ "page # pages"]) auto
  qed
  qed
qed

lemma pages_offset:
  assumes "acs_pages svc req seen w pages w''" "\<forall>p \<in> set pages. mp_activeAtOffset p = o'"
  shows "isCanonicalGrpcOffset (Q_Str o')"
  using assms by (cases pages) (auto dest: page_offset)

lemma download_offset:
  assumes "download_pages svc req offset contracts seen w = Some (Inr (o', acs), w'')"
  shows "isCanonicalGrpcOffset (Q_Str o')"
proof -
  obtain pages where "acs_pages svc req seen w pages w''" "\<forall>p \<in> set pages. mp_activeAtOffset p = o'"
    using download_pages_read [OF assms] by auto
  then show ?thesis by (rule pages_offset)
qed

text \<open>A service that names finitely many tokens cannot make the download run for ever.\<close>

lemma download_ends:
  assumes tokens: "finite T" "\<And>req w value w' page token. svc req w = (Inr value, w') \<Longrightarrow>
      materializeActiveContractsPage value = Inr page \<Longrightarrow> mp_nextPageToken page = Some token \<Longrightarrow>
      token_key token \<in> T"
  shows "\<exists>r. download_pages svc req offset contracts seen w = Some r"
proof (induction "card (T - set seen)" arbitrary: req offset contracts seen w rule: less_induct)
  case less
  show ?case
  proof (cases "svc req w")
    case (Pair r w')
    show ?thesis
    proof (cases "\<exists>value page token. r = Inr value \<and> materializeActiveContractsPage value = Inr page
        \<and> mp_nextPageToken page = Some token \<and> token_key token \<notin> set seen")
      case True
      then obtain v page token where p: "r = Inr v" "materializeActiveContractsPage v = Inr page"
        "mp_nextPageToken page = Some token" "token_key token \<notin> set seen" by blast
      with tokens(2) Pair have "token_key token \<in> T - set seen" by blast
      then have "card (T - set (token_key token # seen)) < card (T - set seen)"
        using tokens(1) by (intro psubset_card_mono) auto
      from less.hyps [OF this] p Pair show ?thesis
        by (subst download_pages.simps) auto
    next
      case False
      with Pair show ?thesis
        by (subst download_pages.simps) (auto split: sum.split option.split)
    qed
  qed
qed

section \<open>What a refresh stores\<close>

lemma copied_rows: "copyRows rows = Inr written \<Longrightarrow> written = rows"
proof (induction rows arbitrary: written)
  case (Cons r rows)
  then show ?case by (auto simp: copyRows_def bind_result_Inr_iff dest!: copy_value_same)
qed (simp add: copyRows_def)

text \<open>A snapshot a store may give back: of a wrong shape, or with one row per contract.\<close>

definition base_ok :: "cached_snapshot \<Rightarrow> bool" where
  "base_ok b \<longleftrightarrow> distinct (map cr_contractId (cs_contracts b))"

text \<open>The end of a delta refresh is an offset the ledger gave.\<close>

lemma delta_body_offsets:
  assumes "delta_body le sv c parties key b latestPruned ledgerEnd svc w = (Inr outcome, w')"
    and "outcome \<noteq> Fall_Back"
  obtains lo hi w1 where "lo \<le> hi" "delta_between le sv c parties key b svc lo hi w1 = (Inr outcome, w')"
    "isCanonicalGrpcOffset (Q_Str (string_of_int hi))"
proof -
  from assms(1) obtain pv ev w1 where *:
    "(case (parseCacheOffset (Q_Str (cs_activeAtOffset b)), parseCacheOffset pv, parseCacheOffset ev) of
         (Some baseOffset, Some pruned, Some end') \<Rightarrow>
           if pruned > baseOffset \<or> end' < baseOffset then async_return Fall_Back
           else delta_between le sv c parties key b svc baseOffset end'
       | _ \<Rightarrow> async_return Fall_Back) w1 = (Inr outcome, w')"
    unfolding delta_body_def async_Inr_iff by blast
  then obtain lo pruned hi where hi: "parseCacheOffset ev = Some hi" "\<not> (pruned > lo \<or> hi < lo)"
    "delta_between le sv c parties key b svc lo hi w1 = (Inr outcome, w')"
    using assms(2) by (auto simp: async_return_def split: option.splits if_splits)
  show ?thesis using hi(2) by (intro that [OF _ hi(3) parsed_canonical [OF hi(1)]]) simp
qed

context cache_store
begin

definition on_store :: "'w cache_services \<Rightarrow> bool" where
  "on_store sv \<longleftrightarrow> sv_get sv = getAsync \<and> sv_set sv = setAsync \<and> sv_delete sv = deleteAsync \<and> sv_now sv = clock"

text \<open>The last write of a refresh that returned \<open>r\<close>.\<close>

definition refreshed ::
    "cache_config \<Rightarrow> string list option \<Rightarrow> string \<Rightarrow> int \<Rightarrow> cache_result \<Rightarrow> 'w \<Rightarrow> bool" where
  "refreshed c parties key ttl r w' \<longleftrightarrow>
     (\<exists>s w t. setAsync key (snapshot_value s) (Whole ttl) w = (Inr (), w') \<and> time w = Whole t
        \<and> rows_wf (cs_contracts s) (cs_creationMetadata s) \<and> snapshot_ok s
        \<and> cs_endpointScope s = gc_endpointScope c \<and> cs_parties s = parties
        \<and> cs_activeAtOffset s = re_activeAtOffset r \<and> length (cs_contracts s) = re_contractCount r
        \<and> cs_expiresAtEpochMs s = Whole (t + ttl) \<and> re_expiresAt r = Whole (t + ttl))"

lemma expiry_of:
  assumes "on_store sv" "effectiveExpiryEpochMs sv (Whole ttl) w = (Inr e, w1)"
  obtains t where "w1 = w" "time w = Whole t" "e = Whole (t + ttl)" "valid_instant e"
proof -
  have "w1 = w" "e = js_plus (time w) (Whole ttl)" "valid_instant e"
    using assms clock_reads [of w]
    by (auto simp: effectiveExpiryEpochMs_def currentEpochMs_def on_store_def async_bind_def async_catch_def
        async_return_def async_result_def validation_def split: if_splits)
  then show ?thesis using that by (cases "time w") (auto simp: js_plus_def valid_instant_def)
qed

lemma snapshot_refreshed:
  assumes sv: "on_store sv" and e: "effectiveExpiryEpochMs sv (Whole ttl) w = (Inr e, w1)"
    and rows: "copyRows rows = Inr written"
    and set: "sv_set sv key (snapshot_value \<lparr>cs_endpointScope = gc_endpointScope c, cs_parties = parties,
        cs_activeAtOffset = offset, cs_expiresAtEpochMs = e, cs_contracts = written,
        cs_creationMetadata = metadata\<rparr>) (Whole ttl) w1 = (Inr (), w')"
    and r: "re_activeAtOffset r = offset" "re_contractCount r = length rows" "re_expiresAt r = e"
    and wf: "rows_wf rows metadata" "isCanonicalGrpcOffset (Q_Str offset)"
  shows "refreshed c parties key ttl r w'"
proof -
  obtain t where t: "w1 = w" "time w = Whole t" "e = Whole (t + ttl)" "valid_instant e"
    using expiry_of [OF sv e] .
  let ?s = "\<lparr>cs_endpointScope = gc_endpointScope c, cs_parties = parties, cs_activeAtOffset = offset,
      cs_expiresAtEpochMs = e, cs_contracts = written, cs_creationMetadata = metadata\<rparr>"
  have "snapshot_ok ?s" using wf t(4) copied_rows [OF rows] by (intro wf_snapshot_ok) simp_all
  with set sv wf(1) t r copied_rows [OF rows] show ?thesis
    unfolding refreshed_def by (intro exI [of _ ?s] exI [of _ w] exI [of _ t]) (simp add: on_store_def)
qed

lemma write_refreshed:
  assumes "on_store sv" "gc_ttlMs c = Whole ttl"
    and "writeSnapshotAsync sv c parties key offset rows metadata kind gap n w = (Inr r, w')"
    and "rows_wf rows metadata" "isCanonicalGrpcOffset (Q_Str offset)"
  shows "refreshed c parties key ttl r w'"
  using assms(3) unfolding write_snapshot_done assms(2)
  by (elim exE conjE) (rule snapshot_refreshed [OF assms(1) _ _ _ _ _ _ assms(4,5)], assumption+, simp_all)

lemma store_refreshed:
  assumes "on_store sv" "gc_ttlMs c = Whole ttl"
    and "store_download le sv c parties key base offset acs w = (Inr r, w')"
    and "isCanonicalGrpcOffset (Q_Str offset)"
  shows "refreshed c parties key ttl r w'"
proof -
  from assms(2,3) obtain f e written w1 where d: "mapGrpcQueryRelationFragment le [] acs = Inr f"
    "effectiveExpiryEpochMs sv (Whole ttl) w = (Inr e, w1)" "copyRows (rf_contracts f) = Inr written"
    "sv_set sv key (snapshot_value \<lparr>cs_endpointScope = gc_endpointScope c, cs_parties = parties,
        cs_activeAtOffset = offset, cs_expiresAtEpochMs = e, cs_contracts = written,
        cs_creationMetadata = map metadata_of (rf_creationIdentities f)\<rparr>) (Whole ttl) w1 = (Inr (), w')"
    and r: "re_activeAtOffset r = offset" "re_contractCount r = length (rf_contracts f)" "re_expiresAt r = e"
    by (auto simp: store_download_def async_Inr_iff async_result_Inr_iff Let_def)
  show ?thesis by (rule snapshot_refreshed [OF assms(1) d(2-4) r fragment_wf [OF d(1)] assms(4)])
qed

lemma full_refreshed:
  assumes "on_store sv" "gc_ttlMs c = Whole ttl"
    and "fullRefreshAsync le sv c parties key base w = Some (Inr r, w')"
  shows "refreshed c parties key ttl r w'"
proof -
  from assms(3) obtain offset acs w1 where d: "download_pages (sv_activeContractsPage sv)
      \<lparr>ar_parties = parties, ar_maxPageSize = gc_maxPageSize c, ar_pageToken = None\<rparr> None [] [] w
      = Some (Inr (offset, acs), w1)"
    "store_download le sv c parties key base offset acs w1 = (Inr r, w')"
    by (auto simp: fullRefreshAsync_def split: option.splits sum.splits)
  then show ?thesis by (intro store_refreshed [OF assms(1,2) d(2)] download_offset)
qed

lemma delta_refreshed:
  assumes sv: "on_store sv" "gc_ttlMs c = Whole ttl"
    and delta: "tryDeltaRefreshAsync le sv c parties key b w = (Inr (Some r), w')"
    and b: "rows_wf (cs_contracts b) (cs_creationMetadata b)" "isCanonicalGrpcOffset (Q_Str (cs_activeAtOffset b))"
  shows "refreshed c parties key ttl r w'"
proof -
  from delta obtain ledgerEnd pruned svc outcome w1 where
    body: "async_catch (delta_body le sv c parties key b pruned ledgerEnd svc) (\<lambda>e. async_return Fall_Back) w
      = (Inr outcome, w1)"
    and outcome: "(case outcome of
         Fall_Back \<Rightarrow> async_return None
       | Patched r \<Rightarrow> async_return (Some r)
       | Unchanged \<Rightarrow>
           async_bind (writeSnapshotAsync sv c parties key (cs_activeAtOffset b)
               (cs_contracts b) (cs_creationMetadata b) Noop_Refresh (Some ''0'') None)
             (\<lambda>r. async_return (Some r))) w1 = (Inr (Some r), w')"
    by (auto simp: tryDeltaRefreshAsync_def async_Inr_iff split: option.splits)
  show ?thesis
  proof (cases outcome)
    case Fall_Back
    with outcome show ?thesis by (simp add: async_return_def)
  next
    case Unchanged
    with outcome have "writeSnapshotAsync sv c parties key (cs_activeAtOffset b) (cs_contracts b)
        (cs_creationMetadata b) Noop_Refresh (Some ''0'') None w1 = (Inr r, w')"
      by (simp add: async_Inr_iff)
    then show ?thesis by (rule write_refreshed [OF sv _ b])
  next
    case (Patched r')
    with outcome have p: "outcome = Patched r \<and> w1 = w'" by (simp add: async_return_def)
    with body have "delta_body le sv c parties key b pruned ledgerEnd svc w = (Inr (Patched r), w')"
      by (auto simp: async_catch_def async_return_def split: prod.splits sum.splits)
    then obtain lo hi w2 where d: "lo \<le> hi" "delta_between le sv c parties key b svc lo hi w2 = (Inr (Patched r), w')"
      "isCanonicalGrpcOffset (Q_Str (string_of_int hi))"
      by (rule delta_body_offsets) simp
    obtain w3 entries st rows metadata where e: "lo < hi"
      "readDeltaWindowAsync c svc parties b lo hi w2 = (Inr (Some entries), w3)"
      "apply_entries (set (map cr_contractId (cs_contracts b))) ([], []) entries = Some st"
      "patch_snapshot le b st = Inr (rows, metadata)"
      "writeSnapshotAsync sv c parties key (string_of_int hi) rows metadata Delta_Refresh
         (Some (string_of_int (hi - lo))) (Some (length entries)) w3 = (Inr r, w')"
      by (rule delta_between_patched [OF d(2,1)])
    show ?thesis by (rule write_refreshed [OF sv e(5) patch_wf [OF b(1) e(3,4)] d(3)])
  qed
qed

text \<open>What the store holds under a key is no base for a patch, or one with a row per contract.\<close>

definition base_stored :: "'w \<Rightarrow> string \<Rightarrow> cache_config \<Rightarrow> string list option \<Rightarrow> bool" where
  "base_stored w key c parties \<longleftrightarrow>
     (\<forall>v n b. holds w key = Some v \<longrightarrow> asCompatibleSnapshot v (gc_endpointScope c) parties n True = Some b
        \<longrightarrow> base_ok b)"

lemma read_base_ok:
  assumes "on_store sv" "base_stored w key c parties"
    and "readBase sv c parties key True w = (Inr (Some b), w')"
  shows "rows_wf (cs_contracts b) (cs_creationMetadata b)"
    "isCanonicalGrpcOffset (Q_Str (cs_activeAtOffset b))"
proof -
  from assms(3) obtain v n w1 where v: "getAsync key w = (Inr v, w1)"
    "asCompatibleSnapshot v (gc_endpointScope c) parties n True = Some b"
    using assms(1) by (auto simp: readBase_def on_store_def async_Inr_iff)
  obtain w2 where "getAsync key w = (Inr (case holds w key of None \<Rightarrow> Q_Undef | Some v \<Rightarrow> v), w2)"
    by (rule get_then [of key w])
  with v have "holds w key = Some v"
    by (auto simp: undefined_incompatible split: option.splits)
  with v(2) assms(2) have "base_ok b" unfolding base_stored_def by blast
  with compatible_ok [OF v(2)] show "rows_wf (cs_contracts b) (cs_creationMetadata b)"
    "isCanonicalGrpcOffset (Q_Str (cs_activeAtOffset b))"
    by (auto simp: snapshot_ok_def base_ok_def intro: coherent_wf)
qed

lemma populate_refreshed:
  assumes sv: "on_store sv" "gc_ttlMs c = Whole ttl" and stored: "base_stored w key c parties"
    and "populateAsync le sv c parties key w = Some (Inr r, w')"
  shows "refreshed c parties key ttl r w'"
proof -
  from assms(4) obtain base w1 where base: "readBase sv c parties key True w = (Inr base, w1)"
    and cases: "(\<exists>w2. fullRefreshAsync le sv c parties key base w2 = Some (Inr r, w')) \<or>
      (\<exists>b. base = Some b \<and> tryDeltaRefreshAsync le sv c parties key b w1 = (Inr (Some r), w'))"
    unfolding populateAsync_def by (auto split: prod.splits sum.splits option.splits if_splits bool.splits)
  from cases show ?thesis
  proof (elim disjE exE conjE)
    fix w2
    assume "fullRefreshAsync le sv c parties key base w2 = Some (Inr r, w')"
    with sv show ?thesis by (rule full_refreshed)
  next
    fix b
    assume b: "base = Some b" "tryDeltaRefreshAsync le sv c parties key b w1 = (Inr (Some r), w')"
    show ?thesis
      by (rule delta_refreshed [OF sv b(2)]) (rule read_base_ok [OF sv(1) stored base [unfolded b(1)]])+
  qed
qed

text \<open>
  After a refresh the store again holds a base, and readers see the refreshed snapshot until it
  expires and nothing from then on.
\<close>

lemma refreshed_read:
  assumes sv: "on_store sv" "gc_ttlMs c = Whole ttl" "0 < ttl" and r: "refreshed c parties key ttl r w'"
    and t': "time w' = Whole t" "t \<le> t'" "valid_instant (Whole t')"
  obtains s where "rows_wf (cs_contracts s) (cs_creationMetadata s)"
    "cs_activeAtOffset s = re_activeAtOffset r" "length (cs_contracts s) = re_contractCount r"
    "re_expiresAt r = Whole (t + ttl)" "base_stored w' key c parties"
    "\<And>ignoreExpiry. fst (readBase sv c parties key ignoreExpiry (elapse t' w'))
      = Inr (if t' < t + ttl then Some s else None)"
proof -
  from r obtain s w t0 where s: "setAsync key (snapshot_value s) (Whole ttl) w = (Inr (), w')" "time w = Whole t0"
    "rows_wf (cs_contracts s) (cs_creationMetadata s)" "snapshot_ok s"
    "cs_endpointScope s = gc_endpointScope c" "cs_parties s = parties"
    "cs_activeAtOffset s = re_activeAtOffset r" "length (cs_contracts s) = re_contractCount r"
    "cs_expiresAtEpochMs s = Whole (t0 + ttl)" "re_expiresAt r = Whole (t0 + ttl)"
    unfolding refreshed_def by blast
  from set_writes [OF s(2) sv(3), of key "snapshot_value s"] s(1)
  have held: "holds w' key = Some (snapshot_value s)" and "time w' = time w" by auto
  then have t0: "t0 = t" using s(2) t'(1) by simp
  have stored: "base_stored w' key c parties"
    unfolding base_stored_def
  proof (intro allI impI)
    fix v n b
    assume "holds w' key = Some v" "asCompatibleSnapshot v (gc_endpointScope c) parties n True = Some b"
    then have "b = s" using held snapshot_decode [OF s(4), of n True] s(5,6) by (simp split: if_splits)
    with s(3) show "base_ok b" by (simp add: base_ok_def rows_wf_def)
  qed
  have get: "sv_get sv = getAsync" and clk: "sv_now sv = clock" using sv(1) by (simp_all add: on_store_def)
  have reads: "fst (readBase sv c parties key ignoreExpiry (elapse t' w'))
      = Inr (if t' < t + ttl then Some s else None)" for ignoreExpiry
    using s(9) by (intro set_then_read [OF get clk s(1) s(2) [unfolded t0] sv(3) _ s(4-6) t'(2,3)]) (simp add: t0)
  show ?thesis by (rule that [OF s(3,7,8) _ stored reads]) (simp add: s(10) t0)
qed

end

end
