(* ===== verification/JSON_Texts.thy ===== *)
theory JSON_Texts
  imports Query_Values
begin

text \<open>
  JSON strings can be read back: the text of a string ends where it says, so that a list of strings is
  determined by its JSON text.
\<close>

section \<open>JSON strings\<close>

definition hex_value :: "char \<Rightarrow> nat" where
  "hex_value c = (let n = of_char c :: nat in if n < 58 then n - 48 else n - 87)"

definition unescape :: "char \<Rightarrow> char" where
  "unescape e =
     (if e = CHR ''b'' then char_of (8 :: nat) else if e = CHR ''t'' then char_of (9 :: nat)
      else if e = CHR ''n'' then char_of (10 :: nat) else if e = CHR ''f'' then char_of (12 :: nat)
      else if e = CHR ''r'' then char_of (13 :: nat) else e)"

text \<open>The next character of the body of a JSON string, and what follows.\<close>

definition json_uncons :: "string \<Rightarrow> (char \<times> string) option" where
  "json_uncons s =
     (case s of
        [] \<Rightarrow> None
      | c # s \<Rightarrow>
          if c = CHR 0x22 then None
          else if c \<noteq> CHR 0x5C then Some (c, s)
          else (case s of
            [] \<Rightarrow> None
          | e # s \<Rightarrow>
              if e = CHR ''u'' then
                Some (char_of (16 * hex_value (s ! 2) + hex_value (s ! 3)), drop 4 s)
              else Some (unescape e, s)))"

lemma hex_value_digit:
  "d < 16 \<Longrightarrow> hex_value (if d < 10 then char_of (48 + d) else char_of (87 + d)) = d"
  by (simp add: hex_value_def of_char_of)

lemma json_uncons_char: "json_uncons (json_char c @ s) = Some (c, s)"
proof -
  let ?n = "of_char c :: nat"
  consider "c = CHR 0x22" | "c = CHR 0x5C" | "?n \<in> {8, 9, 10, 12, 13}"
    | "c \<noteq> CHR 0x22" "c \<noteq> CHR 0x5C" "?n \<notin> {8, 9, 10, 12, 13}" "?n < 32"
    | "c \<noteq> CHR 0x22" "c \<noteq> CHR 0x5C" "\<not> ?n < 32" by blast
  then show ?thesis
  proof cases
    case 3
    then have "c \<noteq> CHR 0x22" "c \<noteq> CHR 0x5C" by auto
    with 3 show ?thesis
      by (auto simp: json_char_def json_uncons_def unescape_def) (metis char_of_char)+
  next
    case 4
    have "?n div 16 < 16" "?n mod 16 < 16" using 4(4) by auto
    from hex_value_digit [OF this(1)] hex_value_digit [OF this(2)]
    have "char_of (16 * hex_value (if ?n div 16 < 10 then char_of (48 + ?n div 16) else char_of (87 + ?n div 16))
        + hex_value (if ?n mod 16 < 10 then char_of (48 + ?n mod 16) else char_of (87 + ?n mod 16))) = c"
      by (simp only: mult_div_mod_eq char_of_char)
    with 4 show ?thesis by (simp add: json_char_def json_uncons_def Let_def)
  qed (auto simp: json_char_def json_uncons_def unescape_def Let_def)
qed

lemma json_char_inj: "json_char c @ s = json_char d @ t \<Longrightarrow> c = d \<and> s = t"
  by (metis json_uncons_char option.inject prod.inject)

lemma json_char_quote: "json_char c @ s \<noteq> CHR 0x22 # t"
proof
  assume "json_char c @ s = CHR 0x22 # t"
  from arg_cong [OF this, of json_uncons] show False
    by (simp add: json_uncons_char) (simp add: json_uncons_def)
qed

lemma json_string_inj: "json_string s @ x = json_string t @ y \<Longrightarrow> s = t \<and> x = y"
proof -
  have "concat (map json_char s) @ CHR 0x22 # x = concat (map json_char t) @ CHR 0x22 # y \<Longrightarrow> s = t \<and> x = y"
  proof (induction s arbitrary: t)
    case Nil
    then show ?case using json_char_quote by (cases t) (auto, metis)
  next
    case (Cons c s)
    show ?case
    proof (cases t)
      case Nil
      with Cons.prems show ?thesis using json_char_quote by auto
    next
      case (Cons d t')
      with Cons.prems have "json_char c @ (concat (map json_char s) @ CHR 0x22 # x)
        = json_char d @ (concat (map json_char t') @ CHR 0x22 # y)" by simp
      from json_char_inj [OF this] Cons.IH [of t'] Cons show ?thesis by auto
    qed
  qed
  moreover assume "json_string s @ x = json_string t @ y"
  ultimately show ?thesis by (simp add: json_string_def)
qed

lemma more_strings_inj:
  "concat (map (\<lambda>s. CHR '','' # json_string s) ss) @ CHR '']'' # x
     = concat (map (\<lambda>s. CHR '','' # json_string s) ts) @ CHR '']'' # y \<Longrightarrow> ss = ts"
proof (induction ss arbitrary: ts)
  case Nil
  then show ?case by (cases ts) auto
next
  case (Cons s ss)
  show ?case
  proof (cases ts)
    case Nil
    with Cons.prems show ?thesis by simp
  next
    case (Cons t ts')
    with Cons.prems have "json_string s @ (concat (map (\<lambda>s. CHR '','' # json_string s) ss) @ CHR '']'' # x)
      = json_string t @ (concat (map (\<lambda>s. CHR '','' # json_string s) ts') @ CHR '']'' # y)" by simp
    from json_string_inj [OF this] Cons.IH [of ts'] Cons show ?thesis by blast
  qed
qed

end
