(* ===== verification/Cache_Keys.thy ===== *)
theory Cache_Keys
  imports Cache_Refresh JSON_Texts
begin

text \<open>
  The keys of the contract cache are JSON texts, and JSON texts can be read back: no two endpoints or
  sets of parties share a key.
\<close>

section \<open>Keys\<close>

lemma json_strings_inj:
  assumes "json_strings ss @ x = json_strings ts @ y" shows "ss = ts"
proof (cases ss; cases ts)
  fix s ss' t ts'
  assume *: "ss = s # ss'" "ts = t # ts'"
  with assms have "json_string s @ (concat (map (\<lambda>s. CHR '','' # json_string s) ss') @ CHR '']'' # x)
      = json_string t @ (concat (map (\<lambda>s. CHR '','' # json_string s) ts') @ CHR '']'' # y)"
    by (simp add: json_strings_def joined_def comp_def)
  from json_string_inj [OF this] more_strings_inj * show ?thesis by blast
qed (use assms in \<open>simp_all add: json_strings_def joined_def json_string_def\<close>)

lemma cacheKey_inj:
  assumes "cacheKey scope parties = cacheKey scope' parties'"
  shows "scope = scope' \<and> parties = parties'"
proof -
  let ?rest = "\<lambda>parties. (case parties of None \<Rightarrow> ''null'' | Some ps \<Rightarrow> json_strings ps)"
  from assms have "json_string scope @ CHR '','' # ?rest parties @ '']''
      = json_string scope' @ CHR '','' # ?rest parties' @ '']''"
    by (simp add: cacheKey_def)
  from json_string_inj [OF this] have scope: "scope = scope'"
    and rest: "?rest parties @ '']'' = ?rest parties' @ '']''" by simp_all
  have "parties = parties'"
  proof (cases parties; cases parties')
    fix ps qs
    assume "parties = Some ps" "parties' = Some qs"
    with rest show ?thesis using json_strings_inj [of ps "'']''" qs "'']''"] by simp
  qed (use rest in \<open>simp_all add: json_strings_def\<close>)
  with scope show ?thesis by simp
qed

text \<open>Parties are a set: order and repetition do not matter for the key, and nothing else is lost.\<close>

lemma all_values_strings: "all_values (map string_of_value (map Q_Str ss)) = Some ss"
  using all_values_map [of "\<lambda>s. s" ss] by (simp add: string_of_value_def comp_def)

lemma normalize_strings:
  assumes "ss \<noteq> []" "\<forall>s \<in> set ss. trim s \<noteq> []"
  shows "normalizeParties (Q_Arr (map Q_Str ss)) = Inr (Some (sort (remdups ss)))"
  using assms
  by (simp add: normalizeParties_def materializeIndexedArray_def all_values_strings del: map_map)

lemma same_key_iff:
  assumes "ss \<noteq> []" "\<forall>s \<in> set ss. trim s \<noteq> []" "ts \<noteq> []" "\<forall>s \<in> set ts. trim s \<noteq> []"
    and "normalizeParties (Q_Arr (map Q_Str ss)) = Inr ps" "normalizeParties (Q_Arr (map Q_Str ts)) = Inr qs"
  shows "cacheKey scope ps = cacheKey scope' qs \<longleftrightarrow> scope = scope' \<and> set ss = set ts"
proof -
  have "ps = Some (sort (remdups ss))" "qs = Some (sort (remdups ts))"
    using assms normalize_strings by auto
  moreover have "sort (remdups ss) = sort (remdups ts) \<longleftrightarrow> set ss = set ts"
    by (metis set_remdups set_sort sorted_list_of_set_sort_remdups)
  ultimately show ?thesis using cacheKey_inj by auto
qed

end
