(* ===== verification/Single_Flight.thy ===== *)
theory Single_Flight
  imports JS_Prelude
begin

text \<open>
  Overlapping calls of \<^verbatim>\<open>cacheContracts\<close>: the \<^verbatim>\<open>inflight\<close> map of
  \<^verbatim>\<open>src/src/query/grpc/grpc-contract-cache.ts\<close> as a state machine. Promises are numbers in the order
  of their creation. A population that ends settles its promise; the reaction registered with
  \<^verbatim>\<open>then\<close>, which clears the entry of the map, runs later, and calls may come in between.
\<close>

datatype phase = Running | Settled   \<comment> \<open>settled: the reaction has not run yet\<close>

record flights =
  fl_inflight :: "string \<rightharpoonup> nat"
  fl_populations :: "nat \<rightharpoonup> phase \<times> string"
  fl_next :: nat

definition no_flights :: flights where
  "no_flights = \<lparr>fl_inflight = (\<lambda>_. None), fl_populations = (\<lambda>_. None), fl_next = 0\<rparr>"

text \<open>The synchronous part of \<^verbatim>\<open>cacheContracts\<close>: the promise the call returns.\<close>

definition enter_flight :: "string \<Rightarrow> flights \<Rightarrow> nat \<times> flights" where
  "enter_flight key st =
     (case fl_inflight st key of
        Some promise \<Rightarrow> (promise, st)
      | None \<Rightarrow>
          (let promise = fl_next st in
           (promise, st\<lparr>fl_inflight := (fl_inflight st)(key \<mapsto> promise),
              fl_populations := (fl_populations st)(promise \<mapsto> (Running, key)), fl_next := Suc promise\<rparr>)))"

definition clearInflight :: "string \<Rightarrow> nat \<Rightarrow> flights \<Rightarrow> flights" where
  "clearInflight key promise st =
     (if fl_inflight st key = Some promise then st\<lparr>fl_inflight := (fl_inflight st)(key := None)\<rparr> else st)"

inductive flight_step :: "flights \<Rightarrow> flights \<Rightarrow> bool" where
  call: "flight_step st (snd (enter_flight key st))"
| settle: "fl_populations st promise = Some (Running, key) \<Longrightarrow>
    flight_step st (st\<lparr>fl_populations := (fl_populations st)(promise \<mapsto> (Settled, key))\<rparr>)"
| react: "fl_populations st promise = Some (Settled, key) \<Longrightarrow>
    flight_step st ((clearInflight key promise st)
      \<lparr>fl_populations := (fl_populations st)(promise := None)\<rparr>)"

inductive_cases flight_stepE: "flight_step st st'"

definition flight_reachable :: "flights \<Rightarrow> bool" where
  "flight_reachable st \<longleftrightarrow> flight_step\<^sup>*\<^sup>* no_flights st"

text \<open>The populations are exactly the owners of the entries, each of its key.\<close>

definition flight_inv :: "flights \<Rightarrow> bool" where
  "flight_inv st \<longleftrightarrow>
     (\<forall>p k. fl_inflight st k = Some p \<longleftrightarrow> (\<exists>ph. fl_populations st p = Some (ph, k)))
     \<and> (\<forall>p \<ge> fl_next st. fl_populations st p = None)"

lemma flight_invD:
  "flight_inv st \<Longrightarrow> fl_populations st p = Some (ph, k) \<Longrightarrow> fl_inflight st k = Some p"
  "flight_inv st \<Longrightarrow> fl_inflight st k = Some p \<Longrightarrow> \<exists>ph. fl_populations st p = Some (ph, k)"
  "flight_inv st \<Longrightarrow> fl_next st \<le> p \<Longrightarrow> fl_populations st p = None"
  by (auto simp: flight_inv_def)

lemma inv_no_flights: "flight_inv no_flights"
  by (simp add: flight_inv_def no_flights_def)

lemma inv_enter:
  assumes "flight_inv st" shows "flight_inv (snd (enter_flight key st))"
proof (cases "fl_inflight st key")
  case None
  then have no_key: "fl_populations st p \<noteq> Some (ph, key)" for p ph
    using flight_invD(1) [OF assms] by fastforce
  have unused: "fl_inflight st k \<noteq> Some (fl_next st)" for k
    using flight_invD(2) [OF assms, of k "fl_next st"] flight_invD(3) [OF assms, of "fl_next st"] by auto
  show ?thesis
    using assms None unused no_key unfolding flight_inv_def enter_flight_def by (auto simp: Let_def)
qed (use assms in \<open>simp add: enter_flight_def\<close>)

lemma inv_settle:
  assumes "flight_inv st" "fl_populations st p = Some (Running, k)"
  shows "flight_inv (st\<lparr>fl_populations := (fl_populations st)(p \<mapsto> (Settled, k))\<rparr>)"
proof -
  have "p < fl_next st" using flight_invD(3) [OF assms(1), of p] assms(2) by (cases "p < fl_next st") auto
  with assms show ?thesis unfolding flight_inv_def by auto
qed

lemma inv_react:
  assumes "flight_inv st" "fl_populations st p = Some (Settled, k)"
  shows "flight_inv ((clearInflight k p st)\<lparr>fl_populations := (fl_populations st)(p := None)\<rparr>)"
proof -
  have owner: "fl_inflight st k = Some p" using flight_invD(1) [OF assms] .
  have "fl_inflight st j \<noteq> Some p" if "j \<noteq> k" for j
    using flight_invD(2) [OF assms(1), of j p] assms(2) that by auto
  moreover have "fl_populations st q \<noteq> Some (ph, k)" if "q \<noteq> p" for q ph
    using flight_invD(1) [OF assms(1), of q ph k] owner that by auto
  ultimately show ?thesis
    using assms(1) owner unfolding flight_inv_def clearInflight_def by auto
qed

lemma inv_reachable:
  assumes "flight_reachable st" shows "flight_inv st"
  using assms unfolding flight_reachable_def
proof (induction rule: rtranclp_induct)
  case (step st st')
  from step.hyps(2) step.IH show ?case
    by (elim flight_stepE) (auto intro: inv_enter inv_settle inv_react)
qed (rule inv_no_flights)

text \<open>So the guard of \<^verbatim>\<open>clearInflight\<close> always holds, and a key has one population at a time.\<close>

lemma react_owner:
  "flight_reachable st \<Longrightarrow> fl_populations st p = Some (ph, k) \<Longrightarrow> fl_inflight st k = Some p"
  by (rule flight_invD(1) [OF inv_reachable])

lemma one_population:
  "flight_reachable st \<Longrightarrow> fl_populations st p = Some (ph, k) \<Longrightarrow> fl_populations st q = Some (ph', k) \<Longrightarrow> p = q"
  using react_owner [of st p ph k] react_owner [of st q ph' k] by simp

text \<open>A call joins the population of its key while its entry stands, and starts one otherwise.\<close>

lemma call_outcome:
  assumes "flight_reachable st"
  shows "case fl_inflight st key of
      Some p \<Rightarrow> enter_flight key st = (p, st) \<and> (\<exists>ph. fl_populations st p = Some (ph, key))
    | None \<Rightarrow> (\<forall>p ph. fl_populations st p \<noteq> Some (ph, key))
        \<and> fl_populations (snd (enter_flight key st)) = (fl_populations st)(fst (enter_flight key st) \<mapsto> (Running, key))
        \<and> fl_populations st (fst (enter_flight key st)) = None"
proof (cases "fl_inflight st key")
  case None
  then have "fl_populations st p \<noteq> Some (ph, key)" for p ph using react_owner [OF assms] by fastforce
  with None flight_invD(3) [OF inv_reachable [OF assms], of "fl_next st"] show ?thesis
    by (simp add: enter_flight_def Let_def)
qed (use flight_invD(2) [OF inv_reachable [OF assms], of key] in \<open>simp add: enter_flight_def\<close>)

text \<open>Every population can end and leave its key free.\<close>

lemma can_finish:
  assumes "fl_populations st p = Some (ph, k)"
  shows "\<exists>st'. flight_step\<^sup>*\<^sup>* st st' \<and> fl_populations st' p = None"
proof -
  have settled: "\<exists>st'. flight_step\<^sup>*\<^sup>* s st' \<and> fl_populations st' p = None"
    if "fl_populations s p = Some (Settled, k)" for s
    by (rule exI, rule conjI, rule r_into_rtranclp, rule react, rule that) simp
  show ?thesis
  proof (cases ph)
    case Running
    let ?s = "st\<lparr>fl_populations := (fl_populations st)(p \<mapsto> (Settled, k))\<rparr>"
    have "flight_step st ?s" using assms Running by (intro settle) simp
    with settled [of ?s] show ?thesis by (auto intro: converse_rtranclp_into_rtranclp)
  qed (use settled assms in simp)
qed

end
