(* ===== verification/Delta_Refinement.thy ===== *)
theory Delta_Refinement
  imports Contract_Cache_Laws
begin

text \<open>
  A delta refresh refines a full download: it leaves the store as a download of the active contracts
  at the same offset would have left it.
\<close>

text \<open>Writing a materialized active set is what follows its download.\<close>

lemma write_is_download:
  assumes "materializes le acs rows metadata"
    and "writeSnapshotAsync sv c parties key offset rows metadata kind gap n w = (Inr r, w')"
  obtains r' where "store_download le sv c parties key base offset acs w = (Inr r', w')"
    "re_activeAtOffset r' = re_activeAtOffset r" "re_contractCount r' = re_contractCount r"
    "re_expiresAt r' = re_expiresAt r"
proof -
  obtain f where f: "mapGrpcQueryRelationFragment le [] acs = Inr f" "rows = rf_contracts f"
    "metadata = map metadata_of (rf_creationIdentities f)"
    using assms(1) unfolding materializes_def by blast
  from assms(2) obtain e written w1 where e: "effectiveExpiryEpochMs sv (gc_ttlMs c) w = (Inr e, w1)"
    "copyRows (rf_contracts f) = Inr written"
    "sv_set sv key (snapshot_value \<lparr>cs_endpointScope = gc_endpointScope c, cs_parties = parties,
       cs_activeAtOffset = offset, cs_expiresAtEpochMs = e, cs_contracts = written,
       cs_creationMetadata = map metadata_of (rf_creationIdentities f)\<rparr>) (gc_ttlMs c) w1 = (Inr (), w')"
    and r: "r = \<lparr>re_activeAtOffset = offset, re_contractCount = length (rf_contracts f), re_expiresAt = e,
       re_refresh = kind, re_offsetGap = gap, re_deltaUpdateCount = n\<rparr>"
    unfolding write_snapshot_done f(2,3) by auto
  have "\<exists>r'. store_download le sv c parties key base offset acs w = (Inr r', w')
      \<and> re_activeAtOffset r' = offset \<and> re_contractCount r' = length (rf_contracts f) \<and> re_expiresAt r' = e"
    by (simp add: store_download_def async_bind_def async_result_def async_return_def f(1) e Let_def)
  with r show ?thesis by (auto intro: that)
qed

lemma delta_outcome_refresh:
  assumes "tryDeltaRefreshAsync le sv c parties key b w = (Inr (Some r), w')" "re_refresh r = Delta_Refresh"
  obtains latestPruned ledgerEnd svc where "sv_updatesPage sv = Some svc"
    "delta_body le sv c parties key b latestPruned ledgerEnd svc w = (Inr (Patched r), w')"
proof -
  from assms(1) obtain ledgerEnd pruned svc outcome w1 where svc: "sv_updatesPage sv = Some svc"
    and body: "async_catch (delta_body le sv c parties key b pruned ledgerEnd svc) (\<lambda>e. async_return Fall_Back) w
      = (Inr outcome, w1)"
    and outcome: "(case outcome of
         Fall_Back \<Rightarrow> async_return None
       | Patched r \<Rightarrow> async_return (Some r)
       | Unchanged \<Rightarrow>
           async_bind (writeSnapshotAsync sv c parties key (cs_activeAtOffset b)
               (cs_contracts b) (cs_creationMetadata b) Noop_Refresh (Some ''0'') None)
             (\<lambda>r. async_return (Some r))) w1 = (Inr (Some r), w')"
    by (auto simp: tryDeltaRefreshAsync_def async_Inr_iff split: option.splits)
  have "outcome = Patched r \<and> w1 = w'"
    using outcome assms(2) by (cases outcome) (auto simp: async_Inr_iff write_snapshot_done)
  with body have "delta_body le sv c parties key b pruned ledgerEnd svc w = (Inr (Patched r), w')"
    by (auto simp: async_catch_def async_return_def split: prod.splits sum.splits)
  with svc show ?thesis by (rule that)
qed

lemma config_max_updates:
  assumes "checkCacheConfig c = Inr ()" obtains m where "max_updates c b = Whole m"
proof (cases "gc_maxUpdates c")
  case (Some n)
  with assms obtain m where "n = Whole m"
    by (cases n) (auto simp: checkCacheConfig_def at_least_def validation_def split: if_splits)
  with Some that show ?thesis by (simp add: max_updates_def)
qed (use that in \<open>simp add: max_updates_def\<close>)

lemma delta_is_download:
  assumes delta: "tryDeltaRefreshAsync le sv c parties key b w = (Inr (Some r), w')" "re_refresh r = Delta_Refresh"
    and config: "checkCacheConfig c = Inr ()"
    and ledger: "append_only updates" "\<And>svc. sv_updatesPage sv = Some svc \<Longrightarrow> answers_from svc updates"
    and base: "parseCacheOffset (Q_Str (cs_activeAtOffset b)) = Some lo"
      "materializes le (acs lo) (cs_contracts b) (cs_creationMetadata b)"
    and active: "\<And>hi entries. lo < hi \<Longrightarrow> collect_updates (updates lo hi) = Some entries \<Longrightarrow>
       mset (acs hi) = mset (acs_after (acs lo) entries)"
    and le: "total_preorder le" "\<And>hi. separates le (acs_texts (acs hi))"
  shows "\<exists>hi w1 r'. lo < hi \<and> re_activeAtOffset r = string_of_int hi
    \<and> store_download le sv c parties key (Some b) (string_of_int hi) (acs hi) w1 = (Inr r', w')
    \<and> re_activeAtOffset r' = re_activeAtOffset r \<and> re_contractCount r' = re_contractCount r
    \<and> re_expiresAt r' = re_expiresAt r"
proof -
  obtain pruned ledgerEnd svc where svc: "sv_updatesPage sv = Some svc"
    "delta_body le sv c parties key b pruned ledgerEnd svc w = (Inr (Patched r), w')"
    using delta_outcome_refresh [OF delta] .
  obtain lo' hi w0 where b0: "parseCacheOffset (Q_Str (cs_activeAtOffset b)) = Some lo'" "lo' \<le> hi"
    "delta_between le sv c parties key b svc lo' hi w0 = (Inr (Patched r), w')"
    using delta_body_Inr [OF svc(2) delta_outcome.distinct(2)] .
  then have same: "lo' = lo" using base(1) by simp
  obtain w1 entries st rows metadata where d: "lo < hi"
    "readDeltaWindowAsync c svc parties b lo hi w0 = (Inr (Some entries), w1)"
    "apply_entries (set (map cr_contractId (cs_contracts b))) ([], []) entries = Some st"
    "patch_snapshot le b st = Inr (rows, metadata)"
    "writeSnapshotAsync sv c parties key (string_of_int hi) rows metadata Delta_Refresh
       (Some (string_of_int (hi - lo))) (Some (length entries)) w1 = (Inr r, w')"
    using delta_between_patched [OF b0(3,2), unfolded same] .
  obtain m where m: "max_updates c b = Whole m" using config_max_updates [OF config] .
  have "collect_updates (updates lo hi) = Some entries"
    using window_is_complete(1) [OF d(2) m ledger(1) ledger(2) [OF svc(1)]] .
  then have "mset (acs hi) = mset (acs_after (acs lo) entries)" by (rule active [OF d(1)])
  then have "materializes le (acs hi) rows metadata"
    using le by (intro patch_materializes [OF base(2) d(3,4)])
  then obtain r' where "store_download le sv c parties key (Some b) (string_of_int hi) (acs hi) w1 = (Inr r', w')"
    "re_activeAtOffset r' = re_activeAtOffset r" "re_contractCount r' = re_contractCount r"
    "re_expiresAt r' = re_expiresAt r"
    using write_is_download [OF _ d(5)] by metis
  moreover have "re_activeAtOffset r = string_of_int hi" using d(5) by (auto simp: write_snapshot_done)
  ultimately show ?thesis using d(1) by (intro exI [of _ hi] exI [of _ w1] exI [of _ r'] conjI)
qed

end
