(* ===== verification/Query_Schema.thy ===== *)
theory Query_Schema
  imports Ledger_Values
begin

text \<open>
  The relations of the query layer, their fields and their edges
  (\<^verbatim>\<open>src/src/query/canonical/query-schema.ts\<close>), and the normalized queries
  (\<^verbatim>\<open>src/src/query/canonical/query-ast.ts\<close>).
\<close>

section \<open>Relations\<close>

datatype query_relation =
    Contracts | Contract_Types | Events | Exercises | Exercise_Types | Packages | Transactions | Watermark

definition queryRelations :: "query_relation list" where
  "queryRelations = [Contracts, Contract_Types, Events, Exercises, Exercise_Types, Packages, Transactions, Watermark]"

instantiation query_relation :: enum
begin

definition enum_query_relation :: "query_relation list" where
  "enum_query_relation = queryRelations"

definition enum_all_query_relation :: "(query_relation \<Rightarrow> bool) \<Rightarrow> bool" where
  "enum_all_query_relation P \<longleftrightarrow> list_all P queryRelations"

definition enum_ex_query_relation :: "(query_relation \<Rightarrow> bool) \<Rightarrow> bool" where
  "enum_ex_query_relation P \<longleftrightarrow> list_ex P queryRelations"

instance
proof intro_classes
  have all: "r \<in> set queryRelations" for r :: query_relation
    by (cases r) (simp_all add: queryRelations_def)
  then show "UNIV = set (enum_class.enum :: query_relation list)" by (auto simp: enum_query_relation_def)
  show "distinct (enum_class.enum :: query_relation list)"
    by (simp add: enum_query_relation_def queryRelations_def)
  show "enum_class.enum_all P = Ball (UNIV :: query_relation set) P" for P
    using all by (auto simp: enum_all_query_relation_def list_all_iff)
  show "enum_class.enum_ex P = Bex (UNIV :: query_relation set) P" for P
    using all by (auto simp: enum_ex_query_relation_def list_ex_iff)
qed

end

definition relation_name :: "query_relation \<Rightarrow> string" where
  "relation_name r =
     (case r of
        Contracts \<Rightarrow> ''contracts''
      | Contract_Types \<Rightarrow> ''contractTypes''
      | Events \<Rightarrow> ''events''
      | Exercises \<Rightarrow> ''exercises''
      | Exercise_Types \<Rightarrow> ''exerciseTypes''
      | Packages \<Rightarrow> ''packages''
      | Transactions \<Rightarrow> ''transactions''
      | Watermark \<Rightarrow> ''watermark'')"

datatype cardinality = To_One | To_Many

record relation_edge =
  ed_target :: query_relation
  ed_cardinality :: cardinality
  ed_nullable :: bool

abbreviation one_edge :: "query_relation \<Rightarrow> bool \<Rightarrow> relation_edge" where
  "one_edge target nullable \<equiv> \<lparr>ed_target = target, ed_cardinality = To_One, ed_nullable = nullable\<rparr>"

abbreviation many_edge :: "query_relation \<Rightarrow> relation_edge" where
  "many_edge target \<equiv> \<lparr>ed_target = target, ed_cardinality = To_Many, ed_nullable = False\<rparr>"

text \<open>The watermark has no entry in the table of the code.\<close>

definition queryRelationEdges :: "query_relation \<Rightarrow> (string \<times> relation_edge) list" where
  "queryRelationEdges relation =
     (case relation of
        Contracts \<Rightarrow>
          [(''contractType'', one_edge Contract_Types False),
           (''createdTransaction'', one_edge Transactions False),
           (''archivedTransaction'', one_edge Transactions True),
           (''exercises'', many_edge Exercises)]
      | Contract_Types \<Rightarrow>
          [(''contracts'', many_edge Contracts),
           (''exercises'', many_edge Exercises)]
      | Events \<Rightarrow>
          [(''transaction'', one_edge Transactions False),
           (''exercises'', many_edge Exercises)]
      | Exercises \<Rightarrow>
          [(''exerciseType'', one_edge Exercise_Types False),
           (''contractType'', one_edge Contract_Types False),
           (''event'', one_edge Events True),
           (''transaction'', one_edge Transactions True),
           (''package'', one_edge Packages False),
           (''contract'', one_edge Contracts True)]
      | Exercise_Types \<Rightarrow>
          [(''exercises'', many_edge Exercises)]
      | Packages \<Rightarrow>
          [(''exercises'', many_edge Exercises)]
      | Transactions \<Rightarrow>
          [(''events'', many_edge Events),
           (''createdContracts'', many_edge Contracts),
           (''archivedContracts'', many_edge Contracts),
           (''exercises'', many_edge Exercises)]
      | Watermark \<Rightarrow> [])"

record relation_metadata =
  rm_fields :: "string list"
  rm_uniqueKeys :: "string list list"
  rm_stableOrder :: "string list"
  rm_orderFields :: "string list"
  rm_groupFields :: "string list"
  rm_numericFields :: "string list"
  rm_arrayFields :: "string list"
  rm_dateFields :: "string list"
  rm_binaryFields :: "string list"
  rm_booleanFields :: "string list"
  rm_nullableFields :: "string list"
  rm_stringFields :: "string list"
  rm_jsonFields :: "string list"
  rm_bucketFields :: "string list"

definition queryRelationMetadata :: "query_relation \<Rightarrow> relation_metadata" where
  "queryRelationMetadata relation =
     (case relation of
        Contracts \<Rightarrow>
          \<lparr>rm_fields = [''contractId'', ''templateId'', ''packageId'', ''payload'',
                         ''witnesses'', ''createdEventOffset'', ''createdAt'',
                         ''archivedEventOffset'', ''archivedAt'', ''active''],
           rm_uniqueKeys = [[''contractId'']],
           rm_stableOrder = [''contractId''],
           rm_orderFields = [''contractId'', ''createdEventOffset'', ''createdAt'',
                              ''archivedEventOffset'', ''archivedAt''],
           rm_groupFields = [''contractId'', ''createdEventOffset'', ''createdAt'',
                              ''archivedEventOffset'', ''archivedAt'', ''witnesses''],
           rm_numericFields = [''createdEventOffset'', ''archivedEventOffset''],
           rm_arrayFields = [''witnesses''],
           rm_dateFields = [''createdAt'', ''archivedAt''],
           rm_binaryFields = [],
           rm_booleanFields = [''active''],
           rm_nullableFields = [''packageId'', ''createdAt'', ''archivedEventOffset'',
                                 ''archivedAt''],
           rm_stringFields = [''contractId'', ''packageId''],
           rm_jsonFields = [''payload''],
           rm_bucketFields = []\<rparr>
      | Contract_Types \<Rightarrow>
          \<lparr>rm_fields = [''pk'', ''payloadType'', ''aliases'', ''packageName'', ''moduleName'',
                         ''entityName'', ''templateFqn''],
           rm_uniqueKeys = [[''pk'']],
           rm_stableOrder = [''pk''],
           rm_orderFields = [''pk'', ''payloadType'', ''aliases'', ''packageName'',
                              ''moduleName'', ''entityName'', ''templateFqn''],
           rm_groupFields = [''pk'', ''payloadType'', ''aliases'', ''packageName'',
                              ''moduleName'', ''entityName'', ''templateFqn''],
           rm_numericFields = [''pk''],
           rm_arrayFields = [''aliases''],
           rm_dateFields = [],
           rm_binaryFields = [],
           rm_booleanFields = [],
           rm_nullableFields = [],
           rm_stringFields = [''payloadType'', ''packageName'', ''moduleName'', ''entityName'',
                               ''templateFqn''],
           rm_jsonFields = [],
           rm_bucketFields = []\<rparr>
      | Events \<Rightarrow>
          \<lparr>rm_fields = [''pk'', ''txIx'', ''eventId'', ''type''],
           rm_uniqueKeys = [[''pk'']],
           rm_stableOrder = [''pk''],
           rm_orderFields = [''pk'', ''txIx'', ''eventId'', ''type''],
           rm_groupFields = [''pk'', ''txIx'', ''eventId'', ''type''],
           rm_numericFields = [''pk'', ''txIx''],
           rm_arrayFields = [],
           rm_dateFields = [],
           rm_binaryFields = [],
           rm_booleanFields = [],
           rm_nullableFields = [],
           rm_stringFields = [''eventId'', ''type''],
           rm_jsonFields = [],
           rm_bucketFields = []\<rparr>
      | Exercises \<Rightarrow>
          \<lparr>rm_fields = [''tpePk'', ''contractTpePk'', ''exerciseEventPk'', ''exercisedAtIx'',
                         ''contractId'', ''argument'', ''result'', ''redactionId'',
                         ''packagePk'', ''controllers'', ''lastDescendantNodeId'', ''witnesses''],
           rm_uniqueKeys = [],
           rm_stableOrder = [''tpePk'', ''contractTpePk'', ''exerciseEventPk'', ''contractId''],
           rm_orderFields = [''tpePk'', ''contractTpePk'', ''exerciseEventPk'',
                              ''exercisedAtIx'', ''contractId'', ''argument'', ''result'',
                              ''redactionId'', ''packagePk'', ''controllers'',
                              ''lastDescendantNodeId'', ''witnesses''],
           rm_groupFields = [''tpePk'', ''contractTpePk'', ''exerciseEventPk'',
                              ''exercisedAtIx'', ''contractId'', ''argument'', ''result'',
                              ''redactionId'', ''packagePk'', ''controllers'',
                              ''lastDescendantNodeId'', ''witnesses''],
           rm_numericFields = [''tpePk'', ''contractTpePk'', ''exerciseEventPk'',
                                ''exercisedAtIx'', ''packagePk'', ''lastDescendantNodeId''],
           rm_arrayFields = [''controllers'', ''witnesses''],
           rm_dateFields = [],
           rm_binaryFields = [],
           rm_booleanFields = [],
           rm_nullableFields = [''exerciseEventPk'', ''exercisedAtIx'', ''redactionId''],
           rm_stringFields = [''contractId'', ''redactionId''],
           rm_jsonFields = [''argument'', ''result''],
           rm_bucketFields = []\<rparr>
      | Exercise_Types \<Rightarrow>
          \<lparr>rm_fields = [''pk'', ''choice'', ''consuming'', ''aliases'', ''packageName'',
                         ''moduleName'', ''entityName'', ''templateFqn'', ''choiceFqn''],
           rm_uniqueKeys = [[''pk'']],
           rm_stableOrder = [''pk''],
           rm_orderFields = [''pk'', ''choice'', ''consuming'', ''aliases'', ''packageName'',
                              ''moduleName'', ''entityName'', ''templateFqn'', ''choiceFqn''],
           rm_groupFields = [''pk'', ''choice'', ''consuming'', ''aliases'', ''packageName'',
                              ''moduleName'', ''entityName'', ''templateFqn'', ''choiceFqn''],
           rm_numericFields = [''pk''],
           rm_arrayFields = [''aliases''],
           rm_dateFields = [],
           rm_binaryFields = [],
           rm_booleanFields = [''consuming''],
           rm_nullableFields = [],
           rm_stringFields = [''choice'', ''packageName'', ''moduleName'', ''entityName'',
                               ''templateFqn'', ''choiceFqn''],
           rm_jsonFields = [],
           rm_bucketFields = []\<rparr>
      | Packages \<Rightarrow>
          \<lparr>rm_fields = [''pk'', ''name'', ''version'', ''id''],
           rm_uniqueKeys = [[''pk''], [''id'']],
           rm_stableOrder = [''pk''],
           rm_orderFields = [''pk'', ''name'', ''version'', ''id''],
           rm_groupFields = [''pk'', ''name'', ''version'', ''id''],
           rm_numericFields = [''pk''],
           rm_arrayFields = [],
           rm_dateFields = [],
           rm_binaryFields = [],
           rm_booleanFields = [],
           rm_nullableFields = [],
           rm_stringFields = [''name'', ''version'', ''id''],
           rm_jsonFields = [],
           rm_bucketFields = []\<rparr>
      | Transactions \<Rightarrow>
          \<lparr>rm_fields = [''ix'', ''offset'', ''transactionId'', ''effectiveAt'', ''workflowId'',
                         ''domainId'', ''traceContext'', ''externalTransactionHash'',
                         ''paidTrafficCost''],
           rm_uniqueKeys = [[''ix''], [''offset'']],
           rm_stableOrder = [''ix''],
           rm_orderFields = [''ix'', ''offset'', ''transactionId'', ''effectiveAt'',
                              ''workflowId'', ''domainId'', ''traceContext'',
                              ''externalTransactionHash'', ''paidTrafficCost''],
           rm_groupFields = [''ix'', ''offset'', ''transactionId'', ''effectiveAt'',
                              ''workflowId'', ''domainId'', ''traceContext'',
                              ''externalTransactionHash'', ''paidTrafficCost''],
           rm_numericFields = [''ix'', ''offset'', ''paidTrafficCost''],
           rm_arrayFields = [],
           rm_dateFields = [''effectiveAt''],
           rm_binaryFields = [''externalTransactionHash''],
           rm_booleanFields = [],
           rm_nullableFields = [''transactionId'', ''effectiveAt'', ''workflowId'',
                                 ''domainId'', ''traceContext'', ''externalTransactionHash'',
                                 ''paidTrafficCost''],
           rm_stringFields = [''transactionId'', ''workflowId'', ''domainId''],
           rm_jsonFields = [''traceContext''],
           rm_bucketFields = [''effectiveAt'']\<rparr>
      | Watermark \<Rightarrow>
          \<lparr>rm_fields = [''singleton'', ''ix'', ''offset'', ''instanceId''],
           rm_uniqueKeys = [[''singleton'']],
           rm_stableOrder = [''singleton''],
           rm_orderFields = [''singleton'', ''ix'', ''offset'', ''instanceId''],
           rm_groupFields = [''singleton'', ''ix'', ''offset'', ''instanceId''],
           rm_numericFields = [''ix'', ''offset''],
           rm_arrayFields = [],
           rm_dateFields = [],
           rm_binaryFields = [],
           rm_booleanFields = [''singleton''],
           rm_nullableFields = [''ix'', ''offset'', ''instanceId''],
           rm_stringFields = [''instanceId''],
           rm_jsonFields = [],
           rm_bucketFields = []\<rparr>)"

section \<open>Normalized queries\<close>

datatype scalar_operator =
    Op_equals | Op_in | Op_is | Op_isNot | Op_lt | Op_lte | Op_gt | Op_gte | Op_like | Op_ilike | Op_has

datatype quantifier = Quantify_One | Quantify_Some | Quantify_None | Quantify_Every

datatype query_predicate =
    P_And "query_predicate list"
  | P_Or "query_predicate list"
  | P_Not query_predicate
  | P_Scalar "string list" scalar_operator qvalue   \<comment> \<open>path, operator, value\<close>
  | P_Relation string quantifier query_predicate    \<comment> \<open>edge\<close>

datatype order_direction = Ascending | Descending

record normalized_order =
  no_path :: "string list"
  no_direction :: order_direction

datatype json_scalar_type = As_Text | As_Numeric | As_Boolean | As_Timestamp

record json_selection =
  jp_name :: string
  jp_field :: string
  jp_path :: "string list"
  jp_as :: json_scalar_type

record normalized_selection =
  sl_fields :: "string list"
  sl_json :: "json_selection list"

datatype normalized_include =
  Include (ni_edge: string) (ni_relation: query_relation) (ni_cardinality: cardinality)
    (ni_predicate: "query_predicate option") (ni_select: "normalized_selection option")
    (ni_includes: "normalized_include list") (ni_orderBy: "normalized_order list") (ni_skip: nat)
    (ni_take: "nat option")

record find_many_query =
  fm_relation :: query_relation
  fm_parties :: "string list option"
  fm_predicate :: "query_predicate option"
  fm_select :: "normalized_selection option"
  fm_includes :: "normalized_include list"
  fm_orderBy :: "normalized_order list"
  fm_skip :: nat
  fm_take :: "nat option"
  fm_activeOnly :: bool

record find_unique_query =
  fu_relation :: query_relation
  fu_predicate :: query_predicate
  fu_select :: "normalized_selection option"
  fu_includes :: "normalized_include list"

record count_query =
  cq_relation :: query_relation
  cq_parties :: "string list option"
  cq_predicate :: "query_predicate option"
  cq_activeOnly :: bool

record aggregate_selection =
  ag_count :: bool
  ag_min :: "string list"
  ag_max :: "string list"
  ag_sum :: "string list"

record aggregate_query =
  aq_relation :: query_relation
  aq_predicate :: "query_predicate option"
  aq_aggregates :: aggregate_selection

datatype time_bucket = Hour | Day | Week | Month

datatype group_key =
    Group_Field "string list"
  | Group_Json string string "string list" json_scalar_type   \<comment> \<open>field, name, path, type\<close>
  | Group_Bucket "string list" time_bucket

record group_by_query =
  gb_relation :: query_relation
  gb_predicate :: "query_predicate option"
  gb_by :: "group_key list"
  gb_aggregates :: aggregate_selection

end
