(* ===== verification/Query_Text.thy ===== *)
theory Query_Text
  imports Query_Schema
begin

text \<open>
  The JavaScript operations on values that the queries rest on: property reads, texts, JSON, and the
  comparisons \<^verbatim>\<open>at\<close>, \<^verbatim>\<open>equal\<close>, \<^verbatim>\<open>compare\<close>, \<^verbatim>\<open>numeric\<close> and
  \<^verbatim>\<open>postgresCompare\<close> of \<^verbatim>\<open>src/src/query/canonical/in-memory-query-evaluator.ts\<close>.

  A date is printed and parsed by the host where the standard leaves it open: \<open>dh_string\<close> is
  \<^verbatim>\<open>String(date)\<close>, which depends on the time zone, and \<open>dh_parse\<close> the time value of a text that
  is not an instant as \<^verbatim>\<open>toISOString\<close> prints it. What the model does not cover (a property of a
  host object, the source text of a function) is the error
  \<open>Unmodelled\<close>.
\<close>

record date_host =
  dh_string :: "int \<Rightarrow> string"
  dh_parse :: "string \<Rightarrow> js_num"

section \<open>Dates\<close>

text \<open>\<^verbatim>\<open>toISOString\<close>, with the six-digit years outside 0 to 9999.\<close>

definition iso_instant :: "int \<Rightarrow> string" where
  "iso_instant ms =
     (case civil_date (ms div 86400000) of (y, m, d) \<Rightarrow>
        if 0 \<le> y \<and> y \<le> 9999 then iso_milliseconds ms
        else (if y < 0 then CHR ''-'' # pad_digits 6 (- y) else CHR ''+'' # pad_digits 6 y)
          @ drop (length (pad_digits 4 y)) (iso_milliseconds ms))"

definition toISOString :: "js_num \<Rightarrow> string result" where
  "toISOString t =
     (case t of Whole ms \<Rightarrow> Inr (iso_instant ms) | Not_Finite \<Rightarrow> Inl (RangeError ''Invalid time value''))"

text \<open>\<^verbatim>\<open>new Date(text).getTime()\<close>.\<close>

definition digits_at :: "string \<Rightarrow> nat \<Rightarrow> nat \<Rightarrow> int" where
  "digits_at s i n = int (nat_of_digits (take n (drop i s)))"

definition iso_shape :: "string \<Rightarrow> bool" where
  "iso_shape s \<longleftrightarrow>
     length s = 24 \<and>
     list_all (\<lambda>i. is_digit (s ! i)) [0, 1, 2, 3, 5, 6, 8, 9, 11, 12, 14, 15, 17, 18, 20, 21, 22] \<and>
     list_all (\<lambda>(i, c). s ! i = c)
       [(4, CHR ''-''), (7, CHR ''-''), (10, CHR ''T''), (13, CHR '':''), (16, CHR '':''),
        (19, CHR ''.''), (23, CHR ''Z'')]"

definition iso_fields_valid :: "string \<Rightarrow> bool" where
  "iso_fields_valid s \<longleftrightarrow>
     valid_civil (digits_at s 0 4) (digits_at s 5 2) (digits_at s 8 2) \<and>
     digits_at s 11 2 < 24 \<and> digits_at s 14 2 < 60 \<and> digits_at s 17 2 < 60"

definition parse_instant :: "date_host \<Rightarrow> string \<Rightarrow> js_num" where
  "parse_instant h s =
     (if iso_shape s \<and> iso_fields_valid s then
        Whole (((civil_day (digits_at s 0 4) (digits_at s 5 2) (digits_at s 8 2) * 24 + digits_at s 11 2) * 60
          + digits_at s 14 2) * 60000 + digits_at s 17 2 * 1000 + digits_at s 20 3)
      else dh_parse h s)"

section \<open>Texts\<close>

definition q_nullish :: "qvalue \<Rightarrow> bool" where
  "q_nullish v \<longleftrightarrow> v = Q_Null \<or> v = Q_Undef"

definition not_a_primitive :: "(string \<times> qvalue) list \<Rightarrow> string result" where
  "not_a_primitive ps =
     (if map_of ps ''toString'' = Some (Q_Host Function) \<or> map_of ps ''valueOf'' = Some (Q_Host Function)
      then Inl (Unmodelled ''a call of a function of the data'')
      else Inl (PlainError ''Cannot convert object to primitive value''))"

text \<open>\<^verbatim>\<open>String(v)\<close>\<close>

fun js_text :: "date_host \<Rightarrow> qvalue \<Rightarrow> string result" where
  "js_text h Q_Undef = Inr ''undefined''"
| "js_text h Q_Null = Inr ''null''"
| "js_text h (Q_Bool b) = Inr (if b then ''true'' else ''false'')"
| "js_text h (Q_Num (Whole n)) = Inr (string_of_int n)"
| "js_text h (Q_Num Not_Finite) = Inl (Unmodelled ''the text of a number that is not finite'')"
| "js_text h (Q_Str s) = Inr s"
| "js_text h (Q_Date (Whole t)) = Inr (dh_string h t)"
| "js_text h (Q_Date Not_Finite) = Inr ''Invalid Date''"
| "js_text h (Q_Bytes bs) = Inr (joined '','' (map digits_of_nat bs))"
| "js_text h (Q_Arr vs) =
     bind_result (map_result (\<lambda>v. if q_nullish v then Inr [] else js_text h v) vs) (\<lambda>ts.
       Inr (joined '','' ts))"
| "js_text h (Q_Obj ps) =
     (if ''toString'' \<in> fst ` set ps then not_a_primitive ps else Inr ''[object Object]'')"
| "js_text h (Q_Map ps) = Inr ''[object Map]''"
| "js_text h (Q_Set vs) = Inr ''[object Set]''"
| "js_text h (Q_Host k) = Inl (Unmodelled ''the text of a host object'')"

text \<open>\<^verbatim>\<open>JSON.stringify(v)\<close>; a value that JSON leaves out is \<open>None\<close>.\<close>

fun json_text :: "qvalue \<Rightarrow> string option" where
  "json_text Q_Undef = None"
| "json_text Q_Null = Some ''null''"
| "json_text (Q_Bool b) = Some (if b then ''true'' else ''false'')"
| "json_text (Q_Num n) = Some (case n of Whole i \<Rightarrow> string_of_int i | Not_Finite \<Rightarrow> ''null'')"
| "json_text (Q_Str s) = Some (json_string s)"
| "json_text (Q_Date t) = Some (case t of Whole ms \<Rightarrow> json_string (iso_instant ms) | Not_Finite \<Rightarrow> ''null'')"
| "json_text (Q_Bytes bs) =
     Some (''{'' @ joined '',''
       (map (\<lambda>(i, b). json_string (digits_of_nat i) @ '':'' @ digits_of_nat b) (zip [0..<length bs] bs)) @ ''}'')"
| "json_text (Q_Arr vs) =
     Some (''['' @ joined '','' (map (\<lambda>v. case json_text v of Some s \<Rightarrow> s | None \<Rightarrow> ''null'') vs) @ '']'')"
| "json_text (Q_Obj ps) =
     Some (''{'' @ joined '','' (concat (map (\<lambda>(k, v). case json_text v of
         Some s \<Rightarrow> [json_string k @ '':'' @ s] | None \<Rightarrow> []) ps)) @ ''}'')"
| "json_text (Q_Map ps) = Some ''{}''"
| "json_text (Q_Set vs) = Some ''{}''"
| "json_text (Q_Host k) = (if k = Function then None else Some ''{}'')"

section \<open>Property reads\<close>

text \<open>
  \<open>v[k]\<close> of a plain object or an array. A member of the prototype is a function, and
  \<^verbatim>\<open>__proto__\<close> is an object, or an array, without elements of its own.
\<close>

definition element_index :: "string \<Rightarrow> nat option" where
  "element_index k = (if is_index k then Some (nat_of_digits k) else None)"

definition array_prototype :: "string list" where
  "array_prototype =
     [''at'', ''concat'', ''copyWithin'', ''entries'', ''every'', ''fill'', ''filter'', ''find'', ''findIndex'',
      ''findLast'', ''findLastIndex'', ''flat'', ''flatMap'', ''forEach'', ''includes'', ''indexOf'', ''join'',
      ''keys'', ''lastIndexOf'', ''map'', ''pop'', ''push'', ''reduce'', ''reduceRight'', ''reverse'', ''shift'',
      ''slice'', ''some'', ''sort'', ''splice'', ''toReversed'', ''toSorted'', ''toSpliced'', ''unshift'',
      ''values'', ''with'']"

definition property_of :: "qvalue \<Rightarrow> string \<Rightarrow> qvalue result" where
  "property_of v k =
     (case v of
        Q_Obj ps \<Rightarrow> Inr (case map_of ps k of
            Some w \<Rightarrow> w
          | None \<Rightarrow> if k = ''__proto__'' then Q_Obj []
                    else if k \<in> set object_prototype then Q_Host Function else Q_Undef)
      | Q_Arr vs \<Rightarrow>
          (case element_index k of
             Some i \<Rightarrow> Inr (if i < length vs then vs ! i else Q_Undef)
           | None \<Rightarrow>
               Inr (if k = ''length'' then Q_Num (Whole (int (length vs)))
                    else if k = ''__proto__'' then Q_Arr []
                    else if k \<in> set (array_prototype @ object_prototype) then Q_Host Function else Q_Undef))
      | _ \<Rightarrow> Inl (Unmodelled ''a property of a host object''))"

text \<open>\<^verbatim>\<open>at\<close>\<close>

fun read_at :: "qvalue \<Rightarrow> string list \<Rightarrow> qvalue result" where
  "read_at v [] = Inr v"
| "read_at v (k # ks) =
     (if \<not> q_is_object v then Inr Q_Undef
      else bind_result (property_of v k) (\<lambda>w. read_at w ks))"

section \<open>Equality\<close>

text \<open>\<^verbatim>\<open>Array.from(v)\<close>\<close>

definition array_from :: "qvalue \<Rightarrow> qvalue result" where
  "array_from v =
     (case v of
        Q_Bytes bs \<Rightarrow> Inr (Q_Arr (map (\<lambda>b. Q_Num (Whole (int b))) bs))
      | Q_Arr vs \<Rightarrow> Inr v
      | Q_Str s \<Rightarrow> Inr (Q_Arr (map (\<lambda>c. Q_Str [c]) s))
      | Q_Set vs \<Rightarrow> Inr (Q_Arr vs)
      | Q_Map ps \<Rightarrow> Inr (Q_Arr (map (\<lambda>(k, w). Q_Arr [k, w]) ps))
      | Q_Obj ps \<Rightarrow>
          if ''length'' \<in> fst ` set ps then Inl (Unmodelled ''an array-like object'') else Inr (Q_Arr [])
      | Q_Undef \<Rightarrow> Inl (PlainError ''TypeError'')
      | Q_Null \<Rightarrow> Inl (PlainError ''TypeError'')
      | Q_Host k \<Rightarrow> Inl (Unmodelled ''an array of a host object'')
      | _ \<Rightarrow> Inr (Q_Arr []))"

definition is_bytes :: "qvalue \<Rightarrow> bool" where
  "is_bytes v = (case v of Q_Bytes _ \<Rightarrow> True | _ \<Rightarrow> False)"

text \<open>\<^verbatim>\<open>equal\<close>\<close>

definition query_equal :: "date_host \<Rightarrow> qvalue \<Rightarrow> qvalue \<Rightarrow> bool result" where
  "query_equal h left right =
     (case left of
        Q_Date t \<Rightarrow>
          bind_result (toISOString t) (\<lambda>l.
          bind_result (case right of Q_Date u \<Rightarrow> toISOString u | _ \<Rightarrow> js_text h right) (\<lambda>r.
          Inr (l = r)))
      | _ \<Rightarrow>
        (case right of
           Q_Date u \<Rightarrow>
             bind_result (js_text h left) (\<lambda>l. bind_result (toISOString u) (\<lambda>r. Inr (l = r)))
         | _ \<Rightarrow>
           if is_bytes left \<or> is_bytes right then
             bind_result (array_from left) (\<lambda>l.
             bind_result (array_from right) (\<lambda>r. Inr (json_text l = json_text r)))
           else Inr (json_text left = json_text right)))"

section \<open>Order\<close>

text \<open>\<^verbatim>\<open>numeric\<close>: the value of \<^verbatim>\<open>/^-?\d+$/\<close>, and of a number.\<close>

definition query_numeric :: "qvalue \<Rightarrow> int option" where
  "query_numeric v =
     (case v of
        Q_Str s \<Rightarrow> if all_digits (unsigned_part s) then Some (big_integer s) else None
      | Q_Num (Whole n) \<Rightarrow> Some n
      | _ \<Rightarrow> None)"

text \<open>\<open>a < b\<close> of big integers (left) and texts (right): a text that meets a big integer is read as one, and
  if that fails the comparison is false.\<close>

definition primitive_less :: "int + string \<Rightarrow> int + string \<Rightarrow> bool" where
  "primitive_less a b =
     (case (a, b) of
        (Inl m, Inl n) \<Rightarrow> m < n
      | (Inr s, Inr t) \<Rightarrow> s < t
      | (Inl m, Inr t) \<Rightarrow> (case bigint_of_string t of Inr n \<Rightarrow> m < n | Inl _ \<Rightarrow> False)
      | (Inr s, Inl n) \<Rightarrow> (case bigint_of_string s of Inr m \<Rightarrow> m < n | Inl _ \<Rightarrow> False))"

definition comparison_key :: "date_host \<Rightarrow> qvalue \<Rightarrow> (int + string) result" where
  "comparison_key h v =
     (case query_numeric v of
        Some n \<Rightarrow> Inr (Inl n)
      | None \<Rightarrow> bind_result (js_text h v) (\<lambda>s. Inr (Inr s)))"

definition sign_of :: "('a \<Rightarrow> 'a \<Rightarrow> bool) \<Rightarrow> 'a \<Rightarrow> 'a \<Rightarrow> int" where
  "sign_of lt a b = (if lt a b then - 1 else if lt b a then 1 else 0)"

definition instant_of :: "date_host \<Rightarrow> qvalue \<Rightarrow> js_num result" where
  "instant_of h v =
     (case v of
        Q_Date t \<Rightarrow> Inr t
      | _ \<Rightarrow> bind_result (js_text h v) (\<lambda>s. Inr (parse_instant h s)))"

definition is_date :: "qvalue \<Rightarrow> bool" where
  "is_date v = (case v of Q_Date _ \<Rightarrow> True | _ \<Rightarrow> False)"

text \<open>\<^verbatim>\<open>compare\<close>; \<open>None\<close> is \<^verbatim>\<open>NaN\<close>.\<close>

definition query_compare :: "date_host \<Rightarrow> qvalue \<Rightarrow> qvalue \<Rightarrow> int option result" where
  "query_compare h left right =
     (if q_nullish left \<or> q_nullish right then Inr None
      else if is_date left \<or> is_date right then
        bind_result (instant_of h left) (\<lambda>l.
        bind_result (instant_of h right) (\<lambda>r.
        Inr (case (l, r) of (Whole t, Whole u) \<Rightarrow> Some (sign_of (<) t u) | _ \<Rightarrow> None)))
      else
        bind_result (comparison_key h left) (\<lambda>l.
        bind_result (comparison_key h right) (\<lambda>r.
        Inr (Some (sign_of primitive_less l r)))))"

text \<open>\<^verbatim>\<open>postgresCompare\<close>: nulls last when ascending, first when descending.\<close>

definition postgresCompare :: "date_host \<Rightarrow> qvalue \<Rightarrow> qvalue \<Rightarrow> order_direction \<Rightarrow> int option result" where
  "postgresCompare h left right direction =
     (if q_nullish left \<or> q_nullish right then
        Inr (Some (if q_nullish left \<and> q_nullish right then 0
          else if q_nullish left = (direction = Ascending) then 1 else - 1))
      else
        bind_result (query_compare h left right) (\<lambda>c.
        Inr (if direction = Ascending then c else map_option uminus c)))"

end
