(* ===== verification/Query_Dataset.thy ===== *)
theory Query_Dataset
  imports Query_Text
begin

text \<open>
  The data source of the queries: rows, unique keys and edges, validated and indexed once
  (\<^verbatim>\<open>createQueryDataset\<close> of \<^verbatim>\<open>src/src/query/canonical/query-dataset.ts\<close>), and the rows an edge
  leads to (\<^verbatim>\<open>relatedQueryRows\<close>).

  A row of the compiled dataset is a fresh object, so it is named by its relation and its position.
  The weak maps of the code remember the compiled dataset of an input object and the relations a row
  object belongs to; the model compiles an input to a value of another type, and a position belongs
  to a relation when it is below the number of its rows.
\<close>

type_synonym query_row = "(string \<times> qvalue) list"

record edge_lookup =
  el_complete :: qvalue
  el_from :: "string list option"
  el_to :: "string list option"
  el_privateKeys :: "(qvalue list list \<times> qvalue list list) option"

record query_dataset =
  qd_rows :: "query_relation \<Rightarrow> query_row list option"
  qd_edges :: "query_relation \<Rightarrow> (string \<times> edge_lookup) list option"
  qd_uniqueKeys :: "query_relation \<Rightarrow> string list list option"

record edge_index =
  ei_targets :: "(string \<times> nat list) list"
  ei_sourcePrivateKeys :: "qvalue list list option"

record compiled_dataset =
  cd_rows :: "query_relation \<Rightarrow> query_row list"
  cd_edges :: "query_relation \<Rightarrow> (string \<times> edge_lookup) list"
  cd_indexes :: "query_relation \<Rightarrow> (string \<times> edge_index) list"

section \<open>Snapshots\<close>

definition immutable_row :: "query_row \<Rightarrow> query_row" where
  "immutable_row row = map (\<lambda>(k, v). (k, immutableQueryValue v)) row"

definition immutable_lookup :: "edge_lookup \<Rightarrow> edge_lookup" where
  "immutable_lookup lookup =
     lookup\<lparr>el_complete := immutableQueryValue (el_complete lookup),
       el_privateKeys := map_option (\<lambda>(source, target).
         (map (map immutableQueryValue) source, map (map immutableQueryValue) target))
         (el_privateKeys lookup)\<rparr>"

definition immutable_dataset :: "query_dataset \<Rightarrow> query_dataset" where
  "immutable_dataset input =
     \<lparr>qd_rows = map_option (map immutable_row) \<circ> qd_rows input,
      qd_edges = map_option (map (\<lambda>(e, l). (e, immutable_lookup l))) \<circ> qd_edges input,
      qd_uniqueKeys = qd_uniqueKeys input\<rparr>"

section \<open>Paths and keys\<close>

definition datasetPaths :: "query_relation \<Rightarrow> string list" where
  "datasetPaths relation =
     rm_fields (queryRelationMetadata relation) @
     (if relation = Contracts then
        [''templateId.packageId'', ''templateId.moduleName'', ''templateId.entityName''] else [])"

text \<open>\<^verbatim>\<open>hasPath\<close>, for the paths of \<open>datasetPaths\<close>: none of their segments is a property of an array or
  of a host object.\<close>

fun has_segments :: "qvalue \<Rightarrow> string list \<Rightarrow> bool" where
  "has_segments v [] = True"
| "has_segments v (k # ks) =
     (case v of
        Q_Obj ps \<Rightarrow> (case map_of ps k of Some w \<Rightarrow> has_segments w ks | None \<Rightarrow> False)
      | _ \<Rightarrow> False)"

definition hasPath :: "query_row \<Rightarrow> string \<Rightarrow> bool" where
  "hasPath row path = has_segments (Q_Obj row) (split_on CHR ''.'' path)"

definition atPath :: "query_row \<Rightarrow> string \<Rightarrow> qvalue result" where
  "atPath row path = read_at (Q_Obj row) (split_on CHR ''.'' path)"

definition key_value :: "qvalue \<Rightarrow> qvalue result" where
  "key_value v =
     (case v of
        Q_Date t \<Rightarrow> bind_result (toISOString t) (\<lambda>s. Inr (Q_Str s))
      | Q_Bytes bs \<Rightarrow> Inr (Q_Arr (map (\<lambda>b. Q_Num (Whole (int b))) bs))
      | _ \<Rightarrow> Inr v)"

definition compositeKey :: "qvalue list \<Rightarrow> string result" where
  "compositeKey values =
     bind_result (map_result key_value values) (\<lambda>vs. Inr (the (json_text (Q_Arr vs))))"

section \<open>Validation\<close>

definition dataset_error :: "string \<Rightarrow> 'a result" where
  "dataset_error message = Inl (PlainError (''Dataset '' @ message))"

definition edge_label :: "query_relation \<Rightarrow> string \<Rightarrow> string" where
  "edge_label relation edge = relation_name relation @ ''.'' @ edge"

definition check :: "bool \<Rightarrow> string \<Rightarrow> unit result" where
  "check holds message = (if holds then Inr () else dataset_error message)"

definition validatePaths :: "query_relation \<Rightarrow> query_row list \<Rightarrow> string list \<Rightarrow> string \<Rightarrow> unit result" where
  "validatePaths relation rows paths label =
     bind_result (each_result (\<lambda>path.
       check (path \<in> set (datasetPaths relation)) (label @ '' path '' @ path @ '' is invalid'')) paths) (\<lambda>_.
     each_result (\<lambda>row. each_result (\<lambda>path.
       check (hasPath row path) (label @ '' path '' @ path @ '' is invalid'')) paths) rows)"

definition row_key :: "query_row \<Rightarrow> string list \<Rightarrow> string result" where
  "row_key row paths = bind_result (map_result (atPath row) paths) compositeKey"

fun check_unique :: "string \<Rightarrow> string list \<Rightarrow> string list \<Rightarrow> query_row list \<Rightarrow> unit result" where
  "check_unique label paths seen [] = Inr ()"
| "check_unique label paths seen (row # rows) =
     bind_result (row_key row paths) (\<lambda>key.
       if key \<in> set seen then dataset_error (label @ '' is not unique'')
       else check_unique label paths (key # seen) rows)"

definition validateUniquePaths ::
    "query_relation \<Rightarrow> query_row list \<Rightarrow> string list \<Rightarrow> string \<Rightarrow> unit result" where
  "validateUniquePaths relation rows paths label =
     bind_result (check (paths \<noteq> []) (label @ '' is empty'')) (\<lambda>_.
     bind_result (validatePaths relation rows paths label) (\<lambda>_.
     check_unique label paths [] rows))"

definition validatePrivateKeys ::
    "query_relation \<Rightarrow> string \<Rightarrow> qvalue list list \<times> qvalue list list \<Rightarrow> query_row list \<Rightarrow>
     query_row list \<Rightarrow> unit result" where
  "validatePrivateKeys relation edge keys sourceRows targetRows =
     (case keys of (source, target) \<Rightarrow>
        if length source \<noteq> length sourceRows then
          dataset_error (edge_label relation edge @ '' private source length differs'')
        else if length target \<noteq> length targetRows then
          dataset_error (edge_label relation edge @ '' private target length differs'')
        else if source = [] \<and> target = [] then Inr ()
        else
          let arity = length (if source \<noteq> [] then hd source else hd target) in
          check (arity \<noteq> 0 \<and> list_all (\<lambda>key. length key = arity) source
              \<and> list_all (\<lambda>key. length key = arity) target)
            (edge_label relation edge @ '' private lookup arity differs''))"

section \<open>Indexes\<close>

text \<open>\<^verbatim>\<open>buckets.set(key, [...(buckets.get(key) ?? []), target])\<close>\<close>

definition bucket_of :: "(string \<times> nat list) list \<Rightarrow> string \<Rightarrow> nat list" where
  "bucket_of buckets key = (case map_of buckets key of Some is \<Rightarrow> is | None \<Rightarrow> [])"

definition add_to_bucket :: "(string \<times> nat list) list \<Rightarrow> nat \<times> string \<Rightarrow> (string \<times> nat list) list" where
  "add_to_bucket buckets = (\<lambda>(i, key). AList.update key (bucket_of buckets key @ [i]) buckets)"

definition buckets_of :: "string list \<Rightarrow> (string \<times> nat list) list" where
  "buckets_of keys = foldl add_to_bucket [] (zip [0..<length keys] keys)"

definition source_values :: "edge_lookup \<Rightarrow> query_row list \<Rightarrow> nat \<Rightarrow> qvalue list result" where
  "source_values lookup rows i =
     (case el_privateKeys lookup of
        None \<Rightarrow> map_result (atPath (rows ! i)) (case el_from lookup of Some paths \<Rightarrow> paths | None \<Rightarrow> [])
      | Some (source, target) \<Rightarrow> Inr (source ! i))"

definition check_target :: "edge_lookup \<Rightarrow> query_row list \<Rightarrow> (string \<times> nat list) list \<Rightarrow> string \<Rightarrow> nat \<Rightarrow> unit result" where
  "check_target lookup rows buckets label i =
     bind_result (source_values lookup rows i) (\<lambda>values.
       if list_ex q_nullish values then dataset_error (label @ '' has no target'')
       else bind_result (compositeKey values) (\<lambda>key.
         check (map_of buckets key \<noteq> None) (label @ '' has no target'')))"

definition target_keys ::
    "query_relation \<Rightarrow> string \<Rightarrow> relation_edge \<Rightarrow> edge_lookup \<Rightarrow> query_row list \<Rightarrow> query_row list \<Rightarrow>
     string list result" where
  "target_keys relation edge definition lookup rows targetRows =
     (case el_privateKeys lookup of
        Some (source, target) \<Rightarrow>
          if el_from lookup \<noteq> None \<or> el_to lookup \<noteq> None then
            dataset_error (edge_label relation edge @ '' cannot mix public and private lookup keys'')
          else
            bind_result (validatePrivateKeys relation edge (source, target) rows targetRows) (\<lambda>_.
            map_result compositeKey target)
      | None \<Rightarrow>
          (case (el_from lookup, el_to lookup) of
             (Some from, Some to) \<Rightarrow>
               if length from \<noteq> length to then
                 dataset_error (edge_label relation edge @ '' lookup arity differs'')
               else
                 bind_result (validatePaths relation rows from (edge_label relation edge @ '' source'')) (\<lambda>_.
                 bind_result (validatePaths (ed_target definition) targetRows to
                   (edge_label relation edge @ '' target'')) (\<lambda>_.
                 map_result (\<lambda>row. row_key row to) targetRows))
           | _ \<Rightarrow> dataset_error (edge_label relation edge @ '' lookup is missing public paths'')))"

definition compile_edge ::
    "query_relation \<Rightarrow> string \<Rightarrow> relation_edge \<Rightarrow> edge_lookup \<Rightarrow> query_row list \<Rightarrow> query_row list \<Rightarrow>
     edge_index result" where
  "compile_edge relation edge definition lookup rows targetRows =
     bind_result (check (case el_complete lookup of Q_Undef \<Rightarrow> True | Q_Bool _ \<Rightarrow> True | _ \<Rightarrow> False)
       (edge_label relation edge @ '' completeness marker is invalid'')) (\<lambda>_.
     bind_result (target_keys relation edge definition lookup rows targetRows) (\<lambda>keys.
     let buckets = buckets_of keys in
     bind_result
       (if ed_cardinality definition = To_One \<and> list_ex (\<lambda>(key, targets). length targets > 1) buckets then
          dataset_error (edge_label relation edge @ '' has multiple to-one targets'')
        else if ed_cardinality definition = To_One \<and> \<not> ed_nullable definition
            \<and> el_complete lookup \<noteq> Q_Bool False then
          each_result (check_target lookup rows buckets (edge_label relation edge)) [0..<length rows]
        else Inr ()) (\<lambda>_.
     Inr \<lparr>ei_targets = buckets, ei_sourcePrivateKeys = map_option fst (el_privateKeys lookup)\<rparr>)))"

definition present :: "'a option \<Rightarrow> string \<Rightarrow> 'a result" where
  "present x message = (case x of Some y \<Rightarrow> Inr y | None \<Rightarrow> dataset_error message)"

definition compile_relation ::
    "query_dataset \<Rightarrow> query_relation \<Rightarrow> (query_relation \<times> (string \<times> edge_index) list) result" where
  "compile_relation dataset relation =
     bind_result (present (qd_rows dataset relation)
       (''is missing '' @ relation_name relation @ '' rows'')) (\<lambda>rows.
     bind_result (present (qd_edges dataset relation)
       (''is missing '' @ relation_name relation @ '' edges'')) (\<lambda>lookups.
     bind_result (map_result (\<lambda>(edge, definition).
       bind_result (present (map_of lookups edge)
         (''is missing '' @ edge_label relation edge @ '' edge'')) (\<lambda>lookup.
       bind_result (compile_edge relation edge definition lookup rows
         (the (qd_rows dataset (ed_target definition)))) (\<lambda>index.
       Inr (edge, index)))) (queryRelationEdges relation)) (\<lambda>indexes.
     bind_result (check (list_all (\<lambda>(edge, _). edge \<in> set object_prototype \<or>
         map_of (queryRelationEdges relation) edge \<noteq> None) lookups)
       (relation_name relation @ '' declares an unknown edge'')) (\<lambda>_.
     Inr (relation, indexes)))))"

definition validate_unique_keys :: "query_dataset \<Rightarrow> query_relation \<Rightarrow> unit result" where
  "validate_unique_keys dataset relation =
     bind_result (present (qd_uniqueKeys dataset relation)
       (''is missing '' @ relation_name relation @ '' unique keys'')) (\<lambda>keys.
     each_result (\<lambda>key. validateUniquePaths relation (the (qd_rows dataset relation)) key
       (relation_name relation @ '' unique key'')) keys)"

definition createQueryDataset :: "query_dataset \<Rightarrow> compiled_dataset result" where
  "createQueryDataset input =
     (let dataset = immutable_dataset input in
      bind_result (each_result (\<lambda>relation. bind_result (present (qd_rows input relation)
        (''is missing '' @ relation_name relation @ '' rows'')) (\<lambda>_. Inr ())) queryRelations) (\<lambda>_.
      bind_result (each_result (validate_unique_keys dataset) queryRelations) (\<lambda>_.
      bind_result (map_result (compile_relation dataset) queryRelations) (\<lambda>indexes.
      Inr \<lparr>cd_rows = the \<circ> qd_rows dataset, cd_edges = the \<circ> qd_edges dataset,
           cd_indexes = the \<circ> map_of indexes\<rparr>))))"

section \<open>Related rows\<close>

definition incomplete_edge :: "query_relation \<Rightarrow> string \<Rightarrow> js_error" where
  "incomplete_edge relation edge =
     PlainError (''Dataset edge '' @ edge_label relation edge @ '' is incomplete'')"

definition relatedQueryRows ::
    "compiled_dataset \<Rightarrow> query_relation \<Rightarrow> nat \<Rightarrow> string \<Rightarrow> nat list result" where
  "relatedQueryRows compiled relation i edge =
     (case (map_of (cd_edges compiled relation) edge, map_of (cd_indexes compiled relation) edge) of
        (Some lookup, Some index) \<Rightarrow>
          if \<not> i < length (cd_rows compiled relation) then
            Inl (PlainError (''Query row does not belong to '' @ relation_name relation @ '' dataset''))
          else if el_complete lookup = Q_Bool False then Inl (incomplete_edge relation edge)
          else
            bind_result
              (case el_privateKeys lookup of
                 None \<Rightarrow> source_values lookup (cd_rows compiled relation) i
               | Some _ \<Rightarrow> Inr (the (ei_sourcePrivateKeys index) ! i)) (\<lambda>values.
            if list_ex q_nullish values then Inr []
            else bind_result (compositeKey values) (\<lambda>key. Inr (bucket_of (ei_targets index) key)))
      | _ \<Rightarrow> Inl (PlainError (''Missing deterministic lookup for '' @ edge_label relation edge)))"

end
