(* ===== verification/Query_Evaluation.thy ===== *)
theory Query_Evaluation
  imports Query_Dataset
begin

text \<open>
  The reference evaluator of normalized queries:
  \<^verbatim>\<open>src/src/query/canonical/in-memory-query-evaluator.ts\<close>. A row is named by its position in its
  relation. \<^verbatim>\<open>Array.prototype.sort\<close> is the stable sort of \<open>JS_Ordering\<close>, where a comparison that is
  not a number counts as zero; when a comparison throws, what the sort has compared before depends on
  the algorithm, and the model gives no result.
\<close>

section \<open>Patterns\<close>

text \<open>\<^verbatim>\<open>sqlLike\<close>: the expression that is built, one element for a literal, a \<^verbatim>\<open>.\<close> or a \<^verbatim>\<open>.*\<close>.\<close>

datatype like_token = Literal char | Any_Char | Any_Text

fun like_tokens :: "string \<Rightarrow> like_token list" where
  "like_tokens [] = []"
| "like_tokens [c] =
     [if c = CHR ''%'' then Any_Text else if c = CHR ''_'' then Any_Char else Literal c]"
| "like_tokens (c # d # s) =
     (if c = CHR 0x5C then Literal d # like_tokens s
      else (if c = CHR ''%'' then Any_Text else if c = CHR ''_'' then Any_Char else Literal c)
        # like_tokens (d # s))"

text \<open>The simple case folding of the \<^verbatim>\<open>iu\<close> flags, for code units up to 255.\<close>

definition fold_case :: "char \<Rightarrow> char" where
  "fold_case c =
     (let n = of_char c :: nat in
      if (65 \<le> n \<and> n \<le> 90) \<or> (192 \<le> n \<and> n \<le> 222 \<and> n \<noteq> 215) then char_of (n + 32) else c)"

definition same_char :: "bool \<Rightarrow> char \<Rightarrow> char \<Rightarrow> bool" where
  "same_char insensitive c d \<longleftrightarrow> (if insensitive then fold_case c = fold_case d else c = d)"

fun like_test :: "bool \<Rightarrow> like_token list \<Rightarrow> string \<Rightarrow> bool" where
  "like_test insensitive [] s = (s = [])"
| "like_test insensitive (Literal c # ts) s =
     (case s of [] \<Rightarrow> False | d # s' \<Rightarrow> same_char insensitive c d \<and> like_test insensitive ts s')"
| "like_test insensitive (Any_Char # ts) s = (case s of [] \<Rightarrow> False | d # s' \<Rightarrow> like_test insensitive ts s')"
| "like_test insensitive (Any_Text # ts) s =
     (like_test insensitive ts s \<or>
      (case s of [] \<Rightarrow> False | d # s' \<Rightarrow> like_test insensitive (Any_Text # ts) s'))"

definition sqlLike :: "string \<Rightarrow> string \<Rightarrow> bool \<Rightarrow> bool" where
  "sqlLike value pattern insensitive = like_test insensitive (like_tokens pattern) value"

section \<open>Predicates\<close>

definition texts_like :: "qvalue \<Rightarrow> qvalue \<Rightarrow> bool \<Rightarrow> bool" where
  "texts_like actual expected insensitive =
     (case (actual, expected) of (Q_Str s, Q_Str p) \<Rightarrow> sqlLike s p insensitive | _ \<Rightarrow> False)"

definition compared :: "date_host \<Rightarrow> qvalue \<Rightarrow> qvalue \<Rightarrow> (int \<Rightarrow> bool) \<Rightarrow> bool result" where
  "compared h actual expected test =
     bind_result (query_compare h actual expected) (\<lambda>c.
       Inr (case c of Some n \<Rightarrow> test n | None \<Rightarrow> False))"

definition scalar_matches :: "date_host \<Rightarrow> qvalue \<Rightarrow> scalar_operator \<Rightarrow> qvalue \<Rightarrow> bool result" where
  "scalar_matches h actual operator expected =
     (case operator of
        Op_equals \<Rightarrow>
          if q_nullish actual \<or> q_nullish expected then Inr False else query_equal h actual expected
      | Op_in \<Rightarrow>
          (case expected of
             Q_Arr candidates \<Rightarrow>
               if q_nullish actual then Inr False
               else some_result (\<lambda>candidate.
                 if q_nullish candidate then Inr False else query_equal h actual candidate) candidates
           | _ \<Rightarrow> Inr False)
      | Op_is \<Rightarrow> Inr (q_nullish actual)
      | Op_isNot \<Rightarrow> Inr (\<not> q_nullish actual)
      | Op_lt \<Rightarrow> compared h actual expected (\<lambda>n. n < 0)
      | Op_lte \<Rightarrow> compared h actual expected (\<lambda>n. n \<le> 0)
      | Op_gt \<Rightarrow> compared h actual expected (\<lambda>n. n > 0)
      | Op_gte \<Rightarrow> compared h actual expected (\<lambda>n. n \<ge> 0)
      | Op_like \<Rightarrow> Inr (texts_like actual expected False)
      | Op_ilike \<Rightarrow> Inr (texts_like actual expected True)
      | Op_has \<Rightarrow>
          (case actual of
             Q_Arr entries \<Rightarrow> some_result (\<lambda>entry. query_equal h entry expected) entries
           | _ \<Rightarrow> Inr False))"

definition row_at :: "compiled_dataset \<Rightarrow> query_relation \<Rightarrow> nat \<Rightarrow> query_row" where
  "row_at dataset relation i = cd_rows dataset relation ! i"

definition unknown_edge :: "query_relation \<Rightarrow> string \<Rightarrow> js_error" where
  "unknown_edge relation edge =
     PlainError
       (if relation \<noteq> Watermark \<and> edge \<in> set object_prototype then
          ''Missing deterministic lookup for '' @ edge_label relation edge
        else ''Unknown '' @ edge_label relation edge @ '' edge'')"

definition quantified :: "quantifier \<Rightarrow> bool list \<Rightarrow> bool" where
  "quantified quantifier results =
     (case quantifier of
        Quantify_One \<Rightarrow> results \<noteq> [] \<and> hd results
      | Quantify_Some \<Rightarrow> list_ex id results
      | Quantify_None \<Rightarrow> \<not> list_ex id results
      | Quantify_Every \<Rightarrow> list_all id results)"

fun matches ::
    "date_host \<Rightarrow> compiled_dataset \<Rightarrow> query_relation \<Rightarrow> nat \<Rightarrow> query_predicate \<Rightarrow> bool result" where
  "matches h dataset relation i (P_And children) =
     every_result (\<lambda>child. matches h dataset relation i child) children"
| "matches h dataset relation i (P_Or children) =
     some_result (\<lambda>child. matches h dataset relation i child) children"
| "matches h dataset relation i (P_Not child) =
     bind_result (matches h dataset relation i child) (\<lambda>b. Inr (\<not> b))"
| "matches h dataset relation i (P_Relation edge quantifier predicate) =
     (case map_of (queryRelationEdges relation) edge of
        None \<Rightarrow> Inl (unknown_edge relation edge)
      | Some definition \<Rightarrow>
          bind_result (relatedQueryRows dataset relation i edge) (\<lambda>related.
          bind_result (map_result (\<lambda>j. matches h dataset (ed_target definition) j predicate) related)
            (\<lambda>results. Inr (quantified quantifier results))))"
| "matches h dataset relation i (P_Scalar path operator expected) =
     bind_result (read_at (Q_Obj (row_at dataset relation i)) path) (\<lambda>actual.
       scalar_matches h actual operator expected)"

definition sees_party :: "date_host \<Rightarrow> string list \<Rightarrow> query_row \<Rightarrow> bool result" where
  "sees_party h parties row =
     (case q_get row ''witnesses'' of
        Q_Arr witnesses \<Rightarrow>
          some_result (\<lambda>party. bind_result (js_text h party) (\<lambda>s. Inr (s \<in> set parties))) witnesses
      | _ \<Rightarrow> Inr False)"

definition row_passes ::
    "date_host \<Rightarrow> compiled_dataset \<Rightarrow> query_relation \<Rightarrow> query_predicate option \<Rightarrow> string list option \<Rightarrow> bool \<Rightarrow>
     nat \<Rightarrow> bool result" where
  "row_passes h dataset relation predicate parties activeOnly i =
     (if activeOnly \<and> q_get (row_at dataset relation i) ''active'' \<noteq> Q_Bool True then Inr False
      else
        bind_result (case parties of None \<Rightarrow> Inr True | Some ps \<Rightarrow> sees_party h ps (row_at dataset relation i))
          (\<lambda>seen.
          if \<not> seen then Inr False
          else case predicate of None \<Rightarrow> Inr True | Some p \<Rightarrow> matches h dataset relation i p))"

definition filtered ::
    "date_host \<Rightarrow> compiled_dataset \<Rightarrow> query_relation \<Rightarrow> query_predicate option \<Rightarrow> string list option \<Rightarrow> bool \<Rightarrow>
     nat list result" where
  "filtered h dataset relation predicate parties activeOnly =
     filter_result (row_passes h dataset relation predicate parties activeOnly)
       [0..<length (cd_rows dataset relation)]"

section \<open>Order\<close>

text \<open>The comparison of two decorated rows: the first order key that tells them apart, else their places.\<close>

fun row_compare :: "date_host \<Rightarrow> normalized_order list \<Rightarrow> nat \<times> query_row \<Rightarrow> nat \<times> query_row \<Rightarrow> int option result" where
  "row_compare h [] left right = Inr (Some (int (fst left) - int (fst right)))"
| "row_compare h (order # orders) left right =
     bind_result (read_at (Q_Obj (snd left)) (no_path order)) (\<lambda>l.
     bind_result (read_at (Q_Obj (snd right)) (no_path order)) (\<lambda>r.
     bind_result (postgresCompare h l r (no_direction order)) (\<lambda>c.
       if c \<noteq> Some 0 then Inr c else row_compare h orders left right)))"

definition not_after :: "int option result \<Rightarrow> bool" where
  "not_after c = (case c of Inr (Some n) \<Rightarrow> n \<le> 0 | _ \<Rightarrow> True)"

definition is_value :: "'a result \<Rightarrow> bool" where
  "is_value r = (case r of Inr _ \<Rightarrow> True | Inl _ \<Rightarrow> False)"

definition order_rows ::
    "date_host \<Rightarrow> compiled_dataset \<Rightarrow> query_relation \<Rightarrow> normalized_order list \<Rightarrow> nat list \<Rightarrow> nat list result" where
  "order_rows h dataset relation orders rows =
     (let decorated = zip [0..<length rows] rows;
          view = (\<lambda>(place, i). (place, row_at dataset relation i)) in
      if list_all (\<lambda>l. list_all (\<lambda>r. is_value (row_compare h orders (view l) (view r))) decorated) decorated
      then Inr (map snd (sort_by (\<lambda>l r. not_after (row_compare h orders (view l) (view r))) decorated))
      else Inl (Unmodelled ''a sort whose comparison throws''))"

definition slice :: "nat \<Rightarrow> nat option \<Rightarrow> 'a list \<Rightarrow> 'a list" where
  "slice skip limit xs = (case limit of None \<Rightarrow> drop skip xs | Some n \<Rightarrow> take n (drop skip xs))"

section \<open>Results\<close>

definition project :: "date_host \<Rightarrow> qvalue \<Rightarrow> json_scalar_type \<Rightarrow> qvalue result" where
  "project h v as_type =
     (if q_nullish v then Inr Q_Null
      else case as_type of
        As_Boolean \<Rightarrow> Inr (Q_Bool (v = Q_Bool True \<or> v = Q_Str ''true''))
      | As_Timestamp \<Rightarrow> bind_result (instant_of h v) (\<lambda>t. Inr (Q_Date t))
      | _ \<Rightarrow> bind_result (js_text h v) (\<lambda>s. Inr (Q_Str s)))"

text \<open>\<^verbatim>\<open>result[k] = v\<close>: assigning to \<^verbatim>\<open>__proto__\<close> makes no property.\<close>

definition assign_property :: "string \<Rightarrow> qvalue \<Rightarrow> query_row \<Rightarrow> query_row" where
  "assign_property k v row = (if k = ''__proto__'' then row else obj_set k v row)"

definition selected_fields :: "query_row \<Rightarrow> normalized_selection option \<Rightarrow> query_row" where
  "selected_fields row selection =
     (let chosen = (case selection of Some s \<Rightarrow> sl_fields s | None \<Rightarrow> map fst row) in
      obj_from_entries (map (\<lambda>field. (field, immutableQueryValue (q_get row field)))
        (filter (\<lambda>field. field \<in> fst ` set row) chosen)))"

fun add_projections :: "date_host \<Rightarrow> query_row \<Rightarrow> json_selection list \<Rightarrow> query_row \<Rightarrow> query_row result" where
  "add_projections h row [] acc = Inr acc"
| "add_projections h row (p # ps) acc =
     bind_result (read_at (Q_Obj row) (jp_field p # jp_path p)) (\<lambda>v.
     bind_result (project h v (jp_as p)) (\<lambda>w.
     add_projections h row ps (assign_property (jp_name p) w acc)))"

definition shape_fields ::
    "date_host \<Rightarrow> compiled_dataset \<Rightarrow> query_relation \<Rightarrow> nat \<Rightarrow> normalized_selection option \<Rightarrow> query_row result" where
  "shape_fields h dataset relation i selection =
     (let row = row_at dataset relation i in
      add_projections h row (case selection of Some s \<Rightarrow> sl_json s | None \<Rightarrow> [])
        (selected_fields row selection))"

definition included_value :: "cardinality \<Rightarrow> query_row list \<Rightarrow> qvalue" where
  "included_value cardinality rows =
     (case cardinality of
        To_Many \<Rightarrow> Q_Arr (map Q_Obj rows)
      | To_One \<Rightarrow> (case rows of [] \<Rightarrow> Q_Null | row # _ \<Rightarrow> Q_Obj row))"

definition include_rows ::
    "date_host \<Rightarrow> compiled_dataset \<Rightarrow> query_relation \<Rightarrow> nat \<Rightarrow> string \<Rightarrow> query_relation \<Rightarrow> query_predicate option \<Rightarrow>
     normalized_order list \<Rightarrow> nat \<Rightarrow> nat option \<Rightarrow> nat list result" where
  "include_rows h dataset relation i edge target predicate orderBy skip limit =
     bind_result (relatedQueryRows dataset relation i edge) (\<lambda>related.
     bind_result (filter_result (\<lambda>j. case predicate of None \<Rightarrow> Inr True
       | Some p \<Rightarrow> matches h dataset target j p) related) (\<lambda>targets.
     bind_result (order_rows h dataset target orderBy targets) (\<lambda>ordered.
     Inr (slice skip limit ordered))))"

fun add_includes ::
    "date_host \<Rightarrow> compiled_dataset \<Rightarrow> query_relation \<Rightarrow> nat \<Rightarrow> normalized_include list \<Rightarrow> query_row \<Rightarrow>
     query_row result" where
  "add_includes h dataset relation i [] acc = Inr acc"
| "add_includes h dataset relation i
     (Include edge target cardinality predicate select nested orderBy skip limit # rest) acc =
     bind_result (include_rows h dataset relation i edge target predicate orderBy skip limit) (\<lambda>targets.
     bind_result (map_result (\<lambda>j.
       bind_result (shape_fields h dataset target j select) (\<lambda>row.
       add_includes h dataset target j nested row)) targets) (\<lambda>bounded.
     add_includes h dataset relation i rest
       (assign_property edge (included_value cardinality bounded) acc)))"

definition shape ::
    "date_host \<Rightarrow> compiled_dataset \<Rightarrow> query_relation \<Rightarrow> nat \<Rightarrow> normalized_selection option \<Rightarrow>
     normalized_include list \<Rightarrow> query_row result" where
  "shape h dataset relation i selection inclusions =
     bind_result (shape_fields h dataset relation i selection) (\<lambda>row.
     add_includes h dataset relation i inclusions row)"

definition findMany :: "date_host \<Rightarrow> compiled_dataset \<Rightarrow> find_many_query \<Rightarrow> query_row list result" where
  "findMany h dataset query =
     bind_result (filtered h dataset (fm_relation query) (fm_predicate query) (fm_parties query)
       (fm_activeOnly query)) (\<lambda>rows.
     bind_result (order_rows h dataset (fm_relation query) (fm_orderBy query) rows) (\<lambda>rows.
     map_result (\<lambda>i. shape h dataset (fm_relation query) i (fm_select query) (fm_includes query))
       (slice (fm_skip query) (fm_take query) rows)))"

section \<open>Aggregates\<close>

datatype aggregate_operation = Aggregate_Min | Aggregate_Max | Aggregate_Sum

definition operation_name :: "aggregate_operation \<Rightarrow> string" where
  "operation_name operation =
     (case operation of Aggregate_Min \<Rightarrow> ''min'' | Aggregate_Max \<Rightarrow> ''max'' | Aggregate_Sum \<Rightarrow> ''sum'')"

definition operation_fields :: "aggregate_selection \<Rightarrow> aggregate_operation \<Rightarrow> string list" where
  "operation_fields selection operation =
     (case operation of
        Aggregate_Min \<Rightarrow> ag_min selection
      | Aggregate_Max \<Rightarrow> ag_max selection
      | Aggregate_Sum \<Rightarrow> ag_sum selection)"

definition better :: "aggregate_operation \<Rightarrow> int \<Rightarrow> int \<Rightarrow> int" where
  "better operation winner n =
     (if operation = Aggregate_Min then if n < winner then n else winner
      else if n > winner then n else winner)"

definition combine_numbers :: "aggregate_operation \<Rightarrow> int list \<Rightarrow> int" where
  "combine_numbers operation ns =
     (if operation = Aggregate_Sum then foldl (+) 0 ns else foldl (better operation) (hd ns) (tl ns))"

definition aggregate_values :: "date_host \<Rightarrow> qvalue list \<Rightarrow> aggregate_operation \<Rightarrow> qvalue result" where
  "aggregate_values h vs operation =
     (let present = filter (\<lambda>v. \<not> q_nullish v) vs in
      if present = [] then Inr Q_Null
      else bind_result (map_result (\<lambda>v. bind_result (js_text h v) bigint_of_string) present) (\<lambda>ns.
        Inr (Q_Str (string_of_int (combine_numbers operation ns)))))"

definition aggregate_field ::
    "date_host \<Rightarrow> compiled_dataset \<Rightarrow> query_relation \<Rightarrow> nat list \<Rightarrow> aggregate_operation \<Rightarrow> string \<Rightarrow> qvalue result" where
  "aggregate_field h dataset relation rows operation field =
     bind_result (map_result (\<lambda>i. read_at (Q_Obj (row_at dataset relation i)) [field]) rows) (\<lambda>vs.
       aggregate_values h vs operation)"

definition operations :: "aggregate_operation list" where
  "operations = [Aggregate_Min, Aggregate_Max, Aggregate_Sum]"

definition length_of_rows :: "nat list \<Rightarrow> qvalue" where
  "length_of_rows rows = Q_Num (Whole (int (length rows)))"

definition aggregate_operation_result ::
    "date_host \<Rightarrow> compiled_dataset \<Rightarrow> aggregate_query \<Rightarrow> nat list \<Rightarrow> aggregate_operation \<Rightarrow> query_row result" where
  "aggregate_operation_result h dataset query rows operation =
     (let selected = operation_fields (aq_aggregates query) operation in
      if selected = [] then Inr []
      else
        bind_result (each_result (\<lambda>field.
          if field \<in> set (rm_numericFields (queryRelationMetadata (aq_relation query))) then Inr ()
          else Inl (PlainError (field @ '' is not a numeric aggregate field of ''
            @ relation_name (aq_relation query)))) selected) (\<lambda>_.
        bind_result (map_result (\<lambda>field. bind_result
          (aggregate_field h dataset (aq_relation query) rows operation field) (\<lambda>v. Inr (field, v))) selected)
          (\<lambda>entries. Inr [(operation_name operation, Q_Obj (obj_from_entries entries))])))"

definition aggregate :: "date_host \<Rightarrow> compiled_dataset \<Rightarrow> aggregate_query \<Rightarrow> nat list \<Rightarrow> query_row result" where
  "aggregate h dataset query rows =
     bind_result (map_result (aggregate_operation_result h dataset query rows) operations) (\<lambda>parts.
       Inr ((if ag_count (aq_aggregates query) then [(''count'', length_of_rows rows)] else []) @ concat parts))"

section \<open>Groups\<close>

definition cartesian :: "'a list list \<Rightarrow> 'a list list" where
  "cartesian parts = foldl (\<lambda>prefixes part. concat (map (\<lambda>prefix. map (\<lambda>v. prefix @ [v]) part) prefixes)) [[]] parts"

definition keyIdentity :: "qvalue \<Rightarrow> qvalue result" where
  "keyIdentity v = (case v of Q_Date t \<Rightarrow> bind_result (toISOString t) (\<lambda>s. Inr (Q_Str s)) | _ \<Rightarrow> Inr v)"

definition bucket_name :: "time_bucket \<Rightarrow> string" where
  "bucket_name unit =
     (case unit of Hour \<Rightarrow> ''hour'' | Day \<Rightarrow> ''day'' | Week \<Rightarrow> ''week'' | Month \<Rightarrow> ''month'')"

definition groupName :: "group_key \<Rightarrow> string" where
  "groupName key =
     (case key of
        Group_Field path \<Rightarrow> joined ''_'' path
      | Group_Json field name path as_type \<Rightarrow> name
      | Group_Bucket path unit \<Rightarrow> joined ''_'' path @ ''_'' @ bucket_name unit)"

text \<open>The arithmetic of the date setters on a finite time value, clipped to the range of dates.\<close>

definition day_ms :: int where
  "day_ms = 86400000"

definition time_clip :: "int \<Rightarrow> js_num" where
  "time_clip t = (if \<bar>t\<bar> \<le> 8640000000000000 then Whole t else Not_Finite)"

definition bucket_start :: "time_bucket \<Rightarrow> int \<Rightarrow> int" where
  "bucket_start unit t =
     (let n = t div day_ms in
      case unit of
        Hour \<Rightarrow> t - t mod 3600000
      | Day \<Rightarrow> n * day_ms
      | Week \<Rightarrow>
          let weekday = (n + 4) mod 7; day = (if weekday = 0 then 7 else weekday) in (n - day + 1) * day_ms
      | Month \<Rightarrow> (case civil_date n of (_, _, d) \<Rightarrow> (n - d + 1) * day_ms))"

definition bucket :: "date_host \<Rightarrow> qvalue \<Rightarrow> time_bucket \<Rightarrow> qvalue result" where
  "bucket h v unit =
     (if q_nullish v then Inr Q_Null
      else bind_result (instant_of h v) (\<lambda>t.
        Inr (case t of Not_Finite \<Rightarrow> Q_Null | Whole ms \<Rightarrow> Q_Date (time_clip (bucket_start unit ms)))))"

definition groupValues ::
    "date_host \<Rightarrow> compiled_dataset \<Rightarrow> query_relation \<Rightarrow> nat \<Rightarrow> group_key \<Rightarrow> qvalue list result" where
  "groupValues h dataset relation i key =
     (let row = Q_Obj (row_at dataset relation i) in
      case key of
        Group_Field path \<Rightarrow>
          bind_result (read_at row path) (\<lambda>v. Inr (case v of Q_Arr vs \<Rightarrow> vs | _ \<Rightarrow> [v]))
      | Group_Json field name path as_type \<Rightarrow>
          bind_result (read_at row (field # path)) (\<lambda>v.
          bind_result (project h v as_type) (\<lambda>w. Inr [w]))
      | Group_Bucket path unit \<Rightarrow>
          bind_result
            (if length path = 1 then read_at row path
             else bind_result (relatedQueryRows dataset relation i (hd path)) (\<lambda>related.
               case related of
                 [] \<Rightarrow> Inr Q_Undef
               | j # _ \<Rightarrow>
                   read_at (Q_Obj (row_at dataset
                     (ed_target (the (map_of (queryRelationEdges relation) (hd path)))) j)) [path ! 1]))
            (\<lambda>v. bind_result (bucket h v unit) (\<lambda>w. Inr [w])))"

type_synonym group_map = "(string \<times> (qvalue list \<times> nat list)) list"

definition group_identity :: "qvalue list \<Rightarrow> string result" where
  "group_identity keys =
     bind_result (map_result keyIdentity keys) (\<lambda>vs. Inr (the (json_text (Q_Arr vs))))"

definition add_to_group :: "nat \<Rightarrow> group_map \<Rightarrow> qvalue list \<times> string \<Rightarrow> group_map" where
  "add_to_group i groups = (\<lambda>(keys, identity).
     case map_of groups identity of
       None \<Rightarrow> AList.update identity (keys, [i]) groups
     | Some (first, rows) \<Rightarrow> AList.update identity (first, rows @ [i]) groups)"

definition row_keys :: "date_host \<Rightarrow> compiled_dataset \<Rightarrow> group_by_query \<Rightarrow> nat \<Rightarrow> (qvalue list \<times> string) list result" where
  "row_keys h dataset query i =
     bind_result (map_result (groupValues h dataset (gb_relation query) i) (gb_by query)) (\<lambda>variants.
       map_result (\<lambda>keys. bind_result (group_identity keys) (\<lambda>identity. Inr (keys, identity)))
         (cartesian variants))"

fun group_rows :: "date_host \<Rightarrow> compiled_dataset \<Rightarrow> group_by_query \<Rightarrow> nat list \<Rightarrow> group_map \<Rightarrow> group_map result" where
  "group_rows h dataset query [] groups = Inr groups"
| "group_rows h dataset query (i # rows) groups =
     bind_result (row_keys h dataset query i) (\<lambda>keys.
       group_rows h dataset query rows (foldl (add_to_group i) groups keys))"

definition group_entry ::
    "date_host \<Rightarrow> compiled_dataset \<Rightarrow> group_by_query \<Rightarrow> qvalue list \<times> nat list \<Rightarrow> query_row result" where
  "group_entry h dataset query = (\<lambda>(keys, rows).
     let named = obj_from_entries (zip (map groupName (gb_by query)) (map immutableQueryValue keys));
         counted = (if ag_count (gb_aggregates query) then obj_set ''count'' (length_of_rows rows) named else named);
         selections = concat (map (\<lambda>operation. map (\<lambda>field. (operation, field))
           (operation_fields (gb_aggregates query) operation)) operations) in
     bind_result (map_result (\<lambda>(operation, field).
       bind_result (aggregate_field h dataset (gb_relation query) rows operation field) (\<lambda>v.
         Inr (operation_name operation @ ''_'' @ field, v))) selections) (\<lambda>entries.
     Inr (obj_spread counted entries)))"

definition groupBy :: "date_host \<Rightarrow> compiled_dataset \<Rightarrow> group_by_query \<Rightarrow> query_row list result" where
  "groupBy h dataset query =
     bind_result (filtered h dataset (gb_relation query) (gb_predicate query) None False) (\<lambda>rows.
     bind_result (group_rows h dataset query rows []) (\<lambda>groups.
     map_result (\<lambda>(identity, entry). group_entry h dataset query entry) groups))"

section \<open>Execution\<close>

datatype canonical_query =
    Find_Many find_many_query
  | Find_Unique find_unique_query
  | Count_Rows count_query
  | Aggregate_Rows aggregate_query
  | Group_Rows group_by_query

definition unique_as_many :: "find_unique_query \<Rightarrow> find_many_query" where
  "unique_as_many query =
     \<lparr>fm_relation = fu_relation query, fm_parties = None, fm_predicate = Some (fu_predicate query),
      fm_select = fu_select query, fm_includes = fu_includes query, fm_orderBy = [], fm_skip = 0,
      fm_take = Some 1, fm_activeOnly = False\<rparr>"

definition execute :: "date_host \<Rightarrow> query_dataset \<Rightarrow> canonical_query \<Rightarrow> qvalue result" where
  "execute h input query =
     bind_result (createQueryDataset input) (\<lambda>dataset.
     case query of
       Find_Many q \<Rightarrow> bind_result (findMany h dataset q) (\<lambda>rows. Inr (Q_Arr (map Q_Obj rows)))
     | Find_Unique q \<Rightarrow>
         bind_result (findMany h dataset (unique_as_many q)) (\<lambda>rows.
           Inr (case rows of [] \<Rightarrow> Q_Undef | row # _ \<Rightarrow> Q_Obj row))
     | Count_Rows q \<Rightarrow>
         bind_result (filtered h dataset (cq_relation q) (cq_predicate q) (cq_parties q) (cq_activeOnly q))
           (\<lambda>rows. Inr (length_of_rows rows))
     | Aggregate_Rows q \<Rightarrow>
         bind_result (filtered h dataset (aq_relation q) (aq_predicate q) None False) (\<lambda>rows.
         bind_result (aggregate h dataset q rows) (\<lambda>row. Inr (Q_Obj row)))
     | Group_Rows q \<Rightarrow> bind_result (groupBy h dataset q) (\<lambda>rows. Inr (Q_Arr (map Q_Obj rows))))"

end
