(* ===== verification/Query_Pattern_Laws.thy ===== *)
theory Query_Pattern_Laws
  imports Query_Evaluation
begin

text \<open>
  The patterns of \<^verbatim>\<open>sqlLike\<close>: a text matches when it can be cut into pieces, one for each element of
  the pattern.
\<close>

definition token_accepts :: "bool \<Rightarrow> like_token \<Rightarrow> string \<Rightarrow> bool" where
  "token_accepts insensitive t piece =
     (case t of
        Literal c \<Rightarrow> (\<exists>d. piece = [d] \<and> same_char insensitive c d)
      | Any_Char \<Rightarrow> length piece = 1
      | Any_Text \<Rightarrow> True)"

lemma token_accepts_simps [simp]:
  "token_accepts insensitive (Literal c) piece \<longleftrightarrow> (\<exists>d. piece = [d] \<and> same_char insensitive c d)"
  "token_accepts insensitive Any_Char piece \<longleftrightarrow> (\<exists>d. piece = [d])"
  "token_accepts insensitive Any_Text piece"
  by (auto simp: token_accepts_def length_Suc_conv)

definition cut_into :: "bool \<Rightarrow> like_token list \<Rightarrow> string \<Rightarrow> bool" where
  "cut_into insensitive ts s \<longleftrightarrow>
     (\<exists>pieces. concat pieces = s \<and> list_all2 (token_accepts insensitive) ts pieces)"

lemma cut_into_Nil: "cut_into insensitive [] s \<longleftrightarrow> s = []"
  by (auto simp: cut_into_def)

lemma cut_into_Cons:
  "cut_into insensitive (t # ts) s \<longleftrightarrow>
   (\<exists>piece rest. s = piece @ rest \<and> token_accepts insensitive t piece \<and> cut_into insensitive ts rest)"
proof
  assume "cut_into insensitive (t # ts) s"
  then show "\<exists>piece rest. s = piece @ rest \<and> token_accepts insensitive t piece \<and> cut_into insensitive ts rest"
    unfolding cut_into_def list_all2_Cons1 by fastforce
next
  assume "\<exists>piece rest. s = piece @ rest \<and> token_accepts insensitive t piece \<and> cut_into insensitive ts rest"
  then obtain piece pieces where "s = piece @ concat pieces" "token_accepts insensitive t piece"
    "list_all2 (token_accepts insensitive) ts pieces" by (auto simp: cut_into_def)
  then show "cut_into insensitive (t # ts) s"
    unfolding cut_into_def by (intro exI [of _ "piece # pieces"]) simp
qed

lemma cut_into_chars:
  "cut_into insensitive (Literal c # ts) (d # s) \<longleftrightarrow> same_char insensitive c d \<and> cut_into insensitive ts s"
  "cut_into insensitive (Any_Char # ts) (d # s) \<longleftrightarrow> cut_into insensitive ts s"
  "\<not> cut_into insensitive (Literal c # ts) []" "\<not> cut_into insensitive (Any_Char # ts) []"
  by (auto simp: cut_into_Cons intro: exI [of _ "[d]"])

lemma like_test_cuts: "like_test insensitive ts s = cut_into insensitive ts s"
proof (induction insensitive ts s rule: like_test.induct)
  case (1 insensitive s)
  show ?case by (simp add: cut_into_Nil)
next
  case (2 insensitive c ts s)
  then show ?case by (cases s) (simp_all add: cut_into_chars)
next
  case (3 insensitive ts s)
  then show ?case by (cases s) (simp_all add: cut_into_chars)
next
  case (4 insensitive ts s)
  show ?case
  proof (cases s)
    case Nil
    with 4 show ?thesis by (auto simp: cut_into_Cons)
  next
    case (Cons d s')
    have "cut_into insensitive (Any_Text # ts) s \<longleftrightarrow>
      cut_into insensitive ts s \<or> cut_into insensitive (Any_Text # ts) s'"
      unfolding cut_into_Cons Cons by (auto simp: Cons_eq_append_conv)
    with 4 Cons show ?thesis by simp
  qed
qed

text \<open>What a pattern means, character by character.\<close>

fun pattern_parts :: "string \<Rightarrow> (bool \<times> char) list" where
  "pattern_parts [] = []"
| "pattern_parts [c] = [(False, c)]"
| "pattern_parts (c # d # s) =
     (if c = CHR 0x5C then (True, d) # pattern_parts s else (False, c) # pattern_parts (d # s))"

definition part_token :: "bool \<times> char \<Rightarrow> like_token" where
  "part_token = (\<lambda>(escaped, c).
     if escaped then Literal c else if c = CHR ''%'' then Any_Text
     else if c = CHR ''_'' then Any_Char else Literal c)"

lemma like_tokens_parts: "like_tokens p = map part_token (pattern_parts p)"
  by (induction p rule: like_tokens.induct) (simp_all add: part_token_def)

definition part_accepts :: "bool \<Rightarrow> bool \<times> char \<Rightarrow> string \<Rightarrow> bool" where
  "part_accepts insensitive = (\<lambda>(escaped, c) piece.
     if c = CHR ''%'' \<and> \<not> escaped then True
     else if c = CHR ''_'' \<and> \<not> escaped then length piece = 1
     else length piece = 1 \<and> same_char insensitive c (hd piece))"

lemma part_token_accepts: "token_accepts insensitive (part_token part) = part_accepts insensitive part"
  by (cases part) (auto simp: fun_eq_iff part_token_def part_accepts_def token_accepts_def length_Suc_conv)

text \<open>A pattern without wildcards and escapes is the text itself, and \<^verbatim>\<open>%p%\<close> finds the texts that contain it.\<close>

definition plain_pattern :: "string \<Rightarrow> bool" where
  "plain_pattern p \<longleftrightarrow> list_all (\<lambda>c. c \<notin> {CHR ''%'', CHR ''_'', CHR 0x5C}) p"

lemma plain_tokens: "plain_pattern p \<Longrightarrow> like_tokens (p @ q) = map Literal p @ like_tokens q"
proof (induction p)
  case (Cons c p)
  then have c: "c \<noteq> CHR ''%''" "c \<noteq> CHR ''_''" "c \<noteq> CHR 0x5C" and p: "plain_pattern p"
    by (auto simp: plain_pattern_def)
  have "like_tokens (c # s) = Literal c # like_tokens s" for s
    using c by (cases s) simp_all
  with Cons.IH [OF p] show ?case by simp
qed simp

lemma literals_accept: "cut_into False (map Literal p @ ts) s \<longleftrightarrow> (\<exists>rest. s = p @ rest \<and> cut_into False ts rest)"
  by (induction p arbitrary: s) (auto simp: cut_into_Cons same_char_def)

lemma exact_pattern: "plain_pattern p \<Longrightarrow> sqlLike s p False \<longleftrightarrow> s = p"
  using plain_tokens [of p "[]"] literals_accept [of p "[]" s]
  by (simp add: sqlLike_def like_test_cuts cut_into_Nil)

lemma containing_pattern: "plain_pattern p \<Longrightarrow> sqlLike s (''%'' @ p @ ''%'') False \<longleftrightarrow> (\<exists>a b. s = a @ p @ b)"
proof -
  assume p: "plain_pattern p"
  have any: "like_tokens (CHR ''%'' # q) = Any_Text # like_tokens q" for q by (cases q) simp_all
  show ?thesis
    by (auto simp: sqlLike_def like_test_cuts any plain_tokens [OF p] cut_into_Cons literals_accept cut_into_Nil)
qed

end
