(* ===== verification/Query_Dataset_Laws.thy ===== *)
theory Query_Dataset_Laws
  imports Query_Dataset JSON_Texts
begin

text \<open>
  The index of a dataset is a join: the rows an edge leads to are the rows of the target relation
  with the same key values, and an edge to one row leads to one.
\<close>

section \<open>Buckets\<close>

lemma buckets_of_snoc: "buckets_of (keys @ [key]) = add_to_bucket (buckets_of keys) (length keys, key)"
  by (simp add: buckets_of_def)

lemma bucket_of_update:
  "bucket_of (AList.update key is buckets) k = (if k = key then is else bucket_of buckets k)"
  by (simp add: bucket_of_def)

lemma bucket_of_buckets: "bucket_of (buckets_of keys) k = filter (\<lambda>i. keys ! i = k) [0..<length keys]"
proof (induction keys rule: rev_induct)
  case Nil
  show ?case by (simp add: buckets_of_def bucket_of_def)
next
  case (snoc key keys)
  have "filter (\<lambda>i. (keys @ [key]) ! i = k) [0..<length keys] = filter (\<lambda>i. keys ! i = k) [0..<length keys]"
    by (rule filter_cong) (auto simp: nth_append)
  with snoc show ?case by (auto simp: buckets_of_snoc add_to_bucket_def bucket_of_update)
qed

lemma buckets_of_None: "map_of (buckets_of keys) k = None \<longleftrightarrow> k \<notin> set keys"
  by (induction keys rule: rev_induct) (auto simp: buckets_of_snoc add_to_bucket_def, simp add: buckets_of_def)

lemma single_buckets:
  assumes "\<not> list_ex (\<lambda>(key, targets). length targets > 1) buckets"
  shows "length (bucket_of buckets k) \<le> 1"
proof (cases "map_of buckets k")
  case (Some targets)
  then have "(k, targets) \<in> set buckets" by (rule map_of_SomeD)
  with assms have "\<not> length targets > 1" by (fastforce simp: list_ex_iff)
  with Some show ?thesis by (simp add: bucket_of_def)
qed (simp add: bucket_of_def)

section \<open>What a compiled dataset has\<close>

lemma map_result_keyed:
  assumes "map_result f xs = Inr ys" "\<And>x y. x \<in> set xs \<Longrightarrow> f x = Inr y \<Longrightarrow> fst y = g x"
    and "distinct (map g xs)" "x \<in> set xs"
  shows "\<exists>y. f x = Inr (g x, y) \<and> map_of ys (g x) = Some y"
  using assms
proof (induction xs arbitrary: ys)
  case (Cons z xs)
  from Cons.prems(1) obtain y ys' where f: "f z = Inr y" "map_result f xs = Inr ys'" "ys = y # ys'"
    by (auto simp: bind_result_Inr_iff)
  obtain k v where y: "y = (k, v)" by (cases y)
  with f(1) have k: "k = g z" using Cons.prems(2) [of z y] by simp
  show ?case
  proof (cases "x = z")
    case True
    with f y k show ?thesis by simp
  next
    case False
    with Cons.prems have "x \<in> set xs" "g x \<noteq> g z" by (auto simp: image_iff)
    with Cons.IH [OF f(2)] Cons.prems(2,3) f(3) y k show ?thesis by simp
  qed
qed simp

lemma check_Inr [simp]: "check b m = Inr u \<longleftrightarrow> b"
  by (simp add: check_def dataset_error_def)

lemma present_Inr [simp]: "present x m = Inr y \<longleftrightarrow> x = Some y"
  by (simp add: present_def dataset_error_def split: option.splits)

lemma dataset_error_Inr [simp]: "dataset_error m \<noteq> Inr x"
  by (simp add: dataset_error_def)

lemma relation_listed: "relation \<in> set queryRelations"
  by (cases relation) (simp_all add: queryRelations_def)

lemma edges_distinct: "distinct (map fst (queryRelationEdges relation))"
  by (cases relation) (simp_all add: queryRelationEdges_def)

lemma compile_relation_fst: "compile_relation dataset relation = Inr y \<Longrightarrow> fst y = relation"
  by (auto simp: compile_relation_def bind_result_Inr_iff)

lemma compiled_edge:
  assumes "createQueryDataset input = Inr cd" "map_of (queryRelationEdges relation) edge = Some definition"
  obtains lookup index where
    "map_of (cd_edges cd relation) edge = Some lookup" "map_of (cd_indexes cd relation) edge = Some index"
    "compile_edge relation edge definition lookup (cd_rows cd relation)
       (cd_rows cd (ed_target definition)) = Inr index"
proof -
  let ?ds = "immutable_dataset input"
  from assms(1) obtain ixs where ixs: "map_result (compile_relation ?ds) queryRelations = Inr ixs"
    and cd: "cd = \<lparr>cd_rows = the \<circ> qd_rows ?ds, cd_edges = the \<circ> qd_edges ?ds, cd_indexes = the \<circ> map_of ixs\<rparr>"
    by (auto simp: createQueryDataset_def Let_def bind_result_Inr_iff)
  have "distinct queryRelations" by (simp add: queryRelations_def)
  then obtain es where es: "compile_relation ?ds relation = Inr (relation, es)" "map_of ixs relation = Some es"
    using map_result_keyed [OF ixs, of id relation] compile_relation_fst relation_listed by fastforce
  obtain rows lookups where rows: "qd_rows ?ds relation = Some rows" "qd_edges ?ds relation = Some lookups"
    and indexes: "map_result (\<lambda>(edge, definition).
       bind_result (present (map_of lookups edge)
         (''is missing '' @ edge_label relation edge @ '' edge'')) (\<lambda>lookup.
       bind_result (compile_edge relation edge definition lookup rows
         (the (qd_rows ?ds (ed_target definition)))) (\<lambda>index.
       Inr (edge, index)))) (queryRelationEdges relation) = Inr es"
    using es(1) by (auto simp: compile_relation_def bind_result_Inr_iff)
  have "(edge, definition) \<in> set (queryRelationEdges relation)" using assms(2) by (rule map_of_SomeD)
  from map_result_keyed [OF indexes _ edges_distinct this] obtain index lookup where
    "map_of lookups edge = Some lookup" "map_of es edge = Some index"
    "compile_edge relation edge definition lookup rows (the (qd_rows ?ds (ed_target definition))) = Inr index"
    by (fastforce simp: bind_result_Inr_iff)
  then show ?thesis by (intro that [of lookup index]) (simp_all add: cd rows es(2))
qed

lemma compiled_parts:
  assumes "createQueryDataset input = Inr dataset"
  shows "cd_rows dataset = the \<circ> qd_rows (immutable_dataset input)"
    "cd_edges dataset = the \<circ> qd_edges (immutable_dataset input)"
  using assms by (auto simp: createQueryDataset_def Let_def bind_result_Inr_iff)

section \<open>Keys\<close>

definition target_values :: "edge_lookup \<Rightarrow> query_row list \<Rightarrow> nat \<Rightarrow> qvalue list result" where
  "target_values lookup rows j =
     (case el_privateKeys lookup of
        None \<Rightarrow> map_result (atPath (rows ! j)) (case el_to lookup of Some paths \<Rightarrow> paths | None \<Rightarrow> [])
      | Some (source, target) \<Rightarrow> Inr (target ! j))"

lemma target_keys_nth:
  assumes "target_keys relation edge definition lookup rows targetRows = Inr keys"
  shows "length keys = length targetRows"
    and "j < length targetRows \<Longrightarrow>
      bind_result (target_values lookup targetRows j) compositeKey = Inr (keys ! j)"
proof -
  have "length keys = length targetRows \<and> (j < length targetRows \<longrightarrow>
      bind_result (target_values lookup targetRows j) compositeKey = Inr (keys ! j))"
  proof (cases "el_privateKeys lookup")
    case None
    with assms obtain "from" to where "el_from lookup = Some from" "el_to lookup = Some to"
      and keys: "map_result (\<lambda>row. row_key row to) targetRows = Inr keys"
      by (auto simp: target_keys_def bind_result_Inr_iff split: option.splits if_splits)
    with None show ?thesis
      using map_result_nth [OF keys] map_result_length [OF keys]
      by (simp add: target_values_def row_key_def)
  next
    case (Some st)
    obtain source target where "st = (source, target)" by (cases st)
    with Some assms have keys: "map_result compositeKey target = Inr keys"
      and "length target = length targetRows"
      by (auto simp: target_keys_def bind_result_Inr_iff validatePrivateKeys_def split: if_splits)
    with Some \<open>st = _\<close> show ?thesis
      using map_result_nth [OF keys] map_result_length [OF keys] by (simp add: target_values_def)
  qed
  then show "length keys = length targetRows"
    "j < length targetRows \<Longrightarrow> bind_result (target_values lookup targetRows j) compositeKey = Inr (keys ! j)"
    by blast+
qed

lemma compile_edge_parts:
  assumes "compile_edge relation edge definition lookup rows targetRows = Inr index"
  obtains keys where "target_keys relation edge definition lookup rows targetRows = Inr keys"
    "ei_targets index = buckets_of keys" "ei_sourcePrivateKeys index = map_option fst (el_privateKeys lookup)"
    "ed_cardinality definition = To_One \<Longrightarrow>
       \<not> list_ex (\<lambda>(key, targets). length targets > 1) (buckets_of keys)"
    "ed_cardinality definition = To_One \<Longrightarrow> \<not> ed_nullable definition \<Longrightarrow> el_complete lookup \<noteq> Q_Bool False \<Longrightarrow>
       each_result (check_target lookup rows (buckets_of keys) (edge_label relation edge)) [0..<length rows]
         = Inr ()"
  using assms unfolding compile_edge_def Let_def
  by (auto simp: bind_result_Inr_iff split: if_splits)

text \<open>What \<open>relatedQueryRows\<close> reads for the source.\<close>

lemma related_values:
  "el_privateKeys lookup = Some st \<Longrightarrow> source_values lookup rows i = Inr (fst st ! i)"
  by (cases st) (simp add: source_values_def)

lemma related_by_key:
  assumes cd: "createQueryDataset input = Inr cd"
    and edge: "map_of (queryRelationEdges relation) edge = Some definition"
    and lookup: "map_of (cd_edges cd relation) edge = Some lookup" "el_complete lookup \<noteq> Q_Bool False"
    and i: "i < length (cd_rows cd relation)"
  shows "relatedQueryRows cd relation i edge =
    bind_result (source_values lookup (cd_rows cd relation) i) (\<lambda>values.
    if list_ex q_nullish values then Inr []
    else bind_result (compositeKey values) (\<lambda>key.
      Inr (filter (\<lambda>j. bind_result (target_values lookup (cd_rows cd (ed_target definition)) j) compositeKey
          = Inr key) [0..<length (cd_rows cd (ed_target definition))])))"
proof -
  let ?targets = "cd_rows cd (ed_target definition)"
  from compiled_edge [OF cd edge] lookup(1) obtain index where
    index: "map_of (cd_indexes cd relation) edge = Some index"
    and ce: "compile_edge relation edge definition lookup (cd_rows cd relation) ?targets = Inr index"
    by (metis option.inject)
  from compile_edge_parts [OF ce] obtain keys where
    keys: "target_keys relation edge definition lookup (cd_rows cd relation) ?targets = Inr keys"
    and parts: "ei_targets index = buckets_of keys"
      "ei_sourcePrivateKeys index = map_option fst (el_privateKeys lookup)" by metis
  have source: "(case el_privateKeys lookup of
      None \<Rightarrow> source_values lookup (cd_rows cd relation) i
    | Some _ \<Rightarrow> Inr (the (ei_sourcePrivateKeys index) ! i)) = source_values lookup (cd_rows cd relation) i"
    by (simp add: parts(2) related_values split: option.split)
  have buckets: "bucket_of (ei_targets index) key
      = filter (\<lambda>j. bind_result (target_values lookup ?targets j) compositeKey = Inr key) [0..<length ?targets]"
    for key
    unfolding parts(1) bucket_of_buckets target_keys_nth(1) [OF keys]
    by (rule filter_cong) (auto simp: target_keys_nth(2) [OF keys])
  show ?thesis using lookup i by (simp add: relatedQueryRows_def index source buckets cong: if_cong)
qed

lemma to_one_at_most_one:
  assumes cd: "createQueryDataset input = Inr cd"
    and edge: "map_of (queryRelationEdges relation) edge = Some definition" "ed_cardinality definition = To_One"
    and related: "relatedQueryRows cd relation i edge = Inr targets"
  shows "length targets \<le> 1"
proof -
  from compiled_edge [OF cd edge(1)] obtain lookup index where
    index: "map_of (cd_edges cd relation) edge = Some lookup" "map_of (cd_indexes cd relation) edge = Some index"
    and ce: "compile_edge relation edge definition lookup (cd_rows cd relation)
      (cd_rows cd (ed_target definition)) = Inr index" .
  from compile_edge_parts [OF ce] edge(2) have "length (bucket_of (ei_targets index) key) \<le> 1" for key
    using single_buckets by metis
  with related index show ?thesis
    by (auto simp: relatedQueryRows_def bind_result_Inr_iff split: if_splits)
qed

lemma to_one_total:
  assumes cd: "createQueryDataset input = Inr cd"
    and edge: "map_of (queryRelationEdges relation) edge = Some definition" "ed_cardinality definition = To_One"
      "\<not> ed_nullable definition"
    and lookup: "map_of (cd_edges cd relation) edge = Some lookup" "el_complete lookup \<noteq> Q_Bool False"
    and i: "i < length (cd_rows cd relation)"
  shows "\<exists>j < length (cd_rows cd (ed_target definition)). relatedQueryRows cd relation i edge = Inr [j]"
proof -
  let ?targets = "cd_rows cd (ed_target definition)"
  from compiled_edge [OF cd edge(1)] lookup(1) obtain index where
    index: "map_of (cd_indexes cd relation) edge = Some index"
    and ce: "compile_edge relation edge definition lookup (cd_rows cd relation) ?targets = Inr index"
    by (metis option.inject)
  from compile_edge_parts [OF ce] edge lookup(2) obtain keys where
    keys: "target_keys relation edge definition lookup (cd_rows cd relation) ?targets = Inr keys"
    and parts: "ei_targets index = buckets_of keys"
    and each: "each_result (check_target lookup (cd_rows cd relation) (buckets_of keys) (edge_label relation edge))
      [0..<length (cd_rows cd relation)] = Inr ()" by metis
  from each i have "check_target lookup (cd_rows cd relation) (buckets_of keys) (edge_label relation edge) i = Inr ()"
    by (simp add: each_result_Inr_iff)
  then obtain vs key where vs: "source_values lookup (cd_rows cd relation) i = Inr vs"
    "\<not> list_ex q_nullish vs" "compositeKey vs = Inr key" "key \<in> set keys"
    by (auto simp: check_target_def bind_result_Inr_iff buckets_of_None split: if_splits)
  have related: "relatedQueryRows cd relation i edge = Inr (filter (\<lambda>j.
      bind_result (target_values lookup ?targets j) compositeKey = Inr key) [0..<length ?targets])"
    (is "_ = Inr ?js") by (simp add: related_by_key [OF cd edge(1) lookup i] vs)
  from vs(4) obtain j where "j < length ?targets" "keys ! j = key"
    by (auto simp: in_set_conv_nth target_keys_nth(1) [OF keys])
  then have "j \<in> set ?js" using target_keys_nth(2) [OF keys] by simp
  moreover have "length ?js \<le> 1" by (rule to_one_at_most_one [OF cd edge(1,2) related])
  ultimately have "?js = [j]" by (cases ?js) (auto simp: Suc_le_eq)
  with related \<open>j < _\<close> show ?thesis by metis
qed

section \<open>Keys of texts\<close>

text \<open>Keys are texts or null in the datasets of the SDK; for them the composite key loses nothing.\<close>

definition text_or_null :: "qvalue \<Rightarrow> bool" where
  "text_or_null v \<longleftrightarrow> q_nullish v \<or> (\<exists>s. v = Q_Str s)"

definition json_element :: "qvalue \<Rightarrow> string" where
  "json_element v = (case json_text v of Some s \<Rightarrow> s | None \<Rightarrow> ''null'')"

lemma key_value_text: "text_or_null v \<Longrightarrow> key_value v = Inr v"
  by (auto simp: text_or_null_def key_value_def q_nullish_def)

lemma compositeKey_texts:
  "list_all text_or_null vs \<Longrightarrow> compositeKey vs = Inr (''['' @ joined '','' (map json_element vs) @ '']'')"
  using map_result_Inr [of vs key_value id]
  by (simp add: compositeKey_def list_all_iff key_value_text json_element_def cong: map_cong)

lemma json_element_quote: "q_nullish v \<Longrightarrow> json_string s @ x \<noteq> json_element v @ y"
  by (auto simp: q_nullish_def json_element_def json_string_def)

lemma json_element_inj:
  assumes "json_string s @ x = json_element w @ y" "text_or_null w"
  shows "w = Q_Str s \<and> x = y"
  using assms json_element_quote [of w s x y] json_string_inj [of s x _ y]
  by (auto simp: text_or_null_def) (auto simp: json_element_def)

lemma more_elements_inj:
  "concat (map (\<lambda>s. CHR '','' # json_string s) ss) @ '']'' = concat (map (\<lambda>v. CHR '','' # json_element v) ws) @ '']'' \<Longrightarrow>
   list_all text_or_null ws \<Longrightarrow> map Q_Str ss = ws"
proof (induction ss arbitrary: ws)
  case Nil
  then show ?case by (cases ws) auto
next
  case (Cons s ss)
  show ?case
  proof (cases ws)
    case Nil
    with Cons.prems show ?thesis by simp
  next
    case (Cons w ws')
    with Cons.prems have "json_string s @ (concat (map (\<lambda>s. CHR '','' # json_string s) ss) @ '']'')
      = json_element w @ (concat (map (\<lambda>v. CHR '','' # json_element v) ws') @ '']'')" "text_or_null w" by simp_all
    from json_element_inj [OF this] Cons.IH [of ws'] Cons Cons.prems(2) show ?thesis by simp
  qed
qed

lemma compositeKey_inj:
  assumes "compositeKey (map Q_Str ss) = compositeKey ws" "list_all text_or_null ws"
  shows "map Q_Str ss = ws"
proof -
  have el: "map json_element (map Q_Str ss) = map json_string ss" by (simp add: json_element_def)
  have "list_all text_or_null (map Q_Str ss)" by (simp add: list_all_iff text_or_null_def)
  from assms(1) compositeKey_texts [OF this] compositeKey_texts [OF assms(2)]
  have eq: "joined '','' (map json_string ss) @ '']'' = joined '','' (map json_element ws) @ '']''"
    by (simp only: el sum.inject) simp
  show ?thesis
  proof (cases ss; cases ws)
    fix s ss' w ws'
    assume *: "ss = s # ss'" "ws = w # ws'"
    with eq have "json_string s @ (concat (map (\<lambda>s. CHR '','' # json_string s) ss') @ '']'')
      = json_element w @ (concat (map (\<lambda>v. CHR '','' # json_element v) ws') @ '']'')"
      by (simp add: joined_def comp_def)
    from json_element_inj [OF this] more_elements_inj * assms(2) show ?thesis by auto
  next
    fix w ws'
    assume *: "ss = []" "ws = w # ws'"
    with eq assms(2) show ?thesis
      by (auto simp: joined_def text_or_null_def q_nullish_def json_element_def json_string_def)
  qed (use eq in \<open>simp_all add: joined_def json_string_def\<close>)
qed

lemma texts_of:
  "list_all text_or_null vs \<Longrightarrow> \<not> list_ex q_nullish vs \<Longrightarrow> \<exists>ss. vs = map Q_Str ss"
proof (induction vs)
  case (Cons v vs)
  then obtain s ss where "v = Q_Str s" "vs = map Q_Str ss" by (auto simp: text_or_null_def)
  then show ?case by (intro exI [of _ "s # ss"]) simp
qed simp

lemma related_is_join:
  assumes cd: "createQueryDataset input = Inr cd"
    and edge: "map_of (queryRelationEdges relation) edge = Some definition"
    and lookup: "map_of (cd_edges cd relation) edge = Some lookup" "el_complete lookup \<noteq> Q_Bool False"
    and i: "i < length (cd_rows cd relation)"
    and source: "source_values lookup (cd_rows cd relation) i = Inr vs" "list_all text_or_null vs"
    and targets: "\<forall>j < length (cd_rows cd (ed_target definition)).
      \<exists>ws. target_values lookup (cd_rows cd (ed_target definition)) j = Inr ws \<and> list_all text_or_null ws"
  shows "relatedQueryRows cd relation i edge =
    Inr (if list_ex q_nullish vs then []
      else filter (\<lambda>j. target_values lookup (cd_rows cd (ed_target definition)) j = Inr vs)
        [0..<length (cd_rows cd (ed_target definition))])"
proof (cases "list_ex q_nullish vs")
  case True
  then show ?thesis by (simp add: related_by_key [OF cd edge lookup i] source)
next
  case False
  let ?rows = "cd_rows cd (ed_target definition)"
  obtain ss where vs: "vs = map Q_Str ss" using texts_of [OF source(2) False] by blast
  obtain key where key: "compositeKey vs = Inr key" using compositeKey_texts [OF source(2)] by blast
  have "filter (\<lambda>j. bind_result (target_values lookup ?rows j) compositeKey = Inr key) [0..<length ?rows]
    = filter (\<lambda>j. target_values lookup ?rows j = Inr vs) [0..<length ?rows]"
  proof (rule filter_cong)
    fix j assume "j \<in> set [0..<length ?rows]"
    with targets obtain ws where "target_values lookup ?rows j = Inr ws" "list_all text_or_null ws" by auto
    then show "(bind_result (target_values lookup ?rows j) compositeKey = Inr key)
      = (target_values lookup ?rows j = Inr vs)"
      using key compositeKey_inj [of ss ws] vs by auto
  qed simp
  with False key show ?thesis by (simp add: related_by_key [OF cd edge lookup i] source)
qed

end
