(* ===== verification/Query_Normalizer.thy ===== *)
theory Query_Normalizer
  imports Query_Text
begin

text \<open>
  The arguments of a query become a normalized query:
  \<^verbatim>\<open>src/src/query/canonical/query-normalizer.ts\<close>, with the page and order checks of
  \<^verbatim>\<open>src/src/query/model-types.ts\<close>. The arguments are unknown values; every error leaves as a
  \<^verbatim>\<open>QueryValidationError\<close>, which is the \<open>ValidationError\<close> of the model.
\<close>

section \<open>Objects\<close>

definition invalid :: "string \<Rightarrow> 'a result" where
  "invalid message = Inl (PlainError message)"

definition ensure :: "bool \<Rightarrow> string \<Rightarrow> unit result" where
  "ensure holds message = (if holds then Inr () else invalid message)"

text \<open>\<^verbatim>\<open>object\<close>\<close>

definition plain_object :: "qvalue \<Rightarrow> string \<Rightarrow> (string \<times> qvalue) list result" where
  "plain_object v label =
     (case v of
        Q_Obj ps \<Rightarrow> Inr ps
      | Q_Map _ \<Rightarrow> invalid (label @ '' must be a plain object'')
      | Q_Set _ \<Rightarrow> invalid (label @ '' must be a plain object'')
      | Q_Host k \<Rightarrow> invalid (label @ (if k = Function then '' must be an object'' else '' must be a plain object''))
      | _ \<Rightarrow> invalid (label @ '' must be an object''))"

definition isFilter :: "qvalue \<Rightarrow> bool" where
  "isFilter v =
     (case v of Q_Obj _ \<Rightarrow> True | Q_Map _ \<Rightarrow> True | Q_Set _ \<Rightarrow> True | Q_Host k \<Rightarrow> k \<noteq> Function | _ \<Rightarrow> False)"

definition assertKnown :: "(string \<times> qvalue) list \<Rightarrow> string list \<Rightarrow> string \<Rightarrow> unit result" where
  "assertKnown ps allowed label =
     each_result (\<lambda>key. ensure (key \<in> set allowed) (key @ '' is not supported by '' @ label)) (map fst ps)"

definition optional :: "qvalue \<Rightarrow> (qvalue \<Rightarrow> 'a result) \<Rightarrow> 'a \<Rightarrow> 'a result" where
  "optional v f otherwise = (if v = Q_Undef then Inr otherwise else f v)"

section \<open>Operators\<close>

definition operator_table :: "(string \<times> scalar_operator) list" where
  "operator_table =
     [(''equals'', Op_equals), (''in'', Op_in), (''is'', Op_is), (''isNot'', Op_isNot), (''lt'', Op_lt),
      (''lte'', Op_lte), (''gt'', Op_gt), (''gte'', Op_gte), (''like'', Op_like), (''ilike'', Op_ilike),
      (''has'', Op_has)]"

definition orderedOperators :: "scalar_operator list" where
  "orderedOperators = [Op_equals, Op_in, Op_is, Op_isNot, Op_lt, Op_lte, Op_gt, Op_gte]"

definition stringOperators :: "scalar_operator list" where
  "stringOperators = orderedOperators @ [Op_like, Op_ilike]"

definition payloadOperators :: "scalar_operator list" where
  "payloadOperators = [Op_equals, Op_lt, Op_lte, Op_gt, Op_gte, Op_like, Op_ilike]"

definition isScalarFilter :: "qvalue \<Rightarrow> bool" where
  "isScalarFilter v \<longleftrightarrow>
     isFilter v \<and> list_ex (\<lambda>(key, _). map_of operator_table key \<noteq> None) (q_properties v)"

datatype scalar_kind =
    Kind_String | Kind_Numeric | Kind_Timestamp | Kind_Boolean | Kind_Json | Kind_Array | Kind_Binary

definition kind_name :: "scalar_kind \<Rightarrow> string" where
  "kind_name kind =
     (case kind of
        Kind_String \<Rightarrow> ''string'' | Kind_Numeric \<Rightarrow> ''numeric-string'' | Kind_Timestamp \<Rightarrow> ''timestamp''
      | Kind_Boolean \<Rightarrow> ''boolean'' | Kind_Json \<Rightarrow> ''json'' | Kind_Array \<Rightarrow> ''string-array''
      | Kind_Binary \<Rightarrow> ''binary'')"

definition scalarKind :: "relation_metadata \<Rightarrow> string \<Rightarrow> scalar_kind result" where
  "scalarKind metadata field =
     (if field \<in> set (rm_stringFields metadata) then Inr Kind_String
      else if field \<in> set (rm_numericFields metadata) then Inr Kind_Numeric
      else if field \<in> set (rm_dateFields metadata) then Inr Kind_Timestamp
      else if field \<in> set (rm_booleanFields metadata) then Inr Kind_Boolean
      else if field \<in> set (rm_jsonFields metadata) then Inr Kind_Json
      else if field \<in> set (rm_arrayFields metadata) then Inr Kind_Array
      else if field \<in> set (rm_binaryFields metadata) then Inr Kind_Binary
      else invalid (field @ '' has no scalar kind''))"

definition is_text :: "qvalue \<Rightarrow> bool" where
  "is_text v = (case v of Q_Str _ \<Rightarrow> True | _ \<Rightarrow> False)"

definition of_kind :: "scalar_kind \<Rightarrow> qvalue \<Rightarrow> bool" where
  "of_kind kind v =
     (case kind of
        Kind_Boolean \<Rightarrow> (case v of Q_Bool _ \<Rightarrow> True | _ \<Rightarrow> False)
      | Kind_Timestamp \<Rightarrow> (case v of Q_Date (Whole _) \<Rightarrow> True | _ \<Rightarrow> False)
      | Kind_Array \<Rightarrow> (case v of Q_Arr vs \<Rightarrow> list_all is_text vs | _ \<Rightarrow> False)
      | Kind_Binary \<Rightarrow> is_bytes v
      | _ \<Rightarrow> is_text v)"

definition validateScalarValue :: "qvalue \<Rightarrow> string \<Rightarrow> scalar_kind \<Rightarrow> bool \<Rightarrow> unit result" where
  "validateScalarValue v field kind nullable =
     (if v = Q_Null then ensure nullable (field @ '' is not nullable'')
      else ensure (of_kind kind v) (field @ '' has an invalid '' @ kind_name kind @ '' value''))"

definition operator_name :: "scalar_operator \<Rightarrow> string" where
  "operator_name operator =
     (case filter (\<lambda>(name, op). op = operator) operator_table of (name, _) # _ \<Rightarrow> name | [] \<Rightarrow> [])"

definition validateOperatorValue ::
    "scalar_operator \<Rightarrow> qvalue \<Rightarrow> string \<Rightarrow> scalar_kind \<Rightarrow> bool \<Rightarrow> unit result" where
  "validateOperatorValue operator v field kind nullable =
     (if operator \<in> {Op_is, Op_isNot} then
        if v \<noteq> Q_Null then invalid (operator_name operator @ '' for '' @ field @ '' must be null'')
        else ensure nullable (field @ '' is not nullable'')
      else if operator = Op_in then
        (case v of
           Q_Arr vs \<Rightarrow> each_result (\<lambda>item. validateScalarValue item field kind nullable) vs
         | _ \<Rightarrow> invalid (''in for '' @ field @ '' must be an array''))
      else if operator = Op_has then
        ensure (kind = Kind_Array \<and> is_text v)
          (''has for '' @ field @ '' must be a string array membership value'')
      else validateScalarValue v field kind nullable)"

section \<open>Scalar filters\<close>

definition combine :: "query_predicate list \<Rightarrow> query_predicate option" where
  "combine children =
     (case children of [] \<Rightarrow> None | [child] \<Rightarrow> Some child | _ \<Rightarrow> Some (P_And children))"

definition equality :: "string \<Rightarrow> qvalue \<Rightarrow> query_predicate" where
  "equality field v = P_Scalar (split_on CHR ''.'' field) Op_equals v"

definition jsonPath :: "qvalue \<Rightarrow> string \<Rightarrow> string list result" where
  "jsonPath v label =
     (case v of
        Q_Arr vs \<Rightarrow>
          if vs \<noteq> [] \<and> list_all (\<lambda>segment. case segment of Q_Str s \<Rightarrow> s \<noteq> [] | _ \<Rightarrow> False) vs then
            Inr (map (\<lambda>segment. case segment of Q_Str s \<Rightarrow> s | _ \<Rightarrow> []) vs)
          else invalid (label @ '' must be a non-empty JSON path'')
      | _ \<Rightarrow> invalid (label @ '' must be a non-empty JSON path''))"

text \<open>One predicate for each operator of a filter that is \<open>allowed\<close>.\<close>

definition operator_predicates ::
    "scalar_operator list \<Rightarrow> string \<Rightarrow> string list \<Rightarrow> scalar_kind \<Rightarrow> bool \<Rightarrow> (string \<times> qvalue) list \<Rightarrow>
     query_predicate list result" where
  "operator_predicates allowed label path kind nullable entries =
     map_result (\<lambda>(name, operand).
       case map_of operator_table name of
         None \<Rightarrow> invalid (name @ '' is not supported for '' @ label)
       | Some operator \<Rightarrow>
           if operator \<notin> set allowed then invalid (name @ '' is not supported for '' @ label)
           else
             bind_result (validateOperatorValue operator operand label kind nullable) (\<lambda>_.
             Inr (P_Scalar path operator operand))) entries"

definition normalizeContractWitnesses :: "qvalue \<Rightarrow> query_predicate list result" where
  "normalizeContractWitnesses v =
     bind_result (plain_object v ''witnesses filter'') (\<lambda>filter.
       if length filter \<noteq> 1 then invalid ''witnesses must use { has: string }''
       else case q_get filter ''has'' of
         Q_Str party \<Rightarrow> Inr [P_Scalar [''witnesses''] Op_has (Q_Str party)]
       | _ \<Rightarrow> invalid ''witnesses must use { has: string }'')"

definition normalizeJsonFilter :: "string \<Rightarrow> qvalue \<Rightarrow> query_predicate list result" where
  "normalizeJsonFilter field v =
     bind_result (plain_object v (field @ '' JSON filter'')) (\<lambda>ps.
     bind_result (jsonPath (q_get ps ''path'') (field @ ''.path'')) (\<lambda>path.
     let entries = filter (\<lambda>(operator, _). operator \<noteq> ''path'') ps in
     if entries = [] then invalid (field @ '' JSON filter must contain an operator'')
     else operator_predicates (filter (\<lambda>op. op \<noteq> Op_has) (map snd operator_table)) field (field # path)
       Kind_String True entries))"

definition allowed_operators :: "scalar_kind \<Rightarrow> scalar_operator list" where
  "allowed_operators kind =
     (case kind of
        Kind_Array \<Rightarrow> [Op_equals, Op_in, Op_is, Op_isNot, Op_has]
      | Kind_String \<Rightarrow> stringOperators
      | Kind_Numeric \<Rightarrow> orderedOperators
      | Kind_Timestamp \<Rightarrow> orderedOperators
      | _ \<Rightarrow> [Op_equals, Op_in, Op_is, Op_isNot])"

text \<open>Whether the operator is known is decided before the kind of the field; a field that has no kind
  is not declared by any relation.\<close>

definition normalizeScalarFilter :: "query_relation \<Rightarrow> string \<Rightarrow> qvalue \<Rightarrow> query_predicate list result" where
  "normalizeScalarFilter relation field v =
     (if relation = Contracts \<and> field = ''witnesses'' then normalizeContractWitnesses v
      else if relation = Contracts \<and> field = ''active'' \<and> (v = Q_Bool True \<or> v = Q_Bool False) then
        Inr [equality field v]
      else if \<not> isFilter v then invalid (field @ '' must be a filter object'')
      else
        let metadata = queryRelationMetadata relation; path = split_on CHR ''.'' field; base = hd path in
        if base \<in> set (rm_jsonFields metadata) then normalizeJsonFilter base v
        else
          let entries = q_properties v in
          if entries = [] then invalid (field @ '' filter must not be empty'')
          else
            bind_result (scalarKind metadata base) (\<lambda>kind.
            operator_predicates (allowed_operators kind) field path kind
              (base \<in> set (rm_nullableFields metadata)) entries))"

definition normalizeTemplateScalarFilter :: "string \<Rightarrow> qvalue \<Rightarrow> query_predicate list result" where
  "normalizeTemplateScalarFilter field v =
     (let label = ''templateId.'' @ field in
      if \<not> isFilter v then invalid (label @ '' must be a filter object'')
      else if q_properties v = [] then invalid (label @ '' filter must not be empty'')
      else operator_predicates stringOperators label [''templateId'', field] Kind_String False (q_properties v))"

definition normalizeTemplateId :: "qvalue \<Rightarrow> query_predicate list result" where
  "normalizeTemplateId v =
     bind_result (plain_object v ''templateId filter'') (\<lambda>ps.
     bind_result (assertKnown ps [''packageId'', ''moduleName'', ''entityName''] ''templateId'') (\<lambda>_.
     concat_result (\<lambda>(field, filter). normalizeTemplateScalarFilter field filter) ps))"

definition normalizePayloadScalarFilter :: "string list \<Rightarrow> qvalue \<Rightarrow> query_predicate list result" where
  "normalizePayloadScalarFilter path v =
     operator_predicates payloadOperators ''payload'' path Kind_String False (q_properties v)"

text \<open>The local function \<^verbatim>\<open>walk\<close>; a filter with an operator is not empty.\<close>

lemma entry_smaller: "(k, w) \<in> set ps \<Longrightarrow> size w < size (Q_Obj ps)"
  using size_list_estimation' [of "(k, w)" ps "size w" "size_prod (\<lambda>x. 0) size"]
  by (simp add: less_Suc_eq_le)

lemma member_size: "(v :: qvalue) \<in> set vs \<Longrightarrow> size v \<le> size_list size vs"
  by (rule size_list_estimation' [of v vs]) simp_all

lemma plain_object_Inr: "plain_object v label = Inr ps \<longleftrightarrow> v = Q_Obj ps"
  by (auto simp: plain_object_def invalid_def split: qvalue.splits)

function payload_walk :: "qvalue \<Rightarrow> string list \<Rightarrow> query_predicate list result" where
  "payload_walk node path =
     bind_result (plain_object node ''payload.match'') (\<lambda>ps.
     concat_result (\<lambda>(name, child).
       if isScalarFilter child then normalizePayloadScalarFilter (path @ [name]) child
       else payload_walk child (path @ [name])) ps)"
  by pat_completeness auto
termination
  by (relation "measure (size \<circ> fst)") (auto simp: plain_object_Inr dest: entry_smaller)

declare payload_walk.simps [simp del]

definition normalizePayloadMatch :: "qvalue \<Rightarrow> query_predicate list result" where
  "normalizePayloadMatch v =
     bind_result (plain_object v ''payload filter'') (\<lambda>match.
       case match of
         [(name, pattern)] \<Rightarrow>
           if name = ''match'' then payload_walk pattern [''payload'']
           else invalid ''payload filter must contain match''
       | _ \<Rightarrow> invalid ''payload filter must contain match'')"

section \<open>Predicates\<close>

definition relationEdge :: "query_relation \<Rightarrow> string \<Rightarrow> relation_edge option" where
  "relationEdge relation edge = map_of (queryRelationEdges relation) edge"

definition quantifier_table :: "(string \<times> quantifier) list" where
  "quantifier_table = [(''some'', Quantify_Some), (''none'', Quantify_None), (''every'', Quantify_Every)]"

text \<open>\<^verbatim>\<open>normalizePredicate\<close>, the body of its loop, and \<^verbatim>\<open>normalizeRelationPredicate\<close>.\<close>

function normalizePredicate :: "query_relation \<Rightarrow> qvalue \<Rightarrow> query_predicate option result"
  and normalizeEntry :: "query_relation \<Rightarrow> string \<Rightarrow> qvalue \<Rightarrow> query_predicate list result"
  and normalizeRelationPredicate :: "string \<Rightarrow> relation_edge \<Rightarrow> qvalue \<Rightarrow> query_predicate result"
where
  "normalizePredicate relation v =
     bind_result (plain_object v (relation_name relation @ ''.where'')) (\<lambda>entries.
     bind_result (concat_result (\<lambda>(field, operand). normalizeEntry relation field operand) entries)
       (\<lambda>children. Inr (combine children)))"
| "normalizeEntry relation field operand =
     (if field = ''and'' \<or> field = ''or'' then
        (case operand of
           Q_Arr vs \<Rightarrow>
             bind_result (map_result (\<lambda>child. normalizePredicate relation child) vs) (\<lambda>ps.
             let logical = map the (filter (\<lambda>p. p \<noteq> None) ps) in
             Inr [if field = ''and'' then P_And logical else P_Or logical])
         | _ \<Rightarrow> invalid (field @ '' must be an array''))
      else if field = ''not'' then
        bind_result (normalizePredicate relation operand) (\<lambda>p.
          case p of None \<Rightarrow> invalid ''not must contain a predicate'' | Some child \<Rightarrow> Inr [P_Not child])
      else if relation = Contracts \<and> field = ''templateId'' then normalizeTemplateId operand
      else if relation = Contracts \<and> field = ''payload'' then normalizePayloadMatch operand
      else
        (case relationEdge relation field of
           None \<Rightarrow>
             if field \<notin> set (rm_fields (queryRelationMetadata relation)) then
               invalid (field @ '' is not a field of '' @ relation_name relation)
             else normalizeScalarFilter relation field operand
         | Some definition \<Rightarrow>
             bind_result (normalizeRelationPredicate field definition operand) (\<lambda>p. Inr [p])))"
| "normalizeRelationPredicate edge definition v =
     bind_result (plain_object v (edge @ '' relation filter'')) (\<lambda>entries.
     if ed_cardinality definition = To_One then
       if list_ex (\<lambda>(key, _). key \<in> {''one'', ''some'', ''none'', ''every''}) entries then
         invalid (edge @ '' is a to-one relation and does not support relation quantifiers'')
       else
         bind_result (normalizePredicate (ed_target definition) v) (\<lambda>p.
           case p of
             None \<Rightarrow> invalid (edge @ '' relation predicate must not be empty'')
           | Some child \<Rightarrow> Inr (P_Relation edge Quantify_One child))
     else
       (case entries of
          [(name, inner)] \<Rightarrow>
            (case map_of quantifier_table name of
               None \<Rightarrow> invalid (edge @ '' requires exactly one of some, none, or every'')
             | Some quantifier \<Rightarrow>
                 bind_result (normalizePredicate (ed_target definition) inner) (\<lambda>p.
                   case p of
                     None \<Rightarrow> invalid (edge @ ''.'' @ name @ '' must contain a predicate'')
                   | Some child \<Rightarrow> Inr (P_Relation edge quantifier child)))
        | _ \<Rightarrow> invalid (edge @ '' requires exactly one of some, none, or every'')))"
  by pat_completeness auto
termination
proof (relation "measure (\<lambda>x. case x of
    Inl (relation, v) \<Rightarrow> 3 * size v
  | Inr (Inl (relation, field, v)) \<Rightarrow> 3 * size v + 2
  | Inr (Inr (edge, definition, v)) \<Rightarrow> 3 * size v + 1)")
qed (auto simp: plain_object_Inr dest!: entry_smaller member_size)

declare normalizePredicate.simps [simp del] normalizeEntry.simps [simp del] normalizeRelationPredicate.simps [simp del]

end
