(* ===== verification/Query_Arguments.thy ===== *)
theory Query_Arguments
  imports Query_Normalizer
begin

text \<open>
  The other arguments of a query (pages, order, selections, includes, parties, aggregates, group keys)
  and the five normalized queries of \<^verbatim>\<open>src/src/query/canonical/query-normalizer.ts\<close>.
\<close>

section \<open>Pages and order\<close>

text \<open>\<^verbatim>\<open>assertPageValue\<close>\<close>

definition page_value :: "qvalue \<Rightarrow> string \<Rightarrow> nat result" where
  "page_value v name =
     (case v of
        Q_Num (Whole n) \<Rightarrow>
          if n < 0 then invalid (name @ '' must be a non-negative integer'') else Inr (nat n)
      | _ \<Rightarrow> invalid (name @ '' must be a non-negative integer''))"

definition is_number :: "qvalue \<Rightarrow> bool" where
  "is_number v = (case v of Q_Num _ \<Rightarrow> True | _ \<Rightarrow> False)"

definition normalizePage :: "(string \<times> qvalue) list \<Rightarrow> (nat \<times> nat option) result" where
  "normalizePage ps =
     (let skip = (case map_of ps ''skip'' of Some v \<Rightarrow> v | None \<Rightarrow> Q_Num (Whole 0));
          limit = q_get ps ''take'' in
      bind_result (ensure (is_number skip \<and> (limit = Q_Undef \<or> is_number limit)) ''skip and take must be numbers'') (\<lambda>_.
      bind_result (page_value skip ''skip'') (\<lambda>s.
      bind_result (if limit = Q_Undef then Inr None else bind_result (page_value limit ''take'') (\<lambda>n. Inr (Some n))) (\<lambda>t.
      Inr (s, t)))))"

text \<open>\<^verbatim>\<open>Object.keys(v).length\<close>, which throws on null and undefined.\<close>

definition key_count :: "qvalue \<Rightarrow> nat result" where
  "key_count v =
     (case v of
        Q_Undef \<Rightarrow> invalid ''Cannot convert undefined or null to object''
      | Q_Null \<Rightarrow> invalid ''Cannot convert undefined or null to object''
      | Q_Obj ps \<Rightarrow> Inr (length ps)
      | Q_Arr vs \<Rightarrow> Inr (length vs)
      | Q_Str s \<Rightarrow> Inr (length s)
      | Q_Bytes bs \<Rightarrow> Inr (length bs)
      | _ \<Rightarrow> Inr 0)"

definition order_shape_error :: string where
  "order_shape_error = ''orderBy must be a non-empty list of one-field entries''"

definition assertQueryOrderBy :: "qvalue list \<Rightarrow> unit result" where
  "assertQueryOrderBy vs =
     (if vs = [] then invalid order_shape_error
      else each_result (\<lambda>entry. bind_result (key_count entry) (\<lambda>n. ensure (n = 1) order_shape_error)) vs)"

definition direction_table :: "(string \<times> order_direction) list" where
  "direction_table = [(''asc'', Ascending), (''desc'', Descending)]"

definition order_entry :: "query_relation \<Rightarrow> qvalue \<Rightarrow> normalized_order result" where
  "order_entry relation entry =
     bind_result (plain_object entry ''orderBy entry'') (\<lambda>ps.
       let (field, direction) = hd ps in
       if field \<notin> set (rm_orderFields (queryRelationMetadata relation)) then
         invalid (field @ '' is not orderable on '' @ relation_name relation)
       else
         (case (case direction of Q_Str d \<Rightarrow> map_of direction_table d | _ \<Rightarrow> None) of
            None \<Rightarrow> invalid (''Invalid order direction for '' @ field)
          | Some d \<Rightarrow> Inr \<lparr>no_path = [field], no_direction = d\<rparr>))"

definition add_stable :: "normalized_order list \<Rightarrow> string \<Rightarrow> normalized_order list" where
  "add_stable requested field =
     (if list_ex (\<lambda>order. no_path order = [field]) requested then requested
      else requested @ [\<lparr>no_path = [field], no_direction = Ascending\<rparr>])"

definition normalizeOrderBy :: "query_relation \<Rightarrow> qvalue \<Rightarrow> bool \<Rightarrow> normalized_order list result" where
  "normalizeOrderBy relation v appendStable =
     bind_result
       (case v of
          Q_Undef \<Rightarrow> Inr []
        | Q_Arr vs \<Rightarrow> bind_result (assertQueryOrderBy vs) (\<lambda>_. map_result (order_entry relation) vs)
        | _ \<Rightarrow> invalid order_shape_error) (\<lambda>requested.
     Inr (if appendStable then foldl add_stable requested (rm_stableOrder (queryRelationMetadata relation))
          else requested))"

section \<open>Selections\<close>

definition scalar_type_table :: "(string \<times> json_scalar_type) list" where
  "scalar_type_table =
     [(''text'', As_Text), (''numeric'', As_Numeric), (''boolean'', As_Boolean), (''timestamp'', As_Timestamp)]"

definition scalar_type_of :: "qvalue \<Rightarrow> json_scalar_type option" where
  "scalar_type_of v = (case v of Q_Str s \<Rightarrow> map_of scalar_type_table s | _ \<Rightarrow> None)"

definition normalizeJsonSelection ::
    "date_host \<Rightarrow> query_relation \<Rightarrow> string \<Rightarrow> qvalue \<Rightarrow> json_selection result" where
  "normalizeJsonSelection h relation name v =
     (let label = ''select.json.'' @ name in
      bind_result (plain_object v label) (\<lambda>ps.
      bind_result (assertKnown ps [''field'', ''path'', ''as''] label) (\<lambda>_.
      case (q_get ps ''field'', scalar_type_of (q_get ps ''as'')) of
        (Q_Str field, as_type) \<Rightarrow>
          if field \<notin> set (rm_jsonFields (queryRelationMetadata relation)) then
            invalid (field @ '' is not a JSON field of '' @ relation_name relation)
          else
            (case as_type of
               None \<Rightarrow> invalid (label @ ''.as is invalid'')
             | Some t \<Rightarrow>
                 bind_result (jsonPath (q_get ps ''path'') (label @ ''.path'')) (\<lambda>path.
                 Inr \<lparr>jp_name = name, jp_field = field, jp_path = path, jp_as = t\<rparr>))
      | (field, _) \<Rightarrow>
          bind_result (js_text h field) (\<lambda>s.
            invalid (s @ '' is not a JSON field of '' @ relation_name relation)))))"

definition selection_entry ::
    "date_host \<Rightarrow> query_relation \<Rightarrow> string \<times> qvalue \<Rightarrow> (string list \<times> json_selection list) result" where
  "selection_entry h relation = (\<lambda>(field, enabled).
     if field = ''json'' then
       bind_result (plain_object enabled ''select.json'') (\<lambda>projections.
       bind_result (map_result (\<lambda>(name, p). normalizeJsonSelection h relation name p) projections) (\<lambda>json.
       Inr ([], json)))
     else if field \<notin> set (rm_fields (queryRelationMetadata relation)) then
       invalid (field @ '' is not a field of '' @ relation_name relation)
     else
       (case enabled of
          Q_Bool b \<Rightarrow> Inr (if b then [field] else [], [])
        | _ \<Rightarrow> invalid (''select.'' @ field @ '' must be a boolean'')))"

definition normalizeSelection :: "date_host \<Rightarrow> query_relation \<Rightarrow> qvalue \<Rightarrow> normalized_selection result" where
  "normalizeSelection h relation v =
     bind_result (plain_object v ''select'') (\<lambda>ps.
     bind_result (map_result (selection_entry h relation) ps) (\<lambda>parts.
     let chosen = concat (map fst parts); json = concat (map snd parts) in
     if chosen = [] \<and> json = [] then invalid ''select must include at least one field''
     else Inr \<lparr>sl_fields = chosen, sl_json = json\<rparr>))"

definition some_result_of :: "'a result \<Rightarrow> 'a option result" where
  "some_result_of r = bind_result r (\<lambda>x. Inr (Some x))"

section \<open>Includes\<close>

lemma q_get_smaller: "q_get ps k \<noteq> Q_Undef \<Longrightarrow> size (q_get ps k) < size (Q_Obj ps)"
  by (auto simp: q_get_def split: option.splits dest!: map_of_SomeD entry_smaller)

text \<open>The settings of an option; \<^verbatim>\<open>true\<close> stands for none.\<close>

definition include_settings :: "string \<Rightarrow> cardinality \<Rightarrow> qvalue \<Rightarrow> (string \<times> qvalue) list result" where
  "include_settings edge cardinality v =
     (if cardinality = To_Many \<and> v = Q_Bool True then
        invalid (edge @ '' is a to-many relation and requires a non-negative take'')
      else
        bind_result (if v = Q_Bool True then Inr [] else plain_object v (edge @ '' include option'')) (\<lambda>settings.
        bind_result (assertKnown settings
          ([''where'', ''select'', ''include'', ''orderBy''] @
            (if cardinality = To_Many then [''skip'', ''take''] else []))
          (edge @ '' include option'')) (\<lambda>_. Inr settings)))"

lemma include_settings_Inr:
  "include_settings edge cardinality v = Inr settings \<Longrightarrow> settings = [] \<or> v = Q_Obj settings"
  by (auto simp: include_settings_def bind_result_Inr_iff plain_object_Inr invalid_def split: if_splits)

definition include_page :: "string \<Rightarrow> cardinality \<Rightarrow> (string \<times> qvalue) list \<Rightarrow> (nat \<times> nat option) result" where
  "include_page edge cardinality settings =
     (if cardinality = To_Many then
        bind_result (normalizePage settings) (\<lambda>page.
          if snd page = None then
            invalid (edge @ '' is a to-many relation and requires a non-negative take'')
          else Inr page)
      else Inr (0, None))"

function normalizeIncludes :: "date_host \<Rightarrow> query_relation \<Rightarrow> qvalue \<Rightarrow> normalized_include list result" where
  "normalizeIncludes h relation v =
     bind_result (plain_object v ''include'') (\<lambda>ps.
     map_result (\<lambda>(edge, setting).
       case relationEdge relation edge of
         None \<Rightarrow> invalid (edge @ '' is not a relation of '' @ relation_name relation)
       | Some definition \<Rightarrow>
           let target = ed_target definition in
           bind_result (include_settings edge (ed_cardinality definition) setting) (\<lambda>settings.
           bind_result (include_page edge (ed_cardinality definition) settings) (\<lambda>page.
           bind_result (optional (q_get settings ''where'') (normalizePredicate target) None) (\<lambda>predicate.
           bind_result (optional (q_get settings ''select'')
             (\<lambda>s. some_result_of (normalizeSelection h target s)) None) (\<lambda>select.
           bind_result (if q_get settings ''include'' = Q_Undef then Inr []
             else normalizeIncludes h target (q_get settings ''include'')) (\<lambda>nested.
           bind_result (normalizeOrderBy target (q_get settings ''orderBy'')
             (ed_cardinality definition = To_Many \<or> q_get settings ''orderBy'' \<noteq> Q_Undef)) (\<lambda>orderBy.
           Inr (Include edge target (ed_cardinality definition) predicate select nested orderBy
             (fst page) (snd page)))))))))
       ps)"
  by pat_completeness auto
termination
proof (relation "measure (\<lambda>(h, relation, v). size v)")
  fix h relation v ps p edge setting edgeDefinition target settings page predicate select
  assume *: "plain_object v ''include'' = Inr ps" "p \<in> set ps" "(edge, setting) = p"
    "include_settings edge (ed_cardinality edgeDefinition) setting = Inr settings"
    "q_get settings ''include'' \<noteq> Q_Undef"
  then have "size setting < size v" by (auto simp: plain_object_Inr dest: entry_smaller)
  moreover have "setting = Q_Obj settings"
    using include_settings_Inr [OF *(4)] *(5) by (auto simp: q_get_def)
  ultimately have "size (q_get settings ''include'') < size v" using q_get_smaller [OF *(5)] by simp
  then show "((h, target, q_get settings ''include''), h, relation, v)
      \<in> measure (\<lambda>(h, relation, v). size v)" by simp
qed simp

declare normalizeIncludes.simps [simp del]

section \<open>Parties, aggregates and groups\<close>

definition texts :: "qvalue \<Rightarrow> string list option" where
  "texts v =
     (case v of
        Q_Arr vs \<Rightarrow>
          if list_all is_text vs then Some (map (\<lambda>v. case v of Q_Str s \<Rightarrow> s | _ \<Rightarrow> []) vs) else None
      | _ \<Rightarrow> None)"

text \<open>\<^verbatim>\<open>[...new Set(xs)]\<close>\<close>

definition unique_texts :: "string list \<Rightarrow> string list" where
  "unique_texts ss = rev (remdups (rev ss))"

definition normalizeParties_query :: "query_relation \<Rightarrow> qvalue \<Rightarrow> string list option result" where
  "normalizeParties_query relation v =
     (if v = Q_Undef then Inr None
      else if relation \<noteq> Contracts then invalid ''parties is only supported for contracts''
      else case texts v of
        None \<Rightarrow> invalid ''parties must be an array of strings''
      | Some ps \<Rightarrow> Inr (Some (sort (unique_texts ps))))"

definition aggregate_fields ::
    "query_relation \<Rightarrow> string list \<Rightarrow> (string \<times> qvalue) list \<Rightarrow> string \<Rightarrow> string list result" where
  "aggregate_fields relation allowed ps name =
     (case q_get ps name of
        Q_Undef \<Rightarrow> Inr []
      | v \<Rightarrow>
          (case texts v of
             None \<Rightarrow> invalid (name @ '' must contain fields of '' @ relation_name relation)
           | Some selected \<Rightarrow>
               if list_all (\<lambda>field. field \<in> set allowed) selected then Inr (unique_texts selected)
               else invalid (name @ '' must contain fields of '' @ relation_name relation)))"

definition normalizeAggregates ::
    "query_relation \<Rightarrow> (string \<times> qvalue) list \<Rightarrow> bool \<Rightarrow> aggregate_selection result" where
  "normalizeAggregates relation ps numericOnly =
     (let metadata = queryRelationMetadata relation;
          allowed = (if numericOnly then rm_numericFields metadata else rm_fields metadata) in
      bind_result (assertKnown ps [''count'', ''min'', ''max'', ''sum''] ''aggregate'') (\<lambda>_.
      bind_result (ensure (q_get ps ''count'' \<in> {Q_Undef, Q_Bool True}) ''aggregate.count must be true'') (\<lambda>_.
      bind_result (aggregate_fields relation allowed ps ''min'') (\<lambda>mins.
      bind_result (aggregate_fields relation allowed ps ''max'') (\<lambda>maxs.
      bind_result (aggregate_fields relation allowed ps ''sum'') (\<lambda>totals.
      let counted = q_get ps ''count'' = Q_Bool True in
      if \<not> counted \<and> mins = [] \<and> maxs = [] \<and> totals = [] then
        invalid ''aggregate requires at least one selection''
      else Inr \<lparr>ag_count = counted, ag_min = mins, ag_max = maxs, ag_sum = totals\<rparr>))))))"

definition normalizeJsonGroup ::
    "string \<Rightarrow> qvalue \<Rightarrow> (string \<times> string list \<times> json_scalar_type) result" where
  "normalizeJsonGroup field v =
     bind_result (plain_object v (field @ '' group key'')) (\<lambda>ps.
     bind_result (assertKnown ps [''name'', ''path'', ''as''] (field @ '' group key'')) (\<lambda>_.
     case q_get ps ''name'' of
       Q_Str name \<Rightarrow>
         if name = [] then invalid (field @ '' group name must be non-empty'')
         else
           (case scalar_type_of (q_get ps ''as'') of
              None \<Rightarrow> invalid (field @ '' group type is invalid'')
            | Some t \<Rightarrow>
                bind_result (jsonPath (q_get ps ''path'') (field @ '' group path'')) (\<lambda>path.
                Inr (name, path, t)))
     | _ \<Rightarrow> invalid (field @ '' group name must be non-empty'')))"

definition bucket_table :: "(string \<times> time_bucket) list" where
  "bucket_table = [(''hour'', Hour), (''day'', Day), (''week'', Week), (''month'', Month)]"

definition bucket_argument :: "qvalue \<Rightarrow> time_bucket result" where
  "bucket_argument v =
     bind_result (plain_object v ''time bucket'') (\<lambda>ps.
     bind_result (assertKnown ps [''bucket''] ''time bucket'') (\<lambda>_.
     case (case q_get ps ''bucket'' of Q_Str s \<Rightarrow> map_of bucket_table s | _ \<Rightarrow> None) of
       None \<Rightarrow> invalid ''invalid time bucket''
     | Some b \<Rightarrow> Inr b))"

definition group_key_error :: string where
  "group_key_error = ''group key must be a field, JSON projection, or a to-one time bucket''"

definition normalizeGroupKey :: "query_relation \<Rightarrow> qvalue \<Rightarrow> group_key result" where
  "normalizeGroupKey relation v =
     (let metadata = queryRelationMetadata relation in
      case v of
        Q_Str field \<Rightarrow>
          if field \<in> set (rm_groupFields metadata) then Inr (Group_Field [field])
          else invalid (field @ '' is not a group key of '' @ relation_name relation)
      | _ \<Rightarrow>
        bind_result (plain_object v ''group key'') (\<lambda>entries.
          case entries of
            [(field, nested)] \<Rightarrow>
              if field \<in> set (rm_jsonFields metadata) then
                bind_result (normalizeJsonGroup field nested) (\<lambda>(name, path, t).
                Inr (Group_Json field name path t))
              else if field \<in> set (rm_bucketFields metadata) then
                bind_result (bucket_argument nested) (\<lambda>b. Inr (Group_Bucket [field] b))
              else
                (case relationEdge relation field of
                   None \<Rightarrow> invalid group_key_error
                 | Some definition \<Rightarrow>
                     if ed_cardinality definition \<noteq> To_One then invalid group_key_error
                     else
                       bind_result (plain_object nested ''related group key'') (\<lambda>targetEntries.
                       case targetEntries of
                         [(name, inner)] \<Rightarrow>
                           if name \<in> set (rm_bucketFields (queryRelationMetadata (ed_target definition))) then
                             bind_result (bucket_argument inner) (\<lambda>b. Inr (Group_Bucket [field, name] b))
                           else invalid ''group key must use a profiled time bucket''
                       | _ \<Rightarrow> invalid ''group key must use a profiled time bucket''))
          | _ \<Rightarrow> invalid ''group key must contain exactly one field''))"

section \<open>What a normalized contract query proves\<close>

definition provesActiveScalar :: "string list \<Rightarrow> scalar_operator \<Rightarrow> qvalue \<Rightarrow> bool" where
  "provesActiveScalar path operator v =
     (case path of
        [field] \<Rightarrow>
          if field = ''active'' then operator = Op_equals \<and> v = Q_Bool True
          else if field = ''archivedAt'' \<or> field = ''archivedEventOffset'' then operator = Op_is \<and> v = Q_Null
          else False
      | _ \<Rightarrow> False)"

fun provesActive :: "query_predicate \<Rightarrow> bool" where
  "provesActive (P_Scalar path operator v) = provesActiveScalar path operator v"
| "provesActive (P_And children) = list_ex provesActive children"
| "provesActive (P_Or children) = (children \<noteq> [] \<and> list_all provesActive children)"
| "provesActive _ = False"

definition proves_active :: "query_predicate option \<Rightarrow> bool" where
  "proves_active predicate = (case predicate of None \<Rightarrow> False | Some p \<Rightarrow> provesActive p)"

section \<open>Copies\<close>

text \<open>\<^verbatim>\<open>clone\<close>: a date becomes its ISO text and bytes an array, in the values of a predicate.\<close>

fun clone_value :: "qvalue \<Rightarrow> qvalue result" where
  "clone_value (Q_Arr vs) = bind_result (map_result clone_value vs) (\<lambda>ws. Inr (Q_Arr ws))"
| "clone_value (Q_Date t) = bind_result (toISOString t) (\<lambda>s. Inr (Q_Str s))"
| "clone_value (Q_Bytes bs) = Inr (Q_Arr (map (\<lambda>b. Q_Num (Whole (int b))) bs))"
| "clone_value (Q_Obj ps) =
     bind_result (map_result (\<lambda>(k, v). bind_result (clone_value v) (\<lambda>w. Inr (k, w))) ps) (\<lambda>qs.
       Inr (Q_Obj (filter (\<lambda>(k, _). k \<noteq> ''__proto__'') qs)))"
| "clone_value (Q_Map ps) = Inr (Q_Obj [])"
| "clone_value (Q_Set vs) = Inr (Q_Obj [])"
| "clone_value (Q_Host k) = Inr (if k = Function then Q_Host k else Q_Obj [])"
| "clone_value v = Inr v"

fun clone_predicate :: "query_predicate \<Rightarrow> query_predicate result" where
  "clone_predicate (P_And ps) = bind_result (map_result clone_predicate ps) (\<lambda>qs. Inr (P_And qs))"
| "clone_predicate (P_Or ps) = bind_result (map_result clone_predicate ps) (\<lambda>qs. Inr (P_Or qs))"
| "clone_predicate (P_Not p) = bind_result (clone_predicate p) (\<lambda>q. Inr (P_Not q))"
| "clone_predicate (P_Scalar path operator v) =
     bind_result (clone_value v) (\<lambda>w. Inr (P_Scalar path operator w))"
| "clone_predicate (P_Relation edge quantifier p) =
     bind_result (clone_predicate p) (\<lambda>q. Inr (P_Relation edge quantifier q))"

definition clone_optional :: "query_predicate option \<Rightarrow> query_predicate option result" where
  "clone_optional p = (case p of None \<Rightarrow> Inr None | Some q \<Rightarrow> some_result_of (clone_predicate q))"

fun clone_include :: "normalized_include \<Rightarrow> normalized_include result" where
  "clone_include (Include edge relation cardinality predicate select nested orderBy skip limit) =
     bind_result (clone_optional predicate) (\<lambda>p.
     bind_result (map_result clone_include nested) (\<lambda>ns.
     Inr (Include edge relation cardinality p select ns orderBy skip limit)))"

definition query_error_message :: "js_error \<Rightarrow> string" where
  "query_error_message e =
     (case e of
        ValidationError s \<Rightarrow> s | SyntaxError s \<Rightarrow> s | RangeError s \<Rightarrow> s | ResolutionError s \<Rightarrow> s
      | SemanticError s \<Rightarrow> s | ReplaySourceMapError s \<Rightarrow> s | TestingConfigurationError s \<Rightarrow> s
      | PlainError s \<Rightarrow> s | Unmodelled s \<Rightarrow> s)"

definition normalized :: "'a result \<Rightarrow> 'a result" where
  "normalized r =
     (case r of
        Inr x \<Rightarrow> Inr x
      | Inl (Unmodelled s) \<Rightarrow> Inl (Unmodelled s)
      | Inl e \<Rightarrow> Inl (ValidationError (query_error_message e)))"

section \<open>The normalized queries\<close>

definition arguments :: "qvalue \<Rightarrow> string \<Rightarrow> (string \<times> qvalue) list result" where
  "arguments args label = plain_object (if args = Q_Undef then Q_Obj [] else args) label"

definition where_predicate :: "query_relation \<Rightarrow> (string \<times> qvalue) list \<Rightarrow> query_predicate option result" where
  "where_predicate relation source = optional (q_get source ''where'') (normalizePredicate relation) None"

definition selection_argument ::
    "date_host \<Rightarrow> query_relation \<Rightarrow> (string \<times> qvalue) list \<Rightarrow> normalized_selection option result" where
  "selection_argument h relation source =
     optional (q_get source ''select'') (\<lambda>v. some_result_of (normalizeSelection h relation v)) None"

definition include_argument ::
    "date_host \<Rightarrow> query_relation \<Rightarrow> (string \<times> qvalue) list \<Rightarrow> normalized_include list result" where
  "include_argument h relation source = optional (q_get source ''include'') (normalizeIncludes h relation) []"

definition normalizeFindMany :: "date_host \<Rightarrow> query_relation \<Rightarrow> qvalue \<Rightarrow> find_many_query result" where
  "normalizeFindMany h relation args =
     normalized
     (bind_result (arguments args ''findMany args'') (\<lambda>source.
      bind_result (assertKnown source
        [''parties'', ''where'', ''select'', ''include'', ''orderBy'', ''skip'', ''take''] (relation_name relation)) (\<lambda>_.
      bind_result (normalizePage source) (\<lambda>(skip, limit).
      let limit = (if limit = Some 0 then None else limit) in
      bind_result (where_predicate relation source) (\<lambda>predicate.
      bind_result (normalizeParties_query relation (q_get source ''parties'')) (\<lambda>parties.
      bind_result (selection_argument h relation source) (\<lambda>select.
      bind_result (include_argument h relation source) (\<lambda>inclusions.
      bind_result (normalizeOrderBy relation (q_get source ''orderBy'')
        (relation = Contracts \<or> q_get source ''orderBy'' \<noteq> Q_Undef \<or> skip > 0 \<or> limit \<noteq> None)) (\<lambda>orderBy.
      bind_result (clone_optional predicate) (\<lambda>cloned.
      bind_result (map_result clone_include inclusions) (\<lambda>inclusions.
      Inr \<lparr>fm_relation = relation, fm_parties = parties, fm_predicate = cloned, fm_select = select,
           fm_includes = inclusions, fm_orderBy = orderBy, fm_skip = skip, fm_take = limit,
           fm_activeOnly = (relation = Contracts \<and> proves_active predicate)\<rparr>)))))))))))"

definition assertUniqueEqualityValue :: "relation_metadata \<Rightarrow> string \<Rightarrow> qvalue \<Rightarrow> unit result" where
  "assertUniqueEqualityValue metadata field v =
     (if field \<notin> set (rm_fields metadata) then invalid (field @ '' is not a field of a unique key'')
      else bind_result (scalarKind metadata field) (\<lambda>kind.
        validateScalarValue v (''findUnique.where.'' @ field) kind (field \<in> set (rm_nullableFields metadata))))"

definition normalizeFindUnique :: "date_host \<Rightarrow> query_relation \<Rightarrow> qvalue \<Rightarrow> find_unique_query result" where
  "normalizeFindUnique h relation args =
     (let metadata = queryRelationMetadata relation in
      normalized
      (bind_result (plain_object args ''findUnique args'') (\<lambda>source.
       bind_result (assertKnown source [''where'', ''select'', ''include''] (relation_name relation)) (\<lambda>_.
       bind_result (plain_object (q_get source ''where'') ''findUnique.where'') (\<lambda>ps.
       let keys = map fst ps in
       bind_result (ensure (list_ex (\<lambda>key. length key = length keys \<and> list_all (\<lambda>field. field \<in> set keys) key)
           (rm_uniqueKeys metadata))
         (''findUnique.where must contain one declared unique key of '' @ relation_name relation)) (\<lambda>_.
       bind_result (map_result (\<lambda>(field, v).
         bind_result (assertUniqueEqualityValue metadata field v) (\<lambda>_. Inr (equality field v))) ps) (\<lambda>children.
       bind_result (case combine children of None \<Rightarrow> invalid ''findUnique.where must not be empty''
         | Some p \<Rightarrow> Inr p) (\<lambda>predicate.
       bind_result (selection_argument h relation source) (\<lambda>select.
       bind_result (include_argument h relation source) (\<lambda>inclusions.
       bind_result (clone_predicate predicate) (\<lambda>predicate.
       bind_result (map_result clone_include inclusions) (\<lambda>inclusions.
       Inr \<lparr>fu_relation = relation, fu_predicate = predicate, fu_select = select,
            fu_includes = inclusions\<rparr>))))))))))))"

definition normalizeCount :: "query_relation \<Rightarrow> qvalue \<Rightarrow> count_query result" where
  "normalizeCount relation args =
     normalized
     (bind_result (arguments args ''count args'') (\<lambda>source.
      bind_result (assertKnown source [''parties'', ''where''] (relation_name relation)) (\<lambda>_.
      bind_result (where_predicate relation source) (\<lambda>predicate.
      bind_result (normalizeParties_query relation (q_get source ''parties'')) (\<lambda>parties.
      bind_result (clone_optional predicate) (\<lambda>cloned.
      Inr \<lparr>cq_relation = relation, cq_parties = parties, cq_predicate = cloned,
           cq_activeOnly = (relation = Contracts \<and> proves_active predicate)\<rparr>))))))"

definition normalizeAggregate :: "query_relation \<Rightarrow> qvalue \<Rightarrow> aggregate_query result" where
  "normalizeAggregate relation args =
     normalized
     (bind_result (plain_object args ''aggregate args'') (\<lambda>source.
      bind_result (assertKnown source [''where'', ''count'', ''min'', ''max'', ''sum''] (relation_name relation)) (\<lambda>_.
      bind_result (where_predicate relation source) (\<lambda>predicate.
      bind_result (normalizeAggregates relation
        (map (\<lambda>name. (name, q_get source name)) [''count'', ''min'', ''max'', ''sum'']) False) (\<lambda>aggregates.
      bind_result (clone_optional predicate) (\<lambda>predicate.
      Inr \<lparr>aq_relation = relation, aq_predicate = predicate, aq_aggregates = aggregates\<rparr>))))))"

definition normalizeGroupBy :: "query_relation \<Rightarrow> qvalue \<Rightarrow> group_by_query result" where
  "normalizeGroupBy relation args =
     normalized
     (bind_result (plain_object args ''groupBy args'') (\<lambda>source.
      bind_result (assertKnown source [''where'', ''by'', ''aggregate''] (relation_name relation)) (\<lambda>_.
      case q_get source ''by'' of
        Q_Arr (k # ks) \<Rightarrow>
          bind_result (where_predicate relation source) (\<lambda>predicate.
          bind_result (map_result (normalizeGroupKey relation) (k # ks)) (\<lambda>keys.
          bind_result (plain_object (q_get source ''aggregate'') ''groupBy.aggregate'') (\<lambda>ps.
          bind_result (normalizeAggregates relation ps True) (\<lambda>aggregates.
          bind_result (clone_optional predicate) (\<lambda>predicate.
          Inr \<lparr>gb_relation = relation, gb_predicate = predicate, gb_by = keys, gb_aggregates = aggregates\<rparr>)))))
      | _ \<Rightarrow> invalid ''groupBy.by must be a non-empty list'')))"

end
