(* ===== verification/Query_Group_Laws.thy ===== *)
theory Query_Group_Laws
  imports Query_Laws
begin

text \<open>
  Groups are the rows that share a key: each group holds the rows with its identity, in the order of
  the rows, and no row is lost.
\<close>

text \<open>The memberships of a list of rows: one for each combination of key values of a row.\<close>

type_synonym membership = "nat \<times> qvalue list \<times> string"

definition memberships :: "nat list \<Rightarrow> (qvalue list \<times> string) list list \<Rightarrow> membership list" where
  "memberships rows keys = concat (map (\<lambda>(i, es). map (\<lambda>e. (i, e)) es) (zip rows keys))"

definition members :: "membership list \<Rightarrow> string \<Rightarrow> membership list" where
  "members ms identity = filter (\<lambda>(i, keys, identity'). identity' = identity) ms"

definition group_all :: "group_map \<Rightarrow> membership list \<Rightarrow> group_map" where
  "group_all groups ms = foldl (\<lambda>groups (i, e). add_to_group i groups e) groups ms"

lemma group_all_Cons: "group_all groups (map (\<lambda>e. (i, e)) es @ ms) = group_all (foldl (add_to_group i) groups es) ms"
  by (induction es arbitrary: groups) (simp_all add: group_all_def)

lemma group_rows_all:
  "group_rows h dataset query rows groups = Inr groups' \<longleftrightarrow>
   (\<exists>keys. map_result (row_keys h dataset query) rows = Inr keys \<and> groups' = group_all groups (memberships rows keys))"
proof (induction rows arbitrary: groups)
  case Nil
  show ?case by (auto simp: group_all_def memberships_def)
next
  case (Cons i rows)
  show ?case
  proof (cases "row_keys h dataset query i")
    case (Inr es)
    have *: "group_all groups (memberships (i # rows) (es # keys))
      = group_all (foldl (add_to_group i) groups es) (memberships rows keys)" for keys
      by (simp add: memberships_def group_all_Cons)
    show ?thesis unfolding group_rows.simps map_result.simps Inr bind_result_simps Cons.IH
      by (auto simp: bind_result_Inr_iff *)
  qed simp
qed

lemma group_all_snoc: "group_all groups (ms @ [(i, e)]) = add_to_group i (group_all groups ms) e"
  by (simp add: group_all_def)

lemma members_snoc:
  "members (ms @ [(i, keys, identity)]) identity' =
   members ms identity' @ (if identity = identity' then [(i, keys, identity)] else [])"
  by (simp add: members_def)

lemma group_of_members:
  "map_of (group_all [] ms) identity =
   (case members ms identity of
      [] \<Rightarrow> None
    | (i, keys, _) # rest \<Rightarrow> Some (keys, map fst (members ms identity)))"
proof (induction ms arbitrary: identity rule: rev_induct)
  case Nil
  show ?case by (simp add: group_all_def members_def)
next
  case (snoc m ms)
  obtain i keys identity' where m: "m = (i, keys, identity')" by (cases m)
  show ?case
  proof (cases "identity' = identity")
    case False
    then have same: "members (ms @ [m]) identity = members ms identity" by (simp add: m members_snoc)
    have "map_of (group_all [] (ms @ [m])) identity = map_of (group_all [] ms) identity"
      using False by (simp add: m group_all_snoc add_to_group_def split: option.split)
    then show ?thesis unfolding same snoc .
  next
    case True
    show ?thesis
    proof (cases "members ms identity")
      case Nil
      with snoc True show ?thesis by (simp add: m group_all_snoc members_snoc add_to_group_def)
    next
      case (Cons first rest)
      obtain j first_keys x where first: "first = (j, first_keys, x)" by (cases first)
      have "map_of (group_all [] ms) identity = Some (first_keys, map fst (members ms identity))"
        using snoc [of identity] Cons first by simp
      with Cons first True show ?thesis by (simp add: m group_all_snoc members_snoc add_to_group_def)
    qed
  qed
qed

lemma add_to_group_keys:
  "distinct (map fst groups) \<Longrightarrow> distinct (map fst (add_to_group i groups e))"
  by (cases e) (auto simp: add_to_group_def distinct_update split: option.split)

lemma group_all_distinct: "distinct (map fst (group_all [] ms))"
proof (induction ms rule: rev_induct)
  case (snoc m ms)
  then show ?case by (cases m) (simp add: group_all_snoc add_to_group_keys)
qed (simp add: group_all_def)

definition group_size :: "group_map \<Rightarrow> nat" where
  "group_size groups = sum_list (map (\<lambda>(identity, keys, rows). length rows) groups)"

lemma group_size_update:
  "distinct (map fst groups) \<Longrightarrow>
   group_size (AList.update k (keys, rows) groups) =
   group_size groups + length rows - (case map_of groups k of None \<Rightarrow> 0 | Some (_, old) \<Rightarrow> length old)"
proof (induction groups)
  case (Cons g groups)
  obtain k' keys' old where g: "g = (k', keys', old)" by (cases g)
  have le: "(case map_of groups k of None \<Rightarrow> 0 | Some (_, old) \<Rightarrow> length old) \<le> group_size groups"
    by (induction groups) (auto simp: group_size_def split: option.split)
  have head: "group_size (g # gs) = length old + group_size gs" for gs
    by (simp add: group_size_def g)
  show ?case
  proof (cases "k = k'")
    case True
    then show ?thesis by (simp add: g group_size_def)
  next
    case False
    then show ?thesis using Cons le head by (simp add: g group_size_def)
  qed
qed (simp add: group_size_def)

lemma group_all_size: "group_size (group_all [] ms) = length ms"
proof (induction ms rule: rev_induct)
  case Nil
  show ?case by (simp add: group_all_def group_size_def)
next
  case (snoc m ms)
  obtain i keys identity where m: "m = (i, keys, identity)" by (cases m)
  have "length old \<le> group_size gs" if "map_of gs identity = Some (ks, old)" for gs ks old
    using that by (induction gs) (auto simp: group_size_def split: if_splits)
  then show ?case using snoc group_all_distinct [of ms]
    by (fastforce simp: m group_all_snoc add_to_group_def group_size_update split: option.split)
qed

end
