(* ===== verification/Query_Order_Laws.thy ===== *)
theory Query_Order_Laws
  imports Query_Laws
begin

text \<open>
  The order of a result. When every order column holds values of one kind (instants, integers, or texts
  that are not integers, and nulls), the comparison of rows is a total preorder, and the sorted rows
  do not depend on the order in which the data set lists them. On a text column that mixes integers with
  other texts the comparison is not transitive.
\<close>

section \<open>Consistent comparisons\<close>

definition amount :: "int option result \<Rightarrow> int" where
  "amount r = (case r of Inr (Some c) \<Rightarrow> c | _ \<Rightarrow> 0)"

text \<open>A comparison that always gives a number, is antisymmetric in its sign, and is transitive.\<close>

definition consistent :: "'a set \<Rightarrow> ('a \<Rightarrow> 'a \<Rightarrow> int option result) \<Rightarrow> bool" where
  "consistent S cmp \<longleftrightarrow>
     (\<forall>x \<in> S. \<forall>y \<in> S. cmp x y = Inr (Some (amount (cmp x y)))) \<and>
     (\<forall>x \<in> S. \<forall>y \<in> S. amount (cmp x y) < 0 \<longleftrightarrow> amount (cmp y x) > 0) \<and>
     (\<forall>x \<in> S. \<forall>y \<in> S. \<forall>z \<in> S. amount (cmp x y) \<le> 0 \<longrightarrow> amount (cmp y z) \<le> 0 \<longrightarrow> amount (cmp x z) \<le> 0)"

lemma amount_simp [simp]: "amount (Inr (Some c)) = c"
  by (simp add: amount_def)

lemma consistent_defined: "consistent S cmp \<Longrightarrow> x \<in> S \<Longrightarrow> y \<in> S \<Longrightarrow> cmp x y = Inr (Some (amount (cmp x y)))"
  by (simp add: consistent_def)

lemma consistent_sign:
  "consistent S cmp \<Longrightarrow> x \<in> S \<Longrightarrow> y \<in> S \<Longrightarrow> amount (cmp x y) < 0 \<longleftrightarrow> amount (cmp y x) > 0"
  by (simp add: consistent_def)

lemma consistent_trans:
  "consistent S cmp \<Longrightarrow> x \<in> S \<Longrightarrow> y \<in> S \<Longrightarrow> z \<in> S \<Longrightarrow> amount (cmp x y) \<le> 0 \<Longrightarrow> amount (cmp y z) \<le> 0 \<Longrightarrow>
   amount (cmp x z) \<le> 0"
  unfolding consistent_def by blast

lemma consistentI:
  assumes "\<And>x y. x \<in> S \<Longrightarrow> y \<in> S \<Longrightarrow> cmp x y = Inr (Some (c x y))"
    and "\<And>x y. x \<in> S \<Longrightarrow> y \<in> S \<Longrightarrow> c x y < 0 \<longleftrightarrow> c y x > 0"
    and "\<And>x y z. x \<in> S \<Longrightarrow> y \<in> S \<Longrightarrow> z \<in> S \<Longrightarrow> c x y \<le> 0 \<Longrightarrow> c y z \<le> 0 \<Longrightarrow> c x z \<le> 0"
  shows "consistent S cmp"
proof -
  have a: "amount (cmp x y) = c x y" if "x \<in> S" "y \<in> S" for x y using assms(1) [OF that] by simp
  show ?thesis
    unfolding consistent_def
    by (intro conjI ballI impI) (simp_all add: a assms(1,2), rule assms(3))
qed

lemma consistent_preorder: "consistent S cmp \<Longrightarrow> preorder_among S (\<lambda>x y. amount (cmp x y) \<le> 0)"
  unfolding preorder_among_def
proof (intro conjI ballI impI)
  fix x y assume "consistent S cmp" "x \<in> S" "y \<in> S"
  from consistent_sign [OF this] show "amount (cmp x y) \<le> 0 \<or> amount (cmp y x) \<le> 0" by linarith
qed (rule consistent_trans)

text \<open>A lexicographic comparison of consistent comparisons is consistent.\<close>

definition then_compare ::
    "('a \<Rightarrow> 'a \<Rightarrow> int option result) \<Rightarrow> ('a \<Rightarrow> 'a \<Rightarrow> int option result) \<Rightarrow> 'a \<Rightarrow> 'a \<Rightarrow> int option result" where
  "then_compare f g x y = bind_result (f x y) (\<lambda>c. if c \<noteq> Some 0 then Inr c else g x y)"

lemma consistent_then:
  assumes f: "consistent S f" and g: "consistent S g"
  shows "consistent S (then_compare f g)"
proof (rule consistentI)
  let ?f = "\<lambda>x y. amount (f x y)" and ?g = "\<lambda>x y. amount (g x y)"
  let ?c = "\<lambda>x y. if ?f x y \<noteq> 0 then ?f x y else ?g x y"
  show "then_compare f g x y = Inr (Some (?c x y))" if xy: "x \<in> S" "y \<in> S" for x y
  proof -
    obtain c d where "f x y = Inr (Some c)" "g x y = Inr (Some d)"
      using consistent_defined [OF f xy] consistent_defined [OF g xy] by blast
    then show ?thesis by (simp add: then_compare_def)
  qed
  show "?c x y < 0 \<longleftrightarrow> ?c y x > 0" if "x \<in> S" "y \<in> S" for x y
    using consistent_sign [OF f that] consistent_sign [OF f that(2,1)]
      consistent_sign [OF g that] by (auto split: if_splits)
  show "?c x z \<le> 0" if S: "x \<in> S" "y \<in> S" "z \<in> S" and le: "?c x y \<le> 0" "?c y z \<le> 0" for x y z
  proof -
    have fxy: "?f x y \<le> 0" and fyz: "?f y z \<le> 0" using le by (auto split: if_splits)
    then have fxz: "?f x z \<le> 0" by (rule consistent_trans [OF f S])
    show ?thesis
    proof (cases "?f x z = 0")
      case True
      then have "?f z x \<le> 0" using consistent_sign [OF f S(1,3)] by linarith
      then have "?f z y \<le> 0" "?f y x \<le> 0"
        using consistent_trans [OF f S(3,1,2) _ fxy] consistent_trans [OF f S(2,3,1) fyz] by auto
      then have "?f x y = 0" "?f y z = 0"
        using fxy fyz consistent_sign [OF f S(1,2)] consistent_sign [OF f S(2,3)] by linarith+
      then show ?thesis using le consistent_trans [OF g S] True by simp
    next
      case False
      with fxz show ?thesis by simp
    qed
  qed
qed

lemma consistent_uminus:
  assumes "consistent S f"
  shows "consistent S (\<lambda>x y. bind_result (f x y) (\<lambda>c. Inr (map_option uminus c)))"
proof (rule consistentI)
  show "bind_result (f x y) (\<lambda>c. Inr (map_option uminus c)) = Inr (Some (- amount (f x y)))"
    if "x \<in> S" "y \<in> S" for x y
    by (subst consistent_defined [OF assms that]) simp
  show "- amount (f x y) < 0 \<longleftrightarrow> - amount (f y x) > 0" if "x \<in> S" "y \<in> S" for x y
    using consistent_sign [OF assms that(2,1)] by auto
  show "- amount (f x z) \<le> 0" if "x \<in> S" "y \<in> S" "z \<in> S" "- amount (f x y) \<le> 0" "- amount (f y z) \<le> 0" for x y z
  proof -
    have "amount (f z y) \<le> 0" "amount (f y x) \<le> 0"
      using that(4,5) consistent_sign [OF assms that(2,3)] consistent_sign [OF assms that(1,2)] by linarith+
    then have "amount (f z x) \<le> 0" using consistent_trans [OF assms that(3,2,1)] by blast
    then show ?thesis using consistent_sign [OF assms that(1,3)] by linarith
  qed
qed

lemma consistent_via:
  assumes "consistent T f" "\<And>x. x \<in> S \<Longrightarrow> g x \<in> T"
  shows "consistent S (\<lambda>x y. f (g x) (g y))"
proof (rule consistentI)
  show "f (g x) (g y) = Inr (Some (amount (f (g x) (g y))))" if "x \<in> S" "y \<in> S" for x y
    by (rule consistent_defined [OF assms(1)]) (use assms(2) that in blast)+
  show "amount (f (g x) (g y)) < 0 \<longleftrightarrow> amount (f (g y) (g x)) > 0" if "x \<in> S" "y \<in> S" for x y
    by (rule consistent_sign [OF assms(1)]) (use assms(2) that in blast)+
  show "amount (f (g x) (g z)) \<le> 0"
    if "x \<in> S" "y \<in> S" "z \<in> S" "amount (f (g x) (g y)) \<le> 0" "amount (f (g y) (g z)) \<le> 0" for x y z
    using consistent_trans [OF assms(1) assms(2) assms(2) assms(2), of x y z] that by blast
qed

lemma consistent_cong:
  assumes "consistent S f" "\<And>x y. x \<in> S \<Longrightarrow> y \<in> S \<Longrightarrow> g x y = f x y"
  shows "consistent S g"
proof (rule consistentI [where c = "\<lambda>x y. amount (f x y)"])
  show "g x y = Inr (Some (amount (f x y)))" if "x \<in> S" "y \<in> S" for x y
    by (rule trans [OF assms(2) [OF that] consistent_defined [OF assms(1) that]])
  show "amount (f x y) < 0 \<longleftrightarrow> amount (f y x) > 0" if "x \<in> S" "y \<in> S" for x y
    by (rule consistent_sign [OF assms(1) that])
  show "amount (f x z) \<le> 0"
    if "x \<in> S" "y \<in> S" "z \<in> S" "amount (f x y) \<le> 0" "amount (f y z) \<le> 0" for x y z
    by (rule consistent_trans [OF assms(1) that])
qed

lemma sign_of_linorder:
  fixes a b c :: "'k :: linorder"
  shows "sign_of (<) a b < 0 \<longleftrightarrow> sign_of (<) b a > 0" "sign_of (<) a b \<le> 0 \<longleftrightarrow> a \<le> b"
  by (auto simp: sign_of_def)


lemma consistent_key:
  fixes key :: "'a \<Rightarrow> 'k :: linorder"
  assumes "\<And>x y. x \<in> S \<Longrightarrow> y \<in> S \<Longrightarrow> cmp x y = Inr (Some (sign_of (<) (key x) (key y)))"
  shows "consistent S cmp"
proof (rule consistentI)
  show "cmp x y = Inr (Some (sign_of (<) (key x) (key y)))" if "x \<in> S" "y \<in> S" for x y
    using assms that by blast
qed (auto simp: sign_of_linorder)

section \<open>Columns\<close>

definition instant_column :: "qvalue set \<Rightarrow> bool" where
  "instant_column vs \<longleftrightarrow> (\<forall>v \<in> vs. q_nullish v \<or> (\<exists>t. v = Q_Date (Whole t)))"

definition integer_column :: "qvalue set \<Rightarrow> bool" where
  "integer_column vs \<longleftrightarrow> (\<forall>v \<in> vs. q_nullish v \<or> query_numeric v \<noteq> None)"

definition text_column :: "date_host \<Rightarrow> qvalue set \<Rightarrow> bool" where
  "text_column h vs \<longleftrightarrow>
     (\<forall>v \<in> vs. q_nullish v \<or> (query_numeric v = None \<and> \<not> is_date v \<and> is_value (js_text h v)))"

definition uniform_column :: "date_host \<Rightarrow> qvalue set \<Rightarrow> bool" where
  "uniform_column h vs \<longleftrightarrow> instant_column vs \<or> integer_column vs \<or> text_column h vs"

definition present_values :: "qvalue set \<Rightarrow> qvalue set" where
  "present_values vs = {v \<in> vs. \<not> q_nullish v}"

lemma numeric_no_date: "query_numeric v = Some n \<Longrightarrow> \<not> is_date v"
  by (auto simp: query_numeric_def is_date_def split: qvalue.splits)

lemma uniform_present:
  assumes "uniform_column h vs"
  shows "consistent (present_values vs) (query_compare h)"
proof -
  consider "instant_column vs" | "integer_column vs" | "text_column h vs"
    using assms by (auto simp: uniform_column_def)
  then show ?thesis
  proof cases
    case 1
    let ?key = "\<lambda>v. case v of Q_Date (Whole t) \<Rightarrow> t | _ \<Rightarrow> 0"
    show ?thesis
    proof (rule consistent_key [where key = ?key])
      fix x y assume "x \<in> present_values vs" "y \<in> present_values vs"
      then obtain t u where "x = Q_Date (Whole t)" "y = Q_Date (Whole u)"
        using 1 by (auto simp: instant_column_def present_values_def) blast
      then show "query_compare h x y = Inr (Some (sign_of (<) (?key x) (?key y)))"
        by (simp add: query_compare_def q_nullish_def is_date_def instant_of_def)
    qed
  next
    case 2
    show ?thesis
    proof (rule consistent_key [where key = "the \<circ> query_numeric"])
      fix x y assume xy: "x \<in> present_values vs" "y \<in> present_values vs"
      then obtain m n where "query_numeric x = Some m" "query_numeric y = Some n"
        using 2 by (auto simp: integer_column_def present_values_def) blast
      moreover have "\<not> q_nullish x" "\<not> q_nullish y" using xy by (auto simp: present_values_def)
      ultimately show "query_compare h x y = Inr (Some (sign_of (<) ((the \<circ> query_numeric) x) ((the \<circ> query_numeric) y)))"
        by (simp add: query_compare_def numeric_no_date comparison_key_def sign_of_def primitive_less_def)
    qed
  next
    case 3
    let ?key = "\<lambda>v. case js_text h v of Inr s \<Rightarrow> s | Inl _ \<Rightarrow> []"
    show ?thesis
    proof (rule consistent_key [where key = ?key])
      fix x y assume xy: "x \<in> present_values vs" "y \<in> present_values vs"
      have texts: "query_numeric v = None \<and> \<not> is_date v \<and> (\<exists>s. js_text h v = Inr s)" if "v \<in> present_values vs" for v
        using 3 that by (cases "js_text h v") (auto simp: text_column_def present_values_def is_value_def)
      from texts [OF xy(1)] texts [OF xy(2)] obtain s t where "js_text h x = Inr s" "js_text h y = Inr t"
        "query_numeric x = None" "query_numeric y = None" "\<not> is_date x" "\<not> is_date y" by blast
      moreover have "\<not> q_nullish x" "\<not> q_nullish y" using xy by (auto simp: present_values_def)
      ultimately show "query_compare h x y = Inr (Some (sign_of (<) (?key x) (?key y)))"
        by (simp add: query_compare_def comparison_key_def sign_of_def primitive_less_def)
    qed
  qed
qed

text \<open>Nulls come last when ascending; descending is the exact reverse.\<close>

lemma uniform_ascending:
  assumes "uniform_column h vs"
  shows "consistent vs (\<lambda>v w. postgresCompare h v w Ascending)"
proof -
  let ?f = "query_compare h" and ?p = "\<lambda>v w. postgresCompare h v w Ascending"
  let ?c = "\<lambda>v w. if q_nullish v \<or> q_nullish w then (if q_nullish v \<and> q_nullish w then 0 else if q_nullish v then 1 else - 1)
    else amount (?f v w)"
  have present: "v \<in> present_values vs" if "v \<in> vs" "\<not> q_nullish v" for v using that by (simp add: present_values_def)
  note c = uniform_present [OF assms]
  show ?thesis
  proof (rule consistentI)
    show "?p v w = Inr (Some (?c v w))" if vw: "v \<in> vs" "w \<in> vs" for v w
    proof (cases "q_nullish v \<or> q_nullish w")
      case False
      then obtain k where "?f v w = Inr (Some k)" using consistent_defined [OF c] present vw by blast
      with False show ?thesis by (simp add: postgresCompare_def)
    qed (simp add: postgresCompare_def)
    show "?c v w < 0 \<longleftrightarrow> ?c w v > 0" if "v \<in> vs" "w \<in> vs" for v w
      using consistent_sign [OF c present present, of v w] that by auto
    show "?c u w \<le> 0" if "u \<in> vs" "v \<in> vs" "w \<in> vs" "?c u v \<le> 0" "?c v w \<le> 0" for u v w
      using consistent_trans [OF c present present present, of u v w] that by (auto split: if_splits)
  qed
qed

lemma descending_reverse:
  "postgresCompare h v w Descending
   = bind_result (postgresCompare h v w Ascending) (\<lambda>c. Inr (map_option uminus c))"
  by (auto simp: postgresCompare_def bind_result_assoc)

lemma uniform_postgres:
  assumes "uniform_column h vs"
  shows "consistent vs (\<lambda>v w. postgresCompare h v w direction)"
  using uniform_ascending [OF assms] consistent_uminus [OF uniform_ascending [OF assms]]
  by (cases direction) (simp_all add: descending_reverse)

section \<open>Rows\<close>

text \<open>The comparison of two rows without their places.\<close>

fun key_compare :: "date_host \<Rightarrow> normalized_order list \<Rightarrow> query_row \<Rightarrow> query_row \<Rightarrow> int option result" where
  "key_compare h [] left right = Inr (Some 0)"
| "key_compare h (order # orders) left right =
     then_compare
       (\<lambda>left right. bind_result (read_at (Q_Obj left) (no_path order)) (\<lambda>l.
          bind_result (read_at (Q_Obj right) (no_path order)) (\<lambda>r. postgresCompare h l r (no_direction order))))
       (key_compare h orders) left right"

lemma then_compare_assoc:
  "then_compare (then_compare f g) k x y = then_compare f (then_compare g k) x y"
  by (auto simp: then_compare_def bind_result_def split: sum.split)

lemma row_compare_Cons:
  "row_compare h (order # orders) l r =
   then_compare (\<lambda>l r. bind_result (read_at (Q_Obj (snd l)) (no_path order)) (\<lambda>v.
      bind_result (read_at (Q_Obj (snd r)) (no_path order)) (\<lambda>w. postgresCompare h v w (no_direction order))))
     (row_compare h orders) l r"
  by (simp add: then_compare_def bind_result_assoc)

lemma row_compare_keys:
  "row_compare h orders left right =
   then_compare (\<lambda>l r. key_compare h orders (snd l) (snd r)) (\<lambda>l r. Inr (Some (int (fst l) - int (fst r)))) left right"
proof (induction orders arbitrary: left right)
  case Nil
  show ?case by (simp add: then_compare_def)
next
  case (Cons order orders)
  have "row_compare h orders = then_compare (\<lambda>l r. key_compare h orders (snd l) (snd r))
      (\<lambda>l r. Inr (Some (int (fst l) - int (fst r))))" by (intro ext) (rule Cons.IH)
  then show ?case
    by (simp only: row_compare_Cons) (auto simp: then_compare_def bind_result_def split: sum.split)
qed

lemma amount_then: "amount (then_compare f g x y) \<le> 0 \<Longrightarrow> amount (f x y) \<le> 0"
  by (auto simp: then_compare_def bind_result_def amount_def split: sum.splits option.splits if_splits)

definition column_at :: "query_row set \<Rightarrow> string list \<Rightarrow> qvalue set" where
  "column_at rows path = {v. \<exists>row \<in> rows. read_at (Q_Obj row) path = Inr v}"

definition uniform_orders :: "date_host \<Rightarrow> normalized_order list \<Rightarrow> query_row set \<Rightarrow> bool" where
  "uniform_orders h orders rows \<longleftrightarrow>
     (\<forall>order \<in> set orders. (\<forall>row \<in> rows. is_value (read_at (Q_Obj row) (no_path order))) \<and>
       uniform_column h (column_at rows (no_path order)))"

lemma consistent_zero: "consistent S (\<lambda>x y. Inr (Some 0))"
  by (rule consistentI [where c = "\<lambda>x y. 0"]) simp_all

lemma key_compare_Nil: "key_compare h [] = (\<lambda>x y. Inr (Some 0))"
  by (simp add: fun_eq_iff)

lemma key_compare_Cons: "key_compare h (order # orders) = then_compare
       (\<lambda>left right. bind_result (read_at (Q_Obj left) (no_path order)) (\<lambda>l.
          bind_result (read_at (Q_Obj right) (no_path order)) (\<lambda>r. postgresCompare h l r (no_direction order))))
       (key_compare h orders)"
  by (simp add: fun_eq_iff)

lemma key_compare_consistent: "uniform_orders h orders rows \<Longrightarrow> consistent rows (key_compare h orders)"
proof (induction orders)
  case Nil
  show ?case unfolding key_compare_Nil by (rule consistent_zero)
next
  case (Cons order orders)
  let ?path = "no_path order" and ?column = "column_at rows (no_path order)"
  define f where "f row = (case read_at (Q_Obj row) ?path of Inr v \<Rightarrow> v | Inl _ \<Rightarrow> Q_Undef)" for row
  from Cons.prems have column: "uniform_column h ?column"
    and defined: "\<And>row. row \<in> rows \<Longrightarrow> is_value (read_at (Q_Obj row) ?path)"
    and rest: "uniform_orders h orders rows" by (auto simp: uniform_orders_def)
  have read: "read_at (Q_Obj row) ?path = Inr (f row)" if "row \<in> rows" for row
    using defined [OF that] by (auto simp: is_value_def f_def split: sum.splits)
  have "f row \<in> ?column" if "row \<in> rows" for row
    using read [OF that] that by (auto simp: column_at_def)
  from consistent_via [OF uniform_postgres [OF column, of "no_direction order"] this]
  have "consistent rows (\<lambda>l r. postgresCompare h (f l) (f r) (no_direction order))" .
  then have "consistent rows (\<lambda>left right. bind_result (read_at (Q_Obj left) ?path) (\<lambda>l.
          bind_result (read_at (Q_Obj right) ?path) (\<lambda>r. postgresCompare h l r (no_direction order))))"
    by (rule consistent_cong) (simp add: read)
  then show ?case unfolding key_compare_Cons by (rule consistent_then [OF _ Cons.IH [OF rest]])
qed

lemma not_after_amount: "not_after c \<longleftrightarrow> amount c \<le> 0"
  by (simp add: not_after_def amount_def split: sum.split option.split)

lemma consistent_places: "consistent S (\<lambda>l r. Inr (Some (int (fst l) - int (fst r))))"
  by (rule consistentI [where c = "\<lambda>l r. int (fst l) - int (fst r)"]) auto

definition rows_among :: "compiled_dataset \<Rightarrow> query_relation \<Rightarrow> nat list \<Rightarrow> query_row set" where
  "rows_among dataset relation rows = row_at dataset relation ` set rows"

lemma order_rows_sorted:
  assumes "uniform_orders h orders (rows_among dataset relation rows)"
  obtains ordered where "order_rows h dataset relation orders rows = Inr ordered" "mset ordered = mset rows"
    "sorted_wrt (\<lambda>i j. amount (key_compare h orders (row_at dataset relation i) (row_at dataset relation j)) \<le> 0) ordered"
proof -
  let ?dec = "zip [0..<length rows] rows" and ?view = "\<lambda>(place, i). (place, row_at dataset relation i)"
  let ?cmp = "\<lambda>l r. row_compare h orders (?view l) (?view r)"
  have view: "snd (?view d) = row_at dataset relation (snd d)" for d by (cases d) simp
  have "consistent (set ?dec) (\<lambda>l r. key_compare h orders (row_at dataset relation (snd l)) (row_at dataset relation (snd r)))"
    by (rule consistent_via [OF key_compare_consistent [OF assms]])
      (auto simp: rows_among_def dest: set_zip_rightD)
  then have "consistent (set ?dec) (then_compare
      (\<lambda>l r. key_compare h orders (row_at dataset relation (snd l)) (row_at dataset relation (snd r)))
      (\<lambda>l r. Inr (Some (int (fst l) - int (fst r)))))" (is "consistent _ ?lex")
    by (rule consistent_then [OF _ consistent_places])
  moreover have "?cmp = ?lex"
    by (simp add: fun_eq_iff row_compare_keys then_compare_def cong: if_cong)
  ultimately have c: "consistent (set ?dec) ?cmp" by simp
  let ?sorted = "sort_by (\<lambda>l r. amount (?cmp l r) \<le> 0) ?dec"
  have "list_all (\<lambda>l. list_all (\<lambda>r. is_value (?cmp l r)) ?dec) ?dec"
    unfolding list_all_iff
  proof (intro ballI)
    fix l r assume "l \<in> set ?dec" "r \<in> set ?dec"
    from consistent_defined [OF c this] show "is_value (?cmp l r)" by (metis is_value_def sum.simps(6))
  qed
  then have ordered: "order_rows h dataset relation orders rows = Inr (map snd ?sorted)"
    by (simp add: order_rows_def Let_def not_after_amount)
  have "mset (map snd ?sorted) = mset (map snd ?dec)" by (simp only: mset_map mset_sort_by)
  then have perm: "mset (map snd ?sorted) = mset rows" by simp
  have "sorted_wrt (\<lambda>l r. amount (?cmp l r) \<le> 0) ?sorted"
    by (rule sorted_sort_among [OF consistent_preorder [OF c] order_refl])
  then have "sorted_wrt (\<lambda>l r. amount (key_compare h orders (row_at dataset relation (snd l))
      (row_at dataset relation (snd r))) \<le> 0) ?sorted"
  proof (rule sorted_wrt_mono_rel [rotated])
    fix l r assume "amount (?cmp l r) \<le> 0"
    then have "amount (?lex l r) \<le> 0" unfolding fun_cong [OF fun_cong [OF \<open>?cmp = ?lex\<close>]] .
    then show "amount (key_compare h orders (row_at dataset relation (snd l)) (row_at dataset relation (snd r))) \<le> 0"
      by (rule amount_then)
  qed
  then show ?thesis using that [OF ordered perm] by (simp add: sorted_wrt_map)
qed

text \<open>Rows that the order keys tell apart.\<close>

definition told_apart :: "date_host \<Rightarrow> normalized_order list \<Rightarrow> compiled_dataset \<Rightarrow> query_relation \<Rightarrow> nat list \<Rightarrow> bool" where
  "told_apart h orders dataset relation rows \<longleftrightarrow>
     (\<forall>i \<in> set rows. \<forall>j \<in> set rows. i \<noteq> j \<longrightarrow>
       key_compare h orders (row_at dataset relation i) (row_at dataset relation j) \<noteq> Inr (Some 0))"

lemma order_rows_unique:
  assumes uniform: "uniform_orders h orders (rows_among dataset relation rows)"
    and apart: "told_apart h orders dataset relation rows" and perm: "mset rows = mset rows'"
  shows "order_rows h dataset relation orders rows = order_rows h dataset relation orders rows'"
proof -
  let ?le = "\<lambda>i j. amount (key_compare h orders (row_at dataset relation i) (row_at dataset relation j)) \<le> 0"
  have set: "set rows' = set rows" using perm by (metis set_mset_mset)
  then have uniform': "uniform_orders h orders (rows_among dataset relation rows')"
    using uniform by (simp add: rows_among_def)
  from order_rows_sorted [OF uniform] obtain xs where
    xs: "order_rows h dataset relation orders rows = Inr xs" "mset xs = mset rows" "sorted_wrt ?le xs" .
  from order_rows_sorted [OF uniform'] obtain ys where
    ys: "order_rows h dataset relation orders rows' = Inr ys" "mset ys = mset rows'" "sorted_wrt ?le ys" .
  have "xs = ys"
  proof (rule sorted_wrt_unique [OF xs(3) ys(3)])
    show "mset xs = mset ys" using xs(2) ys(2) perm by simp
    fix i j assume "i \<in> set xs" "j \<in> set xs" and le: "?le i j" "?le j i"
    then have ij: "i \<in> set rows" "j \<in> set rows" using xs(2) by (metis set_mset_mset)+
    note c = key_compare_consistent [OF uniform]
    from ij have "row_at dataset relation i \<in> rows_among dataset relation rows"
      "row_at dataset relation j \<in> rows_among dataset relation rows" by (auto simp: rows_among_def)
    note ij' = this
    have "amount (key_compare h orders (row_at dataset relation i) (row_at dataset relation j)) = 0"
      using consistent_sign [OF c ij'] consistent_sign [OF c ij'(2,1)] le by linarith
    with consistent_defined [OF c ij']
    have "key_compare h orders (row_at dataset relation i) (row_at dataset relation j) = Inr (Some 0)" by metis
    with apart ij show "i = j" by (auto simp: told_apart_def)
  qed
  with xs ys show ?thesis by simp
qed

end
