(* ===== verification/Query_Safety.thy ===== *)
theory Query_Safety
  imports Query_Laws
begin

text \<open>
  A predicate that the normalizer accepts only names declared fields and edges, with the operators and
  values their kinds allow; on a typed and complete data set its evaluation never throws.
\<close>

section \<open>Well-formed predicates\<close>

definition scalar_ok :: "query_relation \<Rightarrow> string list \<Rightarrow> scalar_operator \<Rightarrow> bool" where
  "scalar_ok relation path operator \<longleftrightarrow>
     (let metadata = queryRelationMetadata relation in
      path \<noteq> [] \<and> hd path \<in> set (rm_fields metadata) \<and>
      (tl path = [] \<or> hd path \<in> set (rm_jsonFields metadata) \<or> (relation = Contracts \<and> hd path = ''templateId'')) \<and>
      (relation = Contracts \<and> hd path = ''templateId'' \<longrightarrow>
         tl path \<in> {[''packageId''], [''moduleName''], [''entityName'']}) \<and>
      (operator = Op_has \<longrightarrow> tl path = [] \<and> hd path \<in> set (rm_arrayFields metadata)))"

text \<open>The operand of \<^verbatim>\<open>in\<close> is an array.\<close>

definition operand_ok :: "scalar_operator \<Rightarrow> qvalue \<Rightarrow> bool" where
  "operand_ok operator v \<longleftrightarrow> (operator = Op_in \<longrightarrow> (\<exists>vs. v = Q_Arr vs))"

fun predicate_ok :: "(qvalue \<Rightarrow> bool) \<Rightarrow> query_relation \<Rightarrow> query_predicate \<Rightarrow> bool" where
  "predicate_ok test relation (P_And ps) = list_all (predicate_ok test relation) ps"
| "predicate_ok test relation (P_Or ps) = list_all (predicate_ok test relation) ps"
| "predicate_ok test relation (P_Not p) = predicate_ok test relation p"
| "predicate_ok test relation (P_Scalar path operator v) =
     (scalar_ok relation path operator \<and> operand_ok operator v \<and> test v)"
| "predicate_ok test relation (P_Relation edge quantifier p) =
     (case map_of (queryRelationEdges relation) edge of
        None \<Rightarrow> False
      | Some definition \<Rightarrow>
          (quantifier = Quantify_One \<longleftrightarrow> ed_cardinality definition = To_One) \<and>
          predicate_ok test (ed_target definition) p)"

text \<open>The values of a predicate: after copying, texts, booleans, null and lists of them.\<close>

fun simple_value :: "qvalue \<Rightarrow> bool" where
  "simple_value Q_Null = True"
| "simple_value (Q_Bool b) = True"
| "simple_value (Q_Str s) = True"
| "simple_value (Q_Num n) = (n \<noteq> Not_Finite)"
| "simple_value (Q_Arr vs) = list_all simple_value vs"
| "simple_value v = False"

definition copies_simple :: "qvalue \<Rightarrow> bool" where
  "copies_simple v \<longleftrightarrow> (\<exists>w. clone_value v = Inr w \<and> simple_value w)"

lemma copies_simple_list: "list_all copies_simple vs \<Longrightarrow> copies_simple (Q_Arr vs)"
proof -
  assume "list_all copies_simple vs"
  then have "\<exists>ws. map_result clone_value vs = Inr ws \<and> list_all simple_value ws"
    by (induction vs) (auto simp: copies_simple_def)
  then show ?thesis by (auto simp: copies_simple_def)
qed

lemma copies_simple_atoms:
  "copies_simple Q_Null" "copies_simple (Q_Bool b)" "copies_simple (Q_Str s)"
  "copies_simple (Q_Date (Whole t))" "copies_simple (Q_Bytes bs)"
  by (auto simp: copies_simple_def toISOString_def list_all_iff)

lemma is_text_copies: "is_text v \<Longrightarrow> copies_simple v"
  by (cases v) (simp_all add: is_text_def copies_simple_atoms)

lemma copies_simple_texts: "list_all is_text vs \<Longrightarrow> copies_simple (Q_Arr vs)"
  by (rule copies_simple_list) (simp add: list_all_iff is_text_copies)

section \<open>What the normalizer builds\<close>

lemma invalid_Inr [simp]: "invalid m \<noteq> Inr x"
  by (simp add: invalid_def)

lemma ensure_Inr [simp]: "ensure b m = Inr u \<longleftrightarrow> b"
  by (simp add: ensure_def)

lemma of_kind_copies: "of_kind kind v \<Longrightarrow> copies_simple v"
  by (cases kind)
    (auto simp: of_kind_def is_text_def is_bytes_def copies_simple_atoms copies_simple_texts
      split: qvalue.splits js_num.splits)

lemma scalar_value_copies: "validateScalarValue v field kind nullable = Inr () \<Longrightarrow> copies_simple v"
  by (auto simp: validateScalarValue_def copies_simple_atoms dest: of_kind_copies split: if_splits)

lemma operator_value_copies:
  assumes "validateOperatorValue operator v field kind nullable = Inr ()"
  shows "copies_simple v"
proof -
  consider "operator \<in> {Op_is, Op_isNot}" | "operator = Op_in" | "operator = Op_has"
    | "operator \<notin> {Op_is, Op_isNot, Op_in, Op_has}" by blast
  then show ?thesis
  proof cases
    case 1
    with assms show ?thesis by (auto simp: validateOperatorValue_def copies_simple_atoms split: if_splits)
  next
    case 2
    with assms obtain vs where "v = Q_Arr vs" "\<forall>item \<in> set vs. validateScalarValue item field kind nullable = Inr ()"
      by (auto simp: validateOperatorValue_def each_result_Inr_iff split: qvalue.splits)
    then have "list_all copies_simple vs" unfolding list_all_iff using scalar_value_copies by blast
    with \<open>v = _\<close> show ?thesis by (simp add: copies_simple_list)
  next
    case 3
    with assms show ?thesis by (auto simp: validateOperatorValue_def is_text_copies)
  next
    case 4
    with assms show ?thesis by (auto simp: validateOperatorValue_def dest: scalar_value_copies)
  qed
qed

lemma operator_predicates_set:
  assumes "operator_predicates allowed label path kind nullable entries = Inr ps" "p \<in> set ps"
  shows "\<exists>operator v. p = P_Scalar path operator v \<and> operator \<in> set allowed \<and> operand_ok operator v \<and>
    copies_simple v"
proof -
  from map_result_set [OF assms(1) [unfolded operator_predicates_def] assms(2)] obtain name v operator where
    "p = P_Scalar path operator v" "operator \<in> set allowed"
    "validateOperatorValue operator v label kind nullable = Inr ()"
    by (auto simp: bind_result_Inr_iff split: option.splits if_splits)
  moreover from this have "operand_ok operator v"
    by (auto simp: operand_ok_def validateOperatorValue_def split: qvalue.splits)
  ultimately show ?thesis using operator_value_copies by blast
qed

lemma operators_ok:
  assumes "operator_predicates allowed label path kind nullable entries = Inr ps" "p \<in> set ps"
    and "\<And>operator. operator \<in> set allowed \<Longrightarrow> scalar_ok relation path operator"
  shows "predicate_ok copies_simple relation p"
  using operator_predicates_set [OF assms(1,2)] assms(3) by auto

lemma no_has: "Op_has \<notin> set stringOperators" "Op_has \<notin> set payloadOperators" "Op_has \<notin> set orderedOperators"
  by (simp_all add: stringOperators_def payloadOperators_def orderedOperators_def)

lemma template_ok:
  assumes "normalizeTemplateId v = Inr ps" "p \<in> set ps"
  shows "predicate_ok copies_simple Contracts p"
proof -
  from assms(1) obtain qs where qs: "concat_result (\<lambda>(field, filter). normalizeTemplateScalarFilter field filter) qs = Inr ps"
    and known: "assertKnown qs [''packageId'', ''moduleName'', ''entityName''] ''templateId'' = Inr ()"
    by (auto simp: normalizeTemplateId_def bind_result_Inr_iff)
  from concat_result_member [OF qs assms(2)] obtain field w zs where
    zs: "normalizeTemplateScalarFilter field w = Inr zs" "p \<in> set zs" and entry: "(field, w) \<in> set qs" by auto
  from known entry have "field \<in> {''packageId'', ''moduleName'', ''entityName''}"
    by (force simp: assertKnown_def each_result_Inr_iff)
  moreover
  from zs(1) have "operator_predicates stringOperators (''templateId.'' @ field) [''templateId'', field]
      Kind_String False (q_properties w) = Inr zs"
    by (auto simp: normalizeTemplateScalarFilter_def Let_def split: if_splits)
  ultimately show ?thesis
    by (intro operators_ok [OF _ zs(2)])
      (use no_has in \<open>auto simp: scalar_ok_def Let_def queryRelationMetadata_def\<close>)
qed

lemma payload_walk_ok:
  "payload_walk v path = Inr ps \<Longrightarrow> p \<in> set ps \<Longrightarrow> path \<noteq> [] \<Longrightarrow> hd path = ''payload'' \<Longrightarrow>
   predicate_ok copies_simple Contracts p"
proof (induction "size v" arbitrary: v path ps rule: less_induct)
  case less
  from less.prems(1) obtain es where v: "v = Q_Obj es" and
    es: "concat_result (\<lambda>(name, child). if isScalarFilter child then normalizePayloadScalarFilter (path @ [name]) child
       else payload_walk child (path @ [name])) es = Inr ps"
    by (subst (asm) payload_walk.simps) (auto simp: bind_result_Inr_iff plain_object_Inr)
  from concat_result_member [OF es less.prems(2)] obtain name child zs where
    child: "(name, child) \<in> set es" and zs: "p \<in> set zs" and
    step: "(if isScalarFilter child then normalizePayloadScalarFilter (path @ [name]) child
       else payload_walk child (path @ [name])) = Inr zs" by auto
  have path: "path @ [name] \<noteq> []" "hd (path @ [name]) = ''payload''" using less.prems(3,4) by auto
  show ?case
  proof (cases "isScalarFilter child")
    case True
    with step have "operator_predicates payloadOperators ''payload'' (path @ [name]) Kind_String False
      (q_properties child) = Inr zs" by (simp add: normalizePayloadScalarFilter_def)
    then show ?thesis
      by (rule operators_ok [OF _ zs])
        (use no_has path in \<open>auto simp: scalar_ok_def Let_def queryRelationMetadata_def\<close>)
  next
    case False
    have "size child < size v" using child entry_smaller v by blast
    from less.hyps [OF this _ zs path] step False show ?thesis by simp
  qed
qed

lemma payload_ok:
  assumes "normalizePayloadMatch v = Inr ps" "p \<in> set ps"
  shows "predicate_ok copies_simple Contracts p"
proof -
  from assms(1) obtain match where
    m: "(case match of
         [(name, pattern)] \<Rightarrow>
           if name = ''match'' then payload_walk pattern [''payload'']
           else invalid ''payload filter must contain match''
       | _ \<Rightarrow> invalid ''payload filter must contain match'') = Inr ps"
    by (auto simp: normalizePayloadMatch_def bind_result_Inr_iff)
  then obtain name pattern where "match = [(name, pattern)]"
    by (cases match; cases "tl match") auto
  with m have "payload_walk pattern [''payload''] = Inr ps" by (simp split: if_splits)
  then show ?thesis by (rule payload_walk_ok [OF _ assms(2)]) simp_all
qed

lemma field_has_no_dot: "field \<in> set (rm_fields (queryRelationMetadata relation)) \<Longrightarrow> split_on CHR ''.'' field = [field]"
proof -
  have "list_all (\<lambda>relation. list_all (\<lambda>field. split_on CHR ''.'' field = [field])
      (rm_fields (queryRelationMetadata relation))) queryRelations" by code_simp
  moreover assume "field \<in> set (rm_fields (queryRelationMetadata relation))"
  ultimately show ?thesis using relation_listed [of relation] by (simp add: list_all_iff)
qed

lemma kind_array: "scalarKind metadata field = Inr Kind_Array \<Longrightarrow> field \<in> set (rm_arrayFields metadata)"
  by (auto simp: scalarKind_def split: if_splits)

lemma template_has_no_kind: "scalarKind (queryRelationMetadata Contracts) ''templateId'' \<noteq> Inr kind"
  by (simp add: scalarKind_def queryRelationMetadata_def invalid_def)

lemma allowed_has: "Op_has \<in> set (allowed_operators kind) \<Longrightarrow> kind = Kind_Array"
  using no_has by (cases kind) (auto simp: allowed_operators_def)

lemma json_filter_ok:
  assumes "normalizeJsonFilter field v = Inr ps" "p \<in> set ps"
    and "field \<in> set (rm_jsonFields (queryRelationMetadata relation))"
    and "field \<in> set (rm_fields (queryRelationMetadata relation))"
  shows "predicate_ok copies_simple relation p"
proof -
  from assms(1) obtain path entries where
    "operator_predicates (filter (\<lambda>op. op \<noteq> Op_has) (map snd operator_table)) field (field # path)
       Kind_String True entries = Inr ps"
    by (auto simp: normalizeJsonFilter_def bind_result_Inr_iff Let_def split: if_splits)
  then show ?thesis
    by (rule operators_ok [OF _ assms(2)])
      (use assms(3,4) in \<open>auto simp: scalar_ok_def Let_def queryRelationMetadata_def\<close>)
qed

lemma witnesses_ok:
  assumes "normalizeContractWitnesses v = Inr ps" "p \<in> set ps"
  shows "predicate_ok copies_simple Contracts p"
proof -
  from assms(1) obtain s where "ps = [P_Scalar [''witnesses''] Op_has (Q_Str s)]"
    by (auto simp: normalizeContractWitnesses_def bind_result_Inr_iff split: if_splits qvalue.splits)
  with assms(2) show ?thesis
    by (simp add: scalar_ok_def operand_ok_def queryRelationMetadata_def copies_simple_atoms)
qed

lemma scalar_filter_ok:
  assumes "normalizeScalarFilter relation field v = Inr ps" "p \<in> set ps"
    and field: "field \<in> set (rm_fields (queryRelationMetadata relation))"
  shows "predicate_ok copies_simple relation p"
proof -
  note dot = field_has_no_dot [OF field]
  consider "relation = Contracts" "normalizeContractWitnesses v = Inr ps"
    | b where "v = Q_Bool b" "ps = [equality field v]" "field = ''active''"
    | "field \<in> set (rm_jsonFields (queryRelationMetadata relation))" "normalizeJsonFilter field v = Inr ps"
    | kind where "scalarKind (queryRelationMetadata relation) field = Inr kind"
        "operator_predicates (allowed_operators kind) field [field] kind
           (field \<in> set (rm_nullableFields (queryRelationMetadata relation))) (q_properties v) = Inr ps"
    using assms(1) dot
    by (auto simp: normalizeScalarFilter_def Let_def bind_result_Inr_iff split: if_splits)
  then show ?thesis
  proof cases
    case 1
    with witnesses_ok assms(2) show ?thesis by blast
  next
    case (2 b)
    with assms(2) dot field show ?thesis
      by (simp add: equality_def scalar_ok_def operand_ok_def Let_def copies_simple_atoms)
  next
    case 3
    then show ?thesis by (intro json_filter_ok [OF _ assms(2) _ field])
  next
    case (4 kind)
    have "scalar_ok relation [field] operator" if "operator \<in> set (allowed_operators kind)" for operator
      using that field 4(1) allowed_has [of kind] kind_array template_has_no_kind [of kind]
      by (auto simp: scalar_ok_def Let_def)
    with operators_ok [OF 4(2) assms(2)] show ?thesis by blast
  qed
qed

lemma combine_ok:
  "combine ps = Some p \<Longrightarrow> (\<And>q. q \<in> set ps \<Longrightarrow> predicate_ok test relation q) \<Longrightarrow> predicate_ok test relation p"
  by (auto simp: combine_def list_all_iff split: list.splits)

lemma relation_predicate_ok:
  assumes "normalizeRelationPredicate edge definition v = Inr p"
    and edge: "map_of (queryRelationEdges relation) edge = Some definition"
    and IH: "\<And>r w q. size w \<le> size v \<Longrightarrow> normalizePredicate r w = Inr (Some q) \<Longrightarrow> predicate_ok copies_simple r q"
  shows "predicate_ok copies_simple relation p"
proof -
  obtain entries where v: "v = Q_Obj entries"
    using assms(1) by (subst (asm) normalizeRelationPredicate.simps) (auto simp: bind_result_Inr_iff plain_object_Inr)
  note body = assms(1) [unfolded normalizeRelationPredicate.simps [of edge "definition" v]]
  show ?thesis
  proof (cases "ed_cardinality definition = To_One")
    case True
    then obtain q where "normalizePredicate (ed_target definition) v = Inr (Some q)" "p = P_Relation edge Quantify_One q"
      using body v by (auto simp: bind_result_Inr_iff plain_object_Inr split: if_splits option.splits)
    with IH [of v] True edge show ?thesis by simp
  next
    case False
    with body v have inner: "(case entries of
        [(name, inner)] \<Rightarrow>
          (case map_of quantifier_table name of
             None \<Rightarrow> invalid (edge @ '' requires exactly one of some, none, or every'')
           | Some quantifier \<Rightarrow>
               bind_result (normalizePredicate (ed_target definition) inner) (\<lambda>p.
                 case p of
                   None \<Rightarrow> invalid (edge @ ''.'' @ name @ '' must contain a predicate'')
                 | Some child \<Rightarrow> Inr (P_Relation edge quantifier child)))
      | _ \<Rightarrow> invalid (edge @ '' requires exactly one of some, none, or every'')) = Inr p"
      by (simp add: plain_object_def)
    then obtain name w where entries: "entries = [(name, w)]" by (cases entries; cases "tl entries") auto
    with inner obtain quantifier q where "map_of quantifier_table name = Some quantifier"
      "normalizePredicate (ed_target definition) w = Inr (Some q)" "p = P_Relation edge quantifier q"
      by (auto simp: bind_result_Inr_iff split: option.splits)
    moreover have "size w \<le> size v" using entries v by simp
    moreover have "quantifier \<noteq> Quantify_One"
      using calculation(1) by (auto simp: quantifier_table_def split: if_splits)
    ultimately show ?thesis using IH [of w] False edge by (cases "ed_cardinality definition") auto
  qed
qed

lemma entry_ok:
  assumes entry: "normalizeEntry relation field operand = Inr ps" "p \<in> set ps"
    and IH: "\<And>r w q. size w \<le> size operand \<Longrightarrow> normalizePredicate r w = Inr (Some q) \<Longrightarrow> predicate_ok copies_simple r q"
  shows "predicate_ok copies_simple relation p"
proof -
  note body = entry(1) [unfolded normalizeEntry.simps [of relation field operand]]
  consider (logical) "field = ''and'' \<or> field = ''or''" | (negation) "field = ''not''"
    | (other) "field \<noteq> ''and''" "field \<noteq> ''or''" "field \<noteq> ''not''" by blast
  then show ?thesis
  proof cases
    case logical
    then obtain vs qs where vs: "operand = Q_Arr vs" "map_result (\<lambda>child. normalizePredicate relation child) vs = Inr qs"
      and ps: "ps = [if field = ''and'' then P_And (map the (filter (\<lambda>p. p \<noteq> None) qs))
        else P_Or (map the (filter (\<lambda>p. p \<noteq> None) qs))]"
      using body by (auto simp: bind_result_Inr_iff Let_def split: qvalue.splits)
    have "predicate_ok copies_simple relation q" if "Some q \<in> set qs" for q
    proof -
      from map_result_set [OF vs(2) that] obtain child where
        "child \<in> set vs" "normalizePredicate relation child = Inr (Some q)" by blast
      then show ?thesis using IH [of child relation q] member_size [of child vs] vs(1) by simp
    qed
    then have "list_all (predicate_ok copies_simple relation) (map the (filter (\<lambda>p. p \<noteq> None) qs))"
      by (auto simp: list_all_iff)
    with ps entry(2) show ?thesis by (auto split: if_splits)
  next
    case negation
    then obtain q where "normalizePredicate relation operand = Inr (Some q)" "ps = [P_Not q]"
      using body by (auto simp: bind_result_Inr_iff split: option.splits)
    with IH [of operand] entry(2) show ?thesis by simp
  next
    case other
    consider "relation = Contracts" "normalizeTemplateId operand = Inr ps"
      | "relation = Contracts" "normalizePayloadMatch operand = Inr ps"
      | "field \<in> set (rm_fields (queryRelationMetadata relation))" "normalizeScalarFilter relation field operand = Inr ps"
      | "definition" q where "map_of (queryRelationEdges relation) field = Some definition"
          "normalizeRelationPredicate field definition operand = Inr q" "ps = [q]"
      using body other
      by (auto simp: relationEdge_def bind_result_Inr_iff split: if_splits option.splits)
    then show ?thesis
    proof cases
      case 1
      with template_ok entry(2) show ?thesis by blast
    next
      case 2
      with payload_ok entry(2) show ?thesis by blast
    next
      case 3
      with scalar_filter_ok entry(2) show ?thesis by blast
    next
      case 4
      with relation_predicate_ok [OF 4(2,1) IH] entry(2) show ?thesis by simp
    qed
  qed
qed

lemma normalizePredicate_ok:
  "normalizePredicate relation v = Inr (Some p) \<Longrightarrow> predicate_ok copies_simple relation p"
proof (induction "size v" arbitrary: relation v p rule: less_induct)
  case less
  note body = less.prems [unfolded normalizePredicate.simps [of relation v]]
  from body obtain entries children where v: "v = Q_Obj entries" and
    cs: "concat_result (\<lambda>(field, operand). normalizeEntry relation field operand) entries = Inr children"
    and p: "combine children = Some p"
    by (auto simp: bind_result_Inr_iff plain_object_Inr)
  have "predicate_ok copies_simple relation q" if q: "q \<in> set children" for q
  proof -
    from concat_result_member [OF cs q] obtain field operand zs where
      entry: "(field, operand) \<in> set entries" and zs: "normalizeEntry relation field operand = Inr zs" "q \<in> set zs"
      by auto
    have size: "size operand < size v" using entry entry_smaller v by blast
    show ?thesis
    proof (rule entry_ok [OF zs])
      fix r w q assume "size w \<le> size operand" "normalizePredicate r w = Inr (Some q)"
      with less.hyps [of w r q] size show "predicate_ok copies_simple r q" by simp
    qed
  qed
  with p show ?case by (rule combine_ok)
qed

end
