(* ===== verification/Query_Totality.thy ===== *)
theory Query_Totality
  imports Query_Safety
begin

text \<open>
  Evaluating a normalized predicate never throws on a data set whose rows have the types of the schema,
  whose edges are complete and whose keys are texts.
\<close>

section \<open>Copied predicates\<close>

lemma clone_predicate_ok:
  "predicate_ok copies_simple relation p \<Longrightarrow> clone_predicate p = Inr q \<Longrightarrow> predicate_ok simple_value relation q"
proof (induction copies_simple relation p arbitrary: q rule: predicate_ok.induct)
  case (1 relation ps)
  then obtain qs where qs: "map_result clone_predicate ps = Inr qs" "q = P_And qs"
    by (auto simp: bind_result_Inr_iff)
  with 1 show ?case by (auto simp: list_all_iff dest!: map_result_set)
next
  case (2 relation ps)
  then obtain qs where qs: "map_result clone_predicate ps = Inr qs" "q = P_Or qs"
    by (auto simp: bind_result_Inr_iff)
  with 2 show ?case by (auto simp: list_all_iff dest!: map_result_set)
next
  case (3 relation p)
  then show ?case by (auto simp: bind_result_Inr_iff)
next
  case (4 relation path operator v)
  then show ?case by (auto simp: bind_result_Inr_iff copies_simple_def operand_ok_def)
next
  case (5 relation edge quantifier p)
  then show ?case by (auto simp: bind_result_Inr_iff split: option.splits)
qed

section \<open>Typed rows\<close>

fun json_data :: "qvalue \<Rightarrow> bool" where
  "json_data Q_Null = True"
| "json_data (Q_Bool b) = True"
| "json_data (Q_Str s) = True"
| "json_data (Q_Num n) = (n \<noteq> Not_Finite)"
| "json_data (Q_Arr vs) = list_all json_data vs"
| "json_data (Q_Obj ps) = (''toString'' \<notin> fst ` set ps \<and> list_all (\<lambda>p. json_data (snd p)) ps)"
| "json_data v = False"

definition typed_field :: "query_relation \<Rightarrow> string \<Rightarrow> qvalue \<Rightarrow> bool" where
  "typed_field relation field v \<longleftrightarrow>
     (let metadata = queryRelationMetadata relation in
      q_nullish v \<or>
      (if field \<in> set (rm_arrayFields metadata) then (\<exists>ss. v = Q_Arr (map Q_Str ss))
       else if field \<in> set (rm_dateFields metadata) then (\<exists>t. v = Q_Date (Whole t))
       else if field \<in> set (rm_binaryFields metadata) then (\<exists>bs. v = Q_Bytes bs)
       else json_data v))"

definition typed_row :: "query_relation \<Rightarrow> query_row \<Rightarrow> bool" where
  "typed_row relation row \<longleftrightarrow>
     list_all (\<lambda>field. typed_field relation field (q_get row field)) (rm_fields (queryRelationMetadata relation))"

definition sound_dataset :: "compiled_dataset \<Rightarrow> bool" where
  "sound_dataset dataset \<longleftrightarrow>
     (\<forall>relation. \<forall>i < length (cd_rows dataset relation). typed_row relation (row_at dataset relation i)) \<and>
     (\<forall>relation edge lookup. map_of (cd_edges dataset relation) edge = Some lookup \<longrightarrow>
        el_complete lookup \<noteq> Q_Bool False \<and>
        (\<forall>i < length (cd_rows dataset relation). \<exists>vs.
           source_values lookup (cd_rows dataset relation) i = Inr vs \<and> list_all text_or_null vs))"

text \<open>Paths that name no member of a prototype.\<close>

definition plain_path :: "string list \<Rightarrow> bool" where
  "plain_path path \<longleftrightarrow> list_all (\<lambda>k. k \<notin> set (array_prototype @ object_prototype)) path"

fun plain_paths :: "query_predicate \<Rightarrow> bool" where
  "plain_paths (P_And ps) = list_all plain_paths ps"
| "plain_paths (P_Or ps) = list_all plain_paths ps"
| "plain_paths (P_Not p) = plain_paths p"
| "plain_paths (P_Scalar path operator v) = plain_path path"
| "plain_paths (P_Relation edge quantifier p) = plain_paths p"

lemma json_property:
  assumes "json_data v" "q_is_object v" "k \<notin> set (array_prototype @ object_prototype)"
  shows "\<exists>w. property_of v k = Inr w \<and> (json_data w \<or> w = Q_Undef)"
proof (cases v)
  case (Q_Arr vs)
  then show ?thesis
    using assms by (auto simp: property_of_def list_all_length object_prototype_def split: option.split)
next
  case (Q_Obj ps)
  then show ?thesis
    using assms
    by (auto simp: property_of_def list_all_iff object_prototype_def split: option.split dest!: map_of_SomeD)
qed (use assms in \<open>simp_all add: q_is_object_def\<close>)

lemma json_read:
  "json_data v \<or> v = Q_Undef \<Longrightarrow> plain_path ks \<Longrightarrow> \<exists>w. read_at v ks = Inr w \<and> (json_data w \<or> w = Q_Undef)"
proof (induction ks arbitrary: v)
  case (Cons k ks)
  show ?case
  proof (cases "q_is_object v")
    case True
    then have "json_data v" using Cons.prems(1) by (auto simp: q_is_object_def)
    from json_property [OF this True] Cons.prems(2) obtain w where
      "property_of v k = Inr w" "json_data w \<or> w = Q_Undef" by (auto simp: plain_path_def)
    with Cons.IH [of w] Cons.prems(2) True show ?thesis by (simp add: plain_path_def)
  qed simp
qed simp

definition readable :: "qvalue \<Rightarrow> bool" where
  "readable v \<longleftrightarrow>
     q_nullish v \<or> json_data v \<or> (\<exists>t. v = Q_Date (Whole t)) \<or> (\<exists>bs. v = Q_Bytes bs) \<or> (\<exists>ss. v = Q_Arr (map Q_Str ss))"

lemma nested_fields:
  "field \<in> set (rm_jsonFields (queryRelationMetadata relation)) \<or> (relation = Contracts \<and> field = ''templateId'') \<Longrightarrow>
   field \<notin> set (rm_arrayFields (queryRelationMetadata relation)) \<and>
   field \<notin> set (rm_dateFields (queryRelationMetadata relation)) \<and>
   field \<notin> set (rm_binaryFields (queryRelationMetadata relation))"
proof -
  have "list_all (\<lambda>relation. list_all (\<lambda>field.
      field \<notin> set (rm_arrayFields (queryRelationMetadata relation)) \<and>
      field \<notin> set (rm_dateFields (queryRelationMetadata relation)) \<and>
      field \<notin> set (rm_binaryFields (queryRelationMetadata relation)))
      (rm_jsonFields (queryRelationMetadata relation) @ (if relation = Contracts then [''templateId''] else [])))
      queryRelations" by code_simp
  moreover assume "field \<in> set (rm_jsonFields (queryRelationMetadata relation)) \<or> (relation = Contracts \<and> field = ''templateId'')"
  ultimately show ?thesis using relation_listed [of relation] by (auto simp: list_all_iff)
qed

lemma read_typed:
  assumes "typed_row relation row" "scalar_ok relation path operator" "plain_path path"
  shows "\<exists>v. read_at (Q_Obj row) path = Inr v \<and> readable v \<and>
    (operator = Op_has \<longrightarrow> q_nullish v \<or> (\<exists>ss. v = Q_Arr (map Q_Str ss)))"
proof -
  obtain field rest where path: "path = field # rest" using assms(2) by (cases path) (auto simp: scalar_ok_def Let_def)
  let ?v = "q_get row field"
  have typed: "typed_field relation field ?v"
    using assms(1,2) path by (auto simp: typed_row_def list_all_iff scalar_ok_def Let_def)
  have "field \<notin> set object_prototype" using assms(3) path by (simp add: plain_path_def)
  then have read: "read_at (Q_Obj row) path = read_at ?v rest"
    using read_field [of field row] by (simp add: path q_is_object_def bind_result_Inr_iff)
  show ?thesis
  proof (cases "rest = []")
    case True
    with assms(2) path typed have "readable ?v"
      by (auto simp: readable_def typed_field_def Let_def split: if_splits)
    moreover have "operator = Op_has \<longrightarrow> q_nullish ?v \<or> (\<exists>ss. ?v = Q_Arr (map Q_Str ss))"
      using assms(2) path typed by (auto simp: scalar_ok_def typed_field_def Let_def)
    ultimately show ?thesis using read True by simp
  next
    case False
    with assms(2) path have nested: "field \<in> set (rm_jsonFields (queryRelationMetadata relation)) \<or>
      (relation = Contracts \<and> field = ''templateId'')" and op: "operator \<noteq> Op_has"
      by (auto simp: scalar_ok_def Let_def)
    have "json_data ?v \<or> ?v = Q_Undef"
      using typed nested_fields [OF nested] by (auto simp: typed_field_def Let_def q_nullish_def)
    from json_read [OF this, of rest] assms(3) path obtain w where
      "read_at ?v rest = Inr w" "json_data w \<or> w = Q_Undef" by (auto simp: plain_path_def)
    with read op show ?thesis by (auto simp: readable_def q_nullish_def)
  qed
qed

section \<open>Scalars\<close>

lemma text_array:
  assumes "\<And>v. v \<in> set vs \<Longrightarrow> \<exists>s. js_text h v = Inr s"
  shows "\<exists>s. js_text h (Q_Arr vs) = Inr s"
proof -
  have "\<exists>ts. map_result (\<lambda>v. if q_nullish v then Inr [] else js_text h v) vs = Inr ts"
    by (rule map_result_total) (use assms in auto)
  then show ?thesis by auto
qed

lemma text_simple: "simple_value v \<Longrightarrow> \<exists>s. js_text h v = Inr s"
proof (induction v rule: simple_value.induct)
  case (4 n)
  then show ?case by (cases n) auto
next
  case (5 vs)
  then show ?case by (intro text_array) (auto simp: list_all_iff)
qed simp_all

lemma text_json: "json_data v \<Longrightarrow> \<exists>s. js_text h v = Inr s"
proof (induction v rule: json_data.induct)
  case (4 n)
  then show ?case by (cases n) auto
next
  case (5 vs)
  then show ?case by (intro text_array) (auto simp: list_all_iff)
qed simp_all

lemma text_readable: "readable v \<Longrightarrow> \<exists>s. js_text h v = Inr s"
  unfolding readable_def
proof (elim disjE exE)
  fix ss assume v: "v = Q_Arr (map Q_Str ss)"
  have "\<exists>s. js_text h w = Inr s" if "w \<in> set (map Q_Str ss)" for w using that by auto
  then show ?thesis unfolding v by (rule text_array)
qed (auto simp: q_nullish_def intro: text_json)

lemma array_from_simple: "simple_value v \<Longrightarrow> \<not> q_nullish v \<Longrightarrow> \<exists>w. array_from v = Inr w"
  by (cases v) (auto simp: array_from_def q_nullish_def)

lemma query_equal_plain:
  "\<not> is_date left \<Longrightarrow> \<not> is_date right \<Longrightarrow>
   query_equal h left right =
     (if is_bytes left \<or> is_bytes right then
        bind_result (array_from left) (\<lambda>l. bind_result (array_from right) (\<lambda>r. Inr (json_text l = json_text r)))
      else Inr (json_text left = json_text right))"
  unfolding query_equal_def is_date_def by (simp split: qvalue.splits)

lemma equal_total:
  assumes "readable actual" "\<not> q_nullish actual" "simple_value expected" "\<not> q_nullish expected"
  shows "\<exists>b. query_equal h actual expected = Inr b"
proof -
  obtain s where s: "js_text h expected = Inr s" using text_simple [OF assms(3)] by blast
  obtain w where w: "array_from expected = Inr w" using array_from_simple [OF assms(3,4)] by blast
  have expected: "\<not> is_date expected" "\<not> is_bytes expected"
    using assms(3) by (cases expected; simp add: is_date_def is_bytes_def)+
  show ?thesis
  proof (cases "is_date actual")
    case True
    then obtain ms where "actual = Q_Date (Whole ms)"
      using assms(1) by (auto simp: readable_def q_nullish_def is_date_def split: qvalue.splits)
    then have "query_equal h actual expected = Inr (iso_instant ms = s)"
      using s expected(1) by (cases expected) (simp_all add: query_equal_def toISOString_def is_date_def)
    then show ?thesis by blast
  next
    case False
    have "\<exists>u. array_from actual = Inr u" if "is_bytes actual"
      using that by (cases actual) (simp_all add: is_bytes_def array_from_def)
    then show ?thesis using w expected by (auto simp: query_equal_plain [OF False expected(1)])
  qed
qed

lemma compare_total:
  assumes "readable actual" "simple_value expected"
  shows "\<exists>c. query_compare h actual expected = Inr c"
proof -
  have instant: "\<exists>t. instant_of h v = Inr t" if "js_text h v = Inr s" for v s
    using that unfolding instant_of_def by (cases v) auto
  have key: "\<exists>k. comparison_key h v = Inr k" if "js_text h v = Inr s" for v s
    using that unfolding comparison_key_def by (cases "query_numeric v") auto
  obtain s t where "js_text h actual = Inr s" "js_text h expected = Inr t"
    using text_readable [OF assms(1)] text_simple [OF assms(2)] by blast
  with instant key obtain l r k m where "instant_of h actual = Inr l" "instant_of h expected = Inr r"
    "comparison_key h actual = Inr k" "comparison_key h expected = Inr m" by blast
  then show ?thesis unfolding query_compare_def by simp
qed

lemma scalar_matches_total:
  assumes "readable actual" "simple_value expected"
    and has: "operator = Op_has \<longrightarrow> q_nullish actual \<or> (\<exists>ss. actual = Q_Arr (map Q_Str ss))"
  shows "\<exists>b. scalar_matches h actual operator expected = Inr b"
proof -
  have compared: "\<exists>b. compared h actual expected test = Inr b" for test
    using compare_total [OF assms(1,2), of h] by (auto simp: compared_def)
  show ?thesis
  proof (cases operator)
    case Op_equals
    then show ?thesis using equal_total [OF assms(1) _ assms(2)] by (auto simp: scalar_matches_def)
  next
    case Op_in
    have "\<exists>b. some_result (\<lambda>candidate. if q_nullish candidate then Inr False
        else query_equal h actual candidate) vs = Inr b" if "expected = Q_Arr vs" "\<not> q_nullish actual" for vs
      by (rule some_result_total) (use equal_total [OF assms(1)] assms(2) that in \<open>auto simp: list_all_iff\<close>)
    then show ?thesis using Op_in by (auto simp: scalar_matches_def split: qvalue.split)
  next
    case Op_has
    have "query_equal h (Q_Str s) expected = Inr (Some (json_string s) = json_text expected)" for s
      using assms(2) by (cases expected) (simp_all add: query_equal_def is_bytes_def)
    then have "\<exists>b. some_result (\<lambda>entry. query_equal h entry expected) (map Q_Str ss) = Inr b" for ss
      by (intro some_result_total) auto
    then show ?thesis using has Op_has
      by (auto simp: scalar_matches_def q_nullish_def split: qvalue.split)
  qed (use compared in \<open>auto simp: scalar_matches_def\<close>)
qed

section \<open>Predicates\<close>

lemma related_total:
  assumes cd: "createQueryDataset input = Inr dataset" and sound: "sound_dataset dataset"
    and edge: "map_of (queryRelationEdges relation) edge = Some definition" and i: "i < length (cd_rows dataset relation)"
  shows "\<exists>js. relatedQueryRows dataset relation i edge = Inr js \<and>
    (\<forall>j \<in> set js. j < length (cd_rows dataset (ed_target definition)))"
proof -
  obtain lookup where lookup: "map_of (cd_edges dataset relation) edge = Some lookup"
    using compiled_edge [OF cd edge] by metis
  with sound i have complete: "el_complete lookup \<noteq> Q_Bool False" and
    "\<exists>vs. source_values lookup (cd_rows dataset relation) i = Inr vs \<and> list_all text_or_null vs"
    by (auto simp: sound_dataset_def)
  then obtain vs where vs: "source_values lookup (cd_rows dataset relation) i = Inr vs" "list_all text_or_null vs" by blast
  then show ?thesis
    using compositeKey_texts [OF vs(2)] by (auto simp: related_by_key [OF cd edge lookup complete i])
qed

lemma matches_total:
  assumes cd: "createQueryDataset input = Inr dataset" and sound: "sound_dataset dataset"
  shows "predicate_ok simple_value relation p \<Longrightarrow> plain_paths p \<Longrightarrow> i < length (cd_rows dataset relation) \<Longrightarrow>
    \<exists>b. matches h dataset relation i p = Inr b"
proof (induction simple_value relation p arbitrary: i rule: predicate_ok.induct)
  case (1 relation ps)
  then show ?case by (simp, intro every_result_total) (auto simp: list_all_iff)
next
  case (2 relation ps)
  then show ?case by (simp, intro some_result_total) (auto simp: list_all_iff)
next
  case (3 relation p)
  then obtain b where "matches h dataset relation i p = Inr b" by fastforce
  then show ?case by simp
next
  case (4 relation path operator v)
  have "typed_row relation (row_at dataset relation i)" using sound 4 by (simp add: sound_dataset_def)
  with 4 obtain actual where "read_at (Q_Obj (row_at dataset relation i)) path = Inr actual" "readable actual"
    "operator = Op_has \<longrightarrow> q_nullish actual \<or> (\<exists>ss. actual = Q_Arr (map Q_Str ss))"
    using read_typed [of relation _ path operator] by fastforce
  with 4 scalar_matches_total [of actual v operator h] show ?case by simp
next
  case (5 relation edge quantifier p)
  then obtain "definition" where edge: "map_of (queryRelationEdges relation) edge = Some definition"
    and p: "predicate_ok simple_value (ed_target definition) p" "plain_paths p" by (auto split: option.splits)
  from related_total [OF cd sound edge 5(4)] obtain js where
    js: "relatedQueryRows dataset relation i edge = Inr js" "\<forall>j \<in> set js. j < length (cd_rows dataset (ed_target definition))"
    by blast
  have "\<exists>bs. map_result (\<lambda>j. matches h dataset (ed_target definition) j p) js = Inr bs"
    by (rule map_result_total) (use 5(1) [OF edge] p js(2) in blast)
  with js edge show ?case by auto
qed

lemma normalized_predicate_ok:
  assumes "where_predicate relation source = Inr p" "clone_optional p = Inr (Some q)"
  shows "predicate_ok simple_value relation q"
proof -
  from assms(2) obtain p' where p': "p = Some p'" "clone_predicate p' = Inr q"
    by (auto simp: clone_optional_def some_result_of_def bind_result_Inr_iff split: option.splits)
  with assms(1) have "normalizePredicate relation (q_get source ''where'') = Inr (Some p')"
    by (auto simp: where_predicate_def optional_def split: if_splits)
  from clone_predicate_ok [OF normalizePredicate_ok [OF this] p'(2)] show ?thesis .
qed

lemma find_many_predicate_ok:
  assumes "normalizeFindMany h relation args = Inr q" "fm_predicate q = Some p"
  shows "predicate_ok simple_value relation p"
  using assms unfolding normalizeFindMany_def
  by (auto simp: normalized_def bind_result_Inr_iff Let_def split: sum.splits js_error.splits
      dest: normalized_predicate_ok)

section \<open>Accepted queries\<close>

lemma sees_party_total:
  assumes "typed_row Contracts row"
  shows "\<exists>b. sees_party h parties row = Inr b"
proof -
  have fields: "''witnesses'' \<in> set (rm_fields (queryRelationMetadata Contracts))"
    "''witnesses'' \<in> set (rm_arrayFields (queryRelationMetadata Contracts))"
    by (simp_all add: queryRelationMetadata_def)
  from assms fields(1) have "typed_field Contracts ''witnesses'' (q_get row ''witnesses'')"
    by (auto simp: typed_row_def list_all_iff)
  with fields(2) consider "q_nullish (q_get row ''witnesses'')" | ss where "q_get row ''witnesses'' = Q_Arr (map Q_Str ss)"
    by (auto simp: typed_field_def Let_def)
  then show ?thesis
  proof cases
    case 1
    then show ?thesis by (auto simp: sees_party_def q_nullish_def)
  next
    case (2 ss)
    have "\<exists>b. some_result (\<lambda>party. bind_result (js_text h party) (\<lambda>s. Inr (s \<in> set parties))) (map Q_Str ss) = Inr b"
      by (rule some_result_total) auto
    with 2 show ?thesis by (simp add: sees_party_def)
  qed
qed

lemma normalizeParties_relation: "normalizeParties_query relation v = Inr (Some ps) \<Longrightarrow> relation = Contracts"
  by (auto simp: normalizeParties_query_def invalid_def split: if_splits)

lemma find_many_parties:
  assumes "normalizeFindMany h relation args = Inr q"
  shows "\<exists>v. normalizeParties_query relation v = Inr (fm_parties q)"
  using assms unfolding normalizeFindMany_def
  by (auto simp: normalized_def bind_result_Inr_iff Let_def split: sum.splits js_error.splits)

lemma accepted_query_filters:
  assumes cd: "createQueryDataset input = Inr dataset" and sound: "sound_dataset dataset"
    and q: "normalizeFindMany h relation args = Inr q"
    and plain: "\<And>p. fm_predicate q = Some p \<Longrightarrow> plain_paths p"
  shows "\<exists>rows. filtered h dataset (fm_relation q) (fm_predicate q) (fm_parties q) (fm_activeOnly q) = Inr rows"
proof -
  have relation: "fm_relation q = relation" using normalized_find_many_active [OF q] by simp
  have "\<exists>b. row_passes h dataset relation (fm_predicate q) (fm_parties q) (fm_activeOnly q) i = Inr b"
    if i: "i < length (cd_rows dataset relation)" for i
  proof -
    have seen: "\<exists>b. (case fm_parties q of None \<Rightarrow> Inr True
      | Some ps \<Rightarrow> sees_party h ps (row_at dataset relation i)) = Inr b"
    proof (cases "fm_parties q")
      case (Some ps)
      with find_many_parties [OF q] have "relation = Contracts" using normalizeParties_relation by metis
      moreover have "typed_row relation (row_at dataset relation i)" using sound i by (simp add: sound_dataset_def)
      ultimately show ?thesis using sees_party_total Some by simp
    qed auto
    have passes: "\<exists>b. (case fm_predicate q of None \<Rightarrow> Inr True | Some p \<Rightarrow> matches h dataset relation i p) = Inr b"
    proof (cases "fm_predicate q")
      case (Some p)
      from matches_total [OF cd sound find_many_predicate_ok [OF q Some] plain [OF Some] i] Some
      show ?thesis by simp
    qed auto
    from seen passes obtain b c where "(case fm_parties q of None \<Rightarrow> Inr True
        | Some ps \<Rightarrow> sees_party h ps (row_at dataset relation i)) = Inr b"
      "(case fm_predicate q of None \<Rightarrow> Inr True | Some p \<Rightarrow> matches h dataset relation i p) = Inr c" by blast
    then show ?thesis unfolding row_passes_def by (simp, blast)
  qed
  then show ?thesis unfolding relation filtered_def by (auto simp: filter_result_Inr)
qed

end
