(* ===== verification/Package_Metadata.thy ===== *)
theory Package_Metadata
  imports Relation_Mapping Query_Text
begin

text \<open>
  The metadata of packages from which the query layer names contract and exercise types
  (\<^verbatim>\<open>src/src/query/grpc/grpc-relation-mapper.ts\<close>): its derivation from ledger events, without decoding
  a package (\<^verbatim>\<open>contractTypeMetadataFromCreations\<close>, \<^verbatim>\<open>packageMetadataFromEvents\<close>), and the
  checks it must pass, wherever it comes from (\<^verbatim>\<open>normalizeGrpcPackageMetadata\<close>).

  Metadata to be checked is an unknown value; the properties of a host object are not modelled.
\<close>

section \<open>Metadata\<close>

datatype payload_kind = Template_Payload | Interface_Payload

record package_choice =
  pc_choice :: string
  pc_consuming :: bool
  pc_aliases :: "string list"
  pc_choiceFqn :: string

record package_template =
  pt_moduleName :: string
  pt_entityName :: string
  pt_payloadType :: payload_kind
  pt_aliases :: "string list"
  pt_templateFqn :: string
  pt_choices :: "package_choice list"

record package_metadata =
  pm_id :: string
  pm_name :: string
  pm_version :: string
  pm_templates :: "package_template list"

section \<open>Derivation from events\<close>

record creation_type_source =
  ts_creationPackageId :: string
  ts_representativePackageId :: "string option"
  ts_packageName :: string
  ts_templateId :: q_identifier

definition type_source_of :: "creation_identity \<Rightarrow> creation_type_source" where
  "type_source_of c =
     \<lparr>ts_creationPackageId = ci_creationPackageId c,
      ts_representativePackageId = ci_representativePackageId c, ts_packageName = ci_packageName c,
      ts_templateId = ci_templateId c\<rparr>"

text \<open>A map of the code is its list of entries, in the order of insertion.\<close>

record derived_template =
  dt_moduleName :: string
  dt_entityName :: string
  dt_choices :: "(string \<times> bool) list"

record derived_package =
  dp_name :: string
  dp_templates :: "(string \<times> derived_template) list"

type_synonym derived_packages = "(string \<times> derived_package) list"

definition derivedPackageFor :: "derived_packages \<Rightarrow> string \<Rightarrow> string \<Rightarrow> derived_package result" where
  "derivedPackageFor packages packageId packageName =
     (case map_of packages packageId of
        None \<Rightarrow> Inr \<lparr>dp_name = packageName, dp_templates = []\<rparr>
      | Some existing \<Rightarrow>
          if dp_name existing \<noteq> packageName then
            validation (''gRPC query package '' @ packageId @ '' reports conflicting package names'')
          else Inr existing)"

definition derived_identity :: "string \<Rightarrow> string \<Rightarrow> string" where
  "derived_identity moduleName entityName = moduleName @ '' '' @ entityName"

definition derivedTemplateFor :: "derived_package \<Rightarrow> string \<Rightarrow> string \<Rightarrow> derived_template" where
  "derivedTemplateFor pkg moduleName entityName =
     (case map_of (dp_templates pkg) (derived_identity moduleName entityName) of
        Some template \<Rightarrow> template
      | None \<Rightarrow> \<lparr>dt_moduleName = moduleName, dt_entityName = entityName, dt_choices = []\<rparr>)"

text \<open>The package and the template are entered into their maps; \<open>change\<close> updates the template in place.\<close>

definition with_template ::
    "derived_packages \<Rightarrow> string \<Rightarrow> string \<Rightarrow> q_identifier \<Rightarrow> (derived_template \<Rightarrow> derived_template result) \<Rightarrow>
     derived_packages result" where
  "with_template packages packageId packageName templateId change =
     bind_result (derivedPackageFor packages packageId packageName) (\<lambda>pkg.
     bind_result (change (derivedTemplateFor pkg (qi_moduleName templateId) (qi_entityName templateId))) (\<lambda>template.
     Inr (AList.update packageId
       (pkg\<lparr>dp_templates := AList.update
         (derived_identity (qi_moduleName templateId) (qi_entityName templateId)) template (dp_templates pkg)\<rparr>)
       packages)))"

definition representative_package :: "creation_type_source \<Rightarrow> string" where
  "representative_package c =
     (case ts_representativePackageId c of Some p \<Rightarrow> p | None \<Rightarrow> ts_creationPackageId c)"

fun addDerivedCreationEntries :: "derived_packages \<Rightarrow> creation_type_source list \<Rightarrow> derived_packages result" where
  "addDerivedCreationEntries packages [] = Inr packages"
| "addDerivedCreationEntries packages (c # cs) =
     bind_result (with_template packages (representative_package c) (ts_packageName c) (ts_templateId c) Inr)
       (\<lambda>packages. addDerivedCreationEntries packages cs)"

definition add_choice :: "(string \<times> bool) option \<Rightarrow> derived_template \<Rightarrow> derived_template result" where
  "add_choice observed template =
     (case observed of
        None \<Rightarrow> Inr template
      | Some (choice, consuming) \<Rightarrow>
          if map_of (dt_choices template) choice = Some (\<not> consuming) then
            validation (''gRPC query choice '' @ choice @ '' reports conflicting consuming flags'')
          else Inr (template\<lparr>dt_choices := AList.update choice consuming (dt_choices template)\<rparr>))"

fun add_type_identities :: "derived_packages \<Rightarrow> type_identity list \<Rightarrow> derived_packages result" where
  "add_type_identities packages [] = Inr packages"
| "add_type_identities packages (i # is) =
     (case ty_packageName i of
        None \<Rightarrow> validation ''gRPC query contract type identity is missing its package name''
      | Some packageName \<Rightarrow>
          bind_result (with_template packages (qi_packageId (ty_templateId i)) packageName (ty_templateId i)
            (add_choice (ty_choice i))) (\<lambda>packages. add_type_identities packages is))"

definition choice_names :: "string \<Rightarrow> string \<Rightarrow> string \<Rightarrow> string \<Rightarrow> string list" where
  "choice_names packageName moduleName entityName choice =
     [packageName @ '':'' @ moduleName @ '':'' @ entityName @ '':'' @ choice,
      moduleName @ '':'' @ entityName @ '':'' @ choice, entityName @ '':'' @ choice, choice]"

definition template_names :: "string \<Rightarrow> string \<Rightarrow> string \<Rightarrow> string list" where
  "template_names packageName moduleName entityName =
     [packageName @ '':'' @ moduleName @ '':'' @ entityName, moduleName @ '':'' @ entityName, entityName]"

definition finalize_choice :: "string \<Rightarrow> derived_template \<Rightarrow> string \<times> bool \<Rightarrow> package_choice" where
  "finalize_choice packageName template = (\<lambda>(choice, consuming).
     let names = choice_names packageName (dt_moduleName template) (dt_entityName template) choice in
     \<lparr>pc_choice = choice, pc_consuming = consuming, pc_aliases = names, pc_choiceFqn = hd names\<rparr>)"

definition finalize_template :: "(string \<Rightarrow> string \<Rightarrow> bool) \<Rightarrow> string \<Rightarrow> derived_template \<Rightarrow> package_template" where
  "finalize_template le packageName template =
     (let names = template_names packageName (dt_moduleName template) (dt_entityName template) in
      \<lparr>pt_moduleName = dt_moduleName template, pt_entityName = dt_entityName template,
       pt_payloadType = Template_Payload, pt_aliases = names, pt_templateFqn = hd names,
       pt_choices = sort_by (\<lambda>l r. le (pc_choice l) (pc_choice r))
         (map (finalize_choice packageName template) (dt_choices template))\<rparr>)"

definition finalizeDerivedPackages ::
    "(string \<Rightarrow> string \<Rightarrow> bool) \<Rightarrow> derived_packages \<Rightarrow> package_metadata list" where
  "finalizeDerivedPackages le packages =
     map (\<lambda>(i, pkg). \<lparr>pm_id = i, pm_name = dp_name pkg, pm_version = ''unresolved-'' @ i,
       pm_templates = map (finalize_template le (dp_name pkg) \<circ> snd) (dp_templates pkg)\<rparr>) packages"

definition contractTypeMetadataFromCreations ::
    "(string \<Rightarrow> string \<Rightarrow> bool) \<Rightarrow> creation_type_source list \<Rightarrow> package_metadata list result" where
  "contractTypeMetadataFromCreations le creations =
     bind_result (addDerivedCreationEntries [] creations) (\<lambda>packages.
       Inr (finalizeDerivedPackages le packages))"

definition packageMetadataFromEvents ::
    "(string \<Rightarrow> string \<Rightarrow> bool) \<Rightarrow> relation_fragment \<Rightarrow> package_metadata list option result" where
  "packageMetadataFromEvents le fragment =
     (if list_ex (\<lambda>i. ty_choice i \<noteq> None \<and> ty_packageName i = None) (rf_typeIdentities fragment) then Inr None
      else
        bind_result (addDerivedCreationEntries [] (map type_source_of (rf_creationIdentities fragment))) (\<lambda>packages.
        bind_result (add_type_identities packages (rf_typeIdentities fragment)) (\<lambda>packages.
        Inr (Some (finalizeDerivedPackages le packages)))))"

section \<open>Validation\<close>

definition metadata_property :: "qvalue \<Rightarrow> string \<Rightarrow> qvalue result" where
  "metadata_property v k =
     (case v of
        Q_Obj ps \<Rightarrow> Inr (q_get ps k)
      | Q_Host _ \<Rightarrow> Inl (Unmodelled ''a property of a host object'')
      | _ \<Rightarrow> Inr Q_Undef)"

text \<open>\<^verbatim>\<open>/[:\u0000-\u001F\u007F]/\<close>\<close>

definition forbidden :: "char \<Rightarrow> bool" where
  "forbidden c \<longleftrightarrow> c = CHR '':'' \<or> (of_char c :: nat) \<le> 31 \<or> (of_char c :: nat) = 127"

definition packageText :: "qvalue \<Rightarrow> string \<Rightarrow> string result" where
  "packageText v name =
     (case v of
        Q_Str s \<Rightarrow>
          if s = [] \<or> list_ex forbidden s then
            validation (''gRPC query package metadata '' @ name @ '' is invalid'')
          else Inr s
      | _ \<Rightarrow> validation (''gRPC query package metadata '' @ name @ '' is invalid''))"

definition dottedPackageName :: "qvalue \<Rightarrow> string \<Rightarrow> string result" where
  "dottedPackageName v name =
     (case v of
        Q_Str s \<Rightarrow> validDottedNameString s name
      | _ \<Rightarrow> validation (''gRPC query '' @ name @ '' is invalid''))"

definition exactAliases :: "qvalue \<Rightarrow> string list \<Rightarrow> string \<Rightarrow> string list result" where
  "exactAliases v expected name =
     (if v = Q_Arr (map Q_Str expected) then Inr expected
      else validation (''gRPC query '' @ name @ '' aliases are invalid''))"

definition exactText :: "qvalue \<Rightarrow> string \<Rightarrow> string \<Rightarrow> string result" where
  "exactText v expected name =
     (if v = Q_Str expected then Inr expected else validation (''gRPC query '' @ name @ '' is invalid''))"

definition templateIdentity :: "string \<Rightarrow> string \<Rightarrow> string \<Rightarrow> string" where
  "templateIdentity packageId moduleName entityName =
     packageId @ [CHR 0x00] @ moduleName @ [CHR 0x00] @ entityName"

text \<open>Each loop threads the names it has seen: the result and the name to remember.\<close>

fun map_seen :: "(string list \<Rightarrow> 'a \<Rightarrow> ('b \<times> string) result) \<Rightarrow> string list \<Rightarrow> 'a list \<Rightarrow> 'b list result" where
  "map_seen f seen [] = Inr []"
| "map_seen f seen (x # xs) =
     bind_result (f seen x) (\<lambda>(y, name). bind_result (map_seen f (name # seen) xs) (\<lambda>ys. Inr (y # ys)))"

definition normalizePackageChoice ::
    "string \<Rightarrow> string \<Rightarrow> string \<Rightarrow> string \<Rightarrow> string list \<Rightarrow> qvalue \<Rightarrow> (package_choice \<times> string) result" where
  "normalizePackageChoice packageId packageName moduleName entityName choiceNames v =
     (let label = ''package '' @ packageId @ '' choice'' in
      if \<not> q_is_object v then validation (''gRPC query '' @ label @ '' is invalid'')
      else
        bind_result (metadata_property v ''choice'') (\<lambda>name.
        case name of
          Q_Str choiceName \<Rightarrow>
            bind_result (validNameString choiceName (label @ '' name'')) (\<lambda>_.
            if choiceName \<in> set choiceNames then
              validation (''gRPC query has duplicate DAML-LF choice '' @ packageId @ '':'' @ moduleName @ '':''
                @ entityName @ '':'' @ choiceName)
            else
              bind_result (metadata_property v ''consuming'') (\<lambda>flag.
              case flag of
                Q_Bool consuming \<Rightarrow>
                  let names = choice_names packageName moduleName entityName choiceName in
                  bind_result (bind_result (metadata_property v ''aliases'') (\<lambda>w. exactAliases w names label)) (\<lambda>aliases.
                  bind_result (bind_result (metadata_property v ''choiceFqn'')
                    (\<lambda>w. exactText w (hd names) (label @ '' FQN''))) (\<lambda>choiceFqn.
                  Inr (\<lparr>pc_choice = choiceName, pc_consuming = consuming, pc_aliases = aliases,
                    pc_choiceFqn = choiceFqn\<rparr>, choiceName)))
              | _ \<Rightarrow> validation (''gRPC query '' @ label @ '' consuming flag is invalid'')))
        | _ \<Rightarrow> validation (''gRPC query '' @ label @ '' name is invalid'')))"

definition normalizePackageTemplate ::
    "string \<Rightarrow> string \<Rightarrow> string list \<Rightarrow> qvalue \<Rightarrow> (package_template \<times> string) result" where
  "normalizePackageTemplate packageId packageName identities v =
     (let label = ''package '' @ packageId @ '' template''; error = (\<lambda>s. validation (''gRPC query '' @ label @ s)) in
      if \<not> q_is_object v then error '' is invalid''
      else
        bind_result (bind_result (metadata_property v ''moduleName'')
          (\<lambda>w. dottedPackageName w (label @ '' module''))) (\<lambda>moduleName.
        bind_result (bind_result (metadata_property v ''entityName'')
          (\<lambda>w. dottedPackageName w (label @ '' entity''))) (\<lambda>entityName.
        let identity = templateIdentity packageId moduleName entityName in
        if identity \<in> set identities then validation (''gRPC query has duplicate DAML-LF template '' @ identity)
        else
          bind_result (metadata_property v ''payloadType'') (\<lambda>kind.
          if kind \<noteq> Q_Str ''template'' \<and> kind \<noteq> Q_Str ''interface'' then error '' payload type is invalid''
          else
            let names = template_names packageName moduleName entityName in
            bind_result (bind_result (metadata_property v ''aliases'') (\<lambda>w. exactAliases w names label)) (\<lambda>aliases.
            bind_result (bind_result (metadata_property v ''templateFqn'')
              (\<lambda>w. exactText w (hd names) (label @ '' FQN''))) (\<lambda>templateFqn.
            bind_result (metadata_property v ''choices'') (\<lambda>choicesValue.
            case choicesValue of
              Q_Arr choiceValues \<Rightarrow>
                bind_result (map_seen (normalizePackageChoice packageId packageName moduleName entityName) []
                  choiceValues) (\<lambda>choices.
                Inr (\<lparr>pt_moduleName = moduleName, pt_entityName = entityName,
                  pt_payloadType = (if kind = Q_Str ''template'' then Template_Payload else Interface_Payload),
                  pt_aliases = aliases, pt_templateFqn = templateFqn, pt_choices = choices\<rparr>, identity))
            | _ \<Rightarrow> error '' choices are invalid'')))))))"

definition normalize_package :: "string list \<Rightarrow> qvalue \<Rightarrow> (package_metadata \<times> string) result" where
  "normalize_package packageIds v =
     (if \<not> q_is_object v then validation ''gRPC query package metadata is invalid''
      else
        bind_result (bind_result (metadata_property v ''id'') (\<lambda>w. packageText w ''id'')) (\<lambda>packageId.
        bind_result (validPackageIdString packageId ''package metadata id'') (\<lambda>_.
        bind_result (bind_result (metadata_property v ''name'') (\<lambda>w. packageText w ''name'')) (\<lambda>packageName.
        bind_result (bind_result (metadata_property v ''version'') (\<lambda>w. packageText w ''version'')) (\<lambda>version.
        if packageId \<in> set packageIds then
          validation (''gRPC query has duplicate package metadata '' @ packageId)
        else
          bind_result (metadata_property v ''templates'') (\<lambda>templatesValue.
          case templatesValue of
            Q_Arr templateValues \<Rightarrow>
              bind_result (map_seen (normalizePackageTemplate packageId packageName) [] templateValues) (\<lambda>templates.
              Inr (\<lparr>pm_id = packageId, pm_name = packageName, pm_version = version,
                pm_templates = templates\<rparr>, packageId))
          | _ \<Rightarrow> validation (''gRPC query package '' @ packageId @ '' templates are invalid'')))))))"

definition normalizeGrpcPackageMetadata :: "qvalue \<Rightarrow> package_metadata list result" where
  "normalizeGrpcPackageMetadata packages =
     (case packages of
        Q_Arr vs \<Rightarrow>
          (case map_seen normalize_package [] vs of
             Inl (ValidationError e) \<Rightarrow> Inl (ValidationError e)
           | Inl (Unmodelled s) \<Rightarrow> Inl (Unmodelled s)
           | Inl e \<Rightarrow> validation ''gRPC query package metadata is invalid''
           | Inr ms \<Rightarrow> Inr ms)
      | _ \<Rightarrow> validation ''gRPC query package metadata is not an array'')"

text \<open>The objects that stand for metadata.\<close>

definition choice_value :: "package_choice \<Rightarrow> qvalue" where
  "choice_value c =
     Q_Obj [(''choice'', Q_Str (pc_choice c)), (''consuming'', Q_Bool (pc_consuming c)),
            (''aliases'', Q_Arr (map Q_Str (pc_aliases c))), (''choiceFqn'', Q_Str (pc_choiceFqn c))]"

definition payload_type_name :: "payload_kind \<Rightarrow> string" where
  "payload_type_name k = (case k of Template_Payload \<Rightarrow> ''template'' | Interface_Payload \<Rightarrow> ''interface'')"

definition package_template_value :: "package_template \<Rightarrow> qvalue" where
  "package_template_value t =
     Q_Obj [(''moduleName'', Q_Str (pt_moduleName t)), (''entityName'', Q_Str (pt_entityName t)),
            (''payloadType'', Q_Str (payload_type_name (pt_payloadType t))),
            (''aliases'', Q_Arr (map Q_Str (pt_aliases t))), (''templateFqn'', Q_Str (pt_templateFqn t)),
            (''choices'', Q_Arr (map choice_value (pt_choices t)))]"

definition package_value :: "package_metadata \<Rightarrow> qvalue" where
  "package_value m =
     Q_Obj [(''id'', Q_Str (pm_id m)), (''name'', Q_Str (pm_name m)), (''version'', Q_Str (pm_version m)),
            (''templates'', Q_Arr (map package_template_value (pm_templates m)))]"

end
