(* ===== verification/Grpc_Dataset.thy ===== *)
theory Grpc_Dataset
  imports Package_Metadata Query_Dataset Cached_Snapshot
begin

text \<open>
  The data set of a ledger fragment (\<^verbatim>\<open>createGrpcQueryDataset\<close> and \<^verbatim>\<open>referencedGrpcPackageIds\<close> of
  \<^verbatim>\<open>src/src/query/grpc/grpc-relation-mapper.ts\<close>): the rows of the eight relations, with type keys that
  are made of names instead of the keys of the fragment, and the keys of every edge.
\<close>

section \<open>Rows\<close>

definition transaction_value :: "transaction_row \<Rightarrow> query_row" where
  "transaction_value t =
     [(''ix'', Q_Str (tr_ix t)), (''offset'', Q_Str (tr_offset t)), (''transactionId'', Q_Str (tr_transactionId t)),
      (''effectiveAt'', Q_Date (Whole (tr_effectiveAt t))), (''workflowId'', nullable_value Q_Str (tr_workflowId t)),
      (''domainId'', Q_Null), (''traceContext'', tr_traceContext t),
      (''externalTransactionHash'', nullable_value Q_Bytes (tr_externalTransactionHash t)),
      (''paidTrafficCost'', nullable_value Q_Str (tr_paidTrafficCost t))]"

definition event_value :: "event_row \<Rightarrow> query_row" where
  "event_value e =
     [(''pk'', Q_Str (er_pk e)), (''txIx'', Q_Str (er_txIx e)), (''eventId'', Q_Str (er_eventId e)),
      (''type'', Q_Str (er_type e))]"

definition exercise_value :: "exercise_row \<Rightarrow> query_row" where
  "exercise_value x =
     [(''tpePk'', Q_Str (xr_tpePk x)), (''contractTpePk'', Q_Str (xr_contractTpePk x)),
      (''exerciseEventPk'', Q_Str (xr_exerciseEventPk x)), (''exercisedAtIx'', Q_Str (xr_exercisedAtIx x)),
      (''contractId'', Q_Str (xr_contractId x)), (''argument'', xr_argument x), (''result'', xr_result x),
      (''redactionId'', Q_Null), (''packagePk'', Q_Str (xr_packagePk x)),
      (''controllers'', Q_Arr (map Q_Str (xr_controllers x))),
      (''lastDescendantNodeId'', Q_Str (xr_lastDescendantNodeId x)),
      (''witnesses'', Q_Arr (map Q_Str (xr_witnesses x)))]"

definition watermark_value :: "string \<Rightarrow> string \<Rightarrow> query_row" where
  "watermark_value endInclusive instanceId =
     [(''singleton'', Q_Bool True), (''ix'', Q_Str endInclusive), (''offset'', Q_Str endInclusive),
      (''instanceId'', Q_Str instanceId)]"

definition package_row :: "string \<Rightarrow> package_metadata \<Rightarrow> query_row" where
  "package_row pk pkg =
     [(''pk'', Q_Str pk), (''name'', Q_Str (pm_name pkg)), (''version'', Q_Str (pm_version pkg)),
      (''id'', Q_Str (pm_id pkg))]"

definition contract_type_row :: "string \<Rightarrow> package_metadata \<times> package_template \<Rightarrow> query_row" where
  "contract_type_row pk = (\<lambda>(pkg, template).
     [(''pk'', Q_Str pk), (''payloadType'', Q_Str (payload_type_name (pt_payloadType template))),
      (''aliases'', Q_Arr (map Q_Str (pt_aliases template))), (''packageName'', Q_Str (pm_name pkg)),
      (''moduleName'', Q_Str (pt_moduleName template)), (''entityName'', Q_Str (pt_entityName template)),
      (''templateFqn'', Q_Str (pt_templateFqn template))])"

definition exercise_type_row :: "string \<Rightarrow> package_metadata \<times> package_template \<times> package_choice \<Rightarrow> query_row" where
  "exercise_type_row pk = (\<lambda>(pkg, template, choice).
     [(''pk'', Q_Str pk), (''choice'', Q_Str (pc_choice choice)), (''consuming'', Q_Bool (pc_consuming choice)),
      (''aliases'', Q_Arr (map Q_Str (pc_aliases choice))), (''packageName'', Q_Str (pm_name pkg)),
      (''moduleName'', Q_Str (pt_moduleName template)), (''entityName'', Q_Str (pt_entityName template)),
      (''templateFqn'', Q_Str (pt_templateFqn template)), (''choiceFqn'', Q_Str (pc_choiceFqn choice))])"

section \<open>The catalog of types\<close>

type_synonym template_entry = "package_metadata \<times> package_template"

record type_catalog =
  tc_templates :: "(string \<times> template_entry) list"
  tc_packageKeys :: "(string \<times> string) list"
  tc_contractTypeKeys :: "(string \<times> string) list"
  tc_exerciseTypeKeys :: "(string \<times> string) list"
  tc_packageRows :: "(string \<times> query_row) list"
  tc_contractTypeRows :: "(string \<times> query_row) list"
  tc_exerciseTypeRows :: "(string \<times> query_row) list"

fun index_unique :: "string \<Rightarrow> (string \<times> 'a) list \<Rightarrow> (string \<times> 'a) list \<Rightarrow> (string \<times> 'a) list result" where
  "index_unique message index [] = Inr index"
| "index_unique message index ((k, v) # entries) =
     (if map_of index k \<noteq> None then validation (message @ k)
      else index_unique message (AList.update k v index) entries)"

fun deduplicateCanonicalRows ::
    "(string \<times> query_row) list \<Rightarrow> (string \<times> query_row) list \<Rightarrow> (string \<times> query_row) list result" where
  "deduplicateCanonicalRows byPk [] = Inr byPk"
| "deduplicateCanonicalRows byPk ((pk, row) # rows) =
     (case map_of byPk pk of
        None \<Rightarrow> deduplicateCanonicalRows (AList.update pk row byPk) rows
      | Some existing \<Rightarrow>
          if json_text (Q_Obj existing) \<noteq> json_text (Q_Obj row) then
            validation (''gRPC query canonical public key '' @ pk @ '' has conflicting metadata'')
          else deduplicateCanonicalRows byPk rows)"

text \<open>\<open>a.localeCompare(b) || otherwise\<close>\<close>

definition then_by :: "(string \<Rightarrow> string \<Rightarrow> bool) \<Rightarrow> string \<Rightarrow> string \<Rightarrow> bool \<Rightarrow> bool" where
  "then_by le a b otherwise = (if \<not> le a b then False else if \<not> le b a then True else otherwise)"

definition compareTemplateMetadata ::
    "(string \<Rightarrow> string \<Rightarrow> bool) \<Rightarrow> template_entry \<Rightarrow> template_entry \<Rightarrow> bool \<Rightarrow> bool" where
  "compareTemplateMetadata le l r otherwise =
     then_by le (pm_id (fst l)) (pm_id (fst r))
       (then_by le (pt_moduleName (snd l)) (pt_moduleName (snd r))
         (then_by le (pt_entityName (snd l)) (pt_entityName (snd r)) otherwise))"

definition template_entries :: "package_metadata list \<Rightarrow> template_entry list" where
  "template_entries packages = concat (map (\<lambda>pkg. map (Pair pkg) (pm_templates pkg)) packages)"

definition choice_entries :: "template_entry list \<Rightarrow> (package_metadata \<times> package_template \<times> package_choice) list" where
  "choice_entries templates =
     concat (map (\<lambda>(pkg, template). map (\<lambda>choice. (pkg, template, choice)) (pt_choices template)) templates)"

definition entry_identity :: "template_entry \<Rightarrow> string" where
  "entry_identity = (\<lambda>(pkg, template).
     templateIdentity (pm_id pkg) (pt_moduleName template) (pt_entityName template))"

definition choice_identity :: "package_metadata \<times> package_template \<times> package_choice \<Rightarrow> string" where
  "choice_identity = (\<lambda>(pkg, template, choice).
     exerciseIdentity \<lparr>qi_packageId = pm_id pkg, qi_moduleName = pt_moduleName template,
       qi_entityName = pt_entityName template\<rparr> (pc_choice choice) (pc_consuming choice))"

definition canonicalContractTypeKey :: "payload_kind \<Rightarrow> string \<Rightarrow> string result" where
  "canonicalContractTypeKey payloadType templateFqn =
     canonicalPublicNumericIdentityParts [payload_type_name payloadType, templateFqn]"

definition keyed :: "('a \<Rightarrow> string) \<Rightarrow> ('a \<Rightarrow> string result) \<Rightarrow> 'a list \<Rightarrow> (string \<times> string) list result" where
  "keyed name key xs =
     bind_result (map_result (\<lambda>x. bind_result (key x) (\<lambda>k. Inr (name x, k))) xs) (\<lambda>entries.
       Inr (update_all entries []))"

definition keyed_rows ::
    "('a \<Rightarrow> string) \<Rightarrow> (string \<times> string) list \<Rightarrow> (string \<Rightarrow> 'a \<Rightarrow> query_row) \<Rightarrow> 'a list \<Rightarrow>
     (string \<times> query_row) list result" where
  "keyed_rows name keys row xs =
     map_result (\<lambda>x. bind_result (required (map_of keys (name x))) (\<lambda>pk. Inr (pk, row pk x))) xs"

definition choice_before ::
    "(string \<Rightarrow> string \<Rightarrow> bool) \<Rightarrow> package_metadata \<times> package_template \<times> package_choice \<Rightarrow>
     package_metadata \<times> package_template \<times> package_choice \<Rightarrow> bool" where
  "choice_before le = (\<lambda>(lp, lt, lc) (rp, rt, rc).
     compareTemplateMetadata le (lp, lt) (rp, rt)
       (then_by le (pc_choice lc) (pc_choice rc) (pc_consuming lc \<longrightarrow> pc_consuming rc)))"

definition catalog_of :: "(string \<Rightarrow> string \<Rightarrow> bool) \<Rightarrow> package_metadata list \<Rightarrow> type_catalog result" where
  "catalog_of le packages =
     (let templates = template_entries packages in
      bind_result (index_unique ''gRPC query has duplicate package metadata '' []
        (map (\<lambda>pkg. (pm_id pkg, pkg)) packages)) (\<lambda>_.
      bind_result (index_unique ''gRPC query has duplicate DAML-LF template '' []
        (map (\<lambda>entry. (entry_identity entry, entry)) templates)) (\<lambda>templateByIdentity.
      bind_result (keyed pm_id (\<lambda>pkg. canonicalPublicNumericIdentity (pm_id pkg)) packages) (\<lambda>packageKeys.
      bind_result (keyed entry_identity (\<lambda>(pkg, template).
        canonicalContractTypeKey (pt_payloadType template) (pt_templateFqn template)) templates) (\<lambda>contractKeys.
      bind_result (keyed choice_identity (\<lambda>(pkg, template, choice).
        canonicalPublicNumericIdentity (pc_choiceFqn choice)) (choice_entries templates)) (\<lambda>exerciseKeys.
      bind_result (keyed_rows pm_id packageKeys package_row
        (sort_by (\<lambda>l r. le (pm_id l) (pm_id r)) packages)) (\<lambda>packageRows.
      bind_result (bind_result (keyed_rows entry_identity contractKeys contract_type_row
        (sort_by (\<lambda>l r. compareTemplateMetadata le l r True) templates)) (deduplicateCanonicalRows [])) (\<lambda>contractTypeRows.
      bind_result (bind_result (keyed_rows choice_identity exerciseKeys exercise_type_row
        (sort_by (choice_before le) (choice_entries templates))) (deduplicateCanonicalRows [])) (\<lambda>exerciseTypeRows.
      Inr \<lparr>tc_templates = templateByIdentity, tc_packageKeys = packageKeys, tc_contractTypeKeys = contractKeys,
           tc_exerciseTypeKeys = exerciseKeys, tc_packageRows = packageRows,
           tc_contractTypeRows = contractTypeRows, tc_exerciseTypeRows = exerciseTypeRows\<rparr>)))))))))"

section \<open>Keys of exercises and contracts\<close>

definition type_key :: "q_identifier \<Rightarrow> string" where
  "type_key t = templateIdentity (qi_packageId t) (qi_moduleName t) (qi_entityName t)"

definition canonicalExerciseTypeKeyForIdentity :: "type_catalog \<Rightarrow> type_identity option \<Rightarrow> string result" where
  "canonicalExerciseTypeKeyForIdentity catalog identity =
     (case identity of
        None \<Rightarrow> validation ''gRPC query relation type identity is missing''
      | Some i \<Rightarrow>
          (case ty_choice i of
             None \<Rightarrow> validation ''gRPC query relation exercise type identity is invalid''
           | Some (choice, consuming) \<Rightarrow>
               (case (if map_of (tc_templates catalog) (type_key (ty_templateId i)) = None then None
                      else map_of (tc_exerciseTypeKeys catalog) (exerciseIdentity (ty_templateId i) choice consuming)) of
                  None \<Rightarrow> validation ''gRPC query relation type metadata is missing''
                | Some key \<Rightarrow> Inr key)))"

definition creation_package :: "creation_identity \<Rightarrow> string" where
  "creation_package c =
     (case ci_representativePackageId c of Some p \<Rightarrow> p | None \<Rightarrow> ci_creationPackageId c)"

definition creation_type_key :: "creation_identity \<Rightarrow> string" where
  "creation_type_key c =
     templateIdentity (creation_package c) (qi_moduleName (ci_templateId c)) (qi_entityName (ci_templateId c))"

definition canonicalContractTypeKeyForExercise ::
    "type_catalog \<Rightarrow> (string \<times> creation_identity) list \<Rightarrow> string \<Rightarrow> type_identity option \<Rightarrow> string result" where
  "canonicalContractTypeKeyForExercise catalog creations contractId orphanIdentity =
     (case map_of creations contractId of
        None \<Rightarrow>
          (case orphanIdentity of
             None \<Rightarrow> validation ''gRPC query orphan contract type identity is invalid''
           | Some i \<Rightarrow>
               if ty_choice i \<noteq> None then validation ''gRPC query orphan contract type identity is invalid''
               else
                 (case (if map_of (tc_templates catalog) (type_key (ty_templateId i)) = None then None
                        else map_of (tc_contractTypeKeys catalog) (type_key (ty_templateId i))) of
                    None \<Rightarrow> validation ''gRPC query orphan contract type metadata is missing''
                  | Some key \<Rightarrow> Inr key))
      | Some creation \<Rightarrow>
          (case map_of (tc_contractTypeKeys catalog) (creation_type_key creation) of
             None \<Rightarrow> validation (''gRPC query representative contract type metadata is missing ''
               @ creation_package creation @ '':'' @ qi_moduleName (ci_templateId creation) @ '':''
               @ qi_entityName (ci_templateId creation))
           | Some key \<Rightarrow> Inr key))"

definition canonicalPackageKeyForId :: "type_catalog \<Rightarrow> string option \<Rightarrow> string result" where
  "canonicalPackageKeyForId catalog packageId =
     (case (case packageId of None \<Rightarrow> None | Some p \<Rightarrow> map_of (tc_packageKeys catalog) p) of
        None \<Rightarrow> validation ''gRPC query relation package metadata is missing''
      | Some key \<Rightarrow> Inr key)"

definition by_contract :: "relation_fragment \<Rightarrow> (string \<times> creation_identity) list" where
  "by_contract fragment = update_all (map (\<lambda>c. (ci_contractId c, c)) (rf_creationIdentities fragment)) []"

definition canonical_exercise :: "type_catalog \<Rightarrow> relation_fragment \<Rightarrow> exercise_row \<Rightarrow> exercise_row result" where
  "canonical_exercise catalog fragment x =
     (let types = update_all (map (\<lambda>i. (ty_pk i, i)) (rf_typeIdentities fragment)) [];
          packages = update_all (rf_packageIdentities fragment) [] in
      bind_result (canonicalExerciseTypeKeyForIdentity catalog (map_of types (xr_tpePk x))) (\<lambda>tpePk.
      bind_result (canonicalContractTypeKeyForExercise catalog (by_contract fragment) (xr_contractId x)
        (map_of types (xr_contractTpePk x))) (\<lambda>contractTpePk.
      bind_result (canonicalPackageKeyForId catalog (map_of packages (xr_packagePk x))) (\<lambda>packagePk.
      Inr (x\<lparr>xr_tpePk := tpePk, xr_contractTpePk := contractTpePk, xr_packagePk := packagePk\<rparr>)))))"

definition contract_type_of :: "type_catalog \<Rightarrow> relation_fragment \<Rightarrow> contract_row \<Rightarrow> string result" where
  "contract_type_of catalog fragment row =
     (case map_of (by_contract fragment) (cr_contractId row) of
        None \<Rightarrow> validation (''gRPC query creation identity is missing '' @ cr_contractId row)
      | Some creation \<Rightarrow>
          (case map_of (tc_contractTypeKeys catalog) (creation_type_key creation) of
             None \<Rightarrow> validation (''gRPC query representative contract type metadata is missing ''
               @ ci_contractId creation)
           | Some key \<Rightarrow> Inr key))"

section \<open>The data set\<close>

text \<open>Only active contracts of a snapshot lack the transaction that created them.\<close>

definition createdTransactionIncomplete :: "relation_fragment \<Rightarrow> bool" where
  "createdTransactionIncomplete fragment =
     (let offsets = map tr_ix (rf_transactions fragment);
          actives = map ai_contractId (rf_activeContractIdentities fragment);
          missing = filter (\<lambda>row. cr_createdEventOffset row \<notin> set offsets) (rf_contracts fragment) in
      missing \<noteq> [] \<and> list_all (\<lambda>row. cr_contractId row \<in> set actives) missing)"

definition public_edge :: "string \<Rightarrow> string \<Rightarrow> edge_lookup" where
  "public_edge source target =
     \<lparr>el_complete = Q_Undef, el_from = Some [source], el_to = Some [target], el_privateKeys = None\<rparr>"

definition private_edge :: "qvalue list \<Rightarrow> qvalue list \<Rightarrow> edge_lookup" where
  "private_edge source target =
     \<lparr>el_complete = Q_Undef, el_from = None, el_to = None,
      el_privateKeys = Some (map (\<lambda>k. [k]) source, map (\<lambda>k. [k]) target)\<rparr>"

definition dataset_rows ::
    "type_catalog \<Rightarrow> relation_fragment \<Rightarrow> exercise_row list \<Rightarrow> string \<Rightarrow> string \<Rightarrow> query_relation \<Rightarrow> query_row list" where
  "dataset_rows catalog fragment exercises endInclusive instanceId relation =
     (case relation of
        Contracts \<Rightarrow> map (q_properties \<circ> row_value) (rf_contracts fragment)
      | Contract_Types \<Rightarrow> map snd (tc_contractTypeRows catalog)
      | Events \<Rightarrow> map event_value (rf_events fragment)
      | Exercises \<Rightarrow> map exercise_value exercises
      | Exercise_Types \<Rightarrow> map snd (tc_exerciseTypeRows catalog)
      | Packages \<Rightarrow> map snd (tc_packageRows catalog)
      | Transactions \<Rightarrow> map transaction_value (rf_transactions fragment)
      | Watermark \<Rightarrow> [watermark_value endInclusive instanceId])"

definition dataset_unique_keys :: "query_relation \<Rightarrow> string list list" where
  "dataset_unique_keys relation =
     (case relation of
        Contracts \<Rightarrow> [[''contractId'']]
      | Contract_Types \<Rightarrow> [[''pk'']]
      | Events \<Rightarrow> [[''pk'']]
      | Exercises \<Rightarrow> [[''tpePk'', ''contractTpePk'', ''exerciseEventPk'', ''contractId'']]
      | Exercise_Types \<Rightarrow> [[''pk'']]
      | Packages \<Rightarrow> [[''pk''], [''id'']]
      | Transactions \<Rightarrow> [[''ix''], [''offset'']]
      | Watermark \<Rightarrow> [[''singleton'']])"

definition event_key :: "relation_fragment \<Rightarrow> exercise_row \<Rightarrow> qvalue" where
  "event_key fragment x =
     (case map_of (update_all (map (\<lambda>e. (er_pk e, er_eventId e)) (rf_events fragment)) []) (xr_exerciseEventPk x) of
        Some i \<Rightarrow> Q_Str i
      | None \<Rightarrow> Q_Null)"

definition package_key :: "relation_fragment \<Rightarrow> exercise_row \<Rightarrow> qvalue" where
  "package_key fragment x =
     (case map_of (update_all (rf_packageIdentities fragment) []) (xr_packagePk x) of
        Some i \<Rightarrow> Q_Str i
      | None \<Rightarrow> Q_Undef)"

definition dataset_edges ::
    "type_catalog \<Rightarrow> relation_fragment \<Rightarrow> exercise_row list \<Rightarrow> string list \<Rightarrow> query_relation \<Rightarrow>
     (string \<times> edge_lookup) list" where
  "dataset_edges catalog fragment exercises contractTypes relation =
     (let contractKeys = map Q_Str contractTypes;
          templateKeys = map (Q_Str \<circ> fst) (tc_contractTypeRows catalog);
          exerciseTypeKeys = map (Q_Str \<circ> fst) (tc_exerciseTypeRows catalog);
          packageKeys = map (\<lambda>(pk, row). q_get row ''id'') (tc_packageRows catalog);
          eventKeys = map (Q_Str \<circ> er_eventId) (rf_events fragment);
          eventTransactionKeys = map (Q_Str \<circ> er_txIx) (rf_events fragment);
          transactionKeys = map (Q_Str \<circ> tr_offset) (rf_transactions fragment);
          exerciseEventKeys = map (event_key fragment) (rf_exercises fragment);
          exerciseTransactionKeys = map (Q_Str \<circ> xr_exercisedAtIx) exercises;
          exercisePackageKeys = map (package_key fragment) (rf_exercises fragment);
          exerciseContractTypeKeys = map (Q_Str \<circ> xr_contractTpePk) exercises;
          exerciseTypeKeysByExercise = map (Q_Str \<circ> xr_tpePk) exercises in
      case relation of
        Contracts \<Rightarrow>
          [(''contractType'', private_edge contractKeys templateKeys),
           (''createdTransaction'', (public_edge ''createdEventOffset'' ''ix'')
              \<lparr>el_complete := if createdTransactionIncomplete fragment then Q_Bool False else Q_Undef\<rparr>),
           (''archivedTransaction'', public_edge ''archivedEventOffset'' ''ix''),
           (''exercises'', public_edge ''contractId'' ''contractId'')]
      | Contract_Types \<Rightarrow>
          [(''contracts'', private_edge templateKeys contractKeys),
           (''exercises'', private_edge templateKeys exerciseContractTypeKeys)]
      | Events \<Rightarrow>
          [(''transaction'', private_edge eventTransactionKeys transactionKeys),
           (''exercises'', private_edge eventKeys exerciseEventKeys)]
      | Exercises \<Rightarrow>
          [(''exerciseType'', private_edge exerciseTypeKeysByExercise exerciseTypeKeys),
           (''contractType'', private_edge exerciseContractTypeKeys templateKeys),
           (''event'', private_edge exerciseEventKeys eventKeys),
           (''transaction'', private_edge exerciseTransactionKeys transactionKeys),
           (''package'', private_edge exercisePackageKeys packageKeys),
           (''contract'', public_edge ''contractId'' ''contractId'')]
      | Exercise_Types \<Rightarrow> [(''exercises'', private_edge exerciseTypeKeys exerciseTypeKeysByExercise)]
      | Packages \<Rightarrow> [(''exercises'', private_edge packageKeys exercisePackageKeys)]
      | Transactions \<Rightarrow>
          [(''events'', private_edge transactionKeys eventTransactionKeys),
           (''createdContracts'', public_edge ''ix'' ''createdEventOffset''),
           (''archivedContracts'', public_edge ''ix'' ''archivedEventOffset''),
           (''exercises'', private_edge transactionKeys exerciseTransactionKeys)]
      | Watermark \<Rightarrow> [])"

definition validSnapshotOffset :: "string \<Rightarrow> string result" where
  "validSnapshotOffset v =
     (if \<not> canonical_natural v then validation ''gRPC query snapshot end offset is invalid''
      else if offset_value v > 9223372036854775807 then
        validation ''gRPC query snapshot end offset is outside the int64 range''
      else Inr v)"

definition grpc_dataset ::
    "(string \<Rightarrow> string \<Rightarrow> bool) \<Rightarrow> relation_fragment \<Rightarrow> qvalue \<Rightarrow> string \<Rightarrow> string \<Rightarrow> query_dataset result" where
  "grpc_dataset le fragment packages endInclusive instanceId =
     bind_result (validSnapshotOffset endInclusive) (\<lambda>_.
     if instanceId = [] then validation ''gRPC query snapshot instance id is missing''
     else
       bind_result (normalizeGrpcPackageMetadata packages) (\<lambda>normalizedPackages.
       bind_result (catalog_of le normalizedPackages) (\<lambda>catalog.
       bind_result (map_result (canonical_exercise catalog fragment) (rf_exercises fragment)) (\<lambda>exercises.
       bind_result (map_result (contract_type_of catalog fragment) (rf_contracts fragment)) (\<lambda>contractTypes.
       Inr \<lparr>qd_rows = Some \<circ> dataset_rows catalog fragment exercises endInclusive instanceId,
            qd_edges = Some \<circ> dataset_edges catalog fragment exercises contractTypes,
            qd_uniqueKeys = Some \<circ> dataset_unique_keys\<rparr>)))))"

definition createGrpcQueryDataset ::
    "(string \<Rightarrow> string \<Rightarrow> bool) \<Rightarrow> relation_fragment \<Rightarrow> qvalue \<Rightarrow> string \<Rightarrow> string \<Rightarrow> compiled_dataset result" where
  "createGrpcQueryDataset le fragment packages endInclusive instanceId =
     bind_result (grpc_dataset le fragment packages endInclusive instanceId) createQueryDataset"

definition referencedGrpcPackageIds :: "relation_fragment \<Rightarrow> string list result" where
  "referencedGrpcPackageIds fragment =
     bind_result (map_result (\<lambda>x.
       case map_of (update_all (rf_packageIdentities fragment) []) (xr_packagePk x) of
         None \<Rightarrow> validation ''gRPC query relation package identity is missing''
       | Some i \<Rightarrow> Inr i) (rf_exercises fragment)) (\<lambda>exercisePackages.
     Inr (sort (remdups (map creation_package (rf_creationIdentities fragment) @ exercisePackages @
       map (qi_packageId \<circ> ty_templateId) (filter (\<lambda>i. ty_choice i \<noteq> None) (rf_typeIdentities fragment))))))"

end
