(* ===== verification/Fragment_Invariants.thy ===== *)
theory Fragment_Invariants
  imports Relation_Mapping JS_Ordering
begin

text \<open>
  What every contract row and every creation of a ledger fragment satisfies: a property that new rows have,
  and that archiving a contract and merging witnesses keep (locale \<open>fragment_invariant\<close>). It is interpreted
  on the archive columns: a contract is active exactly when it has no archive offset and no archive time;
  and on the names of a creation.
\<close>

text \<open>Checks that passed.\<close>

lemma guard_Inr: "(if c then validation m else r) = Inr y \<longleftrightarrow> \<not> c \<and> r = Inr y"
  by (simp add: validation_def)

lemma required_Inr: "required v = Inr w \<longleftrightarrow> v = Some w"
  by (simp add: required_def split: option.splits)

lemma bind_result_Inr_E: "bind_result r f = Inr y \<Longrightarrow> (\<And>x. r = Inr x \<Longrightarrow> f x = Inr y \<Longrightarrow> P) \<Longrightarrow> P"
  by (auto simp: bind_result_Inr_iff)

definition every_value :: "('a \<Rightarrow> bool) \<Rightarrow> (string \<times> 'a) list \<Rightarrow> bool" where
  "every_value P m \<longleftrightarrow> list_all (P \<circ> snd) m"

lemma every_value_Nil [simp]: "every_value P []"
  by (simp add: every_value_def)

lemma every_value_update [intro]: "every_value P m \<Longrightarrow> P v \<Longrightarrow> every_value P (AList.update k v m)"
  by (induction m) (auto simp: every_value_def)

lemma every_value_lookup: "every_value P m \<Longrightarrow> map_of m k = Some v \<Longrightarrow> P v"
  by (force simp: every_value_def list_all_iff dest: map_of_SomeD)

lemma every_value_set: "every_value P m \<Longrightarrow> v \<in> snd ` set m \<Longrightarrow> P v"
  by (auto simp: every_value_def list_all_iff)

locale fragment_invariant =
  fixes P :: "contract_row \<Rightarrow> bool" and Q :: "creation_identity \<Rightarrow> bool"
  assumes created: "creationDescriptor le e offset = Inr c \<Longrightarrow> P (row_of_creation c) \<and> Q c"
    and archived: "P row \<Longrightarrow>
      P (row\<lparr>cr_archivedEventOffset := Some offset, cr_archivedAt := Some time, cr_active := False\<rparr>)"
    and witnessed: "P row \<Longrightarrow> P (row\<lparr>cr_witnesses := ws\<rparr>)" "Q c \<Longrightarrow> Q (c\<lparr>ci_witnesses := ws\<rparr>)"
begin

definition holds :: "contract_maps \<Rightarrow> bool" where
  "holds maps \<longleftrightarrow> every_value P (fst maps) \<and> every_value Q (snd maps)"

lemma add_created:
  assumes "addCreatedContract le maps e offset = Inr maps'" "holds maps"
  shows "holds maps'"
proof -
  obtain contracts creations where maps: "maps = (contracts, creations)" by (cases maps)
  from assms(1) obtain c where c: "creationDescriptor le e offset = Inr c" and
    "maps' = (AList.update (ce_contractId e) (row_of_creation c) contracts, AList.update (ce_contractId e) c creations)"
    unfolding maps addCreatedContract_def prod.case by (auto simp: bind_result_Inr_iff guard_Inr)
  with assms(2) maps created [OF c] show ?thesis by (auto simp: holds_def)
qed

lemma event:
  assumes "apply_event le registry eventPks (maps, rows) p = Inr (maps', rows')" "holds maps"
  shows "holds maps'"
proof (cases "pe_body p")
  case (Pending_Created e)
  with assms show ?thesis by (auto simp: apply_event_def bind_result_Inr_iff dest: add_created)
next
  case (Pending_Exercised e)
  show ?thesis
  proof (cases "map_of (fst maps) (xe_contractId e)")
    case None
    with assms Pending_Exercised show ?thesis
      by (auto simp: apply_event_def Let_def bind_result_Inr_iff split: bool.splits)
  next
    case (Some c)
    with assms(2) have "P c" by (auto simp: holds_def dest: every_value_lookup)
    with Some assms Pending_Exercised show ?thesis
      by (cases "xe_consuming e")
        (fastforce simp: apply_event_def Let_def bind_result_Inr_iff guard_Inr holds_def intro: archived)+
  qed
qed

lemma events_hold:
  "apply_events le registry eventPks (maps, rows) ps = Inr (maps', rows') \<Longrightarrow> holds maps \<Longrightarrow> holds maps'"
proof (induction ps arbitrary: maps rows)
  case (Cons p ps)
  from Cons.prems(1) obtain maps1 rows1 where
    step: "apply_event le registry eventPks (maps, rows) p = Inr (maps1, rows1)"
    and rest: "apply_events le registry eventPks (maps1, rows1) ps = Inr (maps', rows')"
    by (auto simp: bind_result_Inr_iff)
  show ?case by (rule Cons.IH [OF rest event [OF step Cons.prems(2)]])
qed simp

lemma group:
  assumes "reconcile_group le maps g = Inr maps'" "holds maps"
  shows "holds maps'"
proof -
  obtain contracts creations contractId entries where g: "maps = (contracts, creations)" "g = (contractId, entries)"
    by (metis surj_pair)
  from assms(1) obtain contracts1 creations1 row c ws e offset where
    new: "(if map_of contracts contractId = None then addCreatedContract le maps e offset else Inr maps)
      = Inr (contracts1, creations1)"
    and found: "map_of contracts1 contractId = Some row" "map_of creations1 contractId = Some c"
    and maps': "maps' = (AList.update contractId (row\<lparr>cr_witnesses := ws\<rparr>) contracts1,
      AList.update contractId (c\<lparr>ci_witnesses := ws\<rparr>) creations1)"
    unfolding g reconcile_group_def Let_def prod.case
    by (auto simp: bind_result_Inr_iff guard_Inr required_Inr)
  have holds1: "holds (contracts1, creations1)"
    using new add_created [of le maps e offset "(contracts1, creations1)"] assms(2) by (auto split: if_splits)
  then have "P row" "Q c" using found by (auto simp: holds_def dest: every_value_lookup)
  with holds1 show ?thesis by (auto simp: maps' holds_def intro: witnessed)
qed

lemma groups_hold: "reconcile_groups le maps gs = Inr maps' \<Longrightarrow> holds maps \<Longrightarrow> holds maps'"
proof (induction gs arbitrary: maps)
  case (Cons g gs)
  from Cons.prems(1) obtain maps1 where step: "reconcile_group le maps g = Inr maps1"
    and rest: "reconcile_groups le maps1 gs = Inr maps'" by (auto simp: bind_result_Inr_iff)
  show ?case by (rule Cons.IH [OF rest group [OF step Cons.prems(2)]])
qed simp

lemma fragment:
  assumes "mapGrpcQueryRelationFragment le source acs = Inr fragment"
  shows "\<forall>row \<in> set (rf_contracts fragment). P row" "\<forall>c \<in> set (rf_creationIdentities fragment). Q c"
proof -
  have "\<exists>registry eventPks sorted x entries y.
    apply_events le registry eventPks (([], []), []) sorted = Inr x \<and>
    reconcileActiveContracts le (fst x) entries = Inr y \<and>
    rf_contracts fragment = sort_by (\<lambda>l r. le (cr_contractId l) (cr_contractId r)) (map snd (fst y)) \<and>
    rf_creationIdentities fragment = sort_by (\<lambda>l r. le (ci_contractId l) (ci_contractId r)) (map snd (snd y))"
    using assms unfolding mapGrpcQueryRelationFragment_def Let_def split_beta
    by (elim bind_result_Inr_E)
      (intro exI conjI, assumption, assumption, (simp only: sum.inject, hypsubst, simp)+)
  then obtain registry eventPks sorted maps rows entries contracts creations where
    events: "apply_events le registry eventPks (([], []), []) sorted = Inr (maps, rows)"
    and groups: "reconcile_groups le maps entries = Inr (contracts, creations)"
    and rows: "rf_contracts fragment = sort_by (\<lambda>l r. le (cr_contractId l) (cr_contractId r)) (map snd contracts)"
      "rf_creationIdentities fragment = sort_by (\<lambda>l r. le (ci_contractId l) (ci_contractId r)) (map snd creations)"
    by (fastforce simp: reconcileActiveContracts_def)
  have "holds maps" by (rule events_hold [OF events]) (simp add: holds_def)
  then have "holds (contracts, creations)" by (rule groups_hold [OF groups])
  then show "\<forall>row \<in> set (rf_contracts fragment). P row" "\<forall>c \<in> set (rf_creationIdentities fragment). Q c"
    by (auto simp: rows set_sort_by holds_def every_value_def list_all_iff)
qed

end

section \<open>Archive columns and names\<close>

definition archive_ok :: "contract_row \<Rightarrow> bool" where
  "archive_ok row \<longleftrightarrow>
     (cr_active row \<longleftrightarrow> cr_archivedAt row = None) \<and> (cr_active row \<longleftrightarrow> cr_archivedEventOffset row = None)"

definition dotted_ok :: "string \<Rightarrow> bool" where
  "dotted_ok s \<longleftrightarrow> list_all is_name (split_on CHR ''.'' s)"

definition package_id_ok :: "string \<Rightarrow> bool" where
  "package_id_ok s \<longleftrightarrow> text_of ''-_ '' 64 s"

definition template_ok :: "q_identifier \<Rightarrow> bool" where
  "template_ok t \<longleftrightarrow>
     package_id_ok (qi_packageId t) \<and> dotted_ok (qi_moduleName t) \<and> dotted_ok (qi_entityName t)"

definition creation_ok :: "creation_identity \<Rightarrow> bool" where
  "creation_ok c \<longleftrightarrow>
     template_ok (ci_templateId c) \<and> package_id_ok (ci_creationPackageId c) \<and>
     (case ci_representativePackageId c of None \<Rightarrow> True | Some p \<Rightarrow> package_id_ok p) \<and> ci_packageName c \<noteq> []"

lemma dotted_name_Inr: "validDottedNameString s name = Inr t \<longleftrightarrow> dotted_ok s \<and> t = s"
  by (auto simp: validDottedNameString_def dotted_ok_def bind_result_Inr_iff each_result_Inr_iff list_all_iff
      validNameString_def validation_def split: if_splits)

lemma package_id_Inr: "validPackageIdString s name = Inr t \<longleftrightarrow> package_id_ok s \<and> t = s"
  by (auto simp: validPackageIdString_def package_id_ok_def validation_def)

lemma required_template: "requiredTemplate template name = Inr t \<longleftrightarrow> template = Some t \<and> template_ok t"
  by (auto simp: requiredTemplate_def template_ok_def bind_result_Inr_iff dotted_name_Inr package_id_Inr
      validation_def split: option.splits)

lemma creation_descriptor_ok: "creationDescriptor le e offset = Inr c \<Longrightarrow> creation_ok c"
  unfolding creationDescriptor_def
  by (auto simp: creation_ok_def template_ok_def bind_result_Inr_iff guard_Inr required_template package_id_Inr
      nullableString_def validation_def split: option.splits if_splits)

interpretation archives: fragment_invariant archive_ok "\<lambda>c. True"
  by unfold_locales (auto simp: archive_ok_def row_of_creation_def)

interpretation creations: fragment_invariant "\<lambda>row. True" creation_ok
  by unfold_locales (auto simp: creation_descriptor_ok, auto simp: creation_ok_def)

end
