(* ===== verification/Grpc_Dataset_Laws.thy ===== *)
theory Grpc_Dataset_Laws
  imports Grpc_Dataset Fragment_Invariants Query_Laws
begin

text \<open>
  The contract rows that the relation mapper makes are active exactly when they carry no archive offset
  and no archive time, and they stay so in the data set, so the active-only scan of a query over the
  ledger loses no contract.
\<close>

section \<open>Rows of the data set\<close>

lemma grpc_contract_rows:
  assumes "createGrpcQueryDataset le fragment packages endInclusive instanceId = Inr dataset"
  shows "cd_rows dataset Contracts = map (immutable_row \<circ> q_properties \<circ> row_value) (rf_contracts fragment)"
  using assms
  by (auto simp: createGrpcQueryDataset_def grpc_dataset_def bind_result_Inr_iff validation_def compiled_parts
      immutable_dataset_def dataset_rows_def split: if_splits)

lemma active_row_value: "archive_ok row \<Longrightarrow> active_row (immutable_row (q_properties (row_value row)))"
  by (cases "cr_archivedAt row"; cases "cr_archivedEventOffset row")
    (auto simp: archive_ok_def active_row_def immutable_row_def q_properties_def row_value_def q_get_def
      nullable_value_def q_nullish_def)

lemma grpc_rows_active:
  assumes "mapGrpcQueryRelationFragment le source acs = Inr fragment"
    and "createGrpcQueryDataset le fragment packages endInclusive instanceId = Inr dataset"
    and "i < length (cd_rows dataset Contracts)"
  shows "active_row (row_at dataset Contracts i)"
  using assms(3) archives.fragment(1) [OF assms(1)] active_row_value
  by (simp add: grpc_contract_rows [OF assms(2)] row_at_def)

end
