(* ===== verification/Package_Metadata_Laws.thy ===== *)
theory Package_Metadata_Laws
  imports Package_Metadata Fragment_Invariants
begin

text \<open>
  Metadata passes the checks when its names are the exact ones, and metadata derived from the events of
  a ledger fragment is such.
\<close>

section \<open>Exact metadata\<close>

definition name_text :: "string \<Rightarrow> bool" where
  "name_text s \<longleftrightarrow> s \<noteq> [] \<and> \<not> list_ex forbidden s"

definition exact_choice :: "string \<Rightarrow> string \<Rightarrow> string \<Rightarrow> package_choice \<Rightarrow> bool" where
  "exact_choice packageName moduleName entityName c \<longleftrightarrow>
     is_name (pc_choice c) \<and>
     pc_aliases c = choice_names packageName moduleName entityName (pc_choice c) \<and>
     pc_choiceFqn c = hd (pc_aliases c)"

definition exact_template :: "string \<Rightarrow> package_template \<Rightarrow> bool" where
  "exact_template packageName t \<longleftrightarrow>
     dotted_ok (pt_moduleName t) \<and> dotted_ok (pt_entityName t) \<and>
     pt_aliases t = template_names packageName (pt_moduleName t) (pt_entityName t) \<and>
     pt_templateFqn t = hd (pt_aliases t) \<and>
     distinct (map pc_choice (pt_choices t)) \<and>
     list_all (exact_choice packageName (pt_moduleName t) (pt_entityName t)) (pt_choices t)"

definition template_pair :: "package_template \<Rightarrow> string \<times> string" where
  "template_pair t = (pt_moduleName t, pt_entityName t)"

definition exact_package :: "package_metadata \<Rightarrow> bool" where
  "exact_package m \<longleftrightarrow>
     package_id_ok (pm_id m) \<and> name_text (pm_id m) \<and> name_text (pm_name m) \<and> name_text (pm_version m) \<and>
     distinct (map template_pair (pm_templates m)) \<and> list_all (exact_template (pm_name m)) (pm_templates m)"

definition exact_packages :: "package_metadata list \<Rightarrow> bool" where
  "exact_packages ms \<longleftrightarrow> distinct (map pm_id ms) \<and> list_all exact_package ms"

section \<open>Exact metadata passes\<close>

lemma map_seen_all:
  assumes "\<And>x seen. x \<in> set xs \<Longrightarrow> name x \<notin> set seen \<Longrightarrow> f seen (g x) = Inr (x, name x)"
    and "distinct (map name xs)" "set seen \<inter> name ` set xs = {}"
  shows "map_seen f seen (map g xs) = Inr xs"
  using assms
proof (induction xs arbitrary: seen)
  case (Cons x xs)
  have "f seen (g x) = Inr (x, name x)" using Cons.prems(1,3) by simp
  moreover have "map_seen f (name x # seen) (map g xs) = Inr xs"
    by (rule Cons.IH) (use Cons.prems in auto)
  ultimately show ?case by simp
qed simp

lemma exact_aliases [simp]: "exactAliases (Q_Arr (map Q_Str expected)) expected name = Inr expected"
  by (simp add: exactAliases_def)

lemma exact_text [simp]: "exactText (Q_Str expected) expected name = Inr expected"
  by (simp add: exactText_def)

lemma property_get [simp]: "metadata_property (Q_Obj ps) k = Inr (q_get ps k)"
  by (simp add: metadata_property_def)

lemma package_text: "name_text s \<Longrightarrow> packageText (Q_Str s) name = Inr s"
  by (simp add: packageText_def name_text_def)

lemma normalize_choice:
  "exact_choice packageName moduleName entityName c \<Longrightarrow> pc_choice c \<notin> set seen \<Longrightarrow>
   normalizePackageChoice packageId packageName moduleName entityName seen (choice_value c) = Inr (c, pc_choice c)"
  by (simp add: normalizePackageChoice_def Let_def choice_value_def q_is_object_def q_get_def validNameString_def
      exact_choice_def)

lemma normalize_template:
  assumes "exact_template packageName t"
    and "templateIdentity packageId (pt_moduleName t) (pt_entityName t) \<notin> set seen"
  shows "normalizePackageTemplate packageId packageName seen (package_template_value t)
    = Inr (t, templateIdentity packageId (pt_moduleName t) (pt_entityName t))"
proof -
  have "map_seen (normalizePackageChoice packageId packageName (pt_moduleName t) (pt_entityName t)) []
      (map choice_value (pt_choices t)) = Inr (pt_choices t)"
    by (rule map_seen_all [where name = pc_choice]) (use assms(1) normalize_choice in \<open>auto simp: exact_template_def list_all_iff\<close>)
  then show ?thesis
    using assms by (cases "pt_payloadType t")
      (simp_all add: normalizePackageTemplate_def Let_def package_template_value_def q_is_object_def q_get_def
        dottedPackageName_def dotted_name_Inr [THEN iffD2] exact_template_def payload_type_name_def)
qed

text \<open>Names hold no zero character, so a template identity tells its names apart.\<close>

lemma text_of_no_zero: "text_of extra n s \<Longrightarrow> CHR 0x00 \<notin> set extra \<Longrightarrow> CHR 0x00 \<notin> set s"
  by (auto simp: text_of_def list_all_iff is_letter_def is_digit_def)

lemma split_on_chars: "c \<noteq> d \<Longrightarrow> c \<in> set s \<Longrightarrow> \<exists>t \<in> set (split_on d s). c \<in> set t"
  by (induction s) (auto split: list.splits)

lemma dotted_no_zero: "dotted_ok s \<Longrightarrow> CHR 0x00 \<notin> set s"
  using split_on_chars [of "CHR 0x00" "CHR ''.''" s] text_of_no_zero
  by (fastforce simp: dotted_ok_def list_all_iff is_name_def)

lemma append_separator: "c \<notin> set a \<Longrightarrow> c \<notin> set b \<Longrightarrow> a @ [c] @ x = b @ [c] @ y \<Longrightarrow> a = b \<and> x = y"
proof (induction a arbitrary: b)
  case Nil
  then show ?case by (cases b) auto
next
  case (Cons d a)
  then show ?case by (cases b) auto
qed

lemma template_identity_inj:
  "dotted_ok m \<Longrightarrow> dotted_ok m' \<Longrightarrow> templateIdentity p m e = templateIdentity p m' e' \<Longrightarrow> m = m' \<and> e = e'"
  by (rule append_separator [OF dotted_no_zero dotted_no_zero]) (simp_all add: templateIdentity_def)

lemma distinct_finer:
  "distinct (map g xs) \<Longrightarrow> (\<And>x y. x \<in> set xs \<Longrightarrow> y \<in> set xs \<Longrightarrow> f x = f y \<Longrightarrow> g x = g y) \<Longrightarrow> distinct (map f xs)"
  by (induction xs) (auto simp: image_iff)

lemma normalize_package_exact:
  assumes "exact_package m" "pm_id m \<notin> set seen"
  shows "normalize_package seen (package_value m) = Inr (m, pm_id m)"
proof -
  let ?name = "\<lambda>t. templateIdentity (pm_id m) (pt_moduleName t) (pt_entityName t)"
  have exact: "exact_template (pm_name m) t" if "t \<in> set (pm_templates m)" for t
    using assms(1) that by (simp add: exact_package_def list_all_iff)
  have "distinct (map template_pair (pm_templates m))" using assms(1) by (simp add: exact_package_def)
  then have "distinct (map ?name (pm_templates m))"
  proof (rule distinct_finer)
    fix x y assume "x \<in> set (pm_templates m)" "y \<in> set (pm_templates m)" "?name x = ?name y"
    then show "template_pair x = template_pair y"
      using template_identity_inj [of "pt_moduleName x" "pt_moduleName y"] exact
      unfolding template_pair_def exact_template_def by blast
  qed
  then have "map_seen (normalizePackageTemplate (pm_id m) (pm_name m)) []
      (map package_template_value (pm_templates m)) = Inr (pm_templates m)"
    by (intro map_seen_all [where name = ?name] normalize_template exact) simp_all
  then show ?thesis
    using assms by (simp add: normalize_package_def package_value_def q_is_object_def q_get_def package_text
        package_id_Inr [THEN iffD2] exact_package_def)
qed

lemma normalize_exact:
  "exact_packages ms \<Longrightarrow> normalizeGrpcPackageMetadata (Q_Arr (map package_value ms)) = Inr ms"
proof -
  assume "exact_packages ms"
  then have "map_seen normalize_package [] (map package_value ms) = Inr ms"
    by (intro map_seen_all [where name = pm_id])
      (auto simp: exact_packages_def list_all_iff normalize_package_exact)
  then show ?thesis by (simp add: normalizeGrpcPackageMetadata_def)
qed

section \<open>Derived metadata is exact\<close>

definition derived_template_ok :: "string \<times> derived_template \<Rightarrow> bool" where
  "derived_template_ok = (\<lambda>(k, t).
     k = derived_identity (dt_moduleName t) (dt_entityName t) \<and> dotted_ok (dt_moduleName t) \<and>
     dotted_ok (dt_entityName t) \<and> distinct (map fst (dt_choices t)) \<and> list_all (is_name \<circ> fst) (dt_choices t))"

definition derived_package_ok :: "string \<times> derived_package \<Rightarrow> bool" where
  "derived_package_ok = (\<lambda>(i, pkg).
     package_id_ok i \<and> name_text (dp_name pkg) \<and> distinct (map fst (dp_templates pkg)) \<and>
     list_all derived_template_ok (dp_templates pkg))"

definition derived_ok :: "derived_packages \<Rightarrow> bool" where
  "derived_ok packages \<longleftrightarrow> distinct (map fst packages) \<and> list_all derived_package_ok packages"

lemma package_id_chars: "is_letter c \<or> is_digit c \<or> c \<in> set ''-_ '' \<Longrightarrow> \<not> forbidden c"
  by (auto simp: forbidden_def is_letter_def is_digit_def Let_def)

lemma package_id_text: "package_id_ok i \<Longrightarrow> \<not> list_ex forbidden s \<Longrightarrow> name_text (s @ i)"
proof -
  assume i: "package_id_ok i" and s: "\<not> list_ex forbidden s"
  have "\<not> list_ex forbidden i"
    using i package_id_chars unfolding package_id_ok_def text_of_def list_all_iff list_ex_iff by blast
  with s i show ?thesis by (simp add: name_text_def package_id_ok_def text_of_def)
qed

lemma version_text: "\<not> list_ex forbidden ''unresolved-''"
  by code_simp

lemma finalize_template_exact:
  assumes "derived_template_ok (k, t)"
  shows "exact_template packageName (finalize_template le packageName t)"
proof -
  let ?cs = "map (finalize_choice packageName t) (dt_choices t)"
  let ?sorted = "sort_by (\<lambda>l r. le (pc_choice l) (pc_choice r)) ?cs"
  have "map pc_choice ?cs = map fst (dt_choices t)" by (auto simp: finalize_choice_def Let_def)
  then have cs: "distinct (map pc_choice ?cs)" using assms by (simp only: derived_template_ok_def prod.case)
  have "mset (map pc_choice ?sorted) = mset (map pc_choice ?cs)" by (simp only: mset_map mset_sort_by)
  with cs have "distinct (map pc_choice ?sorted)" using mset_eq_imp_distinct_iff by blast
  moreover have "list_all (exact_choice packageName (dt_moduleName t) (dt_entityName t)) ?sorted"
  proof -
    have "exact_choice packageName (dt_moduleName t) (dt_entityName t) (finalize_choice packageName t c)"
      if "c \<in> set (dt_choices t)" for c
      using assms that by (cases c) (auto simp: derived_template_ok_def finalize_choice_def Let_def exact_choice_def list_all_iff)
    then show ?thesis by (simp add: list_all_iff set_sort_by)
  qed
  ultimately show ?thesis using assms
    by (simp add: exact_template_def finalize_template_def Let_def derived_template_ok_def)
qed

lemma finalize_exact: "derived_ok packages \<Longrightarrow> exact_packages (finalizeDerivedPackages le packages)"
proof -
  assume ok: "derived_ok packages"
  have "exact_package \<lparr>pm_id = i, pm_name = dp_name pkg, pm_version = ''unresolved-'' @ i,
      pm_templates = map (finalize_template le (dp_name pkg) \<circ> snd) (dp_templates pkg)\<rparr>"
    if "(i, pkg) \<in> set packages" for i pkg
  proof -
    have p: "derived_package_ok (i, pkg)" using ok that by (auto simp: derived_ok_def list_all_iff)
    have "distinct (map (template_pair \<circ> (finalize_template le (dp_name pkg) \<circ> snd)) (dp_templates pkg))"
    proof (rule distinct_finer)
      show "distinct (map fst (dp_templates pkg))" using p by (simp add: derived_package_ok_def)
      fix x y assume "x \<in> set (dp_templates pkg)" "y \<in> set (dp_templates pkg)"
        and eq: "(template_pair \<circ> (finalize_template le (dp_name pkg) \<circ> snd)) x
          = (template_pair \<circ> (finalize_template le (dp_name pkg) \<circ> snd)) y"
      then have "derived_template_ok x" "derived_template_ok y"
        using p by (auto simp: derived_package_ok_def list_all_iff)
      with eq show "fst x = fst y"
        by (cases x; cases y) (simp add: derived_template_ok_def template_pair_def finalize_template_def Let_def)
    qed
    then have "distinct (map template_pair (map (finalize_template le (dp_name pkg) \<circ> snd) (dp_templates pkg)))"
      by simp
    moreover have "list_all (exact_template (dp_name pkg)) (map (finalize_template le (dp_name pkg) \<circ> snd) (dp_templates pkg))"
      unfolding list_all_iff
    proof
      fix t assume "t \<in> set (map (finalize_template le (dp_name pkg) \<circ> snd) (dp_templates pkg))"
      then obtain k d where "(k, d) \<in> set (dp_templates pkg)" "t = finalize_template le (dp_name pkg) d" by auto
      with p finalize_template_exact [of k d] show "exact_template (dp_name pkg) t"
        by (simp add: derived_package_ok_def list_all_iff)
    qed
    ultimately show ?thesis
      using p package_id_text [of i "''unresolved-''"] package_id_text [of i "[]"] version_text
      by (simp add: exact_package_def derived_package_ok_def)
  qed
  then have "exact_package m" if "m \<in> set (finalizeDerivedPackages le packages)" for m
    using that by (auto simp: finalizeDerivedPackages_def)
  moreover have "map pm_id (finalizeDerivedPackages le packages) = map fst packages"
    by (auto simp: finalizeDerivedPackages_def)
  ultimately show ?thesis using ok by (simp add: exact_packages_def derived_ok_def list_all_iff)
qed

lemma list_all_update: "list_all P m \<Longrightarrow> P (k, v) \<Longrightarrow> list_all P (AList.update k v m)"
  by (induction m) auto

lemma with_template_ok:
  assumes "with_template packages packageId packageName t change = Inr packages'" "derived_ok packages"
    and names: "package_id_ok packageId" "name_text packageName" "template_ok t"
    and change: "\<And>x y. derived_template_ok (derived_identity (qi_moduleName t) (qi_entityName t), x) \<Longrightarrow>
      change x = Inr y \<Longrightarrow> derived_template_ok (derived_identity (qi_moduleName t) (qi_entityName t), y)"
  shows "derived_ok packages'"
proof -
  let ?k = "derived_identity (qi_moduleName t) (qi_entityName t)"
  from assms(1) obtain pkg template where pkg: "derivedPackageFor packages packageId packageName = Inr pkg"
    and template: "change (derivedTemplateFor pkg (qi_moduleName t) (qi_entityName t)) = Inr template"
    and packages': "packages' = AList.update packageId
      (pkg\<lparr>dp_templates := AList.update ?k template (dp_templates pkg)\<rparr>) packages"
    by (auto simp: with_template_def bind_result_Inr_iff)
  have p: "derived_package_ok (packageId, pkg)"
  proof (cases "map_of packages packageId")
    case None
    with pkg names show ?thesis by (auto simp: derivedPackageFor_def derived_package_ok_def)
  next
    case (Some existing)
    with pkg have "existing = pkg" by (auto simp: derivedPackageFor_def validation_def split: if_splits)
    with assms(2) map_of_SomeD [OF Some] show ?thesis by (auto simp: derived_ok_def list_all_iff)
  qed
  have "derived_template_ok (?k, derivedTemplateFor pkg (qi_moduleName t) (qi_entityName t))"
  proof (cases "map_of (dp_templates pkg) ?k")
    case None
    with names show ?thesis by (simp add: derivedTemplateFor_def derived_template_ok_def template_ok_def)
  next
    case (Some existing)
    with p map_of_SomeD [OF Some] show ?thesis
      by (auto simp: derivedTemplateFor_def derived_package_ok_def list_all_iff)
  qed
  then have "derived_template_ok (?k, template)" using change template by blast
  with p have "derived_package_ok (packageId, pkg\<lparr>dp_templates := AList.update ?k template (dp_templates pkg)\<rparr>)"
    by (simp add: derived_package_ok_def list_all_update distinct_update)
  with assms(2) show ?thesis by (simp add: packages' derived_ok_def list_all_update distinct_update)
qed

definition source_ok :: "creation_type_source \<Rightarrow> bool" where
  "source_ok c \<longleftrightarrow>
     package_id_ok (representative_package c) \<and> name_text (ts_packageName c) \<and> template_ok (ts_templateId c)"

lemma creation_entries_ok:
  "addDerivedCreationEntries packages cs = Inr packages' \<Longrightarrow> derived_ok packages \<Longrightarrow> list_all source_ok cs \<Longrightarrow>
   derived_ok packages'"
proof (induction cs arbitrary: packages)
  case (Cons c cs)
  from Cons.prems(1) obtain packages1 where
    step: "with_template packages (representative_package c) (ts_packageName c) (ts_templateId c) Inr = Inr packages1"
    and rest: "addDerivedCreationEntries packages1 cs = Inr packages'" by (auto simp: bind_result_Inr_iff)
  have "derived_ok packages1" by (rule with_template_ok [OF step Cons.prems(2)]) (use Cons.prems(3) in \<open>auto simp: source_ok_def\<close>)
  with Cons.IH [OF rest] Cons.prems(3) show ?case by simp
qed simp

definition type_ok :: "type_identity \<Rightarrow> bool" where
  "type_ok i \<longleftrightarrow>
     template_ok (ty_templateId i) \<and> (case ty_choice i of None \<Rightarrow> True | Some (choice, consuming) \<Rightarrow> is_name choice)"

lemma add_choice_ok:
  assumes "add_choice observed x = Inr y" "derived_template_ok (k, x)"
    and "case observed of None \<Rightarrow> True | Some (choice, consuming) \<Rightarrow> is_name choice"
  shows "derived_template_ok (k, y)"
proof (cases observed)
  case (Some seen)
  obtain choice consuming where seen: "seen = (choice, consuming)" by (cases seen)
  with assms Some have "y = x\<lparr>dt_choices := AList.update choice consuming (dt_choices x)\<rparr>" "is_name choice"
    by (auto simp: add_choice_def validation_def split: if_splits)
  with assms(2) show ?thesis by (simp add: derived_template_ok_def list_all_update distinct_update)
qed (use assms in \<open>simp add: add_choice_def\<close>)

lemma type_identities_ok:
  "add_type_identities packages is = Inr packages' \<Longrightarrow> derived_ok packages \<Longrightarrow> list_all type_ok is \<Longrightarrow>
   list_all (\<lambda>i. case ty_packageName i of None \<Rightarrow> True | Some n \<Rightarrow> name_text n) is \<Longrightarrow> derived_ok packages'"
proof (induction "is" arbitrary: packages)
  case (Cons i "is")
  from Cons.prems(1) obtain n packages1 where n: "ty_packageName i = Some n"
    and step: "with_template packages (qi_packageId (ty_templateId i)) n (ty_templateId i) (add_choice (ty_choice i))
      = Inr packages1"
    and rest: "add_type_identities packages1 is = Inr packages'"
    by (auto simp: bind_result_Inr_iff validation_def split: option.splits)
  have "derived_ok packages1"
    by (rule with_template_ok [OF step Cons.prems(2)])
      (use Cons.prems(3,4) n add_choice_ok in \<open>auto simp: type_ok_def template_ok_def\<close>)
  with Cons.IH [OF rest] Cons.prems(3,4) show ?case by simp
qed simp

section \<open>The types of a fragment\<close>

lemma exercise_owner_ok: "exerciseOwner e = Inr t \<Longrightarrow> template_ok t"
  by (auto simp: exerciseOwner_def required_template split: option.splits)

definition body_ok :: "pending_body \<Rightarrow> bool" where
  "body_ok b \<longleftrightarrow> (case b of Pending_Created e \<Rightarrow> True | Pending_Exercised e \<Rightarrow> is_name (xe_choice e))"

lemma type_rows_ok:
  assumes "typeIdentityRows b registry = Inr is" "body_ok b"
  shows "list_all type_ok is"
  using assms unfolding typeIdentityRows_def Let_def
  by (cases b) (auto simp: bind_result_Inr_iff required_template type_ok_def body_ok_def dest: exercise_owner_ok)

lemma pending_body_ok: "pendingEvent le t e = Inr p \<Longrightarrow> body_ok (pe_body p)"
  by (cases e) (auto simp: pendingEvent_def Let_def validatePending_def body_ok_def bind_result_Inr_iff guard_Inr
      validNameString_def validation_def split: if_splits)

lemma pending_bodies_ok: "pending_events le seen ts = Inr ps \<Longrightarrow> p \<in> set ps \<Longrightarrow> body_ok (pe_body p)"
proof (induction ts arbitrary: seen ps)
  case (Cons t ts)
  then obtain qs rest where "map_result (pendingEvent le t) (tx_events t) = Inr qs"
    "pending_events le (tx_offset t # seen) ts = Inr rest" "ps = qs @ rest"
    by (auto simp: bind_result_Inr_iff guard_Inr)
  with Cons show ?case using map_result_set [of "pendingEvent le t"] pending_body_ok by fastforce
qed simp

lemma update_values: "snd ` set (AList.update k v m) \<subseteq> insert v (snd ` set m)"
  by (induction m) auto

lemma update_all_values: "snd ` set (update_all es m) \<subseteq> snd ` set es \<union> snd ` set m"
proof (induction es arbitrary: m)
  case (Cons e es)
  obtain k v where e: "e = (k, v)" by (cases e)
  have "snd ` set (update_all es (AList.update k v m)) \<subseteq> snd ` set es \<union> snd ` set (AList.update k v m)" by (rule Cons)
  with update_values [of k v m] show ?case unfolding e update_all_simps list.set image_insert snd_conv by blast
qed simp

lemma fragment_types:
  assumes "mapGrpcQueryRelationFragment le source acs = Inr fragment"
  shows "list_all type_ok (rf_typeIdentities fragment)"
proof -
  have "\<exists>pending transactions entries registry types.
    pending_events le [] transactions = Inr pending \<and>
    concat_result (\<lambda>b. typeIdentityRows b registry)
      (map pe_body pending @ map (\<lambda>entry :: active_entry. Pending_Created (ae_event entry)) entries) = Inr types \<and>
    rf_typeIdentities fragment = sort_by (\<lambda>l r. le (ty_pk l) (ty_pk r))
      (map snd (update_all (map (\<lambda>t. (ty_pk t, t)) types) []))"
    using assms unfolding mapGrpcQueryRelationFragment_def Let_def split_beta
    by (elim bind_result_Inr_E)
      (intro exI conjI, assumption, assumption, (simp only: sum.inject, hypsubst, simp)+)
  then obtain pending transactions entries registry types where
    pending: "pending_events le [] transactions = Inr pending"
    and types: "concat_result (\<lambda>b. typeIdentityRows b registry)
      (map pe_body pending @ map (\<lambda>entry :: active_entry. Pending_Created (ae_event entry)) entries) = Inr types"
    and rows: "rf_typeIdentities fragment = sort_by (\<lambda>l r. le (ty_pk l) (ty_pk r))
      (map snd (update_all (map (\<lambda>t. (ty_pk t, t)) types) []))" by blast
  have "type_ok i" if "i \<in> set types" for i
  proof -
    from concat_result_member [OF types that] obtain b zs where
      b: "b \<in> set (map pe_body pending @ map (\<lambda>entry :: active_entry. Pending_Created (ae_event entry)) entries)"
      "typeIdentityRows b registry = Inr zs" "i \<in> set zs" by blast
    then have "body_ok b" using pending_bodies_ok [OF pending] by (auto simp: body_ok_def)
    from type_rows_ok [OF b(2) this] b(3) show ?thesis by (auto simp: list_all_iff)
  qed
  note types_ok = this
  have "snd ` set (update_all (map (\<lambda>t. (ty_pk t, t)) types) []) \<subseteq> set types"
    using update_all_values [of "map (\<lambda>t. (ty_pk t, t)) types" "[]"] by (simp add: image_image)
  with types_ok show ?thesis unfolding rows list_all_iff set_sort_by set_map by blast
qed

text \<open>The package names that the events report.\<close>

definition reported_names :: "relation_fragment \<Rightarrow> string set" where
  "reported_names fragment =
     ci_packageName ` set (rf_creationIdentities fragment) \<union>
     {n. \<exists>i \<in> set (rf_typeIdentities fragment). ty_packageName i = Some n}"

lemma derived_metadata_exact:
  assumes f: "mapGrpcQueryRelationFragment le source acs = Inr fragment"
    and names: "\<forall>n \<in> reported_names fragment. name_text n"
    and derived: "packageMetadataFromEvents le' fragment = Inr (Some ms)"
  shows "exact_packages ms"
proof -
  from derived obtain packages1 packages where
    creations: "addDerivedCreationEntries [] (map type_source_of (rf_creationIdentities fragment)) = Inr packages1"
    and types: "add_type_identities packages1 (rf_typeIdentities fragment) = Inr packages"
    and ms: "ms = finalizeDerivedPackages le' packages"
    by (auto simp: packageMetadataFromEvents_def bind_result_Inr_iff split: if_splits)
  have "source_ok (type_source_of c)" if "c \<in> set (rf_creationIdentities fragment)" for c
    using creations.fragment(2) [OF f] that names
    by (auto simp: source_ok_def type_source_of_def representative_package_def creation_ok_def reported_names_def
        split: option.splits)
  then have "derived_ok packages1"
    by (intro creation_entries_ok [OF creations]) (auto simp: derived_ok_def list_all_iff)
  then have "derived_ok packages"
    by (rule type_identities_ok [OF types _ fragment_types [OF f]])
      (use names in \<open>auto simp: reported_names_def list_all_iff split: option.split\<close>)
  then show ?thesis unfolding ms by (rule finalize_exact)
qed

end
