(* ===== verification/Pqs_Schema.thy ===== *)
theory Pqs_Schema
  imports Query_Arguments
begin

text \<open>
  The physical schema of the query store: its relations, columns and edges
  (\<^verbatim>\<open>src/src/query/pqs/pqs-schema-profile.ts\<close>), the quoting of names and texts
  (\<^verbatim>\<open>pqs-sql-syntax.ts\<close>) and the shape of a result (\<^verbatim>\<open>pqs-result-shape.ts\<close>).
  Tables of the code are association lists; a name that a plain object inherits from its prototype is
  not looked up.
\<close>

section \<open>Quoting\<close>

definition doubled :: "char \<Rightarrow> string \<Rightarrow> string" where
  "doubled q s = concat (map (\<lambda>c. if c = q then [q, q] else [c]) s)"

text \<open>Also \<^verbatim>\<open>quoteIdentifier\<close> of the profile. \<open>double_quoted\<close> and \<open>quoted\<close> write a fixed text between quotes.\<close>

definition quotePqsIdentifier :: "string \<Rightarrow> string" where
  "quotePqsIdentifier s = [CHR 0x22] @ doubled CHR 0x22 s @ [CHR 0x22]"

definition quotePqsString :: "string \<Rightarrow> string" where
  "quotePqsString s = [CHR 0x27] @ doubled CHR 0x27 s @ [CHR 0x27]"

definition double_quoted :: "string \<Rightarrow> string" where
  "double_quoted s = [CHR 0x22] @ s @ [CHR 0x22]"

definition table_lookup :: "string \<Rightarrow> (string \<times> 'a) list \<Rightarrow> string \<Rightarrow> 'a result" where
  "table_lookup message table name =
     (case map_of table name of
        Some x \<Rightarrow> Inr x
      | None \<Rightarrow> Inl (if name \<in> set object_prototype then Unmodelled ''a member of Object.prototype''
                    else PlainError message))"

section \<open>Relations\<close>

datatype pqs_relation =
    Pqs_Contracts | Pqs_Contract_Tpe | Pqs_Events | Pqs_Exercises | Pqs_Exercise_Tpe | Pqs_Packages
  | Pqs_Transactions | Pqs_Watermark

definition requiredPqsRelations :: "pqs_relation list" where
  "requiredPqsRelations =
     [Pqs_Contracts, Pqs_Contract_Tpe, Pqs_Events, Pqs_Exercises, Pqs_Exercise_Tpe, Pqs_Packages,
      Pqs_Transactions, Pqs_Watermark]"

definition pqs_name :: "pqs_relation \<Rightarrow> string" where
  "pqs_name r =
     (case r of
        Pqs_Contracts \<Rightarrow> ''__contracts''
      | Pqs_Contract_Tpe \<Rightarrow> ''__contract_tpe''
      | Pqs_Events \<Rightarrow> ''__events''
      | Pqs_Exercises \<Rightarrow> ''__exercises''
      | Pqs_Exercise_Tpe \<Rightarrow> ''__exercise_tpe''
      | Pqs_Packages \<Rightarrow> ''__packages''
      | Pqs_Transactions \<Rightarrow> ''__transactions''
      | Pqs_Watermark \<Rightarrow> ''__watermark'')"

definition queryRelationByPqsRelation :: "pqs_relation \<Rightarrow> query_relation" where
  "queryRelationByPqsRelation r =
     (case r of
        Pqs_Contracts \<Rightarrow> Contracts
      | Pqs_Contract_Tpe \<Rightarrow> Contract_Types
      | Pqs_Events \<Rightarrow> Events
      | Pqs_Exercises \<Rightarrow> Exercises
      | Pqs_Exercise_Tpe \<Rightarrow> Exercise_Types
      | Pqs_Packages \<Rightarrow> Packages
      | Pqs_Transactions \<Rightarrow> Transactions
      | Pqs_Watermark \<Rightarrow> Watermark)"

text \<open>Also \<^verbatim>\<open>pqsRelation\<close> and \<^verbatim>\<open>relationForCanonical\<close> of the compilers.\<close>

definition pqsRelationByQueryRelation :: "query_relation \<Rightarrow> pqs_relation" where
  "pqsRelationByQueryRelation r =
     (case r of
        Contracts \<Rightarrow> Pqs_Contracts
      | Contract_Types \<Rightarrow> Pqs_Contract_Tpe
      | Events \<Rightarrow> Pqs_Events
      | Exercises \<Rightarrow> Pqs_Exercises
      | Exercise_Types \<Rightarrow> Pqs_Exercise_Tpe
      | Packages \<Rightarrow> Pqs_Packages
      | Transactions \<Rightarrow> Pqs_Transactions
      | Watermark \<Rightarrow> Pqs_Watermark)"

record pqs_edge =
  px_target :: pqs_relation
  px_sourceColumn :: string
  px_targetColumn :: string
  px_cardinality :: cardinality
  px_nullable :: bool

definition pqsEdgeColumns :: "pqs_relation \<Rightarrow> (string \<times> string \<times> string) list" where
  "pqsEdgeColumns r =
     (case r of
        Pqs_Contracts \<Rightarrow>
          [(''contractType'', ''tpe_pk'', ''pk''), (''createdTransaction'', ''created_at_ix'', ''ix''),
           (''archivedTransaction'', ''archived_at_ix'', ''ix''), (''exercises'', ''contract_id'', ''contract_id'')]
      | Pqs_Contract_Tpe \<Rightarrow>
          [(''contracts'', ''pk'', ''tpe_pk''), (''exercises'', ''pk'', ''contract_tpe_pk'')]
      | Pqs_Events \<Rightarrow>
          [(''transaction'', ''tx_ix'', ''ix''), (''exercises'', ''pk'', ''exercise_event_pk'')]
      | Pqs_Exercises \<Rightarrow>
          [(''exerciseType'', ''tpe_pk'', ''pk''), (''contractType'', ''contract_tpe_pk'', ''pk''),
           (''event'', ''exercise_event_pk'', ''pk''), (''transaction'', ''exercised_at_ix'', ''ix''),
           (''package'', ''package_pk'', ''pk''), (''contract'', ''contract_id'', ''contract_id'')]
      | Pqs_Exercise_Tpe \<Rightarrow> [(''exercises'', ''pk'', ''tpe_pk'')]
      | Pqs_Packages \<Rightarrow> [(''exercises'', ''pk'', ''package_pk'')]
      | Pqs_Transactions \<Rightarrow>
          [(''events'', ''ix'', ''tx_ix''), (''createdContracts'', ''ix'', ''created_at_ix''),
           (''archivedContracts'', ''ix'', ''archived_at_ix''), (''exercises'', ''ix'', ''exercised_at_ix'')]
      | Pqs_Watermark \<Rightarrow> [])"

text \<open>The edges of the logical schema with their columns; loading the module throws when one has none.\<close>

definition physical_edges :: "pqs_relation \<Rightarrow> (string \<times> pqs_edge) list result" where
  "physical_edges r =
     map_result (\<lambda>(name, edge).
       bind_result (table_lookup (''Missing physical PQS edge mapping for '' @ pqs_name r @ ''.'' @ name)
         (pqsEdgeColumns r) name) (\<lambda>(sourceColumn, targetColumn).
       Inr (name, \<lparr>px_target = pqsRelationByQueryRelation (ed_target edge), px_sourceColumn = sourceColumn,
         px_targetColumn = targetColumn, px_cardinality = ed_cardinality edge,
         px_nullable = ed_nullable edge\<rparr>)))
     (queryRelationEdges (queryRelationByPqsRelation r))"

definition pqsRelationEdges :: "pqs_relation \<Rightarrow> (string \<times> pqs_edge) list" where
  "pqsRelationEdges r = (case physical_edges r of Inr edges \<Rightarrow> edges | Inl e \<Rightarrow> [])"

definition pqsFields :: "pqs_relation \<Rightarrow> (string \<times> string) list" where
  "pqsFields r =
     (case r of
        Pqs_Contracts \<Rightarrow> []
      | Pqs_Contract_Tpe \<Rightarrow>
          [(''pk'', ''pk''), (''payloadType'', ''payload_type''), (''aliases'', ''aliases''),
           (''packageName'', ''package_name''), (''moduleName'', ''module_name''),
           (''entityName'', ''entity_name''), (''templateFqn'', ''template_fqn'')]
      | Pqs_Events \<Rightarrow>
          [(''pk'', ''pk''), (''txIx'', ''tx_ix''), (''eventId'', ''event_id''), (''type'', ''type'')]
      | Pqs_Exercises \<Rightarrow>
          [(''tpePk'', ''tpe_pk''), (''contractTpePk'', ''contract_tpe_pk''),
           (''exerciseEventPk'', ''exercise_event_pk''), (''exercisedAtIx'', ''exercised_at_ix''),
           (''contractId'', ''contract_id''), (''argument'', ''argument''), (''result'', ''result''),
           (''redactionId'', ''redaction_id''), (''packagePk'', ''package_pk''),
           (''controllers'', ''controllers''), (''lastDescendantNodeId'', ''last_descendant_node_id''),
           (''witnesses'', ''witnesses'')]
      | Pqs_Exercise_Tpe \<Rightarrow>
          [(''pk'', ''pk''), (''choice'', ''choice''), (''consuming'', ''consuming''), (''aliases'', ''aliases''),
           (''packageName'', ''package_name''), (''moduleName'', ''module_name''),
           (''entityName'', ''entity_name''), (''templateFqn'', ''template_fqn''), (''choiceFqn'', ''choice_fqn'')]
      | Pqs_Packages \<Rightarrow> [(''pk'', ''pk''), (''name'', ''name''), (''version'', ''version''), (''id'', ''id'')]
      | Pqs_Transactions \<Rightarrow>
          [(''ix'', ''ix''), (''offset'', ''offset''), (''transactionId'', ''transaction_id''),
           (''effectiveAt'', ''effective_at''), (''workflowId'', ''workflow_id''), (''domainId'', ''domain_id''),
           (''traceContext'', ''trace_context''), (''externalTransactionHash'', ''external_transaction_hash''),
           (''paidTrafficCost'', ''paid_traffic_cost'')]
      | Pqs_Watermark \<Rightarrow>
          [(''singleton'', ''singleton''), (''ix'', ''ix''), (''offset'', ''offset''),
           (''instanceId'', ''instance_id'')])"

record pqs_metadata =
  pxm_fields :: "(string \<times> string) list"
  pxm_uniqueKeys :: "string list list"
  pxm_numericFields :: "string list"
  pxm_arrayFields :: "string list"
  pxm_dateFields :: "string list"
  pxm_binaryFields :: "string list"
  pxm_stringFields :: "string list"

definition pqsRelationMetadata :: "pqs_relation \<Rightarrow> pqs_metadata" where
  "pqsRelationMetadata r =
     (let logical = queryRelationMetadata (queryRelationByPqsRelation r) in
      \<lparr>pxm_fields = pqsFields r, pxm_uniqueKeys = rm_uniqueKeys logical,
       pxm_numericFields = rm_numericFields logical, pxm_arrayFields = rm_arrayFields logical,
       pxm_dateFields = rm_dateFields logical, pxm_binaryFields = rm_binaryFields logical,
       pxm_stringFields = rm_stringFields logical\<rparr>)"

definition requiredPqsColumns :: "pqs_relation \<Rightarrow> string list" where
  "requiredPqsColumns r =
     (case r of
        Pqs_Contracts \<Rightarrow>
          [''tpe_pk'', ''create_event_pk'', ''created_at_ix'', ''archive_event_pk'', ''archived_at_ix'',
           ''life_ix'', ''contract_id'', ''payload'', ''contract_key'', ''metadata'', ''redaction_id'',
           ''package_pk'', ''signatories'', ''observers'', ''witnesses'', ''divulged_only'',
           ''creation_package_id'', ''contract_key_hash'']
      | Pqs_Contract_Tpe \<Rightarrow>
          [''pk'', ''payload_type'', ''aliases'', ''package_name'', ''module_name'', ''entity_name'',
           ''template_fqn'']
      | Pqs_Events \<Rightarrow> [''pk'', ''tx_ix'', ''event_id'', ''type'']
      | Pqs_Exercises \<Rightarrow>
          [''tpe_pk'', ''contract_tpe_pk'', ''exercise_event_pk'', ''exercised_at_ix'', ''contract_id'',
           ''argument'', ''result'', ''redaction_id'', ''package_pk'', ''controllers'',
           ''last_descendant_node_id'', ''witnesses'']
      | Pqs_Exercise_Tpe \<Rightarrow>
          [''pk'', ''choice'', ''consuming'', ''aliases'', ''package_name'', ''module_name'', ''entity_name'',
           ''template_fqn'', ''choice_fqn'']
      | Pqs_Packages \<Rightarrow> [''pk'', ''name'', ''version'', ''id'']
      | Pqs_Transactions \<Rightarrow>
          [''ix'', ''offset'', ''transaction_id'', ''effective_at'', ''workflow_id'', ''domain_id'',
           ''trace_context'', ''external_transaction_hash'', ''paid_traffic_cost'']
      | Pqs_Watermark \<Rightarrow> [''singleton'', ''ix'', ''offset'', ''instance_id''])"

section \<open>The profile\<close>

record schema_profile =
  sp_schema :: string

text \<open>\<^verbatim>\<open>/^[A-Za-z_][A-Za-z0-9_]*$/\<close>\<close>

definition schema_identifier :: "string \<Rightarrow> bool" where
  "schema_identifier s =
     (case s of
        [] \<Rightarrow> False
      | c # cs \<Rightarrow> (is_letter c \<or> c = CHR ''_'') \<and> list_all (\<lambda>c. is_letter c \<or> is_digit c \<or> c = CHR ''_'') cs)"

definition assertPqsSchemaIdentifier :: "string \<Rightarrow> unit result" where
  "assertPqsSchemaIdentifier schema = ensure (schema_identifier schema) (''Invalid PQS schema identifier: '' @ schema)"

definition new_profile :: "string \<Rightarrow> schema_profile result" where
  "new_profile schema = bind_result (assertPqsSchemaIdentifier schema) (\<lambda>_. Inr \<lparr>sp_schema = schema\<rparr>)"

definition profile_relation :: "schema_profile \<Rightarrow> pqs_relation \<Rightarrow> string" where
  "profile_relation profile r = quotePqsIdentifier (sp_schema profile) @ ''.'' @ quotePqsIdentifier (pqs_name r)"

definition jsonField :: "pqs_relation \<Rightarrow> string \<Rightarrow> bool" where
  "jsonField r field \<longleftrightarrow> field \<in> set (rm_jsonFields (queryRelationMetadata (queryRelationByPqsRelation r)))"

text \<open>The catalog query answers with pairs of table and column.\<close>

definition missing_columns :: "(string \<times> string) list \<Rightarrow> string list" where
  "missing_columns rows =
     (let actual = map (\<lambda>(table, column). table @ ''.'' @ column) rows in
      concat (map (\<lambda>r. filter (\<lambda>name. name \<notin> set actual)
        (map (\<lambda>column. pqs_name r @ ''.'' @ column) (requiredPqsColumns r))) requiredPqsRelations))"

definition validatePqsSchema :: "(string \<times> string) list \<Rightarrow> unit result" where
  "validatePqsSchema rows =
     (let missing = missing_columns rows in
      ensure (missing = []) (''PQS schema does not match v1 profile; missing: '' @ joined '', '' missing))"

section \<open>The shape of a result\<close>

datatype result_shape =
  Shape (rs_relation: pqs_relation) (rs_cardinality: cardinality) (rs_fields: "string list")
    (rs_json: "json_selection list") (rs_includes: "included_shape list")
and included_shape =
  Included_Shape (is_edge: string) (is_target: pqs_relation) (is_cardinality: cardinality)
    (is_shape: result_shape)

definition contract_fields :: "string list" where
  "contract_fields =
     [''contractId'', ''templateId'', ''packageId'', ''payload'', ''witnesses'', ''createdEventOffset'',
      ''createdAt'', ''archivedEventOffset'', ''archivedAt'', ''active'']"

definition shape_fields_of :: "pqs_relation \<Rightarrow> normalized_selection option \<Rightarrow> string list" where
  "shape_fields_of r selection =
     (case selection of
        Some s \<Rightarrow> sl_fields s
      | None \<Rightarrow> if r = Pqs_Contracts then contract_fields else map fst (pqsFields r))"

definition selected_json :: "normalized_selection option \<Rightarrow> json_selection list" where
  "selected_json selection = (case selection of Some s \<Rightarrow> sl_json s | None \<Rightarrow> [])"

definition invalid_include :: "string \<Rightarrow> string" where
  "invalid_include edge = ''Invalid canonical include '' @ edge"

fun compilePqsResultShape ::
    "pqs_relation \<Rightarrow> cardinality \<Rightarrow> normalized_selection option \<Rightarrow> normalized_include list \<Rightarrow> result_shape result"
  and included_shape_of :: "pqs_relation \<Rightarrow> normalized_include \<Rightarrow> included_shape result" where
  "compilePqsResultShape r cardinality selection includes =
     bind_result (map_result (included_shape_of r) includes) (\<lambda>shapes.
     Inr (Shape r cardinality (shape_fields_of r selection) (selected_json selection) shapes))"
| "included_shape_of r (Include edge relation cardinality predicate select nested orderBy skip limit) =
     bind_result (table_lookup (invalid_include edge) (pqsRelationEdges r) edge) (\<lambda>physical.
     if px_target physical \<noteq> pqsRelationByQueryRelation relation \<or> px_cardinality physical \<noteq> cardinality then
       invalid (invalid_include edge)
     else
       bind_result (compilePqsResultShape (px_target physical) cardinality select nested) (\<lambda>shape.
       Inr (Included_Shape edge (px_target physical) cardinality shape)))"

end
