(* ===== verification/Pqs_Compiler.thy ===== *)
theory Pqs_Compiler
  imports Pqs_Schema Public_Identity
begin

text \<open>
  Queries become SQL: \<^verbatim>\<open>src/src/query/pqs/pqs-sql-compiler.ts\<close>. A compilation appends the values of the
  query to a list and writes their positions as placeholders into the text; the closure \<^verbatim>\<open>add\<close> of the
  code is the state \<open>values\<close> that every step threads.
\<close>

section \<open>Steps over the values\<close>

type_synonym 'a sql = "qvalue list \<Rightarrow> ('a \<times> qvalue list) result"

definition sql_return :: "'a \<Rightarrow> 'a sql" where
  "sql_return x values = Inr (x, values)"

definition sql_bind :: "'a sql \<Rightarrow> ('a \<Rightarrow> 'b sql) \<Rightarrow> 'b sql" where
  "sql_bind m f values = bind_result (m values) (\<lambda>(x, values). f x values)"

definition sql_result :: "'a result \<Rightarrow> 'a sql" where
  "sql_result r values = bind_result r (\<lambda>x. Inr (x, values))"

fun sql_map :: "('a \<Rightarrow> 'b sql) \<Rightarrow> 'a list \<Rightarrow> 'b list sql" where
  "sql_map f [] = sql_return []"
| "sql_map f (x # xs) = sql_bind (f x) (\<lambda>y. sql_bind (sql_map f xs) (\<lambda>ys. sql_return (y # ys)))"

lemma sql_map_cong [fundef_cong]:
  "xs = ys \<Longrightarrow> (\<And>x. x \<in> set ys \<Longrightarrow> f x = g x) \<Longrightarrow> sql_map f xs = sql_map g ys"
  by (induction ys arbitrary: xs) auto

definition add_value :: "qvalue \<Rightarrow> string sql" where
  "add_value v values = Inr (CHR ''$'' # digits_of_nat (length values + 1), values @ [v])"

definition text_list :: "string list \<Rightarrow> qvalue" where
  "text_list ss = Q_Arr (map Q_Str ss)"

definition number_value :: "nat option \<Rightarrow> qvalue" where
  "number_value n = (case n of None \<Rightarrow> Q_Undef | Some n \<Rightarrow> Q_Num (Whole (int n)))"

text \<open>A property that is absent prints as \<^verbatim>\<open>undefined\<close>.\<close>

definition text_lookup :: "(string \<times> string) list \<Rightarrow> string \<Rightarrow> string result" where
  "text_lookup table name =
     (case map_of table name of
        Some s \<Rightarrow> Inr s
      | None \<Rightarrow> if name \<in> set object_prototype then Inl (Unmodelled ''a member of Object.prototype'')
                else Inr ''undefined'')"

definition path_head :: "string list \<Rightarrow> string" where
  "path_head path = (case path of [] \<Rightarrow> ''undefined'' | field # _ \<Rightarrow> field)"

section \<open>Public identities\<close>

text \<open>\<^verbatim>\<open>src/src/query/canonical/public-identity.ts\<close>\<close>

definition compileCanonicalPublicNumericIdentitySql :: "string \<Rightarrow> string" where
  "compileCanonicalPublicNumericIdentitySql text =
     (let bytes = ''convert_to(('' @ text @ '')::text, '' @ quoted ''UTF8'' @ '')'';
          encoded = ''('' @ quoted ''1''
            @ '' || coalesce((select string_agg(lpad(get_byte(canonical_identity_bytes, canonical_identity_byte)::text, 3, ''
            @ quoted ''0'' @ ''), '' @ quoted [] @ '' order by canonical_identity_byte) from generate_series(0, ''
            @ ''octet_length(canonical_identity_bytes) - 1) as canonical_identity_byte), '' @ quoted []
            @ ''))::numeric'';
          overflow = ''('' @ quoted ''1'' @ '' || repeat('' @ quoted ''0''
            @ '', octet_length(canonical_identity_bytes) * 3))::numeric'' in
      ''(select case when octet_length(canonical_identity_bytes) <= '' @ digits_of_nat max_identity_bytes
        @ '' then '' @ encoded @ '' else '' @ overflow @ '' end from (select '' @ bytes
        @ '' as canonical_identity_bytes) canonical_identity)'')"

definition compileCanonicalPublicNumericIdentityPartsSql :: "string list \<Rightarrow> string" where
  "compileCanonicalPublicNumericIdentityPartsSql parts =
     ''concat('' @ joined '', '' (concat (map (\<lambda>part.
       [''octet_length(convert_to(('' @ part @ '')::text, '' @ quoted ''UTF8'' @ ''))'', quoted '':'',
        ''('' @ part @ '')::text'']) parts)) @ '')''"

section \<open>Columns\<close>

definition qualify :: "string \<Rightarrow> string \<Rightarrow> string" where
  "qualify alias column = (if alias = [] then double_quoted column else alias @ ''.'' @ double_quoted column)"

definition contract_alias :: string where
  "contract_alias = ''contract_row''"

definition logicalQualified :: "string \<Rightarrow> string \<Rightarrow> string" where
  "logicalQualified alias column =
     (if alias = contract_alias then alias @ ''.'' @ column else qualify alias column)"

definition eventIdExpression :: "string \<Rightarrow> string" where
  "eventIdExpression physical =
     ''(to_jsonb('' @ physical @ '')->>'' @ quoted ''offset'' @ '') || '' @ quoted '':'' @ '' || (to_jsonb('' @ physical
     @ '')->>'' @ quoted ''node_id'' @ '')''"

text \<open>The public key of the row of another relation whose column has a value: the selects of the code.\<close>

definition keyed_select :: "string \<Rightarrow> schema_profile \<Rightarrow> pqs_relation \<Rightarrow> string \<Rightarrow> string \<Rightarrow> string \<Rightarrow> string" where
  "keyed_select selected profile r alias column key =
     ''(select '' @ selected @ '' from '' @ profile_relation profile r @ '' '' @ double_quoted alias @ '' where ''
     @ qualify (double_quoted alias) column @ '' = '' @ key @ '')''"

definition transactionOffsetExpression :: "schema_profile \<Rightarrow> string \<Rightarrow> string" where
  "transactionOffsetExpression profile physicalIx =
     keyed_select (qualify (double_quoted ''canonical_transaction'') ''offset'') profile Pqs_Transactions
       ''canonical_transaction'' ''ix'' physicalIx"

definition eventPublicKeyExpression :: "schema_profile \<Rightarrow> string \<Rightarrow> string" where
  "eventPublicKeyExpression profile physicalPk =
     keyed_select (compileCanonicalPublicNumericIdentitySql
         (eventIdExpression (qualify (double_quoted ''canonical_event'') ''event_id''))) profile Pqs_Events
       ''canonical_event'' ''pk'' physicalPk"

definition packagePublicKeyExpression :: "schema_profile \<Rightarrow> string \<Rightarrow> string" where
  "packagePublicKeyExpression profile physicalPk =
     keyed_select (compileCanonicalPublicNumericIdentitySql (qualify (double_quoted ''canonical_package'') ''id'')) profile
       Pqs_Packages ''canonical_package'' ''pk'' physicalPk"

definition contractTypePublicKeyExpression :: "schema_profile \<Rightarrow> string \<Rightarrow> string" where
  "contractTypePublicKeyExpression profile physicalPk =
     keyed_select (compileCanonicalPublicNumericIdentitySql (compileCanonicalPublicNumericIdentityPartsSql
         [qualify (double_quoted ''canonical_contract_type'') ''payload_type'',
          qualify (double_quoted ''canonical_contract_type'') ''template_fqn'']))
       profile Pqs_Contract_Tpe ''canonical_contract_type'' ''pk'' physicalPk"

definition exerciseTypePublicKeyExpression :: "schema_profile \<Rightarrow> string \<Rightarrow> string" where
  "exerciseTypePublicKeyExpression profile physicalPk =
     keyed_select (compileCanonicalPublicNumericIdentitySql (qualify (double_quoted ''canonical_exercise_type'') ''choice_fqn''))
       profile Pqs_Exercise_Tpe ''canonical_exercise_type'' ''pk'' physicalPk"

definition event_type_expression :: "string \<Rightarrow> string" where
  "event_type_expression physical =
     ''case '' @ physical @ ''::text when '' @ quoted ''create'' @ '' then '' @ quoted ''created'' @ '' when ''
     @ quoted ''exercise'' @ '' then '' @ quoted ''exercised'' @ '' else '' @ physical @ ''::text end''"

definition workflow_expression :: "string \<Rightarrow> string" where
  "workflow_expression physical = ''nullif('' @ physical @ '', '' @ quoted [] @ '')''"

definition trace_expression :: "string \<Rightarrow> string" where
  "trace_expression physical =
     ''case when '' @ physical @ '' is null then null else jsonb_strip_nulls(jsonb_build_object(''
     @ quoted ''traceparent'' @ '', nullif(to_jsonb('' @ physical @ '')->>'' @ quoted ''trace_parent'' @ '', ''
     @ quoted [] @ ''), '' @ quoted ''tracestate'' @ '', nullif(to_jsonb('' @ physical @ '')->>''
     @ quoted ''trace_state'' @ '', '' @ quoted [] @ ''))) end''"

text \<open>The expression of a field over its column, \<open>None\<close> where the code falls through to the column.\<close>

definition field_expression :: "schema_profile \<Rightarrow> pqs_relation \<Rightarrow> string \<Rightarrow> string \<Rightarrow> string \<Rightarrow> string option" where
  "field_expression profile r field alias physical =
     (case r of
        Pqs_Events \<Rightarrow>
          if field = ''eventId'' then Some (eventIdExpression physical)
          else if field = ''pk'' then
            Some (compileCanonicalPublicNumericIdentitySql (eventIdExpression (qualify alias ''event_id'')))
          else if field = ''txIx'' then Some (transactionOffsetExpression profile physical)
          else if field = ''type'' then
            Some (event_type_expression physical)
          else None
      | Pqs_Transactions \<Rightarrow>
          if field = ''workflowId'' then Some (workflow_expression physical)
          else if field = ''traceContext'' then Some (trace_expression physical)
          else if field = ''ix'' \<or> field = ''offset'' then Some (qualify alias ''offset'')
          else None
      | Pqs_Watermark \<Rightarrow> if field = ''ix'' \<or> field = ''offset'' then Some (qualify alias ''offset'') else None
      | Pqs_Packages \<Rightarrow>
          if field = ''pk'' then Some (compileCanonicalPublicNumericIdentitySql (qualify alias ''id'')) else None
      | Pqs_Contract_Tpe \<Rightarrow>
          if field = ''pk'' then
            Some (compileCanonicalPublicNumericIdentitySql (compileCanonicalPublicNumericIdentityPartsSql
              [qualify alias ''payload_type'', qualify alias ''template_fqn'']))
          else None
      | Pqs_Exercise_Tpe \<Rightarrow>
          if field = ''pk'' then Some (compileCanonicalPublicNumericIdentitySql (qualify alias ''choice_fqn''))
          else None
      | Pqs_Exercises \<Rightarrow>
          if field = ''tpePk'' then Some (exerciseTypePublicKeyExpression profile physical)
          else if field = ''contractTpePk'' then Some (contractTypePublicKeyExpression profile physical)
          else if field = ''exerciseEventPk'' then Some (eventPublicKeyExpression profile physical)
          else if field = ''exercisedAtIx'' then Some (transactionOffsetExpression profile physical)
          else if field = ''packagePk'' then Some (packagePublicKeyExpression profile physical)
          else None
      | Pqs_Contracts \<Rightarrow> None)"

definition not_a_field :: "pqs_relation \<Rightarrow> string \<Rightarrow> string" where
  "not_a_field r field = field @ '' is not a field of '' @ pqs_name r"

definition compileCanonicalPhysicalField ::
    "pqs_relation \<Rightarrow> string \<Rightarrow> string \<Rightarrow> schema_profile \<Rightarrow> string result" where
  "compileCanonicalPhysicalField r field alias profile =
     bind_result (table_lookup (not_a_field r field) (pqsFields r) field) (\<lambda>column.
       let physical = qualify alias column in
       Inr (case field_expression profile r field alias physical of Some e \<Rightarrow> e | None \<Rightarrow> physical))"

section \<open>Columns of contracts\<close>

definition contractPackageIdExpression :: "string \<Rightarrow> schema_profile \<Rightarrow> string" where
  "contractPackageIdExpression alias profile =
     (let packageId = (if alias = contract_alias then ''contract_package.id''
        else ''(select '' @ qualify ''contract_package'' ''id'' @ '' from '' @ profile_relation profile Pqs_Packages
          @ '' contract_package where '' @ qualify ''contract_package'' ''pk'' @ '' = '' @ qualify alias ''package_pk''
          @ '')'') in
      ''coalesce('' @ logicalQualified alias ''creation_package_id'' @ '', '' @ packageId @ '')'')"

datatype lifecycle = Lifecycle_Created | Lifecycle_Archived

definition lifecycle_name :: "lifecycle \<Rightarrow> string" where
  "lifecycle_name l = (case l of Lifecycle_Created \<Rightarrow> ''created'' | Lifecycle_Archived \<Rightarrow> ''archived'')"

definition contractTransactionFieldExpression :: "string \<Rightarrow> lifecycle \<Rightarrow> string \<Rightarrow> schema_profile \<Rightarrow> string" where
  "contractTransactionFieldExpression alias l field profile =
     (if alias = contract_alias then lifecycle_name l @ ''_tx.'' @ field
      else
        let transaction = lifecycle_name l @ ''_transaction'' in
        ''(select '' @ qualify transaction field @ '' from '' @ profile_relation profile Pqs_Transactions @ '' ''
        @ transaction @ '' where '' @ qualify transaction ''ix'' @ '' = ''
        @ qualify alias (lifecycle_name l @ ''_at_ix'') @ '')'')"

definition contractTypeFieldExpression :: "string \<Rightarrow> string \<Rightarrow> schema_profile \<Rightarrow> string" where
  "contractTypeFieldExpression alias field profile =
     (if alias = contract_alias then ''contract_tpe_row.'' @ field
      else
        ''(select '' @ qualify ''contract_type'' field @ '' from '' @ profile_relation profile Pqs_Contract_Tpe
        @ '' contract_type where '' @ qualify ''contract_type'' ''pk'' @ '' = '' @ qualify alias ''tpe_pk'' @ '')'')"

definition contractPredicateExpression :: "string \<Rightarrow> string \<Rightarrow> string list \<Rightarrow> schema_profile \<Rightarrow> string sql" where
  "contractPredicateExpression alias field path profile =
     (if field = ''payload'' then
        sql_bind (add_value (text_list path)) (\<lambda>p.
          sql_return (logicalQualified alias ''payload'' @ '' #>> '' @ p @ ''::text[]''))
      else sql_result
       (if field = ''contractId'' then Inr (logicalQualified alias ''contract_id'')
        else if field = ''packageId'' then Inr (contractPackageIdExpression alias profile)
        else if field = ''createdEventOffset'' then
          Inr (contractTransactionFieldExpression alias Lifecycle_Created ''offset'' profile)
        else if field = ''createdAt'' then
          Inr (contractTransactionFieldExpression alias Lifecycle_Created ''effective_at'' profile)
        else if field = ''archivedEventOffset'' then
          Inr (contractTransactionFieldExpression alias Lifecycle_Archived ''offset'' profile)
        else if field = ''archivedAt'' then
          Inr (contractTransactionFieldExpression alias Lifecycle_Archived ''effective_at'' profile)
        else if field = ''templateId'' \<and> path_head path = ''packageId'' then
          Inr (contractPackageIdExpression alias profile)
        else if field = ''templateId'' \<and> path_head path = ''moduleName'' then
          Inr (contractTypeFieldExpression alias ''module_name'' profile)
        else if field = ''templateId'' \<and> path_head path = ''entityName'' then
          Inr (contractTypeFieldExpression alias ''entity_name'' profile)
        else invalid (field @ '' is not a field of contracts'')))"

section \<open>Predicates\<close>

fun physicalEventType :: "qvalue \<Rightarrow> qvalue" where
  "physicalEventType (Q_Arr vs) = Q_Arr (map physicalEventType vs)"
| "physicalEventType v =
     (if v = Q_Str ''created'' then Q_Str ''create''
      else if v = Q_Str ''exercised'' then Q_Str ''exercise''
      else v)"

definition operator_symbol :: "scalar_operator \<Rightarrow> string option" where
  "operator_symbol operator =
     (case operator of
        Op_equals \<Rightarrow> Some ''='' | Op_lt \<Rightarrow> Some ''<'' | Op_lte \<Rightarrow> Some ''<='' | Op_gt \<Rightarrow> Some ''>''
      | Op_gte \<Rightarrow> Some ''>='' | Op_like \<Rightarrow> Some ''like'' | Op_ilike \<Rightarrow> Some ''ilike'' | _ \<Rightarrow> None)"

text \<open>\<^verbatim>\<open>value.length === 0\<close>\<close>

definition is_empty_value :: "qvalue \<Rightarrow> bool result" where
  "is_empty_value v =
     (case v of
        Q_Arr vs \<Rightarrow> Inr (vs = [])
      | Q_Str s \<Rightarrow> Inr (s = [])
      | _ \<Rightarrow> Inl (Unmodelled ''the length of a value that is no array''))"

text \<open>What the operator makes of an expression; \<open>column\<close> is the quoted column of the field.\<close>

definition compare_expression :: "string \<Rightarrow> string \<Rightarrow> scalar_operator \<Rightarrow> qvalue \<Rightarrow> string sql" where
  "compare_expression expression column operator v =
     (if operator = Op_is then sql_return (expression @ '' is null'')
      else if operator = Op_isNot then sql_return (expression @ '' is not null'')
      else if operator = Op_in then
        sql_bind (sql_result (is_empty_value v)) (\<lambda>empty.
          if empty then sql_return ''false''
          else sql_bind (add_value v) (\<lambda>p. sql_return (expression @ '' = any('' @ p @ '')'')))
      else if operator = Op_has then
        sql_bind (add_value v) (\<lambda>p. sql_return (p @ '' = any('' @ column @ '')''))
      else
        (case operator_symbol operator of
           None \<Rightarrow> sql_result (invalid (''Unsupported canonical operator '' @ operator_name operator))
         | Some symbol \<Rightarrow>
             sql_bind (add_value v) (\<lambda>p. sql_return (expression @ '' '' @ symbol @ '' '' @ p))))"

definition physical_expression :: "pqs_relation \<Rightarrow> string \<Rightarrow> string list \<Rightarrow> string \<Rightarrow> schema_profile \<Rightarrow> string sql" where
  "physical_expression r field path alias profile =
     sql_bind (sql_result (compileCanonicalPhysicalField r field alias profile)) (\<lambda>e.
       if path = [] then sql_return e
       else sql_bind (add_value (text_list path)) (\<lambda>p. sql_return (e @ '' #>> '' @ p @ ''::text[]'')))"

definition compile_scalar ::
    "pqs_relation \<Rightarrow> string list \<Rightarrow> scalar_operator \<Rightarrow> qvalue \<Rightarrow> string \<Rightarrow> schema_profile \<Rightarrow> bool \<Rightarrow> string sql" where
  "compile_scalar r fieldPath operator v alias profile logicalContracts =
     (let field = path_head fieldPath; path = tl fieldPath in
      if logicalContracts \<and> field = ''active'' then
        sql_return (logicalQualified alias ''archived_at_ix'' @ '' is ''
          @ (if v = Q_Bool True then ''null'' else ''not null''))
      else if logicalContracts \<and> field = ''witnesses'' then
        sql_bind (add_value v) (\<lambda>p. sql_return (p @ '' = any('' @ logicalQualified alias ''witnesses'' @ '')''))
      else
        sql_bind (sql_result (if logicalContracts then Inr ''undefined''
            else table_lookup (not_a_field r field) (pqsFields r) field)) (\<lambda>column.
        sql_bind (if logicalContracts then contractPredicateExpression alias field path profile
            else physical_expression r field path alias profile) (\<lambda>canonicalExpression.
        let inverseEventType = (r = Pqs_Events \<and> field = ''type'' \<and> operator \<in> {Op_equals, Op_in}) in
        compare_expression (if inverseEventType then qualify alias column else canonicalExpression)
          (qualify alias column) operator (if inverseEventType then physicalEventType v else v))))"

definition compileCanonicalPhysicalEdgeJoin ::
    "pqs_relation \<Rightarrow> string \<Rightarrow> string \<Rightarrow> string \<Rightarrow> schema_profile \<Rightarrow> string result" where
  "compileCanonicalPhysicalEdgeJoin source edgeName parentAlias targetAlias profile =
     bind_result (table_lookup (''Invalid canonical edge '' @ edgeName) (pqsRelationEdges source) edgeName) (\<lambda>edge.
     if source = Pqs_Contract_Tpe \<and> edgeName = ''contracts'' then
       bind_result (compileCanonicalPhysicalField source ''pk'' parentAlias profile) (\<lambda>key.
         Inr (contractTypePublicKeyExpression profile (qualify targetAlias ''tpe_pk'') @ '' = '' @ key))
     else if source = Pqs_Contract_Tpe \<and> edgeName = ''exercises'' then
       bind_result (compileCanonicalPhysicalField Pqs_Exercises ''contractTpePk'' targetAlias profile) (\<lambda>target.
       bind_result (compileCanonicalPhysicalField source ''pk'' parentAlias profile) (\<lambda>key.
         Inr (target @ '' = '' @ key)))
     else if source = Pqs_Exercise_Tpe \<and> edgeName = ''exercises'' then
       bind_result (compileCanonicalPhysicalField Pqs_Exercises ''tpePk'' targetAlias profile) (\<lambda>target.
       bind_result (compileCanonicalPhysicalField source ''pk'' parentAlias profile) (\<lambda>key.
         Inr (target @ '' = '' @ key)))
     else
       Inr (targetAlias @ ''.'' @ double_quoted (px_targetColumn edge) @ '' = ''
         @ (if parentAlias = [] then profile_relation profile source @ ''.'' @ double_quoted (px_sourceColumn edge)
            else qualify parentAlias (px_sourceColumn edge))))"

definition quantify :: "quantifier \<Rightarrow> string \<Rightarrow> string \<Rightarrow> string" where
  "quantify quantifier rows condition =
     (if quantifier \<in> {Quantify_One, Quantify_Some} then ''exists ('' @ rows @ '' and ('' @ condition @ ''))''
      else if quantifier = Quantify_None then ''not exists ('' @ rows @ '' and ('' @ condition @ ''))''
      else ''not exists ('' @ rows @ '' and not ('' @ condition @ ''))'')"

fun compileCanonicalPredicate ::
    "pqs_relation \<Rightarrow> query_predicate \<Rightarrow> string \<Rightarrow> schema_profile \<Rightarrow> bool \<Rightarrow> string sql" where
  "compileCanonicalPredicate r (P_And ps) alias profile logicalContracts =
     (if ps = [] then sql_return ''true''
      else sql_bind (sql_map (\<lambda>p. compileCanonicalPredicate r p alias profile logicalContracts) ps) (\<lambda>ts.
        sql_return (''('' @ joined '' and '' ts @ '')'')))"
| "compileCanonicalPredicate r (P_Or ps) alias profile logicalContracts =
     (if ps = [] then sql_return ''false''
      else sql_bind (sql_map (\<lambda>p. compileCanonicalPredicate r p alias profile logicalContracts) ps) (\<lambda>ts.
        sql_return (''('' @ joined '' or '' ts @ '')'')))"
| "compileCanonicalPredicate r (P_Not p) alias profile logicalContracts =
     sql_bind (compileCanonicalPredicate r p alias profile logicalContracts) (\<lambda>t.
       sql_return (''not ('' @ t @ '')''))"
| "compileCanonicalPredicate r (P_Relation edgeName quantifier p) alias profile logicalContracts =
     sql_bind (sql_result (table_lookup (''Invalid canonical edge '' @ edgeName) (pqsRelationEdges r) edgeName)) (\<lambda>edge.
     let relatedAlias = double_quoted edgeName in
     sql_bind (sql_result (compileCanonicalPhysicalEdgeJoin r edgeName alias relatedAlias profile)) (\<lambda>join.
     sql_bind (compileCanonicalPredicate (px_target edge) p relatedAlias profile (px_target edge = Pqs_Contracts))
       (\<lambda>condition.
     sql_return (quantify quantifier
       (''select 1 from '' @ profile_relation profile (px_target edge) @ '' '' @ relatedAlias @ '' where '' @ join)
       condition))))"
| "compileCanonicalPredicate r (P_Scalar path operator v) alias profile logicalContracts =
     compile_scalar r path operator v alias profile logicalContracts"

definition compileCanonicalPhysicalPredicate ::
    "pqs_relation \<Rightarrow> query_predicate \<Rightarrow> string \<Rightarrow> schema_profile \<Rightarrow> string sql" where
  "compileCanonicalPhysicalPredicate r p alias profile =
     compileCanonicalPredicate r p alias profile (r = Pqs_Contracts)"

definition compileCanonicalContractPredicate :: "query_predicate \<Rightarrow> schema_profile \<Rightarrow> string \<Rightarrow> string sql" where
  "compileCanonicalContractPredicate p profile alias = compileCanonicalPredicate Pqs_Contracts p alias profile True"

end
