(* ===== verification/Pqs_Queries.thy ===== *)
theory Pqs_Queries
  imports Pqs_Compiler
begin

text \<open>
  The queries of the store: includes and contracts (\<^verbatim>\<open>src/src/query/pqs/pqs-sql-compiler.ts\<close>), and the
  relations with physical columns (\<^verbatim>\<open>pqs-relational-sql-compiler.ts\<close>).
\<close>

section \<open>Order\<close>

definition direction_text :: "order_direction \<Rightarrow> string" where
  "direction_text d = (case d of Ascending \<Rightarrow> ''asc'' | Descending \<Rightarrow> ''desc'')"

definition compileCanonicalOrderBy :: "normalized_order list \<Rightarrow> (string \<times> string) list \<Rightarrow> string result" where
  "compileCanonicalOrderBy orderBy expressions =
     (if orderBy = [] then Inr []
      else
        bind_result (map_result (\<lambda>order.
          bind_result (text_lookup expressions (path_head (no_path order))) (\<lambda>e.
          Inr (e @ '' '' @ direction_text (no_direction order)))) orderBy) (\<lambda>es.
        Inr ('' order by '' @ joined '', '' es)))"

definition contract_order_fields :: "(string \<times> string) list" where
  "contract_order_fields =
     [(''contractId'', ''contract_row.contract_id''), (''createdEventOffset'', ''created_tx.offset''),
      (''createdAt'', ''created_tx.effective_at''), (''archivedEventOffset'', ''archived_tx.offset''),
      (''archivedAt'', ''archived_tx.effective_at'')]"

definition physical_fields :: "pqs_relation \<Rightarrow> string \<Rightarrow> schema_profile \<Rightarrow> (string \<times> string) list result" where
  "physical_fields r alias profile =
     map_result (\<lambda>(field, _).
       bind_result (compileCanonicalPhysicalField r field alias profile) (\<lambda>e. Inr (field, e))) (pqsFields r)"

definition compileCanonicalPhysicalOrderBy ::
    "pqs_relation \<Rightarrow> normalized_order list \<Rightarrow> string \<Rightarrow> schema_profile \<Rightarrow> string result" where
  "compileCanonicalPhysicalOrderBy r orderBy alias profile =
     (if r = Pqs_Contracts then
        compileCanonicalOrderBy orderBy
          [(''contractId'', qualify alias ''contract_id''),
           (''createdEventOffset'', contractTransactionFieldExpression alias Lifecycle_Created ''offset'' profile),
           (''createdAt'', contractTransactionFieldExpression alias Lifecycle_Created ''effective_at'' profile),
           (''archivedEventOffset'', contractTransactionFieldExpression alias Lifecycle_Archived ''offset'' profile),
           (''archivedAt'', contractTransactionFieldExpression alias Lifecycle_Archived ''effective_at'' profile)]
      else bind_result (physical_fields r alias profile) (compileCanonicalOrderBy orderBy))"

section \<open>Includes\<close>

definition cast_text :: "json_scalar_type \<Rightarrow> string \<Rightarrow> string" where
  "cast_text t text =
     (case t of
        As_Text \<Rightarrow> text
      | As_Numeric \<Rightarrow> ''('' @ text @ '')::numeric::text''
      | As_Boolean \<Rightarrow> ''('' @ text @ '')::boolean''
      | As_Timestamp \<Rightarrow> ''('' @ text @ '')::timestamptz'')"

text \<open>An absent expression joins as the empty text.\<close>

definition compileCanonicalIncludedFields ::
    "pqs_relation \<Rightarrow> normalized_selection option \<Rightarrow> string \<Rightarrow> schema_profile \<Rightarrow> (string \<times> string) list result" where
  "compileCanonicalIncludedFields target select alias profile =
     (let fields = shape_fields_of target select in
      if target \<noteq> Pqs_Contracts then
        map_result (\<lambda>field.
          bind_result (compileCanonicalPhysicalField target field alias profile) (\<lambda>e.
          Inr (field, if field \<in> set (pxm_numericFields (pqsRelationMetadata target)) then e @ ''::text'' else e)))
          fields
      else
        let expressions =
          [(''contractId'', alias @ ''.'' @ double_quoted ''contract_id''),
           (''templateId'', ''jsonb_build_object('' @ quoted ''packageId'' @ '', ''
              @ contractPackageIdExpression alias profile @ '', '' @ quoted ''moduleName'' @ '', ''
              @ contractTypeFieldExpression alias ''module_name'' profile @ '', '' @ quoted ''entityName'' @ '', ''
              @ contractTypeFieldExpression alias ''entity_name'' profile @ '')''),
           (''packageId'', contractPackageIdExpression alias profile),
           (''payload'', alias @ ''.'' @ double_quoted ''payload''),
           (''witnesses'', alias @ ''.'' @ double_quoted ''witnesses''),
           (''createdEventOffset'',
             contractTransactionFieldExpression alias Lifecycle_Created ''offset'' profile @ ''::text''),
           (''createdAt'', contractTransactionFieldExpression alias Lifecycle_Created ''effective_at'' profile),
           (''archivedEventOffset'',
             contractTransactionFieldExpression alias Lifecycle_Archived ''offset'' profile @ ''::text''),
           (''archivedAt'', contractTransactionFieldExpression alias Lifecycle_Archived ''effective_at'' profile),
           (''active'', alias @ ''.'' @ double_quoted ''archived_at_ix'' @ '' is null'')] in
        map_result (\<lambda>field.
          case map_of expressions field of
            Some e \<Rightarrow> Inr (field, e)
          | None \<Rightarrow>
              if field \<in> set object_prototype then Inl (Unmodelled ''a member of Object.prototype'')
              else Inr (field, [])) fields)"

definition included_json ::
    "pqs_relation \<Rightarrow> string \<Rightarrow> schema_profile \<Rightarrow> json_selection \<Rightarrow> string list sql" where
  "included_json target alias profile projection =
     sql_bind (sql_result
       (if target = Pqs_Contracts then
          if jp_field projection = ''payload'' then Inr (alias @ ''.'' @ double_quoted ''payload'')
          else invalid (''Invalid canonical JSON projection '' @ jp_field projection)
        else
          bind_result (table_lookup (''Invalid canonical JSON projection '' @ jp_field projection) (pqsFields target)
            (jp_field projection)) (\<lambda>_.
          compileCanonicalPhysicalField target (jp_field projection) alias profile))) (\<lambda>base.
     sql_bind (add_value (text_list (jp_path projection))) (\<lambda>p.
     sql_return [quotePqsString (jp_name projection),
       cast_text (jp_as projection) (base @ '' #>> '' @ p @ ''::text[]'')]))"

record compiled_include =
  ci_key :: string
  ci_expression :: string
  ci_selection :: string

definition included_object :: "(string \<times> string) list \<Rightarrow> string list list \<Rightarrow> compiled_include list \<Rightarrow> string" where
  "included_object columns json nested =
     ''jsonb_build_object('' @ joined '', '' (concat (map (\<lambda>(field, e). [quoted field, e]) columns) @ concat json
       @ concat (map (\<lambda>include. [quotePqsString (ci_key include), ci_expression include]) nested)) @ '')''"

definition included_expression ::
    "schema_profile \<Rightarrow> string \<Rightarrow> pqs_relation \<Rightarrow> cardinality \<Rightarrow> string \<Rightarrow> string \<Rightarrow> string \<Rightarrow> string \<Rightarrow> string \<Rightarrow> string"
where
  "included_expression profile edge target cardinality alias body condition orderBy page =
     (if cardinality = To_One then
        ''(select '' @ body @ '' from '' @ profile_relation profile target @ '' '' @ alias @ '' where '' @ condition @ '')''
      else
        ''(select coalesce(jsonb_agg('' @ double_quoted (edge @ ''_limited'') @ ''.value), '' @ quoted ''[]''
        @ ''::jsonb) from (select '' @ body @ '' as value from '' @ profile_relation profile target @ '' '' @ alias
        @ '' where '' @ condition @ orderBy @ page @ '') '' @ double_quoted (edge @ ''_limited'') @ '')'')"

definition include_limit :: "cardinality \<Rightarrow> nat \<Rightarrow> nat option \<Rightarrow> string sql" where
  "include_limit cardinality skip limit =
     (if cardinality \<noteq> To_Many then sql_return []
      else
        sql_bind (add_value (number_value limit)) (\<lambda>l.
        if skip > 0 then
          sql_bind (add_value (number_value (Some skip))) (\<lambda>s.
            sql_return ('' limit '' @ l @ '' offset '' @ s))
        else sql_return ('' limit '' @ l)))"

fun compile_include :: "pqs_relation \<Rightarrow> string \<Rightarrow> normalized_include \<Rightarrow> schema_profile \<Rightarrow> compiled_include sql" where
  "compile_include source parentAlias
      (Include edge relation cardinality predicate select nested orderBy skip limit) profile =
     sql_bind (sql_result (table_lookup (invalid_include edge) (pqsRelationEdges source) edge)) (\<lambda>physical.
     if px_target physical \<noteq> pqsRelationByQueryRelation relation then
       sql_result (invalid (invalid_include edge))
     else
       let target = px_target physical; alias = quotePqsIdentifier edge in
       sql_bind (sql_result (compileCanonicalIncludedFields target select alias profile)) (\<lambda>fields.
       sql_bind (sql_map (included_json target alias profile) (selected_json select)) (\<lambda>json.
       sql_bind (sql_map (\<lambda>include. compile_include target alias include profile) nested) (\<lambda>includes.
       sql_bind (case predicate of None \<Rightarrow> sql_return ''true''
         | Some p \<Rightarrow> compileCanonicalPhysicalPredicate target p alias profile) (\<lambda>filter.
       sql_bind (sql_result (compileCanonicalPhysicalEdgeJoin source edge parentAlias alias profile)) (\<lambda>join.
       sql_bind (sql_result (compileCanonicalPhysicalOrderBy target orderBy alias profile)) (\<lambda>order.
       sql_bind (include_limit cardinality skip limit) (\<lambda>page.
       let expression = included_expression profile edge target cardinality alias
         (included_object fields json includes) (join @ '' and ('' @ filter @ '')'') order page in
       sql_return \<lparr>ci_key = edge, ci_expression = expression,
         ci_selection = expression @ '' as '' @ quotePqsIdentifier edge\<rparr>))))))))"

definition compileCanonicalPhysicalIncludes ::
    "pqs_relation \<Rightarrow> string \<Rightarrow> normalized_include list \<Rightarrow> schema_profile \<Rightarrow> compiled_include list sql" where
  "compileCanonicalPhysicalIncludes source parentAlias includes profile =
     sql_map (\<lambda>include. compile_include source parentAlias include profile) includes"

section \<open>Compiled queries\<close>

record compiled_query =
  cp_text :: string
  cp_values :: "qvalue list"

record compiled_find_many = compiled_query +
  cp_resultShape :: result_shape

text \<open>A compilation starts with no values.\<close>

definition compiled_values :: "string sql \<Rightarrow> compiled_query result" where
  "compiled_values step = bind_result (step []) (\<lambda>(text, values). Inr \<lparr>cp_text = text, cp_values = values\<rparr>)"

definition with_shape :: "result_shape result \<Rightarrow> compiled_query result \<Rightarrow> compiled_find_many result" where
  "with_shape shape query =
     bind_result query (\<lambda>q. bind_result shape (\<lambda>s.
       Inr \<lparr>cp_text = cp_text q, cp_values = cp_values q, cp_resultShape = s\<rparr>))"

section \<open>Contracts\<close>

definition optional_sql :: "'a option \<Rightarrow> ('a \<Rightarrow> string sql) \<Rightarrow> string list sql" where
  "optional_sql x f = (case x of None \<Rightarrow> sql_return [] | Some y \<Rightarrow> sql_bind (f y) (\<lambda>t. sql_return [t]))"

definition parties_condition :: "string list \<Rightarrow> string sql" where
  "parties_condition parties =
     sql_bind (add_value (text_list parties)) (\<lambda>p. sql_return (''contract_row.witnesses && '' @ p @ ''::text[]''))"

definition contract_conditions :: "query_predicate option \<Rightarrow> string list option \<Rightarrow> schema_profile \<Rightarrow> string list sql" where
  "contract_conditions predicate parties profile =
     sql_bind (optional_sql predicate (\<lambda>p. compileCanonicalContractPredicate p profile contract_alias)) (\<lambda>where.
     sql_bind (optional_sql parties parties_condition) (\<lambda>seen. sql_return (where @ seen)))"

definition contract_json :: "json_selection \<Rightarrow> string sql" where
  "contract_json projection =
     sql_bind (add_value (text_list (jp_path projection))) (\<lambda>p.
     sql_return (cast_text (jp_as projection) (''contract_row.payload #>> '' @ p @ ''::text[]'') @ '' as ''
       @ quotePqsIdentifier (jp_name projection)))"

definition page_part :: "string \<Rightarrow> nat option \<Rightarrow> string sql" where
  "page_part keyword n =
     (case n of None \<Rightarrow> sql_return []
      | Some k \<Rightarrow> sql_bind (add_value (number_value n)) (\<lambda>p. sql_return (keyword @ p)))"

definition skip_of :: "nat \<Rightarrow> nat option" where
  "skip_of n = (if n = 0 then None else Some n)"

definition contract_columns :: "schema_profile \<Rightarrow> string list" where
  "contract_columns profile =
     [''contract_row.contract_id as contract_id'',
      contractPackageIdExpression contract_alias profile @ '' as package_id'',
      ''contract_row.payload'', ''contract_row.witnesses'',
      ''created_tx.offset::text as created_event_offset'', ''created_tx.effective_at as created_at'',
      ''archived_tx.offset::text as archived_event_offset'', ''archived_tx.effective_at as archived_at'',
      ''contract_row.archived_at_ix is null as active'',
      contractPackageIdExpression contract_alias profile @ '' as template_package_id'',
      ''contract_tpe_row.module_name as template_module_name'',
      ''contract_tpe_row.entity_name as template_entity_name'']"

definition contract_sources :: "schema_profile \<Rightarrow> string list" where
  "contract_sources profile =
     [''from '' @ profile_relation profile Pqs_Contracts @ '' contract_row'',
      ''join '' @ profile_relation profile Pqs_Contract_Tpe
        @ '' contract_tpe_row on contract_tpe_row.pk = contract_row.tpe_pk'',
      ''left join '' @ profile_relation profile Pqs_Transactions
        @ '' created_tx on created_tx.ix = contract_row.created_at_ix'',
      ''left join '' @ profile_relation profile Pqs_Transactions
        @ '' archived_tx on archived_tx.ix = contract_row.archived_at_ix'',
      ''left join '' @ profile_relation profile Pqs_Packages
        @ '' contract_package on contract_package.pk = contract_row.package_pk'']"

definition newline :: string where
  "newline = [CHR 0x0A]"

definition contract_find_many_text :: "find_many_query \<Rightarrow> schema_profile \<Rightarrow> string sql" where
  "contract_find_many_text query profile =
     sql_bind (contract_conditions (fm_predicate query) (fm_parties query) profile) (\<lambda>conditions.
     sql_bind (sql_result (compileCanonicalOrderBy (fm_orderBy query) contract_order_fields)) (\<lambda>orderBy.
     sql_bind (page_part ''limit '' (fm_take query)) (\<lambda>limit.
     sql_bind (page_part ''offset '' (skip_of (fm_skip query))) (\<lambda>offset.
     sql_bind (compileCanonicalPhysicalIncludes Pqs_Contracts contract_alias (fm_includes query) profile) (\<lambda>included.
     sql_bind (sql_map contract_json (selected_json (fm_select query))) (\<lambda>json.
     sql_return (''select'' @ newline @ ''  ''
       @ joined ('','' @ newline @ ''  '') (contract_columns profile @ map ci_selection included @ json) @ newline
       @ joined newline (contract_sources profile
         @ [if conditions = [] then [] else ''where '' @ joined '' and '' conditions, orderBy, limit, offset]))))))))"

definition compileContractFindMany :: "find_many_query \<Rightarrow> schema_profile \<Rightarrow> compiled_find_many result" where
  "compileContractFindMany query profile =
     (if fm_relation query \<noteq> Contracts then invalid ''compileContractFindMany requires a contracts query''
      else
        with_shape (compilePqsResultShape Pqs_Contracts To_Many (fm_select query) (fm_includes query))
          (compiled_values (contract_find_many_text query profile)))"

definition contractFrom :: "schema_profile \<Rightarrow> string" where
  "contractFrom profile = joined '' '' (contract_sources profile)"

definition compileContractWhere :: "query_predicate option \<Rightarrow> string list option \<Rightarrow> schema_profile \<Rightarrow> string sql" where
  "compileContractWhere predicate parties profile =
     sql_bind (contract_conditions predicate parties profile) (\<lambda>conditions.
     sql_return (if conditions = [] then [] else '' where '' @ joined '' and '' conditions))"

definition compileContractCount :: "count_query \<Rightarrow> schema_profile \<Rightarrow> compiled_query result" where
  "compileContractCount query profile =
     (if cq_relation query \<noteq> Contracts then invalid ''compileContractCount requires a contracts query''
      else compiled_values (sql_bind (compileContractWhere (cq_predicate query) (cq_parties query) profile) (\<lambda>where.
        sql_return (''select count(*)::text as count '' @ contractFrom profile @ where))))"

definition aggregate_operations :: "aggregate_selection \<Rightarrow> (string \<times> string) list" where
  "aggregate_operations a =
     map (Pair ''min'') (ag_min a) @ map (Pair ''max'') (ag_max a) @ map (Pair ''sum'') (ag_sum a)"

definition count_selection :: "aggregate_selection \<Rightarrow> string list" where
  "count_selection a = (if ag_count a then [''count(*)::text as count''] else [])"

definition contract_numeric_fields :: "(string \<times> string) list" where
  "contract_numeric_fields =
     [(''createdEventOffset'', ''created_tx.offset''), (''archivedEventOffset'', ''archived_tx.offset'')]"

definition compileContractAggregate :: "aggregate_query \<Rightarrow> schema_profile \<Rightarrow> compiled_query result" where
  "compileContractAggregate query profile =
     (if aq_relation query \<noteq> Contracts then invalid ''compileContractAggregate requires a contracts query''
      else
        bind_result (map_result (\<lambda>(operation, field).
          bind_result (table_lookup (field @ '' is not a numeric aggregate field of contracts'') contract_numeric_fields field)
            (\<lambda>e. Inr (operation @ ''('' @ e @ '')::text as '' @ quotePqsIdentifier (operation @ ''_'' @ field))))
          (aggregate_operations (aq_aggregates query))) (\<lambda>aggregates.
        let selected = count_selection (aq_aggregates query) @ aggregates in
        if selected = [] then invalid ''aggregate must request at least one result''
        else compiled_values (sql_bind (compileContractWhere (aq_predicate query) None profile) (\<lambda>where.
          sql_return (''select '' @ joined '', '' selected @ '' '' @ contractFrom profile @ where)))))"

definition no_aggregates :: "aggregate_selection \<Rightarrow> bool" where
  "no_aggregates a \<longleftrightarrow> \<not> ag_count a \<and> ag_min a = [] \<and> ag_max a = [] \<and> ag_sum a = []"

text \<open>The keyword that a cast to the type of a group key names.\<close>

definition group_cast :: "json_scalar_type \<Rightarrow> string \<Rightarrow> string" where
  "group_cast t text =
     (case t of
        As_Text \<Rightarrow> text
      | As_Numeric \<Rightarrow> ''('' @ text @ '')::numeric''
      | As_Boolean \<Rightarrow> ''('' @ text @ '')::boolean''
      | As_Timestamp \<Rightarrow> ''('' @ text @ '')::timestamptz'')"

text \<open>A group key gives an expression and a selected column.\<close>

definition contract_group_key :: "group_key \<Rightarrow> (string \<times> string) sql" where
  "contract_group_key key =
     (case key of
        Group_Field path \<Rightarrow>
          if path_head path = ''witnesses'' then
            sql_return (''witness.value'', ''witness.value as '' @ double_quoted ''witnesses'')
          else
            sql_bind (sql_result (table_lookup (path_head path @ '' is not a contract group key'') contract_order_fields
              (path_head path))) (\<lambda>e. sql_return (e, e @ '' as '' @ double_quoted (path_head path)))
      | Group_Json field name path t \<Rightarrow>
          if field \<noteq> ''payload'' then sql_result (invalid ''invalid contract group key'')
          else
            sql_bind (add_value (text_list path)) (\<lambda>p.
            let e = group_cast t (''contract_row.payload #>> '' @ p @ ''::text[]'') in
            sql_return (e, e @ '' as '' @ quotePqsIdentifier name))
      | Group_Bucket path b \<Rightarrow> sql_result (invalid ''invalid contract group key''))"

definition groups_witnesses :: "group_key \<Rightarrow> bool" where
  "groups_witnesses key = (case key of Group_Field path \<Rightarrow> path_head path = ''witnesses'' | _ \<Rightarrow> False)"

definition compileContractGroupBy :: "group_by_query \<Rightarrow> schema_profile \<Rightarrow> compiled_query result" where
  "compileContractGroupBy query profile =
     (if gb_relation query \<noteq> Contracts then invalid ''compileContractGroupBy requires a contracts query''
      else if gb_by query = [] \<or> no_aggregates (gb_aggregates query) then
        invalid ''groupBy requires keys and an aggregate''
      else compiled_values
        (sql_bind (optional_sql (gb_predicate query) (\<lambda>p. compileCanonicalContractPredicate p profile contract_alias)) (\<lambda>where.
         sql_bind (sql_map contract_group_key (gb_by query)) (\<lambda>keys.
         sql_bind (sql_result (map_result (\<lambda>(operation, name).
           bind_result (text_lookup contract_order_fields name) (\<lambda>e.
           Inr (operation @ ''('' @ e @ '')::text as '' @ double_quoted (operation @ ''_'' @ name))))
           (aggregate_operations (gb_aggregates query)))) (\<lambda>aggregates.
         sql_return (''select '' @ joined '', '' (map snd keys @ count_selection (gb_aggregates query) @ aggregates)
           @ '' '' @ contractFrom profile
           @ (if list_ex groups_witnesses (gb_by query)
              then '' cross join lateral unnest(contract_row.witnesses) as witness(value)'' else [])
           @ (case where of [] \<Rightarrow> [] | t # _ \<Rightarrow> '' where '' @ t)
           @ '' group by '' @ joined '', '' (map fst keys)))))))"

section \<open>Relations with physical columns\<close>

definition relation_field :: "pqs_relation \<Rightarrow> string \<Rightarrow> string result" where
  "relation_field r name = table_lookup (not_a_field r name) (pqsFields r) name"

record root_source =
  ro_withClause :: string
  ro_relation :: string
  ro_reference :: string

definition logicalTypeRootSource :: "pqs_relation \<Rightarrow> schema_profile \<Rightarrow> root_source result" where
  "logicalTypeRootSource r profile =
     (let physical = profile_relation profile r in
      if r \<noteq> Pqs_Contract_Tpe \<and> r \<noteq> Pqs_Exercise_Tpe then
        Inr \<lparr>ro_withClause = [], ro_relation = physical, ro_reference = physical\<rparr>
      else
        bind_result (compileCanonicalPhysicalField r ''pk'' (double_quoted ''physical_type'') profile) (\<lambda>publicKey.
        let logical = double_quoted ''logical_type_root'' in
        Inr \<lparr>ro_withClause = ''with '' @ logical @ '' as (select distinct on ('' @ publicKey @ '') ''
               @ double_quoted ''physical_type'' @ ''.* from '' @ physical @ '' '' @ double_quoted ''physical_type'' @ '' order by ''
               @ publicKey @ '', '' @ qualify (double_quoted ''physical_type'') ''pk'' @ '' asc) '',
             ro_relation = logical, ro_reference = logical\<rparr>))"

definition relation_matches :: "pqs_relation \<Rightarrow> query_relation \<Rightarrow> unit result" where
  "relation_matches r relation =
     ensure (pqsRelationByQueryRelation relation = r)
       (''Canonical relation '' @ relation_name relation @ '' does not match '' @ pqs_name r)"

definition selectedCanonicalFields :: "pqs_relation \<Rightarrow> normalized_selection option \<Rightarrow> string list result" where
  "selectedCanonicalFields r select =
     bind_result (case select of
         None \<Rightarrow> Inr (map fst (pqsFields r))
       | Some s \<Rightarrow> map_result (\<lambda>name. bind_result (relation_field r name) (\<lambda>_. Inr name)) (sl_fields s)) (\<lambda>fields.
     if fields = [] \<and> selected_json select = [] then invalid ''select must include at least one field''
     else Inr fields)"

definition relation_json :: "pqs_relation \<Rightarrow> schema_profile \<Rightarrow> json_selection \<Rightarrow> string sql" where
  "relation_json r profile projection =
     (if \<not> jsonField r (jp_field projection) then
        sql_result (invalid (jp_field projection @ '' is not a JSON field of '' @ pqs_name r))
      else
        sql_bind (sql_result (bind_result (relation_field r (jp_field projection)) (\<lambda>_.
          compileCanonicalPhysicalField r (jp_field projection) [] profile))) (\<lambda>base.
        sql_bind (add_value (text_list (jp_path projection))) (\<lambda>p.
        sql_return (cast_text (jp_as projection) (base @ '' #>> '' @ p @ ''::text[]'') @ '' as ''
          @ quotePqsIdentifier (jp_name projection)))))"

definition relation_order :: "pqs_relation \<Rightarrow> normalized_order list \<Rightarrow> schema_profile \<Rightarrow> string result" where
  "relation_order r orderBy profile =
     (if orderBy = [] then Inr []
      else
        bind_result (map_result (\<lambda>order.
          bind_result (relation_field r (path_head (no_path order))) (\<lambda>_.
          bind_result (compileCanonicalPhysicalField r (path_head (no_path order)) [] profile) (\<lambda>e.
          Inr (e @ '' '' @ direction_text (no_direction order))))) orderBy) (\<lambda>es.
        Inr ('' order by '' @ joined '', '' es)))"

text \<open>A predicate on the root with the keyword before it.\<close>

definition relation_where :: "pqs_relation \<Rightarrow> query_predicate option \<Rightarrow> string \<Rightarrow> schema_profile \<Rightarrow> string sql" where
  "relation_where r predicate alias profile =
     (case predicate of
        None \<Rightarrow> sql_return []
      | Some p \<Rightarrow>
          sql_bind (compileCanonicalPhysicalPredicate r p alias profile) (\<lambda>t. sql_return ('' where '' @ t)))"

definition find_many_text :: "pqs_relation \<Rightarrow> find_many_query \<Rightarrow> schema_profile \<Rightarrow> string sql" where
  "find_many_text r query profile =
     sql_bind (sql_result (logicalTypeRootSource r profile)) (\<lambda>source.
     sql_bind (sql_result (selectedCanonicalFields r (fm_select query))) (\<lambda>fields.
     sql_bind (relation_where r (fm_predicate query) [] profile) (\<lambda>where.
     sql_bind (sql_result (relation_order r (fm_orderBy query) profile)) (\<lambda>orderBy.
     sql_bind (page_part '' limit '' (fm_take query)) (\<lambda>limit.
     sql_bind (page_part '' offset '' (skip_of (fm_skip query))) (\<lambda>offset.
     sql_bind (compileCanonicalPhysicalIncludes r (ro_reference source) (fm_includes query) profile) (\<lambda>included.
     sql_bind (sql_map (relation_json r profile) (selected_json (fm_select query))) (\<lambda>json.
     sql_bind (sql_result (map_result (\<lambda>field.
       bind_result (compileCanonicalPhysicalField r field [] profile) (\<lambda>e. Inr (e @ '' as '' @ double_quoted field)))
       fields)) (\<lambda>columns.
     sql_return (ro_withClause source @ ''select '' @ joined '', '' (columns @ json @ map ci_selection included)
       @ '' from '' @ ro_relation source @ where @ orderBy @ limit @ offset))))))))))"

definition compilePqsRelationFindMany ::
    "pqs_relation \<Rightarrow> find_many_query \<Rightarrow> schema_profile \<Rightarrow> compiled_find_many result" where
  "compilePqsRelationFindMany r query profile =
     bind_result (relation_matches r (fm_relation query)) (\<lambda>_.
     with_shape (compilePqsResultShape r To_Many (fm_select query) (fm_includes query))
       (compiled_values (find_many_text r query profile)))"

definition compilePqsRelationCount :: "pqs_relation \<Rightarrow> count_query \<Rightarrow> schema_profile \<Rightarrow> compiled_query result" where
  "compilePqsRelationCount r query profile =
     bind_result (relation_matches r (cq_relation query)) (\<lambda>_.
     compiled_values (sql_bind (sql_result (logicalTypeRootSource r profile)) (\<lambda>source.
       sql_bind (relation_where r (cq_predicate query) [] profile) (\<lambda>where.
       sql_return (ro_withClause source @ ''select count(*)::text as count from '' @ ro_relation source @ where)))))"

definition relation_aggregates ::
    "pqs_relation \<Rightarrow> aggregate_selection \<Rightarrow> string \<Rightarrow> schema_profile \<Rightarrow> string list result" where
  "relation_aggregates r aggregates alias profile =
     map_result (\<lambda>(operation, name).
       if name \<notin> set (pxm_numericFields (pqsRelationMetadata r)) then
         invalid (name @ '' is not a numeric aggregate field of '' @ pqs_name r)
       else
         bind_result (compileCanonicalPhysicalField r name alias profile) (\<lambda>e.
         Inr (operation @ ''('' @ e @ '')::text as '' @ double_quoted (operation @ ''_'' @ name))))
       (aggregate_operations aggregates)"

definition compilePqsRelationAggregate ::
    "pqs_relation \<Rightarrow> aggregate_query \<Rightarrow> schema_profile \<Rightarrow> compiled_query result" where
  "compilePqsRelationAggregate r query profile =
     bind_result (relation_matches r (aq_relation query)) (\<lambda>_.
     bind_result (logicalTypeRootSource r profile) (\<lambda>source.
     bind_result (relation_aggregates r (aq_aggregates query) [] profile) (\<lambda>aggregates.
     let selected = count_selection (aq_aggregates query) @ aggregates in
     if selected = [] then invalid ''aggregate must request at least one result''
     else compiled_values (sql_bind (relation_where r (aq_predicate query) [] profile) (\<lambda>where.
       sql_return (ro_withClause source @ ''select '' @ joined '', '' selected @ '' from '' @ ro_relation source
         @ where))))))"

definition bucket_text :: "time_bucket \<Rightarrow> string" where
  "bucket_text b = (case b of Hour \<Rightarrow> ''hour'' | Day \<Rightarrow> ''day'' | Week \<Rightarrow> ''week'' | Month \<Rightarrow> ''month'')"

record compiled_key =
  ck_joins :: "string list"
  ck_expression :: string
  ck_selected :: string

definition date_trunc :: "time_bucket \<Rightarrow> string \<Rightarrow> string" where
  "date_trunc b e = ''date_trunc('' @ quoted (bucket_text b) @ '', '' @ e @ '')''"

definition relation_group_key :: "pqs_relation \<Rightarrow> string \<Rightarrow> schema_profile \<Rightarrow> group_key \<Rightarrow> compiled_key sql" where
  "relation_group_key r alias profile key =
     (case key of
        Group_Field path \<Rightarrow>
          let name = path_head path; unnested = (name \<in> set (pxm_arrayFields (pqsRelationMetadata r))) in
          sql_result (bind_result (relation_field r name) (\<lambda>column.
          bind_result (if unnested then Inr (double_quoted name @ ''.value'')
            else compileCanonicalPhysicalField r name alias profile) (\<lambda>e.
          Inr \<lparr>ck_joins = (if unnested then [''cross join lateral unnest('' @ qualify alias column @ '') as ''
                 @ double_quoted name @ ''(value)''] else []),
               ck_expression = e, ck_selected = e @ '' as '' @ double_quoted name\<rparr>)))
      | Group_Json field name path t \<Rightarrow>
          sql_bind (sql_result (bind_result (relation_field r field) (\<lambda>_.
            compileCanonicalPhysicalField r field alias profile))) (\<lambda>base.
          sql_bind (add_value (text_list path)) (\<lambda>p.
          let e = group_cast t (base @ '' #>> '' @ p @ ''::text[]'') in
          sql_return \<lparr>ck_joins = [], ck_expression = e, ck_selected = e @ '' as '' @ quotePqsIdentifier name\<rparr>))
      | Group_Bucket [field] b \<Rightarrow>
          sql_result (bind_result (relation_field r field) (\<lambda>_.
          bind_result (compileCanonicalPhysicalField r field alias profile) (\<lambda>e.
          let t = date_trunc b e in
          Inr \<lparr>ck_joins = [], ck_expression = t, ck_selected = t @ '' as '' @ double_quoted (field @ ''_'' @ bucket_text b)\<rparr>)))
      | Group_Bucket path b \<Rightarrow>
          let edgeName = path_head path; fieldName = path_head (tl path) in
          sql_result (bind_result (table_lookup ''group key must follow a profiled to-one edge'' (pqsRelationEdges r) edgeName) (\<lambda>edge.
          if px_cardinality edge \<noteq> To_One then invalid ''group key must follow a profiled to-one edge''
          else
            bind_result (relation_field (px_target edge) fieldName) (\<lambda>_.
            bind_result (compileCanonicalPhysicalField (px_target edge) fieldName (double_quoted edgeName) profile) (\<lambda>e.
            let t = date_trunc b e in
            Inr \<lparr>ck_joins = [''join '' @ profile_relation profile (px_target edge) @ '' '' @ double_quoted edgeName @ '' on ''
                   @ qualify (double_quoted edgeName) (px_targetColumn edge) @ '' = '' @ qualify alias (px_sourceColumn edge)],
                 ck_expression = t,
                 ck_selected = t @ '' as '' @ double_quoted (edgeName @ ''_'' @ fieldName @ ''_'' @ bucket_text b)\<rparr>)))))"

definition compilePqsRelationGroupBy :: "pqs_relation \<Rightarrow> group_by_query \<Rightarrow> schema_profile \<Rightarrow> compiled_query result" where
  "compilePqsRelationGroupBy r query profile =
     bind_result (relation_matches r (gb_relation query)) (\<lambda>_.
     if gb_by query = [] \<or> no_aggregates (gb_aggregates query) then
       invalid ''groupBy requires a key and aggregate''
     else
       let root = double_quoted (if r = Pqs_Events then ''event'' else ''root'') in
       compiled_values (sql_bind (sql_result (logicalTypeRootSource r profile)) (\<lambda>source.
         sql_bind (relation_where r (gb_predicate query) root profile) (\<lambda>where.
         sql_bind (sql_map (relation_group_key r root profile) (gb_by query)) (\<lambda>keys.
         sql_bind (sql_result (relation_aggregates r (gb_aggregates query) root profile)) (\<lambda>aggregates.
         sql_return (ro_withClause source @ ''select ''
           @ joined '', '' (map ck_selected keys @ count_selection (gb_aggregates query) @ aggregates)
           @ '' from '' @ ro_relation source @ '' '' @ root
           @ (let joins = concat (map ck_joins keys) in if joins = [] then [] else '' '' @ joined '' '' joins)
           @ where @ '' group by '' @ joined '', '' (map ck_expression keys))))))))"

end
