(* ===== verification/Pqs_Lexing.thy ===== *)
theory Pqs_Lexing
  imports Pqs_Queries
begin

text \<open>
  How PostgreSQL reads a text: quoted texts and names, words, comments, statement ends and placeholders.
  A text is well formed when it leaves no quotation open, has no comment and is one statement; then its
  placeholders are known.
\<close>

section \<open>The scanner\<close>

datatype sql_state = Plain | Word | Dash | Slash | Dollar | Param nat | In_Text | In_Name | Rejected

definition word_char :: "char \<Rightarrow> bool" where
  "word_char c \<longleftrightarrow> is_letter c \<or> is_digit c \<or> c = CHR ''_''"

text \<open>A character outside of quotations, after one that is no part of a word.\<close>

definition sql_plain :: "char \<Rightarrow> sql_state" where
  "sql_plain c =
     (if c = CHR 0x27 then In_Text
      else if c = CHR 0x22 then In_Name
      else if c = CHR ''-'' then Dash
      else if c = CHR ''/'' then Slash
      else if c = CHR ''$'' then Dollar
      else if c = CHR '';'' then Rejected
      else if word_char c then Word
      else Plain)"

text \<open>
  Rejected are comments, statement ends, a dollar that starts no placeholder, and texts and placeholders
  that touch a word (they would be another kind of literal).
\<close>

fun sql_step :: "sql_state \<Rightarrow> char \<Rightarrow> sql_state \<times> nat list" where
  "sql_step Plain c = (sql_plain c, [])"
| "sql_step Word c = (if c = CHR 0x27 \<or> c = CHR ''$'' then Rejected else sql_plain c, [])"
| "sql_step Dash c = (if c = CHR ''-'' then Rejected else sql_plain c, [])"
| "sql_step Slash c = (if c = CHR ''*'' then Rejected else sql_plain c, [])"
| "sql_step Dollar c = (if is_digit c then Param (digit_value c) else Rejected, [])"
| "sql_step (Param n) c =
     (if is_digit c then (Param (10 * n + digit_value c), [])
      else if word_char c \<or> c = CHR ''$'' \<or> c = CHR 0x27 then (Rejected, [])
      else (sql_plain c, [n]))"
| "sql_step In_Text c = (if c = CHR 0x27 then Plain else In_Text, [])"
| "sql_step In_Name c = (if c = CHR 0x22 then Plain else In_Name, [])"
| "sql_step Rejected c = (Rejected, [])"

definition emit :: "nat list \<Rightarrow> sql_state \<times> nat list \<Rightarrow> sql_state \<times> nat list" where
  "emit ns r = (fst r, ns @ snd r)"

fun sql_run :: "sql_state \<Rightarrow> string \<Rightarrow> sql_state \<times> nat list" where
  "sql_run st [] = (st, [])"
| "sql_run st (c # cs) = emit (snd (sql_step st c)) (sql_run (fst (sql_step st c)) cs)"

text \<open>The end of a text reads like a line end.\<close>

definition sql_placeholders :: "string \<Rightarrow> nat list option" where
  "sql_placeholders s = (case sql_run Plain (s @ newline) of (Plain, ns) \<Rightarrow> Some ns | _ \<Rightarrow> None)"

section \<open>Texts that can stand between others\<close>

lemma emit_simps [simp]:
  "emit [] r = r" "emit ns (emit ms r) = emit (ns @ ms) r"
  by (simp_all add: emit_def)

text \<open>A character that ends a word or a number and opens nothing.\<close>

definition soft :: "char \<Rightarrow> bool" where
  "soft c \<longleftrightarrow> sql_plain c = Plain"

lemma soft_step [simp]:
  assumes "soft c"
  shows "sql_run Word (c # t) = sql_run Plain (c # t)"
    and "sql_run (Param n) (c # t) = emit [n] (sql_run Plain (c # t))"
  using assms by (auto simp: soft_def sql_plain_def word_char_def split: if_splits)

definition lexes :: "string \<Rightarrow> nat list \<Rightarrow> bool" where
  "lexes s ns \<longleftrightarrow> (\<forall>c t. soft c \<longrightarrow> sql_run Plain (s @ c # t) = emit ns (sql_run Plain (c # t)))"

lemma lexes_placeholders:
  assumes "lexes s ns"
  shows "sql_placeholders s = Some ns"
proof -
  have "soft (CHR 0x0A)" by code_simp
  with assms have "sql_run Plain (s @ newline) = emit ns (sql_run Plain newline)"
    by (simp add: lexes_def newline_def del: sql_run.simps)
  moreover have "sql_run Plain newline = (Plain, [])" by code_simp
  ultimately show ?thesis by (simp add: sql_placeholders_def emit_def)
qed

lemma lexes_part: "lexes s ns \<Longrightarrow> soft c \<Longrightarrow> sql_run Plain (s @ c # t) = emit ns (sql_run Plain (c # t))"
  by (simp add: lexes_def)


text \<open>One character of a fixed text.\<close>

lemma scan_characters:
  "sql_run Plain (CHR ''a'' # t) = sql_run Word t" "sql_run Word (CHR ''a'' # t) = sql_run Word t"
  "sql_run Plain (CHR ''b'' # t) = sql_run Word t" "sql_run Word (CHR ''b'' # t) = sql_run Word t"
  "sql_run Plain (CHR ''c'' # t) = sql_run Word t" "sql_run Word (CHR ''c'' # t) = sql_run Word t"
  "sql_run Plain (CHR ''d'' # t) = sql_run Word t" "sql_run Word (CHR ''d'' # t) = sql_run Word t"
  "sql_run Plain (CHR ''e'' # t) = sql_run Word t" "sql_run Word (CHR ''e'' # t) = sql_run Word t"
  "sql_run Plain (CHR ''f'' # t) = sql_run Word t" "sql_run Word (CHR ''f'' # t) = sql_run Word t"
  "sql_run Plain (CHR ''g'' # t) = sql_run Word t" "sql_run Word (CHR ''g'' # t) = sql_run Word t"
  "sql_run Plain (CHR ''h'' # t) = sql_run Word t" "sql_run Word (CHR ''h'' # t) = sql_run Word t"
  "sql_run Plain (CHR ''i'' # t) = sql_run Word t" "sql_run Word (CHR ''i'' # t) = sql_run Word t"
  "sql_run Plain (CHR ''j'' # t) = sql_run Word t" "sql_run Word (CHR ''j'' # t) = sql_run Word t"
  "sql_run Plain (CHR ''k'' # t) = sql_run Word t" "sql_run Word (CHR ''k'' # t) = sql_run Word t"
  "sql_run Plain (CHR ''l'' # t) = sql_run Word t" "sql_run Word (CHR ''l'' # t) = sql_run Word t"
  "sql_run Plain (CHR ''m'' # t) = sql_run Word t" "sql_run Word (CHR ''m'' # t) = sql_run Word t"
  "sql_run Plain (CHR ''n'' # t) = sql_run Word t" "sql_run Word (CHR ''n'' # t) = sql_run Word t"
  "sql_run Plain (CHR ''o'' # t) = sql_run Word t" "sql_run Word (CHR ''o'' # t) = sql_run Word t"
  "sql_run Plain (CHR ''p'' # t) = sql_run Word t" "sql_run Word (CHR ''p'' # t) = sql_run Word t"
  "sql_run Plain (CHR ''q'' # t) = sql_run Word t" "sql_run Word (CHR ''q'' # t) = sql_run Word t"
  "sql_run Plain (CHR ''r'' # t) = sql_run Word t" "sql_run Word (CHR ''r'' # t) = sql_run Word t"
  "sql_run Plain (CHR ''s'' # t) = sql_run Word t" "sql_run Word (CHR ''s'' # t) = sql_run Word t"
  "sql_run Plain (CHR ''t'' # t) = sql_run Word t" "sql_run Word (CHR ''t'' # t) = sql_run Word t"
  "sql_run Plain (CHR ''u'' # t) = sql_run Word t" "sql_run Word (CHR ''u'' # t) = sql_run Word t"
  "sql_run Plain (CHR ''v'' # t) = sql_run Word t" "sql_run Word (CHR ''v'' # t) = sql_run Word t"
  "sql_run Plain (CHR ''w'' # t) = sql_run Word t" "sql_run Word (CHR ''w'' # t) = sql_run Word t"
  "sql_run Plain (CHR ''x'' # t) = sql_run Word t" "sql_run Word (CHR ''x'' # t) = sql_run Word t"
  "sql_run Plain (CHR ''y'' # t) = sql_run Word t" "sql_run Word (CHR ''y'' # t) = sql_run Word t"
  "sql_run Plain (CHR ''z'' # t) = sql_run Word t" "sql_run Word (CHR ''z'' # t) = sql_run Word t"
  "sql_run Plain (CHR ''A'' # t) = sql_run Word t" "sql_run Word (CHR ''A'' # t) = sql_run Word t"
  "sql_run Plain (CHR ''B'' # t) = sql_run Word t" "sql_run Word (CHR ''B'' # t) = sql_run Word t"
  "sql_run Plain (CHR ''C'' # t) = sql_run Word t" "sql_run Word (CHR ''C'' # t) = sql_run Word t"
  "sql_run Plain (CHR ''D'' # t) = sql_run Word t" "sql_run Word (CHR ''D'' # t) = sql_run Word t"
  "sql_run Plain (CHR ''E'' # t) = sql_run Word t" "sql_run Word (CHR ''E'' # t) = sql_run Word t"
  "sql_run Plain (CHR ''F'' # t) = sql_run Word t" "sql_run Word (CHR ''F'' # t) = sql_run Word t"
  "sql_run Plain (CHR ''G'' # t) = sql_run Word t" "sql_run Word (CHR ''G'' # t) = sql_run Word t"
  "sql_run Plain (CHR ''H'' # t) = sql_run Word t" "sql_run Word (CHR ''H'' # t) = sql_run Word t"
  "sql_run Plain (CHR ''I'' # t) = sql_run Word t" "sql_run Word (CHR ''I'' # t) = sql_run Word t"
  "sql_run Plain (CHR ''J'' # t) = sql_run Word t" "sql_run Word (CHR ''J'' # t) = sql_run Word t"
  "sql_run Plain (CHR ''K'' # t) = sql_run Word t" "sql_run Word (CHR ''K'' # t) = sql_run Word t"
  "sql_run Plain (CHR ''L'' # t) = sql_run Word t" "sql_run Word (CHR ''L'' # t) = sql_run Word t"
  "sql_run Plain (CHR ''M'' # t) = sql_run Word t" "sql_run Word (CHR ''M'' # t) = sql_run Word t"
  "sql_run Plain (CHR ''N'' # t) = sql_run Word t" "sql_run Word (CHR ''N'' # t) = sql_run Word t"
  "sql_run Plain (CHR ''O'' # t) = sql_run Word t" "sql_run Word (CHR ''O'' # t) = sql_run Word t"
  "sql_run Plain (CHR ''P'' # t) = sql_run Word t" "sql_run Word (CHR ''P'' # t) = sql_run Word t"
  "sql_run Plain (CHR ''Q'' # t) = sql_run Word t" "sql_run Word (CHR ''Q'' # t) = sql_run Word t"
  "sql_run Plain (CHR ''R'' # t) = sql_run Word t" "sql_run Word (CHR ''R'' # t) = sql_run Word t"
  "sql_run Plain (CHR ''S'' # t) = sql_run Word t" "sql_run Word (CHR ''S'' # t) = sql_run Word t"
  "sql_run Plain (CHR ''T'' # t) = sql_run Word t" "sql_run Word (CHR ''T'' # t) = sql_run Word t"
  "sql_run Plain (CHR ''U'' # t) = sql_run Word t" "sql_run Word (CHR ''U'' # t) = sql_run Word t"
  "sql_run Plain (CHR ''V'' # t) = sql_run Word t" "sql_run Word (CHR ''V'' # t) = sql_run Word t"
  "sql_run Plain (CHR ''W'' # t) = sql_run Word t" "sql_run Word (CHR ''W'' # t) = sql_run Word t"
  "sql_run Plain (CHR ''X'' # t) = sql_run Word t" "sql_run Word (CHR ''X'' # t) = sql_run Word t"
  "sql_run Plain (CHR ''Y'' # t) = sql_run Word t" "sql_run Word (CHR ''Y'' # t) = sql_run Word t"
  "sql_run Plain (CHR ''Z'' # t) = sql_run Word t" "sql_run Word (CHR ''Z'' # t) = sql_run Word t"
  "sql_run Plain (CHR ''0'' # t) = sql_run Word t" "sql_run Word (CHR ''0'' # t) = sql_run Word t"
  "sql_run Plain (CHR ''1'' # t) = sql_run Word t" "sql_run Word (CHR ''1'' # t) = sql_run Word t"
  "sql_run Plain (CHR ''2'' # t) = sql_run Word t" "sql_run Word (CHR ''2'' # t) = sql_run Word t"
  "sql_run Plain (CHR ''3'' # t) = sql_run Word t" "sql_run Word (CHR ''3'' # t) = sql_run Word t"
  "sql_run Plain (CHR ''4'' # t) = sql_run Word t" "sql_run Word (CHR ''4'' # t) = sql_run Word t"
  "sql_run Plain (CHR ''5'' # t) = sql_run Word t" "sql_run Word (CHR ''5'' # t) = sql_run Word t"
  "sql_run Plain (CHR ''6'' # t) = sql_run Word t" "sql_run Word (CHR ''6'' # t) = sql_run Word t"
  "sql_run Plain (CHR ''7'' # t) = sql_run Word t" "sql_run Word (CHR ''7'' # t) = sql_run Word t"
  "sql_run Plain (CHR ''8'' # t) = sql_run Word t" "sql_run Word (CHR ''8'' # t) = sql_run Word t"
  "sql_run Plain (CHR ''9'' # t) = sql_run Word t" "sql_run Word (CHR ''9'' # t) = sql_run Word t"
  "sql_run Plain (CHR ''_'' # t) = sql_run Word t" "sql_run Word (CHR ''_'' # t) = sql_run Word t"
  "sql_run Plain (CHR '' '' # t) = sql_run Plain t" "sql_run Word (CHR '' '' # t) = sql_run Plain t"
  "sql_run Plain (CHR '')'' # t) = sql_run Plain t" "sql_run Word (CHR '')'' # t) = sql_run Plain t"
  "sql_run Plain (CHR '','' # t) = sql_run Plain t" "sql_run Word (CHR '','' # t) = sql_run Plain t"
  "sql_run Plain (CHR '':'' # t) = sql_run Plain t" "sql_run Word (CHR '':'' # t) = sql_run Plain t"
  "sql_run Plain (CHR ''.'' # t) = sql_run Plain t" "sql_run Word (CHR ''.'' # t) = sql_run Plain t"
  "sql_run Plain (CHR ''='' # t) = sql_run Plain t" "sql_run Word (CHR ''='' # t) = sql_run Plain t"
  "sql_run Plain (CHR ''<'' # t) = sql_run Plain t" "sql_run Word (CHR ''<'' # t) = sql_run Plain t"
  "sql_run Plain (CHR ''>'' # t) = sql_run Plain t" "sql_run Word (CHR ''>'' # t) = sql_run Plain t"
  "sql_run Plain (CHR ''*'' # t) = sql_run Plain t" "sql_run Word (CHR ''*'' # t) = sql_run Plain t"
  "sql_run Plain (CHR ''&'' # t) = sql_run Plain t" "sql_run Word (CHR ''&'' # t) = sql_run Plain t"
  "sql_run Plain (CHR ''|'' # t) = sql_run Plain t" "sql_run Word (CHR ''|'' # t) = sql_run Plain t"
  "sql_run Plain (CHR ''('' # t) = sql_run Plain t" "sql_run Word (CHR ''('' # t) = sql_run Plain t"
  "sql_run Plain (CHR ''['' # t) = sql_run Plain t" "sql_run Word (CHR ''['' # t) = sql_run Plain t"
  "sql_run Plain (CHR '']'' # t) = sql_run Plain t" "sql_run Word (CHR '']'' # t) = sql_run Plain t"
  "sql_run Plain (CHR ''#'' # t) = sql_run Plain t" "sql_run Word (CHR ''#'' # t) = sql_run Plain t"
  "sql_run Plain (CHR ''+'' # t) = sql_run Plain t" "sql_run Word (CHR ''+'' # t) = sql_run Plain t"
  "sql_run Plain (CHR 0x0A # t) = sql_run Plain t" "sql_run Word (CHR 0x0A # t) = sql_run Plain t"
  "sql_run Plain (CHR 0x27 # t) = sql_run In_Text t" "sql_run Plain (CHR 0x22 # t) = sql_run In_Name t"
  "sql_run Word (CHR 0x22 # t) = sql_run In_Name t"
  "sql_run Plain (CHR ''-'' # t) = sql_run Dash t"
  "sql_run Dash (CHR '' '' # t) = sql_run Plain t" "sql_run Dash (CHR ''>'' # t) = sql_run Plain t"
  by (simp_all add: sql_plain_def word_char_def is_letter_def is_digit_def)

lemma soft_characters:
  "soft (CHR '' '')"
  "soft (CHR '')'')"
  "soft (CHR '','')"
  "soft (CHR '':'')"
  "soft (CHR ''.'')"
  "soft (CHR ''='')"
  "soft (CHR ''<'')"
  "soft (CHR ''>'')"
  "soft (CHR ''*'')"
  "soft (CHR ''&'')"
  "soft (CHR ''|'')"
  "soft (CHR ''('')"
  "soft (CHR ''['')"
  "soft (CHR '']'')"
  "soft (CHR ''#'')"
  "soft (CHR ''+'')"
  "soft (CHR 0x0A)"
  by (simp_all add: soft_def sql_plain_def word_char_def is_letter_def is_digit_def)

lemma scan_quoted:
  "sql_run In_Text (c # t) = (if c = CHR 0x27 then sql_run Plain t else sql_run In_Text t)"
  "sql_run In_Name (c # t) = (if c = CHR 0x22 then sql_run Plain t else sql_run In_Name t)"
  by simp_all

declare sql_run.simps(2) [simp del]

lemmas scan = lexes_def scan_characters soft_characters scan_quoted quoted_def

lemma lexes_quoted_name: "lexes (quotePqsIdentifier s) []"
proof -
  have "sql_run In_Name (doubled CHR 0x22 s @ CHR 0x22 # t) = sql_run Plain t" for t
    by (induction s) (simp_all add: doubled_def scan)
  then show ?thesis by (simp add: quotePqsIdentifier_def scan)
qed

lemma lexes_quoted_text: "lexes (quotePqsString s) []"
proof -
  have "sql_run In_Text (doubled CHR 0x27 s @ CHR 0x27 # t) = sql_run Plain t" for t
    by (induction s) (simp_all add: doubled_def scan)
  then show ?thesis by (simp add: quotePqsString_def scan)
qed

lemma lexes_empty: "lexes [] []"
  by (simp add: lexes_def)

lemma lexes_named: "CHR 0x22 \<notin> set s \<Longrightarrow> lexes (double_quoted s) []"
proof -
  assume "CHR 0x22 \<notin> set s"
  then have "sql_run In_Name (s @ CHR 0x22 # t) = sql_run Plain t" for t
    by (induction s) (auto simp: scan)
  then show ?thesis by (simp add: double_quoted_def scan)
qed

lemma lexes_quoted: "CHR 0x27 \<notin> set s \<Longrightarrow> lexes (quoted s) []"
proof -
  assume "CHR 0x27 \<notin> set s"
  then have "sql_run In_Text (s @ CHR 0x27 # t) = sql_run Plain t" for t
    by (induction s) (auto simp: scan)
  then show ?thesis by (simp add: scan)
qed

lemma lexes_placeholder: "lexes (CHR ''$'' # digits_of_nat k) [k]"
proof -
  have param: "list_all is_digit ds \<Longrightarrow> soft c \<Longrightarrow>
      sql_run (Param n) (ds @ c # t) = emit [foldl (\<lambda>n c. 10 * n + digit_value c) n ds] (sql_run Plain (c # t))"
    for ds c t n
  proof (induction ds arbitrary: n)
    case Nil
    then show ?case by simp
  next
    case (Cons d ds)
    then show ?case by (simp add: sql_run.simps(2))
  qed
  obtain d ds where digits: "digits_of_nat k = d # ds" using digits_of_nat_nonempty by (cases "digits_of_nat k") auto
  have "list_all is_digit (d # ds)" using digits_of_nat_digits [of k] digits by (simp add: list_all_iff)
  moreover have "foldl (\<lambda>n c. 10 * n + digit_value c) (digit_value d) ds = k"
    using nat_of_digits_of_nat [of k] digits by (simp add: nat_of_digits_def)
  ultimately show ?thesis using param [of ds _ "digit_value d"]
    by (simp add: lexes_def digits sql_run.simps(2) sql_plain_def)
qed

text \<open>Parts that are joined.\<close>

definition separator :: "string \<Rightarrow> bool" where
  "separator sep \<longleftrightarrow> (\<exists>c cs. sep = c # cs \<and> soft c) \<and> (\<forall>t. sql_run Plain (sep @ t) = sql_run Plain t)"

lemma lexes_then:
  assumes "lexes s ns" "separator sep" "lexes t ms"
  shows "lexes (s @ sep @ t) (ns @ ms)"
proof -
  obtain c cs where sep: "sep = c # cs" "soft c" using assms(2) by (auto simp: separator_def)
  have "sql_run Plain (s @ sep @ t @ d # u) = emit ns (sql_run Plain (sep @ t @ d # u))" for d u
    using lexes_part [OF assms(1) sep(2)] sep(1) by simp
  with assms(2,3) show ?thesis by (simp add: lexes_def separator_def)
qed

lemma lexes_joined:
  assumes "separator sep" "list_all2 lexes ts nss"
  shows "lexes (joined sep ts) (concat nss)"
proof -
  have snoc: "joined sep (t # ts) = t @ (if ts = [] then [] else sep @ joined sep ts)" for t ts
    by (cases ts) (simp_all add: joined_def)
  from assms(2) show ?thesis
  proof (induction ts nss rule: list_all2_induct)
    case (Cons t ts ns nss)
    show ?case
    proof (cases ts)
      case (Cons t' ts')
      with lexes_then [OF Cons.hyps(1) assms(1) Cons.IH] snoc [of t ts] show ?thesis by simp
    qed (use Cons.hyps snoc [of t ts] in auto)
  qed (simp add: joined_def lexes_empty)
qed

lemma separators:
  "separator '', ''" "separator '' and ''" "separator '' or ''" "separator '' ''" "separator newline"
  "separator ('','' @ newline @ ''  '')"
  by (simp_all add: separator_def scan newline_def)

section \<open>Expressions\<close>

definition alias_ok :: "string \<Rightarrow> bool" where
  "alias_ok alias \<longleftrightarrow> alias = [] \<or> lexes alias []"

lemma contract_alias_ok: "lexes contract_alias []" "alias_ok contract_alias"
  by (simp_all add: contract_alias_def alias_ok_def scan)

lemma named_alias_ok: "CHR 0x22 \<notin> set s \<Longrightarrow> alias_ok (double_quoted s)"
  by (simp add: alias_ok_def lexes_named)

lemma lexes_qualify: "alias_ok alias \<Longrightarrow> CHR 0x22 \<notin> set column \<Longrightarrow> lexes (qualify alias column) []"
  using lexes_named [of column] by (auto simp: qualify_def alias_ok_def scan)

lemma lexes_dot: "lexes alias [] \<Longrightarrow> lexes column [] \<Longrightarrow> lexes (alias @ ''.'' @ column) []"
  by (simp add: scan)

lemma lexes_logical:
  "alias_ok alias \<Longrightarrow> lexes column [] \<Longrightarrow> CHR 0x22 \<notin> set column \<Longrightarrow> lexes (logicalQualified alias column) []"
  using contract_alias_ok lexes_qualify [of "alias" column] lexes_dot [of contract_alias column]
  by (simp add: logicalQualified_def)

lemma lexes_relation: "lexes (profile_relation profile r) []"
  unfolding profile_relation_def by (intro lexes_dot lexes_quoted_name)

lemma digits_limit: "digits_of_nat max_identity_bytes = ''43690''" by code_simp

lemma lexes_identity: "lexes e [] \<Longrightarrow> lexes (compileCanonicalPublicNumericIdentitySql e) []"
  by (simp add: compileCanonicalPublicNumericIdentitySql_def digits_limit scan)

lemma lexes_identity_parts:
  "lexes a [] \<Longrightarrow> lexes b [] \<Longrightarrow> lexes (compileCanonicalPublicNumericIdentityPartsSql [a, b]) []"
  by (simp add: compileCanonicalPublicNumericIdentityPartsSql_def joined_def scan)

lemma lexes_event_id: "lexes e [] \<Longrightarrow> lexes (eventIdExpression e) []"
  by (simp add: eventIdExpression_def scan)

lemma lexes_keyed_select:
  assumes "lexes selected []" "CHR 0x22 \<notin> set alias" "CHR 0x22 \<notin> set column" "lexes key []"
  shows "lexes (keyed_select selected profile r alias column key) []"
  using assms(1,4) lexes_relation [of profile r] lexes_named [OF assms(2)]
    lexes_qualify [OF named_alias_ok [OF assms(2)] assms(3)]
  by (simp add: keyed_select_def scan)

lemma lexes_public_keys:
  assumes "lexes key []"
  shows "lexes (transactionOffsetExpression profile key) []" "lexes (eventPublicKeyExpression profile key) []"
    "lexes (packagePublicKeyExpression profile key) []" "lexes (contractTypePublicKeyExpression profile key) []"
    "lexes (exerciseTypePublicKeyExpression profile key) []"
  unfolding transactionOffsetExpression_def eventPublicKeyExpression_def packagePublicKeyExpression_def
    contractTypePublicKeyExpression_def exerciseTypePublicKeyExpression_def
  by (intro lexes_keyed_select lexes_identity lexes_identity_parts lexes_event_id lexes_qualify named_alias_ok assms;
      simp)+

lemma lexes_converted:
  assumes "lexes e []"
  shows "lexes (event_type_expression e) []" "lexes (workflow_expression e) []" "lexes (trace_expression e) []"
  using assms by (simp_all add: event_type_expression_def workflow_expression_def trace_expression_def scan)

lemma lexes_field_expression:
  assumes "lexes physical []" "alias_ok alias" "field_expression profile r field alias physical = Some e"
  shows "lexes e []"
proof -
  have name: "lexes (qualify alias column) []" if "CHR 0x22 \<notin> set column" for column
    using lexes_qualify [OF assms(2) that] .
  have parts: "lexes (qualify alias ''event_id'') []" "lexes (qualify alias ''offset'') []"
    "lexes (qualify alias ''id'') []" "lexes (qualify alias ''choice_fqn'') []"
    "lexes (compileCanonicalPublicNumericIdentityPartsSql
       [qualify alias ''payload_type'', qualify alias ''template_fqn'']) []"
    by (intro name lexes_identity_parts; simp)+
  from assms(3) show ?thesis
    using parts parts [THEN lexes_identity] lexes_identity [OF lexes_event_id [OF parts(1)]]
      lexes_public_keys [OF assms(1)] lexes_event_id [OF assms(1)] lexes_converted [OF assms(1)]
    by (cases r) (auto simp: field_expression_def split: if_splits)
qed

end
