(* ===== verification/Example_Program.thy ===== *)
theory Example_Program
  imports Evaluator_Behaviour Payload_Laws Numeric_Builtins Campaign_Laws Cache_Keys Single_Flight Delta_Refinement Query_Pattern_Laws Query_Group_Laws Query_Order_Laws Query_Totality Grpc_Dataset_Laws Package_Metadata_Laws Pqs_Lexing
begin

text \<open>
  The concrete inputs on which the properties of the root theory are applied: a workspace of one value
  whose replay, with a trace sink and one observed contract id, creates two contracts and reads the
  ledger time; a record type \<open>Iou\<close>; numeric texts; and a campaign of two actions of which the second
  throws; and a contract cache over the memory store, for a ledger of one update; and a data set of two contracts, one of them archived.
\<close>

abbreviation demo_create :: "string \<Rightarrow> expr" where
  "demo_create t \<equiv> EUpdate (UCreate None (Some (ETextLiteral t)))"

definition demo_definition :: value_def where
  "demo_definition =
     \<lparr>vd_ref = 0, vd_name = ''main'', vd_type = DlfType BtUnit None [],
      vd_expression = EUpdate (UBlock [(''a'', demo_create ''x''), (''b'', demo_create ''y'')]
        (Some (EUpdate UGetTime)))\<rparr>"

definition demo_workspace :: "dlf_package list" where
  "demo_workspace =
     [\<lparr>pkg_packageId = ''p'',
       pkg_modules = [\<lparr>mod_name = ''M'', mod_definitions = [ValueDefinition demo_definition]\<rparr>]\<rparr>]"

abbreviation demo_compilation :: compilation where
  "demo_compilation \<equiv> indexed demo_workspace"

definition demo_environment :: replay_environment where
  "demo_environment =
     \<lparr>env_offset = ''0'', env_kind = EntryCreate, env_templateId = None, env_contractId = None,
      env_choice = None, env_argument = JUndef, env_contracts = [], env_definitionResolver = None,
      env_entrypointExpression = None, env_entrypointBindingMode = None,
      env_observedCreateContractIds = Some [''obs'']\<rparr>"

definition fresh_evaluator :: "trace_step list option \<Rightarrow> evaluator_state" where
  "fresh_evaluator t =
     \<lparr>st_store = [], st_nextFrameNumber = 1, st_activeReplayContext = None, st_trace = t\<rparr>"

abbreviation demo_run :: "replay_result outcome \<times> evaluator_state" where
  "demo_run \<equiv> evaluateReplayEntrypointOrThrow demo_compilation 4 demo_definition demo_environment
     (fresh_evaluator (Some []))"

lemma demo_expression:
  "vd_expression demo_definition =
     EUpdate (UBlock [(''a'', demo_create ''x''), (''b'', demo_create ''y'')]
       (Some (EUpdate UGetTime)))"
  by (simp add: demo_definition_def)

lemma demo_identity:
  "getValueDefinitionIdentityOrThrow demo_compilation demo_definition
     = Inr \<lparr>vi_packageId = ''p'', vi_moduleName = ''M'', vi_definitionName = ''main''\<rparr>"
  using identity_of_definition [of demo_workspace "''p''" "''M''" demo_definition]
  by (simp add: demo_workspace_def demo_definition_def distinct_refs_def definitions_of_def)

lemmas run_simps =
  evaluateReplayEntrypointOrThrow_def createFrame_def replay_body_def emits_entrypoint_effects_def
  createReplayEffects_def new_replay_context_def evaluateReplayExpressionOrThrow_def
  evaluateReplayLambdaOrExpressionOrThrow_def resolveEntrypointBindingValues_def
  evaluateExpressionOrThrow_def resolveExpressionValue_def evaluateUpdateExpressionOrThrow_def
  evaluate_create_def emitReplayEffect_def push_effect_def onStep_def record_create_def
  next_contract_id_def and_then_def ret_def modify_def gets_def or_empty_def lift_result_def
  nth_opt_def new_scope_def Let_def

lemmas scope_simps =
  evaluate_let_def child_frame_def createChild_def bind_name_def deriveFrame_def evaluate_get_time_def

lemma demo_returns:
  "\<exists>res s'. demo_run = (Ok res, s') \<and> length (rr_effects res) = 2 \<and> length (creates (rr_effects res)) = 2"
  by (simp add: demo_environment_def fresh_evaluator_def demo_identity demo_expression
      run_simps scope_simps creates_def create_effect_def eval_nat_numeral)

section \<open>States, types, campaigns, caches and queries\<close>

lemma fresh_good [simp]: "good (fresh_evaluator t)"
  by (simp add: good_def fresh_evaluator_def store_ok_def values_in_store_def)

lemma fresh_trace [simp]: "st_trace (fresh_evaluator t) = t"
  "st_activeReplayContext (fresh_evaluator t) = None"
  by (simp_all add: fresh_evaluator_def)

lemma digits_one: "digits_of_nat (Suc 0) = ''1''"
  by code_simp

lemma digits_two: "digits_of_nat (Suc (Suc 0)) = ''2''"
  by code_simp

definition demo_frame :: frame where
  "demo_frame = \<lparr>fr_frameId = ''frame-1'', fr_packageId = ''p'', fr_moduleName = ''M'',
     fr_definition = demo_definition, fr_scope = 0\<rparr>"

definition demo_state :: "replay_context option \<Rightarrow> rtval \<Rightarrow> evaluator_state" where
  "demo_state ctx v =
     \<lparr>st_store = [\<lparr>sc_bindings = [(''x'', v)], sc_parent = None\<rparr>], st_nextFrameNumber = 2,
      st_activeReplayContext = ctx, st_trace = None\<rparr>"

lemma demo_state_good [simp]: "good (demo_state ctx (VText t))"
  by (simp add: good_def demo_state_def store_ok_def values_in_store_def)

lemma demo_frame_scope [simp]: "fr_scope demo_frame < store_size (demo_state ctx v)"
  by (simp add: demo_frame_def demo_state_def store_size_def)

definition demo_context :: replay_context where
  "demo_context = new_replay_context demo_environment"

lemma demo_text_run:
  "evaluateExpression demo_compilation (Suc 0) (ETextLiteral t) demo_frame (demo_state ctx v)
     = (Ok (VText t), demo_state ctx v)"
  using evaluate_untraced [of "demo_state ctx v"]
  by (simp add: demo_state_def resolveExpressionValue_def ret_def del: evaluateExpression.simps)

lemma demo_scope_x: "getBinding (st_store (demo_state ctx v)) (fr_scope demo_frame) ''x'' = Some v"
  by (simp add: demo_state_def demo_frame_def getBinding_def scope_at_def)

lemma demo_create_run:
  "\<exists>s2. evaluateExpression demo_compilation (Suc (Suc 0)) (demo_create ''new'') demo_frame
      (demo_state (Some demo_context) (VContractId ''obs'')) = (Ok (VContractId ''obs''), s2)
    \<and> getBinding (st_store s2) (fr_scope demo_frame) ''x'' = Some (VContractId ''obs'')"
proof -
  let ?s = "demo_state (Some demo_context) (VContractId ''obs'')"
  have id: "next_contract_id ?s = ''obs''"
    by (simp add: next_contract_id_def demo_state_def demo_context_def new_replay_context_def
        demo_environment_def nth_opt_def)
  have "st_trace ?s = None" "st_activeReplayContext ?s = Some demo_context"
    by (simp_all add: demo_state_def)
  from create_run [OF this(1) demo_text_run this(2), of None] id demo_scope_x show ?thesis by simp
qed

lemma demo_definitions: "definitions_of demo_workspace = [(''p'', ''M'', ValueDefinition demo_definition)]"
  by (simp add: definitions_of_def demo_workspace_def)

lemma unit_type_well_formed [simp]: "well_formed_type c (DlfType BtUnit None [])"
  by (auto simp: well_formed_type_def elim: refers_to.cases contract_id_part.cases)

lemma numeric_texts [simp]:
  "numeric_text ''1.0''" "numeric_text ''0.5''" "numeric_text ''0.3''" "numeric_text ''0''"
  "num_value ''1.0'' = 1" "num_value ''0.5'' = 1 / 2" "num_value ''0.3'' = 3 / 10" "num_value ''0'' = 0"
  "witness_scale ''1.0'' = 1"
proof -
  show "numeric_text ''1.0''" "numeric_text ''0.5''" "numeric_text ''0.3''" "numeric_text ''0''"
    by code_simp+
  show "witness_scale ''1.0'' = 1" by code_simp
  have n: "nat_of_digits ''10'' = 10" "nat_of_digits ''05'' = 5" "nat_of_digits ''03'' = 3"
    "nat_of_digits ''0'' = 0" by code_simp+
  have p: "unsigned_part (trim ''1.0'') = ''1.0''" "unsigned_part (trim ''0.5'') = ''0.5''"
    "unsigned_part (trim ''0.3'') = ''0.3''" "unsigned_part (trim ''0'') = ''0''" by code_simp+
  have i: "integer_part ''1.0'' = ''1''" "fractional_part ''1.0'' = ''0''"
    "integer_part ''0.5'' = ''0''" "fractional_part ''0.5'' = ''5''"
    "integer_part ''0.3'' = ''0''" "fractional_part ''0.3'' = ''3''"
    "integer_part ''0'' = ''0''" "fractional_part ''0'' = ''''" by code_simp+
  have s: "text_sign (trim ''1.0'') = 1" "text_sign (trim ''0.5'') = 1" "text_sign (trim ''0.3'') = 1"
    "text_sign (trim ''0'') = 1" by code_simp+
  show "num_value ''1.0'' = 1" "num_value ''0.5'' = 1 / 2" "num_value ''0.3'' = 3 / 10" "num_value ''0'' = 0"
    by (simp_all add: num_value_def decimal_text_value_def p i s n Let_def)
qed

definition iou_fields :: "dlf_field list" where
  "iou_fields =
     [\<lparr>field_name = ''owner'', field_type = DlfType BtParty None []\<rparr>,
      \<lparr>field_name = ''amount'', field_type = DlfType BtInt64 None []\<rparr>]"

definition iou_compilation :: compilation where
  "iou_compilation = indexed
     [\<lparr>pkg_packageId = ''p'', pkg_modules =
        [\<lparr>mod_name = ''M'', mod_definitions =
           [DataTypeDefinition \<lparr>dt_name = ''Iou'', dt_definition = DefRecord iou_fields\<rparr>]\<rparr>]\<rparr>]"

definition iou_ref :: type_con_ref where
  "iou_ref = \<lparr>tcr_packageId = ''p'', tcr_moduleName = ''M'', tcr_name = ''Iou''\<rparr>"

lemma iou_record: "getRecordFieldsOrThrow iou_compilation iou_ref = Inr iou_fields"
  by code_simp

lemma iou_names: "field_names_ok iou_fields"
  unfolding field_names_ok_def iou_fields_def by code_simp

definition demo_target :: "string \<Rightarrow> int \<Rightarrow> scheduling_target" where
  "demo_target key weight = \<lparr>st_actors = [''alice''], st_key = key,
     st_requiresActiveContract = False, st_weight = weight\<rparr>"

definition demo_runtime :: campaign_runtime where
  "demo_runtime = \<lparr>cr_actors = [], cr_isolation = IsolationSnapshot\<rparr>"

definition demo_config :: campaign_config where
  "demo_config = \<lparr>cc_runs = Int_Number 10, cc_depth = Int_Number 3, cc_failOnRevert = None,
     cc_path = None, cc_seed = None, cc_timeoutMs = None\<rparr>"

definition demo_init :: "(nat, unit, unit) lifecycle_init" where
  "demo_init =
     \<lparr>li_checkInvariants = None, li_cleanup = Some (\<lambda>c w. (Inr (), 0)), li_depth = Int_Number 2,
      li_execute = (\<lambda>c a w. (if w = 0 then Inr (Accepted ''u'') else Inl (Thrown_Error ''lost''), Suc w)),
      li_failOnRevert = False, li_reconcile = None, li_setup = (\<lambda>actions w. (Inr (Some ()), w))\<rparr>"

definition demo_action :: executable_action where
  "demo_action = \<lparr>ac_actor = ''alice'', ac_targetKey = ''t''\<rparr>"

abbreviation demo_candidate :: "(bool \<times> unit lifecycle_trace) \<times> nat" where
  "demo_candidate \<equiv> runCampaignCandidateAsync (\<lambda>a b. True) demo_init [demo_action, demo_action] 0"

lemma demo_depth: "right_depth demo_init [demo_action, demo_action]"
  by (simp add: right_depth_def demo_init_def)

lemma demo_candidate_parts:
  "demo_candidate = ((fst (fst demo_candidate), snd (fst demo_candidate)), snd demo_candidate)"
  by simp

lemma demo_candidate_actions:
  "lt_actions (snd (fst demo_candidate)) =
     [(demo_action, Accepted ''u''),
      (demo_action, TransportError ''Campaign action execution threw an error.'')]"
  by (simp add: runCampaignCandidateAsync_def candidate_state_def run_body_def run_action_def demo_init_def
      initial_run_def async_defs on_world_def check_phase_def reconcile_phase_def run_finally_def
      acceptable_def recordCampaignAction_def Let_def)

definition demo_invariant :: "thrown + unit \<Rightarrow> (nat, unit) campaign_invariant" where
  "demo_invariant r = \<lparr>ci_label = None, ci_name = [], ci_check = (\<lambda>c w. (r, w))\<rparr>"

definition demo_event :: created_event where
  "demo_event = \<lparr>ce_offset = ''6'', ce_nodeId = 0, ce_contractId = ''c'',
     ce_templateId = Some \<lparr>qi_packageId = ''p'', qi_moduleName = ''M'', qi_entityName = ''T''\<rparr>,
     ce_packageName = ''demo'', ce_representativePackageId = ''p'', ce_createArguments = Some [],
     ce_createdAt = Some (''0'', 0), ce_witnessParties = [''alice''], ce_signatories = [''alice''],
     ce_observers = []\<rparr>"

definition demo_update :: ledger_update where
  "demo_update = Transaction_Update \<lparr>tx_offset = ''6'', tx_updateId = ''u'', tx_workflowId = '''',
     tx_effectiveAt = None, tx_recordTime = None, tx_synchronizerId = ''s'', tx_events = [Created demo_event],
     tx_traceContext = None, tx_transactionHash = None, tx_externalTransactionHash = None,
     tx_paidTrafficCost = None\<rparr>"

definition demo_updates :: "int \<Rightarrow> int \<Rightarrow> ledger_update list" where
  "demo_updates a b = (if a < 6 \<and> 6 \<le> b then [demo_update] else [])"

definition demo_acs :: "int \<Rightarrow> acs_entry list" where
  "demo_acs n = (if n < 6 then [] else [Active_Contract (Some demo_event) ''s'' ''0''])"

definition demo_page :: "updates_request \<Rightarrow> (memory_world, updates_page) async" where
  "demo_page req = async_return \<lparr>up_lowestPageOffsetExclusive = Q_Str ''5'',
     up_highestPageOffsetInclusive = Q_Str ''6'', up_updates = [demo_update], up_nextPageToken = None\<rparr>"

definition demo_download :: "acs_request \<Rightarrow> (memory_world, acs_page option) async" where
  "demo_download req = async_return (Some \<lparr>ap_activeAtOffset = Q_Str ''5'', ap_activeContracts = Some [],
     ap_nextPageToken = Q_Undef\<rparr>)"

definition demo_services :: "memory_world cache_services" where
  "demo_services = \<lparr>sv_activeContractsPage = demo_download, sv_ledgerEnd = Some (async_return (Q_Str ''6'')),
     sv_latestPruned = Some (async_return (Q_Str ''0'')), sv_updatesPage = Some demo_page,
     sv_get = memory_get, sv_set = memory_set, sv_delete = memory_delete, sv_now = memory_clock\<rparr>"

definition demo_cache_config :: cache_config where
  "demo_cache_config = \<lparr>gc_ttlMs = Whole 1000, gc_endpointScope = ''ep'', gc_maxPageSize = None,
     gc_deltaEnabled = True, gc_maxOffsetGap = None, gc_maxUpdates = None\<rparr>"

definition demo_base :: cached_snapshot where
  "demo_base = \<lparr>cs_endpointScope = ''ep'', cs_parties = None, cs_activeAtOffset = ''5'',
     cs_expiresAtEpochMs = Whole 1000, cs_contracts = [], cs_creationMetadata = []\<rparr>"

definition demo_memory :: memory_world where
  "demo_memory = \<lparr>mw_entries = (\<lambda>_. None), mw_now = Whole 0\<rparr>"

lemma demo_delta:
  "fst (tryDeltaRefreshAsync (\<le>) demo_services demo_cache_config None ''k'' demo_base demo_memory) =
     Inr (Some \<lparr>re_activeAtOffset = ''6'', re_contractCount = 1, re_expiresAt = Whole 1000,
       re_refresh = Delta_Refresh, re_offsetGap = Some ''1'', re_deltaUpdateCount = Some 1\<rparr>)"
  by code_simp

lemma demo_refresh:
  "map_option fst (cacheContracts (\<le>) demo_services demo_cache_config Q_Undef demo_memory) =
     Some (Inr \<lparr>re_activeAtOffset = ''5'', re_contractCount = 0, re_expiresAt = Whole 1000,
       re_refresh = Full_Refresh, re_offsetGap = None, re_deltaUpdateCount = None\<rparr>)"
  by code_simp

lemma demo_ledger:
  "append_only demo_updates" "answers_from demo_page demo_updates"
proof -
  show "append_only demo_updates" by (auto simp: append_only_def demo_updates_def)
  have bounds: "page_bounds \<lparr>up_lowestPageOffsetExclusive = Q_Str ''5'',
     up_highestPageOffsetInclusive = Q_Str ''6'', up_updates = [demo_update], up_nextPageToken = None\<rparr> = Some (5, 6)"
    by code_simp
  show "answers_from demo_page demo_updates"
    unfolding answers_from_def demo_page_def async_return_def
  proof (intro allI impI)
    fix req w p w' lo hi
    assume "(Inr \<lparr>up_lowestPageOffsetExclusive = Q_Str ''5'',
       up_highestPageOffsetInclusive = Q_Str ''6'', up_updates = [demo_update], up_nextPageToken = None\<rparr>, w)
       = (Inr p :: thrown + updates_page, w' :: memory_world)" "page_bounds p = Some (lo, hi)"
    with bounds show "up_updates p = demo_updates lo hi" by (auto simp: demo_updates_def)
  qed
qed

lemma demo_active:
  "5 < hi \<Longrightarrow> collect_updates (demo_updates 5 hi) = Some entries \<Longrightarrow>
   mset (demo_acs hi) = mset (acs_after (demo_acs 5) entries)"
proof -
  have "collect_updates [demo_update] = Some [Delta_Created demo_event ''s'']"
    by (simp add: demo_update_def collectDeltaEntries_def)
  moreover assume "5 < hi" "collect_updates (demo_updates 5 hi) = Some entries"
  ultimately have "hi \<ge> 6" "entries = [Delta_Created demo_event ''s'']"
    by (auto simp: demo_updates_def)
  then show ?thesis by (simp add: demo_acs_def acs_after_def)
qed

lemma string_order: "total_preorder ((\<le>) :: string \<Rightarrow> string \<Rightarrow> bool)" "separates ((\<le>) :: string \<Rightarrow> string \<Rightarrow> bool) S"
  by (auto simp: total_preorder_def separates_def)

definition demo_contract :: "string \<Rightarrow> qvalue \<Rightarrow> query_row" where
  "demo_contract i archived =
     [(''contractId'', Q_Str i), (''payload'', Q_Obj [(''n'', Q_Str ''1'')]), (''witnesses'', Q_Arr [Q_Str ''alice'']),
      (''createdEventOffset'', Q_Str ''1''), (''archivedEventOffset'', archived),
      (''archivedAt'', if q_nullish archived then Q_Null else Q_Date (Whole 0)),
      (''active'', Q_Bool (q_nullish archived))]"

definition demo_transaction :: query_row where
  "demo_transaction = [(''ix'', Q_Str ''1''), (''offset'', Q_Str ''1''), (''effectiveAt'', Q_Date (Whole 0))]"

definition demo_rows :: "query_relation \<Rightarrow> query_row list" where
  "demo_rows relation =
     (case relation of
        Contracts \<Rightarrow> [demo_contract ''b'' Q_Null, demo_contract ''a'' (Q_Str ''1'')]
      | Contract_Types \<Rightarrow> [[(''pk'', Q_Str ''7'')]]
      | Transactions \<Rightarrow> [demo_transaction]
      | _ \<Rightarrow> [])"

definition demo_lookup :: "query_relation \<Rightarrow> string \<Rightarrow> edge_lookup" where
  "demo_lookup relation edge =
     (let public = (\<lambda>source target. \<lparr>el_complete = Q_Undef, el_from = Some [source], el_to = Some [target],
        el_privateKeys = None\<rparr>);
        keys = (\<lambda>source target. \<lparr>el_complete = Q_Undef, el_from = None, el_to = None,
        el_privateKeys = Some (map (\<lambda>k. [Q_Str k]) source, map (\<lambda>k. [Q_Str k]) target)\<rparr>) in
      if relation = Contracts \<and> edge = ''contractType'' then keys [''7'', ''7''] [''7'']
      else if relation = Contract_Types \<and> edge = ''contracts'' then keys [''7''] [''7'', ''7'']
      else if relation = Contracts \<and> edge = ''createdTransaction'' then public ''createdEventOffset'' ''offset''
      else if relation = Contracts \<and> edge = ''archivedTransaction'' then public ''archivedEventOffset'' ''offset''
      else if relation = Contracts \<and> edge = ''exercises'' then public ''contractId'' ''contractId''
      else if relation = Transactions \<and> edge = ''createdContracts'' then public ''offset'' ''createdEventOffset''
      else if relation = Transactions \<and> edge = ''archivedContracts'' then public ''offset'' ''archivedEventOffset''
      else if relation = Transactions then public ''ix'' (if edge = ''events'' then ''txIx'' else ''exercisedAtIx'')
      else if relation = Contract_Types then public ''pk'' ''contractTpePk''
      else keys [] (map digits_of_nat [0..<case map_of (queryRelationEdges relation) edge of
        Some definition \<Rightarrow> length (demo_rows (ed_target definition)) | None \<Rightarrow> 0]))"

definition demo_dataset :: query_dataset where
  "demo_dataset =
     \<lparr>qd_rows = (\<lambda>relation. Some (demo_rows relation)),
      qd_edges = (\<lambda>relation. Some (map (\<lambda>(edge, _). (edge, demo_lookup relation edge)) (queryRelationEdges relation))),
      qd_uniqueKeys = (\<lambda>relation. Some (rm_uniqueKeys (queryRelationMetadata relation)))\<rparr>"

definition demo_compiled :: compiled_dataset where
  "demo_compiled = (case createQueryDataset demo_dataset of Inr d \<Rightarrow> d | Inl _ \<Rightarrow> undefined)"

definition demo_host :: date_host where
  "demo_host = \<lparr>dh_string = (\<lambda>_. ''''), dh_parse = (\<lambda>_. Not_Finite)\<rparr>"

lemma demo_compiles: "createQueryDataset demo_dataset = Inr demo_compiled"
proof -
  have "case createQueryDataset demo_dataset of Inr _ \<Rightarrow> True | Inl _ \<Rightarrow> False" by code_simp
  then show ?thesis by (simp add: demo_compiled_def split: sum.splits)
qed

lemma demo_edge:
  "map_of (cd_edges demo_compiled Contracts) ''contractType'' = Some (demo_lookup Contracts ''contractType'')"
  "map_of (cd_edges demo_compiled Contracts) ''createdTransaction'' = Some (demo_lookup Contracts ''createdTransaction'')"
  "length (cd_rows demo_compiled Contracts) = 2" "length (cd_rows demo_compiled Transactions) = 1"
  by code_simp+

definition demo_arguments :: qvalue where
  "demo_arguments = Q_Obj [(''where'', Q_Obj [(''archivedAt'', Q_Obj [(''is'', Q_Null)])])]"

definition demo_query :: find_many_query where
  "demo_query = (case normalizeFindMany demo_host Contracts demo_arguments of Inr q \<Rightarrow> q | Inl _ \<Rightarrow> undefined)"

lemma demo_normalizes: "normalizeFindMany demo_host Contracts demo_arguments = Inr demo_query"
proof -
  have "case normalizeFindMany demo_host Contracts demo_arguments of Inr _ \<Rightarrow> True | Inl _ \<Rightarrow> False" by code_simp
  then show ?thesis by (simp add: demo_query_def split: sum.splits)
qed

lemma text_or_null_code [code]:
  "text_or_null v = (q_nullish v \<or> is_text v)"
  by (cases v) (simp_all add: text_or_null_def is_text_def)

lemma text_array_code: "(\<exists>ss. v = Q_Arr (map Q_Str ss)) = (case v of Q_Arr vs \<Rightarrow> list_all is_text vs | _ \<Rightarrow> False)"
proof (cases v)
  case (Q_Arr vs)
  have "(\<exists>ss. vs = map Q_Str ss) = list_all is_text vs"
  proof (induction vs)
    case (Cons w ws)
    then show ?case by (cases w) (auto simp: is_text_def Cons_eq_map_conv)
  qed simp
  with Q_Arr show ?thesis by simp
qed simp_all

lemma typed_field_code [code]:
  "typed_field relation field v =
     (let metadata = queryRelationMetadata relation in
      q_nullish v \<or>
      (if field \<in> set (rm_arrayFields metadata) then (case v of Q_Arr vs \<Rightarrow> list_all is_text vs | _ \<Rightarrow> False)
       else if field \<in> set (rm_dateFields metadata) then (case v of Q_Date (Whole t) \<Rightarrow> True | _ \<Rightarrow> False)
       else if field \<in> set (rm_binaryFields metadata) then (case v of Q_Bytes bs \<Rightarrow> True | _ \<Rightarrow> False)
       else json_data v))"
proof -
  have "(\<exists>t. v = Q_Date (Whole t)) = (case v of Q_Date (Whole t) \<Rightarrow> True | _ \<Rightarrow> False)"
    "(\<exists>bs. v = Q_Bytes bs) = (case v of Q_Bytes bs \<Rightarrow> True | _ \<Rightarrow> False)"
    by (auto split: qvalue.splits js_num.splits)
  then show ?thesis by (simp add: typed_field_def Let_def text_array_code)
qed

definition sound_edge :: "query_row list \<Rightarrow> edge_lookup \<Rightarrow> bool" where
  "sound_edge rows lookup \<longleftrightarrow>
     el_complete lookup \<noteq> Q_Bool False \<and>
     list_all (\<lambda>i. case source_values lookup rows i of Inr vs \<Rightarrow> list_all text_or_null vs | Inl _ \<Rightarrow> False)
       [0..<length rows]"

lemma sound_by_lists:
  assumes "list_all (\<lambda>relation. list_all (typed_row relation) (cd_rows dataset relation) \<and>
    list_all (\<lambda>(edge, lookup). sound_edge (cd_rows dataset relation) lookup) (cd_edges dataset relation)) queryRelations"
  shows "sound_dataset dataset"
proof -
  have rows: "typed_row relation (row_at dataset relation i)" if "i < length (cd_rows dataset relation)" for relation i
    using assms relation_listed [of relation] nth_mem [OF that] by (auto simp: list_all_iff row_at_def)
  have edges: "sound_edge (cd_rows dataset relation) lookup"
    if "map_of (cd_edges dataset relation) edge = Some lookup" for relation edge lookup
    using assms relation_listed [of relation] map_of_SomeD [OF that] by (fastforce simp: list_all_iff)
  have keys: "\<exists>vs. source_values lookup rows i = Inr vs \<and> list_all text_or_null vs"
    if "sound_edge rows lookup" "i < length rows" for rows lookup i
    using that by (cases "source_values lookup rows i") (force simp: sound_edge_def list_all_iff)+
  show ?thesis
    unfolding sound_dataset_def
  proof (intro conjI allI impI)
    fix relation edge lookup i assume "map_of (cd_edges dataset relation) edge = Some lookup"
    then have "sound_edge (cd_rows dataset relation) lookup" by (rule edges)
    then show "el_complete lookup \<noteq> Q_Bool False" by (simp add: sound_edge_def)
    show "\<exists>vs. source_values lookup (cd_rows dataset relation) i = Inr vs \<and> list_all text_or_null vs"
      if "i < length (cd_rows dataset relation)" by (rule keys) fact+
  qed (rule rows)
qed

lemma demo_sound: "sound_dataset demo_compiled"
proof (rule sound_by_lists)
  show "list_all (\<lambda>relation. list_all (typed_row relation) (cd_rows demo_compiled relation) \<and>
    list_all (\<lambda>(edge, lookup). sound_edge (cd_rows demo_compiled relation) lookup) (cd_edges demo_compiled relation))
    queryRelations"
    unfolding compiled_parts [OF demo_compiles] by code_simp
qed

definition demo_order :: "normalized_order list" where
  "demo_order = [\<lparr>no_path = [''contractId''], no_direction = Ascending\<rparr>]"

lemma demo_orders:
  "uniform_orders demo_host demo_order (rows_among demo_compiled Contracts [0, 1])"
  "told_apart demo_host demo_order demo_compiled Contracts [0, 1]"
proof -
  have ids: "read_at (Q_Obj (row_at demo_compiled Contracts 0)) [''contractId''] = Inr (Q_Str ''b'')"
    "read_at (Q_Obj (row_at demo_compiled Contracts 1)) [''contractId''] = Inr (Q_Str ''a'')" by code_simp+
  then have "column_at (rows_among demo_compiled Contracts [0, 1]) [''contractId''] = {Q_Str ''b'', Q_Str ''a''}"
    by (auto simp: column_at_def rows_among_def simp del: read_at.simps)
  moreover have "query_numeric (Q_Str ''b'') = None" "query_numeric (Q_Str ''a'') = None" by code_simp+
  ultimately have "uniform_column demo_host (column_at (rows_among demo_compiled Contracts [0, 1]) [''contractId''])"
    by (simp add: uniform_column_def text_column_def is_date_def is_value_def)
  with ids show "uniform_orders demo_host demo_order (rows_among demo_compiled Contracts [0, 1])"
    by (simp add: uniform_orders_def demo_order_def rows_among_def is_value_def del: read_at.simps)
  show "told_apart demo_host demo_order demo_compiled Contracts [0, 1]" by code_simp
qed

definition demo_grouping :: group_by_query where
  "demo_grouping = \<lparr>gb_relation = Contracts, gb_predicate = None, gb_by = [Group_Field [''witnesses'']],
     gb_aggregates = \<lparr>ag_count = True, ag_min = [], ag_max = [], ag_sum = []\<rparr>\<rparr>"

definition demo_fragment :: relation_fragment where
  "demo_fragment = (case mapGrpcQueryRelationFragment (\<le>) [] (demo_acs 6) of Inr f \<Rightarrow> f | Inl _ \<Rightarrow> undefined)"

lemma demo_maps: "mapGrpcQueryRelationFragment (\<le>) [] (demo_acs 6) = Inr demo_fragment"
proof -
  have "case mapGrpcQueryRelationFragment (\<le>) [] (demo_acs 6) of Inr f \<Rightarrow> True | Inl _ \<Rightarrow> False" by code_simp
  then show ?thesis by (simp add: demo_fragment_def split: sum.splits)
qed

definition demo_metadata :: "package_metadata list" where
  "demo_metadata = (case packageMetadataFromEvents (\<le>) demo_fragment of Inr (Some ms) \<Rightarrow> ms | _ \<Rightarrow> [])"

lemma demo_derives: "packageMetadataFromEvents (\<le>) demo_fragment = Inr (Some demo_metadata)"
proof -
  have "case packageMetadataFromEvents (\<le>) demo_fragment of Inr (Some ms) \<Rightarrow> True | _ \<Rightarrow> False" by code_simp
  then show ?thesis by (simp add: demo_metadata_def split: sum.splits option.splits)
qed

definition demo_ledger_dataset :: compiled_dataset where
  "demo_ledger_dataset = (case createGrpcQueryDataset (\<le>) demo_fragment (Q_Arr (map package_value demo_metadata))
     ''6'' ''i'' of Inr d \<Rightarrow> d | Inl _ \<Rightarrow> undefined)"

lemma demo_ledger_compiles:
  "createGrpcQueryDataset (\<le>) demo_fragment (Q_Arr (map package_value demo_metadata)) ''6'' ''i''
    = Inr demo_ledger_dataset"
proof -
  have "case createGrpcQueryDataset (\<le>) demo_fragment (Q_Arr (map package_value demo_metadata)) ''6'' ''i'' of
    Inr d \<Rightarrow> True | Inl _ \<Rightarrow> False" by code_simp
  then show ?thesis by (simp add: demo_ledger_dataset_def split: sum.splits)
qed

end
