(* ===== verification/Spec2Isabelle.thy ===== *)
theory Spec2Isabelle
  imports Example_Program
begin

text \<open>
  Verification of parts of the Canton TypeScript SDK: the DAML-LF interpreter with which the debugger
  replays transactions, the invariant campaigns of the testing package, and the query layer: canonical
  queries over row sets, the mapping of ledger messages to rows, and the contract cache.

  \<^bold>\<open>The program's parts.\<close> A DAR file is decoded into packages of modules
  (\<^verbatim>\<open>src/src/daml-lf/model\<close>). \<^verbatim>\<open>DamlLfCompilation\<close> indexes and validates them;
  \<^verbatim>\<open>DamlLfEvaluator\<close> evaluates value definitions and replays entry points against hydrated
  contracts, calling \<^verbatim>\<open>DamlLfBuiltinDispatch\<close> for builtins and reporting steps to a trace sink.
  A campaign (\<^verbatim>\<open>src/src/testing/campaign\<close>) is defined, scheduled into slots, and run action by
  action over caller-provided hooks, with invariants checked at every phase and a ledger isolated by
  cleanup, a reset or a snapshot. A query (\<^verbatim>\<open>src/src/query\<close>) is an argument object; the normalizer
  checks it against the schema, and an evaluator runs the normalized query over a data set whose edges are
  indexed once. Over gRPC the rows come from ledger messages: \<^verbatim>\<open>grpc-relation-mapper.ts\<close> maps
  transactions and active contracts to rows, and \<^verbatim>\<open>GrpcContractCache\<close> keeps a snapshot of the active
  contracts in a key-value store, refreshed by a download or by the updates since its offset.

  \<^bold>\<open>Theories.\<close>
  \<^item> \<open>JS_Prelude\<close>, \<open>JS_Value\<close>, \<open>JS_Ordering\<close>, \<open>JS_Async\<close>, \<open>JSON_Texts\<close>: errors as values, loops over
    results, digits, trimming, \<open>BigInt\<close>, property lists with the enumeration order and the prototype of
    JavaScript objects; stable sorting by a comparison; asynchronous steps over a state; injectivity of
    JSON texts.
  \<^item> \<open>Exact_Decimal\<close>, \<open>Decimal_Laws\<close>: the decimals of \<^verbatim>\<open>daml-lf-builtin-dispatch.ts\<close> and their
    relation to rational numbers (round trip, half-even rounding, 38 digits).
  \<^item> \<open>Runtime_Model\<close>: types, expressions, definitions, frames and runtime values.
  \<^item> \<open>Builtin_Values\<close>, \<open>Builtin_Dispatch\<close>, \<open>Builtin_Laws\<close>, \<open>Numeric_Builtins\<close>: one definition per case of
    \<open>applyOrThrow\<close>; partial application, maps (locale \<open>map_contract\<close>) and numerics.
  \<^item> \<open>Compilation\<close>, \<open>Compilation_Laws\<close>: \<^verbatim>\<open>daml-lf-compilation.ts\<close> and
    \<^verbatim>\<open>daml-lf-semantic-model.ts\<close>; which workspaces compile, what references resolve to.
  \<^item> \<open>Lexical_Scope\<close>: scopes in an explicit store, so that aliasing of parents is modelled (locale
    \<open>scope_store\<close>).
  \<^item> \<open>Evaluator_Values\<close>, \<open>Evaluator_State\<close>, \<open>Evaluator\<close>: \<^verbatim>\<open>daml-lf-evaluator.ts\<close>, one definition
    per expression and update, in outcome-passing style.
  \<^item> \<open>Evaluator_Fuel\<close>, \<open>Evaluator_Safety\<close>, \<open>Evaluator_Laws\<close>, \<open>Evaluator_Trace\<close>, \<open>Evaluator_Behaviour\<close>,
    \<open>Payload_Laws\<close>: more depth never changes a result; every step keeps the store well formed, logs what
    it emits and numbers what it creates (locales \<open>evaluator_relation\<close> and \<open>evaluator_step\<close>, interpreted
    once per relation); the trace does not influence results (locale \<open>quiet_calls\<close>); what calls, folds,
    exceptions, creates and record payloads compute.
  \<^item> \<open>Campaign_Schedule\<close>, \<open>Campaign_Definition\<close>, \<open>Campaign_Runner\<close>, \<open>Campaign_Laws\<close>: campaigns, with a
    Hoare logic of normal and exceptional postconditions for the asynchronous hooks.
  \<^item> \<open>Query_Values\<close>, \<open>Calendar\<close>, \<open>Ledger_Values\<close>, \<open>Public_Identity\<close>: unknown JavaScript values and their
    snapshots, dates, \<^verbatim>\<open>grpc-query-value-mapper.ts\<close>, \<^verbatim>\<open>public-identity.ts\<close>.
  \<^item> \<open>Query_Schema\<close>: relations, fields and edges (\<^verbatim>\<open>query-schema.ts\<close>) and the normalized queries
    (\<^verbatim>\<open>query-ast.ts\<close>). \<open>Query_Text\<close>: property reads, texts and comparisons. \<open>Query_Dataset\<close>:
    \<^verbatim>\<open>createQueryDataset\<close> and \<^verbatim>\<open>relatedQueryRows\<close>. \<open>Query_Evaluation\<close>:
    \<^verbatim>\<open>in-memory-query-evaluator.ts\<close>. \<open>Query_Normalizer\<close>, \<open>Query_Arguments\<close>:
    \<^verbatim>\<open>query-normalizer.ts\<close>.
  \<^item> \<open>Query_Dataset_Laws\<close>, \<open>Query_Pattern_Laws\<close>, \<open>Query_Laws\<close>, \<open>Query_Group_Laws\<close>, \<open>Query_Order_Laws\<close>,
    \<open>Query_Safety\<close>, \<open>Query_Totality\<close>: following an edge is a join; what a pattern matches; the active-only
    scan; groups; the order of a result; what the normalizer accepts is well formed and never throws.
  \<^item> \<open>Ledger_Messages\<close>, \<open>Relation_Mapping\<close>, \<open>Relation_Laws\<close>, \<open>Active_Set_Laws\<close>:
    \<^verbatim>\<open>mapGrpcQueryRelationFragment\<close> with its checks, and the rows it makes of a set of active contracts.
  \<^item> \<open>Package_Metadata\<close>, \<open>Grpc_Dataset\<close>: package metadata derived from events or checked
    (\<^verbatim>\<open>normalizeGrpcPackageMetadata\<close>), and the data set \<^verbatim>\<open>createGrpcQueryDataset\<close> builds of it and a
    fragment. \<open>Fragment_Invariants\<close>, \<open>Grpc_Dataset_Laws\<close>, \<open>Package_Metadata_Laws\<close>: what every mapped
    fragment satisfies (locale \<open>fragment_invariant\<close>), so that queries over the ledger keep the active-only
    hint and derived metadata passes its validation.
  \<^item> \<open>Cached_Snapshot\<close>, \<open>Contract_Cache\<close>, \<open>Memory_Cache\<close>, \<open>Single_Flight\<close>: \<^verbatim>\<open>GrpcContractCache\<close> over
    ledger services and a store, the in-memory store, and the calls in flight as a step relation.
  \<^item> \<open>Contract_Cache_Laws\<close>, \<open>Delta_Laws\<close>, \<open>Snapshot_Laws\<close>, \<open>Cache_Invariant\<close>, \<open>Cache_Refresh\<close>,
    \<open>Cache_Keys\<close>, \<open>Delta_Refinement\<close>: what a store must promise (locale \<open>cache_store\<close>, interpreted on the
    memory store), what every operation keeps of the snapshot, and that a delta refresh refines a download.
  \<^item> \<open>Example_Program\<close>: concrete inputs on which the properties below are applied.

  \<^bold>\<open>Bounds.\<close> The evaluator recurses without a bound; \<open>evaluateExpression\<close> and \<open>applyFunction\<close> take the
  allowed depth of nested calls and answer \<open>Diverge\<close> below it. \<open>replay_depth_stable\<close> shows that any
  sufficient depth gives the result of the code. The download of active contracts is a partial function
  (\<open>None\<close> when the service never stops naming new page tokens), and \<open>download_ends_with_all_pages\<close> shows
  when it ends; the window of updates stops at the code's own 10,000 pages. The other loops are structural
  or come with a measure. Times, limits and numbers of query values are whole or not finite.

  \<^bold>\<open>Parameters.\<close> The definition resolver of a replay, the hooks of a campaign, the rolls of the scheduler,
  the ledger services and the store of the cache, \<^verbatim>\<open>localeCompare\<close> (an order \<open>le\<close>), and what the host
  decides about dates: how \<^verbatim>\<open>String\<close> prints one and how a text other than an ISO instant is parsed.

  \<^bold>\<open>Not modelled.\<close> Strings hold code units up to 255. A trace sink only records. Hooks are awaited one
  after the other. Values in the store are copies, as the cache makes them; a store that shares objects
  with its callers is not covered. A row of a data set is named by its position, so the weak maps that
  recognise row objects, and freezing, are left out. A sort whose comparison throws has no result. The
  fast-check driver, artifact files, decoding of DAR archives, the debugger around the evaluator, the gRPC
  readers and the SQL text of the query providers, transports, clients and the interface generator are left
  out: I/O, generated code, or text of another language.
\<close>

section \<open>Replaying an entry point\<close>

text \<open>
  C1: A trace sink only observes. A replay with a sink and the same replay without one return the
  same outcome, and leave the same evaluator but for the trace.
\<close>

theorem replay_without_sink:
  "evaluateReplayEntrypointOrThrow c n d env (s\<lparr>st_trace := None\<rparr>) =
     (fst (evaluateReplayEntrypointOrThrow c n d env s),
      (snd (evaluateReplayEntrypointOrThrow c n d env s))\<lparr>st_trace := None\<rparr>)"
  using quiet_replay [of c n d env] by (simp add: quiet_def)

text \<open>
  C5: The effects a replay returns are exactly those it reported to the trace sink while it ran, in
  the same order.
\<close>

theorem replay_effects_reported:
  assumes "evaluateReplayEntrypointOrThrow c n d env s = (Ok res, s')"
    and "good s" "st_trace s = Some t"
  shows "\<exists>steps. st_trace s' = Some (t @ steps) \<and> reported steps = map Some (rr_effects res)"
  using assms by (rule replay_reports)

theorem replay_effects_reported_witness:
  "\<exists>res s' steps. demo_run = (Ok res, s') \<and> length (rr_effects res) = 2
     \<and> st_trace s' = Some steps \<and> reported steps = map Some (rr_effects res)"
proof -
  obtain res s' where run: "demo_run = (Ok res, s')" "length (rr_effects res) = 2"
    using demo_returns by blast
  obtain steps where "st_trace s' = Some ([] @ steps)" "reported steps = map Some (rr_effects res)"
    using replay_effects_reported [OF run(1) fresh_good fresh_trace(1)] by blast
  then show ?thesis using run by simp
qed

text \<open>
  C8: The contracts a replay creates get the observed contract ids of the environment first, in
  order, and then the synthetic ids \<open>created-<i>\<close>, numbered by the position of the create.
\<close>

theorem replay_numbers_creates:
  assumes "evaluateReplayEntrypointOrThrow c n d env s = (Ok res, s')" and "good s"
  shows "map ef_contractId (creates (rr_effects res))
    = map (\<lambda>i. Some (contract_number
        (case env_observedCreateContractIds env of Some ids \<Rightarrow> ids | None \<Rightarrow> []) i))
        [0..<length (creates (rr_effects res))]"
  using assms by (rule replay_contract_ids)

theorem replay_numbers_creates_witness:
  "\<exists>res s'. demo_run = (Ok res, s')
     \<and> map ef_contractId (creates (rr_effects res)) = [Some ''obs'', Some ''created-2'']"
proof -
  obtain res s' where run: "demo_run = (Ok res, s')" "length (creates (rr_effects res)) = 2"
    using demo_returns by blast
  have "map ef_contractId (creates (rr_effects res)) = [Some ''obs'', Some ''created-2'']"
    unfolding replay_numbers_creates [OF run(1) fresh_good]
    using run(2) by (simp add: demo_environment_def contract_number_def upt_rec digits_two)
  then show ?thesis using run(1) by (intro exI conjI)
qed

text \<open>
  C9: Whatever a replay does (it returns, throws a DAML exception or fails), the evaluator is left
  without an active replay context, and its store of scopes only grows and stays well formed: every
  parent of a scope and every scope a value refers to exists.
\<close>

theorem replay_leaves_evaluator_clean:
  assumes "evaluateReplayEntrypointOrThrow c n d env s = (r, s')"
    and "good s" "st_activeReplayContext s = None"
  shows "st_activeReplayContext s' = None \<and> good s' \<and> store_size s \<le> store_size s'"
  using replay_clears_context [OF assms(1,3)] replay_good [OF assms(1,2)] by simp

theorem replay_leaves_evaluator_clean_witness:
  "st_activeReplayContext (snd demo_run) = None \<and> good (snd demo_run)"
  using replay_leaves_evaluator_clean [of demo_compilation 4 demo_definition demo_environment
      "fresh_evaluator (Some [])" "fst demo_run" "snd demo_run"] by simp



section \<open>Scopes and functions\<close>







text \<open>
  C22: What a trace step records as locals is what a variable lookup would find, for every name,
  and it names no binding twice.
\<close>

theorem snapshot_is_lookup:
  assumes "store_ok h"
  shows "map_of (snapshotBindings h a) name = getBinding h a name
    \<and> distinct (map fst (snapshotBindings h a))"
  by (simp add: snapshot_getBinding [OF assms] distinct_snapshot)

theorem snapshot_is_lookup_witness:
  "map_of (snapshotBindings [\<lparr>sc_bindings = [(''x'', VUnit)], sc_parent = None\<rparr>,
       \<lparr>sc_bindings = [(''x'', VBoolean True)], sc_parent = Some 0\<rparr>] 1) ''x'' = Some (VBoolean True)"
proof -
  let ?h = "[\<lparr>sc_bindings = [(''x'', VUnit)], sc_parent = None\<rparr>,
       \<lparr>sc_bindings = [(''x'', VBoolean True)], sc_parent = Some 0\<rparr>]"
  have "store_ok ?h" by (simp add: store_ok_def All_less_Suc)
  from snapshot_is_lookup [OF this, of 1 "''x''"] show ?thesis
    by (simp add: getBinding_def scope_at_def)
qed

section \<open>Compilation\<close>



text \<open>
  C24: The frame made for a referenced value carries the package, the module and the definition the
  reference names, an unused frame id and a new scope, so the trace attributes its steps to the right
  module.
\<close>

theorem reference_frame_identity:
  assumes "createOrThrow ws = Inr c" "distinct_refs ws" "colon_free_names ws"
    "colon_free p" "colon_free m" "getValueDefinitionOrThrow c p m name = Inr d"
  shows "createFrame c d None s =
    (Ok \<lparr>fr_frameId = ''frame-'' @ digits_of_nat (st_nextFrameNumber s), fr_packageId = p,
         fr_moduleName = m, fr_definition = d, fr_scope = store_size s\<rparr>,
     s\<lparr>st_store := snd (new_scope None (st_store s)),
       st_nextFrameNumber := Suc (st_nextFrameNumber s)\<rparr>)"
  using assms by (rule reference_frame)

theorem reference_frame_identity_witness:
  "fst (createFrame demo_compilation demo_definition None (fresh_evaluator None))
     = Ok \<lparr>fr_frameId = ''frame-1'', fr_packageId = ''p'', fr_moduleName = ''M'',
           fr_definition = demo_definition, fr_scope = 0\<rparr>"
proof -
  have names: "colon_free_names demo_workspace" "colon_free ''p''" "colon_free ''M''" "distinct_refs demo_workspace"
    by (simp_all add: colon_free_names_def demo_definitions colon_free_def distinct_refs_def)
  have compiled: "createOrThrow demo_workspace = Inr demo_compilation"
    unfolding createOrThrow_iff
    by (simp add: demo_definitions well_formed_definition_def demo_definition_def)
  have "getValueDefinitionOrThrow demo_compilation ''p'' ''M'' ''main'' = Inr demo_definition"
    by (simp add: getValueDefinitionOrThrow_def indexed_lookup demo_definitions demo_definition_def)
  from reference_frame_identity [OF compiled names(4,1,2,3) this, of "fresh_evaluator None"] digits_one
  show ?thesis by (simp add: fresh_evaluator_def store_size_def)
qed

section \<open>Exact decimals\<close>

text \<open>
  C25: Printing a decimal and parsing the text gives the decimal back in lowest terms, and two decimals
  print alike exactly when they are the same rational number.
\<close>

theorem decimal_text_round_trip:
  "parseExactDecimal (formatExactDecimal d) = Inr (normalizeExactDecimal d)
   \<and> (formatExactDecimal d = formatExactDecimal e \<longleftrightarrow> dec_val d = dec_val e)"
  by (simp add: parse_format format_eq_iff)

text \<open>
  C26: Quantizing to a scale rounds to the nearest multiple of the unit of that scale, ties to the even
  one, and fails exactly when the result has more than 38 digits at that scale.
\<close>

theorem quantize_rounds_half_even:
  assumes "0 \<le> t"
  shows "\<exists>r. nearest_even (dec_val d * 10 ^ nat t) r \<and>
    quantizeExactDecimal d t HalfEven =
      (if \<bar>r\<bar> < 10 ^ 38 then Inr (normalizeExactDecimal \<lparr>significand = r, scale = nat t\<rparr>)
       else Inl numeric_overflow)"
  using assms by (rule quantize_half_even)

theorem quantize_rounds_half_even_witness:
  "quantizeExactDecimal \<lparr>significand = 25, scale = 1\<rparr> 0 HalfEven = Inr \<lparr>significand = 2, scale = 0\<rparr>"
proof -
  obtain r where r: "nearest_even (dec_val \<lparr>significand = 25, scale = 1\<rparr> * 10 ^ nat 0) r"
    "quantizeExactDecimal \<lparr>significand = 25, scale = 1\<rparr> 0 HalfEven =
      (if \<bar>r\<bar> < 10 ^ 38 then Inr (normalizeExactDecimal \<lparr>significand = r, scale = nat 0\<rparr>)
       else Inl numeric_overflow)"
    using quantize_rounds_half_even [of 0 "\<lparr>significand = 25, scale = 1\<rparr>"] by auto
  have "nearest_even (25 / 10) 2" by (simp add: nearest_even_def)
  then have "r = 2" using r(1) nearest_even_unique [of "25 / 10" r 2] by (simp add: dec_val_def)
  then show ?thesis using r(2) by (simp add: normalizeExactDecimal_def)
qed

section \<open>Builtins on numerics\<close>

text \<open>
  C27: \<open>MUL_NUMERIC\<close> multiplies exactly and rounds once, half to even, to the scale its first argument
  is written with; it fails exactly when the rounded product exceeds 38 digits.
\<close>

theorem multiply_rounds_to_witness_scale:
  assumes "numeric_text w" "numeric_text a" "numeric_text b"
  shows "\<exists>r. nearest_even (num_value a * num_value b * 10 ^ witness_scale w) r \<and>
    applyOrThrow ''MUL_NUMERIC'' [] [VNumeric w, VNumeric a, VNumeric b]
      = scaled_result r (witness_scale w)"
  using assms by (rule mul_numeric)

theorem multiply_rounds_to_witness_scale_witness:
  "applyOrThrow ''MUL_NUMERIC'' [] [VNumeric ''1.0'', VNumeric ''0.5'', VNumeric ''0.3''] = scaled_result 2 1"
proof -
  obtain r where r: "nearest_even (3 / 2) r"
    "applyOrThrow ''MUL_NUMERIC'' [] [VNumeric ''1.0'', VNumeric ''0.5'', VNumeric ''0.3''] = scaled_result r 1"
    using multiply_rounds_to_witness_scale [of "''1.0''" "''0.5''" "''0.3''"] by auto
  have "nearest_even (3 / 2) 2" by (simp add: nearest_even_def)
  then show ?thesis using r nearest_even_unique by blast
qed

text \<open>
  C28: \<open>DIV_NUMERIC\<close> gives the exact quotient rounded once, half to even, to the scale of its first
  argument; division by any text of zero is an error of its own.
\<close>

theorem divide_rounds_or_fails:
  assumes "numeric_text w" "numeric_text a" "numeric_text b"
  shows "if num_value b = 0
    then applyOrThrow ''DIV_NUMERIC'' [] [VNumeric w, VNumeric a, VNumeric b]
      = Inl (ValidationError ''daml lf builtin DIV_NUMERIC cannot divide by zero'')
    else \<exists>r. nearest_even (num_value a / num_value b * 10 ^ witness_scale w) r \<and>
      applyOrThrow ''DIV_NUMERIC'' [] [VNumeric w, VNumeric a, VNumeric b]
        = scaled_result r (witness_scale w)"
  using div_numeric [OF assms] div_numeric_zero [OF assms] by simp

theorem divide_rounds_or_fails_witness:
  "applyOrThrow ''DIV_NUMERIC'' [] [VNumeric ''1.0'', VNumeric ''0.5'', VNumeric ''0''] =
     Inl (ValidationError ''daml lf builtin DIV_NUMERIC cannot divide by zero'')"
  using divide_rounds_or_fails [of "''1.0''" "''0.5''" "''0''"] by simp

text \<open>
  C29: \<open>ADD_NUMERIC\<close>, \<open>SUB_NUMERIC\<close> and the order builtins compute on the rational numbers the texts
  stand for, without rounding and whatever the number of decimals each is written with.
\<close>

theorem numeric_operations_exact:
  assumes "numeric_text a" "numeric_text b"
  shows "(\<exists>d. applyOrThrow ''ADD_NUMERIC'' [] [VNumeric a, VNumeric b] = Inr (VNumeric (formatExactDecimal d))
            \<and> dec_val d = num_value a + num_value b)
    \<and> (\<exists>d. applyOrThrow ''SUB_NUMERIC'' [] [VNumeric a, VNumeric b] = Inr (VNumeric (formatExactDecimal d))
            \<and> dec_val d = num_value a - num_value b)
    \<and> applyOrThrow ''LESS'' [] [VNumeric a, VNumeric b] = Inr (VBoolean (num_value a < num_value b))
    \<and> applyOrThrow ''LESS_EQ'' [] [VNumeric a, VNumeric b] = Inr (VBoolean (num_value a \<le> num_value b))
    \<and> applyOrThrow ''GREATER'' [] [VNumeric a, VNumeric b] = Inr (VBoolean (num_value a > num_value b))
    \<and> applyOrThrow ''GREATER_EQ'' [] [VNumeric a, VNumeric b] = Inr (VBoolean (num_value a \<ge> num_value b))"
  using add_sub_numeric [OF assms] compare_numeric [OF assms] by blast

theorem numeric_operations_exact_witness:
  "applyOrThrow ''LESS'' [] [VNumeric ''0.3'', VNumeric ''0.5''] = Inr (VBoolean True)
   \<and> (\<exists>d. applyOrThrow ''ADD_NUMERIC'' [] [VNumeric ''0.3'', VNumeric ''0.5''] = Inr (VNumeric (formatExactDecimal d))
        \<and> dec_val d = 4 / 5)"
proof -
  have "num_value ''0.3'' + num_value ''0.5'' = 4 / 5" by simp
  then show ?thesis using numeric_operations_exact [of "''0.3''" "''0.5''"] by simp
qed

text \<open>
  C31: A builtin that does not yet have all its arguments returns itself with the arguments gathered so
  far: whenever the result of an application is a builtin, it is the same one, with the new arguments
  appended to the old. No application returns another builtin or drops an argument.
\<close>

theorem builtin_application_accumulates:
  assumes "applyOrThrow f as xs = Inr (VBuiltin g ys)"
  shows "g = f \<and> ys = as @ xs"
  using partial_application [OF assms] by simp

theorem builtin_application_accumulates_witness:
  "\<exists>g ys. applyOrThrow ''ADD_INT64'' [] [VInt64 ''1''] = Inr (VBuiltin g ys) \<and> g = ''ADD_INT64''"
proof -
  have "applyOrThrow ''ADD_INT64'' [] [VInt64 ''1''] = Inr (VBuiltin ''ADD_INT64'' [VInt64 ''1''])"
    by code_simp
  then show ?thesis using builtin_application_accumulates by blast
qed

section \<open>Maps\<close>

text \<open>
  C32: A generic map with text keys behaves as a finite map: lookups after an insert or a delete, and a
  size that counts keys once.
\<close>

theorem gen_map_laws:
  assumes "distinct (map fst ps)"
  shows "\<exists>ps1 ps2.
    applyOrThrow ''GENMAP_INSERT'' [] [VText k, v, gen_map_value ps] = Inr (gen_map_value ps1)
    \<and> applyOrThrow ''GENMAP_DELETE'' [] [VText k, gen_map_value ps] = Inr (gen_map_value ps2)
    \<and> distinct (map fst ps1) \<and> distinct (map fst ps2)
    \<and> map_of ps1 = (map_of ps)(k \<mapsto> unwrapValue v) \<and> map_of ps2 = (map_of ps)(k := None)
    \<and> length ps1 = (if map_of ps k = None then Suc (length ps) else length ps)
    \<and> (\<forall>j. applyOrThrow ''GENMAP_LOOKUP'' [] [VText j, gen_map_value ps1] =
         Inr (case map_of ps1 j of None \<Rightarrow> VUnit | Some w \<Rightarrow> hydrateValue w))
    \<and> applyOrThrow ''GENMAP_SIZE'' [] [gen_map_value ps1] = Inr (VInt64 (string_of_int (int (length ps1))))"
proof (intro exI conjI)
  show "applyOrThrow ''GENMAP_INSERT'' [] [VText k, v, gen_map_value ps]
      = Inr (gen_map_value (gen_put k (unwrapValue v) ps))"
    "applyOrThrow ''GENMAP_DELETE'' [] [VText k, gen_map_value ps] = Inr (gen_map_value (gen_remove k ps))"
    by (simp_all only: gen_map_builtins)
  show "distinct (map fst (gen_put k (unwrapValue v) ps))" "distinct (map fst (gen_remove k ps))"
    using assms by (auto simp: gen_put_def gen_remove_def distinct_map_filter)
  show "length (gen_put k (unwrapValue v) ps) = (if map_of ps k = None then Suc (length ps) else length ps)"
    using assms by (simp add: gen_map.count_put distinct_properties_def)
qed (simp_all only: map_of_put map_of_remove gen_map_builtins simp_thms)

theorem gen_map_laws_witness:
  "\<exists>ps1. applyOrThrow ''GENMAP_INSERT'' [] [VText ''k'', VText ''v'', gen_map_value []] = Inr (gen_map_value ps1)
     \<and> length ps1 = 1"
  using gen_map_laws [of "[]" "''k''" "VText ''v''"] by auto

section \<open>Record payloads\<close>

text \<open>
  C33: A record payload given with field names and one given with positions normalize to the same
  record, whose fields are those of the type in the declared order, each value normalized to its
  field's type.
\<close>

theorem record_normalization_agrees:
  assumes "getRecordFieldsOrThrow c ref = Inr fs" "field_names_ok fs"
    "length vs = length fs" "JUndef \<notin> set vs"
  shows "normalizeSemanticRecordValue c (named_record fs vs) (Some ref) = normalized_record c fs vs
    \<and> normalizeSemanticRecordValue c (positional_record fs vs) (Some ref) = normalized_record c fs vs"
  using normalize_named [OF assms] normalize_positional [OF assms] by simp

theorem record_normalization_agrees_witness:
  "normalizeSemanticRecordValue iou_compilation
      (JObj [(''0'', JStr ''al''), (''1'', JNum 7)]) (Some iou_ref)
    = JObj [(''owner'', JStr ''al''), (''amount'', JNum 7)]"
proof -
  let ?vs = "[JStr ''al'', JNum 7]"
  have "positional_record iou_fields ?vs = JObj [(''0'', JStr ''al''), (''1'', JNum 7)]"
    "normalized_record iou_compilation iou_fields ?vs = JObj [(''owner'', JStr ''al''), (''amount'', JNum 7)]"
    by code_simp+
  then show ?thesis
    using record_normalization_agrees [OF iou_record iou_names, of ?vs] by (simp add: iou_fields_def)
qed

section \<open>Campaigns\<close>

text \<open>
  C34: Scheduling gives a slot for every step of the depth asked for, and every slot is valid: it names
  an eligible target and one of that target's actors, or it is a probe and no target is eligible.
\<close>

theorem schedule_fills_depth:
  assumes "1 \<le> n" "n < 2 ^ 32" "safe_int (total_weight (filter (eligible h) targets))"
  shows "\<exists>slots. scheduleCampaignSlots actorRolls (Int_Number n) h targetRolls targets = Inr slots
    \<and> int (length slots) = n \<and> (\<forall>slot \<in> set slots. valid_slot h targets slot)"
  using assms by (rule schedule_complete)

theorem schedule_fills_depth_witness:
  "\<exists>slots. scheduleCampaignSlots [] (Int_Number 2) False [Int_Number 5] [demo_target ''t'' 3] = Inr slots
     \<and> int (length slots) = 2"
proof -
  have "safe_int (total_weight (filter (eligible False) [demo_target ''t'' 3]))"
    by (simp add: demo_target_def eligible_def total_weight_def safe_int_def max_safe_def)
  then show ?thesis using schedule_fills_depth [of 2 False] by fastforce
qed

text \<open>
  C35: Selection is fair to the weights: of the rolls below the total weight, the number that select a
  target is exactly that target's weight.
\<close>

theorem selection_share_is_weight:
  assumes "\<forall>t \<in> set ts. 0 < st_weight t" "distinct ts" "i < length ts"
  shows "int (card {r \<in> {0..<total_weight ts}. selectByWeight ts r (total_weight ts) = Inr (ts ! i)})
    = st_weight (ts ! i)"
  using assms by (rule select_share)

theorem selection_share_is_weight_witness:
  "int (card {r \<in> {0..<5}. selectByWeight [demo_target ''t'' 3, demo_target ''u'' 2] r 5 = Inr (demo_target ''u'' 2)})
     = 2"
  using selection_share_is_weight [of "[demo_target ''t'' 3, demo_target ''u'' 2]" 1]
  by (simp add: demo_target_def total_weight_def)

text \<open>
  C36: A campaign definition is accepted exactly when its runs and depth are positive safe integers,
  its seed and timeout are admissible, it has a target, the keys of its targets are distinct and not
  empty, every named actor exists, and its handlers have distinct names and, under cleanup isolation,
  clean up.
\<close>

theorem campaign_accepted_iff:
  "(\<exists>c. defineInvariantCampaign rt config handlers targets = Inr c) \<longleftrightarrow>
     config_ok config \<and> targets \<noteq> [] \<and> (\<forall>t \<in> set targets. target_ok rt t) \<and>
     distinct (map ct_key targets) \<and>
     (\<forall>hs. handlers = Some hs \<longrightarrow>
        distinct (map hd_name hs) \<and>
        (cr_isolation rt = IsolationCleanup \<longrightarrow> (\<forall>h \<in> set hs. \<not> hd_cleanup_none h)))"
  by (rule defineInvariantCampaign_ok)

theorem campaign_accepted_iff_witness:
  "\<exists>c. defineInvariantCampaign demo_runtime demo_config None [\<lparr>ct_key = ''t'', ct_actors = None\<rparr>] = Inr c"
  unfolding campaign_accepted_iff
  by (simp add: config_ok_def demo_config_def positive_safe_def max_safe_def target_ok_def)

text \<open>
  C37: A run passes exactly when no invariant failed, nothing threw outside an action, every generated
  action was executed and every outcome was acceptable: accepted, or a revert where reverts are allowed.
\<close>

theorem run_passes_iff:
  assumes "runCampaignCandidateAsync le init actions w = ((passed, t), w')" "right_depth init actions"
  shows "passed \<longleftrightarrow> lt_failures t = [] \<and> lt_failureKind t = None \<and> map fst (lt_actions t) = actions
    \<and> (\<forall>(a, outcome) \<in> set (lt_actions t). acceptable (li_failOnRevert init) outcome)"
  using candidate_trace(4) [OF assms] .

theorem run_passes_iff_witness: "\<not> fst (fst demo_candidate)"
  using run_passes_iff [OF demo_candidate_parts demo_depth] demo_candidate_actions
  by (simp add: demo_init_def acceptable_def)

text \<open>
  C38: A run executes the generated actions in order and stops after the first outcome that is not
  acceptable: what it reports is a prefix of the actions, of which all but the last were acceptable.
\<close>

theorem run_stops_at_first_failure:
  assumes "runCampaignCandidateAsync le init actions w = ((passed, t), w')" "right_depth init actions"
  shows "(\<exists>rest. map fst (lt_actions t) @ rest = actions)
    \<and> (\<forall>(a, outcome) \<in> set (butlast (lt_actions t)). acceptable (li_failOnRevert init) outcome)"
  using candidate_trace(1,3) [OF assms] by blast

theorem run_stops_at_first_failure_witness:
  "\<exists>rest. map fst (lt_actions (snd (fst demo_candidate))) @ rest = [demo_action, demo_action]"
  using run_stops_at_first_failure [OF demo_candidate_parts demo_depth] by blast

text \<open>
  C39: Once setup has produced a context, cleanup runs, followed by the checks of the post-cleanup
  phase, and nothing runs after them, whatever threw or failed before.
\<close>

theorem run_always_cleans_up:
  assumes "right_depth init actions" "li_setup init actions w = (Inr (Some c), w1)"
  shows "\<exists>w2. snd (runCampaignCandidateAsync le init actions w)
           = checked_world init c PostCleanup (cleanup_world init c w2)"
  using assms by (rule candidate_cleanup)

theorem run_always_cleans_up_witness: "snd demo_candidate = 0"
proof -
  have "li_setup demo_init [demo_action, demo_action] 0 = (Inr (Some ()), 0)" by (simp add: demo_init_def)
  from run_always_cleans_up [OF demo_depth this, of "\<lambda>a b. True"] show ?thesis
    by (simp add: checked_world_def cleanup_world_def demo_init_def)
qed

text \<open>
  C40: Declared invariants are all evaluated at a checkpoint: invariants that leave the world as it is
  contribute one failure for each that throws, in order, under its label, its function name or its
  position, and the others contribute none.
\<close>

theorem declared_invariants_reported:
  assumes "\<forall>i \<in> set invariants. snd (ci_check i ctx w) = w"
  shows "invariant_campaign_check invariants None ctx phase w
    = (Inr (invariant_failures ctx 0 invariants w), w)"
  using assms by (rule declared_failures)

theorem declared_invariants_reported_witness:
  "fst (invariant_campaign_check [demo_invariant (Inl (Thrown_Error ''m'')), demo_invariant (Inr ())]
      None None (AfterRun :: unit lifecycle_phase) 0)
     = Inr [\<lparr>if_code = ''thrown'', if_invariant = ''invariant-1'', if_message = ''m''\<rparr>]"
  using declared_invariants_reported [of "[demo_invariant (Inl (Thrown_Error ''m'')), demo_invariant (Inr ())]"
      None 0 "AfterRun :: unit lifecycle_phase"]
  by (simp add: demo_invariant_def invariant_failures_def invariant_name_def error_message_def digits_one
      upt_rec)

section \<open>The contract cache\<close>

text \<open>A ledger with one update, at offset 6, and its active contracts.\<close>

text \<open>
  C2: A delta refresh refines a full download. Take a ledger whose updates between two offsets are
  \<open>updates\<close> and whose active contracts at an offset are \<open>acs\<close>, moving from one offset to a later one by
  the created and archived events in between, and an update service that answers pages of it. When the
  base snapshot materializes the active contracts at its offset and a refresh patches it, the refresh
  ends at a later offset and leaves the store exactly as downloading and storing the active contracts at
  that offset would have left it, with the same count and expiry.
\<close>

theorem delta_refresh_is_download:
  assumes "tryDeltaRefreshAsync le sv c parties key b w = (Inr (Some r), w')" "re_refresh r = Delta_Refresh"
    and "checkCacheConfig c = Inr ()"
    and "append_only updates" "\<And>svc. sv_updatesPage sv = Some svc \<Longrightarrow> answers_from svc updates"
    and "parseCacheOffset (Q_Str (cs_activeAtOffset b)) = Some lo"
    and "materializes le (acs lo) (cs_contracts b) (cs_creationMetadata b)"
    and "\<And>hi entries. lo < hi \<Longrightarrow> collect_updates (updates lo hi) = Some entries \<Longrightarrow>
       mset (acs hi) = mset (acs_after (acs lo) entries)"
    and "total_preorder le" "\<And>hi. separates le (acs_texts (acs hi))"
  shows "\<exists>hi w1 r'. lo < hi \<and> re_activeAtOffset r = string_of_int hi
    \<and> store_download le sv c parties key (Some b) (string_of_int hi) (acs hi) w1 = (Inr r', w')
    \<and> re_activeAtOffset r' = re_activeAtOffset r \<and> re_contractCount r' = re_contractCount r
    \<and> re_expiresAt r' = re_expiresAt r"
  using assms by (rule delta_is_download)

theorem delta_refresh_is_download_witness:
  "\<exists>w w1 w' r r'. tryDeltaRefreshAsync (\<le>) demo_services demo_cache_config None ''k'' demo_base w = (Inr (Some r), w')
     \<and> re_activeAtOffset r = ''6'' \<and> re_contractCount r = 1
     \<and> store_download (\<le>) demo_services demo_cache_config None ''k'' (Some demo_base) ''6'' (demo_acs 6) w1 = (Inr r', w')"
proof -
  obtain w' where d: "tryDeltaRefreshAsync (\<le>) demo_services demo_cache_config None ''k'' demo_base demo_memory =
      (Inr (Some \<lparr>re_activeAtOffset = ''6'', re_contractCount = 1, re_expiresAt = Whole 1000,
       re_refresh = Delta_Refresh, re_offsetGap = Some ''1'', re_deltaUpdateCount = Some 1\<rparr>), w')"
    using demo_delta by (metis prod.collapse)
  have config: "checkCacheConfig demo_cache_config = Inr ()" by code_simp
  have offset: "parseCacheOffset (Q_Str (cs_activeAtOffset demo_base)) = Some 5" by code_simp
  have "mapGrpcQueryRelationFragment (\<le>) [] [] = Inr \<lparr>rf_contracts = [], rf_transactions = [], rf_events = [],
      rf_exercises = [], rf_typeIdentities = [], rf_packageIdentities = [], rf_creationIdentities = [],
      rf_activeContractIdentities = []\<rparr>" by code_simp
  then have base: "materializes (\<le>) (demo_acs 5) (cs_contracts demo_base) (cs_creationMetadata demo_base)"
    by (simp add: materializes_def demo_acs_def demo_base_def)
  have svc: "answers_from svc demo_updates" if "sv_updatesPage demo_services = Some svc" for svc
    using that demo_ledger(2) by (simp add: demo_services_def)
  let ?r = "\<lparr>re_activeAtOffset = ''6'', re_contractCount = 1, re_expiresAt = Whole 1000,
       re_refresh = Delta_Refresh, re_offsetGap = Some ''1'', re_deltaUpdateCount = Some 1\<rparr>"
  have refresh: "re_refresh ?r = Delta_Refresh" by simp
  obtain hi w1 r' where hi: "re_activeAtOffset ?r = string_of_int hi"
    and store: "store_download (\<le>) demo_services demo_cache_config None ''k'' (Some demo_base) (string_of_int hi) (demo_acs hi) w1 = (Inr r', w')"
    by (rule delta_refresh_is_download [where acs = demo_acs and updates = demo_updates,
          OF d refresh config demo_ledger(1) _ offset base _ string_order(1), THEN exE])
      (erule svc | erule (1) demo_active | rule string_order | elim exE conjE)+
  have "string_of_int 6 = ''6''" by code_simp
  with hi have "string_of_int hi = string_of_int 6" by simp
  then have "hi = 6" by (rule string_of_int_inj)
  with store hi have "store_download (\<le>) demo_services demo_cache_config None ''k'' (Some demo_base) ''6'' (demo_acs 6) w1 = (Inr r', w')"
    by simp
  with d show ?thesis
    by (intro exI [of _ demo_memory] exI [of _ w1] exI [of _ w'] exI [of _ ?r] exI [of _ r'] conjI) simp_all
qed

text \<open>
  C7: What a refresh stores is read back until it expires, and never after. Over the memory cache,
  when the base it found under its key has one row per contract, a refresh that returns, in whichever of
  the three ways it went, leaves a snapshot of the offset, the number of contracts and the expiry it
  returned, with exactly one metadata entry per row. Reading with the same parties gives that snapshot
  at every time before the expiry; from then on it is gone, also as a base for the next refresh.
\<close>

theorem refresh_is_read_back:
  assumes "sv_get sv = memory_get" "sv_set sv = memory_set" "sv_delete sv = memory_delete" "sv_now sv = memory_clock"
    and "gc_ttlMs c = Whole ttl" "0 < ttl" "normalizeParties args = Inr parties"
    and "cacheContracts le sv c args w = Some (Inr r, w')"
    and "\<And>v n b. memory_holds w (cacheKey (gc_endpointScope c) parties) = Some v \<Longrightarrow>
      asCompatibleSnapshot v (gc_endpointScope c) parties n True = Some b \<Longrightarrow> distinct (map cr_contractId (cs_contracts b))"
    and "mw_now w' = Whole t" "t \<le> t'" "valid_instant (Whole t')"
  shows "\<exists>s. cs_activeAtOffset s = re_activeAtOffset r \<and> length (cs_contracts s) = re_contractCount r
    \<and> re_expiresAt r = Whole (t + ttl)
    \<and> distinct (map cr_contractId (cs_contracts s)) \<and> coherent (cs_creationMetadata s) (cs_contracts s)
    \<and> fst (readSnapshotAsync sv c args (memory_elapse t' w')) = Inr (if t' < t + ttl then Some s else None)
    \<and> fst (readBase sv c parties (cacheKey (gc_endpointScope c) parties) True (memory_elapse t' w'))
        = Inr (if t' < t + ttl then Some s else None)"
proof -
  have sv: "memory.on_store sv" using assms(1-4) by (simp add: memory.on_store_def)
  have "populateAsync le sv c parties (cacheKey (gc_endpointScope c) parties) w = Some (Inr r, w')"
    using assms(7,8) by (simp add: cacheContracts_def)
  moreover have "memory.base_stored w (cacheKey (gc_endpointScope c) parties) c parties"
    using assms(9) by (simp add: memory.base_stored_def base_ok_def)
  ultimately have "memory.refreshed c parties (cacheKey (gc_endpointScope c) parties) ttl r w'"
    using memory.populate_refreshed [OF sv assms(5)] by blast
  from memory.refreshed_read [OF sv assms(5,6) this assms(10-12)] obtain s where
    s: "rows_wf (cs_contracts s) (cs_creationMetadata s)" "cs_activeAtOffset s = re_activeAtOffset r"
      "length (cs_contracts s) = re_contractCount r" "re_expiresAt r = Whole (t + ttl)"
    and reads: "\<And>ignoreExpiry. fst (readBase sv c parties (cacheKey (gc_endpointScope c) parties) ignoreExpiry
        (memory_elapse t' w')) = Inr (if t' < t + ttl then Some s else None)" by metis
  have "readSnapshotAsync sv c args = readBase sv c parties (cacheKey (gc_endpointScope c) parties) False"
    using assms(7) by (simp add: readSnapshotAsync_def async_bind_def async_result_def)
  with s reads wf_coherent [OF s(1)] show ?thesis
    by (intro exI [of _ s]) (simp add: rows_wf_def)
qed

theorem refresh_is_read_back_witness:
  "\<exists>w s. fst (readSnapshotAsync demo_services demo_cache_config Q_Undef (memory_elapse 999 w)) = Inr (Some s)
     \<and> cs_activeAtOffset s = ''5''
     \<and> fst (readSnapshotAsync demo_services demo_cache_config Q_Undef (memory_elapse 1000 w)) = Inr None"
proof -
  let ?r = "\<lparr>re_activeAtOffset = ''5'', re_contractCount = 0, re_expiresAt = Whole 1000,
       re_refresh = Full_Refresh, re_offsetGap = None, re_deltaUpdateCount = None\<rparr>"
  obtain w where d: "cacheContracts (\<le>) demo_services demo_cache_config Q_Undef demo_memory = Some (Inr ?r, w)"
    using demo_refresh by (cases "cacheContracts (\<le>) demo_services demo_cache_config Q_Undef demo_memory") auto
  have "map_option (\<lambda>x. mw_now (snd x)) (cacheContracts (\<le>) demo_services demo_cache_config Q_Undef demo_memory) = Some (Whole 0)"
    by code_simp
  with d have now: "mw_now w = Whole 0" by simp
  have sv: "sv_get demo_services = memory_get" "sv_set demo_services = memory_set"
    "sv_delete demo_services = memory_delete" "sv_now demo_services = memory_clock"
    and ttl: "gc_ttlMs demo_cache_config = Whole 1000"
    by (simp_all add: demo_services_def demo_cache_config_def)
  have parties: "normalizeParties Q_Undef = Inr None" by (simp add: normalizeParties_def)
  have empty: "memory_holds demo_memory k \<noteq> Some v" for k v by (simp add: memory_holds_def demo_memory_def)
  note read = refresh_is_read_back [OF sv ttl _ parties d _ now]
  have "valid_instant (Whole 999)" "valid_instant (Whole 1000)" by (simp_all add: valid_instant_def)
  from read [OF _ _ _ this(1)] read [OF _ _ _ this(2)] empty obtain s s' where
    "cs_activeAtOffset s = ''5''"
    "fst (readSnapshotAsync demo_services demo_cache_config Q_Undef (memory_elapse 999 w)) = Inr (Some s)"
    "fst (readSnapshotAsync demo_services demo_cache_config Q_Undef (memory_elapse 1000 w)) = Inr None" by auto
  then show ?thesis by blast
qed

text \<open>
  C17: The download of the active contracts ends whenever the service names finitely many page tokens,
  since a token seen twice is an error; and a download that succeeds holds the contracts of all pages
  the service gave, in order, from the first page to the one without a further token, all of them at
  the offset it returns.
\<close>

theorem download_ends_with_all_pages:
  assumes "finite T" "\<And>req w v w' page token. svc req w = (Inr v, w') \<Longrightarrow>
      materializeActiveContractsPage v = Inr page \<Longrightarrow> mp_nextPageToken page = Some token \<Longrightarrow>
      token_key token \<in> T"
  shows "\<exists>r. download_pages svc req None [] [] w = Some r
    \<and> (\<forall>offset acs w'. r = (Inr (offset, acs), w') \<longrightarrow>
         (\<exists>pages. acs_pages svc req [] w pages w' \<and> acs = concat (map mp_activeContracts pages)
            \<and> (\<forall>p \<in> set pages. mp_activeAtOffset p = offset)))"
proof -
  have "\<exists>r. download_pages svc req None [] [] w = Some r"
    by (rule download_ends [OF assms(1)]) (rule assms(2))
  then obtain r where r: "download_pages svc req None [] [] w = Some r" ..
  with download_pages_read [OF r] show ?thesis by (intro exI [of _ r]) auto
qed

theorem download_ends_with_all_pages_witness:
  "\<exists>r. download_pages demo_download \<lparr>ar_parties = None, ar_maxPageSize = None, ar_pageToken = None\<rparr> None [] [] demo_memory = Some r"
proof -
  have none: "token_key token \<in> {}" if "demo_download req w = (Inr v, w')" "materializeActiveContractsPage v = Inr page"
    "mp_nextPageToken page = Some token" for req w v w' page token
    using that by (auto simp: demo_download_def async_return_def materializeActiveContractsPage_def
        bind_result_Inr_iff materializePageToken_def split: bool.splits qvalue.splits)
  show ?thesis
    by (rule download_ends_with_all_pages [where T = "{}" and svc = demo_download, THEN ex_forward])
      (simp, erule (2) none, blast)
qed

text \<open>
  C21: Snapshots of different scopes or parties never meet: two lists of parties give the same cache key
  exactly when the endpoint scopes are equal and the lists have the same members. JSON escaping is
  part of the key, so no choice of names can make two keys collide.
\<close>

theorem cache_keys_separate:
  assumes "ss \<noteq> []" "\<forall>s \<in> set ss. trim s \<noteq> []" "ts \<noteq> []" "\<forall>s \<in> set ts. trim s \<noteq> []"
    and "normalizeParties (Q_Arr (map Q_Str ss)) = Inr ps" "normalizeParties (Q_Arr (map Q_Str ts)) = Inr qs"
  shows "cacheKey scope ps = cacheKey scope' qs \<longleftrightarrow> scope = scope' \<and> set ss = set ts"
  using assms by (rule same_key_iff)

theorem cache_keys_separate_witness:
  "normalizeParties (Q_Arr [Q_Str ''bob'', Q_Str ''alice'']) = Inr (Some [''alice'', ''bob''])
   \<and> cacheKey ''ep'' (Some [''alice'', ''bob'']) \<noteq> cacheKey ''ep'' (Some [''alice''])"
proof -
  have trim: "trim ''alice'' \<noteq> []" "trim ''bob'' \<noteq> []" by code_simp+
  have n: "normalizeParties (Q_Arr (map Q_Str [''bob'', ''alice''])) = Inr (Some [''alice'', ''bob''])"
    "normalizeParties (Q_Arr (map Q_Str [''alice''])) = Inr (Some [''alice''])" by code_simp+
  from cache_keys_separate [OF _ _ _ _ n, of "''ep''" "''ep''"] n trim show ?thesis by simp
qed

text \<open>
  C16: At any time at most one population runs, or waits for its reaction, under a key; the entry of the
  key is its promise, so that the reaction always clears its own entry. A call during that time returns
  that promise and starts nothing; any other call starts exactly one population with a fresh promise.
\<close>

theorem one_population_per_key:
  assumes "flight_reachable st"
  shows "(\<forall>p q ph ph'. fl_populations st p = Some (ph, key) \<longrightarrow> fl_populations st q = Some (ph', key) \<longrightarrow> p = q)
    \<and> (case fl_inflight st key of
         Some p \<Rightarrow> enter_flight key st = (p, st) \<and> (\<exists>ph. fl_populations st p = Some (ph, key))
       | None \<Rightarrow> (\<forall>p ph. fl_populations st p \<noteq> Some (ph, key))
           \<and> fl_populations (snd (enter_flight key st))
             = (fl_populations st)(fst (enter_flight key st) \<mapsto> (Running, key))
           \<and> fl_populations st (fst (enter_flight key st)) = None)"
  using one_population [OF assms] call_outcome [OF assms] by blast

theorem one_population_per_key_witness:
  "flight_reachable (snd (enter_flight ''k'' no_flights))
   \<and> enter_flight ''k'' (snd (enter_flight ''k'' no_flights)) = (0, snd (enter_flight ''k'' no_flights))"
proof -
  have "flight_reachable (snd (enter_flight ''k'' no_flights))"
    unfolding flight_reachable_def by (rule r_into_rtranclp) (rule call)
  with one_population_per_key [OF this, of "''k''"] show ?thesis
    by (simp add: enter_flight_def no_flights_def)
qed



section \<open>Queries\<close>

text \<open>
  C3: Following an edge is a join. In a data set that \<^verbatim>\<open>createQueryDataset\<close> accepts, for a
  complete edge whose key values are texts or null on both sides, \<^verbatim>\<open>relatedQueryRows\<close> gives exactly
  the rows of the target relation whose key values equal those of the source row, in the order of that
  relation, and none when a key value of the source is null. This is what the index by composite JSON keys
  must compute: no two different lists of key values share a key, and no row is lost or repeated.
\<close>

theorem related_rows_are_the_join:
  assumes "createQueryDataset input = Inr dataset"
    and "map_of (queryRelationEdges relation) edge = Some definition"
    and "map_of (cd_edges dataset relation) edge = Some lookup" "el_complete lookup \<noteq> Q_Bool False"
    and "i < length (cd_rows dataset relation)"
    and "source_values lookup (cd_rows dataset relation) i = Inr vs" "list_all text_or_null vs"
    and "\<forall>j < length (cd_rows dataset (ed_target definition)).
      \<exists>ws. target_values lookup (cd_rows dataset (ed_target definition)) j = Inr ws \<and> list_all text_or_null ws"
  shows "relatedQueryRows dataset relation i edge =
    Inr (if list_ex q_nullish vs then []
      else filter (\<lambda>j. target_values lookup (cd_rows dataset (ed_target definition)) j = Inr vs)
        [0..<length (cd_rows dataset (ed_target definition))])"
  using assms by (rule related_is_join)

theorem related_rows_are_the_join_witness:
  "relatedQueryRows demo_compiled Contracts 1 ''createdTransaction'' = Inr [0]"
proof -
  have target: "target_values (demo_lookup Contracts ''createdTransaction'') (cd_rows demo_compiled Transactions) 0
    = Inr [Q_Str ''1'']" by code_simp
  have "relatedQueryRows demo_compiled Contracts 1 ''createdTransaction'' =
    Inr (if list_ex q_nullish [Q_Str ''1''] then []
      else filter (\<lambda>j. target_values (demo_lookup Contracts ''createdTransaction'')
          (cd_rows demo_compiled (ed_target (one_edge Transactions False))) j = Inr [Q_Str ''1''])
        [0..<length (cd_rows demo_compiled (ed_target (one_edge Transactions False)))])"
  proof (rule related_rows_are_the_join [OF demo_compiles _ demo_edge(2)])
    show "source_values (demo_lookup Contracts ''createdTransaction'') (cd_rows demo_compiled Contracts) 1
      = Inr [Q_Str ''1'']" by code_simp
    show "map_of (queryRelationEdges Contracts) ''createdTransaction'' = Some (one_edge Transactions False)"
      by code_simp
    show "el_complete (demo_lookup Contracts ''createdTransaction'') \<noteq> Q_Bool False" by code_simp
    show "list_all text_or_null [Q_Str ''1'']" by (simp add: text_or_null_def)
    show "1 < length (cd_rows demo_compiled Contracts)" by (simp add: demo_edge)
    show "\<forall>j < length (cd_rows demo_compiled (ed_target (one_edge Transactions False))).
      \<exists>ws. target_values (demo_lookup Contracts ''createdTransaction'')
        (cd_rows demo_compiled (ed_target (one_edge Transactions False))) j = Inr ws \<and> list_all text_or_null ws"
      using target by (auto simp: demo_edge text_or_null_def)
  qed
  then show ?thesis by (simp add: demo_edge target q_nullish_def)
qed

text \<open>
  C20: An edge to one row leads to one row. In a data set that \<^verbatim>\<open>createQueryDataset\<close> accepts, a
  complete edge that the schema declares to-one and not nullable gives exactly one row of the target
  relation for every row, so that a predicate over it and an include of it are never about a missing or an
  arbitrary row.
\<close>

theorem to_one_edges_lead_to_one_row:
  assumes "createQueryDataset input = Inr dataset"
    and "map_of (queryRelationEdges relation) edge = Some definition" "ed_cardinality definition = To_One"
      "\<not> ed_nullable definition"
    and "map_of (cd_edges dataset relation) edge = Some lookup" "el_complete lookup \<noteq> Q_Bool False"
    and "i < length (cd_rows dataset relation)"
  shows "\<exists>j < length (cd_rows dataset (ed_target definition)). relatedQueryRows dataset relation i edge = Inr [j]"
  using assms by (rule to_one_total)

theorem to_one_edges_lead_to_one_row_witness:
  "\<exists>j < length (cd_rows demo_compiled Contract_Types). relatedQueryRows demo_compiled Contracts 1 ''contractType'' = Inr [j]"
proof -
  have "map_of (queryRelationEdges Contracts) ''contractType'' = Some (one_edge Contract_Types False)"
    "el_complete (demo_lookup Contracts ''contractType'') \<noteq> Q_Bool False" by code_simp+
  from to_one_edges_lead_to_one_row [OF demo_compiles this(1) _ _ demo_edge(1) this(2), of 1] show ?thesis
    by (simp add: demo_edge)
qed

text \<open>
  C11: A pattern means what SQL's \<open>LIKE\<close> means. \<^verbatim>\<open>sqlLike\<close> holds exactly when the text can be cut into
  consecutive pieces, one for each part of the pattern, such that \<open>%\<close> takes any piece, \<open>_\<close> any one
  character, and every other character, and every character after a backslash, itself (or the same letter
  in another case, when the comparison is insensitive).
\<close>

theorem sql_like_is_the_pattern:
  "sqlLike s pattern insensitive \<longleftrightarrow>
   (\<exists>pieces. concat pieces = s \<and> list_all2 (part_accepts insensitive) (pattern_parts pattern) pieces)"
  by (simp add: sqlLike_def like_test_cuts cut_into_def like_tokens_parts list_all2_map1 part_token_accepts)



text \<open>
  C18: The order of a result is an order of its rows. When every order column holds, on the rows at hand,
  values of one kind (dates, integers, or texts that are not integers) or null, and the order keys tell
  the rows apart, ordering them succeeds and gives a permutation of them that depends only on which rows
  there are, not on the order in which the data set lists them.
\<close>

theorem order_is_independent_of_row_order:
  assumes "uniform_orders h orders (rows_among dataset relation rows)"
    and "told_apart h orders dataset relation rows" "mset rows' = mset rows"
  shows "\<exists>ordered. order_rows h dataset relation orders rows = Inr ordered
    \<and> order_rows h dataset relation orders rows' = Inr ordered \<and> mset ordered = mset rows
    \<and> sorted_wrt (\<lambda>i j. amount (key_compare h orders (row_at dataset relation i) (row_at dataset relation j)) \<le> 0) ordered"
  using order_rows_unique [OF assms(1,2) assms(3) [symmetric]] order_rows_sorted [OF assms(1)] by metis

theorem order_is_independent_of_row_order_witness:
  "order_rows demo_host demo_compiled Contracts demo_order [1, 0] = Inr [1, 0]
   \<and> order_rows demo_host demo_compiled Contracts demo_order [0, 1] = Inr [1, 0]"
proof -
  have first: "order_rows demo_host demo_compiled Contracts demo_order [0, 1] = Inr [1, 0]" by code_simp
  with order_is_independent_of_row_order [OF demo_orders, of "[1, 0]"] show ?thesis by auto
qed



text \<open>
  C4: The active-only scan loses no contract of the ledger. Take the rows that the relation mapper makes of
  any history and active contract set it accepts, and the data set built of them with any package
  metadata it accepts. A query on contracts whose predicate the normalizer takes as a proof that only
  active contracts match gives the same rows with and without the active-only hint, because the mapper
  archives a contract by setting its archive offset, its archive time and its active flag together.
\<close>

theorem ledger_query_keeps_active_hint:
  assumes "mapGrpcQueryRelationFragment le source acs = Inr fragment"
    and "createGrpcQueryDataset le fragment packages endInclusive instanceId = Inr dataset"
    and "normalizeFindMany h Contracts args = Inr q"
    and "findMany h dataset (q\<lparr>fm_activeOnly := False\<rparr>) = Inr rows"
  shows "findMany h dataset q = Inr rows"
  using active_only_keeps_rows [OF assms(3) _ assms(4)] grpc_rows_active [OF assms(1,2)] by blast

theorem ledger_query_keeps_active_hint_witness:
  "\<exists>row. findMany demo_host demo_ledger_dataset demo_query = Inr [row] \<and> fm_activeOnly demo_query"
proof -
  have found: "case findMany demo_host demo_ledger_dataset (demo_query\<lparr>fm_activeOnly := False\<rparr>) of
      Inr [row] \<Rightarrow> True | _ \<Rightarrow> False" "fm_activeOnly demo_query" by code_simp+
  then obtain row where "findMany demo_host demo_ledger_dataset (demo_query\<lparr>fm_activeOnly := False\<rparr>) = Inr [row]"
    by (auto split: sum.splits list.splits)
  from ledger_query_keeps_active_hint [OF demo_maps demo_ledger_compiles demo_normalizes this] found(2)
  show ?thesis by blast
qed

text \<open>
  C12: Package metadata derived from events is accepted as it is. When the relation mapper accepts a history
  and its package names are printable texts without colon, the metadata that
  \<^verbatim>\<open>packageMetadataFromEvents\<close> derives from the fragment passes every check of
  \<^verbatim>\<open>normalizeGrpcPackageMetadata\<close> (identifiers, duplicates of packages, templates and choices, exact
  aliases and qualified names) and is returned unchanged.
\<close>

theorem derived_metadata_is_accepted:
  assumes "mapGrpcQueryRelationFragment le source acs = Inr fragment"
    and "\<forall>n \<in> reported_names fragment. name_text n"
    and "packageMetadataFromEvents le' fragment = Inr (Some ms)"
  shows "normalizeGrpcPackageMetadata (Q_Arr (map package_value ms)) = Inr ms"
  by (rule normalize_exact [OF derived_metadata_exact [OF assms]])

theorem derived_metadata_is_accepted_witness:
  "normalizeGrpcPackageMetadata (Q_Arr (map package_value demo_metadata)) = Inr demo_metadata
   \<and> map pm_id demo_metadata = [''p'']"
proof -
  have "list_all (name_text \<circ> ci_packageName) (rf_creationIdentities demo_fragment) \<and>
    list_all (\<lambda>i. case ty_packageName i of None \<Rightarrow> True | Some n \<Rightarrow> name_text n) (rf_typeIdentities demo_fragment)"
    by code_simp
  then have "\<forall>n \<in> reported_names demo_fragment. name_text n"
    by (fastforce simp: reported_names_def list_all_iff split: option.splits)
  from derived_metadata_is_accepted [OF demo_maps this demo_derives] show ?thesis
    by (intro conjI) (assumption, code_simp)
qed

end
